(* ===== verification/Prelude.thy ===== *)
theory Prelude
  imports Main
begin

text \<open>
  Shared vocabulary of the development.

  \<^item> A service operation that can raise is a function into \<open>'e + 'a\<close>: \<open>Inl\<close> is the raised
    exception, \<open>Inr\<close> the returned value. \<open>bindE\<close> runs the next statement only when the
    previous one returned; \<open>guardE\<close> is the \<open>if ...: raise\<close> statement.
  \<^item> Operations on the database take the database and return the new one inside the
    result. A raised exception carries no database: every entry point of the program
    rolls its transaction back when an exception escapes (\<open>get_db\<close> in
    \<open>app/core/database.py\<close>, the \<open>except\<close> blocks of the queue jobs).
  \<^item> \<open>py_or\<close> is Python's \<open>x or y\<close> on an optional integer.

  The lemma collections \<open>result_simps\<close> and \<open>frame\<close> gather the facts that the component
  proofs use: how a result with an exception or a value decomposes, and which tables
  an operation leaves alone.
\<close>

named_theorems result_simps "decomposition of results"
named_theorems frame "tables an operation does not change"

section \<open>Results\<close>

definition bindE :: "'e + 'a \<Rightarrow> ('a \<Rightarrow> 'e + 'b) \<Rightarrow> 'e + 'b" where
  "bindE r f = (case r of Inl e \<Rightarrow> Inl e | Inr x \<Rightarrow> f x)"

definition guardE :: "bool \<Rightarrow> 'e \<Rightarrow> 'e + 'a \<Rightarrow> 'e + 'a" where
  "guardE bad e k = (if bad then Inl e else k)"

definition is_ok :: "'e + 'a \<Rightarrow> bool" where
  "is_ok r = (case r of Inl _ \<Rightarrow> False | Inr _ \<Rightarrow> True)"

lemma bindE_simps [simp]:
  "bindE (Inl e) f = Inl e"
  "bindE (Inr x) f = f x"
  by (simp_all add: bindE_def)

lemma guardE_simps [simp]:
  "guardE True e k = Inl e"
  "guardE False e k = k"
  by (simp_all add: guardE_def)

lemma is_ok_simps [simp]:
  "is_ok (Inl e) = False"
  "is_ok (Inr x) = True"
  by (simp_all add: is_ok_def)

lemma bindE_eq_Inr [result_simps]:
  "bindE r f = Inr y \<longleftrightarrow> (\<exists>x. r = Inr x \<and> f x = Inr y)"
  by (cases r) auto

lemma bindE_eq_Inl [result_simps]:
  "bindE r f = Inl e \<longleftrightarrow> r = Inl e \<or> (\<exists>x. r = Inr x \<and> f x = Inl e)"
  by (cases r) auto

lemma guardE_eq_Inr [result_simps]:
  "guardE b e k = Inr y \<longleftrightarrow> \<not> b \<and> k = Inr y"
  by (auto simp: guardE_def)

lemma guardE_eq_Inl [result_simps]:
  "guardE b e k = Inl e' \<longleftrightarrow> b \<and> e = e' \<or> \<not> b \<and> k = Inl e'"
  by (auto simp: guardE_def)

lemma bindE_cong [fundef_cong]:
  "r = r' \<Longrightarrow> (\<And>x. r' = Inr x \<Longrightarrow> f x = g x) \<Longrightarrow> bindE r f = bindE r' g"
  by (cases r') auto

lemma bindE_assoc: "bindE (bindE r f) g = bindE r (\<lambda>x. bindE (f x) g)"
  by (cases r) auto

lemma is_okE: "is_ok r \<Longrightarrow> (\<And>x. r = Inr x \<Longrightarrow> P) \<Longrightarrow> P"
  by (cases r) auto

text \<open>A loop over a list whose body threads a state and may raise.\<close>

fun foldE :: "('a \<Rightarrow> 's \<Rightarrow> 'e + 's) \<Rightarrow> 'a list \<Rightarrow> 's \<Rightarrow> 'e + 's" where
  "foldE f [] s = Inr s"
| "foldE f (x # xs) s = bindE (f x s) (foldE f xs)"

lemma foldE_invariant:
  assumes "foldE f xs s = Inr t" and "P s"
    and "\<And>x s t. x \<in> set xs \<Longrightarrow> P s \<Longrightarrow> f x s = Inr t \<Longrightarrow> P t"
  shows "P t"
  using assms
proof (induction xs arbitrary: s)
  case Nil
  then show ?case by simp
next
  case (Cons x xs)
  then obtain u where u: "f x s = Inr u" "foldE f xs u = Inr t"
    by (auto simp: result_simps)
  with Cons.prems have "P u" by (meson list.set_intros(1))
  with u(2) Cons.IH Cons.prems(3) show ?case by (meson list.set_intros(2))
qed

lemma foldE_append: "foldE f (xs @ ys) s = bindE (foldE f xs s) (foldE f ys)"
proof (induction xs arbitrary: s)
  case (Cons x xs)
  then show ?case by (cases "f x s") auto
qed simp

text \<open>A comprehension whose element expression may raise.\<close>

fun mapE :: "('a \<Rightarrow> 'e + 'b) \<Rightarrow> 'a list \<Rightarrow> 'e + 'b list" where
  "mapE f [] = Inr []"
| "mapE f (x # xs) = bindE (f x) (\<lambda>y. bindE (mapE f xs) (\<lambda>ys. Inr (y # ys)))"

text \<open>A bounded retry: the first candidate that is not taken, an exception when all are.\<close>

fun first_free :: "'e \<Rightarrow> ('a \<Rightarrow> 'e + bool) \<Rightarrow> 'a list \<Rightarrow> 'e + 'a" where
  "first_free e taken [] = Inl e"
| "first_free e taken (c # cs) = bindE (taken c) (\<lambda>b. if b then first_free e taken cs else Inr c)"

lemma first_free_not_taken: "first_free e taken cs = Inr c \<Longrightarrow> c \<in> set cs \<and> taken c = Inr False"
  by (induction cs) (auto simp: result_simps split: if_splits)

lemma first_free_some:
  "(\<And>c. c \<in> set cs \<Longrightarrow> taken c = Inr (Q c)) \<Longrightarrow> \<exists>c\<in>set cs. \<not> Q c \<Longrightarrow> \<exists>c. first_free e taken cs = Inr c"
  by (induction cs) auto

section \<open>Python idioms on optional values\<close>

definition py_or :: "int option \<Rightarrow> int option \<Rightarrow> int option" where
  "py_or a b = (case a of None \<Rightarrow> b | Some x \<Rightarrow> if x = 0 then b else Some x)"

definition or_zero :: "int option \<Rightarrow> int" where
  "or_zero a = (case a of None \<Rightarrow> 0 | Some x \<Rightarrow> x)"

definition truthy :: "int option \<Rightarrow> bool" where
  "truthy a = (case a of None \<Rightarrow> False | Some x \<Rightarrow> x \<noteq> 0)"

text \<open>A field of an update request: \<open>None\<close> when the request left it unset.\<close>

definition set_if :: "'a option \<Rightarrow> 'a \<Rightarrow> 'a" where
  "set_if new old = (case new of None \<Rightarrow> old | Some x \<Rightarrow> x)"

text \<open>The value of a nullable request field, when it was set and not null; and whether it was an
  explicit null.\<close>

definition given :: "'a option option \<Rightarrow> 'a option" where
  "given x = (case x of None \<Rightarrow> None | Some y \<Rightarrow> y)"

definition explicit_null :: "'a option option \<Rightarrow> bool" where
  "explicit_null x = (case x of Some None \<Rightarrow> True | _ \<Rightarrow> False)"

lemma given_simps [simp]: "given None = None" "given (Some y) = y"
  by (simp_all add: given_def)

lemma explicit_null_simps [simp]:
  "\<not> explicit_null None" "explicit_null (Some None)" "\<not> explicit_null (Some (Some x))"
  by (simp_all add: explicit_null_def)

lemma py_or_simps [simp]:
  "py_or None b = b" "py_or (Some 0) b = b" "x \<noteq> 0 \<Longrightarrow> py_or (Some x) b = Some x"
  by (simp_all add: py_or_def)

lemma or_zero_simps [simp]: "or_zero None = 0" "or_zero (Some x) = x"
  by (simp_all add: or_zero_def)

lemma truthy_simps [simp]: "\<not> truthy None" "truthy (Some x) \<longleftrightarrow> x \<noteq> 0"
  by (simp_all add: truthy_def)

lemma set_if_simps [simp]: "set_if None y = y" "set_if (Some x) y = x"
  by (simp_all add: set_if_def)

section \<open>Lists as query results\<close>

text \<open>\<open>count_where\<close> is SQL's \<open>SELECT count(*) ... WHERE\<close>, \<open>sum_where\<close> its
  \<open>coalesce(sum(..), 0)\<close>.\<close>

definition count_where :: "('r \<Rightarrow> bool) \<Rightarrow> 'r list \<Rightarrow> int" where
  "count_where P rs = int (length (filter P rs))"

definition sum_where :: "('r \<Rightarrow> bool) \<Rightarrow> ('r \<Rightarrow> int) \<Rightarrow> 'r list \<Rightarrow> int" where
  "sum_where P f rs = sum_list (map f (filter P rs))"

definition paginate :: "int \<Rightarrow> int \<Rightarrow> 'r list \<Rightarrow> 'r list" where
  "paginate offset limit rs = take (nat limit) (drop (nat offset) rs)"

lemma count_where_simps [simp]:
  "count_where P [] = 0"
  "count_where P (r # rs) = (if P r then 1 else 0) + count_where P rs"
  "count_where P (rs @ qs) = count_where P rs + count_where P qs"
  by (simp_all add: count_where_def)

lemma count_where_nonneg [simp]: "0 \<le> count_where P rs"
  by (simp add: count_where_def)

lemma count_where_zero: "count_where P rs = 0 \<longleftrightarrow> (\<forall>r\<in>set rs. \<not> P r)"
  by (auto simp: count_where_def filter_empty_conv)

lemma count_where_pos: "0 < count_where P rs \<longleftrightarrow> (\<exists>r\<in>set rs. P r)"
  using count_where_zero [of P rs] count_where_nonneg [of P rs] by (auto simp: order_less_le)

lemma count_where_mono: "(\<And>r. r \<in> set rs \<Longrightarrow> P r \<Longrightarrow> Q r) \<Longrightarrow> count_where P rs \<le> count_where Q rs"
  by (induction rs) auto

lemma count_where_cong:
  "(\<And>r. r \<in> set rs \<Longrightarrow> P r = Q r) \<Longrightarrow> count_where P rs = count_where Q rs"
  by (induction rs) auto

lemma count_where_map: "count_where P (map f rs) = count_where (\<lambda>r. P (f r)) rs"
  by (induction rs) auto

lemma sum_where_simps [simp]:
  "sum_where P f [] = 0"
  "sum_where P f (r # rs) = (if P r then f r else 0) + sum_where P f rs"
  "sum_where P f (rs @ qs) = sum_where P f rs + sum_where P f qs"
  by (simp_all add: sum_where_def)

lemma sum_where_map: "sum_where P f (map g rs) = sum_where (\<lambda>r. P (g r)) (\<lambda>r. f (g r)) rs"
  by (induction rs) auto

lemma sum_where_cong:
  "(\<And>r. r \<in> set rs \<Longrightarrow> P r = Q r \<and> f r = g r) \<Longrightarrow> sum_where P f rs = sum_where Q g rs"
  by (induction rs) auto

lemma sum_where_nonneg: "(\<And>r. r \<in> set rs \<Longrightarrow> P r \<Longrightarrow> 0 \<le> f r) \<Longrightarrow> 0 \<le> sum_where P f rs"
  by (induction rs) auto

lemma sum_where_False [simp]: "sum_where (\<lambda>r. False) f rs = 0"
  by (induction rs) auto

lemma find_Some_set: "find P xs = Some x \<Longrightarrow> x \<in> set xs \<and> P x"
  by (auto simp: find_Some_iff)

lemma find_map_cong:
  "(\<And>x. x \<in> set xs \<Longrightarrow> P (f x) = P x) \<Longrightarrow> find P (map f xs) = map_option f (find P xs)"
  by (induction xs) auto

lemma find_append: "find P (xs @ ys) = (case find P xs of None \<Rightarrow> find P ys | Some x \<Rightarrow> Some x)"
  by (induction xs) auto

lemma find_cong_pred: "(\<And>x. x \<in> set xs \<Longrightarrow> P x = Q x) \<Longrightarrow> find P xs = find Q xs"
  by (induction xs) auto

text \<open>\<open>scalar_one_or_none\<close>: \<open>None\<close> for no row, the row for one; SQLAlchemy raises for more.\<close>

definition scalar_one_or_none :: "'e \<Rightarrow> 'r list \<Rightarrow> 'e + 'r option" where
  "scalar_one_or_none multiple rs =
     (case rs of [] \<Rightarrow> Inr None | [r] \<Rightarrow> Inr (Some r) | _ \<Rightarrow> Inl multiple)"

lemma scalar_one_or_none_simps [simp]:
  "scalar_one_or_none e [] = Inr None"
  "scalar_one_or_none e [r] = Inr (Some r)"
  "scalar_one_or_none e (r # q # rs) = Inl e"
  by (simp_all add: scalar_one_or_none_def)

lemma scalar_one_or_none_eq [result_simps]:
  "scalar_one_or_none e rs = Inr v \<longleftrightarrow> (case v of None \<Rightarrow> rs = [] | Some r \<Rightarrow> rs = [r])"
  by (auto simp: scalar_one_or_none_def split: list.splits option.splits)

end
