(* ===== verification/Doubles.thy ===== *)
theory Doubles
  imports Prelude Complex_Main "HOL-Library.Log_Nat"
begin

text \<open>
  Python's \<open>float\<close>. The services compute percentages through true division of integers and
  floating-point products (\<open>int(amount * (coupon.value / 100))\<close>), so the model keeps IEEE 754
  binary64 arithmetic: a double is a mantissa and a binary exponent, every operation is the exact
  rational result rounded to 53 significant bits, ties to even. Infinities, NaN and
  subnormal numbers are not represented: the amounts come from 32-bit and 64-bit columns.

  The lemmas give the error bound of a rounding (\<open>round_q_error\<close>), its exactness on
  integers (\<open>round_q_exact\<close>) and the two facts the money computations need: truncating
  \<open>n / 100\<close> is integer division (\<open>trunc_percent\<close>), and a two-step percentage is off by at most
  one cent, only where the exact value is a whole number of cents (\<open>trunc_two_step\<close>).
\<close>

datatype double = Dbl (mant: int) (expo: int)

text \<open>A float that may be infinite (the sign of an infinity is dropped) or NaN.\<close>

datatype pyfloat = PFloat double | PInf | PNan

definition dval :: "double \<Rightarrow> real" where
  "dval d = of_int (mant d) * 2 powi expo d"

definition round_half_even :: "int \<Rightarrow> int \<Rightarrow> int" where
  "round_half_even n d = (let f = n div d; r = n mod d in
     if 2 * r < d then f else if d < 2 * r then f + 1 else if even f then f else f + 1)"

definition scaled_num :: "int \<Rightarrow> int \<Rightarrow> int" where
  "scaled_num p s = p * 2 ^ nat s"

definition scaled_den :: "int \<Rightarrow> int \<Rightarrow> int" where
  "scaled_den q s = q * 2 ^ nat (- s)"

definition shift_for :: "int \<Rightarrow> int \<Rightarrow> int" where
  "shift_for a q = (let s = 53 - (bitlen a - bitlen q) in
     if scaled_num a s div scaled_den q s < 2 ^ 53 then s else s - 1)"

text \<open>\<open>round_q p q\<close>: the double nearest to the rational \<open>p / q\<close>, for \<open>q > 0\<close>.\<close>

definition round_q :: "int \<Rightarrow> int \<Rightarrow> double" where
  "round_q p q = (let a = \<bar>p\<bar> in
     if a = 0 then Dbl 0 0
     else let s = shift_for a q in
       Dbl (sgn p * round_half_even (scaled_num a s) (scaled_den q s)) (- s))"

text \<open>\<open>n / d\<close> on Python integers (\<open>d > 0\<close>), \<open>float(n)\<close>, product, division of a float by an
  integer, and \<open>int(x)\<close>, which truncates towards zero.\<close>

definition true_div :: "int \<Rightarrow> int \<Rightarrow> double" where
  "true_div n d = round_q n d"

text \<open>The conversion of an integer. Python raises \<open>OverflowError\<close> beyond \<open>2 ^ 1024\<close>; the integers that the code converts come
  from columns of at most 64 bit.\<close>

definition of_int_double :: "int \<Rightarrow> double" where
  "of_int_double n = round_q n 1"

definition mul_double :: "double \<Rightarrow> double \<Rightarrow> double" where
  "mul_double x y = (let e = expo x + expo y; m = mant x * mant y in
     round_q (scaled_num m e) (scaled_den 1 e))"

definition div_double_int :: "double \<Rightarrow> int \<Rightarrow> double" where
  "div_double_int x n = round_q (scaled_num (mant x) (expo x)) (scaled_den n (expo x))"

definition trunc_double :: "double \<Rightarrow> int" where
  "trunc_double x = sgn (mant x) * (scaled_num \<bar>mant x\<bar> (expo x) div scaled_den 1 (expo x))"

section \<open>Rounding\<close>

lemma round_half_even_error:
  assumes "0 < d"
  shows "\<bar>real_of_int n / real_of_int d - real_of_int (round_half_even n d)\<bar> \<le> 1 / 2"
proof -
  define f r where "f = n div d" and "r = n mod d"
  have n: "n = d * f + r" by (simp add: f_def r_def)
  have r: "0 \<le> r" "r < d" using assms by (simp_all add: r_def)
  have q: "real_of_int n / real_of_int d = f + real_of_int r / real_of_int d"
    using assms by (simp add: n field_simps)
  have "\<bar>real_of_int r / real_of_int d - real_of_int (round_half_even n d - f)\<bar> \<le> 1 / 2"
    using assms r unfolding round_half_even_def f_def [symmetric] r_def [symmetric] Let_def
    by (auto simp: field_simps abs_le_iff)
  then show ?thesis unfolding q by (simp add: diff_diff_eq2 add.commute add_diff_eq)
qed

lemma round_half_even_dvd: "0 < d \<Longrightarrow> d dvd n \<Longrightarrow> round_half_even n d = n div d"
  by (simp add: round_half_even_def Let_def)

lemma round_half_even_nonneg: "0 < d \<Longrightarrow> 0 \<le> n \<Longrightarrow> 0 \<le> round_half_even n d"
  by (auto simp: round_half_even_def Let_def pos_imp_zdiv_nonneg_iff)

lemma powi_split: "(2::real) powi s = 2 ^ nat s / 2 ^ nat (- s)"
  by (cases "0 \<le> s") (simp_all add: power_int_def field_simps)

lemma scaled_quotient:
  "real_of_int (scaled_num p s) / real_of_int (scaled_den q s) = real_of_int p / real_of_int q * 2 powi s"
  by (simp add: scaled_num_def scaled_den_def powi_split)

lemma scaled_den_pos: "0 < q \<Longrightarrow> 0 < scaled_den q s"
  by (simp add: scaled_den_def)

lemma bitlen_real:
  assumes "0 < (x::int)"
  shows "2 powi (bitlen x - 1) \<le> real_of_int x" and "real_of_int x < 2 powi bitlen x"
proof -
  have b: "1 \<le> bitlen x" using assms bitlen_eq_zero_iff [of x] bitlen_nonneg [of x] by linarith
  have "(2::int) ^ nat (bitlen x - 1) \<le> x" "x < 2 ^ nat (bitlen x)"
    using bitlen_bounds [OF assms] by auto
  then have "real_of_int (2 ^ nat (bitlen x - 1)) \<le> real_of_int x"
    and "real_of_int x < real_of_int (2 ^ nat (bitlen x))"
    by (simp_all only: of_int_le_iff of_int_less_iff)
  then show "2 powi (bitlen x - 1) \<le> real_of_int x" and "real_of_int x < 2 powi bitlen x"
    using b by (simp_all add: power_int_def)
qed

lemma quotient_range:
  assumes "0 < a" and "0 < q"
  shows "2 powi (bitlen a - bitlen q - 1) < real_of_int a / real_of_int q"
    and "real_of_int a / real_of_int q < 2 powi (bitlen a - bitlen q + 1)"
proof -
  note A = bitlen_real [OF assms(1)] and Q = bitlen_real [OF assms(2)]
  have q: "0 < real_of_int q" and a: "0 < real_of_int a" using assms by simp_all
  have e1: "(2::real) powi (bitlen a - bitlen q - 1) * 2 powi bitlen q = 2 powi (bitlen a - 1)"
    by (simp add: power_int_add [symmetric] algebra_simps)
  have e2: "(2::real) powi (bitlen a - bitlen q + 1) * 2 powi (bitlen q - 1) = 2 powi bitlen a"
    by (simp add: power_int_add [symmetric] algebra_simps)
  have "2 powi (bitlen a - bitlen q - 1) * real_of_int q
        < 2 powi (bitlen a - bitlen q - 1) * 2 powi bitlen q"
    using Q(2) by (intro mult_strict_left_mono) simp_all
  also have "\<dots> \<le> real_of_int a" using A(1) e1 by simp
  finally show "2 powi (bitlen a - bitlen q - 1) < real_of_int a / real_of_int q"
    using q by (simp add: pos_less_divide_eq)
  have "real_of_int a < 2 powi (bitlen a - bitlen q + 1) * 2 powi (bitlen q - 1)"
    using A(2) e2 by simp
  also have "\<dots> \<le> 2 powi (bitlen a - bitlen q + 1) * real_of_int q"
    using Q(1) by (intro mult_left_mono) simp_all
  finally show "real_of_int a / real_of_int q < 2 powi (bitlen a - bitlen q + 1)"
    using q by (simp add: pos_divide_less_eq)
qed

text \<open>The shift brings the quotient to at least \<open>2 ^ 52\<close>, so the rounded mantissa has 53 bits.\<close>

lemma shift_for_lower:
  assumes "0 < a" and "0 < q"
  shows "2 ^ 52 \<le> real_of_int a / real_of_int q * 2 powi shift_for a q"
proof -
  define s where "s = 53 - (bitlen a - bitlen q)"
  define x where "x = real_of_int a / real_of_int q"
  have low: "2 powi (bitlen a - bitlen q - 1) < x"
    using quotient_range(1) [OF assms] by (simp add: x_def)
  have "(2::real) ^ 52 = 2 powi (bitlen a - bitlen q - 1) * 2 powi s"
    by (simp add: power_int_add [symmetric] s_def)
  also have "\<dots> \<le> x * 2 powi s" using low by (intro mult_right_mono) simp_all
  finally have one: "2 ^ 52 \<le> x * 2 powi s" .
  show ?thesis
  proof (cases "scaled_num a s div scaled_den q s < 2 ^ 53")
    case True
    then show ?thesis using one by (simp add: shift_for_def Let_def s_def x_def)
  next
    case False
    have den: "0 < scaled_den q s" using assms scaled_den_pos by simp
    from False have "2 ^ 53 * scaled_den q s \<le> scaled_num a s"
    proof -
      have "2 ^ 53 * scaled_den q s \<le> scaled_num a s div scaled_den q s * scaled_den q s"
        using False den by (intro mult_right_mono) simp_all
      also have "\<dots> \<le> scaled_num a s"
        using pos_mod_sign [OF den, of "scaled_num a s"] div_mult_mod_eq [of "scaled_num a s" "scaled_den q s"]
        by linarith
      finally show ?thesis .
    qed
    then have "real_of_int (2 ^ 53 * scaled_den q s) \<le> real_of_int (scaled_num a s)"
      by (simp only: of_int_le_iff)
    then have "2 ^ 53 \<le> x * 2 powi s"
    proof -
      have "x * 2 powi s = real_of_int (scaled_num a s) / real_of_int (scaled_den q s)"
        by (simp only: x_def scaled_quotient)
      then show ?thesis using den \<open>real_of_int (2 ^ 53 * scaled_den q s) \<le> real_of_int (scaled_num a s)\<close>
        by (simp add: pos_le_divide_eq)
    qed
    moreover have "(2::real) powi s = 2 powi (s - 1) * 2"
      using power_int_add [of "2::real" "s - 1" 1] by simp
    ultimately have "2 ^ 53 \<le> (x * 2 powi (s - 1)) * 2" by (simp only: mult.assoc)
    then have "2 ^ 52 \<le> x * 2 powi (s - 1)" by simp
    then show ?thesis using False by (simp add: shift_for_def Let_def s_def x_def)
  qed
qed

lemma round_q_error_pos:
  assumes "0 < a" and "0 < q"
  shows "\<bar>dval (round_q a q) - real_of_int a / real_of_int q\<bar> \<le> real_of_int a / real_of_int q / 2 ^ 53"
proof -
  define s where "s = shift_for a q"
  define x where "x = real_of_int a / real_of_int q"
  define m where "m = round_half_even (scaled_num a s) (scaled_den q s)"
  have v: "dval (round_q a q) = of_int m * 2 powi (- s)"
    using assms by (simp add: round_q_def dval_def m_def s_def Let_def)
  have err: "\<bar>x * 2 powi s - of_int m\<bar> \<le> 1 / 2"
    using round_half_even_error [OF scaled_den_pos [OF assms(2)], of "scaled_num a s" s]
    by (simp add: m_def x_def scaled_quotient)
  have low: "2 ^ 52 \<le> x * 2 powi s"
    using shift_for_lower [OF assms] by (simp add: x_def s_def)
  have inv: "(2::real) powi s * 2 powi (- s) = 1" by (simp add: power_int_minus)
  have "\<bar>dval (round_q a q) - x\<bar> = \<bar>x * 2 powi s - of_int m\<bar> * 2 powi (- s)"
  proof -
    have "dval (round_q a q) - x = (of_int m - x * 2 powi s) * 2 powi (- s)"
      using inv by (simp add: v algebra_simps)
    then show ?thesis by (simp add: abs_mult abs_minus_commute)
  qed
  also have "\<dots> \<le> 1 / 2 * 2 powi (- s)" using err by (intro mult_right_mono) simp_all
  also have "\<dots> \<le> (x * 2 powi s) / 2 ^ 53 * 2 powi (- s)"
    using low by (intro mult_right_mono) simp_all
  also have "\<dots> = x / 2 ^ 53" using inv by (simp add: field_simps)
  finally show ?thesis by (simp add: x_def)
qed

lemma round_q_zero [simp]: "round_q 0 q = Dbl 0 0"
  by (simp add: round_q_def)

lemma dval_round_q_minus: "dval (round_q (- p) q) = - dval (round_q p q)"
  by (simp add: round_q_def dval_def Let_def sgn_minus)

lemma round_q_error:
  assumes "0 < q"
  shows "\<bar>dval (round_q p q) - real_of_int p / real_of_int q\<bar> \<le> \<bar>real_of_int p / real_of_int q\<bar> / 2 ^ 53"
proof -
  consider "p = 0" | "0 < p" | "0 < - p" by linarith
  then show ?thesis
  proof cases
    case 1
    then show ?thesis by (simp add: dval_def)
  next
    case 2
    then show ?thesis using round_q_error_pos [of p q] assms by simp
  next
    case 3
    then show ?thesis
      using round_q_error_pos [of "- p" q] assms dval_round_q_minus [of p q]
      by (simp add: abs_le_iff)
  qed
qed

lemma shift_for_nonneg:
  assumes "0 < a" and "a < 2 ^ 53" and "0 < q"
  shows "0 \<le> shift_for a q"
proof -
  have "bitlen a \<le> 53" using assms by (simp add: bitlen_le_iff_power)
  moreover have "1 \<le> bitlen q"
    using assms(3) bitlen_eq_zero_iff [of q] bitlen_nonneg [of q] by linarith
  ultimately show ?thesis by (simp add: shift_for_def Let_def)
qed

lemma round_q_exact_pos:
  assumes "0 < a" and "a < 2 ^ 53" and "0 < q" and "q dvd a"
  shows "dval (round_q a q) = of_int (a div q)"
proof -
  define s where "s = shift_for a q"
  have s: "0 \<le> s" using shift_for_nonneg assms by (simp add: s_def)
  have "round_half_even (scaled_num a s) (scaled_den q s) = a div q * 2 ^ nat s"
    using assms s
    by (simp add: scaled_num_def scaled_den_def round_half_even_dvd dvd_div_mult)
  then have "dval (round_q a q) = of_int (a div q) * (2 powi s * 2 powi (- s))"
    using assms s by (simp add: round_q_def dval_def Let_def s_def [symmetric] power_int_def)
  then show ?thesis by (simp add: power_int_minus)
qed

lemma round_q_exact:
  assumes "\<bar>p\<bar> < 2 ^ 53" and "0 < q" and "q dvd p"
  shows "dval (round_q p q) = of_int (p div q)"
proof -
  consider "p = 0" | "0 < p" | "0 < - p" by linarith
  then show ?thesis
  proof cases
    case 1
    then show ?thesis by (simp add: dval_def)
  next
    case 2
    then show ?thesis using round_q_exact_pos assms by simp
  next
    case 3
    then have "dval (round_q (- p) q) = of_int ((- p) div q)"
      using round_q_exact_pos [of "- p" q] assms by simp
    then show ?thesis using assms(3) by (simp add: dval_round_q_minus dvd_neg_div)
  qed
qed

section \<open>Truncation\<close>

lemma trunc_double_floor:
  assumes "0 \<le> dval x"
  shows "trunc_double x = \<lfloor>dval x\<rfloor>"
proof -
  have "0 < (2::real) powi expo x" by simp
  then have "\<not> (2::real) powi expo x \<le> 0" by (simp only: not_le)
  then have m: "0 \<le> mant x" using assms by (auto simp: dval_def zero_le_mult_iff)
  have "dval x = real_of_int (scaled_num (mant x) (expo x)) / real_of_int (scaled_den 1 (expo x))"
    by (simp add: scaled_quotient dval_def)
  then have "\<lfloor>dval x\<rfloor> = scaled_num (mant x) (expo x) div scaled_den 1 (expo x)"
    by (simp only: floor_divide_of_int_eq)
  then show ?thesis using m by (cases "mant x = 0") (simp_all add: trunc_double_def scaled_num_def)
qed

lemma round_q_nonneg: "0 \<le> p \<Longrightarrow> 0 < q \<Longrightarrow> 0 \<le> dval (round_q p q)"
  by (auto simp: round_q_def dval_def Let_def scaled_den_pos scaled_num_def
      intro!: round_half_even_nonneg mult_nonneg_nonneg)

lemma floor_near:
  fixes y :: real
  assumes "0 < q" and "\<not> q dvd n" and "\<bar>y - real_of_int n / real_of_int q\<bar> < 1 / real_of_int q"
  shows "\<lfloor>y\<rfloor> = n div q"
proof -
  define f r where "f = n div q" and "r = n mod q"
  have n: "n = q * f + r" by (simp add: f_def r_def)
  have "r \<noteq> 0" using assms(2) by (simp add: r_def dvd_eq_mod_eq_0)
  moreover have "0 \<le> r" "r < q" using assms(1) by (simp_all add: r_def)
  ultimately have r: "1 \<le> r" "r \<le> q - 1" by linarith+
  have qp: "0 < real_of_int q" using assms(1) by simp
  have x: "real_of_int n / real_of_int q = f + real_of_int r / real_of_int q"
    using qp by (simp add: n field_simps)
  have "1 / real_of_int q \<le> real_of_int r / real_of_int q"
    using r(1) qp by (intro divide_right_mono) simp_all
  moreover have "real_of_int r / real_of_int q \<le> real_of_int (q - 1) / real_of_int q"
    using r(2) qp by (intro divide_right_mono) simp_all
  moreover have "real_of_int (q - 1) / real_of_int q = 1 - 1 / real_of_int q"
    using qp by (simp add: field_simps)
  ultimately have "f \<le> y" "y < f + 1" using assms(3) x by (simp_all add: abs_less_iff)
  then show ?thesis by (simp add: f_def floor_eq_iff)
qed

text \<open>\<open>int(n / 100)\<close> is integer division, for every amount below \<open>2 ^ 46\<close>.\<close>

lemma trunc_percent:
  assumes "0 \<le> n" and "n < 2 ^ 46"
  shows "trunc_double (true_div n 100) = n div 100"
proof -
  have nn: "0 \<le> dval (true_div n 100)"
    using assms by (simp add: true_div_def round_q_nonneg)
  show ?thesis
  proof (cases "100 dvd n")
    case True
    then have "dval (true_div n 100) = of_int (n div 100)"
      using assms by (simp add: true_div_def round_q_exact)
    then show ?thesis using nn by (simp add: trunc_double_floor)
  next
    case False
    have "\<bar>dval (true_div n 100) - real_of_int n / real_of_int 100\<bar> \<le> \<bar>real_of_int n / real_of_int 100\<bar> / 2 ^ 53"
      unfolding true_div_def by (rule round_q_error) simp
    moreover have "\<bar>real_of_int n / real_of_int 100\<bar> / 2 ^ 53 < 1 / real_of_int 100"
    proof -
      have "real_of_int n < 2 ^ 46" using assms(2) by (metis of_int_less_numeral_power_cancel_iff)
      then show ?thesis using assms(1) by (simp add: field_simps)
    qed
    ultimately have "\<bar>dval (true_div n 100) - real_of_int n / real_of_int 100\<bar> < 1 / real_of_int 100"
      by linarith
    then have "\<lfloor>dval (true_div n 100)\<rfloor> = n div 100"
      using False floor_near [of 100 n] by simp
    then show ?thesis using nn by (simp add: trunc_double_floor)
  qed
qed

section \<open>Products\<close>

lemma mul_double_error:
  "\<bar>dval (mul_double x y) - dval x * dval y\<bar> \<le> \<bar>dval x * dval y\<bar> / 2 ^ 53"
proof -
  define e where "e = expo x + expo y"
  define m where "m = mant x * mant y"
  have q: "real_of_int (scaled_num m e) / real_of_int (scaled_den 1 e) = dval x * dval y"
    by (simp add: scaled_quotient dval_def m_def e_def power_int_add)
  have "mul_double x y = round_q (scaled_num m e) (scaled_den 1 e)"
    by (simp add: mul_double_def Let_def m_def e_def)
  then show ?thesis
    using round_q_error [OF scaled_den_pos, of 1 "scaled_num m e" e] by (simp only: q)
qed

lemma mul_double_nonneg: "0 \<le> mant x \<Longrightarrow> 0 \<le> mant y \<Longrightarrow> 0 \<le> dval (mul_double x y)"
  by (simp add: mul_double_def Let_def round_q_nonneg scaled_den_pos scaled_num_def)

lemma mant_round_q_nonneg: "0 \<le> p \<Longrightarrow> 0 < q \<Longrightarrow> 0 \<le> mant (round_q p q)"
  by (auto simp: round_q_def Let_def scaled_den_pos scaled_num_def
      intro!: round_half_even_nonneg mult_nonneg_nonneg)

text \<open>\<open>int(n * (v / 100))\<close>: within one of the exact percentage, and below it only when the exact
  percentage is a whole number.\<close>

lemma trunc_two_step:
  assumes "0 \<le> n" and "0 \<le> v" and "n < 2 ^ 53" and "n * v < 2 ^ 46"
  defines "t \<equiv> trunc_double (mul_double (of_int_double n) (true_div v 100))"
  shows "t = n * v div 100 \<or> 100 dvd n * v \<and> t = n * v div 100 - 1"
proof -
  define y where "y = dval (mul_double (of_int_double n) (true_div v 100))"
  define x where "x = real_of_int (n * v) / real_of_int 100"
  define d where "d = dval (true_div v 100)"
  have n: "dval (of_int_double n) = n"
    using assms by (simp add: of_int_double_def round_q_exact)
  have d: "\<bar>d - real_of_int v / 100\<bar> \<le> real_of_int v / 100 / 2 ^ 53"
    using round_q_error [of 100 v] assms by (simp add: d_def true_div_def)
  have x0: "0 \<le> x" using assms by (simp add: x_def)
  have small: "x < 2 ^ 46 / 100"
  proof -
    have "real_of_int (n * v) < 2 ^ 46" using assms(4) by (metis of_int_less_numeral_power_cancel_iff)
    then show ?thesis by (simp add: x_def)
  qed
  have px: "\<bar>n * d - x\<bar> \<le> x / 2 ^ 53"
  proof -
    have "\<bar>n * d - x\<bar> = n * \<bar>d - real_of_int v / 100\<bar>"
      using assms(1) by (simp add: x_def abs_mult [symmetric] algebra_simps)
        (simp add: abs_mult_pos' algebra_simps)
    also have "\<dots> \<le> n * (real_of_int v / 100 / 2 ^ 53)"
      using d assms(1) by (intro mult_left_mono) simp_all
    finally show ?thesis by (simp add: x_def)
  qed
  have yp: "\<bar>y - n * d\<bar> \<le> \<bar>n * d\<bar> / 2 ^ 53"
    using mul_double_error [of "of_int_double n" "true_div v 100"] by (simp add: y_def n d_def)
  have "x / 2 ^ 53 \<le> x" using x0 by (simp add: field_simps)
  with px have "\<bar>n * d - x\<bar> \<le> x" by (rule order_trans)
  then have "\<bar>n * d\<bar> \<le> 2 * x" by (simp add: abs_le_iff)
  then have "\<bar>y - n * d\<bar> \<le> 2 * x / 2 ^ 53" using yp by simp
  moreover have "\<bar>y - x\<bar> \<le> \<bar>y - n * d\<bar> + \<bar>n * d - x\<bar>" by linarith
  ultimately have "\<bar>y - x\<bar> \<le> 2 * x / 2 ^ 53 + x / 2 ^ 53" using px by linarith
  then have "\<bar>y - x\<bar> \<le> 3 * x / 2 ^ 53" by simp
  then have near: "\<bar>y - x\<bar> < 1 / real_of_int 100" using small x0 by (simp add: field_simps)
  have t: "t = \<lfloor>y\<rfloor>"
    unfolding t_def y_def using assms
    by (intro trunc_double_floor mul_double_nonneg)
       (simp_all add: of_int_double_def true_div_def mant_round_q_nonneg)
  show ?thesis
  proof (cases "100 dvd n * v")
    case False
    then show ?thesis using floor_near [OF _ False, of y] near by (simp add: t x_def)
  next
    case True
    then have "x = real_of_int (n * v div 100)"
      by (simp add: x_def real_of_int_div)
    moreover have "\<bar>y - x\<bar> < 1" using near by linarith
    ultimately have "real_of_int (n * v div 100) - 1 \<le> y" "y < real_of_int (n * v div 100) + 1"
      by (simp_all add: abs_less_iff)
    then have "\<lfloor>y\<rfloor> = n * v div 100 \<or> \<lfloor>y\<rfloor> = n * v div 100 - 1" by linarith
    then show ?thesis using True by (simp add: t)
  qed
qed

end
