(* ===== verification/Entities.thy ===== *)
theory Entities
  imports Doubles
begin

text \<open>
  The data of the program: the exceptions of \<open>app/core/exceptions.py\<close> (with the library
  exceptions that can reach a caller), JSON values, and one record per table, field by field
  from \<open>app/models/*/base.py\<close>. A nullable column is an \<open>option\<close>. Every table also has
  the columns of \<open>entity.py\<close>: the primary key, \<open>created_at\<close> and \<open>updated_at\<close> (0 before
  the insert trigger has run). Integers are unbounded as in Python: PostgreSQL rejects a value
  that does not fit its column, which aborts the transaction and commits nothing.
  Exception messages are given in English.
\<close>

datatype exn =
    NotFound string
  | Conflict string
  | BadRequest string
  | Unauthorized string
  | Forbidden string
  | IntegrityError
  | MultipleResultsFound
  | ValueError
  | TypeError
  | OverflowError
  | KeyError
  | ArithmeticError
  | AttributeError
  | RuntimeError string

fun status_code :: "exn \<Rightarrow> int" where
  "status_code (NotFound _) = 404"
| "status_code (Conflict _) = 409"
| "status_code (BadRequest _) = 400"
| "status_code (Unauthorized _) = 401"
| "status_code (Forbidden _) = 403"
| "status_code _ = 500"

fun is_app_exception :: "exn \<Rightarrow> bool" where
  "is_app_exception (NotFound _) = True"
| "is_app_exception (Conflict _) = True"
| "is_app_exception (BadRequest _) = True"
| "is_app_exception (Unauthorized _) = True"
| "is_app_exception (Forbidden _) = True"
| "is_app_exception _ = False"

lemma app_exception_status: "is_app_exception e \<longleftrightarrow> status_code e < 500"
  by (cases e) auto

datatype json =
    JNull
  | JBool bool
  | JInt int
  | JFloat double
  | JStr string
  | JArr "json list"
  | JObj "(string \<times> json) list"

text \<open>\<open>orjson\<close> is a parameter: the model uses its two functions as given; \<open>py_repr\<close> is
  Python's \<open>str\<close> on the values whose text the model does not spell out (floats, lists, dicts).\<close>

record codec =
  dumps :: "json \<Rightarrow> string"
  loads :: "string \<Rightarrow> json option"
  py_repr :: "json \<Rightarrow> string"

section \<open>Tables\<close>

record user =
  us_id :: int
  us_email :: string
  us_password :: string
  us_token :: string
  us_invite_user_id :: "int option"
  us_telegram_id :: "int option"
  us_balance :: int
  us_discount :: "int option"
  us_commission_type :: int
  us_commission_rate :: "int option"
  us_commission_balance :: int
  us_t :: int
  us_u :: int
  us_d :: int
  us_transfer_enable :: int
  us_group_id :: "int option"
  us_plan_id :: "int option"
  us_speed_limit :: "int option"
  us_device_limit :: "int option"
  us_banned :: bool
  us_is_admin :: bool
  us_is_staff :: bool
  us_auto_renewal :: int
  us_remind_expire :: int
  us_remind_traffic :: int
  us_last_login_at :: "int option"
  us_last_login_ip :: "int option"
  us_uuid :: string
  us_expired_at :: int
  us_remarks :: "string option"
  us_created_at :: int
  us_updated_at :: int

record order =
  od_id :: int
  od_invite_user_id :: "int option"
  od_user_id :: int
  od_plan_id :: int
  od_coupon_id :: "int option"
  od_payment_id :: "int option"
  od_type :: int
  od_period :: string
  od_trade_no :: string
  od_callback_no :: "string option"
  od_total_amount :: int
  od_handling_amount :: "int option"
  od_discount_amount :: "int option"
  od_surplus_amount :: "int option"
  od_refund_amount :: "int option"
  od_balance_amount :: "int option"
  od_surplus_order_ids :: "string option"
  od_status :: int
  od_commission_status :: int
  od_commission_balance :: int
  od_actual_commission_balance :: "int option"
  od_paid_at :: "int option"
  od_created_at :: int
  od_updated_at :: int

record plan =
  pl_id :: int
  pl_group_id :: int
  pl_transfer_enable :: int
  pl_device_limit :: "int option"
  pl_name :: string
  pl_speed_limit :: "int option"
  pl_show :: bool
  pl_sort :: "int option"
  pl_renew :: bool
  pl_content :: "string option"
  pl_month_price :: "int option"
  pl_quarter_price :: "int option"
  pl_half_year_price :: "int option"
  pl_year_price :: "int option"
  pl_two_year_price :: "int option"
  pl_three_year_price :: "int option"
  pl_onetime_price :: "int option"
  pl_reset_price :: "int option"
  pl_reset_traffic_method :: "int option"
  pl_capacity_limit :: "int option"
  pl_created_at :: int
  pl_updated_at :: int

record coupon =
  cp_id :: int
  cp_code :: string
  cp_name :: string
  cp_type :: int
  cp_value :: int
  cp_show :: bool
  cp_limit_use :: "int option"
  cp_limit_use_with_user :: "int option"
  cp_limit_plan_ids :: "string option"
  cp_limit_period :: "string option"
  cp_started_at :: int
  cp_ended_at :: int
  cp_created_at :: int
  cp_updated_at :: int

record giftcard =
  gc_id :: int
  gc_code :: string
  gc_name :: string
  gc_type :: int
  gc_value :: "int option"
  gc_plan_id :: "int option"
  gc_limit_use :: "int option"
  gc_used_user_ids :: "string option"
  gc_started_at :: int
  gc_ended_at :: int
  gc_created_at :: int
  gc_updated_at :: int

record giftcard_redemption =
  gr_id :: int
  gr_giftcard_id :: int
  gr_user_id :: int
  gr_code :: string
  gr_type :: int
  gr_value :: "int option"
  gr_plan_id :: "int option"
  gr_created_at :: int
  gr_updated_at :: int

record commission_log =
  cl_id :: int
  cl_invite_user_id :: int
  cl_user_id :: int
  cl_trade_no :: string
  cl_order_amount :: int
  cl_get_amount :: int
  cl_created_at :: int
  cl_updated_at :: int

record invite_code =
  iv_id :: int
  iv_user_id :: int
  iv_code :: string
  iv_status :: int
  iv_pv :: int
  iv_created_at :: int
  iv_updated_at :: int

record ticket =
  tk_id :: int
  tk_user_id :: int
  tk_subject :: string
  tk_level :: int
  tk_status :: int
  tk_reply_status :: int
  tk_created_at :: int
  tk_updated_at :: int

record ticket_message =
  tm_id :: int
  tm_user_id :: int
  tm_ticket_id :: int
  tm_message :: string
  tm_created_at :: int
  tm_updated_at :: int

record payment =
  pm_id :: int
  pm_uuid :: string
  pm_payment :: string
  pm_name :: string
  pm_icon :: "string option"
  pm_config :: "(string \<times> json) list"
  pm_notify_domain :: "string option"
  pm_handling_fee_fixed :: "int option"
  pm_handling_fee_percent :: "double option"
  pm_enable :: bool
  pm_sort :: "int option"
  pm_created_at :: int
  pm_updated_at :: int

record setting =
  st_id :: int
  st_key :: string
  st_value :: string
  st_type :: string
  st_description :: "string option"
  st_created_at :: int
  st_updated_at :: int

record queue_job =
  qj_id :: int
  qj_queue :: string
  qj_job_name :: string
  qj_job_key :: "string option"
  qj_args :: "json list"
  qj_kwargs :: "(string \<times> json) list"
  qj_status :: string
  qj_attempts :: int
  qj_max_tries :: int
  qj_scheduled_at :: int
  qj_reserved_at :: "int option"
  qj_finished_at :: "int option"
  qj_failed_at :: "int option"
  qj_last_error :: "string option"
  qj_created_at :: int
  qj_updated_at :: int

record failed_job =
  fj_id :: int
  fj_connection :: string
  fj_queue :: string
  fj_payload :: json
  fj_exception :: string
  fj_failed_at :: string
  fj_created_at :: int
  fj_updated_at :: int

record log_event =
  le_id :: int
  le_level :: string
  le_category :: string
  le_event :: string
  le_message :: string
  le_request_id :: "string option"
  le_trace_id :: "string option"
  le_actor_type :: "string option"
  le_actor_id :: "int option"
  le_target_type :: "string option"
  le_target_id :: "string option"
  le_method :: "string option"
  le_path :: "string option"
  le_status_code :: "int option"
  le_duration_ms :: "int option"
  le_ip :: "string option"
  le_user_agent :: "string option"
  le_data :: json
  le_error_type :: "string option"
  le_error_stack :: "string option"
  le_created_at :: int
  le_updated_at :: int

record stat =
  sa_id :: int
  sa_record_at :: int
  sa_record_type :: string
  sa_order_count :: int
  sa_order_total :: int
  sa_commission_count :: int
  sa_commission_total :: int
  sa_paid_count :: int
  sa_paid_total :: int
  sa_register_count :: int
  sa_invite_count :: int
  sa_transfer_used_total :: string
  sa_created_at :: int
  sa_updated_at :: int

record stat_server =
  ss_id :: int
  ss_server_id :: int
  ss_server_type :: string
  ss_u :: int
  ss_d :: int
  ss_record_type :: string
  ss_record_at :: int
  ss_created_at :: int
  ss_updated_at :: int

record stat_user =
  su_id :: int
  su_user_id :: int
  su_server_rate :: pyfloat
  su_u :: int
  su_d :: int
  su_record_type :: string
  su_record_at :: int
  su_created_at :: int
  su_updated_at :: int

text \<open>A \<open>jsonb\<close> column of type \<open>Any\<close> is a JSON value, \<open>JNull\<close> for a missing one.\<close>

record server_node =
  nd_id :: int
  nd_group_id :: json
  nd_route_id :: json
  nd_name :: string
  nd_parent_id :: "int option"
  nd_host :: string
  nd_listen_ip :: string
  nd_port :: string
  nd_server_port :: int
  nd_tags :: json
  nd_rate :: string
  nd_show :: bool
  nd_sort :: "int option"
  nd_protocol :: string
  nd_tls :: int
  nd_tls_settings :: json
  nd_flow :: "string option"
  nd_network :: string
  nd_network_settings :: json
  nd_encryption :: "string option"
  nd_encryption_settings :: json
  nd_disable_sni :: bool
  nd_udp_relay_mode :: "string option"
  nd_zero_rtt_handshake :: bool
  nd_congestion_control :: "string option"
  nd_cipher :: "string option"
  nd_up_mbps :: int
  nd_down_mbps :: int
  nd_obfs :: "string option"
  nd_obfs_password :: "string option"
  nd_padding_scheme :: json
  nd_created_at :: int
  nd_updated_at :: int

record server_route =
  rt_id :: int
  rt_remarks :: string
  rt_match :: json
  rt_action :: string
  rt_action_value :: json
  rt_created_at :: int
  rt_updated_at :: int

record server_group =
  sg_id :: int
  sg_name :: string
  sg_created_at :: int
  sg_updated_at :: int

record notice =
  no_id :: int
  no_title :: string
  no_content :: string
  no_show :: bool
  no_img_url :: "string option"
  no_tags :: "string option"
  no_created_at :: int
  no_updated_at :: int

record knowledge =
  kn_id :: int
  kn_language :: string
  kn_category :: string
  kn_title :: string
  kn_body :: string
  kn_sort :: "int option"
  kn_show :: bool
  kn_created_at :: int
  kn_updated_at :: int

end
