(* ===== verification/Repository.thy ===== *)
theory Repository
  imports Entities
begin

text \<open>
  The generic repository of \<open>app/repositories/base.py\<close> over a table. A table is the list of its
  rows in insertion order and the next value of its primary-key sequence. An \<open>entity\<close>
  descriptor gives the generic code the primary key and the two triggers of
  \<open>pyboard_set_epoch_timestamps\<close>; the locale \<open>repository\<close> states what the descriptor has to
  satisfy and proves the laws of create, read, update and delete once, and it is interpreted
  for every table of the program.

  \<open>repo_update\<close> is the flush of a modified object: SQLAlchemy emits an UPDATE (and the
  trigger refreshes \<open>updated_at\<close>) only when the row differs from the stored one.
\<close>

record 'r table =
  rows :: "'r list"
  next_id :: int

record 'r entity =
  e_id :: "'r \<Rightarrow> int"
  e_set_id :: "int \<Rightarrow> 'r \<Rightarrow> 'r"
  e_created :: "int \<Rightarrow> 'r \<Rightarrow> 'r"
  e_touch :: "int \<Rightarrow> 'r \<Rightarrow> 'r"

definition empty_table :: "'r table" where
  "empty_table = \<lparr>rows = [], next_id = 1\<rparr>"

definition repo_get :: "'r entity \<Rightarrow> 'r table \<Rightarrow> int \<Rightarrow> 'r option" where
  "repo_get E t i = find (\<lambda>r. e_id E r = i) (rows t)"

definition repo_all :: "'r table \<Rightarrow> int \<Rightarrow> int \<Rightarrow> 'r list" where
  "repo_all t offset limit = paginate offset limit (rows t)"

definition repo_count :: "'r table \<Rightarrow> int" where
  "repo_count t = int (length (rows t))"

definition new_row :: "'r entity \<Rightarrow> int \<Rightarrow> 'r table \<Rightarrow> 'r \<Rightarrow> 'r" where
  "new_row E now t r = e_created E now (e_set_id E (next_id t) r)"

definition repo_create :: "'r entity \<Rightarrow> int \<Rightarrow> 'r table \<Rightarrow> 'r \<Rightarrow> 'r table" where
  "repo_create E now t r = t\<lparr>rows := rows t @ [new_row E now t r], next_id := next_id t + 1\<rparr>"

definition stored :: "'r entity \<Rightarrow> int \<Rightarrow> 'r \<Rightarrow> 'r \<Rightarrow> 'r" where
  "stored E now old r = (if old = r then old else e_touch E now r)"

definition repo_update :: "'r entity \<Rightarrow> int \<Rightarrow> 'r table \<Rightarrow> 'r \<Rightarrow> 'r table" where
  "repo_update E now t r =
     t\<lparr>rows := map (\<lambda>x. if e_id E x = e_id E r then stored E now x r else x) (rows t)\<rparr>"

definition repo_delete :: "'r entity \<Rightarrow> 'r table \<Rightarrow> 'r \<Rightarrow> 'r table" where
  "repo_delete E t r = t\<lparr>rows := filter (\<lambda>x. e_id E x \<noteq> e_id E r) (rows t)\<rparr>"

definition delete_where :: "('r \<Rightarrow> bool) \<Rightarrow> 'r table \<Rightarrow> 'r table" where
  "delete_where P t = t\<lparr>rows := filter (\<lambda>x. \<not> P x) (rows t)\<rparr>"

text \<open>Bulk \<open>UPDATE ... SET .. WHERE P\<close>.\<close>

definition update_where :: "'r entity \<Rightarrow> int \<Rightarrow> ('r \<Rightarrow> bool) \<Rightarrow> ('r \<Rightarrow> 'r) \<Rightarrow> 'r table \<Rightarrow> 'r table" where
  "update_where E now P f t = t\<lparr>rows := map (\<lambda>x. if P x then e_touch E now (f x) else x) (rows t)\<rparr>"

text \<open>A table is well formed when its primary keys are distinct and were drawn from the sequence.\<close>

definition wf_table :: "'r entity \<Rightarrow> 'r table \<Rightarrow> bool" where
  "wf_table E t \<longleftrightarrow> distinct (map (e_id E) (rows t)) \<and> list_all (\<lambda>r. 0 < e_id E r \<and> e_id E r < next_id t) (rows t)
     \<and> 0 < next_id t"

lemma empty_table_simps [simp]: "rows empty_table = []" "next_id empty_table = 1"
  by (simp_all add: empty_table_def)

lemma rows_repo_create [simp]: "rows (repo_create E now t r) = rows t @ [new_row E now t r]"
  by (simp add: repo_create_def)

lemma rows_repo_update:
  "rows (repo_update E now t r) = map (\<lambda>x. if e_id E x = e_id E r then stored E now x r else x) (rows t)"
  by (simp add: repo_update_def)

lemma rows_delete_where [simp]: "rows (delete_where P t) = filter (\<lambda>x. \<not> P x) (rows t)"
  by (simp add: delete_where_def)

lemma repo_get_SomeD: "repo_get E t i = Some r \<Longrightarrow> r \<in> set (rows t) \<and> e_id E r = i"
  by (auto simp: repo_get_def find_Some_iff)

lemma repo_get_None: "repo_get E t i = None \<longleftrightarrow> (\<forall>r\<in>set (rows t). e_id E r \<noteq> i)"
  by (auto simp: repo_get_def find_None_iff)

text \<open>A search whose predicate the update does not affect finds the same row, updated.\<close>

lemma find_update:
  "(\<And>x. x \<in> set (rows t) \<Longrightarrow> e_id E x = e_id E r \<Longrightarrow> P (stored E now x r) = P x) \<Longrightarrow>
     find P (rows (repo_update E now t r)) =
       map_option (\<lambda>x. if e_id E x = e_id E r then stored E now x r else x) (find P (rows t))"
  unfolding rows_repo_update by (rule find_map_cong) simp

lemma wf_same_row: "wf_table E t \<Longrightarrow> x \<in> set (rows t) \<Longrightarrow> y \<in> set (rows t) \<Longrightarrow> e_id E x = e_id E y \<Longrightarrow> x = y"
  unfolding wf_table_def distinct_map by (metis inj_onD)

lemma wf_table_ids:
  assumes "map (e_id E) (rows t') = map (e_id E) (rows t)" "next_id t' = next_id t"
  shows "wf_table E t' = wf_table E t"
proof -
  have ball: "list_all (\<lambda>r. 0 < e_id E r \<and> e_id E r < n) rs \<longleftrightarrow> (\<forall>i\<in>set (map (e_id E) rs). 0 < i \<and> i < n)" for rs n
    by (simp add: list_all_iff)
  show ?thesis unfolding wf_table_def ball assms ..
qed

locale repository =
  fixes E :: "'r entity"
  assumes id_set [simp]: "e_id E (e_set_id E i r) = i"
    and id_created [simp]: "e_id E (e_created E now r) = e_id E r"
    and id_touch [simp]: "e_id E (e_touch E now r) = e_id E r"
begin

lemma id_new_row [simp]: "e_id E (new_row E now t r) = next_id t"
  by (simp add: new_row_def)

lemma id_stored [simp]: "e_id E (stored E now x r) = (if x = r then e_id E x else e_id E r)"
  by (simp add: stored_def)

lemma wf_empty: "wf_table E empty_table"
  by (simp add: wf_table_def)

lemma wf_create: "wf_table E t \<Longrightarrow> wf_table E (repo_create E now t r)"
  by (auto simp: wf_table_def repo_create_def list_all_iff)

lemma ids_update: "map (e_id E) (rows (repo_update E now t r)) = map (e_id E) (rows t)"
  by (simp add: rows_repo_update)

lemma wf_update: "wf_table E t \<Longrightarrow> wf_table E (repo_update E now t r)"
  using ids_update [of now t r]
  by (simp only: wf_table_def list.pred_map [symmetric, of "\<lambda>i. 0 < i \<and> i < n" "e_id E" for n, unfolded comp_def])
     (simp add: repo_update_def)

lemma distinct_filter_ids: "distinct (map (e_id E) rs) \<Longrightarrow> distinct (map (e_id E) (filter P rs))"
  by (simp add: distinct_map inj_on_def)

lemma wf_delete_where: "wf_table E t \<Longrightarrow> wf_table E (delete_where P t)"
  by (auto simp: wf_table_def list_all_iff delete_where_def distinct_filter_ids)

lemma wf_delete: "wf_table E t \<Longrightarrow> wf_table E (repo_delete E t r)"
  by (auto simp: wf_table_def list_all_iff repo_delete_def distinct_filter_ids)

lemma get_unique: "wf_table E t \<Longrightarrow> r \<in> set (rows t) \<Longrightarrow> repo_get E t (e_id E r) = Some r"
proof -
  assume wf: "wf_table E t" and r: "r \<in> set (rows t)"
  have "\<exists>x. repo_get E t (e_id E r) = Some x"
    using r repo_get_None [of E t "e_id E r"] by (cases "repo_get E t (e_id E r)") auto
  then obtain x where x: "repo_get E t (e_id E r) = Some x" by blast
  with repo_get_SomeD [OF x] wf r have "x = r"
    by (auto simp: wf_table_def distinct_map dest: inj_onD)
  with x show ?thesis by simp
qed

lemma get_create_new:
  "wf_table E t \<Longrightarrow> repo_get E (repo_create E now t r) (next_id t) = Some (new_row E now t r)"
  using get_unique [OF wf_create, of t "new_row E now t r" now r] by simp

lemma get_create_old:
  "i \<noteq> next_id t \<Longrightarrow> repo_get E (repo_create E now t r) i = repo_get E t i"
  by (simp add: repo_get_def find_append split: option.splits)

lemma get_update:
  "repo_get E (repo_update E now t r) i =
     (if i = e_id E r then map_option (\<lambda>x. stored E now x r) (repo_get E t i) else repo_get E t i)"
proof -
  have "\<And>rs. find (\<lambda>x. e_id E x = i) (map (\<lambda>x. if e_id E x = e_id E r then stored E now x r else x) rs) =
     map_option (\<lambda>x. if e_id E x = e_id E r then stored E now x r else x) (find (\<lambda>x. e_id E x = i) rs)"
    by (rule find_map_cong) simp
  then show ?thesis
    by (cases "find (\<lambda>x. e_id E x = i) (rows t)")
       (auto simp: repo_get_def rows_repo_update dest: find_Some_set)
qed

lemma get_update_same:
  "repo_get E t (e_id E r) = Some old \<Longrightarrow> repo_get E (repo_update E now t r) (e_id E r) = Some (stored E now old r)"
  by (simp add: get_update)

lemma get_delete: "wf_table E t \<Longrightarrow> repo_get E (repo_delete E t r) (e_id E r) = None"
  by (auto simp: repo_get_None repo_delete_def)

lemma count_create: "repo_count (repo_create E now t r) = repo_count t + 1"
  by (simp add: repo_count_def)

lemma count_update: "repo_count (repo_update E now t r) = repo_count t"
  by (simp add: repo_count_def repo_update_def)

text \<open>Flushing an unmodified object changes nothing.\<close>

lemma update_same_row:
  assumes "wf_table E t" "r \<in> set (rows t)"
  shows "repo_update E now t r = t"
proof -
  have "map (\<lambda>x. if e_id E x = e_id E r then stored E now x r else x) (rows t) = rows t"
  proof (rule map_idI)
    fix x assume "x \<in> set (rows t)"
    then show "(if e_id E x = e_id E r then stored E now x r else x) = x"
      using wf_same_row [OF assms(1) _ assms(2)] by (auto simp: stored_def)
  qed
  then show ?thesis by (simp add: repo_update_def)
qed

text \<open>Updating row \<open>r0\<close> to \<open>r\<close> changes a sum over the table by the change of that row.\<close>

lemma sum_update:
  assumes "wf_table E t" and "repo_get E t (e_id E r) = Some r0"
    and "\<And>x. f (e_touch E now x) = f x"
  shows "sum_list (map f (rows (repo_update E now t r))) = sum_list (map f (rows t)) - f r0 + (f r :: int)"
proof -
  have touch: "f (stored E now x r) = f r" for x by (simp add: stored_def assms(3))
  have gen: "distinct (map (e_id E) rs) \<Longrightarrow> find (\<lambda>x. e_id E x = e_id E r) rs = Some r0 \<Longrightarrow>
     sum_list (map (\<lambda>x. f (if e_id E x = e_id E r then stored E now x r else x)) rs)
       = sum_list (map f rs) - f r0 + f r" for rs
  proof (induction rs)
    case (Cons y ys)
    show ?case
    proof (cases "e_id E y = e_id E r")
      case True
      from Cons.prems(1) have "e_id E y \<notin> e_id E ` set ys" by simp
      then have "\<forall>x\<in>set ys. e_id E x \<noteq> e_id E r" using True by (metis imageI)
      then have same: "map (\<lambda>x. f (if e_id E x = e_id E r then stored E now x r else x)) ys = map f ys"
        by (intro map_cong) auto
      have "y = r0" using True Cons.prems(2) by simp
      then show ?thesis using True touch by (simp only: list.map sum_list.Cons same) simp
    next
      case False
      then show ?thesis using Cons by simp
    qed
  qed simp
  show ?thesis using gen [of "rows t"] assms(1,2) by (simp add: wf_table_def repo_get_def rows_repo_update comp_def)
qed

lemma set_update_cases:
  "x \<in> set (rows (repo_update E now t r)) \<Longrightarrow>
     x \<in> set (rows t) \<and> e_id E x \<noteq> e_id E r \<or> (\<exists>y\<in>set (rows t). e_id E y = e_id E r \<and> x = stored E now y r)"
  by (auto simp: rows_repo_update split: if_splits)

end

section \<open>The tables of the program\<close>

definition stamp :: "int \<Rightarrow> int \<Rightarrow> int" where
  "stamp now x = (if x = 0 then now else x)"

definition user_entity :: "user entity" where
  "user_entity = \<lparr>e_id = us_id, e_set_id = (\<lambda>i r. r\<lparr>us_id := i\<rparr>),
     e_created = (\<lambda>now r. r\<lparr>us_created_at := stamp now (us_created_at r),
        us_updated_at := stamp (stamp now (us_created_at r)) (us_updated_at r)\<rparr>),
     e_touch = (\<lambda>now r. r\<lparr>us_updated_at := now\<rparr>)\<rparr>"

definition order_entity :: "order entity" where
  "order_entity = \<lparr>e_id = od_id, e_set_id = (\<lambda>i r. r\<lparr>od_id := i\<rparr>),
     e_created = (\<lambda>now r. r\<lparr>od_created_at := stamp now (od_created_at r),
        od_updated_at := stamp (stamp now (od_created_at r)) (od_updated_at r)\<rparr>),
     e_touch = (\<lambda>now r. r\<lparr>od_updated_at := now\<rparr>)\<rparr>"

definition plan_entity :: "plan entity" where
  "plan_entity = \<lparr>e_id = pl_id, e_set_id = (\<lambda>i r. r\<lparr>pl_id := i\<rparr>),
     e_created = (\<lambda>now r. r\<lparr>pl_created_at := stamp now (pl_created_at r),
        pl_updated_at := stamp (stamp now (pl_created_at r)) (pl_updated_at r)\<rparr>),
     e_touch = (\<lambda>now r. r\<lparr>pl_updated_at := now\<rparr>)\<rparr>"

definition coupon_entity :: "coupon entity" where
  "coupon_entity = \<lparr>e_id = cp_id, e_set_id = (\<lambda>i r. r\<lparr>cp_id := i\<rparr>),
     e_created = (\<lambda>now r. r\<lparr>cp_created_at := stamp now (cp_created_at r),
        cp_updated_at := stamp (stamp now (cp_created_at r)) (cp_updated_at r)\<rparr>),
     e_touch = (\<lambda>now r. r\<lparr>cp_updated_at := now\<rparr>)\<rparr>"

definition giftcard_entity :: "giftcard entity" where
  "giftcard_entity = \<lparr>e_id = gc_id, e_set_id = (\<lambda>i r. r\<lparr>gc_id := i\<rparr>),
     e_created = (\<lambda>now r. r\<lparr>gc_created_at := stamp now (gc_created_at r),
        gc_updated_at := stamp (stamp now (gc_created_at r)) (gc_updated_at r)\<rparr>),
     e_touch = (\<lambda>now r. r\<lparr>gc_updated_at := now\<rparr>)\<rparr>"

definition redemption_entity :: "giftcard_redemption entity" where
  "redemption_entity = \<lparr>e_id = gr_id, e_set_id = (\<lambda>i r. r\<lparr>gr_id := i\<rparr>),
     e_created = (\<lambda>now r. r\<lparr>gr_created_at := stamp now (gr_created_at r),
        gr_updated_at := stamp (stamp now (gr_created_at r)) (gr_updated_at r)\<rparr>),
     e_touch = (\<lambda>now r. r\<lparr>gr_updated_at := now\<rparr>)\<rparr>"

definition commission_log_entity :: "commission_log entity" where
  "commission_log_entity = \<lparr>e_id = cl_id, e_set_id = (\<lambda>i r. r\<lparr>cl_id := i\<rparr>),
     e_created = (\<lambda>now r. r\<lparr>cl_created_at := stamp now (cl_created_at r),
        cl_updated_at := stamp (stamp now (cl_created_at r)) (cl_updated_at r)\<rparr>),
     e_touch = (\<lambda>now r. r\<lparr>cl_updated_at := now\<rparr>)\<rparr>"

definition invite_code_entity :: "invite_code entity" where
  "invite_code_entity = \<lparr>e_id = iv_id, e_set_id = (\<lambda>i r. r\<lparr>iv_id := i\<rparr>),
     e_created = (\<lambda>now r. r\<lparr>iv_created_at := stamp now (iv_created_at r),
        iv_updated_at := stamp (stamp now (iv_created_at r)) (iv_updated_at r)\<rparr>),
     e_touch = (\<lambda>now r. r\<lparr>iv_updated_at := now\<rparr>)\<rparr>"

definition ticket_entity :: "ticket entity" where
  "ticket_entity = \<lparr>e_id = tk_id, e_set_id = (\<lambda>i r. r\<lparr>tk_id := i\<rparr>),
     e_created = (\<lambda>now r. r\<lparr>tk_created_at := stamp now (tk_created_at r),
        tk_updated_at := stamp (stamp now (tk_created_at r)) (tk_updated_at r)\<rparr>),
     e_touch = (\<lambda>now r. r\<lparr>tk_updated_at := now\<rparr>)\<rparr>"

definition ticket_message_entity :: "ticket_message entity" where
  "ticket_message_entity = \<lparr>e_id = tm_id, e_set_id = (\<lambda>i r. r\<lparr>tm_id := i\<rparr>),
     e_created = (\<lambda>now r. r\<lparr>tm_created_at := stamp now (tm_created_at r),
        tm_updated_at := stamp (stamp now (tm_created_at r)) (tm_updated_at r)\<rparr>),
     e_touch = (\<lambda>now r. r\<lparr>tm_updated_at := now\<rparr>)\<rparr>"

definition payment_entity :: "payment entity" where
  "payment_entity = \<lparr>e_id = pm_id, e_set_id = (\<lambda>i r. r\<lparr>pm_id := i\<rparr>),
     e_created = (\<lambda>now r. r\<lparr>pm_created_at := stamp now (pm_created_at r),
        pm_updated_at := stamp (stamp now (pm_created_at r)) (pm_updated_at r)\<rparr>),
     e_touch = (\<lambda>now r. r\<lparr>pm_updated_at := now\<rparr>)\<rparr>"

definition setting_entity :: "setting entity" where
  "setting_entity = \<lparr>e_id = st_id, e_set_id = (\<lambda>i r. r\<lparr>st_id := i\<rparr>),
     e_created = (\<lambda>now r. r\<lparr>st_created_at := stamp now (st_created_at r),
        st_updated_at := stamp (stamp now (st_created_at r)) (st_updated_at r)\<rparr>),
     e_touch = (\<lambda>now r. r\<lparr>st_updated_at := now\<rparr>)\<rparr>"

definition queue_job_entity :: "queue_job entity" where
  "queue_job_entity = \<lparr>e_id = qj_id, e_set_id = (\<lambda>i r. r\<lparr>qj_id := i\<rparr>),
     e_created = (\<lambda>now r. r\<lparr>qj_created_at := stamp now (qj_created_at r),
        qj_updated_at := stamp (stamp now (qj_created_at r)) (qj_updated_at r)\<rparr>),
     e_touch = (\<lambda>now r. r\<lparr>qj_updated_at := now\<rparr>)\<rparr>"

definition failed_job_entity :: "failed_job entity" where
  "failed_job_entity = \<lparr>e_id = fj_id, e_set_id = (\<lambda>i r. r\<lparr>fj_id := i\<rparr>),
     e_created = (\<lambda>now r. r\<lparr>fj_created_at := stamp now (fj_created_at r),
        fj_updated_at := stamp (stamp now (fj_created_at r)) (fj_updated_at r)\<rparr>),
     e_touch = (\<lambda>now r. r\<lparr>fj_updated_at := now\<rparr>)\<rparr>"

definition log_event_entity :: "log_event entity" where
  "log_event_entity = \<lparr>e_id = le_id, e_set_id = (\<lambda>i r. r\<lparr>le_id := i\<rparr>),
     e_created = (\<lambda>now r. r\<lparr>le_created_at := stamp now (le_created_at r),
        le_updated_at := stamp (stamp now (le_created_at r)) (le_updated_at r)\<rparr>),
     e_touch = (\<lambda>now r. r\<lparr>le_updated_at := now\<rparr>)\<rparr>"

definition stat_entity :: "stat entity" where
  "stat_entity = \<lparr>e_id = sa_id, e_set_id = (\<lambda>i r. r\<lparr>sa_id := i\<rparr>),
     e_created = (\<lambda>now r. r\<lparr>sa_created_at := stamp now (sa_created_at r),
        sa_updated_at := stamp (stamp now (sa_created_at r)) (sa_updated_at r)\<rparr>),
     e_touch = (\<lambda>now r. r\<lparr>sa_updated_at := now\<rparr>)\<rparr>"

definition stat_server_entity :: "stat_server entity" where
  "stat_server_entity = \<lparr>e_id = ss_id, e_set_id = (\<lambda>i r. r\<lparr>ss_id := i\<rparr>),
     e_created = (\<lambda>now r. r\<lparr>ss_created_at := stamp now (ss_created_at r),
        ss_updated_at := stamp (stamp now (ss_created_at r)) (ss_updated_at r)\<rparr>),
     e_touch = (\<lambda>now r. r\<lparr>ss_updated_at := now\<rparr>)\<rparr>"

definition stat_user_entity :: "stat_user entity" where
  "stat_user_entity = \<lparr>e_id = su_id, e_set_id = (\<lambda>i r. r\<lparr>su_id := i\<rparr>),
     e_created = (\<lambda>now r. r\<lparr>su_created_at := stamp now (su_created_at r),
        su_updated_at := stamp (stamp now (su_created_at r)) (su_updated_at r)\<rparr>),
     e_touch = (\<lambda>now r. r\<lparr>su_updated_at := now\<rparr>)\<rparr>"

definition server_node_entity :: "server_node entity" where
  "server_node_entity = \<lparr>e_id = nd_id, e_set_id = (\<lambda>i r. r\<lparr>nd_id := i\<rparr>),
     e_created = (\<lambda>now r. r\<lparr>nd_created_at := stamp now (nd_created_at r),
        nd_updated_at := stamp (stamp now (nd_created_at r)) (nd_updated_at r)\<rparr>),
     e_touch = (\<lambda>now r. r\<lparr>nd_updated_at := now\<rparr>)\<rparr>"

definition server_route_entity :: "server_route entity" where
  "server_route_entity = \<lparr>e_id = rt_id, e_set_id = (\<lambda>i r. r\<lparr>rt_id := i\<rparr>),
     e_created = (\<lambda>now r. r\<lparr>rt_created_at := stamp now (rt_created_at r),
        rt_updated_at := stamp (stamp now (rt_created_at r)) (rt_updated_at r)\<rparr>),
     e_touch = (\<lambda>now r. r\<lparr>rt_updated_at := now\<rparr>)\<rparr>"

definition server_group_entity :: "server_group entity" where
  "server_group_entity = \<lparr>e_id = sg_id, e_set_id = (\<lambda>i r. r\<lparr>sg_id := i\<rparr>),
     e_created = (\<lambda>now r. r\<lparr>sg_created_at := stamp now (sg_created_at r),
        sg_updated_at := stamp (stamp now (sg_created_at r)) (sg_updated_at r)\<rparr>),
     e_touch = (\<lambda>now r. r\<lparr>sg_updated_at := now\<rparr>)\<rparr>"

definition notice_entity :: "notice entity" where
  "notice_entity = \<lparr>e_id = no_id, e_set_id = (\<lambda>i r. r\<lparr>no_id := i\<rparr>),
     e_created = (\<lambda>now r. r\<lparr>no_created_at := stamp now (no_created_at r),
        no_updated_at := stamp (stamp now (no_created_at r)) (no_updated_at r)\<rparr>),
     e_touch = (\<lambda>now r. r\<lparr>no_updated_at := now\<rparr>)\<rparr>"

definition knowledge_entity :: "knowledge entity" where
  "knowledge_entity = \<lparr>e_id = kn_id, e_set_id = (\<lambda>i r. r\<lparr>kn_id := i\<rparr>),
     e_created = (\<lambda>now r. r\<lparr>kn_created_at := stamp now (kn_created_at r),
        kn_updated_at := stamp (stamp now (kn_created_at r)) (kn_updated_at r)\<rparr>),
     e_touch = (\<lambda>now r. r\<lparr>kn_updated_at := now\<rparr>)\<rparr>"

lemmas entity_defs = user_entity_def order_entity_def plan_entity_def coupon_entity_def
  giftcard_entity_def redemption_entity_def commission_log_entity_def invite_code_entity_def
  ticket_entity_def ticket_message_entity_def payment_entity_def setting_entity_def
  queue_job_entity_def failed_job_entity_def log_event_entity_def stat_entity_def
  stat_server_entity_def stat_user_entity_def
  server_node_entity_def server_route_entity_def server_group_entity_def notice_entity_def knowledge_entity_def

interpretation users: repository user_entity
  by unfold_locales (simp_all add: user_entity_def)

interpretation orders: repository order_entity
  by unfold_locales (simp_all add: order_entity_def)

interpretation plans: repository plan_entity
  by unfold_locales (simp_all add: plan_entity_def)

interpretation coupons: repository coupon_entity
  by unfold_locales (simp_all add: coupon_entity_def)

interpretation giftcards: repository giftcard_entity
  by unfold_locales (simp_all add: giftcard_entity_def)

interpretation redemptions: repository redemption_entity
  by unfold_locales (simp_all add: redemption_entity_def)

interpretation commission_logs: repository commission_log_entity
  by unfold_locales (simp_all add: commission_log_entity_def)

interpretation invite_codes: repository invite_code_entity
  by unfold_locales (simp_all add: invite_code_entity_def)

interpretation tickets: repository ticket_entity
  by unfold_locales (simp_all add: ticket_entity_def)

interpretation ticket_messages: repository ticket_message_entity
  by unfold_locales (simp_all add: ticket_message_entity_def)

interpretation payments: repository payment_entity
  by unfold_locales (simp_all add: payment_entity_def)

interpretation settings: repository setting_entity
  by unfold_locales (simp_all add: setting_entity_def)

interpretation queue_jobs: repository queue_job_entity
  by unfold_locales (simp_all add: queue_job_entity_def)

interpretation failed_jobs: repository failed_job_entity
  by unfold_locales (simp_all add: failed_job_entity_def)

interpretation log_events: repository log_event_entity
  by unfold_locales (simp_all add: log_event_entity_def)

interpretation stats: repository stat_entity
  by unfold_locales (simp_all add: stat_entity_def)

interpretation stat_servers: repository stat_server_entity
  by unfold_locales (simp_all add: stat_server_entity_def)

interpretation stat_users: repository stat_user_entity
  by unfold_locales (simp_all add: stat_user_entity_def)

interpretation nodes: repository server_node_entity
  by unfold_locales (simp_all add: server_node_entity_def)

interpretation routes: repository server_route_entity
  by unfold_locales (simp_all add: server_route_entity_def)

interpretation server_groups: repository server_group_entity
  by unfold_locales (simp_all add: server_group_entity_def)

interpretation notices: repository notice_entity
  by unfold_locales (simp_all add: notice_entity_def)

interpretation knowledges: repository knowledge_entity
  by unfold_locales (simp_all add: knowledge_entity_def)

end
