(* ===== verification/PyStr.thy ===== *)
theory PyStr
  imports Prelude
begin

text \<open>
  The string operations of Python that the program uses, on ASCII strings: \<open>strip\<close>,
  \<open>upper\<close>, \<open>lower\<close>, \<open>split\<close>, \<open>isdigit\<close>, \<open>startswith\<close>, \<open>in\<close>, \<open>str(int)\<close> and \<open>int(str)\<close>.
  The main fact is \<open>py_int_str\<close>: reading a printed integer gives it back, which
  typed settings, job payloads and gift-card user lists rely on.
\<close>

section \<open>Characters\<close>

definition char_code :: "char \<Rightarrow> nat" where
  "char_code c = of_char c"

definition is_space :: "char \<Rightarrow> bool" where
  "is_space c \<longleftrightarrow> char_code c \<in> {9, 10, 11, 12, 13, 28, 29, 30, 31, 32}"

definition is_digit :: "char \<Rightarrow> bool" where
  "is_digit c \<longleftrightarrow> 48 \<le> char_code c \<and> char_code c \<le> 57"

definition upper_char :: "char \<Rightarrow> char" where
  "upper_char c = (if 97 \<le> char_code c \<and> char_code c \<le> 122 then char_of (char_code c - 32) else c)"

definition lower_char :: "char \<Rightarrow> char" where
  "lower_char c = (if 65 \<le> char_code c \<and> char_code c \<le> 90 then char_of (char_code c + 32) else c)"

definition upper :: "string \<Rightarrow> string" where
  "upper s = map upper_char s"

definition lower :: "string \<Rightarrow> string" where
  "lower s = map lower_char s"

definition lstrip :: "string \<Rightarrow> string" where
  "lstrip s = dropWhile is_space s"

definition rstrip :: "string \<Rightarrow> string" where
  "rstrip s = rev (dropWhile is_space (rev s))"

definition strip :: "string \<Rightarrow> string" where
  "strip s = rstrip (lstrip s)"

definition rstrip_chars :: "char set \<Rightarrow> string \<Rightarrow> string" where
  "rstrip_chars cs s = rev (dropWhile (\<lambda>c. c \<in> cs) (rev s))"

definition lstrip_chars :: "char set \<Rightarrow> string \<Rightarrow> string" where
  "lstrip_chars cs s = dropWhile (\<lambda>c. c \<in> cs) s"

definition isdigit :: "string \<Rightarrow> bool" where
  "isdigit s \<longleftrightarrow> s \<noteq> [] \<and> list_all is_digit s"

section \<open>Splitting and searching\<close>

fun split_on :: "char \<Rightarrow> string \<Rightarrow> string list" where
  "split_on d [] = [[]]"
| "split_on d (c # cs) =
     (if c = d then [] # split_on d cs
      else case split_on d cs of [] \<Rightarrow> [[c]] | w # ws \<Rightarrow> (c # w) # ws)"

text \<open>\<open>s.partition(d)\<close>: the text before the first \<open>d\<close>, whether \<open>d\<close> occurs, the text after.\<close>

definition partition_at :: "char \<Rightarrow> string \<Rightarrow> string \<times> bool \<times> string" where
  "partition_at d s = (takeWhile (\<lambda>c. c \<noteq> d) s, d \<in> set s, drop 1 (dropWhile (\<lambda>c. c \<noteq> d) s))"

text \<open>\<open>s.rsplit(d, 1)[-1]\<close>: the text after the last \<open>d\<close>, all of it without one.\<close>

definition after_last :: "char \<Rightarrow> string \<Rightarrow> string" where
  "after_last d s = rev (takeWhile (\<lambda>c. c \<noteq> d) (rev s))"

fun starts_with :: "string \<Rightarrow> string \<Rightarrow> bool" where
  "starts_with [] s = True"
| "starts_with (p # ps) [] = False"
| "starts_with (p # ps) (c # cs) = (p = c \<and> starts_with ps cs)"

fun contains :: "string \<Rightarrow> string \<Rightarrow> bool" where
  "contains p [] = (p = [])"
| "contains p (c # cs) = (starts_with p (c # cs) \<or> contains p cs)"

text \<open>\<open>s.split()\<close>: the runs of characters that are not white space.\<close>

function split_ws :: "string \<Rightarrow> string list" where
  "split_ws s = (case dropWhile is_space s of
      [] \<Rightarrow> []
    | c # cs \<Rightarrow> takeWhile (\<lambda>x. \<not> is_space x) (c # cs) # split_ws (dropWhile (\<lambda>x. \<not> is_space x) (c # cs)))"
  by pat_completeness auto

lemma dropWhile_head_shorter:
  assumes "dropWhile is_space s = c # cs"
  shows "length (dropWhile (\<lambda>x. \<not> is_space x) (c # cs)) < length s"
proof -
  from assms have "\<not> is_space c" using hd_dropWhile [of is_space s] by auto
  then have "length (dropWhile (\<lambda>x. \<not> is_space x) (c # cs)) \<le> length cs"
    by (simp add: length_dropWhile_le)
  moreover have "length (c # cs) \<le> length s"
    using assms length_dropWhile_le [of is_space s] by simp
  ultimately show ?thesis by simp
qed

termination split_ws
  by (relation "measure length") (use dropWhile_head_shorter in auto)

declare split_ws.simps [simp del]

section \<open>Integers\<close>

definition digit_char :: "nat \<Rightarrow> char" where
  "digit_char n = char_of (48 + n)"

definition digit_val :: "char \<Rightarrow> nat" where
  "digit_val c = char_code c - 48"

fun str_nat :: "nat \<Rightarrow> string" where
  "str_nat n = (if n < 10 then [digit_char n] else str_nat (n div 10) @ [digit_char (n mod 10)])"

declare str_nat.simps [simp del]

definition str_int :: "int \<Rightarrow> string" where
  "str_int n = (if n < 0 then CHR ''-'' # str_nat (nat (- n)) else str_nat (nat n))"

definition nat_of_digits :: "string \<Rightarrow> nat" where
  "nat_of_digits s = foldl (\<lambda>a c. 10 * a + digit_val c) 0 s"

text \<open>
  \<open>int(s)\<close>: surrounding white space, one sign, decimal digits with single underscores
  between digits; anything else is a \<open>ValueError\<close> (\<open>None\<close>).
\<close>

definition digit_groups :: "string \<Rightarrow> string option" where
  "digit_groups s = (let gs = split_on (CHR ''_'') s in
     if list_all isdigit gs then Some (concat gs) else None)"

definition py_int :: "string \<Rightarrow> int option" where
  "py_int s = (case strip s of
      [] \<Rightarrow> None
    | c # cs \<Rightarrow>
        (if c = CHR ''-'' then map_option (\<lambda>d. - int (nat_of_digits d)) (digit_groups cs)
         else if c = CHR ''+'' then map_option (\<lambda>d. int (nat_of_digits d)) (digit_groups cs)
         else map_option (\<lambda>d. int (nat_of_digits d)) (digit_groups (c # cs))))"

subsection \<open>Printing and reading\<close>

lemma code_digit_char: "n < 10 \<Longrightarrow> char_code (digit_char n) = 48 + n"
  by (simp add: char_code_def digit_char_def)

lemma is_digit_digit_char [simp]: "n < 10 \<Longrightarrow> is_digit (digit_char n)"
  by (simp add: is_digit_def code_digit_char)

lemma digit_val_digit_char [simp]: "n < 10 \<Longrightarrow> digit_val (digit_char n) = n"
  by (simp add: digit_val_def code_digit_char)

lemma str_nat_digits: "list_all is_digit (str_nat n)"
  by (induction n rule: str_nat.induct) (subst str_nat.simps, auto)

lemma str_nat_nonempty: "str_nat n \<noteq> []"
  by (subst str_nat.simps) simp

lemma nat_of_digits_snoc: "nat_of_digits (s @ [c]) = 10 * nat_of_digits s + digit_val c"
  by (simp add: nat_of_digits_def)

lemma nat_of_digits_str_nat [simp]: "nat_of_digits (str_nat n) = n"
proof (induction n rule: str_nat.induct)
  case (1 n)
  show ?case
  proof (cases "n < 10")
    case True
    then show ?thesis by (subst str_nat.simps) (simp add: nat_of_digits_def)
  next
    case False
    with 1 show ?thesis by (subst str_nat.simps) (simp add: nat_of_digits_snoc)
  qed
qed

lemma digit_not_space: "is_digit c \<Longrightarrow> \<not> is_space c"
  by (auto simp: is_digit_def is_space_def)

lemma digit_not_sign: "is_digit c \<Longrightarrow> c \<noteq> CHR ''-'' \<and> c \<noteq> CHR ''+'' \<and> c \<noteq> CHR ''_''"
  by (auto simp: is_digit_def char_code_def)

lemma dropWhile_none: "list_all (\<lambda>c. \<not> P c) s \<Longrightarrow> dropWhile P s = s"
  by (cases s) auto

lemma strip_id: "list_all (\<lambda>c. \<not> is_space c) s \<Longrightarrow> strip s = s"
  by (simp add: strip_def lstrip_def rstrip_def dropWhile_none list_all_rev)

lemma split_on_absent: "d \<notin> set s \<Longrightarrow> split_on d s = [s]"
  by (induction s) auto

lemma digit_groups_digits: "s \<noteq> [] \<Longrightarrow> list_all is_digit s \<Longrightarrow> digit_groups s = Some s"
proof -
  assume s: "s \<noteq> []" "list_all is_digit s"
  then have "CHR ''_'' \<notin> set s" by (auto simp: list_all_iff dest: digit_not_sign)
  with s show ?thesis by (simp add: digit_groups_def split_on_absent isdigit_def)
qed

lemma list_all_mono_pred: "list_all P s \<Longrightarrow> (\<And>x. P x \<Longrightarrow> Q x) \<Longrightarrow> list_all Q s"
  by (auto simp: list_all_iff)

lemma str_nat_not_space: "list_all (\<lambda>c. \<not> is_space c) (str_nat n)"
  by (rule list_all_mono_pred [OF str_nat_digits]) (rule digit_not_space)

lemma str_int_not_space: "list_all (\<lambda>c. \<not> is_space c) (str_int n)"
proof -
  have "\<not> is_space (CHR ''-'')" by (simp add: is_space_def char_code_def)
  then show ?thesis by (simp add: str_int_def str_nat_not_space)
qed

lemma py_int_str [simp]: "py_int (str_int n) = Some n"
proof (cases "n < 0")
  case True
  have "strip (str_int n) = CHR ''-'' # str_nat (nat (- n))"
    using strip_id [OF str_int_not_space, of n] True by (simp add: str_int_def)
  then show ?thesis
    using True by (simp add: py_int_def digit_groups_digits str_nat_nonempty str_nat_digits)
next
  case False
  then have e: "str_int n = str_nat (nat n)" by (simp add: str_int_def)
  obtain c cs where s: "str_nat (nat n) = c # cs"
    using str_nat_nonempty [of "nat n"] by (cases "str_nat (nat n)") auto
  with str_nat_digits [of "nat n"] have "is_digit c" by simp
  then have sign: "c \<noteq> CHR ''-''" "c \<noteq> CHR ''+''" using digit_not_sign by auto
  have st: "strip (str_int n) = c # cs"
    using strip_id [OF str_int_not_space, of n] e s by simp
  have v: "nat_of_digits (c # cs) = nat n"
    using nat_of_digits_str_nat [of "nat n"] s by simp
  have g: "digit_groups (c # cs) = Some (c # cs)"
    using digit_groups_digits [of "str_nat (nat n)"] str_nat_digits str_nat_nonempty s by metis
  show ?thesis using False sign by (simp add: py_int_def st g v)
qed

lemma str_int_inject [simp]: "str_int m = str_int n \<longleftrightarrow> m = n"
  by (metis option.inject py_int_str)

lemma isdigit_str_nat: "isdigit (str_nat n)"
  by (simp add: isdigit_def str_nat_nonempty str_nat_digits)

lemma isdigit_str_int: "isdigit (str_int n) \<longleftrightarrow> 0 \<le> n"
  by (auto simp: str_int_def isdigit_str_nat) (simp add: isdigit_def is_digit_def char_code_def)

section \<open>Normal forms\<close>

lemma rstrip_Cons_end: "rstrip s = s \<longleftrightarrow> (s = [] \<or> \<not> is_space (last s))"
proof (cases s rule: rev_cases)
  case (snoc xs x)
  have "length (dropWhile is_space (rev xs)) < Suc (length xs)"
    using length_dropWhile_le [of is_space "rev xs"] by simp
  then have "rev (dropWhile is_space (rev xs)) \<noteq> xs @ [x]"
    by (metis length_append_singleton length_rev nat_less_le)
  with snoc show ?thesis by (auto simp: rstrip_def)
qed (simp add: rstrip_def)

lemma strip_ends:
  assumes "strip s = c # cs"
  shows "\<not> is_space c" and "\<not> is_space (last (c # cs))"
proof -
  define t where "t = dropWhile is_space s"
  have r: "rev (dropWhile is_space (rev t)) = c # cs"
    using assms by (simp add: strip_def lstrip_def rstrip_def t_def)
  then have "dropWhile is_space (rev t) = rev (c # cs)"
    by (metis rev_rev_ident)
  then have "\<not> is_space (hd (rev (c # cs)))"
    by (metis hd_dropWhile list.distinct(1) rev_is_Nil_conv)
  then show "\<not> is_space (last (c # cs))" using hd_rev [of "c # cs"] by metis
  have "rev t = takeWhile is_space (rev t) @ rev (c # cs)"
    by (metis \<open>dropWhile is_space (rev t) = rev (c # cs)\<close> takeWhile_dropWhile_id)
  then have "t = c # cs @ rev (takeWhile is_space (rev t))"
    by (metis append_Cons rev_append rev_rev_ident)
  then show "\<not> is_space c" unfolding t_def
    by (metis dropWhile_eq_Cons_conv)
qed

lemma strip_strip [simp]: "strip (strip s) = strip s"
proof (cases "strip s")
  case (Cons c cs)
  with strip_ends [OF Cons] have "lstrip (c # cs) = c # cs" "rstrip (c # cs) = c # cs"
    by (auto simp: lstrip_def rstrip_Cons_end)
  then show ?thesis using Cons by (simp only: strip_def)
next
  case Nil
  have "strip [] = []" by (simp add: strip_def lstrip_def rstrip_def)
  then show ?thesis using Nil by simp
qed

lemma code_char_of [simp]: "n < 256 \<Longrightarrow> char_code (char_of n) = n"
  by (simp add: char_code_def)

lemma upper_upper [simp]: "upper (upper s) = upper s"
  by (induction s) (auto simp: upper_def upper_char_def)

lemma lower_lower [simp]: "lower (lower s) = lower s"
  by (induction s) (auto simp: lower_def lower_char_def)

lemma is_space_upper_char [simp]: "is_space (upper_char c) = is_space c"
  by (auto simp: upper_char_def is_space_def)

lemma is_space_lower_char [simp]: "is_space (lower_char c) = is_space c"
  by (auto simp: lower_char_def is_space_def)

lemma dropWhile_map_same: "(\<And>x. P (f x) = P x) \<Longrightarrow> dropWhile P (map f s) = map f (dropWhile P s)"
  by (induction s) auto

lemma strip_upper: "strip (upper s) = upper (strip s)"
  by (simp add: strip_def lstrip_def rstrip_def upper_def dropWhile_map_same rev_map)

lemma strip_lower: "strip (lower s) = lower (strip s)"
  by (simp add: strip_def lstrip_def rstrip_def lower_def dropWhile_map_same rev_map)

lemma upper_Nil [simp]: "upper s = [] \<longleftrightarrow> s = []"
  by (simp add: upper_def)

lemma lower_Nil [simp]: "lower s = [] \<longleftrightarrow> s = []"
  by (simp add: lower_def)

end
