(* ===== verification/Store.thy ===== *)
theory Store
  imports Repository PyStr "HOL-Library.Product_Lexorder"
begin

text \<open>
  The database as one record with a table per entity, and the queries of the repositories in
  \<open>app/repositories\<close>. A \<open>get_..._for_update\<close> reads the same row as its plain form: an
  operation of the model is one transaction, so the row lock has no further effect.

  A column declared UNIQUE is looked up with \<open>find\<close> and its uniqueness is enforced by the
  insert (\<open>IntegrityError\<close>); a lookup by a column that is not unique is
  \<open>scalar_one_or_none\<close>, which raises \<open>MultipleResultsFound\<close> for several rows. ORDER BY is
  \<open>sort_key\<close> on an integer key (negated for descending order); rows with equal keys come in
  insertion order.
\<close>

named_theorems store "updates of single tables"

record cache_row =
  ck_key :: string
  ck_value :: json
  ck_expires :: "int option"

record traffic_row =
  tr_stage :: string
  tr_user_id :: int
  tr_u :: int
  tr_d :: int

record db =
  t_users :: "user table"
  t_orders :: "order table"
  t_plans :: "plan table"
  t_coupons :: "coupon table"
  t_giftcards :: "giftcard table"
  t_redemptions :: "giftcard_redemption table"
  t_commission_logs :: "commission_log table"
  t_invite_codes :: "invite_code table"
  t_tickets :: "ticket table"
  t_ticket_messages :: "ticket_message table"
  t_payments :: "payment table"
  t_settings :: "setting table"
  t_queue_jobs :: "queue_job table"
  t_failed_jobs :: "failed_job table"
  t_log_events :: "log_event table"
  t_stats :: "stat table"
  t_stat_servers :: "stat_server table"
  t_stat_users :: "stat_user table"
  t_nodes :: "server_node table"
  t_routes :: "server_route table"
  t_server_groups :: "server_group table"
  t_notices :: "notice table"
  t_knowledge :: "knowledge table"
  t_cache :: "cache_row list"
  t_traffic :: "traffic_row list"

definition empty_db :: db where
  "empty_db = \<lparr>t_users = empty_table, t_orders = empty_table, t_plans = empty_table,
     t_coupons = empty_table, t_giftcards = empty_table, t_redemptions = empty_table,
     t_commission_logs = empty_table, t_invite_codes = empty_table, t_tickets = empty_table,
     t_ticket_messages = empty_table, t_payments = empty_table, t_settings = empty_table,
     t_queue_jobs = empty_table, t_failed_jobs = empty_table, t_log_events = empty_table,
     t_stats = empty_table, t_stat_servers = empty_table, t_stat_users = empty_table,
     t_nodes = empty_table, t_routes = empty_table, t_server_groups = empty_table, t_notices = empty_table, t_knowledge = empty_table,
     t_cache = [], t_traffic = []\<rparr>"

text \<open>Sort key of \<open>asc().nulls_last()\<close>.\<close>

definition nulls_last :: "int option \<Rightarrow> int \<times> int" where
  "nulls_last s = (case s of None \<Rightarrow> (1, 0) | Some x \<Rightarrow> (0, x))"

text \<open>SQL's LIKE with its default escape character, and ILIKE.\<close>

fun like_match :: "string \<Rightarrow> string \<Rightarrow> bool" where
  "like_match [] s = (s = [])"
| "like_match (p # ps) s =
     (if p = CHR ''%'' then like_match ps s \<or> (case s of [] \<Rightarrow> False | c # cs \<Rightarrow> like_match (p # ps) cs)
      else if p = CHR ''_'' then (case s of [] \<Rightarrow> False | c # cs \<Rightarrow> like_match ps cs)
      else if p = CHR 0x5C then
        (case ps of [] \<Rightarrow> False | q # qs \<Rightarrow> (case s of [] \<Rightarrow> False | c # cs \<Rightarrow> c = q \<and> like_match qs cs))
      else (case s of [] \<Rightarrow> False | c # cs \<Rightarrow> c = p \<and> like_match ps cs))"

definition ilike :: "string \<Rightarrow> string \<Rightarrow> bool" where
  "ilike s pat = like_match (lower pat) (lower s)"

definition find_one :: "('r \<Rightarrow> bool) \<Rightarrow> 'r table \<Rightarrow> exn + 'r option" where
  "find_one P t = scalar_one_or_none MultipleResultsFound (filter P (rows t))"

section \<open>Users\<close>

definition user_by_id :: "db \<Rightarrow> int \<Rightarrow> user option" where
  "user_by_id db i = repo_get user_entity (t_users db) i"

definition user_by_id_for_update :: "db \<Rightarrow> int \<Rightarrow> user option" where
  "user_by_id_for_update db i = find (\<lambda>u. us_id u = i) (rows (t_users db))"

definition user_by_email :: "db \<Rightarrow> string \<Rightarrow> user option" where
  "user_by_email db e = find (\<lambda>u. us_email u = e) (rows (t_users db))"

definition email_exists :: "db \<Rightarrow> string \<Rightarrow> bool" where
  "email_exists db e = (user_by_email db e \<noteq> None)"

definition user_by_token :: "db \<Rightarrow> string \<Rightarrow> user option" where
  "user_by_token db tok = find (\<lambda>u. us_token u = tok) (rows (t_users db))"

definition user_by_telegram_id :: "db \<Rightarrow> int \<Rightarrow> exn + user option" where
  "user_by_telegram_id db tid = find_one (\<lambda>u. us_telegram_id u = Some tid) (t_users db)"

definition search_users :: "db \<Rightarrow> int \<Rightarrow> int \<Rightarrow> string option \<Rightarrow> string option \<Rightarrow> user list" where
  "search_users db offset limit q status =
     (let by_q = (case q of None \<Rightarrow> (\<lambda>u. True) | Some s \<Rightarrow>
            if s = [] then (\<lambda>u. True) else
            (let keyword = strip s in
             if isdigit keyword then
               (\<lambda>u. us_id u = int (nat_of_digits keyword) \<or> ilike (us_email u) (''%'' @ keyword @ ''%''))
             else (\<lambda>u. ilike (us_email u) (''%'' @ keyword @ ''%''))));
          by_status = (if status = Some ''banned'' then us_banned
            else if status = Some ''active'' then (\<lambda>u. \<not> us_banned u)
            else if status = Some ''admin'' then us_is_admin
            else if status = Some ''staff'' then us_is_staff
            else (\<lambda>u. True))
      in paginate offset limit
           (sort_key (\<lambda>u. - us_id u) (filter (\<lambda>u. by_q u \<and> by_status u) (rows (t_users db)))))"

definition count_invited_users :: "db \<Rightarrow> int \<Rightarrow> int" where
  "count_invited_users db i = count_where (\<lambda>u. us_invite_user_id u = Some i) (rows (t_users db))"

definition count_pending_orders :: "db \<Rightarrow> int \<Rightarrow> int" where
  "count_pending_orders db i = count_where (\<lambda>r. od_user_id r = i \<and> od_status r = 0) (rows (t_orders db))"

definition count_open_tickets :: "db \<Rightarrow> int \<Rightarrow> int" where
  "count_open_tickets db i = count_where (\<lambda>r. tk_user_id r = i \<and> tk_status r = 0) (rows (t_tickets db))"

definition put_user :: "int \<Rightarrow> db \<Rightarrow> user \<Rightarrow> db" where
  [store]: "put_user now db u = db\<lparr>t_users := repo_update user_entity now (t_users db) u\<rparr>"

text \<open>The unique constraints on \<open>email\<close> and \<open>token\<close>.\<close>

definition user_key_free :: "db \<Rightarrow> user \<Rightarrow> bool" where
  "user_key_free db u =
     (\<not> list_ex (\<lambda>v. us_id v \<noteq> us_id u \<and> (us_email v = us_email u \<or> us_token v = us_token u)) (rows (t_users db)))"

definition save_user :: "int \<Rightarrow> db \<Rightarrow> user \<Rightarrow> exn + db" where
  "save_user now db u = guardE (\<not> user_key_free db u) IntegrityError (Inr (put_user now db u))"

definition insert_user :: "int \<Rightarrow> db \<Rightarrow> user \<Rightarrow> exn + (user \<times> db)" where
  "insert_user now db u =
     guardE (list_ex (\<lambda>v. us_email v = us_email u \<or> us_token v = us_token u) (rows (t_users db))) IntegrityError
       (Inr (new_row user_entity now (t_users db) u, db\<lparr>t_users := repo_create user_entity now (t_users db) u\<rparr>))"

section \<open>Orders\<close>

definition order_by_id :: "db \<Rightarrow> int \<Rightarrow> order option" where
  "order_by_id db i = repo_get order_entity (t_orders db) i"

definition order_by_trade_no :: "db \<Rightarrow> string \<Rightarrow> order option" where
  "order_by_trade_no db tn = find (\<lambda>r. od_trade_no r = tn) (rows (t_orders db))"

definition order_by_trade_no_for_update :: "db \<Rightarrow> string \<Rightarrow> order option" where
  "order_by_trade_no_for_update db tn = order_by_trade_no db tn"

definition order_by_id_for_update :: "db \<Rightarrow> int \<Rightarrow> order option" where
  "order_by_id_for_update db i = find (\<lambda>r. od_id r = i) (rows (t_orders db))"

definition orders_by_user :: "db \<Rightarrow> int \<Rightarrow> int option \<Rightarrow> int \<Rightarrow> int \<Rightarrow> order list" where
  "orders_by_user db uid status offset limit =
     paginate offset limit (sort_key (\<lambda>r. - od_created_at r)
       (filter (\<lambda>r. od_user_id r = uid \<and> (case status of None \<Rightarrow> True | Some s \<Rightarrow> od_status r = s))
         (rows (t_orders db))))"

definition has_pending_order :: "db \<Rightarrow> int \<Rightarrow> bool" where
  "has_pending_order db uid = list_ex (\<lambda>r. od_user_id r = uid \<and> od_status r = 0) (rows (t_orders db))"

definition pending_by_trade_no :: "db \<Rightarrow> string \<Rightarrow> int \<Rightarrow> order option" where
  "pending_by_trade_no db tn uid =
     find (\<lambda>r. od_trade_no r = tn \<and> od_user_id r = uid \<and> od_status r = 0) (rows (t_orders db))"

definition has_paid_order :: "db \<Rightarrow> int \<Rightarrow> bool" where
  "has_paid_order db uid =
     list_ex (\<lambda>r. od_user_id r = uid \<and> (od_status r = 3 \<or> od_status r = 4)) (rows (t_orders db))"

definition count_completed_plan_orders :: "db \<Rightarrow> int \<Rightarrow> int" where
  "count_completed_plan_orders db uid =
     count_where (\<lambda>r. od_user_id r = uid \<and> 0 < od_plan_id r \<and> od_status r = 3) (rows (t_orders db))"

definition sum_pending_commission :: "db \<Rightarrow> int \<Rightarrow> int" where
  "sum_pending_commission db uid =
     sum_where (\<lambda>r. od_status r = 3 \<and> od_commission_status r = 0 \<and> od_invite_user_id r = Some uid)
       od_commission_balance (rows (t_orders db))"

definition put_order :: "int \<Rightarrow> db \<Rightarrow> order \<Rightarrow> db" where
  [store]: "put_order now db r = db\<lparr>t_orders := repo_update order_entity now (t_orders db) r\<rparr>"

definition insert_order :: "int \<Rightarrow> db \<Rightarrow> order \<Rightarrow> exn + (order \<times> db)" where
  "insert_order now db r =
     guardE (list_ex (\<lambda>x. od_trade_no x = od_trade_no r) (rows (t_orders db))) IntegrityError
       (Inr (new_row order_entity now (t_orders db) r, db\<lparr>t_orders := repo_create order_entity now (t_orders db) r\<rparr>))"

section \<open>Plans\<close>

definition plan_by_id :: "db \<Rightarrow> int \<Rightarrow> plan option" where
  "plan_by_id db i = repo_get plan_entity (t_plans db) i"

definition plan_by_id_for_update :: "db \<Rightarrow> int \<Rightarrow> plan option" where
  "plan_by_id_for_update db i = find (\<lambda>p. pl_id p = i) (rows (t_plans db))"

definition plans_visible :: "db \<Rightarrow> plan list" where
  "plans_visible db = sort_key (\<lambda>p. (nulls_last (pl_sort p), pl_id p)) (filter pl_show (rows (t_plans db)))"

definition plans_all :: "db \<Rightarrow> plan list" where
  "plans_all db = sort_key (\<lambda>p. (nulls_last (pl_sort p), pl_id p)) (rows (t_plans db))"

text \<open>
  \<open>count_active_users\<close> is the number of users per plan whose subscription has not run out;
  the column \<open>expired_at\<close> is NOT NULL, so its \<open>IS NULL\<close> alternative never applies.
\<close>

definition active_users_of_plan :: "int \<Rightarrow> db \<Rightarrow> int \<Rightarrow> int" where
  "active_users_of_plan now db pid =
     count_where (\<lambda>u. us_plan_id u = Some pid \<and> now \<le> us_expired_at u) (rows (t_users db))"

definition plan_has_orders :: "db \<Rightarrow> int \<Rightarrow> bool" where
  "plan_has_orders db pid = (0 < count_where (\<lambda>r. od_plan_id r = pid) (rows (t_orders db)))"

definition plan_has_active_users :: "int \<Rightarrow> db \<Rightarrow> int \<Rightarrow> bool" where
  "plan_has_active_users now db pid = (0 < active_users_of_plan now db pid)"

definition put_plan :: "int \<Rightarrow> db \<Rightarrow> plan \<Rightarrow> db" where
  [store]: "put_plan now db p = db\<lparr>t_plans := repo_update plan_entity now (t_plans db) p\<rparr>"

section \<open>Coupons, gift cards, commission logs, invite codes\<close>

definition coupon_by_id :: "db \<Rightarrow> int \<Rightarrow> coupon option" where
  "coupon_by_id db i = repo_get coupon_entity (t_coupons db) i"

definition coupons_all :: "db \<Rightarrow> int \<Rightarrow> int \<Rightarrow> coupon list" where
  "coupons_all db offset limit = paginate offset limit (sort_key (\<lambda>c. - cp_id c) (rows (t_coupons db)))"

definition coupon_by_code :: "db \<Rightarrow> string \<Rightarrow> exn + coupon option" where
  "coupon_by_code db c = find_one (\<lambda>r. cp_code r = c) (t_coupons db)"

definition coupon_by_id_for_update :: "db \<Rightarrow> int \<Rightarrow> coupon option" where
  "coupon_by_id_for_update db i = find (\<lambda>c. cp_id c = i) (rows (t_coupons db))"

definition coupon_code_exists :: "db \<Rightarrow> string \<Rightarrow> exn + bool" where
  "coupon_code_exists db c = bindE (coupon_by_code db c) (\<lambda>r. Inr (r \<noteq> None))"

definition coupon_count_used :: "db \<Rightarrow> int \<Rightarrow> int" where
  "coupon_count_used db cid =
     count_where (\<lambda>r. od_coupon_id r = Some cid \<and> od_status r \<notin> {0, 2}) (rows (t_orders db))"

definition coupon_count_user_used :: "db \<Rightarrow> int \<Rightarrow> int \<Rightarrow> int option \<Rightarrow> int" where
  "coupon_count_user_used db cid uid excl =
     count_where (\<lambda>r. od_coupon_id r = Some cid \<and> od_user_id r = uid \<and> od_status r \<notin> {0, 2} \<and>
         (case excl of None \<Rightarrow> True | Some i \<Rightarrow> od_id r \<noteq> i)) (rows (t_orders db))"

definition put_coupon :: "int \<Rightarrow> db \<Rightarrow> coupon \<Rightarrow> db" where
  [store]: "put_coupon now db c = db\<lparr>t_coupons := repo_update coupon_entity now (t_coupons db) c\<rparr>"

definition giftcard_by_id :: "db \<Rightarrow> int \<Rightarrow> giftcard option" where
  "giftcard_by_id db i = repo_get giftcard_entity (t_giftcards db) i"

definition giftcards_all :: "db \<Rightarrow> int \<Rightarrow> int \<Rightarrow> giftcard list" where
  "giftcards_all db offset limit = paginate offset limit (sort_key (\<lambda>c. - gc_id c) (rows (t_giftcards db)))"

definition giftcard_by_code :: "db \<Rightarrow> string \<Rightarrow> exn + giftcard option" where
  "giftcard_by_code db c = find_one (\<lambda>r. gc_code r = c) (t_giftcards db)"

definition giftcard_by_code_for_update :: "db \<Rightarrow> string \<Rightarrow> exn + giftcard option" where
  "giftcard_by_code_for_update db c = giftcard_by_code db c"

definition giftcard_code_exists :: "db \<Rightarrow> string \<Rightarrow> exn + bool" where
  "giftcard_code_exists db c = bindE (giftcard_by_code db c) (\<lambda>r. Inr (r \<noteq> None))"

definition put_giftcard :: "int \<Rightarrow> db \<Rightarrow> giftcard \<Rightarrow> db" where
  [store]: "put_giftcard now db c = db\<lparr>t_giftcards := repo_update giftcard_entity now (t_giftcards db) c\<rparr>"

definition redemption_by_card_and_user :: "db \<Rightarrow> int \<Rightarrow> int \<Rightarrow> giftcard_redemption option" where
  "redemption_by_card_and_user db gid uid =
     find (\<lambda>r. gr_giftcard_id r = gid \<and> gr_user_id r = uid) (rows (t_redemptions db))"

definition insert_redemption :: "int \<Rightarrow> db \<Rightarrow> giftcard_redemption \<Rightarrow> exn + (giftcard_redemption \<times> db)" where
  "insert_redemption now db r =
     guardE (list_ex (\<lambda>x. gr_giftcard_id x = gr_giftcard_id r \<and> gr_user_id x = gr_user_id r) (rows (t_redemptions db)))
       IntegrityError
       (Inr (new_row redemption_entity now (t_redemptions db) r,
             db\<lparr>t_redemptions := repo_create redemption_entity now (t_redemptions db) r\<rparr>))"

definition commission_logs_by_inviter :: "db \<Rightarrow> int \<Rightarrow> int \<Rightarrow> int \<Rightarrow> commission_log list" where
  "commission_logs_by_inviter db uid offset limit =
     paginate offset limit (sort_key (\<lambda>r. - cl_created_at r)
       (filter (\<lambda>r. cl_invite_user_id r = uid) (rows (t_commission_logs db))))"

definition commission_logs_all :: "db \<Rightarrow> int \<Rightarrow> int \<Rightarrow> commission_log list" where
  "commission_logs_all db offset limit =
     paginate offset limit (sort_key (\<lambda>r. - cl_created_at r) (rows (t_commission_logs db)))"

definition commission_log_by_trade_no :: "db \<Rightarrow> string \<Rightarrow> commission_log option" where
  "commission_log_by_trade_no db tn = find (\<lambda>r. cl_trade_no r = tn) (rows (t_commission_logs db))"

definition sum_commission_by_inviter :: "db \<Rightarrow> int \<Rightarrow> int" where
  "sum_commission_by_inviter db uid =
     sum_where (\<lambda>r. cl_invite_user_id r = uid) cl_get_amount (rows (t_commission_logs db))"

definition insert_commission_log :: "int \<Rightarrow> db \<Rightarrow> commission_log \<Rightarrow> exn + (commission_log \<times> db)" where
  "insert_commission_log now db r =
     guardE (list_ex (\<lambda>x. cl_trade_no x = cl_trade_no r) (rows (t_commission_logs db))) IntegrityError
       (Inr (new_row commission_log_entity now (t_commission_logs db) r,
             db\<lparr>t_commission_logs := repo_create commission_log_entity now (t_commission_logs db) r\<rparr>))"

definition invite_codes_all :: "db \<Rightarrow> int \<Rightarrow> int \<Rightarrow> invite_code list" where
  "invite_codes_all db offset limit = paginate offset limit (sort_key (\<lambda>c. - iv_id c) (rows (t_invite_codes db)))"

definition invite_codes_by_user :: "db \<Rightarrow> int \<Rightarrow> int option \<Rightarrow> invite_code list" where
  "invite_codes_by_user db uid status =
     sort_key (\<lambda>c. - iv_id c)
       (filter (\<lambda>c. iv_user_id c = uid \<and> (case status of None \<Rightarrow> True | Some s \<Rightarrow> iv_status c = s)) (rows (t_invite_codes db)))"

definition count_active_invites :: "db \<Rightarrow> int \<Rightarrow> int" where
  "count_active_invites db uid =
     int (length (filter (\<lambda>c. iv_user_id c = uid \<and> iv_status c = 0) (rows (t_invite_codes db))))"

definition active_invite_by_code :: "db \<Rightarrow> string \<Rightarrow> exn + invite_code option" where
  "active_invite_by_code db c = find_one (\<lambda>r. iv_code r = c \<and> iv_status r = 0) (t_invite_codes db)"

definition invite_by_code :: "db \<Rightarrow> string \<Rightarrow> exn + invite_code option" where
  "invite_by_code db c = find_one (\<lambda>r. iv_code r = c) (t_invite_codes db)"

definition invite_code_exists :: "db \<Rightarrow> string \<Rightarrow> bool" where
  "invite_code_exists db c = list_ex (\<lambda>r. iv_code r = c) (rows (t_invite_codes db))"

definition put_invite :: "int \<Rightarrow> db \<Rightarrow> invite_code \<Rightarrow> db" where
  [store]: "put_invite now db c = db\<lparr>t_invite_codes := repo_update invite_code_entity now (t_invite_codes db) c\<rparr>"

section \<open>Tickets, payments, settings\<close>

definition ticket_by_id :: "db \<Rightarrow> int \<Rightarrow> ticket option" where
  "ticket_by_id db i = repo_get ticket_entity (t_tickets db) i"

definition tickets_by_user :: "db \<Rightarrow> int \<Rightarrow> int \<Rightarrow> int \<Rightarrow> ticket list" where
  "tickets_by_user db uid offset limit =
     paginate offset limit (sort_key (\<lambda>r. - tk_updated_at r) (filter (\<lambda>r. tk_user_id r = uid) (rows (t_tickets db))))"

definition count_open_by_user :: "db \<Rightarrow> int \<Rightarrow> int" where
  "count_open_by_user db uid = count_where (\<lambda>r. tk_user_id r = uid \<and> tk_status r = 0) (rows (t_tickets db))"

text \<open>The join with the users on the email counts a ticket once per matching user.\<close>

definition ticket_filter :: "db \<Rightarrow> int option \<Rightarrow> int option \<Rightarrow> string option \<Rightarrow> ticket list" where
  "ticket_filter db status reply_status email =
     (let base = filter (\<lambda>r. (case status of None \<Rightarrow> True | Some s \<Rightarrow> tk_status r = s) \<and>
             (case reply_status of None \<Rightarrow> True | Some s \<Rightarrow> tk_reply_status r = s)) (rows (t_tickets db))
      in case email of None \<Rightarrow> base
         | Some e \<Rightarrow> if e = [] then base else
             concat (map (\<lambda>r. map (\<lambda>_. r) (filter (\<lambda>u. us_id u = tk_user_id r \<and> us_email u = e) (rows (t_users db)))) base))"

definition tickets_all :: "db \<Rightarrow> int \<Rightarrow> int \<Rightarrow> int option \<Rightarrow> int option \<Rightarrow> string option \<Rightarrow> ticket list" where
  "tickets_all db offset limit status reply_status email =
     paginate offset limit (sort_key (\<lambda>r. - tk_updated_at r) (ticket_filter db status reply_status email))"

definition count_tickets :: "db \<Rightarrow> int option \<Rightarrow> int option \<Rightarrow> string option \<Rightarrow> int" where
  "count_tickets db status reply_status email = int (length (ticket_filter db status reply_status email))"

definition put_ticket :: "int \<Rightarrow> db \<Rightarrow> ticket \<Rightarrow> db" where
  [store]: "put_ticket now db r = db\<lparr>t_tickets := repo_update ticket_entity now (t_tickets db) r\<rparr>"

definition messages_by_ticket :: "db \<Rightarrow> int \<Rightarrow> ticket_message list" where
  "messages_by_ticket db tid = sort_key tm_id (filter (\<lambda>m. tm_ticket_id m = tid) (rows (t_ticket_messages db)))"

definition last_message :: "db \<Rightarrow> int \<Rightarrow> ticket_message option" where
  "last_message db tid =
     (case sort_key (\<lambda>m. - tm_id m) (filter (\<lambda>m. tm_ticket_id m = tid) (rows (t_ticket_messages db))) of
        [] \<Rightarrow> None | m # _ \<Rightarrow> Some m)"

definition payment_by_id :: "db \<Rightarrow> int \<Rightarrow> payment option" where
  "payment_by_id db i = repo_get payment_entity (t_payments db) i"

definition enabled_payments :: "db \<Rightarrow> payment list" where
  "enabled_payments db = sort_key (\<lambda>p. nulls_last (pm_sort p)) (filter pm_enable (rows (t_payments db)))"

definition enabled_payment_by_id :: "db \<Rightarrow> int \<Rightarrow> payment option" where
  "enabled_payment_by_id db i = find (\<lambda>p. pm_id p = i \<and> pm_enable p) (rows (t_payments db))"

definition payment_by_uuid :: "db \<Rightarrow> string \<Rightarrow> exn + payment option" where
  "payment_by_uuid db u = find_one (\<lambda>p. pm_uuid p = u) (t_payments db)"

definition payment_has_orders :: "db \<Rightarrow> int \<Rightarrow> bool" where
  "payment_has_orders db i = (0 < count_where (\<lambda>r. od_payment_id r = Some i) (rows (t_orders db)))"

definition put_payment :: "int \<Rightarrow> db \<Rightarrow> payment \<Rightarrow> db" where
  [store]: "put_payment now db p = db\<lparr>t_payments := repo_update payment_entity now (t_payments db) p\<rparr>"

definition setting_by_id :: "db \<Rightarrow> int \<Rightarrow> setting option" where
  "setting_by_id db i = repo_get setting_entity (t_settings db) i"

definition setting_by_key :: "db \<Rightarrow> string \<Rightarrow> setting option" where
  "setting_by_key db k = find (\<lambda>s. st_key s = k) (rows (t_settings db))"

definition put_setting :: "int \<Rightarrow> db \<Rightarrow> setting \<Rightarrow> db" where
  [store]: "put_setting now db s = db\<lparr>t_settings := repo_update setting_entity now (t_settings db) s\<rparr>"

definition insert_setting :: "int \<Rightarrow> db \<Rightarrow> setting \<Rightarrow> exn + (setting \<times> db)" where
  "insert_setting now db s =
     guardE (list_ex (\<lambda>x. st_key x = st_key s) (rows (t_settings db))) IntegrityError
       (Inr (new_row setting_entity now (t_settings db) s,
             db\<lparr>t_settings := repo_create setting_entity now (t_settings db) s\<rparr>))"

section \<open>Well-formed databases\<close>

text \<open>Every table has distinct primary keys drawn from its sequence, and the unique columns
  hold no duplicates.\<close>

definition wf_db :: "db \<Rightarrow> bool" where
  "wf_db db \<longleftrightarrow> wf_table user_entity (t_users db) \<and> wf_table order_entity (t_orders db)
     \<and> wf_table plan_entity (t_plans db) \<and> wf_table coupon_entity (t_coupons db)
     \<and> wf_table giftcard_entity (t_giftcards db) \<and> wf_table redemption_entity (t_redemptions db)
     \<and> wf_table commission_log_entity (t_commission_logs db)
     \<and> wf_table payment_entity (t_payments db)
     \<and> distinct (map od_trade_no (rows (t_orders db)))
     \<and> distinct (map us_email (rows (t_users db)))"

text \<open>The projections of the primary key, so that the generic repository facts speak of the fields.\<close>

lemma entity_ids [simp]:
  "e_id user_entity = us_id" "e_id order_entity = od_id" "e_id plan_entity = pl_id"
  "e_id coupon_entity = cp_id" "e_id giftcard_entity = gc_id" "e_id redemption_entity = gr_id"
  "e_id commission_log_entity = cl_id" "e_id invite_code_entity = iv_id" "e_id ticket_entity = tk_id"
  "e_id ticket_message_entity = tm_id" "e_id payment_entity = pm_id" "e_id setting_entity = st_id"
  "e_id queue_job_entity = qj_id" "e_id failed_job_entity = fj_id" "e_id log_event_entity = le_id"
  "e_id stat_entity = sa_id" "e_id stat_server_entity = ss_id" "e_id stat_user_entity = su_id"
  "e_id server_node_entity = nd_id" "e_id server_route_entity = rt_id" "e_id server_group_entity = sg_id" "e_id notice_entity = no_id" "e_id knowledge_entity = kn_id"
  by (simp_all add: entity_defs)

lemma user_for_update_is_by_id: "user_by_id_for_update db i = user_by_id db i"
  by (simp add: user_by_id_for_update_def user_by_id_def repo_get_def)

lemma order_for_update_is_by_id: "order_by_id_for_update db i = order_by_id db i"
  by (simp add: order_by_id_for_update_def order_by_id_def repo_get_def)

lemma plan_for_update_is_by_id: "plan_by_id_for_update db i = plan_by_id db i"
  by (simp add: plan_by_id_for_update_def plan_by_id_def repo_get_def)

lemma coupon_for_update_is_by_id: "coupon_by_id_for_update db i = coupon_by_id db i"
  by (simp add: coupon_by_id_for_update_def coupon_by_id_def repo_get_def)

lemmas for_update = user_for_update_is_by_id order_for_update_is_by_id plan_for_update_is_by_id
  coupon_for_update_is_by_id

lemma user_by_idD: "user_by_id db i = Some u \<Longrightarrow> u \<in> set (rows (t_users db)) \<and> us_id u = i"
  using repo_get_SomeD [of user_entity] by (simp add: user_by_id_def)

lemma order_by_idD: "order_by_id db i = Some r \<Longrightarrow> r \<in> set (rows (t_orders db)) \<and> od_id r = i"
  using repo_get_SomeD [of order_entity] by (simp add: order_by_id_def)

lemma order_by_trade_noD:
  "order_by_trade_no db tn = Some r \<Longrightarrow> r \<in> set (rows (t_orders db)) \<and> od_trade_no r = tn"
  by (auto simp: order_by_trade_no_def dest: find_Some_set)

lemma plan_by_idD: "plan_by_id db i = Some p \<Longrightarrow> p \<in> set (rows (t_plans db)) \<and> pl_id p = i"
  using repo_get_SomeD [of plan_entity] by (simp add: plan_by_id_def)

lemma coupon_by_idD: "coupon_by_id db i = Some c \<Longrightarrow> c \<in> set (rows (t_coupons db)) \<and> cp_id c = i"
  using repo_get_SomeD [of coupon_entity] by (simp add: coupon_by_id_def)

lemma pending_by_trade_noD:
  "pending_by_trade_no db tn uid = Some r \<Longrightarrow>
     r \<in> set (rows (t_orders db)) \<and> od_trade_no r = tn \<and> od_user_id r = uid \<and> od_status r = 0"
  by (auto simp: pending_by_trade_no_def dest: find_Some_set)

lemma find_one_Some: "find_one P t = Inr (Some r) \<Longrightarrow> r \<in> set (rows t) \<and> P r"
proof -
  assume "find_one P t = Inr (Some r)"
  then have "filter P (rows t) = [r]" by (simp add: find_one_def scalar_one_or_none_eq)
  then have "r \<in> set (filter P (rows t))" by simp
  then show ?thesis by simp
qed

lemma find_one_None: "find_one P t = Inr None \<longleftrightarrow> (\<forall>r\<in>set (rows t). \<not> P r)"
  by (auto simp: find_one_def scalar_one_or_none_eq filter_empty_conv)

lemma wf_order_get:
  "wf_db db \<Longrightarrow> r \<in> set (rows (t_orders db)) \<Longrightarrow> order_by_id db (od_id r) = Some r"
  using orders.get_unique [of "t_orders db" r] by (simp add: wf_db_def order_by_id_def)

lemma wf_user_get:
  "wf_db db \<Longrightarrow> u \<in> set (rows (t_users db)) \<Longrightarrow> user_by_id db (us_id u) = Some u"
  using users.get_unique [of "t_users db" u] by (simp add: wf_db_def user_by_id_def)

lemma stored_fields_order [simp]:
  "od_status (stored order_entity now x r) = od_status r"
  "od_user_id (stored order_entity now x r) = od_user_id r"
  "od_trade_no (stored order_entity now x r) = od_trade_no r"
  "od_plan_id (stored order_entity now x r) = od_plan_id r"
  "od_id (stored order_entity now x r) = od_id r"
  "od_coupon_id (stored order_entity now x r) = od_coupon_id r"
  "od_total_amount (stored order_entity now x r) = od_total_amount r"
  "od_commission_status (stored order_entity now x r) = od_commission_status r"
  "od_commission_balance (stored order_entity now x r) = od_commission_balance r"
  "od_actual_commission_balance (stored order_entity now x r) = od_actual_commission_balance r"
  "od_discount_amount (stored order_entity now x r) = od_discount_amount r"
  "od_balance_amount (stored order_entity now x r) = od_balance_amount r"
  "od_handling_amount (stored order_entity now x r) = od_handling_amount r"
  "od_surplus_amount (stored order_entity now x r) = od_surplus_amount r"
  "od_payment_id (stored order_entity now x r) = od_payment_id r"
  "od_invite_user_id (stored order_entity now x r) = od_invite_user_id r"
  "od_period (stored order_entity now x r) = od_period r"
  "od_type (stored order_entity now x r) = od_type r"
  "od_paid_at (stored order_entity now x r) = od_paid_at r"
  "od_callback_no (stored order_entity now x r) = od_callback_no r"
  by (auto simp: stored_def order_entity_def)

lemma stored_fields_user [simp]:
  "us_id (stored user_entity now x u) = us_id u"
  "us_email (stored user_entity now x u) = us_email u"
  "us_token (stored user_entity now x u) = us_token u"
  "us_balance (stored user_entity now x u) = us_balance u"
  "us_commission_balance (stored user_entity now x u) = us_commission_balance u"
  "us_plan_id (stored user_entity now x u) = us_plan_id u"
  "us_group_id (stored user_entity now x u) = us_group_id u"
  "us_expired_at (stored user_entity now x u) = us_expired_at u"
  "us_transfer_enable (stored user_entity now x u) = us_transfer_enable u"
  "us_u (stored user_entity now x u) = us_u u"
  "us_d (stored user_entity now x u) = us_d u"
  "us_banned (stored user_entity now x u) = us_banned u"
  by (simp_all add: stored_def user_entity_def)

text \<open>An update keeps a column's values when it keeps that of the updated row.\<close>

lemma map_col_update:
  assumes "\<And>x y. f (stored E now x y) = f y"
    and "distinct (map (e_id E) (rows t))" "repo_get E t (e_id E r) = Some r0" "f r = f r0"
  shows "map f (rows (repo_update E now t r)) = map f (rows t)"
proof -
  have "x = r0" if "x \<in> set (rows t)" "e_id E x = e_id E r" for x
    using that assms(2) repo_get_SomeD [OF assms(3)] unfolding distinct_map by (metis inj_onD)
  then show ?thesis using assms(1,4) by (auto simp: rows_repo_update)
qed

text \<open>The columns an insert does not fill in.\<close>

lemma new_row_setting [simp]:
  "st_key (new_row setting_entity now t s) = st_key s"
  "st_value (new_row setting_entity now t s) = st_value s"
  "st_type (new_row setting_entity now t s) = st_type s"
  by (simp_all add: new_row_def setting_entity_def)

lemma new_row_order [simp]:
  "od_id (new_row order_entity now t r) = next_id t"
  "od_status (new_row order_entity now t r) = od_status r"
  "od_user_id (new_row order_entity now t r) = od_user_id r"
  "od_trade_no (new_row order_entity now t r) = od_trade_no r"
  "od_plan_id (new_row order_entity now t r) = od_plan_id r"
  "od_period (new_row order_entity now t r) = od_period r"
  "od_type (new_row order_entity now t r) = od_type r"
  "od_coupon_id (new_row order_entity now t r) = od_coupon_id r"
  "od_payment_id (new_row order_entity now t r) = od_payment_id r"
  "od_total_amount (new_row order_entity now t r) = od_total_amount r"
  "od_balance_amount (new_row order_entity now t r) = od_balance_amount r"
  "od_discount_amount (new_row order_entity now t r) = od_discount_amount r"
  "od_invite_user_id (new_row order_entity now t r) = od_invite_user_id r"
  "od_surplus_amount (new_row order_entity now t r) = od_surplus_amount r"
  by (simp_all add: new_row_def order_entity_def)

lemma new_row_user [simp]:
  "us_id (new_row user_entity now t u) = next_id t"
  "us_email (new_row user_entity now t u) = us_email u"
  "us_token (new_row user_entity now t u) = us_token u"
  "us_balance (new_row user_entity now t u) = us_balance u"
  "us_commission_balance (new_row user_entity now t u) = us_commission_balance u"
  "us_plan_id (new_row user_entity now t u) = us_plan_id u"
  "us_expired_at (new_row user_entity now t u) = us_expired_at u"
  by (simp_all add: new_row_def user_entity_def)

end
