(* ===== verification/RuntimeCache.thy ===== *)
theory RuntimeCache
  imports Store
begin

text \<open>
  \<open>app/core/cache.py\<close>: the key/value cache kept in the table \<open>runtime_cache\<close>. The locale
  \<open>kv_cache\<close> states what its clients rely on (what a lookup returns after a write or a
  delete, and that a lookup changes no other lookup) and proves the read-through scheme of the
  settings once; it is interpreted on the operations of the class. Values are JSON values as
  the driver decodes them.
\<close>

section \<open>The interface\<close>

locale kv_cache =
  fixes lookup :: "int \<Rightarrow> string \<Rightarrow> 'c \<Rightarrow> json option \<times> 'c"
    and store_key :: "int \<Rightarrow> string \<Rightarrow> json \<Rightarrow> int option \<Rightarrow> 'c \<Rightarrow> bool \<times> 'c"
    and drop_key :: "string \<Rightarrow> 'c \<Rightarrow> int \<times> 'c"
    and ok :: "'c \<Rightarrow> bool"
  assumes lookup_frame: "ok c \<Longrightarrow> now \<le> now' \<Longrightarrow> fst (lookup now' k' (snd (lookup now k c))) = fst (lookup now' k' c)"
    and lookup_store: "ok c \<Longrightarrow> v \<noteq> JNull \<Longrightarrow> 0 < ex \<Longrightarrow>
          fst (lookup now' k (snd (store_key now k v (Some ex) c))) = (if now' < now + ex then Some v else None)"
    and lookup_store_other: "ok c \<Longrightarrow> k' \<noteq> k \<Longrightarrow>
          fst (lookup now' k' (snd (store_key now k v oex c))) = fst (lookup now' k' c)"
    and lookup_drop: "ok c \<Longrightarrow> fst (lookup now' k (snd (drop_key k c))) = None"
    and lookup_drop_other: "ok c \<Longrightarrow> k' \<noteq> k \<Longrightarrow> fst (lookup now' k' (snd (drop_key k c))) = fst (lookup now' k' c)"
    and ok_lookup: "ok c \<Longrightarrow> ok (snd (lookup now k c))"
    and ok_store: "ok c \<Longrightarrow> ok (snd (store_key now k v oex c))"
    and ok_drop: "ok c \<Longrightarrow> ok (snd (drop_key k c))"
begin

text \<open>Every value the cache can still return from \<open>now\<close> on under a key of \<open>K\<close> is the one of
  the source \<open>src\<close>.\<close>

definition coherent :: "int \<Rightarrow> (string \<Rightarrow> bool) \<Rightarrow> (string \<Rightarrow> json option) \<Rightarrow> 'c \<Rightarrow> bool" where
  "coherent now K src c \<longleftrightarrow>
     ok c \<and> (\<forall>now'\<ge>now. \<forall>k v. K k \<longrightarrow> fst (lookup now' k c) = Some v \<longrightarrow> src k = Some v)"

definition read_through :: "int \<Rightarrow> int \<Rightarrow> string \<Rightarrow> (string \<Rightarrow> json option) \<Rightarrow> 'c \<Rightarrow> json option \<times> 'c" where
  "read_through now ttl k src c =
     (case lookup now k c of
        (Some v, c') \<Rightarrow> (Some v, c')
      | (None, c') \<Rightarrow> (case src k of None \<Rightarrow> (None, c') | Some v \<Rightarrow> (Some v, snd (store_key now k v (Some ttl) c'))))"

lemma coherent_mono: "coherent now K src c \<Longrightarrow> now \<le> now' \<Longrightarrow> coherent now' K src c"
  unfolding coherent_def using order_trans by blast

lemma coherent_lookup: "coherent now K src c \<Longrightarrow> coherent now K src (snd (lookup now k c))"
  by (simp add: coherent_def ok_lookup lookup_frame)

lemma coherent_store:
  assumes "coherent now K src c" "src' k = Some v" "v \<noteq> JNull" "0 < ttl" "\<And>k'. K k' \<Longrightarrow> k' \<noteq> k \<Longrightarrow> src' k' = src k'"
  shows "coherent now K src' (snd (store_key now k v (Some ttl) c))"
  unfolding coherent_def
proof (intro conjI allI impI)
  show "ok (snd (store_key now k v (Some ttl) c))"
    using assms(1) by (simp add: coherent_def ok_store)
  fix now' k' v'
  assume *: "now \<le> now'" "K k'" and hit: "fst (lookup now' k' (snd (store_key now k v (Some ttl) c))) = Some v'"
  show "src' k' = Some v'"
  proof (cases "k' = k")
    case True
    then show ?thesis using assms hit lookup_store [of c v ttl now' k now]
      by (simp add: coherent_def split: if_splits)
  next
    case False
    then show ?thesis using assms hit * lookup_store_other [of c k' k now' now v "Some ttl"]
      by (simp add: coherent_def)
  qed
qed

text \<open>Writing under a key outside \<open>K\<close> does not disturb the others.\<close>

lemma coherent_store_outside:
  assumes "coherent now K src c" "\<not> K k"
  shows "coherent now K src (snd (store_key now' k v oex c))"
  unfolding coherent_def
proof (intro conjI allI impI)
  show "ok (snd (store_key now' k v oex c))" using assms(1) by (simp add: coherent_def ok_store)
  fix t k' v'
  assume *: "now \<le> t" "K k'" and hit: "fst (lookup t k' (snd (store_key now' k v oex c))) = Some v'"
  from * assms(2) have "k' \<noteq> k" by blast
  with hit * assms(1) show "src k' = Some v'" by (simp add: coherent_def lookup_store_other)
qed

lemma coherent_drop:
  assumes "coherent now K src c" "\<And>k'. K k' \<Longrightarrow> k' \<noteq> k \<Longrightarrow> src' k' = src k'"
  shows "coherent now K src' (snd (drop_key k c))"
  unfolding coherent_def
proof (intro conjI allI impI)
  show "ok (snd (drop_key k c))" using assms(1) by (simp add: coherent_def ok_drop)
  fix now' k' v'
  assume "now \<le> now'" "K k'" "fst (lookup now' k' (snd (drop_key k c))) = Some v'"
  then show "src' k' = Some v'"
    using assms by (cases "k' = k") (auto simp: coherent_def lookup_drop lookup_drop_other)
qed

text \<open>A read through a coherent cache returns the value of the source.\<close>

lemma read_through_value:
  assumes "coherent now K src c" "K k"
  shows "fst (read_through now ttl k src c) = src k"
proof (cases "lookup now k c")
  case (Pair r c')
  then show ?thesis
  proof (cases r)
    case (Some v)
    with Pair assms have "src k = Some v" by (auto simp: coherent_def)
    with Pair Some show ?thesis by (simp add: read_through_def)
  qed (auto simp: read_through_def split: option.split)
qed

lemma read_through_coherent:
  assumes "coherent now K src c" "0 < ttl" "src k \<noteq> Some JNull"
  shows "coherent now K src (snd (read_through now ttl k src c))"
proof -
  have *: "coherent now K src (snd (lookup now k c))" using assms(1) by (rule coherent_lookup)
  obtain r c' where Pair: "lookup now k c = (r, c')" by (cases "lookup now k c")
  show ?thesis
  proof (cases r)
    case (Some v)
    then show ?thesis using * Pair by (simp add: read_through_def)
  next
    case None
    then show ?thesis using * Pair assms coherent_store [of now K src c' src k _ ttl]
      by (auto simp: read_through_def split: option.split)
  qed
qed

end

section \<open>The class RuntimeCache\<close>

definition cache_live :: "int \<Rightarrow> cache_row \<Rightarrow> bool" where
  "cache_live now r = (case ck_expires r of None \<Rightarrow> True | Some e \<Rightarrow> now < e)"

definition delete_expired_key :: "string \<Rightarrow> int \<Rightarrow> cache_row list \<Rightarrow> cache_row list" where
  "delete_expired_key k now c = filter (\<lambda>r. \<not> (ck_key r = k \<and> \<not> cache_live now r)) c"

text \<open>A JSON null decodes to Python's \<open>None\<close>.\<close>

definition decode_jsonb :: "json \<Rightarrow> json option" where
  "decode_jsonb v = (if v = JNull then None else Some v)"

definition cache_get :: "int \<Rightarrow> string \<Rightarrow> cache_row list \<Rightarrow> json option \<times> cache_row list" where
  "cache_get now k c =
     (case find (\<lambda>r. ck_key r = k \<and> cache_live now r) c of
        None \<Rightarrow> (None, delete_expired_key k now c)
      | Some r \<Rightarrow> (case decode_jsonb (ck_value r) of
          None \<Rightarrow> (None, delete_expired_key k now c) | Some v \<Rightarrow> (Some v, c)))"

definition cache_mget :: "int \<Rightarrow> string list \<Rightarrow> cache_row list \<Rightarrow> json option list" where
  "cache_mget now ks c =
     map (\<lambda>k. case find (\<lambda>r. ck_key r = k \<and> cache_live now r) c of
        None \<Rightarrow> None | Some r \<Rightarrow> decode_jsonb (ck_value r)) ks"

definition expiry :: "int \<Rightarrow> int option \<Rightarrow> int option" where
  "expiry now ex = (if truthy ex then Some (now + or_zero ex) else None)"

text \<open>\<open>INSERT ... ON CONFLICT (key) DO UPDATE\<close> with the update given as a function.\<close>

definition upsert :: "string \<Rightarrow> cache_row \<Rightarrow> (cache_row \<Rightarrow> cache_row) \<Rightarrow> cache_row list \<Rightarrow> cache_row list" where
  "upsert k new upd c =
     (if list_ex (\<lambda>r. ck_key r = k) c then map (\<lambda>r. if ck_key r = k then upd r else r) c else c @ [new])"

definition cache_set :: "int \<Rightarrow> string \<Rightarrow> json \<Rightarrow> int option \<Rightarrow> cache_row list \<Rightarrow> bool \<times> cache_row list" where
  "cache_set now k v ex c =
     (True, upsert k \<lparr>ck_key = k, ck_value = v, ck_expires = expiry now ex\<rparr>
        (\<lambda>r. r\<lparr>ck_value := v, ck_expires := expiry now ex\<rparr>) c)"

definition cache_set_nx :: "int \<Rightarrow> string \<Rightarrow> json \<Rightarrow> int option \<Rightarrow> cache_row list \<Rightarrow> bool \<times> cache_row list" where
  "cache_set_nx now k v ex c0 =
     (let c = delete_expired_key k now c0
      in if list_ex (\<lambda>r. ck_key r = k) c then (False, c)
         else (True, c @ [\<lparr>ck_key = k, ck_value = v, ck_expires = expiry now ex\<rparr>]))"

definition cache_delete_keys :: "string list \<Rightarrow> cache_row list \<Rightarrow> int \<times> cache_row list" where
  "cache_delete_keys ks c =
     (if ks = [] then (0, c)
      else (count_where (\<lambda>r. ck_key r \<in> set ks) c, filter (\<lambda>r. ck_key r \<notin> set ks) c))"

definition cache_delete :: "string \<Rightarrow> cache_row list \<Rightarrow> int \<times> cache_row list" where
  "cache_delete k c = cache_delete_keys [k] c"

text \<open>The text of a stored counter, when it is a decimal integer. (No operation of the program
  stores a float under a counter's key; a float counts as no integer here.)\<close>

definition counter_value :: "json \<Rightarrow> int" where
  "counter_value v =
     (case v of JInt n \<Rightarrow> n
      | JStr s \<Rightarrow> (case s of [] \<Rightarrow> 0 | c # cs \<Rightarrow>
          if isdigit s then int (nat_of_digits s)
          else if c = CHR ''-'' \<and> isdigit cs then - int (nat_of_digits cs) else 0)
      | _ \<Rightarrow> 0)"

definition incr_row :: "int \<Rightarrow> int option \<Rightarrow> cache_row \<Rightarrow> cache_row" where
  "incr_row now excluded r =
     r\<lparr>ck_value := (if \<not> cache_live now r then JInt 1 else JInt (counter_value (ck_value r) + 1)),
       ck_expires := (if \<not> cache_live now r then excluded
          else if ck_expires r = None \<and> excluded \<noteq> None then excluded
          else ck_expires r)\<rparr>"

definition cache_incr :: "int \<Rightarrow> string \<Rightarrow> int option \<Rightarrow> cache_row list \<Rightarrow> int \<times> cache_row list" where
  "cache_incr now k ex c =
     (let c' = upsert k \<lparr>ck_key = k, ck_value = JInt 1, ck_expires = expiry now ex\<rparr> (incr_row now (expiry now ex)) c
      in (case find (\<lambda>r. ck_key r = k) c' of None \<Rightarrow> 0 | Some r \<Rightarrow> counter_value (ck_value r), c'))"

definition cache_expire :: "int \<Rightarrow> string \<Rightarrow> int \<Rightarrow> cache_row list \<Rightarrow> bool \<times> cache_row list" where
  "cache_expire now k ex c =
     (list_ex (\<lambda>r. ck_key r = k) c, map (\<lambda>r. if ck_key r = k then r\<lparr>ck_expires := Some (now + ex)\<rparr> else r) c)"

definition cache_cleanup :: "int \<Rightarrow> cache_row list \<Rightarrow> int \<times> cache_row list" where
  "cache_cleanup now c = (count_where (\<lambda>r. \<not> cache_live now r) c, filter (cache_live now) c)"

text \<open>The primary key of the table.\<close>

definition wf_cache :: "cache_row list \<Rightarrow> bool" where
  "wf_cache c = distinct (map ck_key c)"

section \<open>Laws\<close>

text \<open>What a lookup returns, as a function of the rows alone.\<close>

definition cache_value :: "int \<Rightarrow> string \<Rightarrow> cache_row list \<Rightarrow> json option" where
  "cache_value now k c = Option.bind (find (\<lambda>r. ck_key r = k \<and> cache_live now r) c) (\<lambda>r. decode_jsonb (ck_value r))"

lemma cache_get_value: "fst (cache_get now k c) = cache_value now k c"
  by (auto simp: cache_get_def cache_value_def split: option.splits)

lemma cache_live_mono: "cache_live now' r \<Longrightarrow> now \<le> now' \<Longrightarrow> cache_live now r"
  by (auto simp: cache_live_def split: option.splits)

lemma find_filter: "find P (filter Q xs) = find (\<lambda>x. P x \<and> Q x) xs"
  by (induction xs) auto

lemma value_delete_expired: "now \<le> now' \<Longrightarrow> cache_value now' k' (delete_expired_key k now c) = cache_value now' k' c"
proof -
  assume le: "now \<le> now'"
  then have "(\<lambda>r. (ck_key r = k' \<and> cache_live now' r) \<and> \<not> (ck_key r = k \<and> \<not> cache_live now r))
     = (\<lambda>r. ck_key r = k' \<and> cache_live now' r)"
    using cache_live_mono by blast
  then show ?thesis by (simp add: cache_value_def delete_expired_key_def find_filter)
qed

lemma cache_get_state: "snd (cache_get now k c) = c \<or> snd (cache_get now k c) = delete_expired_key k now c"
  by (auto simp: cache_get_def split: option.splits)

lemma upd_keys: "(\<And>r. ck_key (upd r) = ck_key r) \<Longrightarrow> map ck_key (map (\<lambda>r. if ck_key r = k then upd r else r) c) = map ck_key c"
  by simp

lemma in_upsert:
  "r \<in> set (upsert k new upd c) \<Longrightarrow>
     r = new \<or> (r \<in> set c \<and> ck_key r \<noteq> k) \<or> (\<exists>q\<in>set c. ck_key q = k \<and> r = upd q)"
  by (auto simp: upsert_def list_ex_iff split: if_splits)

lemma find_upsert_same:
  assumes "ck_key new = k" "\<And>r. ck_key (upd r) = ck_key r"
  shows "find (\<lambda>r. ck_key r = k) (upsert k new upd c) =
       Some (case find (\<lambda>r. ck_key r = k) c of None \<Rightarrow> new | Some r \<Rightarrow> upd r)"
proof (cases "find (\<lambda>r. ck_key r = k) c")
  case None
  then have "\<not> list_ex (\<lambda>r. ck_key r = k) c" by (auto simp: find_None_iff list_ex_iff)
  with None assms(1) show ?thesis by (simp add: upsert_def find_append)
next
  case (Some r)
  from find_Some_set [OF Some] have ex: "list_ex (\<lambda>r. ck_key r = k) c" and r: "ck_key r = k"
    by (auto simp: list_ex_iff)
  have "find (\<lambda>r. ck_key r = k) (map (\<lambda>r. if ck_key r = k then upd r else r) c)
     = map_option (\<lambda>r. if ck_key r = k then upd r else r) (find (\<lambda>r. ck_key r = k) c)"
    by (rule find_map_cong) (simp add: assms(2))
  with ex r Some show ?thesis by (simp add: upsert_def)
qed

lemma find_map_other:
  "k' \<noteq> k \<Longrightarrow> (\<And>r. ck_key (upd r) = ck_key r) \<Longrightarrow>
     find (\<lambda>r. ck_key r = k' \<and> Q r) (map (\<lambda>r. if ck_key r = k then upd r else r) c) =
     find (\<lambda>r. ck_key r = k' \<and> Q r) c"
  by (induction c) auto

lemma find_upsert_other:
  "k' \<noteq> k \<Longrightarrow> ck_key new = k \<Longrightarrow> (\<And>r. ck_key (upd r) = ck_key r) \<Longrightarrow>
     find (\<lambda>r. ck_key r = k' \<and> Q r) (upsert k new upd c) = find (\<lambda>r. ck_key r = k' \<and> Q r) c"
  by (auto simp: upsert_def find_append find_map_other split: option.split)

lemma value_set_same:
  assumes "v \<noteq> JNull" "0 < ex"
  shows "cache_value now' k (snd (cache_set now k v (Some ex) c)) = (if now' < now + ex then Some v else None)"
proof -
  let ?row = "\<lambda>r. ck_value r = v \<and> ck_expires r = Some (now + ex)"
  have rows: "\<forall>r\<in>set (snd (cache_set now k v (Some ex) c)). ck_key r = k \<longrightarrow> ?row r"
  proof (intro ballI impI)
    fix r assume "r \<in> set (snd (cache_set now k v (Some ex) c))" "ck_key r = k"
    then have "r = \<lparr>ck_key = k, ck_value = v, ck_expires = expiry now (Some ex)\<rparr> \<or>
       (\<exists>q. r = q\<lparr>ck_value := v, ck_expires := expiry now (Some ex)\<rparr>)"
      unfolding cache_set_def snd_conv by (blast dest: in_upsert)
    then show "?row r" by (elim disjE exE) (simp_all add: expiry_def assms(2) less_imp_neq [symmetric])
  qed
  have "find (\<lambda>r. ck_key r = k) (snd (cache_set now k v (Some ex) c)) \<noteq> None"
    by (simp add: cache_set_def find_upsert_same)
  then have "\<exists>r\<in>set (snd (cache_set now k v (Some ex) c)). ck_key r = k"
    unfolding find_None_iff by blast
  with rows have some: "find (\<lambda>r. ck_key r = k \<and> cache_live now' r) (snd (cache_set now k v (Some ex) c)) = None
       \<longleftrightarrow> \<not> now' < now + ex"
    by (auto simp: find_None_iff cache_live_def)
  show ?thesis
  proof (cases "find (\<lambda>r. ck_key r = k \<and> cache_live now' r) (snd (cache_set now k v (Some ex) c))")
    case None
    with some show ?thesis by (simp add: cache_value_def)
  next
    case (Some r)
    with rows have "?row r" using find_Some_set [OF Some] by blast
    with some Some assms(1) show ?thesis by (auto simp: cache_value_def decode_jsonb_def)
  qed
qed

lemma value_set_other: "k' \<noteq> k \<Longrightarrow> cache_value now' k' (snd (cache_set now k v ex c)) = cache_value now' k' c"
  by (simp add: cache_value_def cache_set_def find_upsert_other)

lemma value_delete_same: "cache_value now' k (snd (cache_delete k c)) = None"
proof -
  have "(\<lambda>r. (ck_key r = k \<and> cache_live now' r) \<and> ck_key r \<noteq> k) = (\<lambda>r. False)" by auto
  moreover have "find (\<lambda>r. False) c = None" by (induction c) auto
  ultimately show ?thesis by (simp add: cache_value_def cache_delete_def cache_delete_keys_def find_filter)
qed

lemma value_delete_other: "k' \<noteq> k \<Longrightarrow> cache_value now' k' (snd (cache_delete k c)) = cache_value now' k' c"
proof -
  assume "k' \<noteq> k"
  then have "(\<lambda>r. (ck_key r = k' \<and> cache_live now' r) \<and> ck_key r \<noteq> k) = (\<lambda>r. ck_key r = k' \<and> cache_live now' r)" by auto
  then show ?thesis by (simp add: cache_value_def cache_delete_def cache_delete_keys_def find_filter)
qed

lemma wf_cache_filter: "wf_cache c \<Longrightarrow> wf_cache (filter P c)"
  by (simp add: wf_cache_def distinct_map_filter)

lemma wf_cache_upsert:
  "wf_cache c \<Longrightarrow> ck_key new = k \<Longrightarrow> (\<And>r. ck_key (upd r) = ck_key r) \<Longrightarrow> wf_cache (upsert k new upd c)"
proof -
  assume a: "wf_cache c" "ck_key new = k" "\<And>r. ck_key (upd r) = ck_key r"
  have "map ck_key (map (\<lambda>r. if ck_key r = k then upd r else r) c) = map ck_key c" using a(3) by (rule upd_keys)
  with a(1,2) show ?thesis
    by (cases "list_ex (\<lambda>r. ck_key r = k) c") (auto simp: wf_cache_def upsert_def list_ex_iff simp del: map_map)
qed

lemma wf_cache_get: "wf_cache c \<Longrightarrow> wf_cache (snd (cache_get now k c))"
  using cache_get_state [of now k c] by (auto simp: delete_expired_key_def wf_cache_filter)

lemma wf_cache_set: "wf_cache c \<Longrightarrow> wf_cache (snd (cache_set now k v ex c))"
  by (simp add: cache_set_def wf_cache_upsert)

lemma wf_cache_delete: "wf_cache c \<Longrightarrow> wf_cache (snd (cache_delete_keys ks c))"
  by (simp add: cache_delete_keys_def wf_cache_filter)

interpretation rc: kv_cache cache_get cache_set cache_delete wf_cache
proof unfold_locales
  show "fst (cache_get now' k' (snd (cache_get now k c))) = fst (cache_get now' k' c)"
    if "now \<le> now'" for c now now' k k'
    using that cache_get_state [of now k c] by (auto simp: cache_get_value value_delete_expired)
qed (simp_all add: cache_get_value value_set_same value_set_other value_delete_same value_delete_other
       wf_cache_get wf_cache_set wf_cache_delete [of _ "[k]" for k, folded cache_delete_def])

lemma cache_expired_removed:
  "cache_value now k (snd (cache_cleanup now c)) = cache_value now k c"
  by (simp add: cache_value_def cache_cleanup_def find_filter conj_assoc)

text \<open>A counter: each call within the window returns one more than the one before.\<close>

lemma counter_value_JInt [simp]: "counter_value (JInt n) = n"
  by (simp add: counter_value_def)

lemma cache_incr_result:
  "fst (cache_incr now k ex c) =
     (case find (\<lambda>r. ck_key r = k) c of None \<Rightarrow> 1
      | Some r \<Rightarrow> if cache_live now r then counter_value (ck_value r) + 1 else 1)"
  by (auto simp: cache_incr_def Let_def find_upsert_same incr_row_def split: option.splits)

lemma cache_incr_row:
  "find (\<lambda>r. ck_key r = k) (snd (cache_incr now k ex c)) =
     Some (case find (\<lambda>r. ck_key r = k) c of None \<Rightarrow> \<lparr>ck_key = k, ck_value = JInt 1, ck_expires = expiry now ex\<rparr>
       | Some r \<Rightarrow> incr_row now (expiry now ex) r)"
  by (simp add: cache_incr_def Let_def find_upsert_same incr_row_def)

end
