(* ===== verification/Settings.thy ===== *)
theory Settings
  imports RuntimeCache
begin

text \<open>
  \<open>app/services/setting.py\<close> and \<open>setting_defaults.py\<close>: typed reads and writes of the
  configuration with an optional runtime cache in front of the table. A service is the JSON
  codec it uses and whether it was built with a cache (the request handlers pass one, the queue
  jobs do not). The descriptions of the default settings are a parameter of the seed; the
  default values, types and groups are those of the source.
\<close>

record setting_service =
  sv_codec :: codec
  sv_cached :: bool

definition cache_key :: "string \<Rightarrow> string" where
  "cache_key k = ''setting:'' @ k"

definition cache_ttl :: int where
  "cache_ttl = 3600"

text \<open>Python's \<open>str\<close> on a JSON value.\<close>

definition py_str :: "codec \<Rightarrow> json \<Rightarrow> string" where
  "py_str C v = (case v of JStr s \<Rightarrow> s | JInt n \<Rightarrow> str_int n | JBool b \<Rightarrow> (if b then ''True'' else ''False'')
     | JNull \<Rightarrow> ''None'' | _ \<Rightarrow> py_repr C v)"

definition setting_cache_set :: "setting_service \<Rightarrow> int \<Rightarrow> string \<Rightarrow> string \<Rightarrow> db \<Rightarrow> db" where
  "setting_cache_set S now k v db =
     (if sv_cached S then db\<lparr>t_cache := snd (cache_set now (cache_key k) (JStr v) (Some cache_ttl) (t_cache db))\<rparr> else db)"

definition setting_cache_delete :: "setting_service \<Rightarrow> string \<Rightarrow> db \<Rightarrow> db" where
  "setting_cache_delete S k db =
     (if sv_cached S then db\<lparr>t_cache := snd (cache_delete (cache_key k) (t_cache db))\<rparr> else db)"

definition get_cached :: "setting_service \<Rightarrow> int \<Rightarrow> string \<Rightarrow> db \<Rightarrow> string option \<times> db" where
  "get_cached S now k db =
     (case (if sv_cached S then cache_get now (cache_key k) (t_cache db) else (None, t_cache db)) of
        (Some v, c) \<Rightarrow> (Some (py_str (sv_codec S) v), db\<lparr>t_cache := c\<rparr>)
      | (None, c) \<Rightarrow>
          (case setting_by_key db k of
             None \<Rightarrow> (None, db\<lparr>t_cache := c\<rparr>)
           | Some item \<Rightarrow> (Some (st_value item), setting_cache_set S now k (st_value item) (db\<lparr>t_cache := c\<rparr>))))"

section \<open>Typed reads\<close>

definition get_str :: "setting_service \<Rightarrow> int \<Rightarrow> string \<Rightarrow> string \<Rightarrow> db \<Rightarrow> string \<times> db" where
  "get_str S now k d db = (case get_cached S now k db of (v, db') \<Rightarrow> (set_if v d, db'))"

definition get_int :: "setting_service \<Rightarrow> int \<Rightarrow> string \<Rightarrow> int \<Rightarrow> db \<Rightarrow> exn + int \<times> db" where
  "get_int S now k d db =
     (case get_cached S now k db of
        (None, db') \<Rightarrow> Inr (d, db')
      | (Some v, db') \<Rightarrow> (case py_int v of None \<Rightarrow> Inl ValueError | Some n \<Rightarrow> Inr (n, db')))"

definition get_bool :: "setting_service \<Rightarrow> int \<Rightarrow> string \<Rightarrow> bool \<Rightarrow> db \<Rightarrow> bool \<times> db" where
  "get_bool S now k d db =
     (case get_cached S now k db of
        (None, db') \<Rightarrow> (d, db')
      | (Some v, db') \<Rightarrow> (lower v = ''1'' \<or> lower v = ''true'' \<or> lower v = ''yes'', db'))"

definition get_json :: "setting_service \<Rightarrow> int \<Rightarrow> string \<Rightarrow> json \<Rightarrow> db \<Rightarrow> exn + json \<times> db" where
  "get_json S now k d db =
     (case get_cached S now k db of
        (None, db') \<Rightarrow> Inr (if d = JNull then JObj [] else d, db')
      | (Some v, db') \<Rightarrow> (case loads (sv_codec S) v of None \<Rightarrow> Inl ValueError | Some j \<Rightarrow> Inr (j, db')))"

section \<open>Writes\<close>

definition blank_setting :: setting where
  "blank_setting = \<lparr>st_id = 0, st_key = [], st_value = [], st_type = ''str'', st_description = None,
     st_created_at = 0, st_updated_at = 0\<rparr>"

definition setting_text :: "setting_service \<Rightarrow> json \<Rightarrow> string \<Rightarrow> string" where
  "setting_text S v ty = (if ty = ''json'' then dumps (sv_codec S) v else py_str (sv_codec S) v)"

definition set_setting :: "setting_service \<Rightarrow> int \<Rightarrow> string \<Rightarrow> json \<Rightarrow> string \<Rightarrow> db \<Rightarrow> exn + db" where
  "set_setting S now k v ty db =
     bindE (case setting_by_key db k of
              Some item \<Rightarrow> Inr (put_setting now db (item\<lparr>st_value := setting_text S v ty, st_type := ty\<rparr>))
            | None \<Rightarrow> bindE (insert_setting now db
                  (blank_setting\<lparr>st_key := k, st_value := setting_text S v ty, st_type := ty\<rparr>)) (\<lambda>(_, db'). Inr db'))
       (\<lambda>db'. Inr (setting_cache_set S now k (setting_text S v ty) db'))"

definition list_settings :: "int \<Rightarrow> int \<Rightarrow> db \<Rightarrow> setting list" where
  "list_settings offset limit db = repo_all (t_settings db) offset limit"

definition get_setting :: "int \<Rightarrow> db \<Rightarrow> exn + setting" where
  "get_setting i db = (case setting_by_id db i of None \<Rightarrow> Inl (NotFound ''setting'') | Some s \<Rightarrow> Inr s)"

record setting_create =
  sc_key :: string
  sc_value :: string
  sc_type :: string
  sc_description :: "string option"

definition create_setting :: "setting_service \<Rightarrow> int \<Rightarrow> setting_create \<Rightarrow> db \<Rightarrow> exn + setting \<times> db" where
  "create_setting S now data db =
     guardE (setting_by_key db (sc_key data) \<noteq> None) (Conflict ''setting exists'')
       (bindE (insert_setting now db (blank_setting\<lparr>st_key := sc_key data, st_value := sc_value data,
            st_type := sc_type data, st_description := sc_description data\<rparr>))
          (\<lambda>(item, db'). Inr (item, setting_cache_set S now (sc_key data) (sc_value data) db')))"

text \<open>An update names the fields the request set; \<open>Some None\<close> is an explicit null, which the
  NOT NULL columns reject.\<close>

record setting_update =
  sx_value :: "string option option"
  sx_type :: "string option option"
  sx_description :: "string option option"

definition update_setting :: "setting_service \<Rightarrow> int \<Rightarrow> int \<Rightarrow> setting_update \<Rightarrow> db \<Rightarrow> exn + setting \<times> db" where
  "update_setting S now i data db =
     (case setting_by_id db i of
        None \<Rightarrow> Inl (NotFound ''setting'')
      | Some item \<Rightarrow>
          guardE (explicit_null (sx_value data) \<or> explicit_null (sx_type data)) IntegrityError
            (let item' = item\<lparr>st_value := set_if (given (sx_value data)) (st_value item),
                   st_type := set_if (given (sx_type data)) (st_type item),
                   st_description := set_if (sx_description data) (st_description item)\<rparr>
             in Inr (item', setting_cache_set S now (st_key item') (st_value item') (put_setting now db item'))))"

definition delete_setting :: "setting_service \<Rightarrow> int \<Rightarrow> db \<Rightarrow> exn + db" where
  "delete_setting S i db =
     (case setting_by_id db i of
        None \<Rightarrow> Inl (NotFound ''setting'')
      | Some item \<Rightarrow> Inr (setting_cache_delete S (st_key item)
          (db\<lparr>t_settings := repo_delete setting_entity (t_settings db) item\<rparr>)))"

definition save_config :: "setting_service \<Rightarrow> int \<Rightarrow> string \<Rightarrow> json \<Rightarrow> db \<Rightarrow> exn + db" where
  "save_config S now k v db =
     (case v of
        JBool b \<Rightarrow> set_setting S now k (JInt (if b then 1 else 0)) ''int'' db
      | JInt n \<Rightarrow> set_setting S now k (JInt n) ''int'' db
      | JArr xs \<Rightarrow> set_setting S now k (JArr xs) ''json'' db
      | JObj xs \<Rightarrow> set_setting S now k (JObj xs) ''json'' db
      | _ \<Rightarrow> set_setting S now k v ''str'' db)"

definition batch_save_config :: "setting_service \<Rightarrow> int \<Rightarrow> (string \<times> json) list \<Rightarrow> db \<Rightarrow> exn + db" where
  "batch_save_config S now items db = foldE (\<lambda>(k, v). save_config S now k v) items db"

section \<open>Defaults\<close>

record setting_default =
  sd_key :: string
  sd_value :: json
  sd_type :: string
  sd_zero_as_none :: bool

definition sd :: "string \<Rightarrow> json \<Rightarrow> string \<Rightarrow> bool \<Rightarrow> setting_default" where
  "sd k v t z = \<lparr>sd_key = k, sd_value = v, sd_type = t, sd_zero_as_none = z\<rparr>"

definition default_setting_groups :: "(string \<times> setting_default list) list" where
  "default_setting_groups =
    [
     (''ticket'', [
        sd ''ticket_status'' (JInt 0) ''int'' False]),
     (''deposit'', [
        sd ''deposit_bounus'' (JArr []) ''json'' False]),
     (''invite'', [
        sd ''invite_force'' (JInt 0) ''int'' False,
        sd ''invite_commission'' (JInt 10) ''int'' False,
        sd ''invite_gen_limit'' (JInt 5) ''int'' False,
        sd ''invite_never_expire'' (JInt 0) ''int'' False,
        sd ''commission_first_time_enable'' (JInt 1) ''int'' False,
        sd ''commission_auto_check_enable'' (JInt 1) ''int'' False,
        sd ''commission_withdraw_limit'' (JInt 100) ''int'' False,
        sd ''commission_withdraw_method'' (JArr [JStr ''alipay'', JStr ''usdt'', JStr ''bank'']) ''json'' False,
        sd ''withdraw_close_enable'' (JInt 0) ''int'' False,
        sd ''commission_distribution_enable'' (JInt 0) ''int'' False,
        sd ''commission_distribution_l1'' (JInt 0) ''int'' True,
        sd ''commission_distribution_l2'' (JInt 0) ''int'' True,
        sd ''commission_distribution_l3'' (JInt 0) ''int'' True]),
     (''site'', [
        sd ''logo'' (JStr []) ''str'' False,
        sd ''stop_register'' (JInt 0) ''int'' False,
        sd ''app_name'' (JStr ''PyBoard'') ''str'' False,
        sd ''app_description'' (JStr ''PyBoard panel backend.'') ''str'' False,
        sd ''app_url'' (JStr []) ''str'' False,
        sd ''subscribe_url'' (JStr []) ''str'' False,
        sd ''subscribe_path'' (JStr []) ''str'' False,
        sd ''try_out_plan_id'' (JInt 0) ''int'' False,
        sd ''try_out_hour'' (JInt 1) ''int'' False,
        sd ''tos_url'' (JStr []) ''str'' False,
        sd ''currency'' (JStr ''CNY'') ''str'' False,
        sd ''currency_symbol'' (JStr [CHR 0xA5]) ''str'' False]),
     (''subscribe'', [
        sd ''plan_change_enable'' (JInt 1) ''int'' False,
        sd ''reset_traffic_method'' (JInt 0) ''int'' False,
        sd ''surplus_enable'' (JInt 1) ''int'' False,
        sd ''allow_new_period'' (JInt 0) ''int'' False,
        sd ''new_order_event_id'' (JInt 0) ''int'' False,
        sd ''renew_order_event_id'' (JInt 0) ''int'' False,
        sd ''change_order_event_id'' (JInt 0) ''int'' False,
        sd ''show_info_to_server_enable'' (JInt 0) ''int'' False,
        sd ''show_subscribe_method'' (JInt 0) ''int'' False,
        sd ''show_subscribe_expire'' (JInt 5) ''int'' False]),
     (''server'', [
        sd ''server_api_url'' (JStr []) ''str'' False,
        sd ''server_token'' (JStr []) ''str'' False,
        sd ''server_pull_interval'' (JInt 60) ''int'' False,
        sd ''server_push_interval'' (JInt 60) ''int'' False,
        sd ''server_node_report_min_traffic'' (JInt 0) ''int'' False,
        sd ''server_device_online_min_traffic'' (JInt 0) ''int'' False,
        sd ''device_limit_mode'' (JInt 0) ''int'' False]),
     (''email'', [
        sd ''email_template'' (JStr ''default'') ''str'' False,
        sd ''email_host'' (JStr []) ''str'' False,
        sd ''email_port'' (JInt 0) ''int'' False,
        sd ''email_username'' (JStr []) ''str'' False,
        sd ''email_password'' (JStr []) ''str'' False,
        sd ''email_encryption'' (JStr []) ''str'' False,
        sd ''email_from_address'' (JStr []) ''str'' False]),
     (''telegram'', [
        sd ''telegram_bot_enable'' (JInt 0) ''int'' False,
        sd ''telegram_bot_token'' (JStr []) ''str'' False,
        sd ''telegram_discuss_link'' (JStr []) ''str'' False]),
     (''app'', [
        sd ''windows_version'' (JStr []) ''str'' False,
        sd ''windows_download_url'' (JStr []) ''str'' False,
        sd ''macos_version'' (JStr []) ''str'' False,
        sd ''macos_download_url'' (JStr []) ''str'' False,
        sd ''android_version'' (JStr []) ''str'' False,
        sd ''android_download_url'' (JStr []) ''str'' False]),
     (''safe'', [
        sd ''email_verify'' (JInt 0) ''int'' False,
        sd ''safe_mode_enable'' (JInt 0) ''int'' False,
        sd ''email_whitelist_enable'' (JInt 0) ''int'' False,
        sd ''email_whitelist_suffix'' (JArr [JStr ''gmail.com'', JStr ''qq.com'', JStr ''163.com'', JStr ''outlook.com'', JStr ''hotmail.com'']) ''json'' False,
        sd ''email_gmail_limit_enable'' (JInt 0) ''int'' False,
        sd ''recaptcha_enable'' (JInt 0) ''int'' False,
        sd ''recaptcha_key'' (JStr []) ''str'' False,
        sd ''recaptcha_site_key'' (JStr []) ''str'' False,
        sd ''register_limit_by_ip_enable'' (JInt 0) ''int'' False,
        sd ''register_limit_count'' (JInt 3) ''int'' False,
        sd ''register_limit_expire'' (JInt 60) ''int'' False,
        sd ''password_limit_enable'' (JInt 1) ''int'' False,
        sd ''password_limit_count'' (JInt 5) ''int'' False,
        sd ''password_limit_expire'' (JInt 60) ''int'' False])]"

definition default_settings :: "setting_default list" where
  "default_settings = concat (map snd default_setting_groups)"

definition serialize_setting_value :: "codec \<Rightarrow> setting_default \<Rightarrow> string" where
  "serialize_setting_value C item = (if sd_type item = ''json'' then dumps C (sd_value item) else py_str C (sd_value item))"

text \<open>\<open>int(item.value)\<close> and \<open>str(item.value)\<close> on a default.\<close>

definition default_int :: "json \<Rightarrow> int" where
  "default_int v = (case v of JInt n \<Rightarrow> n | _ \<Rightarrow> 0)"

definition get_defaulted_value :: "setting_service \<Rightarrow> int \<Rightarrow> setting_default \<Rightarrow> db \<Rightarrow> exn + json \<times> db" where
  "get_defaulted_value S now item db =
     bindE (if sd_type item = ''json'' then get_json S now (sd_key item) (sd_value item) db
            else if sd_type item = ''int'' then
              bindE (get_int S now (sd_key item) (default_int (sd_value item)) db) (\<lambda>(n, db'). Inr (JInt n, db'))
            else (case get_str S now (sd_key item) (py_str (sv_codec S) (sd_value item)) db of (s, db') \<Rightarrow> Inr (JStr s, db')))
       (\<lambda>(v, db'). Inr (if sd_zero_as_none item \<and> v = JInt 0 then JNull else v, db'))"

fun defaulted_items :: "setting_service \<Rightarrow> int \<Rightarrow> setting_default list \<Rightarrow> db \<Rightarrow> exn + (string \<times> json) list \<times> db" where
  "defaulted_items S now [] db = Inr ([], db)"
| "defaulted_items S now (item # items) db =
     bindE (get_defaulted_value S now item db) (\<lambda>(v, db1).
     bindE (defaulted_items S now items db1) (\<lambda>(vs, db2). Inr ((sd_key item, v) # vs, db2)))"

fun defaulted_groups :: "setting_service \<Rightarrow> int \<Rightarrow> (string \<times> setting_default list) list \<Rightarrow> db
    \<Rightarrow> exn + (string \<times> (string \<times> json) list) list \<times> db" where
  "defaulted_groups S now [] db = Inr ([], db)"
| "defaulted_groups S now ((g, items) # gs) db =
     bindE (defaulted_items S now items db) (\<lambda>(vs, db1).
     bindE (defaulted_groups S now gs db1) (\<lambda>(rest, db2). Inr ((g, vs) # rest, db2)))"

definition fetch_config :: "setting_service \<Rightarrow> int \<Rightarrow> string option \<Rightarrow> db
    \<Rightarrow> exn + (string \<times> (string \<times> json) list) list \<times> db" where
  "fetch_config S now gk db =
     defaulted_groups S now
       (case gk of
          None \<Rightarrow> default_setting_groups
        | Some g \<Rightarrow> if g = [] then default_setting_groups
            else (case map_of default_setting_groups g of None \<Rightarrow> default_setting_groups | Some items \<Rightarrow> [(g, items)])) db"

text \<open>\<open>app/migrations/seeds.py\<close>: the defaults that the table lacks, without touching the others.\<close>

definition seed_default_settings :: "codec \<Rightarrow> (string \<Rightarrow> string) \<Rightarrow> int \<Rightarrow> db \<Rightarrow> int \<times> db" where
  "seed_default_settings C descr now db =
     (let missing = filter (\<lambda>d. \<not> list_ex (\<lambda>s. st_key s = sd_key d) (rows (t_settings db))) default_settings
      in (int (length missing),
          db\<lparr>t_settings := foldl (\<lambda>t d. repo_create setting_entity now t
               (blank_setting\<lparr>st_key := sd_key d, st_value := serialize_setting_value C d, st_type := sd_type d,
                  st_description := Some (descr (sd_key d)), st_created_at := now, st_updated_at := now\<rparr>))
             (t_settings db) missing\<rparr>))"

section \<open>Reads return what the table holds\<close>

definition setting_src :: "db \<Rightarrow> string \<Rightarrow> json option" where
  "setting_src db ck = map_option (\<lambda>s. JStr (st_value s)) (setting_by_key db (drop 8 ck))"

definition is_setting_key :: "string \<Rightarrow> bool" where
  "is_setting_key ck = (ck = cache_key (drop 8 ck))"

text \<open>The cache invariant: a value still cached for a setting is the value in the table.\<close>

definition setting_coherent :: "int \<Rightarrow> db \<Rightarrow> bool" where
  "setting_coherent now db = rc.coherent now is_setting_key (setting_src db) (t_cache db)"

lemma is_setting_key_cache_key [simp]: "is_setting_key (cache_key k)" "drop 8 (cache_key k) = k"
  by (simp_all add: is_setting_key_def cache_key_def)

lemma setting_src_cache_key [simp]:
  "setting_src db (cache_key k) = map_option (\<lambda>s. JStr (st_value s)) (setting_by_key db k)"
  by (simp add: setting_src_def)

lemma setting_by_key_cache [simp]: "setting_by_key (db\<lparr>t_cache := c\<rparr>) k = setting_by_key db k"
  by (simp add: setting_by_key_def)

lemma setting_src_cache [simp]: "setting_src (db\<lparr>t_cache := c\<rparr>) = setting_src db"
  by (simp add: setting_src_def fun_eq_iff)

lemma py_str_JStr [simp]: "py_str C (JStr s) = s"
  by (simp add: py_str_def)

lemma get_cached_read_through:
  "sv_cached S \<Longrightarrow> get_cached S now k db =
     (case rc.read_through now cache_ttl (cache_key k) (setting_src db) (t_cache db) of
        (r, c) \<Rightarrow> (map_option (py_str (sv_codec S)) r, db\<lparr>t_cache := c\<rparr>))"
  by (auto simp: get_cached_def rc.read_through_def setting_cache_set_def split: prod.split option.split)

lemma get_cached_uncached:
  "\<not> sv_cached S \<Longrightarrow> get_cached S now k db = (map_option st_value (setting_by_key db k), db)"
  by (auto simp: get_cached_def setting_cache_set_def split: option.split)

lemma get_cached_state: "\<exists>c. snd (get_cached S now k db) = db\<lparr>t_cache := c\<rparr>"
proof (cases "sv_cached S")
  case True
  then show ?thesis by (auto simp: get_cached_read_through split: prod.split)
next
  case False
  then have "snd (get_cached S now k db) = db\<lparr>t_cache := t_cache db\<rparr>" by (simp add: get_cached_uncached)
  then show ?thesis by blast
qed

lemma get_cached_value:
  "setting_coherent now db \<Longrightarrow> fst (get_cached S now k db) = map_option st_value (setting_by_key db k)"
  using rc.read_through_value [of now is_setting_key "setting_src db" "t_cache db" "cache_key k" cache_ttl]
  by (cases "sv_cached S")
     (auto simp: get_cached_read_through get_cached_uncached setting_coherent_def split_beta
        option.map_comp comp_def)

lemma get_cached_coherent:
  assumes "setting_coherent now db"
  shows "setting_coherent now (snd (get_cached S now k db))"
proof (cases "sv_cached S")
  case True
  then show ?thesis
    using assms rc.read_through_coherent [of now is_setting_key "setting_src db" "t_cache db" cache_ttl "cache_key k"]
    by (auto simp: get_cached_read_through setting_coherent_def cache_ttl_def split_beta)
next
  case False
  then show ?thesis using assms by (simp add: get_cached_uncached)
qed

text \<open>The results of the typed reads.\<close>

definition int_setting :: "db \<Rightarrow> string \<Rightarrow> int \<Rightarrow> exn + int" where
  "int_setting db k d = (case setting_by_key db k of None \<Rightarrow> Inr d
     | Some s \<Rightarrow> (case py_int (st_value s) of None \<Rightarrow> Inl ValueError | Some n \<Rightarrow> Inr n))"

lemma get_str_value:
  "setting_coherent now db \<Longrightarrow> fst (get_str S now k d db) = set_if (map_option st_value (setting_by_key db k)) d"
  using get_cached_value [of now db S k] by (auto simp: get_str_def split: prod.split)

lemma get_int_value:
  "setting_coherent now db \<Longrightarrow>
     get_int S now k d db = bindE (int_setting db k d) (\<lambda>n. Inr (n, snd (get_cached S now k db)))"
  using get_cached_value [of now db S k]
  by (auto simp: get_int_def int_setting_def split: prod.split option.split)

lemma get_str_state: "\<exists>c. snd (get_str S now k d db) = db\<lparr>t_cache := c\<rparr>"
  using get_cached_state [of S now k db] by (auto simp: get_str_def split: prod.split)

lemma get_int_state: "get_int S now k d db = Inr (n, db') \<Longrightarrow> \<exists>c. db' = db\<lparr>t_cache := c\<rparr>"
  using get_cached_state [of S now k db] by (auto simp: get_int_def split: prod.splits option.splits)

lemma get_json_state: "get_json S now k d db = Inr (j, db') \<Longrightarrow> \<exists>c. db' = db\<lparr>t_cache := c\<rparr>"
  using get_cached_state [of S now k db] by (auto simp: get_json_def split: prod.splits option.splits)

section \<open>Writes keep the cache coherent\<close>

lemma setting_by_key_put:
  assumes "wf_table setting_entity (t_settings db)" "setting_by_id db (st_id s) = Some old" "st_key s = st_key old"
  shows "setting_by_key (put_setting now db s) k =
     map_option (\<lambda>x. if st_id x = st_id s then stored setting_entity now x s else x) (setting_by_key db k)"
proof -
  from repo_get_SomeD [OF assms(2) [unfolded setting_by_id_def]]
  have old: "old \<in> set (rows (t_settings db))" "st_id old = st_id s" by simp_all
  have "st_key (stored setting_entity now x s) = st_key x"
    if "x \<in> set (rows (t_settings db))" "st_id x = st_id s" for x
  proof -
    have "x = old" using wf_same_row [OF assms(1) that(1) old(1)] that(2) old(2) by (simp only: entity_ids)
    moreover have "st_key (stored setting_entity now x s) = st_key s" by (simp add: stored_def setting_entity_def)
    ultimately show ?thesis using assms(3) by (simp only:)
  qed
  then have "find (\<lambda>x. st_key x = k) (rows (repo_update setting_entity now (t_settings db) s)) =
     map_option (\<lambda>x. if e_id setting_entity x = e_id setting_entity s then stored setting_entity now x s else x)
       (find (\<lambda>x. st_key x = k) (rows (t_settings db)))"
    by (intro find_update) simp
  then show ?thesis by (simp add: setting_by_key_def put_setting_def)
qed

lemma stored_setting_value [simp]:
  "st_value (stored setting_entity now x s) = st_value s" "st_key (stored setting_entity now x s) = st_key s"
  by (auto simp: stored_def setting_entity_def)

lemma setting_by_keyD: "setting_by_key db k = Some s \<Longrightarrow> s \<in> set (rows (t_settings db)) \<and> st_key s = k"
  by (auto simp: setting_by_key_def dest: find_Some_set)

lemma setting_cache_set_state [simp]:
  "setting_by_key (setting_cache_set S now k v db) k' = setting_by_key db k'"
  "t_settings (setting_cache_set S now k v db) = t_settings db"
  by (simp_all add: setting_cache_set_def)

text \<open>After a write of \<open>k\<close> both the table and the cache hold the new text.\<close>

definition wf_settings :: "db \<Rightarrow> bool" where
  "wf_settings db \<longleftrightarrow> wf_table setting_entity (t_settings db) \<and> distinct (map st_key (rows (t_settings db)))"

lemma put_setting_values:
  assumes "wf_settings db" "item \<in> set (rows (t_settings db))" "st_id s = st_id item" "st_key s = st_key item"
  shows "map_option st_value (setting_by_key (put_setting now db s) k') =
     (if k' = st_key item then Some (st_value s) else map_option st_value (setting_by_key db k'))"
proof -
  have got: "setting_by_id db (st_id s) = Some item"
    using assms settings.get_unique [of "t_settings db" item] by (simp add: setting_by_id_def wf_settings_def)
  have put: "setting_by_key (put_setting now db s) k' =
     map_option (\<lambda>x. if st_id x = st_id s then stored setting_entity now x s else x) (setting_by_key db k')"
    using assms(1,4) got by (intro setting_by_key_put) (simp_all add: wf_settings_def)
  have same: "x = item \<longleftrightarrow> k' = st_key item" if "setting_by_key db k' = Some x" for x
    using setting_by_keyD [OF that] assms(1,2) unfolding wf_settings_def distinct_map by (metis inj_onD)
  have ids: "st_id x = st_id s \<longleftrightarrow> x = item" if "setting_by_key db k' = Some x" for x
    using setting_by_keyD [OF that] assms(1,2,3) wf_same_row [of setting_entity "t_settings db" x item]
    unfolding wf_settings_def entity_ids by metis
  have "setting_by_key db k' \<noteq> None" if "k' = st_key item"
    using that assms(2) by (auto simp: setting_by_key_def find_None_iff)
  then show ?thesis using same ids by (cases "setting_by_key db k'") (auto simp: put)
qed

lemma set_setting_table:
  assumes "wf_settings db" "set_setting S now k v ty db = Inr db'"
  shows "map_option st_value (setting_by_key db' k') =
     (if k' = k then Some (setting_text S v ty) else map_option st_value (setting_by_key db k'))"
proof (cases "setting_by_key db k")
  case (Some item)
  let ?s = "item\<lparr>st_value := setting_text S v ty, st_type := ty\<rparr>"
  from setting_by_keyD [OF Some] have item: "item \<in> set (rows (t_settings db))" "st_key item = k" by auto
  have "setting_by_key db' k' = setting_by_key (put_setting now db ?s) k'"
    using assms(2) Some by (auto simp: set_setting_def)
  then show ?thesis using put_setting_values [OF assms(1) item(1), of ?s now k'] item(2) by simp
next
  case None
  with assms(2) show ?thesis
    by (auto simp: set_setting_def insert_setting_def result_simps setting_by_key_def find_append
          new_row_def setting_entity_def blank_setting_def split: option.splits)
qed

text \<open>A table whose value of \<open>k\<close> became \<open>v\<close> stays coherent once the cache entry is written, and
  one that lost \<open>k\<close> once the entry is deleted.\<close>

lemma cache_set_coherent:
  assumes "setting_coherent now db" "sv_cached S" "t_cache db1 = t_cache db"
    and "\<And>k'. map_option st_value (setting_by_key db1 k') =
           (if k' = k then Some v else map_option st_value (setting_by_key db k'))"
  shows "setting_coherent now (setting_cache_set S now k v db1)"
proof -
  have src: "setting_src db1 ck = map_option JStr (map_option st_value (setting_by_key db1 (drop 8 ck)))"
    "setting_src db ck = map_option JStr (map_option st_value (setting_by_key db (drop 8 ck)))" for ck
    by (simp_all add: setting_src_def option.map_comp comp_def)
  have "rc.coherent now is_setting_key (setting_src db1)
     (snd (cache_set now (cache_key k) (JStr v) (Some cache_ttl) (t_cache db)))"
  proof (rule rc.coherent_store)
    show "rc.coherent now is_setting_key (setting_src db) (t_cache db)"
      using assms(1) by (simp add: setting_coherent_def)
    show "setting_src db1 (cache_key k) = Some (JStr v)" by (simp add: src assms(4) del: setting_src_cache_key)
    show "setting_src db1 ck = setting_src db ck" if "is_setting_key ck" "ck \<noteq> cache_key k" for ck
      using that by (auto simp: src assms(4) is_setting_key_def)
  qed (simp_all add: cache_ttl_def)
  then show ?thesis using assms(2,3) by (simp add: setting_cache_set_def setting_coherent_def)
qed

lemma cache_delete_coherent:
  assumes "setting_coherent now db" "sv_cached S" "t_cache db1 = t_cache db"
    and "\<And>k'. k' \<noteq> k \<Longrightarrow> setting_by_key db1 k' = setting_by_key db k'"
  shows "setting_coherent now (setting_cache_delete S k db1)"
proof -
  have "rc.coherent now is_setting_key (setting_src db1) (snd (cache_delete (cache_key k) (t_cache db)))"
  proof (rule rc.coherent_drop)
    show "rc.coherent now is_setting_key (setting_src db) (t_cache db)"
      using assms(1) by (simp add: setting_coherent_def)
    show "setting_src db1 ck = setting_src db ck" if "is_setting_key ck" "ck \<noteq> cache_key k" for ck
    proof -
      have "drop 8 ck \<noteq> k" using that by (auto simp: is_setting_key_def)
      then show ?thesis by (simp add: setting_src_def assms(4))
    qed
  qed
  then show ?thesis using assms(2,3) by (simp add: setting_cache_delete_def setting_coherent_def)
qed

lemma set_setting_shape:
  "set_setting S now k v ty db = Inr db' \<Longrightarrow>
     \<exists>db1. db' = setting_cache_set S now k (setting_text S v ty) db1 \<and> t_cache db1 = t_cache db"
  by (auto simp: set_setting_def insert_setting_def put_setting_def result_simps split: option.splits)

lemma set_setting_coherent:
  assumes "wf_settings db" "setting_coherent now db" "sv_cached S" "set_setting S now k v ty db = Inr db'"
  shows "setting_coherent now db'"
proof -
  from set_setting_shape [OF assms(4)] obtain db1 where
    db1: "db' = setting_cache_set S now k (setting_text S v ty) db1" "t_cache db1 = t_cache db" by blast
  have "map_option st_value (setting_by_key db1 k') =
     (if k' = k then Some (setting_text S v ty) else map_option st_value (setting_by_key db k'))" for k'
    using set_setting_table [OF assms(1,4), of k'] by (simp add: db1(1))
  then show ?thesis unfolding db1(1) using assms(2,3) db1(2) by (intro cache_set_coherent)
qed

lemma put_setting_wf:
  assumes "wf_settings db" "item \<in> set (rows (t_settings db))" "st_id s = st_id item" "st_key s = st_key item"
  shows "wf_settings (put_setting now db s)"
proof -
  have got: "repo_get setting_entity (t_settings db) (e_id setting_entity s) = Some item"
    using assms settings.get_unique [of "t_settings db" item] by (simp add: wf_settings_def)
  have "map st_key (rows (repo_update setting_entity now (t_settings db) s)) = map st_key (rows (t_settings db))"
    using assms(1,4) got by (intro map_col_update [where ?r0.0 = item]) (simp_all add: wf_settings_def wf_table_def)
  then show ?thesis
    using assms(1) settings.wf_update [of "t_settings db" now s] by (simp add: wf_settings_def put_setting_def)
qed

lemma insert_setting_wf:
  assumes "wf_settings db" "insert_setting now db s = Inr (r, db')"
  shows "wf_settings db'"
  using assms settings.wf_create [of "t_settings db" now s]
  by (fastforce simp: insert_setting_def result_simps wf_settings_def list_ex_iff)

lemma wf_settings_cache_set [simp]:
  "wf_settings (setting_cache_set S now k v db) = wf_settings db"
  "wf_settings (setting_cache_delete S k db) = wf_settings db"
  "wf_settings (db\<lparr>t_cache := c\<rparr>) = wf_settings db"
  by (simp_all add: wf_settings_def setting_cache_set_def setting_cache_delete_def)

lemma set_setting_wf:
  assumes "wf_settings db" "set_setting S now k v ty db = Inr db'"
  shows "wf_settings db'"
  using assms put_setting_wf [OF assms(1)] insert_setting_wf [OF assms(1)]
  by (auto simp: set_setting_def result_simps split: option.splits dest!: setting_by_keyD)

lemma setting_by_idD: "setting_by_id db i = Some s \<Longrightarrow> s \<in> set (rows (t_settings db))"
  using repo_get_SomeD [of setting_entity "t_settings db" i s] by (simp add: setting_by_id_def)

lemma update_setting_wf:
  "wf_settings db \<Longrightarrow> update_setting S now i data db = Inr (r, db') \<Longrightarrow> wf_settings db'"
  by (auto simp: update_setting_def result_simps Let_def split: option.splits dest!: setting_by_idD intro!: put_setting_wf)

lemma create_setting_wf:
  "wf_settings db \<Longrightarrow> create_setting S now data db = Inr (r, db') \<Longrightarrow> wf_settings db'"
  by (auto simp: create_setting_def result_simps dest: insert_setting_wf)

lemma delete_setting_wf:
  assumes "wf_settings db" "delete_setting S i db = Inr db'"
  shows "wf_settings db'"
proof -
  have "wf_settings (db\<lparr>t_settings := repo_delete setting_entity (t_settings db) item\<rparr>)" for item
    using assms(1) settings.wf_delete [of "t_settings db" item]
    by (simp add: wf_settings_def, simp add: repo_delete_def distinct_map_filter)
  then show ?thesis using assms(2) by (auto simp: delete_setting_def split: option.splits)
qed

lemma delete_setting_coherent:
  assumes "wf_settings db" "setting_coherent now db" "sv_cached S" "delete_setting S i db = Inr db'"
  shows "setting_coherent now db'"
proof -
  from assms(4) obtain item where item: "setting_by_id db i = Some item"
    and db': "db' = setting_cache_delete S (st_key item) (db\<lparr>t_settings := repo_delete setting_entity (t_settings db) item\<rparr>)"
    by (auto simp: delete_setting_def split: option.splits)
  have mem: "item \<in> set (rows (t_settings db))"
    using repo_get_SomeD [of setting_entity "t_settings db" i item] item by (simp add: setting_by_id_def)
  have "find (\<lambda>s. st_key s = k') (filter (\<lambda>x. st_id x \<noteq> st_id item) (rows (t_settings db)))
      = find (\<lambda>s. st_key s = k') (rows (t_settings db))" if "k' \<noteq> st_key item" for k'
  proof -
    have "st_id x \<noteq> st_id item" if "x \<in> set (rows (t_settings db))" "st_key x = k'" for x
      using that \<open>k' \<noteq> st_key item\<close> mem wf_same_row [of setting_entity "t_settings db" x item] assms(1)
      unfolding wf_settings_def entity_ids by blast
    then show ?thesis unfolding find_filter by (intro find_cong_pred) blast
  qed
  then show ?thesis unfolding db' using assms(2,3)
    by (intro cache_delete_coherent [of now db]) (simp_all add: setting_by_key_def repo_delete_def)
qed

lemma update_setting_coherent:
  assumes "wf_settings db" "setting_coherent now db" "sv_cached S" "update_setting S now i data db = Inr (r, db')"
  shows "setting_coherent now db'"
proof -
  from assms(4) obtain item where item: "setting_by_id db i = Some item"
    by (auto simp: update_setting_def split: option.splits)
  let ?s = "item\<lparr>st_value := set_if (given (sx_value data)) (st_value item),
     st_type := set_if (given (sx_type data)) (st_type item),
     st_description := set_if (sx_description data) (st_description item)\<rparr>"
  have db': "db' = setting_cache_set S now (st_key item) (st_value ?s) (put_setting now db ?s)"
    using assms(4) item by (auto simp: update_setting_def result_simps Let_def)
  have mem: "item \<in> set (rows (t_settings db))"
    using repo_get_SomeD [of setting_entity "t_settings db" i item] item by (simp add: setting_by_id_def)
  show ?thesis unfolding db'
    using put_setting_values [OF assms(1) mem, of ?s now] assms(2,3)
    by (intro cache_set_coherent [of now db]) (simp_all add: put_setting_def)
qed

lemma create_setting_coherent:
  assumes "setting_coherent now db" "sv_cached S" "create_setting S now data db = Inr (r, db')"
  shows "setting_coherent now db'"
proof -
  let ?s = "blank_setting\<lparr>st_key := sc_key data, st_value := sc_value data, st_type := sc_type data,
     st_description := sc_description data\<rparr>"
  from assms(3) have none: "setting_by_key db (sc_key data) = None"
    and db': "db' = setting_cache_set S now (sc_key data) (sc_value data)
       (db\<lparr>t_settings := repo_create setting_entity now (t_settings db) ?s\<rparr>)"
    by (auto simp: create_setting_def insert_setting_def result_simps)
  show ?thesis unfolding db' using assms(1,2) none
    by (intro cache_set_coherent [of now db])
       (auto simp: setting_by_key_def find_append new_row_def setting_entity_def blank_setting_def split: option.split)
qed

lemma save_config_is_set: "\<exists>v' ty. save_config S now k v db = set_setting S now k v' ty db"
  by (cases v) (auto simp: save_config_def)

lemma batch_save_coherent:
  assumes "wf_settings db" "setting_coherent now db" "sv_cached S" "batch_save_config S now items db = Inr db'"
  shows "wf_settings db' \<and> setting_coherent now db'"
  using assms(4) unfolding batch_save_config_def
proof (rule foldE_invariant)
  show "wf_settings db \<and> setting_coherent now db" using assms by simp
next
  fix x and s t :: db
  assume "wf_settings s \<and> setting_coherent now s" "(case x of (k, v) \<Rightarrow> save_config S now k v) s = Inr t"
  then show "wf_settings t \<and> setting_coherent now t"
    using assms(3) save_config_is_set [of S now "fst x" "snd x" s] set_setting_wf set_setting_coherent
    by (auto simp: split_beta)
qed

section \<open>Sequences of operations\<close>

text \<open>The operations of the service. A request whose operation raises is rolled back.\<close>

datatype setting_op =
    OpRead string
  | OpSet string json string
  | OpBatch "(string \<times> json) list"
  | OpCreate setting_create
  | OpUpdate int setting_update
  | OpDelete int

fun run_setting_op :: "setting_service \<Rightarrow> int \<Rightarrow> setting_op \<Rightarrow> db \<Rightarrow> exn + db" where
  "run_setting_op S now (OpRead k) db = Inr (snd (get_str S now k [] db))"
| "run_setting_op S now (OpSet k v ty) db = set_setting S now k v ty db"
| "run_setting_op S now (OpBatch items) db = batch_save_config S now items db"
| "run_setting_op S now (OpCreate data) db = bindE (create_setting S now data db) (\<lambda>(_, db'). Inr db')"
| "run_setting_op S now (OpUpdate i data) db = bindE (update_setting S now i data db) (\<lambda>(_, db'). Inr db')"
| "run_setting_op S now (OpDelete i) db = delete_setting S i db"

definition setting_request :: "setting_service \<Rightarrow> int \<times> setting_op \<Rightarrow> db \<Rightarrow> db" where
  "setting_request S req db = (case run_setting_op S (fst req) (snd req) db of Inl e \<Rightarrow> db | Inr db' \<Rightarrow> db')"

lemma setting_op_keeps:
  assumes "wf_settings db" "setting_coherent now db" "sv_cached S" "run_setting_op S now op db = Inr db'"
  shows "wf_settings db' \<and> setting_coherent now db'"
proof (cases op)
  case (OpRead k)
  then show ?thesis
    using assms get_cached_coherent [OF assms(2), of S k] get_cached_state [of S now k db]
    by (auto simp: get_str_def split_beta)
next
  case (OpSet k v ty)
  then show ?thesis using assms set_setting_wf set_setting_coherent by (metis run_setting_op.simps(2))
next
  case (OpBatch items)
  then show ?thesis using assms batch_save_coherent by (metis run_setting_op.simps(3))
next
  case (OpCreate data)
  then show ?thesis using assms create_setting_wf create_setting_coherent by (auto simp: result_simps)
next
  case (OpUpdate i data)
  then show ?thesis using assms update_setting_wf update_setting_coherent by (auto simp: result_simps)
next
  case (OpDelete i)
  then show ?thesis using assms delete_setting_wf delete_setting_coherent by (metis run_setting_op.simps(6))
qed

lemma setting_coherent_mono: "setting_coherent now db \<Longrightarrow> now \<le> now' \<Longrightarrow> setting_coherent now' db"
  unfolding setting_coherent_def by (rule rc.coherent_mono)

lemma setting_requests_keep:
  assumes "wf_settings db" "setting_coherent now db" "sv_cached S" "sorted (map fst reqs)"
    "\<forall>r\<in>set reqs. now \<le> fst r \<and> fst r \<le> now'" "now \<le> now'"
  shows "wf_settings (fold (setting_request S) reqs db) \<and> setting_coherent now' (fold (setting_request S) reqs db)"
  using assms
proof (induction reqs arbitrary: db now)
  case Nil
  then show ?case by (auto intro: setting_coherent_mono)
next
  case (Cons r reqs)
  let ?db = "setting_request S r db"
  have co: "setting_coherent (fst r) db" using Cons.prems(2,5) by (auto intro: setting_coherent_mono)
  have "wf_settings ?db \<and> setting_coherent (fst r) ?db"
  proof (cases "run_setting_op S (fst r) (snd r) db")
    case (Inr db')
    then show ?thesis using setting_op_keeps [OF Cons.prems(1) co Cons.prems(3)] by (simp add: setting_request_def)
  qed (use Cons.prems(1) co in \<open>simp add: setting_request_def\<close>)
  then show ?case
    using Cons.IH [of ?db "fst r"] Cons.prems(3,4,5) by simp
qed

section \<open>Properties\<close>

text \<open>C17: After any sequence of requests to the configuration service (reads, writes, batches,
  creations, updates, deletions, each rolled back when it raises), with a clock that does not run
  backwards and starting from an empty cache, a read through the cache returns what the table
  holds, or the default when the key has no row.\<close>

theorem settings_cache_coherent:
  assumes "wf_settings db" "t_cache db = []" "sv_cached S"
    and "sorted (map fst reqs)" "\<forall>r\<in>set reqs. fst r \<le> now"
  shows "fst (get_str S now k d (fold (setting_request S) reqs db)) =
     set_if (map_option st_value (setting_by_key (fold (setting_request S) reqs db) k)) d"
proof -
  have start: "setting_coherent t db" for t
    using assms(2) by (auto simp: setting_coherent_def rc.coherent_def wf_cache_def cache_get_value cache_value_def)
  show ?thesis
    using setting_requests_keep [OF assms(1) start assms(3,4), of "Min (fst ` set reqs \<union> {now})" now] assms(5)
    by (intro get_str_value) (auto intro: Min_le)
qed

text \<open>A value written by \<open>SettingService.set\<close> is what every later read returns, within the
  lifetime of the cache entry and after it; reads of the other keys are unchanged.\<close>

theorem set_then_get:
  assumes "wf_settings db" "setting_coherent now db" "sv_cached S" "set_setting S now k v ty db = Inr db'" "now \<le> now'"
  shows "fst (get_str S now' k d db') = setting_text S v ty \<and>
     (\<forall>k'. k' \<noteq> k \<longrightarrow> fst (get_str S now' k' d db') = fst (get_str S now' k' d db))"
proof -
  have co: "setting_coherent now' db" "setting_coherent now' db'"
    using assms set_setting_coherent [OF assms(1-4)] by (auto intro: setting_coherent_mono)
  show ?thesis
    using set_setting_table [OF assms(1,4)] by (simp add: get_str_value co)
qed

section \<open>Witnesses\<close>

text \<open>A service with a cache and a codec that is not consulted.\<close>

definition sample_service :: setting_service where
  "sample_service = \<lparr>sv_codec = \<lparr>dumps = (\<lambda>_. []), loads = (\<lambda>_. None), py_repr = (\<lambda>_. [])\<rparr>, sv_cached = True\<rparr>"

lemma empty_db_settings: "wf_settings empty_db" "t_cache empty_db = []"
  by (simp_all add: wf_settings_def empty_db_def settings.wf_empty)

lemma empty_db_coherent: "setting_coherent t empty_db"
  by (auto simp: setting_coherent_def rc.coherent_def wf_cache_def cache_get_value cache_value_def empty_db_settings)

theorem settings_cache_coherent_witness:
  "fst (get_str sample_service 9 ''a'' []
     (fold (setting_request sample_service) [(1, OpSet ''a'' (JInt 3) ''int''), (5, OpRead ''a'')] empty_db)) = ''3''"
proof -
  have "set_if (map_option st_value (setting_by_key (fold (setting_request sample_service)
     [(1, OpSet ''a'' (JInt 3) ''int''), (5, OpRead ''a'')] empty_db) ''a'')) [] = ''3''" by code_simp
  then show ?thesis
    using settings_cache_coherent [of empty_db sample_service
      "[(1, OpSet ''a'' (JInt 3) ''int''), (5, OpRead ''a'')]" 9 "''a''" "[]"] empty_db_settings
    by (simp add: sample_service_def)
qed

theorem set_then_get_witness:
  "\<exists>db'. set_setting sample_service 1 ''a'' (JStr ''x'') ''str'' empty_db = Inr db' \<and>
     fst (get_str sample_service 4000 ''a'' [] db') = ''x''"
proof -
  have "is_ok (set_setting sample_service 1 ''a'' (JStr ''x'') ''str'' empty_db)" by code_simp
  then obtain db' where db': "set_setting sample_service 1 ''a'' (JStr ''x'') ''str'' empty_db = Inr db'"
    by (rule is_okE)
  have "sv_cached sample_service" "setting_text sample_service (JStr ''x'') ''str'' = ''x''" by code_simp+
  then show ?thesis
    using set_then_get [OF empty_db_settings(1) empty_db_coherent _ db', of 4000] db' by simp
qed

end
