(* ===== verification/Samples.thy ===== *)
theory Samples
  imports Settings
begin

text \<open>
  Concrete rows for the witnesses of the components: a user, an order and a plan, each with the
  values the others refer to (user 1, plan 1).
\<close>

definition sample_order :: order where
  "sample_order = \<lparr>od_id = 0, od_invite_user_id = None, od_user_id = 1, od_plan_id = 1, od_coupon_id = None,
     od_payment_id = None, od_type = 1, od_period = ''month_price'', od_trade_no = ''T1'', od_callback_no = None,
     od_total_amount = 1000, od_handling_amount = None, od_discount_amount = None, od_surplus_amount = None,
     od_refund_amount = None, od_balance_amount = None, od_surplus_order_ids = None, od_status = 0,
     od_commission_status = 0, od_commission_balance = 0, od_actual_commission_balance = None,
     od_paid_at = None, od_created_at = 0, od_updated_at = 0\<rparr>"

definition sample_user :: user where
  "sample_user = \<lparr>us_id = 1, us_email = ''a@b.c'', us_password = ''x'', us_token = ''t1'', us_invite_user_id = Some 2,
     us_telegram_id = None, us_balance = 0, us_discount = None, us_commission_type = 0, us_commission_rate = None,
     us_commission_balance = 0, us_t = 0, us_u = 5, us_d = 6, us_transfer_enable = 0, us_group_id = None,
     us_plan_id = None, us_speed_limit = None, us_device_limit = None, us_banned = False, us_is_admin = False,
     us_is_staff = False, us_auto_renewal = 0, us_remind_expire = 1, us_remind_traffic = 1, us_last_login_at = None,
     us_last_login_ip = None, us_uuid = ''u1'', us_expired_at = 0, us_remarks = None, us_created_at = 0, us_updated_at = 0\<rparr>"

definition sample_plan :: plan where
  "sample_plan = \<lparr>pl_id = 1, pl_group_id = 3, pl_transfer_enable = 1000, pl_device_limit = None, pl_name = ''basic'',
     pl_speed_limit = None, pl_show = True, pl_sort = None, pl_renew = True, pl_content = None,
     pl_month_price = Some 1000, pl_quarter_price = None, pl_half_year_price = None, pl_year_price = Some 9000,
     pl_two_year_price = None, pl_three_year_price = None, pl_onetime_price = None, pl_reset_price = Some 100,
     pl_reset_traffic_method = None, pl_capacity_limit = Some 10, pl_created_at = 0, pl_updated_at = 0\<rparr>"

end
