(* ===== verification/Coupons.thy ===== *)
theory Coupons
  imports Samples
begin

text \<open>
  \<open>app/services/coupon.py\<close>: administration of coupons, validation against an order, the
  discount, and the consumption of a coupon when an order is paid. The random codes are a
  parameter \<open>rnd\<close> (the draws in the order they are made, as in every theory that generates
  codes). A handler returns the row where the code returns one of its views.
\<close>

section \<open>Restrictions stored as text\<close>

definition parse_optional_list :: "codec \<Rightarrow> string option \<Rightarrow> json list" where
  "parse_optional_list C v =
     (case v of
        None \<Rightarrow> []
      | Some s \<Rightarrow>
          if s = [] then []
          else (case loads C s of
              None \<Rightarrow> map JStr (filter (\<lambda>t. t \<noteq> []) (map strip (split_on (CHR '','') s)))
            | Some (JArr xs) \<Rightarrow> xs
            | Some _ \<Rightarrow> []))"

definition dump_optional_list :: "codec \<Rightarrow> json \<Rightarrow> string option" where
  "dump_optional_list C v =
     (if v \<in> {JNull, JStr [], JArr []} then None else case v of JStr s \<Rightarrow> Some s | _ \<Rightarrow> Some (dumps C v))"

text \<open>Python's \<open>int\<close> on a decoded JSON value.\<close>

definition int_of_json :: "json \<Rightarrow> exn + int" where
  "int_of_json v =
     (case v of
        JInt n \<Rightarrow> Inr n
      | JBool b \<Rightarrow> Inr (if b then 1 else 0)
      | JFloat x \<Rightarrow> Inr (trunc_double x)
      | JStr s \<Rightarrow> (case py_int s of None \<Rightarrow> Inl ValueError | Some n \<Rightarrow> Inr n)
      | _ \<Rightarrow> Inl TypeError)"

definition normalize_code :: "string \<Rightarrow> exn + string" where
  "normalize_code c = (let c' = upper (strip c) in guardE (c' = []) (BadRequest ''empty code'') (Inr c'))"

section \<open>Discount and validation\<close>

definition calculate_discount :: "coupon \<Rightarrow> int \<Rightarrow> exn + int" where
  "calculate_discount c amount =
     (if amount \<le> 0 then Inr 0
      else bindE (if cp_type c = 1 then Inr (cp_value c)
            else if cp_type c = 2 then Inr (trunc_double (mul_double (of_int_double amount) (true_div (cp_value c) 100)))
            else Inl (BadRequest ''unknown coupon type''))
        (\<lambda>discount. Inr (max 0 (min amount discount))))"

definition validate_coupon :: "codec \<Rightarrow> int \<Rightarrow> db \<Rightarrow> coupon option \<Rightarrow> int \<Rightarrow> int \<Rightarrow> string \<Rightarrow> int option \<Rightarrow> exn + coupon" where
  "validate_coupon C now db coupon uid pid period excl =
     (case coupon of
        None \<Rightarrow> Inl (BadRequest ''invalid coupon'')
      | Some c \<Rightarrow>
          guardE (\<not> cp_show c) (BadRequest ''invalid coupon'') (
          guardE (case cp_limit_use c of None \<Rightarrow> False | Some n \<Rightarrow> n \<le> 0) (BadRequest ''coupon used up'') (
          guardE (now < cp_started_at c) (BadRequest ''coupon not started'') (
          guardE (cp_ended_at c < now) (BadRequest ''coupon expired'') (
          bindE (mapE int_of_json (parse_optional_list C (cp_limit_plan_ids c))) (\<lambda>plan_ids.
          guardE (plan_ids \<noteq> [] \<and> pid \<notin> set plan_ids) (BadRequest ''not for this plan'') (
          let periods = map (py_str C) (parse_optional_list C (cp_limit_period c)) in
          guardE (periods \<noteq> [] \<and> period \<notin> set periods) (BadRequest ''not for this period'') (
          guardE (case cp_limit_use_with_user c of None \<Rightarrow> False
                  | Some n \<Rightarrow> n \<le> coupon_count_user_used db (cp_id c) uid excl) (BadRequest ''user limit reached'')
            (Inr c)))))))))"

definition validate_code :: "codec \<Rightarrow> int \<Rightarrow> db \<Rightarrow> string \<Rightarrow> int \<Rightarrow> int \<Rightarrow> string \<Rightarrow> exn + coupon" where
  "validate_code C now db code uid pid period =
     bindE (normalize_code code) (\<lambda>code'.
     bindE (coupon_by_code db code') (\<lambda>c. validate_coupon C now db c uid pid period None))"

definition apply_to_order :: "codec \<Rightarrow> int \<Rightarrow> db \<Rightarrow> string \<Rightarrow> order \<Rightarrow> exn + order" where
  "apply_to_order C now db code r =
     bindE (validate_code C now db code (od_user_id r) (od_plan_id r) (od_period r)) (\<lambda>c.
     bindE (calculate_discount c (od_total_amount r)) (\<lambda>discount.
     guardE (discount \<le> 0) (BadRequest ''coupon not applicable'')
       (Inr (r\<lparr>od_coupon_id := Some (cp_id c), od_discount_amount := Some discount,
               od_total_amount := max 0 (od_total_amount r - discount)\<rparr>))))"

definition discount_base :: "order \<Rightarrow> int" where
  "discount_base r = od_total_amount r + or_zero (od_balance_amount r) + or_zero (od_discount_amount r)"

definition consume_for_paid_order :: "codec \<Rightarrow> int \<Rightarrow> order \<Rightarrow> db \<Rightarrow> exn + db" where
  "consume_for_paid_order C now r db =
     (case od_coupon_id r of
        None \<Rightarrow> Inr db
      | Some cid \<Rightarrow>
          (case coupon_by_id_for_update db cid of
             None \<Rightarrow> Inl (BadRequest ''invalid coupon'')
           | Some c \<Rightarrow>
               bindE (validate_coupon C now db (Some c) (od_user_id r) (od_plan_id r) (od_period r) (Some (od_id r))) (\<lambda>_.
               bindE (calculate_discount c (discount_base r)) (\<lambda>discount.
               guardE (discount \<noteq> or_zero (od_discount_amount r)) (BadRequest ''discount changed'')
                 (Inr (case cp_limit_use c of None \<Rightarrow> db | Some n \<Rightarrow> put_coupon now db (c\<lparr>cp_limit_use := Some (n - 1)\<rparr>)))))))"

record coupon_check =
  cc_code :: string
  cc_plan_id :: int
  cc_period :: string
  cc_amount :: "int option"

definition check_coupon :: "codec \<Rightarrow> int \<Rightarrow> int \<Rightarrow> coupon_check \<Rightarrow> db \<Rightarrow> exn + coupon \<times> int option" where
  "check_coupon C now uid data db =
     bindE (validate_code C now db (cc_code data) uid (cc_plan_id data) (cc_period data)) (\<lambda>c.
       case cc_amount data of
         None \<Rightarrow> Inr (c, None)
       | Some a \<Rightarrow> bindE (calculate_discount c a) (\<lambda>d. Inr (c, Some d)))"

section \<open>Administration\<close>

text \<open>\<open>_validate_payload\<close>: comparing \<open>None\<close> with an integer raises \<open>TypeError\<close>.\<close>

definition validate_payload :: "int option \<Rightarrow> int option \<Rightarrow> int option \<Rightarrow> int option \<Rightarrow> exn + unit" where
  "validate_payload ty v started ended =
     guardE (ty \<notin> {Some 1, Some 2}) (BadRequest ''coupon type'') (
     case v of None \<Rightarrow> Inl TypeError | Some x \<Rightarrow>
     guardE (x \<le> 0) (BadRequest ''coupon value'') (
     case (started, ended) of
       (Some a, Some b) \<Rightarrow> guardE (b \<le> a) (BadRequest ''coupon period'') (Inr ())
     | _ \<Rightarrow> Inl TypeError))"

definition generate_coupon_code :: "string list \<Rightarrow> db \<Rightarrow> exn + string" where
  "generate_coupon_code rnd db = first_free (Conflict ''code generation'') (coupon_code_exists db) (take 100 rnd)"

definition ensure_code_available :: "db \<Rightarrow> string \<Rightarrow> exn + unit" where
  "ensure_code_available db c =
     bindE (coupon_code_exists db c) (\<lambda>b. guardE b (Conflict ''code exists'') (Inr ()))"

record coupon_create =
  ca_code :: "string option"
  ca_name :: string
  ca_type :: int
  ca_value :: int
  ca_show :: bool
  ca_limit_use :: "int option"
  ca_limit_use_with_user :: "int option"
  ca_limit_plan_ids :: json
  ca_limit_period :: json
  ca_started_at :: int
  ca_ended_at :: int

definition new_coupon :: "codec \<Rightarrow> coupon_create \<Rightarrow> string \<Rightarrow> coupon" where
  "new_coupon C data code =
     \<lparr>cp_id = 0, cp_code = code, cp_name = ca_name data, cp_type = ca_type data, cp_value = ca_value data,
       cp_show = ca_show data, cp_limit_use = ca_limit_use data, cp_limit_use_with_user = ca_limit_use_with_user data,
       cp_limit_plan_ids = dump_optional_list C (ca_limit_plan_ids data),
       cp_limit_period = dump_optional_list C (ca_limit_period data),
       cp_started_at = ca_started_at data, cp_ended_at = ca_ended_at data, cp_created_at = 0, cp_updated_at = 0\<rparr>"

definition insert_coupon :: "int \<Rightarrow> db \<Rightarrow> coupon \<Rightarrow> coupon \<times> db" where
  "insert_coupon now db c =
     (new_row coupon_entity now (t_coupons db) c, db\<lparr>t_coupons := repo_create coupon_entity now (t_coupons db) c\<rparr>)"

definition create_coupon :: "codec \<Rightarrow> int \<Rightarrow> string list \<Rightarrow> coupon_create \<Rightarrow> db \<Rightarrow> exn + coupon \<times> db" where
  "create_coupon C now rnd data db =
     bindE (case ca_code data of
              None \<Rightarrow> generate_coupon_code rnd db
            | Some c \<Rightarrow> if c = [] then generate_coupon_code rnd db else Inr c) (\<lambda>raw.
     bindE (normalize_code raw) (\<lambda>code.
     bindE (ensure_code_available db code) (\<lambda>_.
     bindE (validate_payload (Some (ca_type data)) (Some (ca_value data)) (Some (ca_started_at data)) (Some (ca_ended_at data))) (\<lambda>_.
     Inr (insert_coupon now db (new_coupon C data code))))))"

text \<open>\<open>generate\<close>: one draw list per coupon; \<open>ca_code\<close> is not used.\<close>

fun generate_loop :: "codec \<Rightarrow> int \<Rightarrow> (nat \<Rightarrow> string list) \<Rightarrow> nat \<Rightarrow> coupon_create \<Rightarrow> db \<Rightarrow> exn + coupon list \<times> db" where
  "generate_loop C now rnd 0 data db = Inr ([], db)"
| "generate_loop C now rnd (Suc n) data db =
     bindE (generate_coupon_code (rnd n) db) (\<lambda>code.
     bindE (validate_payload (Some (ca_type data)) (Some (ca_value data)) (Some (ca_started_at data)) (Some (ca_ended_at data))) (\<lambda>_.
     let (item, db1) = insert_coupon now db (new_coupon C data code) in
     bindE (generate_loop C now rnd n data db1) (\<lambda>(items, db2). Inr (item # items, db2))))"

definition generate_coupons :: "codec \<Rightarrow> int \<Rightarrow> (nat \<Rightarrow> string list) \<Rightarrow> int \<Rightarrow> coupon_create \<Rightarrow> db \<Rightarrow> exn + coupon list \<times> db" where
  "generate_coupons C now rnd n data db =
     guardE (n < 1 \<or> 500 < n) (BadRequest ''generate count'') (generate_loop C now rnd (nat n) data db)"

record coupon_update =
  cu_code :: "string option option"
  cu_name :: "string option option"
  cu_type :: "int option option"
  cu_value :: "int option option"
  cu_show :: "bool option option"
  cu_limit_use :: "int option option"
  cu_limit_use_with_user :: "int option option"
  cu_limit_plan_ids :: "json option"
  cu_limit_period :: "json option"
  cu_started_at :: "int option option"
  cu_ended_at :: "int option option"

definition update_coupon :: "codec \<Rightarrow> int \<Rightarrow> int \<Rightarrow> coupon_update \<Rightarrow> db \<Rightarrow> exn + coupon \<times> db" where
  "update_coupon C now i data db =
     (case coupon_by_id db i of
        None \<Rightarrow> Inl (NotFound ''coupon'')
      | Some item \<Rightarrow>
          bindE (case given (cu_code data) of
                   None \<Rightarrow> Inr (cp_code item)
                 | Some c \<Rightarrow> bindE (normalize_code c) (\<lambda>code.
                     if code \<noteq> cp_code item then bindE (ensure_code_available db code) (\<lambda>_. Inr code) else Inr code)) (\<lambda>code.
          bindE (validate_payload (set_if (cu_type data) (Some (cp_type item))) (set_if (cu_value data) (Some (cp_value item)))
                   (set_if (cu_started_at data) (Some (cp_started_at item))) (set_if (cu_ended_at data) (Some (cp_ended_at item)))) (\<lambda>_.
          guardE (explicit_null (cu_code data) \<or> explicit_null (cu_name data) \<or> explicit_null (cu_show data)) IntegrityError
            (let item' = item\<lparr>cp_code := code, cp_name := set_if (given (cu_name data)) (cp_name item),
                   cp_type := set_if (given (cu_type data)) (cp_type item),
                   cp_value := set_if (given (cu_value data)) (cp_value item),
                   cp_show := set_if (given (cu_show data)) (cp_show item),
                   cp_limit_use := set_if (cu_limit_use data) (cp_limit_use item),
                   cp_limit_use_with_user := set_if (cu_limit_use_with_user data) (cp_limit_use_with_user item),
                   cp_limit_plan_ids := (case cu_limit_plan_ids data of None \<Rightarrow> cp_limit_plan_ids item | Some j \<Rightarrow> dump_optional_list C j),
                   cp_limit_period := (case cu_limit_period data of None \<Rightarrow> cp_limit_period item | Some j \<Rightarrow> dump_optional_list C j),
                   cp_started_at := set_if (given (cu_started_at data)) (cp_started_at item),
                   cp_ended_at := set_if (given (cu_ended_at data)) (cp_ended_at item)\<rparr>
             in Inr (item', put_coupon now db item')))))"

definition delete_coupon :: "int \<Rightarrow> db \<Rightarrow> exn + db" where
  "delete_coupon i db =
     (case coupon_by_id db i of
        None \<Rightarrow> Inl (NotFound ''coupon'')
      | Some item \<Rightarrow> Inr (db\<lparr>t_coupons := repo_delete coupon_entity (t_coupons db) item\<rparr>))"

definition toggle_coupon :: "int \<Rightarrow> int \<Rightarrow> db \<Rightarrow> exn + coupon \<times> db" where
  "toggle_coupon now i db =
     (case coupon_by_id db i of
        None \<Rightarrow> Inl (NotFound ''coupon'')
      | Some item \<Rightarrow> let item' = item\<lparr>cp_show := \<not> cp_show item\<rparr> in Inr (item', put_coupon now db item'))"

definition get_coupon :: "int \<Rightarrow> db \<Rightarrow> exn + coupon" where
  "get_coupon i db = (case coupon_by_id db i of None \<Rightarrow> Inl (NotFound ''coupon'') | Some c \<Rightarrow> Inr c)"

section \<open>Facts\<close>

lemma discount_bounds:
  "calculate_discount c amount = Inr d \<Longrightarrow> 0 \<le> d \<and> (0 < amount \<longrightarrow> d \<le> amount) \<and> (amount \<le> 0 \<longrightarrow> d = 0)"
  by (auto simp: calculate_discount_def result_simps split: if_splits)

lemma validate_couponD:
  "validate_coupon C now db co uid pid period excl = Inr c \<Longrightarrow>
     co = Some c \<and> cp_show c \<and> (\<forall>n. cp_limit_use c = Some n \<longrightarrow> 0 < n) \<and> cp_started_at c \<le> now \<and> now \<le> cp_ended_at c \<and>
     (\<forall>n. cp_limit_use_with_user c = Some n \<longrightarrow> coupon_count_user_used db (cp_id c) uid excl < n)"
  by (auto simp: validate_coupon_def result_simps Let_def split: option.splits)

lemma apply_to_orderD:
  assumes "apply_to_order C now db code r = Inr r'"
  shows "\<exists>c d. validate_code C now db code (od_user_id r) (od_plan_id r) (od_period r) = Inr c \<and>
     calculate_discount c (od_total_amount r) = Inr d \<and> 0 < d \<and> d \<le> od_total_amount r \<and>
     r' = r\<lparr>od_coupon_id := Some (cp_id c), od_discount_amount := Some d, od_total_amount := od_total_amount r - d\<rparr>"
proof -
  from assms obtain c d where v: "validate_code C now db code (od_user_id r) (od_plan_id r) (od_period r) = Inr c"
    and d: "calculate_discount c (od_total_amount r) = Inr d" "0 < d"
    and r': "r' = r\<lparr>od_coupon_id := Some (cp_id c), od_discount_amount := Some d, od_total_amount := max 0 (od_total_amount r - d)\<rparr>"
    by (auto simp: apply_to_order_def result_simps)
  have "d \<le> od_total_amount r" using discount_bounds [OF d(1)] d(2) by (cases "0 < od_total_amount r") auto
  with v d r' show ?thesis by (auto simp: max_def)
qed

lemma consume_shape:
  assumes "consume_for_paid_order C now r db = Inr db'" "od_coupon_id r = Some cid"
  shows "\<exists>c. coupon_by_id db cid = Some c \<and>
     calculate_discount c (discount_base r) = Inr (or_zero (od_discount_amount r)) \<and>
     db' = (case cp_limit_use c of None \<Rightarrow> db | Some n \<Rightarrow> put_coupon now db (c\<lparr>cp_limit_use := Some (n - 1)\<rparr>)) \<and>
     (\<forall>n. cp_limit_use c = Some n \<longrightarrow> 0 < n) \<and>
     (\<forall>n. cp_limit_use_with_user c = Some n \<longrightarrow> coupon_count_user_used db (cp_id c) (od_user_id r) (Some (od_id r)) < n)"
  using assms
  by (auto simp: consume_for_paid_order_def result_simps for_update split: option.splits dest!: validate_couponD)

lemma consume_only_coupons: "consume_for_paid_order C now r db = Inr db' \<Longrightarrow> \<exists>t. db' = db\<lparr>t_coupons := t\<rparr>"
  by (cases "od_coupon_id r")
     (auto simp: consume_for_paid_order_def result_simps put_coupon_def split: option.splits
       intro: exI [of _ "t_coupons db"])

section \<open>Codes stay unique\<close>

text \<open>The column has no unique constraint: the service keeps the codes distinct by its own checks.\<close>

definition wf_coupons :: "db \<Rightarrow> bool" where
  "wf_coupons db \<longleftrightarrow> wf_table coupon_entity (t_coupons db) \<and> distinct (map cp_code (rows (t_coupons db)))"

lemma cp_code_new_row [simp]:
  "cp_code (new_row coupon_entity now t c) = cp_code c" "cp_id (new_row coupon_entity now t c) = next_id t"
  by (simp_all add: new_row_def coupon_entity_def)

lemma stored_fields_coupon [simp]:
  "cp_code (stored coupon_entity now x c) = cp_code c" "cp_id (stored coupon_entity now x c) = cp_id c"
  "cp_limit_use (stored coupon_entity now x c) = cp_limit_use c"
  by (auto simp: stored_def coupon_entity_def)

lemma cp_code_new_coupon [simp]: "cp_code (new_coupon C data code) = code"
  by (simp add: new_coupon_def)

lemma code_free: "coupon_code_exists db code = Inr False \<Longrightarrow> code \<notin> cp_code ` set (rows (t_coupons db))"
  using find_one_None [of "\<lambda>r. cp_code r = code" "t_coupons db"]
  by (auto simp: coupon_code_exists_def coupon_by_code_def result_simps)

lemma insert_coupon_wf:
  "insert_coupon now db c = (r, db') \<Longrightarrow> wf_coupons db \<Longrightarrow> coupon_code_exists db (cp_code c) = Inr False \<Longrightarrow> wf_coupons db'"
  using coupons.wf_create [of "t_coupons db" now c] code_free [of db "cp_code c"]
  by (auto simp: insert_coupon_def wf_coupons_def)

lemma put_coupon_wf:
  assumes "wf_coupons db" "coupon_by_id db i = Some old" "cp_id c = cp_id old"
    and "cp_code c = cp_code old \<or> coupon_code_exists db (cp_code c) = Inr False"
  shows "wf_coupons (put_coupon now db c)"
proof -
  have wf: "wf_table coupon_entity (t_coupons db)" "distinct (map cp_code (rows (t_coupons db)))"
    using assms(1) by (simp_all add: wf_coupons_def)
  have mem: "old \<in> set (rows (t_coupons db))" "cp_id old = cp_id c" using coupon_by_idD [OF assms(2)] assms(3) by auto
  have code: "cp_code (if cp_id x = cp_id c then stored coupon_entity now x c else x) =
      (if x = old then cp_code c else cp_code x)" if "x \<in> set (rows (t_coupons db))" for x
  proof (cases "x = old")
    case True
    with mem(2) show ?thesis by simp
  next
    case False
    then have "cp_id x \<noteq> cp_id c" using wf_same_row [OF wf(1) that mem(1)] mem(2) by (metis entity_ids(4))
    with False show ?thesis by simp
  qed
  have "distinct (map (\<lambda>x. if x = old then cp_code c else cp_code x) (rows (t_coupons db)))"
    using assms(4)
  proof
    assume "cp_code c = cp_code old"
    then have "(\<lambda>x. if x = old then cp_code c else cp_code x) = cp_code" by auto
    then show ?thesis using wf(2) by (simp only:)
  next
    assume "coupon_code_exists db (cp_code c) = Inr False"
    then have "inj_on (cp_code(old := cp_code c)) (set (rows (t_coupons db)))"
      using code_free wf(2) by (intro inj_on_fun_updI) (simp_all add: distinct_map)
    then show ?thesis using wf(2) unfolding distinct_map fun_upd_def by simp
  qed
  moreover have "map cp_code (rows (repo_update coupon_entity now (t_coupons db) c)) =
      map (\<lambda>x. if x = old then cp_code c else cp_code x) (rows (t_coupons db))"
    using code by (simp add: rows_repo_update)
  ultimately show ?thesis using coupons.wf_update [OF wf(1)] by (simp add: wf_coupons_def put_coupon_def)
qed

lemma generated_free: "generate_coupon_code rnd db = Inr code \<Longrightarrow> coupon_code_exists db code = Inr False"
  unfolding generate_coupon_code_def by (blast dest: first_free_not_taken)

lemma create_coupon_wf:
  "wf_coupons db \<Longrightarrow> create_coupon C now rnd data db = Inr (r, db') \<Longrightarrow> wf_coupons db'"
  by (auto simp: create_coupon_def ensure_code_available_def result_simps intro: insert_coupon_wf)

lemma generate_loop_wf:
  "wf_coupons db \<Longrightarrow> generate_loop C now rnd n data db = Inr (items, db') \<Longrightarrow> wf_coupons db'"
proof (induction C now rnd n data db arbitrary: items db' rule: generate_loop.induct)
  case (2 C now rnd n data db)
  from "2.prems"(2) obtain code where
    gen: "generate_coupon_code (rnd n) db = Inr code" and
    valid: "validate_payload (Some (ca_type data)) (Some (ca_value data)) (Some (ca_started_at data)) (Some (ca_ended_at data)) = Inr ()"
    by (auto simp: result_simps)
  obtain item db1 where ins: "insert_coupon now db (new_coupon C data code) = (item, db1)" by fastforce
  with "2.prems"(2) gen valid obtain items' where rest: "generate_loop C now rnd n data db1 = Inr (items', db')"
    by (auto simp: result_simps)
  have "wf_coupons db1"
    using insert_coupon_wf [OF ins "2.prems"(1)] generated_free [OF gen] by simp
  with rest show ?case using "2.IH" [OF gen valid ins [symmetric] refl] by simp
qed simp

lemma update_coupon_wf:
  "wf_coupons db \<Longrightarrow> update_coupon C now i data db = Inr (r, db') \<Longrightarrow> wf_coupons db'"
  by (auto simp: update_coupon_def ensure_code_available_def result_simps Let_def
      split: option.splits if_splits intro!: put_coupon_wf)

lemma toggle_coupon_wf: "wf_coupons db \<Longrightarrow> toggle_coupon now i db = Inr (r, db') \<Longrightarrow> wf_coupons db'"
  by (auto simp: toggle_coupon_def Let_def split: option.splits intro!: put_coupon_wf)

lemma delete_coupon_wf: "wf_coupons db \<Longrightarrow> delete_coupon i db = Inr db' \<Longrightarrow> wf_coupons db'"
  using coupons.wf_delete [of "t_coupons db"]
  by (auto simp: delete_coupon_def wf_coupons_def repo_delete_def distinct_map_filter split: option.splits)

lemma consume_coupon_wf:
  assumes "wf_coupons db" "consume_for_paid_order C now r db = Inr db'"
  shows "wf_coupons db'"
proof (cases "od_coupon_id r")
  case (Some cid)
  from consume_shape [OF assms(2) Some] assms(1) show ?thesis
    by (auto split: option.splits intro!: put_coupon_wf)
qed (use assms in \<open>simp add: consume_for_paid_order_def\<close>)

datatype coupon_op =
    CouponCreate "string list" coupon_create
  | CouponGenerate "nat \<Rightarrow> string list" int coupon_create
  | CouponUpdate int coupon_update
  | CouponToggle int
  | CouponDelete int
  | CouponConsume order

fun run_coupon_op :: "codec \<Rightarrow> int \<Rightarrow> coupon_op \<Rightarrow> db \<Rightarrow> exn + db" where
  "run_coupon_op C now (CouponCreate rnd data) db = bindE (create_coupon C now rnd data db) (\<lambda>(_, db'). Inr db')"
| "run_coupon_op C now (CouponGenerate rnd n data) db = bindE (generate_coupons C now rnd n data db) (\<lambda>(_, db'). Inr db')"
| "run_coupon_op C now (CouponUpdate i data) db = bindE (update_coupon C now i data db) (\<lambda>(_, db'). Inr db')"
| "run_coupon_op C now (CouponToggle i) db = bindE (toggle_coupon now i db) (\<lambda>(_, db'). Inr db')"
| "run_coupon_op C now (CouponDelete i) db = delete_coupon i db"
| "run_coupon_op C now (CouponConsume r) db = consume_for_paid_order C now r db"

lemma run_coupon_op_wf: "wf_coupons db \<Longrightarrow> run_coupon_op C now op db = Inr db' \<Longrightarrow> wf_coupons db'"
  by (cases op)
     (auto simp: result_simps generate_coupons_def intro: create_coupon_wf generate_loop_wf update_coupon_wf
        toggle_coupon_wf delete_coupon_wf consume_coupon_wf)

lemma coupon_by_code_total: "wf_coupons db \<Longrightarrow> is_ok (coupon_by_code db code)"
proof -
  assume "wf_coupons db"
  then have "distinct (map cp_code (filter (\<lambda>r. cp_code r = code) (rows (t_coupons db))))"
    by (simp add: wf_coupons_def distinct_map_filter)
  then have two: "\<not> (\<exists>a b xs. filter (\<lambda>r. cp_code r = code) (rows (t_coupons db)) = a # b # xs)"
  proof clarify
    fix a b xs
    assume eq: "filter (\<lambda>r. cp_code r = code) (rows (t_coupons db)) = a # b # xs"
    then have "a \<in> set (filter (\<lambda>r. cp_code r = code) (rows (t_coupons db)))"
      "b \<in> set (filter (\<lambda>r. cp_code r = code) (rows (t_coupons db)))" by simp_all
    then have "cp_code a = cp_code b" by simp
    moreover assume "distinct (map cp_code (filter (\<lambda>r. cp_code r = code) (rows (t_coupons db))))"
    ultimately show False by (simp add: eq)
  qed
  show ?thesis
    using two unfolding coupon_by_code_def find_one_def scalar_one_or_none_def by (auto split: list.split)
qed

section \<open>Properties\<close>

text \<open>C40: The discount of a valid coupon never exceeds the amount; a fixed coupon gives its value
  capped by the amount; a percentage coupon (at most 100, amounts below 2^39 cents) gives the exact
  percentage rounded down, except that it can fall one cent short where the exact percentage is a
  whole number of cents.\<close>

theorem discount_correct:
  assumes "calculate_discount c amount = Inr d" "0 < amount" "0 \<le> cp_value c"
  shows "0 \<le> d \<and> d \<le> amount \<and> (cp_type c = 1 \<longrightarrow> d = min amount (cp_value c)) \<and>
     (cp_type c = 2 \<longrightarrow> cp_value c \<le> 100 \<longrightarrow> amount < 2 ^ 39 \<longrightarrow>
        d = amount * cp_value c div 100 \<or> 100 dvd amount * cp_value c \<and> d = amount * cp_value c div 100 - 1)"
proof -
  have "d = amount * cp_value c div 100 \<or> 100 dvd amount * cp_value c \<and> d = amount * cp_value c div 100 - 1"
    if "cp_type c = 2" "cp_value c \<le> 100" "amount < 2 ^ 39"
  proof -
    define x where "x = trunc_double (mul_double (of_int_double amount) (true_div (cp_value c) 100))"
    have m: "amount * cp_value c \<le> amount * 100" using that(2) assms(2) by (intro mult_left_mono) auto
    then have small: "amount * cp_value c < 2 ^ 46" and le: "amount * cp_value c div 100 \<le> amount"
      using m that(3) by (simp, simp)
    have "x = amount * cp_value c div 100 \<or> 100 dvd amount * cp_value c \<and> x = amount * cp_value c div 100 - 1"
      unfolding x_def using trunc_two_step [of amount "cp_value c"] assms(2,3) that(3) small by simp
    moreover have "d = max 0 (min amount x)"
      using assms(1,2) that(1) by (simp add: calculate_discount_def x_def)
    moreover have "0 \<le> amount * cp_value c div 100" using assms(2,3) by (simp add: pos_imp_zdiv_nonneg_iff)
    ultimately show ?thesis using le by (cases "amount * cp_value c div 100 = 0")
        (auto simp: max_def min_def dvd_div_eq_0_iff)
  qed
  then show ?thesis
    using discount_bounds [OF assms(1)] assms by (auto simp: calculate_discount_def)
qed

definition sample_coupon :: coupon where
  "sample_coupon = \<lparr>cp_id = 1, cp_code = ''HALF'', cp_name = ''half'', cp_type = 2, cp_value = 50, cp_show = True,
     cp_limit_use = Some 3, cp_limit_use_with_user = Some 1, cp_limit_plan_ids = None, cp_limit_period = None,
     cp_started_at = 0, cp_ended_at = 1000, cp_created_at = 0, cp_updated_at = 0\<rparr>"

theorem discount_correct_witness:
  "calculate_discount sample_coupon 250 = Inr 125 \<and> (125::int) \<le> 250"
proof -
  have c: "calculate_discount sample_coupon 250 = Inr 125" "0 \<le> cp_value sample_coupon" by code_simp+
  with discount_correct [OF c(1) _ c(2)] show ?thesis by simp
qed

text \<open>The percentage is computed in floating point: 29 percent of one yuan is 28 cents, a cent
  less than the exact value.\<close>

theorem percentage_loses_a_cent:
  "calculate_discount (sample_coupon\<lparr>cp_value := 29\<rparr>) 100 = Inr 28 \<and> 100 * 29 div 100 = (29 :: int)"
  by code_simp

text \<open>An order created with a coupon is not refused at payment because of the way its total was
  split between balance and payment: when the coupon is unchanged and still valid for the order,
  consuming it succeeds, since the amount it is computed on is reconstructed exactly.\<close>

theorem coupon_survives_to_payment:
  assumes "apply_to_order C now db code r = Inr r1"
    and "validate_code C now db code (od_user_id r) (od_plan_id r) (od_period r) = Inr c"
    and "r2 = r1\<lparr>od_id := i, od_total_amount := t, od_balance_amount := b\<rparr>" "t + or_zero b = od_total_amount r1"
    and "coupon_by_id db' (cp_id c) = Some c"
    and "validate_coupon C now' db' (Some c) (od_user_id r) (od_plan_id r) (od_period r) (Some i) = Inr c"
  shows "is_ok (consume_for_paid_order C now' r2 db')"
proof -
  from apply_to_orderD [OF assms(1)] assms(2) obtain d where
    d: "calculate_discount c (od_total_amount r) = Inr d" and
    r1: "r1 = r\<lparr>od_coupon_id := Some (cp_id c), od_discount_amount := Some d, od_total_amount := od_total_amount r - d\<rparr>"
    by auto
  have "discount_base r2 = od_total_amount r"
    using assms(3,4) r1 by (simp add: discount_base_def)
  with d r1 assms(3,5,6) show ?thesis
    by (simp add: consume_for_paid_order_def for_update)
qed

definition coupon_db :: db where
  "coupon_db = empty_db\<lparr>t_coupons := \<lparr>rows = [sample_coupon], next_id = 2\<rparr>\<rparr>"

theorem coupon_survives_to_payment_witness:
  "is_ok (consume_for_paid_order (sv_codec sample_service) 20
     (sample_order\<lparr>od_coupon_id := Some 1, od_discount_amount := Some 500, od_id := 1, od_total_amount := 200,
        od_balance_amount := Some 300\<rparr>) coupon_db)"
proof -
  let ?r1 = "sample_order\<lparr>od_coupon_id := Some 1, od_discount_amount := Some 500, od_total_amount := 500\<rparr>"
  have a: "apply_to_order (sv_codec sample_service) 10 coupon_db '' half'' sample_order = Inr ?r1" by code_simp
  have b: "validate_code (sv_codec sample_service) 10 coupon_db '' half'' (od_user_id sample_order)
      (od_plan_id sample_order) (od_period sample_order) = Inr sample_coupon" by code_simp
  have c: "coupon_by_id coupon_db (cp_id sample_coupon) = Some sample_coupon" by code_simp
  have d: "validate_coupon (sv_codec sample_service) 20 coupon_db (Some sample_coupon) (od_user_id sample_order)
      (od_plan_id sample_order) (od_period sample_order) (Some 1) = Inr sample_coupon" by code_simp
  show ?thesis
    using coupon_survives_to_payment [OF a b refl _ c d, of 200 "Some 300"] by (simp add: sample_order_def)
qed

text \<open>Consuming a coupon for a paid order takes exactly one use of its stock, which was positive,
  only when the user is below the per-user limit, and changes no other coupon and no other table.\<close>

theorem consume_takes_one_use:
  assumes "wf_coupons db" "consume_for_paid_order C now r db = Inr db'" "od_coupon_id r = Some cid"
  shows "\<exists>c c'. coupon_by_id db cid = Some c \<and> coupon_by_id db' cid = Some c' \<and>
     cp_limit_use c' = map_option (\<lambda>n. n - 1) (cp_limit_use c) \<and> (\<forall>n. cp_limit_use c' = Some n \<longrightarrow> 0 \<le> n) \<and>
     (\<forall>n. cp_limit_use_with_user c = Some n \<longrightarrow> coupon_count_user_used db cid (od_user_id r) (Some (od_id r)) < n) \<and>
     (\<forall>i. i \<noteq> cid \<longrightarrow> coupon_by_id db' i = coupon_by_id db i) \<and> db'\<lparr>t_coupons := t_coupons db\<rparr> = db"
proof -
  from consume_shape [OF assms(2,3)] obtain c where c: "coupon_by_id db cid = Some c"
    and db': "db' = (case cp_limit_use c of None \<Rightarrow> db | Some n \<Rightarrow> put_coupon now db (c\<lparr>cp_limit_use := Some (n - 1)\<rparr>))"
    and pos: "\<forall>n. cp_limit_use c = Some n \<longrightarrow> 0 < n"
    and user: "\<forall>n. cp_limit_use_with_user c = Some n \<longrightarrow> coupon_count_user_used db (cp_id c) (od_user_id r) (Some (od_id r)) < n"
    by blast
  from coupon_by_idD [OF c] have id: "cp_id c = cid" by simp
  show ?thesis
  proof (cases "cp_limit_use c")
    case None
    with c db' user id show ?thesis by auto
  next
    case (Some n)
    let ?c = "c\<lparr>cp_limit_use := Some (n - 1)\<rparr>"
    have get: "coupon_by_id db' i = (if i = cid then Some (stored coupon_entity now c ?c) else coupon_by_id db i)" for i
      using Some db' c id by (simp add: coupon_by_id_def put_coupon_def coupons.get_update)
    have "db'\<lparr>t_coupons := t_coupons db\<rparr> = db" using Some db' by (simp add: put_coupon_def)
    then show ?thesis
      using Some c pos user unfolding id get
      by (intro exI [of _ c] exI [of _ "stored coupon_entity now c ?c"]) simp
  qed
qed

theorem consume_takes_one_use_witness:
  "\<exists>db' c'. consume_for_paid_order (sv_codec sample_service) 20
     (sample_order\<lparr>od_coupon_id := Some 1, od_discount_amount := Some 500, od_id := 1, od_total_amount := 500\<rparr>) coupon_db
       = Inr db' \<and> coupon_by_id db' 1 = Some c' \<and> cp_limit_use c' = Some 2"
proof -
  let ?r = "sample_order\<lparr>od_coupon_id := Some 1, od_discount_amount := Some 500, od_id := 1, od_total_amount := 500\<rparr>"
  have "is_ok (consume_for_paid_order (sv_codec sample_service) 20 ?r coupon_db)" by code_simp
  then obtain db' where db': "consume_for_paid_order (sv_codec sample_service) 20 ?r coupon_db = Inr db'" by (rule is_okE)
  have "coupon_by_id coupon_db 1 = Some sample_coupon" "wf_coupons coupon_db" "cp_limit_use sample_coupon = Some 3"
    by code_simp+
  then show ?thesis using consume_takes_one_use [OF _ db', of 1] db' by auto
qed

text \<open>Whatever operations the coupon service runs, no two coupons get the same code, so a lookup
  by code never fails with several matches.\<close>

theorem coupon_codes_unique:
  assumes "wf_coupons db"
    and "foldE (\<lambda>(now, op). run_coupon_op C now op) ops db = Inr db'"
  shows "distinct (map cp_code (rows (t_coupons db'))) \<and> is_ok (coupon_by_code db' code)"
proof -
  have "wf_coupons db'"
    using assms(2) assms(1) by (rule foldE_invariant) (auto dest: run_coupon_op_wf split: prod.splits)
  then show ?thesis using coupon_by_code_total by (auto simp: wf_coupons_def)
qed

theorem coupon_codes_unique_witness:
  "\<exists>db'. foldE (\<lambda>(now, op). run_coupon_op (sv_codec sample_service) now op)
     [(1, CouponToggle 1), (2, CouponDelete 1)] coupon_db = Inr db' \<and> is_ok (coupon_by_code db' ''HALF'')"
proof -
  have "is_ok (foldE (\<lambda>(now, op). run_coupon_op (sv_codec sample_service) now op)
     [(1, CouponToggle 1), (2, CouponDelete 1)] coupon_db)" by code_simp
  then obtain db' where db': "foldE (\<lambda>(now, op). run_coupon_op (sv_codec sample_service) now op)
     [(1, CouponToggle 1), (2, CouponDelete 1)] coupon_db = Inr db'" by (rule is_okE)
  have "wf_coupons coupon_db" by code_simp
  from coupon_codes_unique [OF this db'] db' show ?thesis by blast
qed

end
