(* ===== verification/LogEvents.thy ===== *)
theory LogEvents
  imports Store
begin

text \<open>
  \<open>app/services/log_event.py\<close>: the structured log. \<open>create_log_event\<close> takes the row it is to
  write, with the defaults of its keyword arguments in \<open>log_defaults\<close>. The retention policies
  keep the protected categories (audit, commission) for ever.
\<close>

definition log_defaults :: log_event where
  "log_defaults = \<lparr>le_id = 0, le_level = ''info'', le_category = ''access'', le_event = [], le_message = [],
     le_request_id = None, le_trace_id = None, le_actor_type = None, le_actor_id = None,
     le_target_type = None, le_target_id = None, le_method = None, le_path = None,
     le_status_code = None, le_duration_ms = None, le_ip = None, le_user_agent = None,
     le_data = JNull, le_error_type = None, le_error_stack = None, le_created_at = 0, le_updated_at = 0\<rparr>"

definition max_string_length :: "string \<Rightarrow> nat" where
  "max_string_length field = (case map_of
     [(''level'', 16), (''category'', 32), (''event'', 64), (''request_id'', 64), (''trace_id'', 64),
      (''actor_type'', 32), (''target_type'', 32), (''target_id'', 64), (''method'', 11), (''path'', 255),
      (''ip'', 128), (''user_agent'', 255), (''error_type'', 128)] field of Some n \<Rightarrow> n | None \<Rightarrow> 0)"

definition limit_field :: "string option \<Rightarrow> string \<Rightarrow> string option" where
  "limit_field v field = map_option (take (max_string_length field)) v"

definition or_text :: "string \<Rightarrow> string \<Rightarrow> string" where
  "or_text s d = (if s = [] then d else s)"

definition limited_event :: "log_event \<Rightarrow> log_event" where
  "limited_event e = e\<lparr>
     le_level := or_text (take (max_string_length ''level'') (le_level e)) ''info'',
     le_category := or_text (take (max_string_length ''category'') (le_category e)) ''access'',
     le_event := or_text (take (max_string_length ''event'') (le_event e)) ''event'',
     le_message := take 255 (le_message e),
     le_request_id := limit_field (le_request_id e) ''request_id'',
     le_trace_id := limit_field (le_trace_id e) ''trace_id'',
     le_actor_type := limit_field (le_actor_type e) ''actor_type'',
     le_target_type := limit_field (le_target_type e) ''target_type'',
     le_target_id := limit_field (le_target_id e) ''target_id'',
     le_method := limit_field (le_method e) ''method'',
     le_path := limit_field (le_path e) ''path'',
     le_ip := limit_field (le_ip e) ''ip'',
     le_user_agent := limit_field (le_user_agent e) ''user_agent'',
     le_error_type := limit_field (le_error_type e) ''error_type''\<rparr>"

definition create_log_event :: "int \<Rightarrow> log_event \<Rightarrow> db \<Rightarrow> db" where
  "create_log_event now e db =
     db\<lparr>t_log_events := repo_create log_event_entity now (t_log_events db) (limited_event e)\<rparr>"

section \<open>Retention\<close>

record retention =
  retention_days :: "int option"
  protected_category :: bool

definition retention_policies :: "(string \<times> retention) list" where
  "retention_policies =
     [(''access'', \<lparr>retention_days = Some 30, protected_category = False\<rparr>),
      (''queue'', \<lparr>retention_days = Some 90, protected_category = False\<rparr>),
      (''mail'', \<lparr>retention_days = Some 180, protected_category = False\<rparr>),
      (''system'', \<lparr>retention_days = Some 180, protected_category = False\<rparr>),
      (''audit'', \<lparr>retention_days = None, protected_category = True\<rparr>),
      (''commission'', \<lparr>retention_days = None, protected_category = True\<rparr>)]"

definition is_protected_category :: "string \<Rightarrow> bool" where
  "is_protected_category c =
     (case map_of retention_policies c of None \<Rightarrow> False | Some p \<Rightarrow> protected_category p)"

definition outdated :: "int \<Rightarrow> string \<Rightarrow> int \<Rightarrow> log_event \<Rightarrow> bool" where
  "outdated current c days e \<longleftrightarrow> le_category e = c \<and> le_created_at e < current - days * 86400"

fun cleanup_categories :: "int \<Rightarrow> (string \<times> retention) list \<Rightarrow> db \<Rightarrow> (string \<times> int) list \<times> db" where
  "cleanup_categories current [] db = ([], db)"
| "cleanup_categories current ((c, p) # ps) db =
     (case retention_days p of
        None \<Rightarrow> cleanup_categories current ps db
      | Some days \<Rightarrow>
          let n = count_where (outdated current c days) (rows (t_log_events db));
              (counts, db') = cleanup_categories current ps
                (db\<lparr>t_log_events := delete_where (outdated current c days) (t_log_events db)\<rparr>)
          in ((c, n) # counts, db'))"

definition cleanup_log_events_by_retention :: "int \<Rightarrow> int option \<Rightarrow> db \<Rightarrow> (string \<times> int) list \<times> db" where
  "cleanup_log_events_by_retention clock now db =
     cleanup_categories (if truthy now then or_zero now else clock) retention_policies db"

section \<open>Facts\<close>

lemma create_log_event_frame [simp]:
  "t_users (create_log_event now e db) = t_users db"
  "t_orders (create_log_event now e db) = t_orders db"
  "t_plans (create_log_event now e db) = t_plans db"
  "t_coupons (create_log_event now e db) = t_coupons db"
  "t_giftcards (create_log_event now e db) = t_giftcards db"
  "t_redemptions (create_log_event now e db) = t_redemptions db"
  "t_commission_logs (create_log_event now e db) = t_commission_logs db"
  "t_invite_codes (create_log_event now e db) = t_invite_codes db"
  "t_tickets (create_log_event now e db) = t_tickets db"
  "t_ticket_messages (create_log_event now e db) = t_ticket_messages db"
  "t_payments (create_log_event now e db) = t_payments db"
  "t_settings (create_log_event now e db) = t_settings db"
  "t_queue_jobs (create_log_event now e db) = t_queue_jobs db"
  "t_failed_jobs (create_log_event now e db) = t_failed_jobs db"
  "t_stats (create_log_event now e db) = t_stats db"
  "t_stat_servers (create_log_event now e db) = t_stat_servers db"
  "t_stat_users (create_log_event now e db) = t_stat_users db"
  "t_nodes (create_log_event now e db) = t_nodes db"
  "t_routes (create_log_event now e db) = t_routes db"
  "t_server_groups (create_log_event now e db) = t_server_groups db"
  "t_notices (create_log_event now e db) = t_notices db"
  "t_knowledge (create_log_event now e db) = t_knowledge db"
  "t_cache (create_log_event now e db) = t_cache db"
  "t_traffic (create_log_event now e db) = t_traffic db"
  by (simp_all add: create_log_event_def)

lemma event_fields_bounded:
  "length (le_message (limited_event e)) \<le> 255 \<and> length (le_event (limited_event e)) \<le> 64 \<and>
   length (le_category (limited_event e)) \<le> 32 \<and> length (le_level (limited_event e)) \<le> 16"
  by (simp add: limited_event_def or_text_def max_string_length_def)

text \<open>What the cleanup keeps: exactly the events that no policy with a period has outdated.\<close>

lemma cleanup_categories_rows:
  "rows (t_log_events (snd (cleanup_categories current ps db))) =
     filter (\<lambda>e. \<not> list_ex (\<lambda>(c, p). case retention_days p of None \<Rightarrow> False
        | Some days \<Rightarrow> outdated current c days e) ps) (rows (t_log_events db))"
proof (induction current ps db rule: cleanup_categories.induct)
  case (2 current c p ps db)
  then show ?case
    by (cases "retention_days p") (auto simp: Let_def split_beta filter_filter intro!: filter_cong)
qed simp

lemma cleanup_categories_frame:
  "snd (cleanup_categories current ps db)\<lparr>t_log_events := t\<rparr> = db\<lparr>t_log_events := t\<rparr>"
  by (induction current ps db rule: cleanup_categories.induct)
     (auto simp: Let_def split_beta split: option.split)

end
