(* ===== verification/Commission.thy ===== *)
theory Commission
  imports LogEvents Samples
begin

text \<open>
  \<open>app/services/commission.py\<close>: invite codes, the transfer of commission to the balance, and the
  commission an inviter earns when an invited user's order is completed. \<open>generate_trade_no\<close> is
  the function of \<open>app/services/order.py\<close> with the fresh UUID's text as its argument.
\<close>

definition generate_trade_no :: "int \<Rightarrow> string \<Rightarrow> string" where
  "generate_trade_no now uuid = str_int now @ upper (take 8 (filter (\<lambda>c. c \<noteq> CHR ''-'') uuid))"

section \<open>Commission of an order\<close>

definition set_commission_status :: "int \<Rightarrow> db \<Rightarrow> order \<Rightarrow> int \<Rightarrow> db" where
  "set_commission_status now db r s = put_order now db (r\<lparr>od_commission_status := s\<rparr>)"

definition commission_event :: "int \<Rightarrow> int \<Rightarrow> order \<Rightarrow> int \<Rightarrow> int \<Rightarrow> log_event" where
  "commission_event log_id inviter r amount rate = log_defaults\<lparr>le_category := ''commission'', le_event := ''commission.granted'',
     le_message := ''commission granted'', le_actor_type := Some ''user'', le_actor_id := Some inviter,
     le_target_type := Some ''order'', le_target_id := Some (od_trade_no r),
     le_data := JObj [(''commission_log_id'', JInt log_id), (''invite_user_id'', JInt inviter),
       (''user_id'', JInt (od_user_id r)), (''trade_no'', JStr (od_trade_no r)),
       (''order_amount'', JInt (od_total_amount r)), (''get_amount'', JInt amount), (''rate'', JInt rate)]\<rparr>"

definition commission_amount :: "int \<Rightarrow> int \<Rightarrow> int" where
  "commission_amount paid rate = trunc_double (true_div (paid * rate) 100)"

definition grant_commission :: "int \<Rightarrow> order \<Rightarrow> user \<Rightarrow> int \<Rightarrow> int \<Rightarrow> db \<Rightarrow> exn + db" where
  "grant_commission now r inviter amount rate db =
     (let r' = r\<lparr>od_invite_user_id := Some (us_id inviter), od_commission_balance := amount,
            od_actual_commission_balance := Some amount, od_commission_status := 2\<rparr>;
          db1 = put_user now db (inviter\<lparr>us_commission_balance := us_commission_balance inviter + amount\<rparr>);
          db2 = put_order now db1 r'
      in bindE (insert_commission_log now db2
           \<lparr>cl_id = 0, cl_invite_user_id = us_id inviter, cl_user_id = od_user_id r, cl_trade_no = od_trade_no r,
             cl_order_amount = od_total_amount r, cl_get_amount = amount, cl_created_at = 0, cl_updated_at = 0\<rparr>)
         (\<lambda>(log, db3). Inr (create_log_event now (commission_event (cl_id log) (us_id inviter) r' amount rate) db3)))"

definition commission_for_inviter :: "setting_service \<Rightarrow> int \<Rightarrow> order \<Rightarrow> user \<Rightarrow> db \<Rightarrow> exn + db" where
  "commission_for_inviter S now r inviter db =
     bindE (get_int S now ''commission_first_time_enable'' 1 db) (\<lambda>(first_time, db1).
     if first_time \<noteq> 0 \<and> 1 < count_completed_plan_orders db1 (od_user_id r) then Inr (set_commission_status now db1 r 3)
     else bindE (if truthy (us_commission_rate inviter) then Inr (or_zero (us_commission_rate inviter), db1)
                 else get_int S now ''invite_commission'' 10 db1) (\<lambda>(rate, db2).
       let amount = commission_amount (od_total_amount r) rate in
       if amount \<le> 0 then Inr (set_commission_status now db2 r 3) else grant_commission now r inviter amount rate db2))"

definition calculate_for_order :: "setting_service \<Rightarrow> int \<Rightarrow> int \<Rightarrow> db \<Rightarrow> exn + db" where
  "calculate_for_order S now oid db =
     (case order_by_id_for_update db oid of
        None \<Rightarrow> Inr db
      | Some lo \<Rightarrow>
          if od_status lo \<noteq> 3 \<or> od_plan_id lo = 0 \<or> od_total_amount lo \<le> 0 \<or> od_commission_status lo \<in> {2, 3} then Inr db
          else if commission_log_by_trade_no db (od_trade_no lo) \<noteq> None then Inr (set_commission_status now db lo 2)
          else
            let r = lo\<lparr>od_commission_status := 1\<rparr>; db1 = put_order now db r in
            (case user_by_id db1 (od_user_id r) of
               None \<Rightarrow> Inr db1
             | Some u \<Rightarrow>
                 (case py_or (od_invite_user_id r) (us_invite_user_id u) of
                    None \<Rightarrow> Inr (set_commission_status now db1 r 3)
                  | Some iid \<Rightarrow>
                      if iid = us_id u then Inr (set_commission_status now db1 r 3)
                      else (case user_by_id db1 iid of
                          None \<Rightarrow> Inr (set_commission_status now db1 r 3)
                        | Some inviter \<Rightarrow> commission_for_inviter S now r inviter db1))))"

section \<open>Invite codes\<close>

definition blank_invite :: invite_code where
  "blank_invite = \<lparr>iv_id = 0, iv_user_id = 0, iv_code = [], iv_status = 0, iv_pv = 0, iv_created_at = 0, iv_updated_at = 0\<rparr>"

definition insert_invite :: "int \<Rightarrow> db \<Rightarrow> invite_code \<Rightarrow> invite_code \<times> db" where
  "insert_invite now db c =
     (new_row invite_code_entity now (t_invite_codes db) c,
      db\<lparr>t_invite_codes := repo_create invite_code_entity now (t_invite_codes db) c\<rparr>)"

definition generate_invite_code :: "string list \<Rightarrow> db \<Rightarrow> exn + string" where
  "generate_invite_code rnd db =
     first_free (Conflict ''code generation'') (\<lambda>c. Inr (invite_code_exists db c)) (take 100 rnd)"

definition invite_fetch :: "setting_service \<Rightarrow> int \<Rightarrow> int \<Rightarrow> db \<Rightarrow> exn + (invite_code list \<times> int list) \<times> db" where
  "invite_fetch S now uid db =
     (case user_by_id db uid of
        None \<Rightarrow> Inl (NotFound ''user'')
      | Some u \<Rightarrow>
          let codes = invite_codes_by_user db uid (Some 0) in
          bindE (if truthy (us_commission_rate u) then Inr (or_zero (us_commission_rate u), db)
                 else get_int S now ''invite_commission'' 10 db) (\<lambda>(rate, db1).
          Inr ((codes, [count_invited_users db1 uid, sum_commission_by_inviter db1 uid, sum_pending_commission db1 uid,
                 rate, us_commission_balance u]), db1)))"

definition create_invite_for_user :: "setting_service \<Rightarrow> int \<Rightarrow> string list \<Rightarrow> int \<Rightarrow> db \<Rightarrow> exn + invite_code \<times> db" where
  "create_invite_for_user S now rnd uid db =
     bindE (get_int S now ''invite_gen_limit'' 5 db) (\<lambda>(limit, db1).
     guardE (limit \<le> count_active_invites db1 uid) (BadRequest ''invite code limit'') (
     bindE (generate_invite_code rnd db1) (\<lambda>code.
     Inr (insert_invite now db1 (blank_invite\<lparr>iv_user_id := uid, iv_code := code\<rparr>)))))"

definition transfer_order :: "int \<Rightarrow> string \<Rightarrow> user \<Rightarrow> int \<Rightarrow> int \<Rightarrow> order" where
  "transfer_order now uuid u uid amount =
     \<lparr>od_id = 0, od_invite_user_id = us_invite_user_id u, od_user_id = uid, od_plan_id = 0, od_coupon_id = None,
       od_payment_id = None, od_type = 9, od_period = ''deposit'', od_trade_no = generate_trade_no now uuid,
       od_callback_no = Some ''Commission transfer'', od_total_amount = 0, od_handling_amount = None, od_discount_amount = None,
       od_surplus_amount = Some amount, od_refund_amount = None, od_balance_amount = None,
       od_surplus_order_ids = None, od_status = 3, od_commission_status = 0, od_commission_balance = 0,
       od_actual_commission_balance = None, od_paid_at = None, od_created_at = 0, od_updated_at = 0\<rparr>"

definition transfer_commission :: "int \<Rightarrow> string \<Rightarrow> int \<Rightarrow> int \<Rightarrow> db \<Rightarrow> exn + db" where
  "transfer_commission now uuid uid amount db =
     guardE (amount \<le> 0) (BadRequest ''transfer amount'') (
     case user_by_id db uid of
       None \<Rightarrow> Inl (NotFound ''user'')
     | Some u \<Rightarrow>
         guardE (us_commission_balance u < amount) (BadRequest ''commission balance'') (
         let u' = u\<lparr>us_commission_balance := us_commission_balance u - amount, us_balance := us_balance u + amount\<rparr> in
         bindE (insert_order now (put_user now db u') (transfer_order now uuid u uid amount)) (\<lambda>(_, db'). Inr db')))"

definition admin_create_invite :: "int \<Rightarrow> string list \<Rightarrow> int option \<Rightarrow> string option \<Rightarrow> int \<Rightarrow> db \<Rightarrow> exn + invite_code \<times> db" where
  "admin_create_invite now rnd user_id c status db =
     (case user_id of
        None \<Rightarrow> Inl (BadRequest ''user_id'')
      | Some uid \<Rightarrow>
          guardE (user_by_id db uid = None) (NotFound ''user'') (
          bindE (case c of None \<Rightarrow> generate_invite_code rnd db
                 | Some s \<Rightarrow> if s = [] then generate_invite_code rnd db else Inr (upper (strip s))) (\<lambda>code.
          guardE (invite_code_exists db code) (Conflict ''invite code exists'')
            (Inr (insert_invite now db (blank_invite\<lparr>iv_user_id := uid, iv_code := code, iv_status := status\<rparr>))))))"

record invite_update =
  iu_status :: "int option option"
  iu_pv :: "int option option"

definition invite_by_id :: "db \<Rightarrow> int \<Rightarrow> invite_code option" where
  "invite_by_id db i = repo_get invite_code_entity (t_invite_codes db) i"

definition admin_update_invite :: "int \<Rightarrow> int \<Rightarrow> invite_update \<Rightarrow> db \<Rightarrow> exn + invite_code \<times> db" where
  "admin_update_invite now i data db =
     (case invite_by_id db i of
        None \<Rightarrow> Inl (NotFound ''invite code'')
      | Some item \<Rightarrow>
          guardE (explicit_null (iu_status data) \<or> explicit_null (iu_pv data)) IntegrityError
            (let item' = item\<lparr>iv_status := set_if (given (iu_status data)) (iv_status item),
                   iv_pv := set_if (given (iu_pv data)) (iv_pv item)\<rparr>
             in Inr (item', put_invite now db item')))"

definition admin_delete_invite :: "int \<Rightarrow> db \<Rightarrow> exn + db" where
  "admin_delete_invite i db =
     (case invite_by_id db i of
        None \<Rightarrow> Inl (NotFound ''invite code'')
      | Some item \<Rightarrow> Inr (db\<lparr>t_invite_codes := repo_delete invite_code_entity (t_invite_codes db) item\<rparr>))"

section \<open>Amounts\<close>

lemma commission_amount_exact:
  "0 \<le> paid * rate \<Longrightarrow> paid * rate < 2 ^ 46 \<Longrightarrow> commission_amount paid rate = paid * rate div 100"
  unfolding commission_amount_def by (rule trunc_percent)

section \<open>What the calculation leaves alone\<close>

text \<open>An order without its commission columns, a user without the commission balance.\<close>

definition order_core :: "order \<Rightarrow> order" where
  "order_core r = r\<lparr>od_invite_user_id := None, od_commission_status := 0, od_commission_balance := 0,
     od_actual_commission_balance := None, od_updated_at := 0\<rparr>"

definition user_core :: "user \<Rightarrow> user" where
  "user_core u = u\<lparr>us_commission_balance := 0, us_updated_at := 0\<rparr>"

definition commission_frame :: "db \<Rightarrow> db \<Rightarrow> bool" where
  "commission_frame db db' \<longleftrightarrow>
     map order_core (rows (t_orders db')) = map order_core (rows (t_orders db)) \<and>
     map user_core (rows (t_users db')) = map user_core (rows (t_users db)) \<and>
     next_id (t_orders db') = next_id (t_orders db) \<and> next_id (t_users db') = next_id (t_users db) \<and>
     db'\<lparr>t_orders := t_orders db, t_users := t_users db, t_cache := t_cache db,
        t_commission_logs := t_commission_logs db, t_log_events := t_log_events db\<rparr> = db"

lemma order_core_stored [simp]: "order_core (stored order_entity now x r) = order_core r"
  by (simp add: stored_def order_entity_def order_core_def)

lemma user_core_stored [simp]: "user_core (stored user_entity now x u) = user_core u"
  by (simp add: stored_def user_entity_def user_core_def)

lemma order_core_updates [simp]:
  "order_core (r\<lparr>od_commission_status := s\<rparr>) = order_core r"
  "order_core (r\<lparr>od_commission_balance := a\<rparr>) = order_core r"
  "order_core (r\<lparr>od_actual_commission_balance := b\<rparr>) = order_core r"
  "order_core (r\<lparr>od_invite_user_id := i\<rparr>) = order_core r"
  "user_core (u\<lparr>us_commission_balance := c\<rparr>) = user_core u"
  by (simp_all add: order_core_def user_core_def)

lemma order_core_eqD:
  assumes "order_core r = order_core r'"
  shows "od_id r = od_id r'" "od_status r = od_status r'" "od_user_id r = od_user_id r'" "od_plan_id r = od_plan_id r'"
    "od_trade_no r = od_trade_no r'" "od_total_amount r = od_total_amount r'" "od_coupon_id r = od_coupon_id r'"
    "od_type r = od_type r'" "od_surplus_amount r = od_surplus_amount r'" "od_payment_id r = od_payment_id r'"
proof -
  have "f (order_core r) = f (order_core r')" for f :: "order \<Rightarrow> 'a" by (simp only: assms)
  from this [of od_id] this [of od_status] this [of od_user_id] this [of od_plan_id] this [of od_trade_no]
    this [of od_total_amount] this [of od_coupon_id] this [of od_type] this [of od_surplus_amount] this [of od_payment_id]
  show "od_id r = od_id r'" "od_status r = od_status r'" "od_user_id r = od_user_id r'" "od_plan_id r = od_plan_id r'"
    "od_trade_no r = od_trade_no r'" "od_total_amount r = od_total_amount r'" "od_coupon_id r = od_coupon_id r'"
    "od_type r = od_type r'" "od_surplus_amount r = od_surplus_amount r'" "od_payment_id r = od_payment_id r'"
    by (simp_all add: order_core_def)
qed

lemma user_core_eqD:
  assumes "user_core u = user_core u'"
  shows "us_id u = us_id u'" "us_balance u = us_balance u'" "us_plan_id u = us_plan_id u'"
    "us_expired_at u = us_expired_at u'" "us_email u = us_email u'" "us_token u = us_token u'"
    "us_banned u = us_banned u'" "us_transfer_enable u = us_transfer_enable u'"
proof -
  have "f (user_core u) = f (user_core u')" for f :: "user \<Rightarrow> 'a" by (simp only: assms)
  from this [of us_id] this [of us_balance] this [of us_plan_id] this [of us_expired_at] this [of us_email]
    this [of us_token] this [of us_banned] this [of us_transfer_enable]
  show "us_id u = us_id u'" "us_balance u = us_balance u'" "us_plan_id u = us_plan_id u'"
    "us_expired_at u = us_expired_at u'" "us_email u = us_email u'" "us_token u = us_token u'"
    "us_banned u = us_banned u'" "us_transfer_enable u = us_transfer_enable u'"
    by (simp_all add: user_core_def)
qed

lemma commission_frame_refl [simp]: "commission_frame db db"
  by (simp add: commission_frame_def)

lemma commission_frame_trans:
  assumes "commission_frame a b" "commission_frame b c"
  shows "commission_frame a c"
proof -
  let ?f = "\<lambda>d a. d\<lparr>t_orders := t_orders a, t_users := t_users a, t_cache := t_cache a,
     t_commission_logs := t_commission_logs a, t_log_events := t_log_events a\<rparr>"
  have "?f c a = ?f (?f c b) a" by simp
  also have "?f c b = b" using assms(2) by (simp add: commission_frame_def)
  also have "?f b a = a" using assms(1) by (simp add: commission_frame_def)
  finally show ?thesis using assms by (simp add: commission_frame_def)
qed

lemma commission_frame_cache: "commission_frame db (db\<lparr>t_cache := c\<rparr>)"
  by (simp add: commission_frame_def)

lemma commission_frame_log: "commission_frame db (create_log_event now e db)"
  by (simp add: commission_frame_def create_log_event_def)

text \<open>The primary keys, as the frame sees them.\<close>

lemma core_ids:
  "map od_id rs = map od_id (map order_core rs)" "map us_id us = map us_id (map user_core us)"
  by (simp_all add: order_core_def user_core_def)

lemma commission_frame_wf:
  assumes "commission_frame db db'"
  shows "wf_table order_entity (t_orders db') = wf_table order_entity (t_orders db)"
    "wf_table user_entity (t_users db') = wf_table user_entity (t_users db)"
proof -
  have ids: "map od_id (rows (t_orders db')) = map od_id (rows (t_orders db))"
    "map us_id (rows (t_users db')) = map us_id (rows (t_users db))"
    using assms unfolding commission_frame_def by (metis core_ids(1), metis core_ids(2))
  show "wf_table order_entity (t_orders db') = wf_table order_entity (t_orders db)"
    using ids(1) assms by (intro wf_table_ids) (simp_all add: commission_frame_def)
  show "wf_table user_entity (t_users db') = wf_table user_entity (t_users db)"
    using ids(2) assms by (intro wf_table_ids) (simp_all add: commission_frame_def)
qed

lemma find_core: "find (\<lambda>x. P (c x)) xs = Some x \<Longrightarrow> map c xs = map c ys \<Longrightarrow> \<exists>y. find (\<lambda>x. P (c x)) ys = Some y \<and> c x = c y"
proof (induction xs arbitrary: ys)
  case (Cons a xs)
  then obtain b ys' where "ys = b # ys'" "c a = c b" "map c xs = map c ys'" by (cases ys) auto
  with Cons show ?case by (auto split: if_splits)
qed simp

lemma commission_frame_order:
  assumes "commission_frame db db'" "order_by_id db i = Some r"
  shows "\<exists>r'. order_by_id db' i = Some r' \<and> order_core r' = order_core r"
  using find_core [of "\<lambda>x. od_id x = i" order_core "rows (t_orders db)" r "rows (t_orders db')"] assms
  by (auto simp: commission_frame_def order_by_id_def repo_get_def order_core_def)

lemma commission_frame_user:
  assumes "commission_frame db db'" "user_by_id db i = Some u"
  shows "\<exists>u'. user_by_id db' i = Some u' \<and> user_core u' = user_core u"
  using find_core [of "\<lambda>x. us_id x = i" user_core "rows (t_users db)" u "rows (t_users db')"] assms
  by (auto simp: commission_frame_def user_by_id_def repo_get_def user_core_def)

lemma put_order_frame:
  assumes "wf_table order_entity (t_orders db)" "order_by_id db (od_id r) = Some r0" "order_core r = order_core r0"
  shows "commission_frame db (put_order now db r)"
proof -
  have "map order_core (rows (repo_update order_entity now (t_orders db) r)) = map order_core (rows (t_orders db))"
    using assms by (intro map_col_update [where ?r0.0 = r0]) (simp_all add: wf_table_def order_by_id_def)
  then show ?thesis by (simp add: commission_frame_def put_order_def repo_update_def)
qed

lemma put_user_frame:
  assumes "wf_table user_entity (t_users db)" "user_by_id db (us_id u) = Some u0" "user_core u = user_core u0"
  shows "commission_frame db (put_user now db u)"
proof -
  have "map user_core (rows (repo_update user_entity now (t_users db) u)) = map user_core (rows (t_users db))"
    using assms by (intro map_col_update [where ?r0.0 = u0]) (simp_all add: wf_table_def user_by_id_def)
  then show ?thesis by (simp add: commission_frame_def put_user_def repo_update_def)
qed

section \<open>The commission ledger\<close>

text \<open>The commission an inviter holds is what the commission log credits minus what was transferred
  to the balance; \<open>commission_ledger\<close> is the difference, which no operation changes.\<close>

definition transferred :: "db \<Rightarrow> int \<Rightarrow> int" where
  "transferred db uid = sum_where (\<lambda>r. od_user_id r = uid \<and> od_type r = 9) (\<lambda>r. or_zero (od_surplus_amount r)) (rows (t_orders db))"

definition commission_ledger :: "db \<Rightarrow> int \<Rightarrow> int" where
  "commission_ledger db uid = (case user_by_id db uid of None \<Rightarrow> 0
     | Some u \<Rightarrow> us_commission_balance u - sum_commission_by_inviter db uid + transferred db uid)"

lemma transferred_core:
  assumes "map order_core (rows (t_orders db')) = map order_core (rows (t_orders db))"
  shows "transferred db' uid = transferred db uid"
proof -
  have core: "transferred d uid = sum_where (\<lambda>r. od_user_id r = uid \<and> od_type r = 9)
     (\<lambda>r. or_zero (od_surplus_amount r)) (map order_core (rows (t_orders d)))" for d
    by (simp add: transferred_def sum_where_map order_core_def)
  show ?thesis by (simp only: core assms)
qed

definition commission_ok :: "db \<Rightarrow> db \<Rightarrow> bool" where
  "commission_ok db db' \<longleftrightarrow> commission_frame db db' \<and> (\<forall>uid. commission_ledger db' uid = commission_ledger db uid)"

lemma commission_ok_refl [simp]: "commission_ok db db"
  by (simp add: commission_ok_def)

lemma commission_ok_trans: "commission_ok a b \<Longrightarrow> commission_ok b c \<Longrightarrow> commission_ok a c"
  unfolding commission_ok_def using commission_frame_trans by metis

lemma ledger_same_tables:
  "commission_frame db db' \<Longrightarrow> t_users db' = t_users db \<Longrightarrow> t_commission_logs db' = t_commission_logs db \<Longrightarrow> commission_ok db db'"
  using transferred_core [of db' db]
  by (auto simp: commission_ok_def commission_ledger_def commission_frame_def user_by_id_def
        sum_commission_by_inviter_def split: option.split)

lemma put_order_ok:
  assumes "wf_table order_entity (t_orders db)" "order_by_id db (od_id r) = Some r0" "order_core r = order_core r0"
  shows "commission_ok db (put_order now db r)"
  using put_order_frame [OF assms] by (rule ledger_same_tables) (simp_all add: put_order_def)

lemma get_int_ok: "get_int S now k d db = Inr (n, db') \<Longrightarrow> commission_ok db db'"
  using get_int_state [of S now k d db n db'] by (auto intro!: ledger_same_tables commission_frame_cache)

lemma log_event_ok: "commission_ok db (create_log_event now e db)"
  by (rule ledger_same_tables [OF commission_frame_log]) simp_all

lemma set_status_ok:
  assumes "wf_table order_entity (t_orders db)" "order_by_id db (od_id r) = Some r0" "order_core r = order_core r0"
  shows "commission_ok db (set_commission_status now db r s)"
  unfolding set_commission_status_def using assms by (intro put_order_ok) simp_all

definition commission_entry :: "order \<Rightarrow> int \<Rightarrow> int \<Rightarrow> commission_log" where
  "commission_entry r iid amount =
     \<lparr>cl_id = 0, cl_invite_user_id = iid, cl_user_id = od_user_id r, cl_trade_no = od_trade_no r,
       cl_order_amount = od_total_amount r, cl_get_amount = amount, cl_created_at = 0, cl_updated_at = 0\<rparr>"

lemma new_row_commission [simp]:
  "cl_invite_user_id (new_row commission_log_entity now t l) = cl_invite_user_id l"
  "cl_get_amount (new_row commission_log_entity now t l) = cl_get_amount l"
  "cl_trade_no (new_row commission_log_entity now t l) = cl_trade_no l"
  by (simp_all add: new_row_def commission_log_entity_def)

lemma grant_shape:
  assumes "grant_commission now r inviter amount rate db = Inr db'"
  shows "\<exists>e. db' = create_log_event now e
     (put_order now (put_user now db (inviter\<lparr>us_commission_balance := us_commission_balance inviter + amount\<rparr>))
        (r\<lparr>od_invite_user_id := Some (us_id inviter), od_commission_balance := amount,
           od_actual_commission_balance := Some amount, od_commission_status := 2\<rparr>)
      \<lparr>t_commission_logs := repo_create commission_log_entity now (t_commission_logs db) (commission_entry r (us_id inviter) amount)\<rparr>)"
  using assms
  by (auto simp: grant_commission_def Let_def insert_commission_log_def result_simps commission_entry_def
        put_order_def put_user_def)

lemma grant_ok:
  assumes "grant_commission now r inviter amount rate db = Inr db'"
    and "wf_table order_entity (t_orders db)" "wf_table user_entity (t_users db)"
    and "order_by_id db (od_id r) = Some r0" "order_core r = order_core r0" "user_by_id db iid = Some inviter"
  shows "commission_ok db db'"
proof -
  let ?u = "inviter\<lparr>us_commission_balance := us_commission_balance inviter + amount\<rparr>"
  let ?r = "r\<lparr>od_invite_user_id := Some (us_id inviter), od_commission_balance := amount,
           od_actual_commission_balance := Some amount, od_commission_status := 2\<rparr>"
  let ?db1 = "put_user now db ?u"
  let ?db2 = "put_order now ?db1 ?r"
  let ?db3 = "?db2\<lparr>t_commission_logs := repo_create commission_log_entity now (t_commission_logs db) (commission_entry r (us_id inviter) amount)\<rparr>"
  from grant_shape [OF assms(1)] obtain e where db': "db' = create_log_event now e ?db3" by blast
  have id: "us_id inviter = iid" using user_by_idD [OF assms(6)] by simp
  have f1: "commission_frame db ?db1"
    using assms(3,6) id by (intro put_user_frame [of _ _ inviter]) simp_all
  have f2: "commission_frame ?db1 ?db2"
    using assms(2,4,5) by (intro put_order_frame [of _ _ r0]) (simp_all add: put_user_def order_by_id_def)
  have f3: "commission_frame ?db2 ?db3" by (simp add: commission_frame_def)
  have f: "commission_frame db ?db3" using f1 f2 f3 by (blast intro: commission_frame_trans)
  define db3 where "db3 = ?db3"
  have users: "user_by_id db3 uid = (if uid = iid then Some (stored user_entity now inviter ?u) else user_by_id db uid)" for uid
    using assms(6) id by (simp add: db3_def user_by_id_def put_order_def put_user_def users.get_update)
  have logs: "sum_commission_by_inviter db3 uid = sum_commission_by_inviter db uid + (if uid = iid then amount else 0)" for uid
    by (simp add: db3_def sum_commission_by_inviter_def commission_entry_def id)
  have tr: "transferred db3 uid = transferred db uid" for uid
    using f by (intro transferred_core) (simp only: db3_def commission_frame_def)
  have "commission_ledger db3 uid = commission_ledger db uid" for uid
    using assms(6) by (simp add: commission_ledger_def users logs tr split: option.split)
  then have "commission_ok db db3" using f unfolding db3_def commission_ok_def by blast
  then show ?thesis unfolding db' db3_def [symmetric] using log_event_ok by (rule commission_ok_trans)
qed

lemma commission_for_inviter_shape:
  assumes "commission_for_inviter S now r inviter db = Inr db'"
  shows "\<exists>c. db' = set_commission_status now (db\<lparr>t_cache := c\<rparr>) r 3 \<or>
     (\<exists>rate. 0 < commission_amount (od_total_amount r) rate \<and>
        grant_commission now r inviter (commission_amount (od_total_amount r) rate) rate (db\<lparr>t_cache := c\<rparr>) = Inr db')"
proof -
  from assms obtain first db1 where g1: "get_int S now ''commission_first_time_enable'' 1 db = Inr (first, db1)"
    by (auto simp: commission_for_inviter_def result_simps)
  from get_int_state [OF g1] obtain c1 where db1: "db1 = db\<lparr>t_cache := c1\<rparr>" by blast
  show ?thesis
  proof (cases "first \<noteq> 0 \<and> 1 < count_completed_plan_orders db1 (od_user_id r)")
    case True
    then show ?thesis using assms g1 db1 by (auto simp: commission_for_inviter_def)
  next
    case False
    with assms g1 obtain rate db2 where
      g2: "(if truthy (us_commission_rate inviter) then Inr (or_zero (us_commission_rate inviter), db1)
            else get_int S now ''invite_commission'' 10 db1) = Inr (rate, db2)"
      and rest: "(if commission_amount (od_total_amount r) rate \<le> 0 then Inr (set_commission_status now db2 r 3)
         else grant_commission now r inviter (commission_amount (od_total_amount r) rate) rate db2) = Inr db'"
      by (auto simp: commission_for_inviter_def result_simps Let_def)
    obtain c2 where "db2 = db\<lparr>t_cache := c2\<rparr>"
      using g2 db1 get_int_state [of S now "''invite_commission''" 10 db1 rate db2] by (auto split: if_splits)
    with rest show ?thesis
      by (cases "commission_amount (od_total_amount r) rate \<le> 0") (auto simp: not_le)
  qed
qed

lemma commission_for_inviter_ok:
  assumes "commission_for_inviter S now r inviter db = Inr db'"
    and "wf_table order_entity (t_orders db)" "wf_table user_entity (t_users db)"
    and "order_by_id db (od_id r) = Some r0" "order_core r = order_core r0" "user_by_id db iid = Some inviter"
  shows "commission_ok db db'"
proof -
  from commission_for_inviter_shape [OF assms(1)] obtain c where
    c: "db' = set_commission_status now (db\<lparr>t_cache := c\<rparr>) r 3 \<or>
     (\<exists>rate. grant_commission now r inviter (commission_amount (od_total_amount r) rate) rate (db\<lparr>t_cache := c\<rparr>) = Inr db')"
    by blast
  have "commission_ok (db\<lparr>t_cache := c\<rparr>) (set_commission_status now (db\<lparr>t_cache := c\<rparr>) r 3)"
    using assms(2,4,5) by (intro set_status_ok [of _ _ r0]) (simp_all add: order_by_id_def)
  moreover have "commission_ok (db\<lparr>t_cache := c\<rparr>) db'"
    if "grant_commission now r inviter (commission_amount (od_total_amount r) rate) rate (db\<lparr>t_cache := c\<rparr>) = Inr db'" for rate
    using that assms(2-6) by (intro grant_ok [of now r inviter _ rate _ db' r0 iid])
      (simp_all add: order_by_id_def user_by_id_def)
  moreover have "commission_ok db (db\<lparr>t_cache := c\<rparr>)"
    by (rule ledger_same_tables [OF commission_frame_cache]) simp_all
  ultimately show ?thesis using c commission_ok_trans by blast
qed

lemma calculate_ok:
  assumes "calculate_for_order S now oid db = Inr db'"
    and "wf_table order_entity (t_orders db)" "wf_table user_entity (t_users db)"
  shows "commission_ok db db'"
proof (cases "order_by_id db oid")
  case None
  then show ?thesis using assms(1) by (simp add: calculate_for_order_def for_update)
next
  case (Some lo)
  from order_by_idD [OF Some] have id: "od_id lo = oid" by simp
  let ?r = "lo\<lparr>od_commission_status := 1\<rparr>"
  let ?db1 = "put_order now db ?r"
  have at: "order_by_id db (od_id lo) = Some lo" using Some id by simp
  have ok1: "commission_ok db ?db1" using assms(2) at by (intro put_order_ok [of _ _ lo]) simp_all
  obtain r0 where r0: "order_by_id ?db1 (od_id ?r) = Some r0" "order_core ?r = order_core r0"
    using commission_frame_order [of db ?db1 "od_id lo" lo] ok1 at by (auto simp: commission_ok_def)
  have wf1: "wf_table order_entity (t_orders ?db1)" "wf_table user_entity (t_users ?db1)"
    using commission_frame_wf [of db ?db1] ok1 assms(2,3) by (auto simp: commission_ok_def)
  have rej: "commission_ok ?db1 (set_commission_status now ?db1 ?r 3)" using wf1(1) r0 by (rule set_status_ok)
  have inv: "commission_ok ?db1 d" if "commission_for_inviter S now ?r inviter ?db1 = Inr d" "user_by_id ?db1 iid = Some inviter"
    for inviter iid d using that(1) wf1 r0 that(2) by (rule commission_for_inviter_ok)
  have dup: "commission_ok db (set_commission_status now db lo 2)"
    using assms(2) at by (intro set_status_ok [of _ _ lo]) simp_all
  show ?thesis
    using assms(1) Some commission_ok_trans [OF ok1] rej inv dup ok1
    by (auto simp: calculate_for_order_def for_update Let_def split: if_splits option.splits)
qed

lemma transfer_order_fields [simp]:
  "od_user_id (transfer_order now uuid u uid amount) = uid" "od_type (transfer_order now uuid u uid amount) = 9"
  "od_surplus_amount (transfer_order now uuid u uid amount) = Some amount"
  "od_status (transfer_order now uuid u uid amount) = 3" "od_plan_id (transfer_order now uuid u uid amount) = 0"
  "od_trade_no (transfer_order now uuid u uid amount) = generate_trade_no now uuid"
  by (simp_all add: transfer_order_def)

lemma transfer_shape:
  "transfer_commission now uuid uid amount db = Inr db' \<Longrightarrow>
   \<exists>u. user_by_id db uid = Some u \<and> 0 < amount \<and> amount \<le> us_commission_balance u \<and>
     \<not> list_ex (\<lambda>x. od_trade_no x = generate_trade_no now uuid) (rows (t_orders db)) \<and>
     db' = put_user now db (u\<lparr>us_commission_balance := us_commission_balance u - amount, us_balance := us_balance u + amount\<rparr>)
        \<lparr>t_orders := repo_create order_entity now (t_orders db) (transfer_order now uuid u uid amount)\<rparr>"
  by (auto simp: transfer_commission_def insert_order_def result_simps Let_def put_user_def split: option.splits)

lemma transfer_ledger:
  assumes "transfer_commission now uuid uid amount db = Inr db'"
  shows "commission_ledger db' i = commission_ledger db i"
proof -
  from transfer_shape [OF assms] obtain u where u: "user_by_id db uid = Some u"
    and db': "db' = put_user now db (u\<lparr>us_commission_balance := us_commission_balance u - amount, us_balance := us_balance u + amount\<rparr>)
        \<lparr>t_orders := repo_create order_entity now (t_orders db) (transfer_order now uuid u uid amount)\<rparr>" by blast
  have id: "us_id u = uid" using user_by_idD [OF u] by simp
  have users: "user_by_id db' i = (if i = uid then Some (stored user_entity now u
       (u\<lparr>us_commission_balance := us_commission_balance u - amount, us_balance := us_balance u + amount\<rparr>)) else user_by_id db i)" for i
    using u id by (simp add: db' user_by_id_def put_user_def users.get_update)
  have tr: "transferred db' i = transferred db i + (if i = uid then amount else 0)" for i
    by (simp add: db' transferred_def)
  have logs: "sum_commission_by_inviter db' i = sum_commission_by_inviter db i" for i
    by (simp add: db' sum_commission_by_inviter_def put_user_def)
  show ?thesis using u by (simp add: commission_ledger_def users tr logs split: option.split)
qed

section \<open>Running the calculation twice\<close>

lemma set_status_get:
  "order_by_id db (od_id r) = Some x \<Longrightarrow>
     \<exists>y. order_by_id (set_commission_status now db r s) (od_id r) = Some y \<and> od_commission_status y = s"
  by (simp add: set_commission_status_def order_by_id_def put_order_def orders.get_update)

lemma calculate_settled:
  assumes "order_by_id db oid = Some r" "od_commission_status r \<in> {2, 3}"
  shows "calculate_for_order S now oid db = Inr db"
  using assms by (auto simp: calculate_for_order_def for_update)

lemma grant_settles:
  assumes "grant_commission now r inviter amount rate db = Inr db'" "order_by_id db (od_id r) = Some x"
  shows "\<exists>y. order_by_id db' (od_id r) = Some y \<and> od_commission_status y = 2"
  using grant_shape [OF assms(1)] assms(2)
  by (auto simp: order_by_id_def put_order_def put_user_def orders.get_update)

lemma commission_for_inviter_settles:
  assumes "commission_for_inviter S now r inviter db = Inr db'" "order_by_id db (od_id r) = Some x"
  shows "\<exists>y. order_by_id db' (od_id r) = Some y \<and> od_commission_status y \<in> {2, 3}"
proof -
  have at: "order_by_id (db\<lparr>t_cache := c\<rparr>) (od_id r) = Some x" for c using assms(2) by (simp add: order_by_id_def)
  from commission_for_inviter_shape [OF assms(1)] show ?thesis
    using set_status_get [OF at, where now = now and s = 3] grant_settles [OF _ at] by blast
qed

lemma calculate_idempotent:
  assumes "calculate_for_order S now oid db = Inr db1" "wf_table order_entity (t_orders db)"
  shows "calculate_for_order S' now' oid db1 = Inr db1"
proof (cases "order_by_id db oid")
  case None
  then show ?thesis using assms by (simp add: calculate_for_order_def for_update)
next
  case (Some lo)
  from order_by_idD [OF Some] have id: "od_id lo = oid" by simp
  let ?r = "lo\<lparr>od_commission_status := 1\<rparr>"
  let ?d = "put_order now db ?r"
  show ?thesis
  proof (cases "od_status lo \<noteq> 3 \<or> od_plan_id lo = 0 \<or> od_total_amount lo \<le> 0 \<or> od_commission_status lo \<in> {2, 3}")
    case True
    then show ?thesis using assms(1) Some by (auto simp: calculate_for_order_def for_update)
  next
    case fresh: False
    have d: "order_by_id ?d (od_id ?r) = Some (stored order_entity now lo ?r)"
      using Some id by (simp add: order_by_id_def put_order_def orders.get_update)
    show ?thesis
    proof (cases "commission_log_by_trade_no db (od_trade_no lo) = None \<and> user_by_id db (od_user_id lo) = None")
      case True
      then have db1: "db1 = ?d" using assms(1) Some fresh
        by (auto simp: calculate_for_order_def for_update Let_def user_by_id_def put_order_def split: if_splits)
      let ?x = "stored order_entity now lo ?r"
      have x: "?x\<lparr>od_commission_status := 1\<rparr> = ?x" by (simp add: stored_def order_entity_def)
      have "?x \<in> set (rows (t_orders ?d))" using order_by_idD [OF d] by simp
      then have same: "put_order now' ?d ?x = ?d"
        using orders.update_same_row [OF orders.wf_update [OF assms(2)]] by (simp add: put_order_def)
      have reads: "order_by_id ?d oid = Some ?x" "commission_log_by_trade_no ?d (od_trade_no ?x) = None"
        "user_by_id ?d (od_user_id ?x) = None"
        using d id True by (simp_all add: commission_log_by_trade_no_def user_by_id_def put_order_def)
      have "calculate_for_order S' now' oid ?d = Inr (put_order now' ?d ?x)"
        using fresh reads same by (simp add: calculate_for_order_def for_update x Let_def)
      then show ?thesis unfolding db1 same .
    next
      case False
      have "\<exists>y. order_by_id db1 (od_id ?r) = Some y \<and> od_commission_status y \<in> {2, 3}"
      proof (cases "commission_log_by_trade_no db (od_trade_no lo) = None")
        case True
        with False obtain u where u: "user_by_id ?d (od_user_id lo) = Some u"
          by (auto simp: user_by_id_def put_order_def)
        show ?thesis using assms(1) Some fresh True u set_status_get [OF d, where now = now and s = 3] commission_for_inviter_settles [OF _ d]
          by (auto simp: calculate_for_order_def for_update Let_def split: if_splits option.splits)
      next
        case dup: False
        have at: "order_by_id db (od_id lo) = Some lo" using Some id by simp
        show ?thesis using assms(1) Some fresh dup set_status_get [OF at, where now = now and s = 2]
          by (auto simp: calculate_for_order_def for_update)
      qed
      then show ?thesis using calculate_settled id by auto
    qed
  qed
qed

section \<open>The commission granted\<close>

lemma get_int_coherent:
  assumes "setting_coherent now db" "int_setting db k d = Inr n"
  shows "\<exists>c. get_int S now k d db = Inr (n, db\<lparr>t_cache := c\<rparr>) \<and> setting_coherent now (db\<lparr>t_cache := c\<rparr>)"
proof -
  obtain c where c: "snd (get_cached S now k db) = db\<lparr>t_cache := c\<rparr>" using get_cached_state by blast
  show ?thesis
    using get_int_value [OF assms(1), of S k d] get_cached_coherent [OF assms(1), of S k] assms(2) c by auto
qed

lemma int_setting_cache [simp]: "int_setting (db\<lparr>t_cache := c\<rparr>) k d = int_setting db k d"
  by (simp add: int_setting_def)

lemma count_completed_cache [simp]: "count_completed_plan_orders (db\<lparr>t_cache := c\<rparr>) i = count_completed_plan_orders db i"
  by (simp add: count_completed_plan_orders_def)

lemma count_completed_core:
  assumes "commission_frame db db'"
  shows "count_completed_plan_orders db' i = count_completed_plan_orders db i"
proof -
  have core: "count_completed_plan_orders d i =
     count_where (\<lambda>r. od_user_id r = i \<and> 0 < od_plan_id r \<and> od_status r = 3) (map order_core (rows (t_orders d)))" for d
    by (simp add: count_completed_plan_orders_def count_where_map order_core_def)
  show ?thesis using assms by (simp only: core commission_frame_def)
qed

lemma grant_result:
  assumes "order_by_id db (od_id r) = Some r0" "user_by_id db iid = Some inviter"
    and "commission_log_by_trade_no db (od_trade_no r) = None"
  shows "\<exists>db' i' r'. grant_commission now r inviter amount rate db = Inr db' \<and>
     user_by_id db' iid = Some i' \<and> us_commission_balance i' = us_commission_balance inviter + amount \<and>
     order_by_id db' (od_id r) = Some r' \<and> od_commission_status r' = 2 \<and> od_commission_balance r' = amount \<and>
     rows (t_commission_logs db') = rows (t_commission_logs db) @
       [new_row commission_log_entity now (t_commission_logs db) (commission_entry r iid amount)]"
proof -
  have free: "\<not> list_ex (\<lambda>x. cl_trade_no x = od_trade_no r) (rows (t_commission_logs db))"
    using assms(3) by (auto simp: commission_log_by_trade_no_def find_None_iff list_ex_iff)
  have id: "us_id inviter = iid" using user_by_idD [OF assms(2)] by simp
  show ?thesis
    using assms(1,2) free id
    by (simp add: grant_commission_def Let_def insert_commission_log_def put_order_def put_user_def
        order_by_id_def user_by_id_def orders.get_update users.get_update commission_entry_def)
qed

section \<open>Properties\<close>

text \<open>C37: When an invited user's paid order qualifies (completed, not a deposit, not settled before,
  the first-order rule satisfied), the inviter receives exactly the configured percentage of the paid
  amount rounded down, the order records it, and one commission log is written.\<close>

theorem commission_granted:
  assumes "wf_table order_entity (t_orders db)" "setting_coherent now db"
    and "order_by_id db oid = Some lo" "od_status lo = 3" "od_plan_id lo \<noteq> 0" "0 < od_total_amount lo"
    and "od_commission_status lo \<notin> {2, 3}" "commission_log_by_trade_no db (od_trade_no lo) = None"
    and "user_by_id db (od_user_id lo) = Some u"
    and "py_or (od_invite_user_id lo) (us_invite_user_id u) = Some iid" "iid \<noteq> us_id u" "user_by_id db iid = Some inviter"
    and "int_setting db ''commission_first_time_enable'' 1 = Inr first_only"
    and "first_only = 0 \<or> count_completed_plan_orders db (od_user_id lo) \<le> 1"
    and "(if truthy (us_commission_rate inviter) then Inr (or_zero (us_commission_rate inviter))
          else int_setting db ''invite_commission'' 10) = Inr rate"
    and "od_total_amount lo * rate < 2 ^ 46" "100 \<le> od_total_amount lo * rate"
  shows "\<exists>db' i' r'. calculate_for_order S now oid db = Inr db' \<and>
     user_by_id db' iid = Some i' \<and> us_commission_balance i' = us_commission_balance inviter + od_total_amount lo * rate div 100 \<and>
     order_by_id db' oid = Some r' \<and> od_commission_status r' = 2 \<and> od_commission_balance r' = od_total_amount lo * rate div 100 \<and>
     map cl_get_amount (rows (t_commission_logs db')) =
       map cl_get_amount (rows (t_commission_logs db)) @ [od_total_amount lo * rate div 100]"
proof -
  let ?r = "lo\<lparr>od_commission_status := 1\<rparr>"
  let ?d = "put_order now db ?r"
  have id: "od_id lo = oid" using order_by_idD [OF assms(3)] by simp
  have d: "order_by_id ?d (od_id ?r) = Some (stored order_entity now lo ?r)"
    using assms(3) id by (simp add: order_by_id_def put_order_def orders.get_update)
  have frame: "commission_frame db ?d"
    using assms(1,3) id by (intro put_order_frame [of _ _ lo]) simp_all
  have tabs: "t_users ?d = t_users db" "t_commission_logs ?d = t_commission_logs db" "t_settings ?d = t_settings db" "t_cache ?d = t_cache db"
    by (simp_all add: put_order_def)
  have settings: "int_setting ?d k n = int_setting db k n" for k n
    by (simp add: int_setting_def setting_by_key_def tabs)
  have co: "setting_coherent now ?d"
  proof -
    have "setting_src ?d = setting_src db" by (simp add: setting_src_def setting_by_key_def tabs fun_eq_iff)
    then show ?thesis using assms(2) by (simp only: setting_coherent_def tabs)
  qed
  obtain c1 where g1: "get_int S now ''commission_first_time_enable'' 1 ?d = Inr (first_only, ?d\<lparr>t_cache := c1\<rparr>)"
    and co1: "setting_coherent now (?d\<lparr>t_cache := c1\<rparr>)"
    using get_int_coherent [OF co, of "''commission_first_time_enable''" 1 first_only S] assms(13) by (auto simp: settings)
  have "\<exists>c. (if truthy (us_commission_rate inviter) then Inr (or_zero (us_commission_rate inviter), ?d\<lparr>t_cache := c1\<rparr>)
       else get_int S now ''invite_commission'' 10 (?d\<lparr>t_cache := c1\<rparr>)) = Inr (rate, ?d\<lparr>t_cache := c\<rparr>)"
  proof (cases "truthy (us_commission_rate inviter)")
    case True
    then show ?thesis using assms(15) by auto
  next
    case False
    then show ?thesis
      using get_int_coherent [OF co1, of "''invite_commission''" 10 rate S] assms(15) by (auto simp: settings)
  qed
  then obtain c2 where g2: "(if truthy (us_commission_rate inviter) then Inr (or_zero (us_commission_rate inviter), ?d\<lparr>t_cache := c1\<rparr>)
       else get_int S now ''invite_commission'' 10 (?d\<lparr>t_cache := c1\<rparr>)) = Inr (rate, ?d\<lparr>t_cache := c2\<rparr>)" by blast
  have amount: "commission_amount (od_total_amount lo) rate = od_total_amount lo * rate div 100"
    using assms(16,17) by (intro commission_amount_exact) simp_all
  have pos: "0 < od_total_amount lo * rate div 100"
    using assms(17) by (simp add: pos_imp_zdiv_pos_iff)
  let ?a = "od_total_amount lo * rate div 100"
  have "calculate_for_order S now oid db = commission_for_inviter S now ?r inviter ?d"
    using assms(3-12) by (simp add: calculate_for_order_def for_update Let_def user_by_id_def tabs)
  also have "\<dots> = grant_commission now ?r inviter ?a rate (?d\<lparr>t_cache := c2\<rparr>)"
    using g1 g2 assms(14) amount pos count_completed_core [OF frame, of "od_user_id lo"]
    by (auto simp: commission_for_inviter_def Let_def)
  finally have step: "calculate_for_order S now oid db = grant_commission now ?r inviter ?a rate (?d\<lparr>t_cache := c2\<rparr>)" .
  have "order_by_id (?d\<lparr>t_cache := c2\<rparr>) (od_id ?r) = Some (stored order_entity now lo ?r)"
    using d by (simp add: order_by_id_def)
  moreover have "user_by_id (?d\<lparr>t_cache := c2\<rparr>) iid = Some inviter" using assms(12) by (simp add: user_by_id_def tabs)
  moreover have "commission_log_by_trade_no (?d\<lparr>t_cache := c2\<rparr>) (od_trade_no ?r) = None"
    using assms(8) by (simp add: commission_log_by_trade_no_def tabs)
  ultimately show ?thesis
    using grant_result [of "?d\<lparr>t_cache := c2\<rparr>" ?r _ iid inviter now ?a rate] id step
    by (fastforce simp: tabs commission_entry_def)
qed

definition paid_db :: db where
  "paid_db = empty_db\<lparr>t_users := \<lparr>rows = [sample_user, sample_user\<lparr>us_id := 2, us_email := ''i@b.c'', us_token := ''t2'',
        us_invite_user_id := None, us_commission_balance := 7\<rparr>], next_id = 3\<rparr>,
     t_orders := \<lparr>rows = [sample_order\<lparr>od_id := 1, od_status := 3\<rparr>], next_id = 2\<rparr>\<rparr>"

lemma paid_db_coherent: "setting_coherent t paid_db"
  by (auto simp: paid_db_def empty_db_def setting_coherent_def rc.coherent_def wf_cache_def cache_get_value cache_value_def)

theorem commission_granted_witness:
  "\<exists>db' i'. calculate_for_order sample_service 50 1 paid_db = Inr db' \<and> user_by_id db' 2 = Some i' \<and>
     us_commission_balance i' = 107"
proof -
  define inviter where "inviter = sample_user\<lparr>us_id := 2, us_email := ''i@b.c'', us_token := ''t2'',
        us_invite_user_id := None, us_commission_balance := 7\<rparr>"
  have u: "user_by_id paid_db 2 = Some inviter" "user_by_id paid_db 1 = Some sample_user"
    unfolding inviter_def by code_simp+
  have o: "order_by_id paid_db 1 = Some (sample_order\<lparr>od_id := 1, od_status := 3\<rparr>)" by code_simp
  have w: "wf_table order_entity (t_orders paid_db)" by code_simp
  have s: "int_setting paid_db ''commission_first_time_enable'' 1 = Inr 1" "int_setting paid_db ''invite_commission'' 10 = Inr 10"
    "count_completed_plan_orders paid_db 1 = 1" "commission_log_by_trade_no paid_db ''T1'' = None" by code_simp+
  have "\<not> truthy (us_commission_rate inviter)" "us_commission_balance inviter = 7" unfolding inviter_def by code_simp+
  then show ?thesis
    using commission_granted [OF w paid_db_coherent o, where u = sample_user and iid = 2 and inviter = inviter
      and first_only = 1 and rate = 10 and now = 50 and S = sample_service] u s
    by (auto simp: sample_order_def sample_user_def)
qed

text \<open>C18: Commission is accounted for: for every user, the commission balance minus the commission
  log's credits plus the transfers to the balance is the same after an order's commission was
  calculated and after a transfer; a transfer moves the amount to the balance and never overdraws.\<close>

theorem commission_ledger_kept:
  assumes "wf_table order_entity (t_orders db)" "wf_table user_entity (t_users db)"
  shows "(calculate_for_order S now oid db = Inr db1 \<longrightarrow> commission_ledger db1 i = commission_ledger db i) \<and>
     (transfer_commission now uuid uid amount db = Inr db2 \<longrightarrow> commission_ledger db2 i = commission_ledger db i \<and>
        (\<exists>u u'. user_by_id db uid = Some u \<and> user_by_id db2 uid = Some u' \<and> 0 \<le> us_commission_balance u' \<and>
           us_balance u' = us_balance u + amount \<and> us_commission_balance u' = us_commission_balance u - amount))"
proof -
  have "\<exists>u u'. user_by_id db uid = Some u \<and> user_by_id db2 uid = Some u' \<and> 0 \<le> us_commission_balance u' \<and>
      us_balance u' = us_balance u + amount \<and> us_commission_balance u' = us_commission_balance u - amount"
    if "transfer_commission now uuid uid amount db = Inr db2"
  proof -
    from transfer_shape [OF that] obtain u where u: "user_by_id db uid = Some u" "amount \<le> us_commission_balance u"
      and db2: "db2 = put_user now db (u\<lparr>us_commission_balance := us_commission_balance u - amount, us_balance := us_balance u + amount\<rparr>)
        \<lparr>t_orders := repo_create order_entity now (t_orders db) (transfer_order now uuid u uid amount)\<rparr>" by blast
    have "us_id u = uid" using user_by_idD [OF u(1)] by simp
    then show ?thesis using u by (simp add: db2 user_by_id_def put_user_def users.get_update)
  qed
  then show ?thesis
    using calculate_ok [OF _ assms] transfer_ledger unfolding commission_ok_def by blast
qed

theorem commission_ledger_kept_witness:
  "\<exists>db2. transfer_commission 9 ''abcd-efgh-ij'' 2 5 paid_db = Inr db2 \<and> commission_ledger db2 2 = 7 \<and>
     (\<exists>u'. user_by_id db2 2 = Some u' \<and> us_balance u' = 5 \<and> us_commission_balance u' = 2)"
proof -
  have w: "wf_table order_entity (t_orders paid_db)" "wf_table user_entity (t_users paid_db)" "commission_ledger paid_db 2 = 7"
    by code_simp+
  have "is_ok (transfer_commission 9 ''abcd-efgh-ij'' 2 5 paid_db)" by code_simp
  then obtain db2 where db2: "transfer_commission 9 ''abcd-efgh-ij'' 2 5 paid_db = Inr db2" by (rule is_okE)
  have "user_by_id paid_db 2 = Some u \<Longrightarrow> us_balance u = 0 \<and> us_commission_balance u = 7" for u
    by (auto simp: paid_db_def user_by_id_def repo_get_def sample_user_def)
  then show ?thesis
    using commission_ledger_kept [OF w(1,2), where i = 2 and now = 9 and uuid = "''abcd-efgh-ij''" and uid = 2
      and amount = 5 and ?db2.0 = db2 and ?db1.0 = paid_db and S = sample_service and oid = 1] db2 w(3) by fastforce
qed

text \<open>Calculating the commission of an order a second time changes nothing: no second credit, no
  second log, whatever the settings say by then.\<close>

theorem commission_once:
  assumes "calculate_for_order S now oid db = Inr db1" "wf_table order_entity (t_orders db)"
  shows "calculate_for_order S' now' oid db1 = Inr db1"
  by (rule calculate_idempotent [OF assms])

theorem commission_once_witness:
  "\<exists>db1. calculate_for_order sample_service 50 1 paid_db = Inr db1 \<and> db1 \<noteq> paid_db \<and>
     calculate_for_order sample_service 60 1 db1 = Inr db1"
proof -
  have "wf_table order_entity (t_orders paid_db)" "is_ok (calculate_for_order sample_service 50 1 paid_db)" by code_simp+
  then obtain db1 where w: "wf_table order_entity (t_orders paid_db)"
    and db1: "calculate_for_order sample_service 50 1 paid_db = Inr db1" by (auto elim: is_okE)
  have "(case calculate_for_order sample_service 50 1 paid_db of Inr d \<Rightarrow> rows (t_commission_logs d) \<noteq> [] | _ \<Rightarrow> False)"
    by code_simp
  moreover have "rows (t_commission_logs paid_db) = []" by code_simp
  ultimately show ?thesis using commission_once [OF db1 w, of sample_service 60] db1 by auto
qed

end
