(* ===== verification/Epay.thy ===== *)
theory Epay
  imports Settings "HOL-Library.List_Lexorder" "HOL-Library.Char_ord"
begin

text \<open>
  \<open>app/payments/base.py\<close> and \<open>epay.py\<close>: the EPay gateway. The standard library it uses is
  modelled here: \<open>urlencode\<close> and \<open>unquote_plus\<close> on text given as UTF-8 bytes, and the decimal
  arithmetic of the amounts with its 28-digit context. \<open>md5\<close> (the hex digest) is a parameter.
\<close>

section \<open>URL encoding\<close>

definition unreserved :: "char \<Rightarrow> bool" where
  "unreserved c \<longleftrightarrow> is_digit c \<or> (65 \<le> char_code c \<and> char_code c \<le> 90) \<or> (97 \<le> char_code c \<and> char_code c \<le> 122)
     \<or> c \<in> {CHR ''_'', CHR ''.'', CHR ''-'', CHR ''~''}"

definition hex_digit :: "nat \<Rightarrow> char" where
  "hex_digit n = (if n < 10 then char_of (48 + n) else char_of (55 + n))"

definition hex_val :: "char \<Rightarrow> nat option" where
  "hex_val c =
     (if is_digit c then Some (char_code c - 48)
      else if 65 \<le> char_code c \<and> char_code c \<le> 70 then Some (char_code c - 55)
      else if 97 \<le> char_code c \<and> char_code c \<le> 102 then Some (char_code c - 87)
      else None)"

definition quote_char :: "char \<Rightarrow> string" where
  "quote_char c =
     (if unreserved c then [c] else if c = CHR '' '' then ''+''
      else [CHR ''%'', hex_digit (char_code c div 16), hex_digit (char_code c mod 16)])"

definition quote_plus :: "string \<Rightarrow> string" where
  "quote_plus s = concat (map quote_char s)"

fun unquote_plus :: "string \<Rightarrow> string" where
  "unquote_plus [] = []"
| "unquote_plus (c # cs) =
     (if c = CHR ''+'' then CHR '' '' # unquote_plus cs
      else if c = CHR ''%'' then
        (case cs of
           a # b # rest \<Rightarrow>
             (case (hex_val a, hex_val b) of
                (Some x, Some y) \<Rightarrow> char_of (16 * x + y) # unquote_plus rest
              | _ \<Rightarrow> CHR ''%'' # unquote_plus cs)
         | _ \<Rightarrow> CHR ''%'' # unquote_plus cs)
      else c # unquote_plus cs)"

fun join_with :: "string \<Rightarrow> string list \<Rightarrow> string" where
  "join_with sep [] = []"
| "join_with sep [s] = s"
| "join_with sep (s # t # ts) = s @ sep @ join_with sep (t # ts)"

definition urlencode :: "(string \<times> string) list \<Rightarrow> string" where
  "urlencode ps = join_with ''&'' (map (\<lambda>(k, v). quote_plus k @ ''='' @ quote_plus v) ps)"

lemma char_code_bound: "char_code c < 256"
  by (simp add: char_code_def)

lemma char_of_char_code [simp]: "char_of (char_code c) = c"
  by (simp add: char_code_def)

lemma hex_val_digit: "n < 16 \<Longrightarrow> hex_val (hex_digit n) = Some n"
  by (auto simp: hex_val_def hex_digit_def is_digit_def)

lemma unreserved_plain: "unreserved c \<Longrightarrow> c \<noteq> CHR ''+'' \<and> c \<noteq> CHR ''%''"
  by (auto simp: unreserved_def is_digit_def char_code_def)

lemma unquote_quote_char: "unquote_plus (quote_char c @ t) = c # unquote_plus t"
proof (cases "unreserved c")
  case True
  then show ?thesis using unreserved_plain [OF True] by (simp add: quote_char_def)
next
  case False
  then show ?thesis using char_code_bound [of c] by (auto simp: quote_char_def hex_val_digit)
qed

lemma unquote_quote: "unquote_plus (quote_plus s @ t) = s @ unquote_plus t"
proof (induction s)
  case (Cons c s)
  have "quote_plus (c # s) @ t = quote_char c @ (quote_plus s @ t)" by (simp add: quote_plus_def)
  then show ?case by (simp only: unquote_quote_char Cons append_Cons)
qed (simp add: quote_plus_def)

text \<open>Decoding an encoded query gives the raw text of its parameters.\<close>

lemma unquote_pair: "unquote_plus ((quote_plus k @ ''='' @ quote_plus v) @ t) = (k @ ''='' @ v) @ unquote_plus t"
proof -
  have "(quote_plus k @ ''='' @ quote_plus v) @ t = quote_plus k @ (CHR ''='' # quote_plus v @ t)" by simp
  then show ?thesis by (simp only: unquote_quote) (simp add: unquote_quote)
qed

lemma unquote_urlencode: "unquote_plus (urlencode ps) = join_with ''&'' (map (\<lambda>(k, v). k @ ''='' @ v) ps)"
proof (induction ps)
  case (Cons p ps)
  obtain k v where p: "p = (k, v)" by fastforce
  show ?case
  proof (cases ps)
    case Nil
    then show ?thesis using unquote_pair [of k v "[]"] by (simp add: urlencode_def p)
  next
    case (Cons q qs)
    then have "urlencode (p # ps) = (quote_plus k @ ''='' @ quote_plus v) @ (CHR ''&'' # urlencode ps)"
      by (simp add: urlencode_def p split_beta)
    then have "unquote_plus (urlencode (p # ps)) = (k @ ''='' @ v) @ (CHR ''&'' # unquote_plus (urlencode ps))"
      by (simp only: unquote_pair) simp
    then show ?thesis using Cons.IH Cons by (simp add: p split_beta)
  qed
qed (simp add: urlencode_def)

section \<open>Amounts\<close>

text \<open>\<open>_cents_to_money\<close>: the shortest decimal text of \<open>cents / 100\<close> (amounts below 10^28).\<close>

definition cents_text :: "nat \<Rightarrow> string" where
  "cents_text c =
     (let r = c mod 100 in
      str_nat (c div 100) @
        (if r = 0 then [] else if r mod 10 = 0 then [CHR ''.'', digit_char (r div 10)]
         else [CHR ''.'', digit_char (r div 10), digit_char (r mod 10)]))"

definition cents_to_money :: "int \<Rightarrow> string" where
  "cents_to_money c = (if c < 0 then CHR ''-'' # cents_text (nat (- c)) else cents_text (nat c))"

text \<open>The texts \<open>Decimal\<close> accepts: a sign, digits with an optional point and exponent, or one of the
  special values; surrounding blanks and underscores are dropped.\<close>

datatype decimal = Fin bool nat int | Special

definition span_digits :: "string \<Rightarrow> string \<times> string" where
  "span_digits s = (takeWhile is_digit s, dropWhile is_digit s)"

definition parse_exponent :: "string \<Rightarrow> int option" where
  "parse_exponent s =
     (case s of
        [] \<Rightarrow> Some 0
      | c # cs \<Rightarrow>
          if c = CHR ''e'' \<or> c = CHR ''E'' then
            (case cs of
               [] \<Rightarrow> None
             | d # ds \<Rightarrow>
                 if d = CHR ''-'' then (if isdigit ds then Some (- int (nat_of_digits ds)) else None)
                 else if d = CHR ''+'' then (if isdigit ds then Some (int (nat_of_digits ds)) else None)
                 else (if isdigit cs then Some (int (nat_of_digits cs)) else None))
          else None)"

definition parse_unsigned :: "bool \<Rightarrow> string \<Rightarrow> decimal option" where
  "parse_unsigned neg s =
     (let (whole, rest) = span_digits s;
          (frac, rest') = (case rest of [] \<Rightarrow> ([], []) | c # cs \<Rightarrow> if c = CHR ''.'' then span_digits cs else ([], rest))
      in if whole @ frac = [] then
           (if lower s \<in> {''inf'', ''infinity'', ''nan'', ''snan''} \<or>
               (takeWhile (\<lambda>c. \<not> is_digit c) (lower s) \<in> {''nan'', ''snan''} \<and> isdigit (dropWhile (\<lambda>c. \<not> is_digit c) s))
            then Some Special else None)
         else (case parse_exponent rest' of None \<Rightarrow> None
           | Some e \<Rightarrow> Some (Fin neg (nat_of_digits (whole @ frac)) (e - int (length frac)))))"

definition parse_decimal :: "string \<Rightarrow> decimal option" where
  "parse_decimal raw =
     (case filter (\<lambda>c. c \<noteq> CHR ''_'') (strip raw) of
        [] \<Rightarrow> None
      | c # cs \<Rightarrow>
          if c = CHR ''-'' then parse_unsigned True cs
          else if c = CHR ''+'' then parse_unsigned False cs
          else parse_unsigned False (c # cs))"

text \<open>The context precision: a product with more than 28 digits is rounded half to even.\<close>

definition fit_context :: "nat \<Rightarrow> int \<Rightarrow> nat \<times> int" where
  "fit_context c e =
     (let n = length (str_nat c) in
      if n \<le> 28 then (c, e) else (nat (round_half_even (int c) (10 ^ (n - 28))), e + int (n - 28)))"

text \<open>\<open>quantize(1, ROUND_HALF_UP)\<close>; a result over 28 digits is an \<open>InvalidOperation\<close>.\<close>

definition quantize_half_up :: "nat \<Rightarrow> int \<Rightarrow> exn + nat" where
  "quantize_half_up c e =
     (let q = (if 0 \<le> e then c * 10 ^ nat e else (2 * c + 10 ^ nat (- e)) div (2 * 10 ^ nat (- e)))
      in if 28 < length (str_nat q) then Inl ArithmeticError else Inr q)"

definition money_to_cents :: "string \<Rightarrow> exn + int option" where
  "money_to_cents money =
     (case parse_decimal money of
        None \<Rightarrow> Inr None
      | Some Special \<Rightarrow> Inl ArithmeticError
      | Some (Fin neg c e) \<Rightarrow>
          (case fit_context (c * 100) e of (c', e') \<Rightarrow>
             bindE (quantize_half_up c' e') (\<lambda>q. Inr (if neg \<and> 0 < q then None else Some (int q)))))"

section \<open>The gateway\<close>

record epay =
  ep_url :: json
  ep_pid :: json
  ep_key :: json
  ep_type :: json

definition json_get :: "(string \<times> json) list \<Rightarrow> string \<Rightarrow> json \<Rightarrow> json" where
  "json_get cfg k d = (case map_of cfg k of None \<Rightarrow> d | Some v \<Rightarrow> v)"

definition json_truthy :: "json \<Rightarrow> bool" where
  "json_truthy v = (case v of JNull \<Rightarrow> False | JBool b \<Rightarrow> b | JInt n \<Rightarrow> n \<noteq> 0 | JFloat x \<Rightarrow> mant x \<noteq> 0
     | JStr s \<Rightarrow> s \<noteq> [] | JArr xs \<Rightarrow> xs \<noteq> [] | JObj xs \<Rightarrow> xs \<noteq> [])"

text \<open>\<open>d.setdefault(k, v)\<close>.\<close>

definition set_default :: "string \<Rightarrow> json \<Rightarrow> (string \<times> json) list \<Rightarrow> (string \<times> json) list" where
  "set_default k v kvs = (if map_of kvs k = None then kvs @ [(k, v)] else kvs)"

definition new_epay :: "(string \<times> json) list \<Rightarrow> epay" where
  "new_epay cfg = \<lparr>ep_url = json_get cfg ''url'' (JStr []), ep_pid = json_get cfg ''pid'' (JStr []),
     ep_key = json_get cfg ''key'' (JStr []), ep_type = json_get cfg ''type'' (JStr [])\<rparr>"

definition bs :: char where "bs = CHR 0x5C"

fun php_stripslashes :: "string \<Rightarrow> string" where
  "php_stripslashes [] = []"
| "php_stripslashes [c] = [c]"
| "php_stripslashes (c # d # cs) =
     (if c = bs \<and> d \<in> {bs, CHR 0x27, CHR 0x22} then d # php_stripslashes cs else c # php_stripslashes (d # cs))"

definition sign_params :: "(string \<times> json) list \<Rightarrow> (string \<times> json) list" where
  "sign_params ps =
     sort_key fst (filter (\<lambda>(k, v). k \<notin> {''sign'', ''sign_type''} \<and> v \<notin> {JStr [], JNull}) ps)"

text \<open>The signature needs a key that is text: appending anything else raises \<open>TypeError\<close>.\<close>

definition generate_sign :: "codec \<Rightarrow> (string \<Rightarrow> string) \<Rightarrow> epay \<Rightarrow> (string \<times> json) list \<Rightarrow> exn + string" where
  "generate_sign C md5 g ps =
     (let text = php_stripslashes (unquote_plus (urlencode (map (\<lambda>(k, v). (k, py_str C v)) (sign_params ps))))
      in case ep_key g of JStr key \<Rightarrow> Inr (md5 (text @ key)) | _ \<Rightarrow> Inl TypeError)"

definition is_ascii :: "string \<Rightarrow> bool" where
  "is_ascii s = list_all (\<lambda>c. char_code c < 128) s"

text \<open>\<open>hmac.compare_digest\<close> refuses text that is not ASCII.\<close>

definition hash_equals :: "string \<Rightarrow> string \<Rightarrow> exn + bool" where
  "hash_equals a b = (if is_ascii a \<and> is_ascii b then Inr (a = b) else Inl TypeError)"

record payment_request =
  pr_trade_no :: string
  pr_total_amount :: int
  pr_notify_url :: string
  pr_return_url :: string
  pr_user_id :: "int option"

record notify_result =
  nr_success :: bool
  nr_trade_no :: json
  nr_callback_no :: json
  nr_paid_amount :: "int option"

definition notify_failed :: notify_result where
  "notify_failed = \<lparr>nr_success = False, nr_trade_no = JStr [], nr_callback_no = JStr [], nr_paid_amount = None\<rparr>"

definition epay_params :: "epay \<Rightarrow> payment_request \<Rightarrow> (string \<times> json) list" where
  "epay_params g req =
     [(''money'', JStr (cents_to_money (pr_total_amount req))), (''name'', JStr (pr_trade_no req)),
      (''notify_url'', JStr (pr_notify_url req)), (''return_url'', JStr (pr_return_url req)),
      (''out_trade_no'', JStr (pr_trade_no req)), (''pid'', ep_pid g)]
     @ (if json_truthy (ep_type g) then [(''type'', ep_type g)] else [])"

text \<open>The result of \<open>pay\<close>: the type of the payment and the URL to open.\<close>

definition epay_pay :: "codec \<Rightarrow> (string \<Rightarrow> string) \<Rightarrow> epay \<Rightarrow> payment_request \<Rightarrow> exn + int \<times> string" where
  "epay_pay C md5 g req =
     bindE (generate_sign C md5 g (epay_params g req)) (\<lambda>sign.
       Inr (1, py_str C (ep_url g) @ ''/submit.php?'' @
         urlencode (map (\<lambda>(k, v). (k, py_str C v)) (epay_params g req @ [(''sign'', JStr sign), (''sign_type'', JStr ''MD5'')]))))"

text \<open>The parameters of a notification are the members of a JSON object, of any type; a signature that is no text
  makes \<open>compare_digest\<close> raise.\<close>

definition param :: "(string \<times> json) list \<Rightarrow> string \<Rightarrow> json" where
  "param ps k = (case map_of ps k of None \<Rightarrow> JStr [] | Some v \<Rightarrow> v)"

definition sign_equals :: "string \<Rightarrow> json \<Rightarrow> exn + bool" where
  "sign_equals a v = (case v of JStr b \<Rightarrow> hash_equals a b | _ \<Rightarrow> Inl TypeError)"

definition money_text :: "codec \<Rightarrow> (string \<times> json) list \<Rightarrow> string" where
  "money_text C ps = py_str C (case map_of ps ''money'' of None \<Rightarrow> JNull | Some v \<Rightarrow> v)"

definition epay_verify_notify :: "codec \<Rightarrow> (string \<Rightarrow> string) \<Rightarrow> epay \<Rightarrow> (string \<times> json) list \<Rightarrow> exn + notify_result" where
  "epay_verify_notify C md5 g ps =
     bindE (generate_sign C md5 g (filter (\<lambda>(k, v). k \<notin> {''sign'', ''sign_type''}) ps)) (\<lambda>expected.
     bindE (sign_equals expected (param ps ''sign'')) (\<lambda>same.
       if \<not> same then Inr notify_failed
       else if json_truthy (ep_pid g) \<and> py_str C (param ps ''pid'') \<noteq> py_str C (ep_pid g) then Inr notify_failed
       else if param ps ''trade_status'' \<noteq> JStr ''TRADE_SUCCESS'' then Inr notify_failed
       else bindE (money_to_cents (money_text C ps)) (\<lambda>paid.
         if \<not> json_truthy (param ps ''out_trade_no'') \<or> \<not> json_truthy (param ps ''trade_no'') \<or> paid = None then Inr notify_failed
         else Inr \<lparr>nr_success = True, nr_trade_no = param ps ''out_trade_no'',
                nr_callback_no = param ps ''trade_no'', nr_paid_amount = paid\<rparr>)))"

section \<open>Amounts survive the trip to the gateway and back\<close>

lemma str_nat_length: "n < 10 ^ k \<Longrightarrow> 0 < k \<Longrightarrow> length (str_nat n) \<le> k"
proof (induction k arbitrary: n)
  case (Suc k)
  show ?case
  proof (cases "n < 10")
    case True
    then show ?thesis by (subst str_nat.simps) simp
  next
    case False
    then have "0 < k" using Suc.prems(1) by (cases k) auto
    moreover have "n div 10 < 10 ^ k" using Suc.prems(1) by (simp add: less_mult_imp_div_less)
    ultimately have "length (str_nat (n div 10)) \<le> k" by (intro Suc.IH)
    then show ?thesis using False by (subst str_nat.simps) simp
  qed
qed simp

lemma takeWhile_all_append: "list_all P xs \<Longrightarrow> (case ys of [] \<Rightarrow> True | y # _ \<Rightarrow> \<not> P y) \<Longrightarrow>
    takeWhile P (xs @ ys) = xs \<and> dropWhile P (xs @ ys) = ys"
  by (induction xs) (auto split: list.splits)

lemma span_digits_str: "(case ys of [] \<Rightarrow> True | y # _ \<Rightarrow> \<not> is_digit y) \<Longrightarrow> span_digits (str_nat n @ ys) = (str_nat n, ys)"
  using takeWhile_all_append [OF str_nat_digits, of ys n] by (simp add: span_digits_def)

lemma nat_of_digits_Cons2: "nat_of_digits (xs @ [a, b]) = 10 * nat_of_digits (xs @ [a]) + digit_val b"
  using nat_of_digits_snoc [of "xs @ [a]" b] by simp

lemma money_char: "c \<in> set (cents_text n) \<Longrightarrow> \<not> is_space c \<and> c \<noteq> CHR ''_''"
proof -
  assume "c \<in> set (cents_text n)"
  then have "is_digit c \<or> c = CHR ''.''"
    using str_nat_digits [of "n div 100"] by (auto simp: cents_text_def Let_def list_all_iff split: if_splits)
  then show ?thesis using digit_not_space digit_not_sign by (auto simp: is_space_def char_code_def)
qed

lemma parse_money:
  "parse_decimal (cents_text n) = parse_unsigned False (cents_text n)"
proof -
  have "strip (cents_text n) = cents_text n" using money_char by (intro strip_id) (auto simp: list_all_iff)
  moreover have "filter (\<lambda>c. c \<noteq> CHR ''_'') (cents_text n) = cents_text n" using money_char by (simp add: filter_id_conv)
  moreover obtain c cs where "cents_text n = c # cs" "is_digit c"
    using str_nat_digits [of "n div 100"] str_nat_nonempty [of "n div 100"]
    by (cases "str_nat (n div 100)") (auto simp: cents_text_def Let_def)
  ultimately show ?thesis using digit_not_sign by (auto simp: parse_decimal_def)
qed

lemma cents_parts:
  fixes n :: nat
  defines "r \<equiv> n mod 100"
  shows "r = 0 \<Longrightarrow> parse_unsigned False (cents_text n) = Some (Fin False (n div 100) 0)"
    and "r \<noteq> 0 \<Longrightarrow> r mod 10 = 0 \<Longrightarrow> parse_unsigned False (cents_text n) = Some (Fin False (n div 10) (-1))"
    and "r mod 10 \<noteq> 0 \<Longrightarrow> parse_unsigned False (cents_text n) = Some (Fin False n (-2))"
proof -
  have dot: "\<not> is_digit (CHR ''.'')" by (simp add: is_digit_def char_code_def)
  have r: "r div 10 < 10" "r mod 10 < 10" by (simp_all add: r_def less_mult_imp_div_less)
  have ne: "str_nat (n div 100) \<noteq> []" by (rule str_nat_nonempty)
  show "r = 0 \<Longrightarrow> parse_unsigned False (cents_text n) = Some (Fin False (n div 100) 0)"
    using span_digits_str [of "[]" "n div 100"] ne
    by (simp add: cents_text_def r_def [symmetric] parse_unsigned_def parse_exponent_def)
  have split: "n = r + (10 * (n div 100)) * 10" unfolding r_def by simp
  have shift: "(r + (10 * q) * 10) div 10 = 10 * q + r div 10" for q by simp
  have tens: "10 * (n div 100) + r div 10 = n div 10"
    using arg_cong [OF split, of "\<lambda>x. x div 10"] by (simp only: shift)
  have "r mod 10 = n mod 10" unfolding r_def by (rule mod_mod_cancel) simp
  then have all: "10 * (n div 10) + r mod 10 = n" by simp
  have one: "span_digits [digit_char (r div 10)] = ([digit_char (r div 10)], [])"
    "span_digits [digit_char (r div 10), digit_char (r mod 10)] = ([digit_char (r div 10), digit_char (r mod 10)], [])"
    using r by (simp_all add: span_digits_def)
  show "r \<noteq> 0 \<Longrightarrow> r mod 10 = 0 \<Longrightarrow> parse_unsigned False (cents_text n) = Some (Fin False (n div 10) (-1))"
    using span_digits_str [of "[CHR ''.'', digit_char (r div 10)]" "n div 100"] ne dot r one tens
    by (simp add: cents_text_def r_def [symmetric] Let_def parse_unsigned_def parse_exponent_def nat_of_digits_snoc)
  show "r mod 10 \<noteq> 0 \<Longrightarrow> parse_unsigned False (cents_text n) = Some (Fin False n (-2))"
    using span_digits_str [of "[CHR ''.'', digit_char (r div 10), digit_char (r mod 10)]" "n div 100"] ne dot r one tens all
    by (auto simp: cents_text_def r_def [symmetric] Let_def parse_unsigned_def parse_exponent_def
          nat_of_digits_Cons2 nat_of_digits_snoc)
qed

lemma money_exact:
  assumes "c < 10 ^ 26" "(2 * (c * 100) + 10 ^ k) div (2 * 10 ^ k) = n" "n < 10 ^ 28"
  shows "(case fit_context (c * 100) (- int k) of (c', e') \<Rightarrow> quantize_half_up c' e') = Inr n"
proof -
  have "length (str_nat (c * 100)) \<le> 28" using assms(1) by (intro str_nat_length) auto
  moreover have "length (str_nat n) \<le> 28" using assms(3) by (intro str_nat_length) auto
  moreover have "k = 0 \<Longrightarrow> n = c * 100" using assms(2) by simp
  ultimately show ?thesis using assms(2) by (cases "k = 0") (auto simp: fit_context_def quantize_half_up_def Let_def)
qed

lemma money_round_trip:
  assumes "0 \<le> c" "c < 10 ^ 26"
  shows "money_to_cents (cents_to_money c) = Inr (Some c)"
proof -
  define n where "n = nat c"
  have n: "n < 10 ^ 26" "int n = c" using assms by (auto simp: n_def nat_less_iff)
  have ctm: "cents_to_money c = cents_text n" using assms(1) by (simp add: cents_to_money_def n_def)
  have fin: "money_to_cents (cents_text n) = Inr (Some c)"
    if "parse_unsigned False (cents_text n) = Some (Fin False m (- int k))"
      "(2 * (m * 100) + 10 ^ k) div (2 * 10 ^ k) = n" "m \<le> n" for m k
  proof -
    have "(case fit_context (m * 100) (- int k) of (c', e') \<Rightarrow> quantize_half_up c' e') = Inr n"
      using n(1) that(2,3) by (intro money_exact) auto
    then show ?thesis using that(1) n(2) by (auto simp: money_to_cents_def parse_money split: prod.splits)
  qed
  consider "n mod 100 = 0" | "n mod 100 \<noteq> 0" "n mod 100 mod 10 = 0" | "n mod 100 mod 10 \<noteq> 0" by blast
  then have "money_to_cents (cents_text n) = Inr (Some c)"
  proof cases
    case 1
    have "(2 * (n div 100 * 100) + 10 ^ 0) div (2 * 10 ^ 0) = n" using 1 by (simp add: dvd_div_mult_self mod_eq_0_iff_dvd)
    then show ?thesis using cents_parts(1) [OF 1] by (intro fin [of "n div 100" 0]) simp_all
  next
    case 2
    have "(2 * (n div 10 * 100) + 10 ^ 1) div (2 * 10 ^ 1) = n"
    proof -
      have "n mod 10 = 0" using 2(2) by (simp add: mod_mod_cancel)
      then have "n div 10 * 10 = n" by (simp add: mod_eq_0_iff_dvd)
      then show ?thesis by simp
    qed
    then show ?thesis using cents_parts(2) [OF 2] by (intro fin [of "n div 10" 1]) simp_all
  next
    case 3
    have "(2 * (n * 100) + 10 ^ 2) div (2 * 10 ^ 2) = n" by simp
    then show ?thesis using cents_parts(3) [OF 3] by (intro fin [of n 2]) simp_all
  qed
  then show ?thesis by (simp only: ctm)
qed

section \<open>Properties\<close>

text \<open>An amount sent to the gateway and reported back is the same number of cents.\<close>

theorem money_survives_gateway:
  assumes "0 \<le> cents" "cents < 10 ^ 26"
  shows "money_to_cents (cents_to_money cents) = Inr (Some cents)"
  by (rule money_round_trip [OF assms])

theorem money_survives_gateway_witness:
  "money_to_cents (cents_to_money 1050) = Inr (Some 1050) \<and> cents_to_money 1050 = ''10.5''"
proof
  show "money_to_cents (cents_to_money 1050) = Inr (Some 1050)" by (rule money_survives_gateway) simp_all
  show "cents_to_money 1050 = ''10.5''" by code_simp
qed

text \<open>The text that is signed: the parameters that count, sorted, in plain text, without PHP's slashes.\<close>

definition signed_text :: "codec \<Rightarrow> (string \<times> json) list \<Rightarrow> string" where
  "signed_text C ps = php_stripslashes (join_with ''&'' (map (\<lambda>(k, v). k @ ''='' @ py_str C v) (sign_params ps)))"

lemma generate_sign_text:
  "generate_sign C md5 g ps = (case ep_key g of JStr key \<Rightarrow> Inr (md5 (signed_text C ps @ key)) | _ \<Rightarrow> Inl TypeError)"
proof -
  have "map (\<lambda>(k, v). k @ ''='' @ v) (map (\<lambda>(k, v). (k, py_str C v)) xs) = map (\<lambda>(k, v). k @ ''='' @ py_str C v) xs" for xs
    by (simp add: split_beta)
  then show ?thesis by (simp only: generate_sign_def signed_text_def unquote_urlencode Let_def)
qed

definition notify_text :: "codec \<Rightarrow> (string \<times> json) list \<Rightarrow> string" where
  "notify_text C ps = signed_text C (filter (\<lambda>(k, v). k \<notin> {''sign'', ''sign_type''}) ps)"

lemma verify_notify_signed:
  assumes "epay_verify_notify C md5 g ps = Inr r" "nr_success r"
  shows "\<exists>key. ep_key g = JStr key \<and> param ps ''sign'' = JStr (md5 (notify_text C ps @ key)) \<and>
     (json_truthy (ep_pid g) \<longrightarrow> py_str C (param ps ''pid'') = py_str C (ep_pid g)) \<and>
     param ps ''trade_status'' = JStr ''TRADE_SUCCESS'' \<and>
     nr_trade_no r = param ps ''out_trade_no'' \<and> json_truthy (nr_trade_no r) \<and>
     nr_callback_no r = param ps ''trade_no'' \<and> json_truthy (nr_callback_no r) \<and>
     (\<exists>n\<ge>0. nr_paid_amount r = Some n \<and> money_to_cents (money_text C ps) = Inr (Some n))"
proof -
  from assms(1) obtain expected same where
    e: "generate_sign C md5 g (filter (\<lambda>(k, v). k \<notin> {''sign'', ''sign_type''}) ps) = Inr expected"
    and h: "sign_equals expected (param ps ''sign'') = Inr same"
    and rest: "(if \<not> same then Inr notify_failed
       else if json_truthy (ep_pid g) \<and> py_str C (param ps ''pid'') \<noteq> py_str C (ep_pid g) then Inr notify_failed
       else if param ps ''trade_status'' \<noteq> JStr ''TRADE_SUCCESS'' then Inr notify_failed
       else bindE (money_to_cents (money_text C ps)) (\<lambda>paid.
         if \<not> json_truthy (param ps ''out_trade_no'') \<or> \<not> json_truthy (param ps ''trade_no'') \<or> paid = None then Inr notify_failed
         else Inr \<lparr>nr_success = True, nr_trade_no = param ps ''out_trade_no'',
                nr_callback_no = param ps ''trade_no'', nr_paid_amount = paid\<rparr>)) = Inr r"
    by (auto simp: epay_verify_notify_def result_simps)
  have not_failed: "r \<noteq> notify_failed" using assms(2) by (auto simp: notify_failed_def)
  from e obtain key where key: "ep_key g = JStr key" "expected = md5 (notify_text C ps @ key)"
    by (auto simp: generate_sign_text notify_text_def split: json.splits)
  from rest not_failed have ok: same "json_truthy (ep_pid g) \<longrightarrow> py_str C (param ps ''pid'') = py_str C (ep_pid g)"
    "param ps ''trade_status'' = JStr ''TRADE_SUCCESS''"
    by (auto split: if_splits)
  from rest ok not_failed obtain paid where m: "money_to_cents (money_text C ps) = Inr (Some paid)"
    and out: "json_truthy (param ps ''out_trade_no'')" "json_truthy (param ps ''trade_no'')"
    and r: "r = \<lparr>nr_success = True, nr_trade_no = param ps ''out_trade_no'', nr_callback_no = param ps ''trade_no'', nr_paid_amount = Some paid\<rparr>"
    by (auto simp: result_simps split: if_splits)
  have "0 \<le> paid" using m by (auto simp: money_to_cents_def result_simps split: option.splits decimal.splits prod.splits if_splits)
  moreover have "param ps ''sign'' = JStr expected" using h ok(1) by (auto simp: sign_equals_def hash_equals_def split: json.splits if_splits)
  ultimately show ?thesis using key ok out r m by auto
qed

text \<open>C15: A payment notification is taken for genuine only if it carries the signature of its own
  parameters under the merchant's key, names the configured merchant (where one is configured), reports success,
  and carries a non-empty order number, a non-empty number of its own and an amount that is not negative; the
  result states exactly these two numbers and this amount.\<close>

theorem verify_notify_sound:
  assumes "epay_verify_notify C md5 g ps = Inr r" "nr_success r"
  shows "\<exists>key. ep_key g = JStr key \<and> param ps ''sign'' = JStr (md5 (notify_text C ps @ key)) \<and>
     (json_truthy (ep_pid g) \<longrightarrow> py_str C (param ps ''pid'') = py_str C (ep_pid g)) \<and>
     param ps ''trade_status'' = JStr ''TRADE_SUCCESS'' \<and>
     nr_trade_no r = param ps ''out_trade_no'' \<and> json_truthy (nr_trade_no r) \<and>
     nr_callback_no r = param ps ''trade_no'' \<and> json_truthy (nr_callback_no r) \<and>
     (\<exists>n\<ge>0. nr_paid_amount r = Some n \<and> money_to_cents (money_text C ps) = Inr (Some n))"
  using verify_notify_signed [OF assms] .

text \<open>C38: Conversely, a successful notification that the holder of the key signed is accepted, with
  the amount it states.\<close>

theorem verify_notify_complete:
  assumes "ep_key g = JStr key" "param ps ''sign'' = JStr (md5 (notify_text C ps @ key))" "is_ascii (md5 (notify_text C ps @ key))"
    and "py_str C (param ps ''pid'') = py_str C (ep_pid g)" "param ps ''trade_status'' = JStr ''TRADE_SUCCESS''"
    and "param ps ''out_trade_no'' = tn" "param ps ''trade_no'' = cb" "json_truthy tn" "json_truthy cb"
    and "map_of ps ''money'' = Some (JStr (cents_to_money n))" "0 \<le> n" "n < 10 ^ 26"
  shows "epay_verify_notify C md5 g ps =
     Inr \<lparr>nr_success = True, nr_trade_no = tn, nr_callback_no = cb, nr_paid_amount = Some n\<rparr>"
proof -
  have "generate_sign C md5 g (filter (\<lambda>(k, v). k \<notin> {''sign'', ''sign_type''}) ps) = Inr (md5 (notify_text C ps @ key))"
    unfolding generate_sign_text using assms(1) by (simp add: notify_text_def)
  moreover have "sign_equals (md5 (notify_text C ps @ key)) (param ps ''sign'') = Inr True"
    using assms(2,3) by (simp add: sign_equals_def hash_equals_def)
  moreover have "money_to_cents (money_text C ps) = Inr (Some n)"
    using assms(10) money_round_trip [OF assms(11,12)] by (simp add: money_text_def py_str_def)
  ultimately show ?thesis using assms(4-9) by (simp add: epay_verify_notify_def)
qed

definition sample_epay :: epay where
  "sample_epay = \<lparr>ep_url = JStr ''u'', ep_pid = JInt 7, ep_key = JStr ''k'', ep_type = JNull\<rparr>"

text \<open>A stand-in digest for the witnesses: the text itself.\<close>

definition plain_md5 :: "string \<Rightarrow> string" where
  "plain_md5 s = s"

definition sample_notify :: "(string \<times> json) list" where
  "sample_notify = [(''pid'', JInt 7), (''trade_no'', JStr ''E1''), (''out_trade_no'', JStr ''T1''), (''money'', JStr ''10''),
     (''trade_status'', JStr ''TRADE_SUCCESS''), (''sign_type'', JStr ''MD5''),
     (''sign'', JStr ''money=10&out_trade_no=T1&pid=7&trade_no=E1&trade_status=TRADE_SUCCESSk'')]"

theorem verify_notify_complete_witness:
  "epay_verify_notify (sv_codec sample_service) plain_md5 sample_epay sample_notify =
     Inr \<lparr>nr_success = True, nr_trade_no = JStr ''T1'', nr_callback_no = JStr ''E1'', nr_paid_amount = Some 1000\<rparr>"
proof -
  have "ep_key sample_epay = JStr ''k''"
    "param sample_notify ''sign'' = JStr (plain_md5 (notify_text (sv_codec sample_service) sample_notify @ ''k''))"
    "is_ascii (plain_md5 (notify_text (sv_codec sample_service) sample_notify @ ''k''))"
    "py_str (sv_codec sample_service) (param sample_notify ''pid'') = py_str (sv_codec sample_service) (ep_pid sample_epay)"
    "param sample_notify ''trade_status'' = JStr ''TRADE_SUCCESS''" "param sample_notify ''out_trade_no'' = JStr ''T1''"
    "param sample_notify ''trade_no'' = JStr ''E1''" "json_truthy (JStr ''T1'')" "json_truthy (JStr ''E1'')"
    "map_of sample_notify ''money'' = Some (JStr (cents_to_money 1000))"
    by code_simp+
  then show ?thesis by (intro verify_notify_complete) simp_all
qed

theorem verify_notify_sound_witness:
  "\<exists>r. epay_verify_notify (sv_codec sample_service) plain_md5 sample_epay sample_notify = Inr r \<and> nr_trade_no r = JStr ''T1'' \<and>
     param sample_notify ''sign'' = JStr (plain_md5 (notify_text (sv_codec sample_service) sample_notify @ ''k''))"
proof -
  have "epay_verify_notify (sv_codec sample_service) plain_md5 sample_epay sample_notify =
     Inr \<lparr>nr_success = True, nr_trade_no = JStr ''T1'', nr_callback_no = JStr ''E1'', nr_paid_amount = Some 1000\<rparr>" by code_simp
  from verify_notify_sound [OF this] this show ?thesis by (auto simp: sample_epay_def)
qed

end
