(* ===== verification/Payments.thy ===== *)
theory Payments
  imports Epay "HOL-Library.AList"
begin

text \<open>
  \<open>app/payments/registry.py\<close> and \<open>app/services/payment.py\<close>: the registry of gateways (EPay is the
  only one) and the administration of payment methods. A configuration is a JSON value, as the
  request gives it; text configurations go through the JSON parser of the codec.
\<close>

record gateway_class =
  gw_gateway :: string
  gw_label :: string
  gw_aliases :: "string list"
  gw_required :: "string list"

definition epay_class :: gateway_class where
  "epay_class = \<lparr>gw_gateway = ''EPay'', gw_label = ''EPay'', gw_aliases = [''epay''], gw_required = [''url'', ''pid'', ''key'']\<rparr>"

definition gateway_key :: "string \<Rightarrow> string" where
  "gateway_key name = lower (strip name)"

definition register_gateway :: "gateway_class \<Rightarrow> (string \<times> gateway_class) list \<Rightarrow> (string \<times> gateway_class) list" where
  "register_gateway cls reg =
     fold (\<lambda>name r. AList.update (gateway_key name) cls r)
       (remdups (gw_gateway cls # lower (gw_gateway cls) # gw_aliases cls)) reg"

definition gateways :: "(string \<times> gateway_class) list" where
  "gateways = register_gateway epay_class []"

definition get_payment_gateway :: "string \<Rightarrow> exn + gateway_class" where
  "get_payment_gateway name =
     (case map_of gateways (gateway_key name) of None \<Rightarrow> Inl (BadRequest ''no such gateway'') | Some c \<Rightarrow> Inr c)"

definition parse_config :: "codec \<Rightarrow> json \<Rightarrow> exn + (string \<times> json) list" where
  "parse_config C config =
     (if config \<in> {JNull, JStr []} then Inl (BadRequest ''empty payment config'')
      else case config of
        JObj cfg \<Rightarrow> Inr cfg
      | JStr s \<Rightarrow> (case loads C s of
            None \<Rightarrow> Inl (BadRequest ''payment config is not JSON'')
          | Some (JObj cfg) \<Rightarrow> Inr cfg
          | Some _ \<Rightarrow> Inl (BadRequest ''payment config is not an object''))
      | _ \<Rightarrow> Inl TypeError)"

definition validate_config :: "gateway_class \<Rightarrow> (string \<times> json) list \<Rightarrow> exn + (string \<times> json) list" where
  "validate_config cls cfg =
     (let missing = filter (\<lambda>k. \<not> json_truthy (json_get cfg k JNull)) (gw_required cls)
      in guardE (missing \<noteq> []) (BadRequest (''missing fields: '' @ join_with '', '' missing)) (Inr cfg))"

definition validate_gateway_config :: "codec \<Rightarrow> string \<Rightarrow> json \<Rightarrow> exn + (string \<times> json) list" where
  "validate_gateway_config C name config =
     bindE (get_payment_gateway name) (\<lambda>cls. bindE (parse_config C config) (validate_config cls))"

definition create_payment_gateway :: "codec \<Rightarrow> string \<Rightarrow> json \<Rightarrow> exn + epay" where
  "create_payment_gateway C name config =
     bindE (get_payment_gateway name) (\<lambda>cls. bindE (parse_config C config) (\<lambda>cfg.
     bindE (validate_config cls cfg) (\<lambda>cfg'. Inr (new_epay cfg'))))"

definition canonical_gateway_name :: "string \<Rightarrow> exn + string" where
  "canonical_gateway_name name = bindE (get_payment_gateway name) (\<lambda>cls. Inr (gw_gateway cls))"

definition class_route_name :: "gateway_class \<Rightarrow> string" where
  "class_route_name cls = (case gw_aliases cls of [] \<Rightarrow> lower (gw_gateway cls) | a # _ \<Rightarrow> a)"

definition route_gateway_name :: "string \<Rightarrow> exn + string" where
  "route_gateway_name name = bindE (get_payment_gateway name) (\<lambda>cls. Inr (class_route_name cls))"

definition list_payment_gateways :: "(string \<times> string \<times> string) list" where
  "list_payment_gateways =
     sort_key fst (map (\<lambda>cls. (gw_gateway cls, gw_label cls, class_route_name cls)) (remdups (map snd gateways)))"

section \<open>Administration\<close>

definition get_payment :: "int \<Rightarrow> db \<Rightarrow> exn + payment" where
  "get_payment i db = (case payment_by_id db i of None \<Rightarrow> Inl (NotFound ''payment'') | Some p \<Rightarrow> Inr p)"

record payment_create =
  pc_payment :: string
  pc_name :: string
  pc_icon :: "string option"
  pc_config :: json
  pc_notify_domain :: "string option"
  pc_handling_fee_fixed :: "int option"
  pc_handling_fee_percent :: "double option"
  pc_enable :: bool
  pc_sort :: "int option"

definition create_payment :: "codec \<Rightarrow> int \<Rightarrow> string \<Rightarrow> payment_create \<Rightarrow> db \<Rightarrow> exn + payment \<times> db" where
  "create_payment C now uuid data db =
     bindE (validate_gateway_config C (pc_payment data) (pc_config data)) (\<lambda>cfg.
     bindE (canonical_gateway_name (pc_payment data)) (\<lambda>name.
       let p = \<lparr>pm_id = 0, pm_uuid = filter (\<lambda>c. c \<noteq> CHR ''-'') uuid, pm_payment = name, pm_name = pc_name data,
             pm_icon = pc_icon data, pm_config = cfg, pm_notify_domain = pc_notify_domain data,
             pm_handling_fee_fixed = pc_handling_fee_fixed data, pm_handling_fee_percent = pc_handling_fee_percent data,
             pm_enable = pc_enable data, pm_sort = pc_sort data, pm_created_at = 0, pm_updated_at = 0\<rparr>
       in Inr (new_row payment_entity now (t_payments db) p,
               db\<lparr>t_payments := repo_create payment_entity now (t_payments db) p\<rparr>)))"

record payment_update =
  px_payment :: "string option option"
  px_name :: "string option option"
  px_icon :: "string option option"
  px_config :: "json option"
  px_notify_domain :: "string option option"
  px_handling_fee_fixed :: "int option option"
  px_handling_fee_percent :: "double option option"
  px_enable :: "bool option option"
  px_sort :: "int option option"

definition update_payment :: "codec \<Rightarrow> int \<Rightarrow> int \<Rightarrow> payment_update \<Rightarrow> db \<Rightarrow> exn + payment \<times> db" where
  "update_payment C now i data db =
     (case payment_by_id db i of
        None \<Rightarrow> Inl (NotFound ''payment'')
      | Some p \<Rightarrow>
          bindE (if px_payment data = None \<and> px_config data = None then Inr (pm_payment p, pm_config p)
                 else if explicit_null (px_payment data) then Inl AttributeError
                 else
                   let name = set_if (given (px_payment data)) (pm_payment p) in
                   bindE (validate_gateway_config C name (set_if (px_config data) (JObj (pm_config p)))) (\<lambda>cfg.
                   bindE (canonical_gateway_name name) (\<lambda>canon. Inr (canon, cfg)))) (\<lambda>(name, cfg).
          guardE (explicit_null (px_name data) \<or> explicit_null (px_enable data)) IntegrityError
            (let p' = p\<lparr>pm_payment := name, pm_config := cfg,
                   pm_name := set_if (given (px_name data)) (pm_name p),
                   pm_icon := set_if (px_icon data) (pm_icon p),
                   pm_notify_domain := set_if (px_notify_domain data) (pm_notify_domain p),
                   pm_handling_fee_fixed := set_if (px_handling_fee_fixed data) (pm_handling_fee_fixed p),
                   pm_handling_fee_percent := set_if (px_handling_fee_percent data) (pm_handling_fee_percent p),
                   pm_enable := set_if (given (px_enable data)) (pm_enable p),
                   pm_sort := set_if (px_sort data) (pm_sort p)\<rparr>
             in Inr (p', put_payment now db p'))))"

definition delete_payment :: "int \<Rightarrow> db \<Rightarrow> exn + db" where
  "delete_payment i db =
     (case payment_by_id db i of
        None \<Rightarrow> Inl (NotFound ''payment'')
      | Some p \<Rightarrow> guardE (payment_has_orders db i) (Conflict ''payment has orders'')
          (Inr (db\<lparr>t_payments := repo_delete payment_entity (t_payments db) p\<rparr>)))"

section \<open>Facts\<close>

lemma gateways_eq: "gateways = [(''epay'', epay_class)]"
  by code_simp

lemma get_payment_gateway_epay: "get_payment_gateway name = Inr c \<Longrightarrow> c = epay_class \<and> gateway_key name = ''epay''"
  by (auto simp: get_payment_gateway_def gateways_eq split: option.splits if_splits)

text \<open>The name a payment is stored under leads back to its gateway, whatever spelling was used.\<close>

lemma canonical_is_known: "canonical_gateway_name name = Inr c \<Longrightarrow> canonical_gateway_name c = Inr c \<and> route_gateway_name c = Inr ''epay''"
proof -
  assume "canonical_gateway_name name = Inr c"
  then have "c = ''EPay''" by (auto simp: canonical_gateway_name_def result_simps epay_class_def dest: get_payment_gateway_epay)
  moreover have "canonical_gateway_name ''EPay'' = Inr ''EPay''" "route_gateway_name ''EPay'' = Inr ''epay''" by code_simp+
  ultimately show ?thesis by simp
qed

text \<open>A stored payment can be opened: creation validates what checkout and notification need.\<close>

definition usable_payment :: "codec \<Rightarrow> payment \<Rightarrow> bool" where
  "usable_payment C p \<longleftrightarrow> is_ok (create_payment_gateway C (pm_payment p) (JObj (pm_config p))) \<and> is_ok (route_gateway_name (pm_payment p))"

lemma validated_usable:
  assumes "validate_gateway_config C name config = Inr cfg" "canonical_gateway_name name = Inr canon"
    and "pm_payment p = canon" "pm_config p = cfg"
  shows "usable_payment C p"
proof -
  from assms(1) obtain cls c0 where cls: "get_payment_gateway name = Inr cls" and v: "validate_config cls c0 = Inr cfg"
    by (auto simp: validate_gateway_config_def result_simps)
  from v have cfg: "validate_config cls cfg = Inr cfg" by (auto simp: validate_config_def Let_def result_simps)
  have cls': "cls = epay_class" using get_payment_gateway_epay [OF cls] by simp
  from canonical_is_known [OF assms(2)] have known: "canonical_gateway_name canon = Inr canon" "route_gateway_name canon = Inr ''epay''"
    by auto
  then have "get_payment_gateway canon = Inr epay_class"
    using get_payment_gateway_epay by (auto simp: canonical_gateway_name_def result_simps)
  with cfg cls' known(2) assms(3,4) show ?thesis
    by (simp add: usable_payment_def create_payment_gateway_def parse_config_def)
qed

lemma usable_stored [simp]:
  "usable_payment C (stored payment_entity now x p) = usable_payment C p"
  "usable_payment C (new_row payment_entity now t p) = usable_payment C p"
  by (auto simp: usable_payment_def stored_def new_row_def payment_entity_def)

definition all_usable :: "codec \<Rightarrow> db \<Rightarrow> bool" where
  "all_usable C db \<longleftrightarrow> list_all (usable_payment C) (rows (t_payments db))"

lemma create_payment_usable:
  "all_usable C db \<Longrightarrow> create_payment C now uuid data db = Inr (p, db') \<Longrightarrow> all_usable C db'"
  by (auto simp: create_payment_def result_simps Let_def all_usable_def) (erule validated_usable, assumption, simp_all)

lemma update_payment_usable:
  assumes "all_usable C db" "update_payment C now i data db = Inr (r, db')"
  shows "all_usable C db'"
proof -
  from assms(2) obtain p where p: "payment_by_id db i = Some p" by (auto simp: update_payment_def split: option.splits)
  then have "p \<in> set (rows (t_payments db))"
    using repo_get_SomeD [of payment_entity "t_payments db" i p] by (simp add: payment_by_id_def)
  then have old: "usable_payment C p" using assms(1) by (auto simp: all_usable_def list_all_iff)
  from assms(2) p obtain name cfg where
    step: "(if px_payment data = None \<and> px_config data = None then Inr (pm_payment p, pm_config p)
       else if explicit_null (px_payment data) then Inl AttributeError
       else let name = set_if (given (px_payment data)) (pm_payment p) in
         bindE (validate_gateway_config C name (set_if (px_config data) (JObj (pm_config p)))) (\<lambda>cfg.
         bindE (canonical_gateway_name name) (\<lambda>canon. Inr (canon, cfg)))) = Inr (name, cfg)"
    and put: "\<exists>p'. db' = put_payment now db p' \<and> pm_payment p' = name \<and> pm_config p' = cfg"
    by (fastforce simp: update_payment_def result_simps Let_def)
  from put obtain p' where db': "db' = put_payment now db p'" and p': "pm_payment p' = name" "pm_config p' = cfg" by blast
  have new: "pm_payment p' = pm_payment p \<and> pm_config p' = pm_config p \<or>
     (\<exists>name config. validate_gateway_config C name config = Inr (pm_config p') \<and> canonical_gateway_name name = Inr (pm_payment p'))"
    using step unfolding p' by (auto simp: result_simps Let_def split: if_splits)
  have "usable_payment C p'"
    using new
  proof
    assume "pm_payment p' = pm_payment p \<and> pm_config p' = pm_config p"
    then show ?thesis using old by (simp add: usable_payment_def)
  qed (blast intro: validated_usable)
  then show ?thesis using assms(1) unfolding db'
    by (auto simp: all_usable_def put_payment_def rows_repo_update list_all_iff)
qed

lemma delete_payment_usable: "all_usable C db \<Longrightarrow> delete_payment i db = Inr db' \<Longrightarrow> all_usable C db'"
  by (auto simp: delete_payment_def result_simps all_usable_def repo_delete_def list_all_iff split: option.splits)

section \<open>Properties\<close>

text \<open>Every payment method the service stores can be used: its gateway is registered, its
  configuration has the required fields, and so opening it at checkout or notification cannot fail;
  creating, updating and deleting methods keep this, and a method that orders refer to is not deleted.\<close>

theorem payments_stay_usable:
  assumes "all_usable C db"
  shows "(create_payment C now uuid data db = Inr (p1, db1) \<longrightarrow> all_usable C db1) \<and>
     (update_payment C now i upd db = Inr (p2, db2) \<longrightarrow> all_usable C db2) \<and>
     (delete_payment i db = Inr db3 \<longrightarrow> all_usable C db3 \<and> (\<forall>r\<in>set (rows (t_orders db)). od_payment_id r \<noteq> Some i))"
proof -
  have "\<forall>r\<in>set (rows (t_orders db)). od_payment_id r \<noteq> Some i" if "delete_payment i db = Inr db3"
    using that by (auto simp: delete_payment_def result_simps payment_has_orders_def count_where_pos split: option.splits)
  then show ?thesis
    using create_payment_usable [OF assms] update_payment_usable [OF assms] delete_payment_usable [OF assms] by blast
qed

definition sample_payment_create :: payment_create where
  "sample_payment_create = \<lparr>pc_payment = '' EPAY'', pc_name = ''n'', pc_icon = None,
     pc_config = JObj [(''url'', JStr ''u''), (''pid'', JInt 7), (''key'', JStr ''k'')], pc_notify_domain = None,
     pc_handling_fee_fixed = None, pc_handling_fee_percent = None, pc_enable = True, pc_sort = None\<rparr>"

theorem payments_stay_usable_witness:
  "\<exists>p db1. create_payment (sv_codec sample_service) 5 ''ab-c'' sample_payment_create empty_db = Inr (p, db1) \<and>
     all_usable (sv_codec sample_service) db1 \<and> rows (t_payments db1) \<noteq> []"
proof -
  have "all_usable (sv_codec sample_service) empty_db"
    "is_ok (create_payment (sv_codec sample_service) 5 ''ab-c'' sample_payment_create empty_db)" by code_simp+
  then obtain p db1 where u: "all_usable (sv_codec sample_service) empty_db"
    and c: "create_payment (sv_codec sample_service) 5 ''ab-c'' sample_payment_create empty_db = Inr (p, db1)"
    by (auto elim: is_okE)
  from c have "rows (t_payments db1) \<noteq> []" by (auto simp: create_payment_def result_simps Let_def)
  moreover have "all_usable (sv_codec sample_service) db1"
    using payments_stay_usable [OF u, where now = 5 and uuid = "''ab-c''" and data = sample_payment_create and ?p1.0 = p
      and ?db1.0 = db1 and i = 0 and upd = undefined and ?p2.0 = p and ?db2.0 = db1 and ?db3.0 = db1] c by blast
  ultimately show ?thesis using c by blast
qed

end
