(* ===== verification/Calendar.thy ===== *)
theory Calendar
  imports Entities
begin

text \<open>
  Extending a subscription by calendar months: \<open>_add_months\<close> of \<open>app/services/order.py\<close> over
  the proleptic Gregorian calendar of Python's \<open>datetime\<close> (ordinals: day 1 is 0001-01-01). The
  server's time zone is a parameter: the offset from UTC, in seconds, at every instant. Naive local
  times are converted by the two algorithms of \<open>datetime\<close>, with its \<open>fold\<close> for times that a zone
  has twice and its rule for times that a zone skips. The year is found by counting up from
  \<open>n div 366\<close>, which is never past it.
\<close>

definition is_leap :: "int \<Rightarrow> bool" where
  "is_leap y \<longleftrightarrow> 4 dvd y \<and> (\<not> 100 dvd y \<or> 400 dvd y)"

definition days_in_month :: "int \<Rightarrow> int \<Rightarrow> int" where
  "days_in_month y m = (if m = 2 then (if is_leap y then 29 else 28) else if m = 4 \<or> m = 6 \<or> m = 9 \<or> m = 11 then 30 else 31)"

definition days_before_year :: "int \<Rightarrow> int" where
  "days_before_year y = (y - 1) * 365 + (y - 1) div 4 - (y - 1) div 100 + (y - 1) div 400"

definition days_before_month :: "int \<Rightarrow> int \<Rightarrow> int" where
  "days_before_month y m = sum_list (map (days_in_month y) [1..m - 1])"

definition ymd2ord :: "int \<Rightarrow> int \<Rightarrow> int \<Rightarrow> int" where
  "ymd2ord y m d = days_before_year y + days_before_month y m + d"

lemma div_pred: "0 < k \<Longrightarrow> (y :: int) div k = (y - 1) div k + (if k dvd y then 1 else 0)"
proof -
  assume k: "0 < k"
  show ?thesis
  proof (cases "k dvd y")
    case True
    then obtain q where q: "y = k * q" ..
    have "(k * q - 1) div k = q - 1"
      using k div_pos_neg_trivial [of "-1" k] by (simp add: div_eq_minus1 diff_conv_add_uminus del: add_uminus_conv_diff)
    then show ?thesis using k q by simp
  next
    case False
    have "y = k * (y div k) + y mod k" by simp
    moreover have "0 < y mod k" "y mod k < k" using False k pos_mod_sign [of k y] pos_mod_bound [of k y]
      by (auto simp: dvd_eq_mod_eq_0 order_less_le)
    ultimately have "y - 1 = k * (y div k) + (y mod k - 1)" "0 \<le> y mod k - 1" "y mod k - 1 < k" by auto
    then have "(y - 1) div k = y div k" by (metis div_pos_pos_trivial add.right_neutral div_mult_self4 k less_imp_neq)
    then show ?thesis using False by simp
  qed
qed

lemma next_year: "days_before_year (y + 1) = days_before_year y + (if is_leap y then 366 else 365)"
proof -
  have d: "400 dvd y \<Longrightarrow> 100 dvd y" "100 dvd y \<Longrightarrow> 4 dvd y" by presburger+
  have e: "y div 4 = (y - 1) div 4 + (if 4 dvd y then 1 else 0)" "y div 100 = (y - 1) div 100 + (if 100 dvd y then 1 else 0)"
    "y div 400 = (y - 1) div 400 + (if 400 dvd y then 1 else 0)"
    by (rule div_pred, simp)+
  have "y + 1 - 1 = y" by simp
  then have l: "days_before_year (y + 1) = y * 365 + y div 4 - y div 100 + y div 400"
    by (simp only: days_before_year_def)
  have aux: "Y * 365 + (A + (if p then 1 else 0)) - (B + (if q then 1 else 0)) + (C + (if r then 1 else 0)) =
      (Y - 1) * 365 + A - B + C + (if p \<and> (\<not> q \<or> r) then 366 else 365)"
    if "r \<Longrightarrow> q" "q \<Longrightarrow> p" for Y A B C :: int and p q r
    using that by auto
  show ?thesis unfolding l unfolding e days_before_year_def is_leap_def using d by (rule aux)
qed

lemma year_grows: "days_before_year y < days_before_year (y + 1)"
  by (simp add: next_year)

function year_from :: "int \<Rightarrow> int \<Rightarrow> int" where
  "year_from y n = (if n \<le> days_before_year (y + 1) then y else year_from (y + 1) n)"
  by pat_completeness auto
termination
proof (relation "measure (\<lambda>(y, n). nat (n - days_before_year (y + 1)))")
  fix y n :: int
  assume "\<not> n \<le> days_before_year (y + 1)"
  then show "((y + 1, n), (y, n)) \<in> measure (\<lambda>(y, n). nat (n - days_before_year (y + 1)))"
    using year_grows [of "y + 1"] by simp
qed simp

declare year_from.simps [simp del]

function month_from :: "int \<Rightarrow> int \<Rightarrow> int \<Rightarrow> int \<times> int" where
  "month_from y m r = (if 12 \<le> m \<or> r \<le> days_in_month y m then (m, r) else month_from y (m + 1) (r - days_in_month y m))"
  by pat_completeness auto
termination
  by (relation "measure (\<lambda>(y, m, r). nat (12 - m))") auto

declare month_from.simps [simp del]

definition ord2ymd :: "int \<Rightarrow> int \<times> int \<times> int" where
  "ord2ymd n = (let y = year_from (n div 366 + 1) n in (y, month_from y 1 (n - days_before_year y)))"

section \<open>Local time\<close>

type_synonym time_zone = "int \<Rightarrow> int"

text \<open>The seconds of the wall clock at an instant.\<close>

definition local_seconds :: "time_zone \<Rightarrow> int \<Rightarrow> int" where
  "local_seconds tz u = u + tz u"

text \<open>The \<open>fold\<close> that \<open>datetime.fromtimestamp\<close> sets: the second of two instants with the same wall clock.\<close>

definition second_time :: "time_zone \<Rightarrow> int \<Rightarrow> bool" where
  "second_time tz u \<longleftrightarrow>
     (let trans = tz u - tz (u - 86400) in trans < 0 \<and> local_seconds tz (u + trans) = local_seconds tz u)"

text \<open>\<open>datetime.timestamp\<close> of a naive time \<open>t\<close>: the search for an instant whose wall clock shows \<open>t\<close>.\<close>

definition from_local :: "time_zone \<Rightarrow> bool \<Rightarrow> int \<Rightarrow> int" where
  "from_local tz later t =
     (let a = tz t;
          u1 = t - a;
          hit = (local_seconds tz u1 = t);
          b = (if hit then tz (u1 + (if later then 86400 else - 86400)) else tz u1);
          u2 = t - b
      in if hit \<and> a = b then u1
         else if local_seconds tz u2 = t then u2
         else if hit then u1
         else if later then min u1 u2 else max u1 u2)"

text \<open>\<open>datetime\<close> has no year above 9999: going beyond raises \<open>ValueError\<close>.\<close>

definition add_months :: "time_zone \<Rightarrow> int \<Rightarrow> int \<Rightarrow> int \<Rightarrow> exn + int" where
  "add_months tz now timestamp months =
     (let base = max timestamp now;
          local = local_seconds tz base;
          (y, m, d) = ord2ymd (local div 86400 + 719163);
          month = m - 1 + months;
          year = y + month div 12;
          month' = month mod 12 + 1;
          day = min d (days_in_month year month')
      in guardE (9999 < year) ValueError
           (Inr (from_local tz (second_time tz base) ((ymd2ord year month' day - 719163) * 86400 + local mod 86400))))"

section \<open>The calendar\<close>

lemma days_in_month_bounds: "28 \<le> days_in_month y m \<and> days_in_month y m \<le> 31"
  by (simp add: days_in_month_def)

lemma next_month: "1 \<le> m \<Longrightarrow> days_before_month y (m + 1) = days_before_month y m + days_in_month y m"
proof -
  assume "1 \<le> m"
  then have "[1..m] = [1..m - 1] @ [m]" by (simp add: upto_rec2)
  then show ?thesis by (simp add: days_before_month_def)
qed

lemma month_1 [simp]: "days_before_month y 1 = 0"
  by (simp add: days_before_month_def)

lemma month_13: "days_before_month y 13 = (if is_leap y then 366 else 365)"
proof -
  have "[1..13 - 1 :: int] = [1,2,3,4,5,6,7,8,9,10,11,12]" by code_simp
  then show ?thesis by (simp add: days_before_month_def days_in_month_def)
qed

lemma year_from_spec:
  "days_before_year y < n \<Longrightarrow> days_before_year (year_from y n) < n \<and> n \<le> days_before_year (year_from y n + 1)"
proof (induction y n rule: year_from.induct)
  case (1 y n)
  then show ?case by (subst (1 2) year_from.simps) auto
qed

lemma month_from_spec:
  assumes "1 \<le> m" "m \<le> 12" "1 \<le> r" "days_before_month y m + r \<le> days_before_month y 13"
  shows "(case month_from y m r of (m', d) \<Rightarrow> 1 \<le> m' \<and> m' \<le> 12 \<and> 1 \<le> d \<and> d \<le> days_in_month y m' \<and>
     days_before_month y m' + d = days_before_month y m + r)"
  using assms
proof (induction y m r rule: month_from.induct)
  case (1 y m r)
  show ?case
  proof (cases "12 \<le> m \<or> r \<le> days_in_month y m")
    case True
    have "r \<le> days_in_month y m"
    proof (cases "12 \<le> m")
      case True
      then have "m = 12" using "1.prems" by simp
      then show ?thesis using "1.prems"(4) next_month [of 12 y] by simp
    qed (use True in simp)
    with True "1.prems" show ?thesis by (subst month_from.simps) simp
  next
    case False
    have "(case month_from y (m + 1) (r - days_in_month y m) of (m', d) \<Rightarrow> 1 \<le> m' \<and> m' \<le> 12 \<and> 1 \<le> d \<and> d \<le> days_in_month y m' \<and>
       days_before_month y m' + d = days_before_month y (m + 1) + (r - days_in_month y m))"
      using False "1.prems" next_month [of m y] by (intro "1.IH") auto
    then show ?thesis using False "1.prems"(1) next_month [of m y] by (subst month_from.simps) (auto split: prod.splits)
  qed
qed

lemma first_guess: "1 \<le> n \<Longrightarrow> days_before_year (n div 366 + 1) < n"
proof -
  assume n: "1 \<le> n"
  let ?p = "n div 366"
  have p: "0 \<le> ?p" "?p * 366 \<le> n" using n by (auto simp: pos_imp_zdiv_nonneg_iff)
  have "?p div 400 \<le> ?p div 100" using p(1) by (intro zdiv_mono2) auto
  then have "days_before_year (?p + 1) \<le> ?p * 365 + ?p div 4" by (simp add: days_before_year_def)
  also have "\<dots> < n"
  proof (cases "?p = 0")
    case False
    then have "?p div 4 < ?p" using p(1) by (intro int_div_less_self) auto
    then show ?thesis using p(2) by linarith
  qed (use n in simp)
  finally show ?thesis .
qed

lemma ord2ymd_spec:
  assumes "1 \<le> n" "ord2ymd n = (y, m, d)"
  shows "1 \<le> m \<and> m \<le> 12 \<and> 1 \<le> d \<and> d \<le> days_in_month y m \<and> ymd2ord y m d = n"
proof -
  have y: "y = year_from (n div 366 + 1) n" and md: "month_from y 1 (n - days_before_year y) = (m, d)"
    using assms(2) by (auto simp: ord2ymd_def Let_def)
  have b: "days_before_year y < n" "n \<le> days_before_year (y + 1)"
    using year_from_spec [OF first_guess [OF assms(1)]] y by auto
  have "n - days_before_year y \<le> days_before_month y 13" using b(2) by (simp add: next_year month_13)
  then show ?thesis
    using month_from_spec [of 1 "n - days_before_year y" y] md b(1) by (simp add: ymd2ord_def)
qed

text \<open>Months counted from year 0: the start of a month and its length.\<close>

definition month_start :: "int \<Rightarrow> int" where
  "month_start k = days_before_year (k div 12) + days_before_month (k div 12) (k mod 12 + 1)"

definition month_length :: "int \<Rightarrow> int" where
  "month_length k = days_in_month (k div 12) (k mod 12 + 1)"

lemma month_start_Suc: "month_start (k + 1) = month_start k + month_length k"
proof (cases "k mod 12 = 11")
  case True
  then have e: "(k + 1) div 12 = k div 12 + 1" "(k + 1) mod 12 = 0" by presburger+
  have "days_before_month (k div 12) 13 = days_before_month (k div 12) 12 + days_in_month (k div 12) 12"
    using next_month [of 12 "k div 12"] by simp
  then show ?thesis
    using next_year [of "k div 12"] month_13 [of "k div 12"]
    unfolding month_start_def month_length_def e True by (simp only: numeral_plus_one semiring_norm month_1) simp
next
  case False
  then have "k mod 12 + 1 < 12" using pos_mod_bound [of 12 k] by simp
  then have small: "(k mod 12 + 1) div 12 = 0" "(k mod 12 + 1) mod 12 = k mod 12 + 1" by simp_all
  have e: "(k + 1) div 12 = k div 12" "(k + 1) mod 12 = k mod 12 + 1"
    using div_add1_eq [of k 1 12] mod_add_left_eq [of k 12 1] small by simp_all
  have "1 \<le> k mod 12 + 1" by simp
  show ?thesis
    unfolding month_start_def month_length_def e next_month [OF \<open>1 \<le> k mod 12 + 1\<close>] by (simp only: add.assoc)
qed

lemma month_length_bounds: "28 \<le> month_length k \<and> month_length k \<le> 31"
  by (simp add: month_length_def days_in_month_bounds)

lemma month_start_add: "month_start k + 28 * int n \<le> month_start (k + int n) \<and> month_start (k + int n) \<le> month_start k + 31 * int n"
proof (induction n)
  case (Suc n)
  have "month_start (k + int (Suc n)) = month_start (k + int n) + month_length (k + int n)"
    using month_start_Suc [of "k + int n"] by (simp only: of_nat_Suc ac_simps)
  then show ?case using Suc month_length_bounds [of "k + int n"] by simp
qed simp

text \<open>From day \<open>d\<close> of month \<open>k\<close> to the same day, or the last one, \<open>n\<close> months later.\<close>

lemma month_shift:
  assumes "1 \<le> d" "d \<le> month_length k" "0 < n"
  shows "28 * int n \<le> (month_start (k + int n) + min d (month_length (k + int n))) - (month_start k + d)"
    and "(month_start (k + int n) + min d (month_length (k + int n))) - (month_start k + d) \<le> 31 * int n"
proof -
  have up: "month_start (k + 1) = month_start k + month_length k" by (rule month_start_Suc)
  have "month_start (k + 1) + 28 * int (n - 1) \<le> month_start (k + 1 + int (n - 1))"
    using month_start_add [of "k + 1" "n - 1"] by blast
  moreover have "k + 1 + int (n - 1) = k + int n" using assms(3) by simp
  ultimately have rest: "month_start k + month_length k + 28 * (int n - 1) \<le> month_start (k + int n)"
    using up assms(3) by (simp add: of_nat_diff)
  show "28 * int n \<le> (month_start (k + int n) + min d (month_length (k + int n))) - (month_start k + d)"
  proof (cases "d \<le> month_length (k + int n)")
    case True
    then show ?thesis using month_start_add [of k n] by (simp add: min_def)
  next
    case False
    then show ?thesis using rest assms(2) month_length_bounds [of "k + int n"] by (simp add: min_def)
  qed
  show "(month_start (k + int n) + min d (month_length (k + int n))) - (month_start k + d) \<le> 31 * int n"
    using month_start_add [of k n] by (simp add: min_def)
qed

lemma ymd2ord_month_start: "1 \<le> m \<Longrightarrow> m \<le> 12 \<Longrightarrow> ymd2ord y m d = month_start (12 * y + (m - 1)) + d"
proof -
  assume "1 \<le> m" "m \<le> 12"
  then have "(12 * y + (m - 1)) div 12 = y" "(12 * y + (m - 1)) mod 12 = m - 1" by presburger+
  then show ?thesis by (simp add: ymd2ord_def month_start_def)
qed

text \<open>The instant of a wall clock time is it less an offset that the zone has.\<close>

lemma from_local_offset: "\<exists>s. from_local tz later t = t - tz s"
  by (auto simp: from_local_def Let_def min_def max_def)

text \<open>In a zone without transitions the two conversions are inverse.\<close>

lemma from_local_fixed: "from_local (\<lambda>_. k) later (local_seconds (\<lambda>_. k) u) = u"
  by (simp add: from_local_def local_seconds_def)

lemma add_months_bounds:
  assumes "add_months tz now t (int n) = Inr t'" "0 < n" "\<forall>u. lo \<le> tz u \<and> tz u \<le> hi" "-86400 \<le> lo" "0 \<le> now"
  shows "max t now + 28 * int n * 86400 - (hi - lo) \<le> t' \<and> t' \<le> max t now + 31 * int n * 86400 + (hi - lo)"
proof -
  define base where "base = max t now"
  define off where "off = tz base"
  define ordn where "ordn = (base + off) div 86400 + 719163"
  obtain y m d where ymd: "ord2ymd ordn = (y, m, d)" by (metis prod_cases3)
  define k where "k = 12 * y + (m - 1)"
  define year where "year = y + (m - 1 + int n) div 12"
  define month where "month = (m - 1 + int n) mod 12 + 1"
  have "lo \<le> off" "off \<le> hi" using assms(3) by (simp_all add: off_def)
  then have "-1 \<le> (base + off) div 86400" using assms(4,5) by (simp add: base_def)
  then have "1 \<le> ordn" by (simp add: ordn_def)
  from ord2ymd_spec [OF this ymd] have ymd_ok: "1 \<le> m" "m \<le> 12" "1 \<le> d" "d \<le> days_in_month y m" "ymd2ord y m d = ordn" by auto
  have k: "k div 12 = y" "k mod 12 + 1 = m" using ymd_ok(1,2) unfolding k_def by presburger+
  have kn: "k + int n = 12 * year + (month - 1)" unfolding k_def year_def month_def by presburger
  have mon: "1 \<le> month" "month \<le> 12" unfolding month_def by presburger+
  then have kn': "(k + int n) div 12 = year" "(k + int n) mod 12 + 1 = month" unfolding kn by presburger+
  from assms(1) ymd have
    "t' = from_local tz (second_time tz base) ((ymd2ord year month (min d (days_in_month year month)) - 719163) * 86400 + (base + off) mod 86400)"
    by (auto simp: add_months_def local_seconds_def Let_def result_simps base_def off_def ordn_def year_def month_def)
  then obtain s where
    t': "t' = (ymd2ord year month (min d (days_in_month year month)) - 719163) * 86400 + (base + off) mod 86400 - tz s"
    using from_local_offset by metis
  have s: "lo \<le> tz s" "tz s \<le> hi" using assms(3) by simp_all
  have len: "month_length k = days_in_month y m" "month_length (k + int n) = days_in_month year month"
    by (simp_all add: month_length_def k kn')
  have ord0: "ordn = month_start k + d" using ymd_ok ymd2ord_month_start [OF ymd_ok(1,2), of y d] by (simp add: k_def)
  have ord1: "ymd2ord year month (min d (days_in_month year month)) = month_start (k + int n) + min d (month_length (k + int n))"
    using ymd2ord_month_start [OF mon, of year] kn len by simp
  have base: "base = (ordn - 719163) * 86400 + (base + off) mod 86400 - off"
    by (simp add: ordn_def)
  have "d \<le> month_length k" using ymd_ok(4) len by simp
  note shift = month_shift [OF ymd_ok(3) this assms(2)]
  have "t' - base = ((month_start (k + int n) + min d (month_length (k + int n))) - (month_start k + d)) * 86400 + (off - tz s)"
    using t' base ord0 ord1 by (simp add: algebra_simps)
  then show ?thesis using shift s \<open>lo \<le> off\<close> \<open>off \<le> hi\<close> unfolding base_def [symmetric] by simp
qed

end
