(* ===== verification/Orders.thy ===== *)
theory Orders
  imports Coupons Commission Payments Calendar
begin

text \<open>
  \<open>app/services/order.py\<close>: creation of an order, checkout, cancellation, the payment
  notification, the administration, and the fulfilment of a paid order
  (\<open>_process_paid_order\<close>): balance, plan entitlements, coupon, commission. The service's
  environment is its settings service, the time zone and the digest of the gateway; the clock is
  read once per operation and fresh UUIDs are arguments.
\<close>

record order_env =
  oe_settings :: setting_service
  oe_tz :: time_zone
  oe_md5 :: "string \<Rightarrow> string"

abbreviation oe_codec :: "order_env \<Rightarrow> codec" where
  "oe_codec E \<equiv> sv_codec (oe_settings E)"

section \<open>Periods and prices\<close>

definition price_periods :: "string list" where
  "price_periods = [''month_price'', ''quarter_price'', ''half_year_price'', ''year_price'', ''two_year_price'',
     ''three_year_price'', ''onetime_price'', ''reset_price'']"

definition period_months :: "string \<Rightarrow> int option" where
  "period_months = map_of [(''month_price'', 1), (''quarter_price'', 3), (''half_year_price'', 6), (''year_price'', 12),
     (''two_year_price'', 24), (''three_year_price'', 36)]"

definition never_expires_at :: int where
  "never_expires_at = 4102444800"

definition plan_price :: "plan \<Rightarrow> string \<Rightarrow> int option" where
  "plan_price p period =
     (if period = ''month_price'' then pl_month_price p else if period = ''quarter_price'' then pl_quarter_price p
      else if period = ''half_year_price'' then pl_half_year_price p else if period = ''year_price'' then pl_year_price p
      else if period = ''two_year_price'' then pl_two_year_price p else if period = ''three_year_price'' then pl_three_year_price p
      else if period = ''onetime_price'' then pl_onetime_price p else pl_reset_price p)"

definition is_user_active :: "int \<Rightarrow> int option \<Rightarrow> bool" where
  "is_user_active now expired_at = (case expired_at of None \<Rightarrow> True | Some e \<Rightarrow> now < e)"

definition determine_order_type :: "int \<Rightarrow> int option \<Rightarrow> int option \<Rightarrow> int \<Rightarrow> string \<Rightarrow> int" where
  "determine_order_type now user_plan expired_at pid period =
     (if period = ''reset_price'' then 4
      else if user_plan \<noteq> None \<and> user_plan \<noteq> Some pid \<and> is_user_active now expired_at then 3
      else if user_plan = Some pid \<and> is_user_active now expired_at then 2
      else 1)"

definition requires_capacity_slot :: "int \<Rightarrow> int option \<Rightarrow> int option \<Rightarrow> int \<Rightarrow> string \<Rightarrow> bool" where
  "requires_capacity_slot now user_plan expired_at pid period =
     (if period = ''reset_price'' then False else \<not> (user_plan = Some pid \<and> is_user_active now expired_at))"

definition ensure_capacity :: "int \<Rightarrow> int \<Rightarrow> int option \<Rightarrow> db \<Rightarrow> exn + unit" where
  "ensure_capacity now pid capacity db =
     (case capacity of
        None \<Rightarrow> Inr ()
      | Some limit \<Rightarrow>
          if limit \<le> 0 then Inr ()
          else guardE (limit \<le> active_users_of_plan now db pid) (BadRequest ''plan sold out'') (Inr ()))"

section \<open>Deposit bonus\<close>

text \<open>Python's \<open>float\<close> on text: underscores only between digits; \<open>inf\<close> and \<open>nan\<close> are accepted.
  A magnitude of 2^1024 or more is infinite.\<close>

fun underscores_ok :: "bool \<Rightarrow> string \<Rightarrow> bool" where
  "underscores_ok prev [] = True"
| "underscores_ok prev (c # cs) =
     (if c = CHR ''_'' then prev \<and> (case cs of [] \<Rightarrow> False | d # _ \<Rightarrow> is_digit d) \<and> underscores_ok False cs
      else underscores_ok (is_digit c) cs)"

definition clamp_float :: "double \<Rightarrow> pyfloat" where
  "clamp_float d = (if 0 \<le> expo d \<and> 2 ^ 1024 \<le> \<bar>mant d\<bar> * 2 ^ nat (expo d) then PInf else PFloat d)"

definition float_of_decimal :: "bool \<Rightarrow> nat \<Rightarrow> int \<Rightarrow> pyfloat" where
  "float_of_decimal neg c e =
     (let n = (if neg then - int c else int c) in
      clamp_float (if 0 \<le> e then round_q (n * 10 ^ nat e) 1 else round_q n (10 ^ nat (- e))))"

definition py_float :: "string \<Rightarrow> pyfloat option" where
  "py_float raw =
     (let s = strip raw; neg = starts_with ''-'' s; body = (if starts_with ''-'' s \<or> starts_with ''+'' s then drop 1 s else s) in
      if \<not> underscores_ok False body then None
      else if lower body \<in> {''inf'', ''infinity''} then Some PInf
      else if lower body = ''nan'' then Some PNan
      else (case parse_unsigned neg (filter (\<lambda>c. c \<noteq> CHR ''_'') body) of
          Some (Fin n c e) \<Rightarrow> Some (float_of_decimal n c e)
        | _ \<Rightarrow> None))"

text \<open>\<open>int(float(text) * 100)\<close>.\<close>

definition float_cents :: "string \<Rightarrow> exn + int" where
  "float_cents s =
     (case py_float s of
        None \<Rightarrow> Inl ValueError
      | Some PNan \<Rightarrow> Inl ValueError
      | Some PInf \<Rightarrow> Inl OverflowError
      | Some (PFloat d) \<Rightarrow> (case clamp_float (mul_double d (of_int_double 100)) of
            PFloat x \<Rightarrow> Inr (trunc_double x) | _ \<Rightarrow> Inl OverflowError))"

definition bonus_tier :: "codec \<Rightarrow> int \<Rightarrow> json \<Rightarrow> int \<Rightarrow> exn + int" where
  "bonus_tier C amount tier bonus =
     (case partition_at (CHR '':'') (py_str C tier) of
        (threshold, colon, val) \<Rightarrow>
          if \<not> colon then Inr bonus
          else (case bindE (float_cents threshold) (\<lambda>a. bindE (float_cents val) (\<lambda>v. Inr (a, v))) of
              Inl ValueError \<Rightarrow> Inr bonus
            | Inl e \<Rightarrow> Inl e
            | Inr (a, v) \<Rightarrow> Inr (if a \<le> amount then max bonus v else bonus)))"

definition deposit_bonus :: "order_env \<Rightarrow> int \<Rightarrow> int \<Rightarrow> db \<Rightarrow> exn + int \<times> db" where
  "deposit_bonus E now amount db =
     bindE (get_json (oe_settings E) now ''deposit_bounus'' (JArr []) db) (\<lambda>(tiers, db').
       case tiers of
         JArr ts \<Rightarrow> bindE (foldE (bonus_tier (oe_codec E) amount) ts 0) (\<lambda>b. Inr (b, db'))
       | _ \<Rightarrow> Inr (0, db'))"

section \<open>The audit log\<close>

definition jopt :: "int option \<Rightarrow> json" where
  "jopt v = (case v of None \<Rightarrow> JNull | Some n \<Rightarrow> JInt n)"

definition jstr_opt :: "string option \<Rightarrow> json" where
  "jstr_opt v = (case v of None \<Rightarrow> JNull | Some s \<Rightarrow> JStr s)"

definition log_order_event :: "int \<Rightarrow> order \<Rightarrow> string \<Rightarrow> string \<Rightarrow> string \<Rightarrow> int option \<Rightarrow> json \<Rightarrow> db \<Rightarrow> db" where
  "log_order_event now r event message actor_type actor_id data db =
     create_log_event now (log_defaults\<lparr>le_category := ''audit'', le_event := event, le_message := message,
       le_actor_type := Some actor_type, le_actor_id := actor_id, le_target_type := Some ''order'',
       le_target_id := Some (od_trade_no r), le_data := data\<rparr>) db"

section \<open>Creating an order\<close>

record order_create =
  oc_plan_id :: int
  oc_period :: string
  oc_coupon_code :: "string option"
  oc_deposit_amount :: "int option"

definition blank_order :: order where
  "blank_order = \<lparr>od_id = 0, od_invite_user_id = None, od_user_id = 0, od_plan_id = 0, od_coupon_id = None,
     od_payment_id = None, od_type = 0, od_period = [], od_trade_no = [], od_callback_no = None,
     od_total_amount = 0, od_handling_amount = None, od_discount_amount = None, od_surplus_amount = None,
     od_refund_amount = None, od_balance_amount = None, od_surplus_order_ids = None, od_status = 0,
     od_commission_status = 0, od_commission_balance = 0, od_actual_commission_balance = None,
     od_paid_at = None, od_created_at = 0, od_updated_at = 0\<rparr>"

definition text_given :: "string option \<Rightarrow> bool" where
  "text_given s = (case s of None \<Rightarrow> False | Some t \<Rightarrow> t \<noteq> [])"

definition create_deposit_order :: "int \<Rightarrow> string \<Rightarrow> user \<Rightarrow> order_create \<Rightarrow> db \<Rightarrow> exn + string \<times> db" where
  "create_deposit_order now uuid u data db =
     guardE (text_given (oc_coupon_code data)) (BadRequest ''no coupon for a deposit'') (
     case oc_deposit_amount data of
       None \<Rightarrow> Inl (BadRequest ''deposit amount'')
     | Some amount \<Rightarrow>
         guardE (amount \<le> 0) (BadRequest ''deposit amount'') (
         guardE (9999999 \<le> amount) (BadRequest ''deposit too large'') (
         bindE (insert_order now db (blank_order\<lparr>od_user_id := us_id u, od_period := ''deposit'',
             od_trade_no := generate_trade_no now uuid, od_total_amount := amount,
             od_invite_user_id := us_invite_user_id u, od_type := 9\<rparr>)) (\<lambda>(r, db').
         Inr (od_trade_no r, log_order_event now r ''order.created'' ''order created'' ''user'' (Some (us_id u))
            (JObj [(''kind'', JStr ''deposit''), (''total_amount'', JInt (od_total_amount r))]) db')))))"

text \<open>The checks before a plan is sold to the user.\<close>

definition check_plan_sale :: "int \<Rightarrow> user \<Rightarrow> plan \<Rightarrow> string \<Rightarrow> db \<Rightarrow> exn + int" where
  "check_plan_sale now u p period db =
     (let active = is_user_active now (Some (us_expired_at u)); mine = (us_plan_id u = Some (pl_id p)) in
      guardE (period \<notin> set price_periods) (BadRequest ''period'') (
      guardE (period = ''reset_price'' \<and> (\<not> active \<or> \<not> mine)) (BadRequest ''no reset package'') (
      guardE (period \<noteq> ''reset_price'' \<and> \<not> pl_show p \<and> (\<not> pl_renew p \<or> \<not> mine \<or> \<not> active)) (BadRequest ''plan not for sale'') (
      guardE (period \<noteq> ''reset_price'' \<and> mine \<and> \<not> pl_renew p) (BadRequest ''plan not for sale'') (
      bindE (if requires_capacity_slot now (us_plan_id u) (Some (us_expired_at u)) (pl_id p) period
             then ensure_capacity now (pl_id p) (pl_capacity_limit p) db else Inr ()) (\<lambda>_.
      case plan_price p period of
        None \<Rightarrow> Inl (BadRequest ''period'')
      | Some price \<Rightarrow> guardE (price < 0) (BadRequest ''period'') (Inr price)))))))"

text \<open>The part of the total that the balance pays: \<open>(balance_amount, remaining total)\<close>.\<close>

definition use_balance :: "int \<Rightarrow> int \<Rightarrow> int option \<times> int" where
  "use_balance balance amount =
     (if 0 < balance then (if amount \<le> balance then (Some amount, 0) else (Some balance, amount - balance))
      else (None, amount))"

definition plan_order_data :: "order \<Rightarrow> json" where
  "plan_order_data r = JObj [(''kind'', JStr ''plan''), (''plan_id'', JInt (od_plan_id r)), (''period'', JStr (od_period r)),
     (''total_amount'', JInt (od_total_amount r)), (''balance_amount'', jopt (od_balance_amount r)),
     (''discount_amount'', jopt (od_discount_amount r)), (''coupon_id'', jopt (od_coupon_id r))]"

definition draft_order :: "int \<Rightarrow> string \<Rightarrow> user \<Rightarrow> plan \<Rightarrow> order_create \<Rightarrow> int \<Rightarrow> order" where
  "draft_order now uuid u p data price =
     blank_order\<lparr>od_user_id := us_id u, od_invite_user_id := us_invite_user_id u, od_plan_id := oc_plan_id data,
       od_period := oc_period data, od_trade_no := generate_trade_no now uuid, od_total_amount := price,
       od_type := determine_order_type now (us_plan_id u) (Some (us_expired_at u)) (pl_id p) (oc_period data)\<rparr>"

definition create_plan_order :: "order_env \<Rightarrow> int \<Rightarrow> string \<Rightarrow> user \<Rightarrow> order_create \<Rightarrow> db \<Rightarrow> exn + string \<times> db" where
  "create_plan_order E now uuid u data db =
     (case plan_by_id db (oc_plan_id data) of
        None \<Rightarrow> Inl (NotFound ''plan'')
      | Some p \<Rightarrow>
          bindE (check_plan_sale now u p (oc_period data) db) (\<lambda>price.
          let r = draft_order now uuid u p data price in
          bindE (if text_given (oc_coupon_code data)
                 then apply_to_order (oe_codec E) now db (set_if (oc_coupon_code data) []) r else Inr r) (\<lambda>r1.
          let (balance_amount, total_amount) = use_balance (us_balance u) (od_total_amount r1) in
          bindE (insert_order now db (r1\<lparr>od_total_amount := total_amount, od_balance_amount := balance_amount\<rparr>)) (\<lambda>(r2, db').
          Inr (od_trade_no r2, log_order_event now r2 ''order.created'' ''order created'' ''user'' (Some (us_id u))
             (plan_order_data r2) db')))))"

definition create_order :: "order_env \<Rightarrow> int \<Rightarrow> string \<Rightarrow> int \<Rightarrow> order_create \<Rightarrow> db \<Rightarrow> exn + string \<times> db" where
  "create_order E now uuid uid data db =
     guardE (has_pending_order db uid) (Conflict ''pending order'') (
     case user_by_id db uid of
       None \<Rightarrow> Inl (NotFound ''user'')
     | Some u \<Rightarrow> if oc_plan_id data = 0 then create_deposit_order now uuid u data db
         else create_plan_order E now uuid u data db)"

section \<open>Fulfilment of a paid order\<close>

text \<open>What a paid plan order does to the user: balance, traffic, entitlements, expiry.\<close>

definition charge_balance :: "order \<Rightarrow> user \<Rightarrow> exn + user" where
  "charge_balance r u =
     (case od_balance_amount r of
        None \<Rightarrow> Inr u
      | Some b \<Rightarrow>
          if b \<le> 0 then Inr u
          else guardE (us_balance u < b) (BadRequest ''insufficient balance'') (Inr (u\<lparr>us_balance := us_balance u - b\<rparr>)))"

definition entitle :: "plan \<Rightarrow> user \<Rightarrow> user" where
  "entitle p u = u\<lparr>us_transfer_enable := pl_transfer_enable p, us_device_limit := pl_device_limit p,
     us_plan_id := Some (pl_id p), us_group_id := Some (pl_group_id p), us_speed_limit := pl_speed_limit p\<rparr>"

definition reset_traffic :: "user \<Rightarrow> user" where
  "reset_traffic u = u\<lparr>us_u := 0, us_d := 0\<rparr>"

definition apply_plan :: "time_zone \<Rightarrow> int \<Rightarrow> order \<Rightarrow> plan \<Rightarrow> user \<Rightarrow> exn + user" where
  "apply_plan tz now r p u =
     (if od_period r = ''reset_price'' then Inr (reset_traffic u)
      else if od_period r = ''onetime_price'' then Inr ((entitle p (reset_traffic u))\<lparr>us_expired_at := never_expires_at\<rparr>)
      else (case period_months (od_period r) of
          None \<Rightarrow> Inl (BadRequest ''period'')
        | Some months \<Rightarrow>
            let u1 = (if od_type r = 1 \<or> \<not> is_user_active now (Some (us_expired_at u)) then reset_traffic u else u) in
            bindE (add_months tz now (us_expired_at u) months) (\<lambda>e. Inr ((entitle p u1)\<lparr>us_expired_at := e\<rparr>))))"

definition fulfil_deposit :: "order_env \<Rightarrow> int \<Rightarrow> order \<Rightarrow> user \<Rightarrow> db \<Rightarrow> exn + db" where
  "fulfil_deposit E now r u db =
     bindE (deposit_bonus E now (od_total_amount r) db) (\<lambda>(bonus, db').
       Inr (put_user now db' (u\<lparr>us_balance := us_balance u + od_total_amount r + bonus\<rparr>)))"

definition fulfil_plan :: "order_env \<Rightarrow> int \<Rightarrow> order \<Rightarrow> user \<Rightarrow> db \<Rightarrow> exn + db" where
  "fulfil_plan E now r u db =
     (case plan_by_id_for_update db (od_plan_id r) of
        None \<Rightarrow> Inl (NotFound ''plan'')
      | Some p \<Rightarrow>
          bindE (if requires_capacity_slot now (us_plan_id u) (Some (us_expired_at u)) (pl_id p) (od_period r)
                 then ensure_capacity now (pl_id p) (pl_capacity_limit p) db else Inr ()) (\<lambda>_.
          bindE (if od_coupon_id r \<noteq> None \<and> 0 < or_zero (od_discount_amount r)
                 then consume_for_paid_order (oe_codec E) now r db else Inr db) (\<lambda>db1.
          bindE (charge_balance r u) (\<lambda>u1.
          bindE (apply_plan (oe_tz E) now r p u1) (\<lambda>u2. Inr (put_user now db1 u2))))))"

definition completed_data :: "string option \<Rightarrow> order \<Rightarrow> json" where
  "completed_data callback_no r = JObj [(''callback_no'', jstr_opt callback_no), (''plan_id'', JInt (od_plan_id r)),
     (''period'', JStr (od_period r)), (''total_amount'', JInt (od_total_amount r)),
     (''balance_amount'', jopt (od_balance_amount r)), (''discount_amount'', jopt (od_discount_amount r)),
     (''payment_id'', jopt (od_payment_id r))]"

definition complete_order :: "order_env \<Rightarrow> int \<Rightarrow> order \<Rightarrow> string option \<Rightarrow> string \<Rightarrow> int option \<Rightarrow> db \<Rightarrow> exn + db" where
  "complete_order E now r callback_no actor_type actor_id db =
     (let r' = r\<lparr>od_status := 3, od_paid_at := Some now\<rparr>; db1 = put_order now db r' in
      bindE (if 0 < od_plan_id r' then calculate_for_order (oe_settings E) now (od_id r') db1 else Inr db1) (\<lambda>db2.
      Inr (log_order_event now r' ''order.completed'' ''order completed'' actor_type actor_id (completed_data callback_no r') db2)))"

definition process_paid_order :: "order_env \<Rightarrow> int \<Rightarrow> int \<Rightarrow> string option \<Rightarrow> string \<Rightarrow> int option \<Rightarrow> db \<Rightarrow> exn + db" where
  "process_paid_order E now oid callback_no actor_type actor_id db =
     (case order_by_id_for_update db oid of
        None \<Rightarrow> Inl (NotFound ''order'')
      | Some lo \<Rightarrow>
          if od_status lo = 3 then Inr db
          else if od_status lo \<notin> {0, 1} then Inr db
          else
            let r = lo\<lparr>od_status := 1, od_callback_no := (case callback_no of None \<Rightarrow> od_callback_no lo | Some c \<Rightarrow> Some c)\<rparr>;
                db1 = put_order now db r in
            (case user_by_id_for_update db1 (od_user_id r) of
               None \<Rightarrow> Inl (NotFound ''user'')
             | Some u \<Rightarrow>
                 bindE (if od_period r = ''deposit'' \<or> od_plan_id r = 0 then fulfil_deposit E now r u db1
                        else fulfil_plan E now r u db1) (\<lambda>db2.
                 complete_order E now r callback_no actor_type actor_id db2)))"

section \<open>Checkout and cancellation\<close>

datatype checkout_result = Activated | PayAt int string

definition handling_fee :: "payment \<Rightarrow> int \<Rightarrow> int" where
  "handling_fee p amount =
     (if truthy (pm_handling_fee_fixed p) then or_zero (pm_handling_fee_fixed p) else 0) +
     (case pm_handling_fee_percent p of
        None \<Rightarrow> 0
      | Some f \<Rightarrow> if mant f = 0 then 0 else trunc_double (div_double_int (mul_double (of_int_double amount) f) 100))"

definition order_due :: "order \<Rightarrow> int" where
  "order_due r = od_total_amount r + or_zero (od_handling_amount r)"

definition checkout :: "order_env \<Rightarrow> int \<Rightarrow> int \<Rightarrow> string \<Rightarrow> int \<Rightarrow> db \<Rightarrow> exn + checkout_result \<times> db" where
  "checkout E now uid trade_no meth db =
     (case pending_by_trade_no db trade_no uid of
        None \<Rightarrow> Inl (NotFound ''order'')
      | Some r \<Rightarrow>
          if od_total_amount r \<le> 0 then
            bindE (process_paid_order E now (od_id r) None ''user'' (Some uid)
                (log_order_event now r ''order.checkout'' ''order checkout'' ''user'' (Some uid) (JObj [(''zero_amount'', JBool True)]) db))
              (\<lambda>db'. Inr (Activated, db'))
          else (case enabled_payment_by_id db meth of
              None \<Rightarrow> Inl (NotFound ''payment'')
            | Some p \<Rightarrow>
                let fee = handling_fee p (od_total_amount r);
                    r1 = r\<lparr>od_handling_amount := (if 0 < fee then Some fee else od_handling_amount r), od_payment_id := Some meth\<rparr>;
                    db1 = put_order now db r1 in
                bindE (create_payment_gateway (oe_codec E) (pm_payment p) (JObj (pm_config p))) (\<lambda>g.
                let (app_url, db2) = get_str (oe_settings E) now ''app_url'' [] db1;
                    domain = (if text_given (pm_notify_domain p) then rstrip_chars {CHR ''/''} (set_if (pm_notify_domain p) []) else app_url) in
                bindE (route_gateway_name (pm_payment p)) (\<lambda>route.
                bindE (epay_pay (oe_codec E) (oe_md5 E) g \<lparr>pr_trade_no = od_trade_no r1, pr_total_amount = order_due r1,
                    pr_notify_url = domain @ ''/notify/'' @ route @ ''/'' @ pm_uuid p,
                    pr_return_url = app_url @ ''/#/order/'' @ trade_no, pr_user_id = Some (od_user_id r1)\<rparr>) (\<lambda>(ty, url).
                Inr (PayAt ty url, log_order_event now r1 ''order.checkout'' ''order checkout'' ''user'' (Some uid)
                   (JObj [(''payment_id'', JInt meth), (''handling_amount'', jopt (od_handling_amount r1)),
                          (''total_amount'', JInt (order_due r1))]) db2))))))"

definition own_order :: "db \<Rightarrow> string \<Rightarrow> int \<Rightarrow> exn + order" where
  "own_order db trade_no uid =
     (case order_by_trade_no db trade_no of
        None \<Rightarrow> Inl (NotFound ''order'')
      | Some r \<Rightarrow> guardE (od_user_id r \<noteq> uid) (NotFound ''order'') (Inr r))"

definition get_order_detail :: "string \<Rightarrow> int \<Rightarrow> db \<Rightarrow> exn + order \<times> plan option" where
  "get_order_detail trade_no uid db =
     bindE (own_order db trade_no uid) (\<lambda>r. Inr (r, if 0 < od_plan_id r then plan_by_id db (od_plan_id r) else None))"

definition check_order_status :: "string \<Rightarrow> int \<Rightarrow> db \<Rightarrow> exn + int" where
  "check_order_status trade_no uid db = bindE (own_order db trade_no uid) (\<lambda>r. Inr (od_status r))"

definition cancel_row :: "int \<Rightarrow> order \<Rightarrow> string \<Rightarrow> int option \<Rightarrow> db \<Rightarrow> exn + db" where
  "cancel_row now r actor_type actor_id db =
     guardE (od_status r \<noteq> 0) (BadRequest ''order is not pending'')
       (let r' = r\<lparr>od_status := 2\<rparr> in
        Inr (log_order_event now r' ''order.cancelled'' ''order cancelled'' actor_type actor_id JNull (put_order now db r')))"

definition cancel_order :: "int \<Rightarrow> string \<Rightarrow> int \<Rightarrow> db \<Rightarrow> exn + db" where
  "cancel_order now trade_no uid db =
     bindE (own_order db trade_no uid) (\<lambda>r. cancel_row now r ''user'' (Some uid) db)"

section \<open>Payment notification\<close>

text \<open>The answer is \<open>success\<close> or \<open>fail\<close>; an application exception during fulfilment is caught and the
  transaction rolled back, other exceptions escape.\<close>

definition open_gateway :: "order_env \<Rightarrow> string \<Rightarrow> payment \<Rightarrow> exn + epay option" where
  "open_gateway E gateway_name p =
     (case bindE (canonical_gateway_name gateway_name) (\<lambda>a. bindE (canonical_gateway_name (pm_payment p)) (\<lambda>b.
         if a \<noteq> b then Inr None
         else bindE (create_payment_gateway (oe_codec E) (pm_payment p) (JObj (pm_config p))) (\<lambda>g. Inr (Some g)))) of
        Inl e \<Rightarrow> if is_app_exception e then Inr None else Inl e
      | Inr g \<Rightarrow> Inr g)"

text \<open>The database driver takes text only for a text column: the query for the trade number raises for anything
  else, and so does the flush of the callback number, before the user of the order is read.\<close>

definition column_text :: "json \<Rightarrow> exn + string" where
  "column_text v = (case v of JStr s \<Rightarrow> Inr s | _ \<Rightarrow> Inl (RuntimeError ''text expected''))"

definition notify_order :: "order_env \<Rightarrow> int \<Rightarrow> payment \<Rightarrow> notify_result \<Rightarrow> db \<Rightarrow> exn + bool \<times> db" where
  "notify_order E now p n db =
     bindE (column_text (nr_trade_no n)) (\<lambda>trade_no.
     case order_by_trade_no db trade_no of
        None \<Rightarrow> Inr (False, db)
      | Some r \<Rightarrow>
          if od_payment_id r \<noteq> Some (pm_id p) then Inr (False, db)
          else if nr_paid_amount n \<noteq> Some (order_due r) then Inr (False, db)
          else if od_status r \<notin> {0, 1} then Inr (True, db)
          else bindE (column_text (nr_callback_no n)) (\<lambda>callback_no.
            case process_paid_order E now (od_id r) (Some callback_no) ''system'' None db of
              Inl e \<Rightarrow> if is_app_exception e then Inr (False, db) else Inl e
            | Inr db' \<Rightarrow> Inr (True, db')))"

definition handle_payment_notify :: "order_env \<Rightarrow> int \<Rightarrow> string \<Rightarrow> string \<Rightarrow> (string \<times> json) list \<Rightarrow> db \<Rightarrow> exn + bool \<times> db" where
  "handle_payment_notify E now gateway_name uuid params db =
     bindE (payment_by_uuid db uuid) (\<lambda>po.
     case po of
       None \<Rightarrow> Inr (False, db)
     | Some p \<Rightarrow>
         if \<not> pm_enable p then Inr (False, db)
         else bindE (open_gateway E gateway_name p) (\<lambda>go.
           case go of
             None \<Rightarrow> Inr (False, db)
           | Some g \<Rightarrow> bindE (epay_verify_notify (oe_codec E) (oe_md5 E) g params) (\<lambda>n.
               if \<not> nr_success n then Inr (False, db) else notify_order E now p n db)))"

section \<open>Administration\<close>

definition get_order :: "int \<Rightarrow> db \<Rightarrow> exn + order" where
  "get_order i db = (case order_by_id db i of None \<Rightarrow> Inl (NotFound ''order'') | Some r \<Rightarrow> Inr r)"

definition get_order_detail_admin :: "int \<Rightarrow> db \<Rightarrow> exn + order \<times> commission_log list" where
  "get_order_detail_admin i db =
     bindE (get_order i db) (\<lambda>r. Inr (r, filter (\<lambda>l. cl_trade_no l = od_trade_no r) (rows (t_commission_logs db))))"

text \<open>\<open>AdminOrderUpdate\<close> has one optional column besides the trade number.\<close>

definition admin_update_order :: "int \<Rightarrow> string \<Rightarrow> int option option \<Rightarrow> int option \<Rightarrow> db \<Rightarrow> exn + db" where
  "admin_update_order now trade_no commission_status actor_id db =
     (case order_by_trade_no db trade_no of
        None \<Rightarrow> Inl (NotFound ''order'')
      | Some r \<Rightarrow>
          guardE (explicit_null commission_status) IntegrityError
            (let r' = r\<lparr>od_commission_status := set_if (given commission_status) (od_commission_status r)\<rparr> in
             Inr (log_order_event now r' ''order.updated'' ''order updated'' ''admin'' actor_id
               (JObj [(''fields'', JArr (if commission_status = None then [] else [JStr ''commission_status'']))]) (put_order now db r'))))"

definition admin_mark_paid :: "order_env \<Rightarrow> int \<Rightarrow> string \<Rightarrow> int option \<Rightarrow> db \<Rightarrow> exn + db" where
  "admin_mark_paid E now trade_no actor_id db =
     (case order_by_trade_no db trade_no of
        None \<Rightarrow> Inl (NotFound ''order'')
      | Some r \<Rightarrow>
          guardE (od_status r \<noteq> 0) (BadRequest ''order is not pending'')
            (bindE (process_paid_order E now (od_id r) (Some ''manual_operation'') ''admin'' actor_id db) (\<lambda>db'.
             Inr (log_order_event now r ''order.admin_paid'' ''order marked paid'' ''admin'' actor_id JNull db'))))"

definition admin_cancel_order :: "int \<Rightarrow> string \<Rightarrow> int option \<Rightarrow> db \<Rightarrow> exn + db" where
  "admin_cancel_order now trade_no actor_id db =
     (case order_by_trade_no db trade_no of
        None \<Rightarrow> Inl (NotFound ''order'')
      | Some r \<Rightarrow> cancel_row now r ''admin'' actor_id db)"

record order_assign =
  oa_email :: string
  oa_plan_id :: int
  oa_period :: string
  oa_total_amount :: int

definition assigned_order :: "int \<Rightarrow> string \<Rightarrow> user \<Rightarrow> plan \<Rightarrow> order_assign \<Rightarrow> order" where
  "assigned_order now uuid u p data =
     blank_order\<lparr>od_invite_user_id := us_invite_user_id u, od_user_id := us_id u, od_plan_id := pl_id p,
       od_period := oa_period data, od_trade_no := generate_trade_no now uuid, od_total_amount := oa_total_amount data,
       od_type := determine_order_type now (us_plan_id u) (Some (us_expired_at u)) (pl_id p) (oa_period data)\<rparr>"

definition admin_assign_order :: "int \<Rightarrow> string \<Rightarrow> order_assign \<Rightarrow> int option \<Rightarrow> db \<Rightarrow> exn + string \<times> db" where
  "admin_assign_order now uuid data actor_id db =
     (case user_by_email db (oa_email data) of
        None \<Rightarrow> Inl (NotFound ''user'')
      | Some u \<Rightarrow>
          (case plan_by_id db (oa_plan_id data) of
             None \<Rightarrow> Inl (NotFound ''plan'')
           | Some p \<Rightarrow>
               guardE (has_pending_order db (us_id u)) (Conflict ''pending order'') (
               bindE (insert_order now db (assigned_order now uuid u p data)) (\<lambda>(r, db').
               Inr (od_trade_no r, log_order_event now r ''order.created'' ''order assigned'' ''admin'' actor_id
                  (JObj [(''kind'', JStr ''assigned''), (''plan_id'', JInt (od_plan_id r)), (''period'', JStr (od_period r)),
                         (''total_amount'', JInt (od_total_amount r))]) db')))))"

section \<open>The order_handle job\<close>

text \<open>\<open>app/queues/jobs/order.py\<close>, run with a settings service without a cache.\<close>

definition order_handle :: "order_env \<Rightarrow> int \<Rightarrow> string \<Rightarrow> db \<Rightarrow> exn + db" where
  "order_handle E now trade_no db =
     (case order_by_trade_no db trade_no of
        None \<Rightarrow> Inr db
      | Some r \<Rightarrow>
          if od_status r = 0 then
            (if od_created_at r \<le> now - 3600 * 2 then Inr (put_order now db (r\<lparr>od_status := 2\<rparr>)) else Inr db)
          else if od_status r = 1 then process_paid_order E now (od_id r) None ''system'' None db
          else Inr db)"

end
