(* ===== verification/OrderFacts.thy ===== *)
theory OrderFacts
  imports Orders
begin

text \<open>
  What the operations of the order service do to the database: the shape of every successful
  outcome, so that the properties of the order life cycle follow from the shapes alone.
\<close>

section \<open>Settings and logs\<close>

lemma log_order_event_log: "\<exists>e. log_order_event now r ev msg aty aid data db = create_log_event now e db"
  unfolding log_order_event_def by blast

lemma log_order_event_tables [simp]:
  "t_orders (log_order_event now r ev msg aty aid data db) = t_orders db"
  "t_users (log_order_event now r ev msg aty aid data db) = t_users db"
  "t_plans (log_order_event now r ev msg aty aid data db) = t_plans db"
  "t_coupons (log_order_event now r ev msg aty aid data db) = t_coupons db"
  "t_payments (log_order_event now r ev msg aty aid data db) = t_payments db"
  "t_commission_logs (log_order_event now r ev msg aty aid data db) = t_commission_logs db"
  by (simp_all add: log_order_event_def)

lemma foldE_bonus_nonneg: "foldE (bonus_tier C amount) ts b = Inr b' \<Longrightarrow> 0 \<le> b \<Longrightarrow> 0 \<le> b'"
  by (erule foldE_invariant [where P = "\<lambda>b. 0 \<le> b"])
     (auto simp: bonus_tier_def split: prod.splits sum.splits if_splits exn.splits)

lemma deposit_bonus_shape:
  assumes "deposit_bonus E now amount db = Inr (b, db')"
  shows "0 \<le> b \<and> (\<exists>c. db' = db\<lparr>t_cache := c\<rparr>)"
proof -
  from assms obtain tiers d where g: "get_json (oe_settings E) now ''deposit_bounus'' (JArr []) db = Inr (tiers, d)"
    and rest: "(case tiers of JArr ts \<Rightarrow> bindE (foldE (bonus_tier (oe_codec E) amount) ts 0) (\<lambda>b. Inr (b, d)) | _ \<Rightarrow> Inr (0, d)) = Inr (b, db')"
    by (auto simp: deposit_bonus_def result_simps simp del: split_paired_Ex)
  have "0 \<le> b \<and> db' = d" using rest by (cases tiers) (auto simp: result_simps dest: foldE_bonus_nonneg)
  with get_json_state [OF g] show ?thesis by blast
qed

section \<open>Placing an order\<close>

lemma draft_order_fields [simp]:
  "od_status (draft_order now uuid u p data price) = 0" "od_user_id (draft_order now uuid u p data price) = us_id u"
  "od_plan_id (draft_order now uuid u p data price) = oc_plan_id data" "od_period (draft_order now uuid u p data price) = oc_period data"
  "od_total_amount (draft_order now uuid u p data price) = price" "od_discount_amount (draft_order now uuid u p data price) = None"
  "od_coupon_id (draft_order now uuid u p data price) = None" "od_balance_amount (draft_order now uuid u p data price) = None"
  "od_trade_no (draft_order now uuid u p data price) = generate_trade_no now uuid"
  "od_type (draft_order now uuid u p data price) =
     determine_order_type now (us_plan_id u) (Some (us_expired_at u)) (pl_id p) (oc_period data)"
  by (simp_all add: draft_order_def blank_order_def)

lemma create_plan_shape:
  assumes "create_plan_order E now uuid u data db = Inr (tn, db')"
  shows "\<exists>p price r1 x d. plan_by_id db (oc_plan_id data) = Some p \<and> check_plan_sale now u p (oc_period data) db = Inr price \<and>
     (if text_given (oc_coupon_code data)
      then apply_to_order (oe_codec E) now db (set_if (oc_coupon_code data) []) (draft_order now uuid u p data price) = Inr r1
      else r1 = draft_order now uuid u p data price) \<and>
     insert_order now db (r1\<lparr>od_total_amount := snd (use_balance (us_balance u) (od_total_amount r1)),
        od_balance_amount := fst (use_balance (us_balance u) (od_total_amount r1))\<rparr>) = Inr (x, d) \<and>
     tn = od_trade_no x \<and>
     db' = log_order_event now x ''order.created'' ''order created'' ''user'' (Some (us_id u)) (plan_order_data x) d"
proof -
  from assms obtain p where p: "plan_by_id db (oc_plan_id data) = Some p"
    by (auto simp: create_plan_order_def split: option.splits)
  with assms obtain price where price: "check_plan_sale now u p (oc_period data) db = Inr price"
    by (auto simp: create_plan_order_def bindE_eq_Inr)
  with assms p obtain r1 where r1: "(if text_given (oc_coupon_code data)
      then apply_to_order (oe_codec E) now db (set_if (oc_coupon_code data) []) (draft_order now uuid u p data price)
      else Inr (draft_order now uuid u p data price)) = Inr r1"
    by (auto simp: create_plan_order_def bindE_eq_Inr Let_def)
  have ins: "bindE (insert_order now db (r1\<lparr>od_total_amount := snd (use_balance (us_balance u) (od_total_amount r1)),
        od_balance_amount := fst (use_balance (us_balance u) (od_total_amount r1))\<rparr>)) (\<lambda>(r2, db').
      Inr (od_trade_no r2, log_order_event now r2 ''order.created'' ''order created'' ''user'' (Some (us_id u))
             (plan_order_data r2) db')) = Inr (tn, db')"
    using assms p price r1 by (simp add: create_plan_order_def Let_def split_beta)
  have "if text_given (oc_coupon_code data)
      then apply_to_order (oe_codec E) now db (set_if (oc_coupon_code data) []) (draft_order now uuid u p data price) = Inr r1
      else r1 = draft_order now uuid u p data price" using r1 by (simp split: if_splits)
  then show ?thesis using p price ins by (auto simp: bindE_eq_Inr)
qed

lemma assigned_order_fields [simp]:
  "od_status (assigned_order now uuid u p data) = 0" "od_user_id (assigned_order now uuid u p data) = us_id u"
  "od_plan_id (assigned_order now uuid u p data) = pl_id p" "od_period (assigned_order now uuid u p data) = oa_period data"
  "od_total_amount (assigned_order now uuid u p data) = oa_total_amount data"
  "od_balance_amount (assigned_order now uuid u p data) = None"
  by (simp_all add: assigned_order_def blank_order_def)

lemma assign_shape:
  assumes "admin_assign_order now uuid data aid db = Inr (tn, db')"
  shows "\<exists>u p x d dt. user_by_email db (oa_email data) = Some u \<and> plan_by_id db (oa_plan_id data) = Some p \<and>
     \<not> has_pending_order db (us_id u) \<and> insert_order now db (assigned_order now uuid u p data) = Inr (x, d) \<and>
     tn = od_trade_no x \<and> db' = log_order_event now x ''order.created'' ''order assigned'' ''admin'' aid dt d"
  using assms by (auto simp: admin_assign_order_def result_simps split: option.splits)

section \<open>What a paid order does to the user\<close>

lemma charge_balanceD:
  "charge_balance r u = Inr u' \<Longrightarrow>
     u' = u\<lparr>us_balance := us_balance u - max 0 (or_zero (od_balance_amount r))\<rparr> \<and>
     max 0 (or_zero (od_balance_amount r)) \<le> max (us_balance u) 0"
  by (auto simp: charge_balance_def result_simps max_def split: option.splits if_splits)

text \<open>A plan order changes of the user only the balance, the traffic counters and the entitlements.\<close>

definition same_account :: "user \<Rightarrow> user \<Rightarrow> bool" where
  "same_account u u' \<longleftrightarrow> us_id u' = us_id u \<and> us_email u' = us_email u \<and> us_password u' = us_password u \<and>
     us_token u' = us_token u \<and> us_uuid u' = us_uuid u \<and> us_invite_user_id u' = us_invite_user_id u \<and>
     us_commission_balance u' = us_commission_balance u \<and> us_banned u' = us_banned u \<and>
     us_is_admin u' = us_is_admin u \<and> us_is_staff u' = us_is_staff u"

lemma same_account_refl [simp]: "same_account u u"
  by (simp add: same_account_def)

lemma apply_planD:
  "apply_plan tz now r p u = Inr u' \<Longrightarrow> same_account u u' \<and> us_balance u' = us_balance u"
  by (auto simp: apply_plan_def same_account_def result_simps reset_traffic_def entitle_def Let_def
        split: if_splits option.splits)

definition account_after :: "order \<Rightarrow> user \<Rightarrow> user \<Rightarrow> bool" where
  "account_after r u u' \<longleftrightarrow> same_account u u' \<and>
     (if od_period r = ''deposit'' \<or> od_plan_id r = 0
      then \<exists>b\<ge>0. u' = u\<lparr>us_balance := us_balance u + od_total_amount r + b\<rparr>
      else max 0 (or_zero (od_balance_amount r)) \<le> max (us_balance u) 0 \<and>
        us_balance u' = us_balance u - max 0 (or_zero (od_balance_amount r)))"

lemma fulfil_deposit_shape:
  assumes "fulfil_deposit E now r u db = Inr db'"
  shows "\<exists>b c. 0 \<le> b \<and> db' = put_user now (db\<lparr>t_cache := c\<rparr>) (u\<lparr>us_balance := us_balance u + od_total_amount r + b\<rparr>)"
  using assms by (auto simp: fulfil_deposit_def result_simps dest!: deposit_bonus_shape)

lemma fulfil_plan_shape:
  assumes "fulfil_plan E now r u db = Inr db'"
  shows "\<exists>p t u1 u2. plan_by_id db (od_plan_id r) = Some p \<and> charge_balance r u = Inr u1 \<and>
     apply_plan (oe_tz E) now r p u1 = Inr u2 \<and> db' = put_user now (db\<lparr>t_coupons := t\<rparr>) u2 \<and>
     (requires_capacity_slot now (us_plan_id u) (Some (us_expired_at u)) (pl_id p) (od_period r) \<longrightarrow>
        ensure_capacity now (pl_id p) (pl_capacity_limit p) db = Inr ())"
proof -
  from assms obtain p d u1 u2 where p: "plan_by_id db (od_plan_id r) = Some p"
    and c: "charge_balance r u = Inr u1" and a: "apply_plan (oe_tz E) now r p u1 = Inr u2" and db': "db' = put_user now d u2"
    and d: "(if od_coupon_id r \<noteq> None \<and> 0 < or_zero (od_discount_amount r)
        then consume_for_paid_order (oe_codec E) now r db else Inr db) = Inr d"
    and cap: "(if requires_capacity_slot now (us_plan_id u) (Some (us_expired_at u)) (pl_id p) (od_period r)
        then ensure_capacity now (pl_id p) (pl_capacity_limit p) db else Inr ()) = Inr ()"
    by (auto simp: fulfil_plan_def result_simps for_update split: option.splits)
  have "\<exists>t. d = db\<lparr>t_coupons := t\<rparr>"
    using d consume_only_coupons by (auto split: if_splits intro: exI [of _ "t_coupons db"])
  with p c a db' cap show ?thesis by auto
qed

section \<open>Completing an order\<close>

definition completed :: "int \<Rightarrow> string option \<Rightarrow> order \<Rightarrow> order" where
  "completed now callback_no r =
     r\<lparr>od_status := 3, od_callback_no := (case callback_no of None \<Rightarrow> od_callback_no r | Some c \<Rightarrow> Some c), od_paid_at := Some now\<rparr>"

lemma completed_fields [simp]:
  "od_id (completed now c r) = od_id r" "od_status (completed now c r) = 3" "od_user_id (completed now c r) = od_user_id r"
  "od_plan_id (completed now c r) = od_plan_id r" "od_period (completed now c r) = od_period r"
  "od_total_amount (completed now c r) = od_total_amount r" "od_balance_amount (completed now c r) = od_balance_amount r"
  "od_trade_no (completed now c r) = od_trade_no r"
  by (simp_all add: completed_def)

text \<open>The order while it is being processed.\<close>

definition started :: "string option \<Rightarrow> order \<Rightarrow> order" where
  "started callback_no r = r\<lparr>od_status := 1, od_callback_no := (case callback_no of None \<Rightarrow> od_callback_no r | Some c \<Rightarrow> Some c)\<rparr>"

lemma started_fields [simp]:
  "od_id (started c r) = od_id r" "od_user_id (started c r) = od_user_id r" "od_plan_id (started c r) = od_plan_id r"
  "od_period (started c r) = od_period r" "od_total_amount (started c r) = od_total_amount r"
  "od_balance_amount (started c r) = od_balance_amount r" "od_type (started c r) = od_type r"
  "(started c r)\<lparr>od_status := 3, od_paid_at := Some now\<rparr> = completed now c r"
  by (simp_all add: started_def completed_def)

definition wf_accounts :: "db \<Rightarrow> bool" where
  "wf_accounts db \<longleftrightarrow> wf_table order_entity (t_orders db) \<and> wf_table user_entity (t_users db)"

lemma wf_accounts_tables:
  "t_orders db' = t_orders db \<Longrightarrow> t_users db' = t_users db \<Longrightarrow> wf_accounts db' = wf_accounts db"
  by (simp add: wf_accounts_def)

lemma wf_accounts_put [simp]:
  "wf_accounts db \<Longrightarrow> wf_accounts (put_order now db r)"
  "wf_accounts db \<Longrightarrow> wf_accounts (put_user now db u)"
  by (simp_all add: wf_accounts_def put_order_def put_user_def orders.wf_update users.wf_update)

lemma wf_accounts_frame: "commission_frame db db' \<Longrightarrow> wf_accounts db' = wf_accounts db"
  by (simp add: wf_accounts_def commission_frame_wf)

lemma complete_order_shape:
  assumes "complete_order E now r callback_no aty aid db = Inr db'" "wf_accounts db"
  shows "commission_frame (put_order now db (r\<lparr>od_status := 3, od_paid_at := Some now\<rparr>)) db'"
proof -
  let ?r = "r\<lparr>od_status := 3, od_paid_at := Some now\<rparr>"
  from assms(1) obtain d e where d: "(if 0 < od_plan_id ?r then calculate_for_order (oe_settings E) now (od_id ?r) (put_order now db ?r)
      else Inr (put_order now db ?r)) = Inr d" and db': "db' = create_log_event now e d"
    unfolding complete_order_def Let_def log_order_event_def bindE_eq_Inr by blast
  have "wf_accounts (put_order now db ?r)" using assms(2) by simp
  then have "commission_frame (put_order now db ?r) d"
    using d calculate_ok [of "oe_settings E" now "od_id ?r" "put_order now db ?r" d]
    by (auto simp: wf_accounts_def commission_ok_def split: if_splits)
  then show ?thesis unfolding db' using commission_frame_log commission_frame_trans by blast
qed

text \<open>What fulfilment makes of the user's row \<open>u\<close>.\<close>

definition fulfilled :: "order_env \<Rightarrow> int \<Rightarrow> order \<Rightarrow> db \<Rightarrow> user \<Rightarrow> user \<Rightarrow> bool" where
  "fulfilled E now r db u u' \<longleftrightarrow>
     (if od_period r = ''deposit'' \<or> od_plan_id r = 0
      then \<exists>b\<ge>0. u' = u\<lparr>us_balance := us_balance u + od_total_amount r + b\<rparr>
      else \<exists>p u1. plan_by_id db (od_plan_id r) = Some p \<and> charge_balance r u = Inr u1 \<and> apply_plan (oe_tz E) now r p u1 = Inr u' \<and>
        (requires_capacity_slot now (us_plan_id u) (Some (us_expired_at u)) (pl_id p) (od_period r) \<longrightarrow>
          ensure_capacity now (pl_id p) (pl_capacity_limit p) db = Inr ()))"

lemma fulfilled_account: "fulfilled E now r db u u' \<Longrightarrow> account_after r u u'"
  by (auto simp: fulfilled_def account_after_def same_account_def split: if_splits dest!: charge_balanceD apply_planD)

lemma fulfilled_started: "fulfilled E now (started cb r) (put_order now' db x) u u' = fulfilled E now r db u u'"
proof -
  have "charge_balance (started cb r) u = charge_balance r u" "apply_plan tz now (started cb r) p u1 = apply_plan tz now r p u1" for tz p u1
    by (simp_all add: charge_balance_def apply_plan_def)
  moreover have "plan_by_id (put_order now' db x) i = plan_by_id db i" for i by (simp add: plan_by_id_def put_order_def)
  moreover have "ensure_capacity now i l (put_order now' db x) = ensure_capacity now i l db" for i l
    by (simp add: ensure_capacity_def active_users_of_plan_def put_order_def split: option.split)
  ultimately show ?thesis by (simp add: fulfilled_def)
qed

text \<open>Fulfilment updates the user's row, and otherwise at most the cache and the coupons.\<close>

lemma fulfil_shape:
  assumes "(if od_period r = ''deposit'' \<or> od_plan_id r = 0 then fulfil_deposit E now r u db else fulfil_plan E now r u db) = Inr db'"
  shows "\<exists>u' c t. fulfilled E now r db u u' \<and> db' = put_user now (db\<lparr>t_cache := c, t_coupons := t\<rparr>) u'"
proof (cases "od_period r = ''deposit'' \<or> od_plan_id r = 0")
  case True
  with assms fulfil_deposit_shape [of E now r u db db'] obtain b c where b: "0 \<le> b"
    and db': "db' = put_user now (db\<lparr>t_cache := c\<rparr>) (u\<lparr>us_balance := us_balance u + od_total_amount r + b\<rparr>)" by auto
  have "fulfilled E now r db u (u\<lparr>us_balance := us_balance u + od_total_amount r + b\<rparr>)"
    using True b by (auto simp: fulfilled_def)
  moreover have "db\<lparr>t_cache := c, t_coupons := t_coupons db\<rparr> = db\<lparr>t_cache := c\<rparr>" by simp
  ultimately show ?thesis unfolding db' by metis
next
  case False
  with assms fulfil_plan_shape [of E now r u db db'] obtain p t u1 u2 where
    f: "plan_by_id db (od_plan_id r) = Some p" "charge_balance r u = Inr u1" "apply_plan (oe_tz E) now r p u1 = Inr u2"
      "requires_capacity_slot now (us_plan_id u) (Some (us_expired_at u)) (pl_id p) (od_period r) \<longrightarrow>
        ensure_capacity now (pl_id p) (pl_capacity_limit p) db = Inr ()"
    and db': "db' = put_user now (db\<lparr>t_coupons := t\<rparr>) u2" by auto
  have "fulfilled E now r db u u2" using False f by (auto simp: fulfilled_def)
  moreover have "db\<lparr>t_cache := t_cache db, t_coupons := t\<rparr> = db\<lparr>t_coupons := t\<rparr>" by simp
  ultimately show ?thesis unfolding db' by metis
qed

text \<open>The database in which a paid order has been fulfilled, before its commission is calculated:
  the order was flushed with status 1 and then with status 3, the user once.\<close>

definition paid_db_of :: "int \<Rightarrow> string option \<Rightarrow> order \<Rightarrow> user \<Rightarrow> cache_row list \<Rightarrow> coupon table \<Rightarrow> db \<Rightarrow> db" where
  "paid_db_of now callback_no r u' c t db =
     put_order now (put_user now ((put_order now db (started callback_no r))\<lparr>t_cache := c, t_coupons := t\<rparr>) u') (completed now callback_no r)"

lemma process_fulfils:
  assumes "process_paid_order E now oid callback_no aty aid db = Inr db'" "wf_accounts db"
  shows "\<exists>r. order_by_id db oid = Some r \<and>
     (od_status r \<notin> {0, 1} \<and> db' = db \<or>
      od_status r \<in> {0, 1} \<and> (\<exists>u u' c t. user_by_id db (od_user_id r) = Some u \<and> fulfilled E now r db u u' \<and>
        commission_frame (paid_db_of now callback_no r u' c t db) db'))"
proof -
  from assms(1) obtain r where r: "order_by_id db oid = Some r"
    by (auto simp: process_paid_order_def for_update split: option.splits)
  show ?thesis
  proof (cases "od_status r \<in> {0, 1}")
    case False
    then show ?thesis using assms(1) r by (auto simp: process_paid_order_def for_update split: if_splits)
  next
    case True
    let ?r1 = "started callback_no r"
    let ?d1 = "put_order now db ?r1"
    have "(case user_by_id ?d1 (od_user_id ?r1) of None \<Rightarrow> Inl (NotFound ''user'')
      | Some u \<Rightarrow> bindE (if od_period ?r1 = ''deposit'' \<or> od_plan_id ?r1 = 0 then fulfil_deposit E now ?r1 u ?d1
           else fulfil_plan E now ?r1 u ?d1) (complete_order E now ?r1 callback_no aty aid)) = Inr db'"
      using assms(1) r True by (auto simp: process_paid_order_def for_update Let_def started_def [symmetric])
    then obtain u d2 where u: "user_by_id ?d1 (od_user_id r) = Some u"
      and f: "(if od_period ?r1 = ''deposit'' \<or> od_plan_id ?r1 = 0 then fulfil_deposit E now ?r1 u ?d1 else fulfil_plan E now ?r1 u ?d1) = Inr d2"
      and c: "complete_order E now ?r1 callback_no aty aid d2 = Inr db'"
      by (auto simp: bindE_eq_Inr split: option.splits)
    from fulfil_shape [OF f] obtain u' ca t where u': "fulfilled E now r db u u'"
      and d2: "d2 = put_user now (?d1\<lparr>t_cache := ca, t_coupons := t\<rparr>) u'" by (auto simp: fulfilled_started)
    have wf: "wf_accounts d2" using assms(2) unfolding d2
      by (intro wf_accounts_put) (simp add: wf_accounts_def put_order_def orders.wf_update)
    have "commission_frame (paid_db_of now callback_no r u' ca t db) db'"
      using complete_order_shape [OF c wf] by (simp add: paid_db_of_def d2)
    moreover have "user_by_id db (od_user_id r) = Some u" using u by (simp add: user_by_id_def put_order_def)
    ultimately show ?thesis using r True u' by blast
  qed
qed

lemma process_shape:
  assumes "process_paid_order E now oid callback_no aty aid db = Inr db'" "wf_accounts db"
  shows "\<exists>r. order_by_id db oid = Some r \<and>
     (od_status r \<notin> {0, 1} \<and> db' = db \<or>
      od_status r \<in> {0, 1} \<and> (\<exists>u u' c t. user_by_id db (od_user_id r) = Some u \<and> account_after r u u' \<and>
        commission_frame (paid_db_of now callback_no r u' c t db) db'))"
  using process_fulfils [OF assms] fulfilled_account by blast

lemma paid_db_of_orders:
  "t_orders (paid_db_of now cb r u' c t db) =
     repo_update order_entity now (repo_update order_entity now (t_orders db) (started cb r)) (completed now cb r)"
  "t_users (paid_db_of now cb r u' c t db) = repo_update user_entity now (t_users db) u'"
  "t_plans (paid_db_of now cb r u' c t db) = t_plans db"
  by (simp_all add: paid_db_of_def put_order_def put_user_def)

lemma paid_db_of_reads:
  assumes "order_by_id db (od_id r) = Some r" "user_by_id db (us_id u') = Some u"
  shows "\<exists>x. order_by_id (paid_db_of now cb r u' c t db) (od_id r) = Some (stored order_entity now x (completed now cb r))"
    "user_by_id (paid_db_of now cb r u' c t db) (us_id u') = Some (stored user_entity now u u')"
    "i \<noteq> us_id u' \<Longrightarrow> user_by_id (paid_db_of now cb r u' c t db) i = user_by_id db i"
  using assms by (auto simp: order_by_id_def user_by_id_def paid_db_of_orders orders.get_update users.get_update)

text \<open>An order that was processed is completed; processing it again does nothing.\<close>

lemma process_completes:
  assumes "process_paid_order E now oid cb aty aid db = Inr db'" "wf_accounts db"
    and "order_by_id db oid = Some r" "od_status r \<in> {0, 1}"
  shows "\<exists>r'. order_by_id db' oid = Some r' \<and> order_core r' = order_core (completed now cb r)"
proof -
  have id: "od_id r = oid" using order_by_idD [OF assms(3)] by simp
  from process_shape [OF assms(1,2)] assms(3,4) obtain u u' c t where u: "user_by_id db (od_user_id r) = Some u"
    and u': "account_after r u u'" and f: "commission_frame (paid_db_of now cb r u' c t db) db'" by auto
  have "us_id u' = od_user_id r" using u' user_by_idD [OF u] by (simp add: account_after_def same_account_def)
  with u have "user_by_id db (us_id u') = Some u" by simp
  from paid_db_of_reads(1) [OF _ this, of r now cb c t] assms(3) id obtain x where
    "order_by_id (paid_db_of now cb r u' c t db) (od_id r) = Some (stored order_entity now x (completed now cb r))" by auto
  from commission_frame_order [OF f this] id show ?thesis by auto
qed

section \<open>Payment notifications\<close>

lemma column_text_Inr [simp]: "column_text v = Inr s \<longleftrightarrow> v = JStr s"
  by (auto simp: column_text_def split: json.splits)

lemma notify_order_shape:
  assumes "notify_order E now p n db = Inr (res, db')"
  shows "\<not> res \<and> db' = db \<or>
    (\<exists>tn r. res \<and> nr_trade_no n = JStr tn \<and> order_by_trade_no db tn = Some r \<and> od_payment_id r = Some (pm_id p) \<and>
       nr_paid_amount n = Some (order_due r) \<and>
       (if od_status r \<in> {0, 1}
        then \<exists>cb. nr_callback_no n = JStr cb \<and> process_paid_order E now (od_id r) (Some cb) ''system'' None db = Inr db'
        else db' = db))"
proof -
  from assms obtain tn where tn: "nr_trade_no n = JStr tn" by (auto simp: notify_order_def bindE_eq_Inr)
  show ?thesis
  proof (cases "order_by_trade_no db tn")
    case None
    then show ?thesis using assms tn by (simp add: notify_order_def column_text_def)
  next
    case (Some r)
    consider "od_payment_id r \<noteq> Some (pm_id p) \<or> nr_paid_amount n \<noteq> Some (order_due r)"
      | (settled) "od_payment_id r = Some (pm_id p)" "nr_paid_amount n = Some (order_due r)" "od_status r \<notin> {0, 1}"
      | (due) "od_payment_id r = Some (pm_id p)" "nr_paid_amount n = Some (order_due r)" "od_status r \<in> {0, 1}" by blast
    then show ?thesis
    proof cases
      case 1
      then show ?thesis using assms Some tn by (auto simp: notify_order_def column_text_def split: if_splits)
    next
      case settled
      then show ?thesis using assms Some tn by (simp add: notify_order_def column_text_def)
    next
      case due
      then have "bindE (column_text (nr_callback_no n)) (\<lambda>cb. case process_paid_order E now (od_id r) (Some cb) ''system'' None db of
          Inl e \<Rightarrow> if is_app_exception e then Inr (False, db) else Inl e | Inr db' \<Rightarrow> Inr (True, db')) = Inr (res, db')"
        using assms Some tn by (simp add: notify_order_def column_text_def [of "JStr _"])
      then obtain cb where "nr_callback_no n = JStr cb"
        "(case process_paid_order E now (od_id r) (Some cb) ''system'' None db of
          Inl e \<Rightarrow> if is_app_exception e then Inr (False, db) else Inl e | Inr db' \<Rightarrow> Inr (True, db')) = Inr (res, db')"
        by (auto simp: bindE_eq_Inr)
      then show ?thesis using Some due tn by (auto split: sum.splits if_splits)
    qed
  qed
qed

lemma notify_shape:
  assumes "handle_payment_notify E now gw uuid params db = Inr (res, db')"
  shows "\<not> res \<and> db' = db \<or>
    (\<exists>p g n. payment_by_uuid db uuid = Inr (Some p) \<and> pm_enable p \<and> open_gateway E gw p = Inr (Some g) \<and>
       epay_verify_notify (oe_codec E) (oe_md5 E) g params = Inr n \<and> nr_success n \<and>
       notify_order E now p n db = Inr (res, db'))"
proof -
  from assms obtain po where po: "payment_by_uuid db uuid = Inr po" by (auto simp: handle_payment_notify_def result_simps)
  show ?thesis
  proof (cases "\<exists>p. po = Some p \<and> pm_enable p")
    case False
    then show ?thesis using assms po by (auto simp: handle_payment_notify_def split: option.splits)
  next
    case True
    then obtain p where p: "po = Some p" "pm_enable p" by blast
    with assms po obtain go where go: "open_gateway E gw p = Inr go" by (auto simp: handle_payment_notify_def result_simps)
    show ?thesis
    proof (cases go)
      case None
      then show ?thesis using assms po p go by (simp add: handle_payment_notify_def)
    next
      case (Some g)
      then have "bindE (epay_verify_notify (oe_codec E) (oe_md5 E) g params)
          (\<lambda>n. if \<not> nr_success n then Inr (False, db) else notify_order E now p n db) = Inr (res, db')"
        using assms po p go by (simp add: handle_payment_notify_def)
      then obtain n where n: "epay_verify_notify (oe_codec E) (oe_md5 E) g params = Inr n"
        and rest: "(if \<not> nr_success n then Inr (False, db) else notify_order E now p n db) = Inr (res, db')"
        by (auto simp: bindE_eq_Inr)
      show ?thesis using po p go Some n rest by (cases "nr_success n") auto
    qed
  qed
qed

end
