(* ===== verification/OrderLifecycle.thy ===== *)
theory OrderLifecycle
  imports OrderFacts
begin

text \<open>
  The life cycle of orders as an abstract step relation on the order table, and the refinement:
  every request that the order service serves, in any sequence, is a step of it. The abstract
  state is the list of rows without their commission columns and modification times.
\<close>

section \<open>The abstract life cycle\<close>

definition subst_order :: "order \<Rightarrow> order list \<Rightarrow> order list" where
  "subst_order r rs = map (\<lambda>x. if od_id x = od_id r then r else x) rs"

inductive life_step :: "order list \<Rightarrow> order list \<Rightarrow> bool" where
  stay: "life_step rs rs"
| place: "od_status r = 0 \<Longrightarrow> \<forall>x\<in>set rs. \<not> (od_user_id x = od_user_id r \<and> od_status x = 0) \<Longrightarrow>
    od_trade_no r \<notin> od_trade_no ` set rs \<Longrightarrow> od_id r \<notin> od_id ` set rs \<Longrightarrow> life_step rs (rs @ [r])"
| transfer: "od_status r = 3 \<Longrightarrow> od_type r = 9 \<Longrightarrow> od_plan_id r = 0 \<Longrightarrow>
    od_trade_no r \<notin> od_trade_no ` set rs \<Longrightarrow> od_id r \<notin> od_id ` set rs \<Longrightarrow> life_step rs (rs @ [r])"
| choose_payment: "r \<in> set rs \<Longrightarrow> od_status r = 0 \<Longrightarrow>
    life_step rs (subst_order (r\<lparr>od_handling_amount := h, od_payment_id := p\<rparr>) rs)"
| cancel: "r \<in> set rs \<Longrightarrow> od_status r = 0 \<Longrightarrow> life_step rs (subst_order (r\<lparr>od_status := 2\<rparr>) rs)"
| complete: "r \<in> set rs \<Longrightarrow> od_status r \<in> {0, 1} \<Longrightarrow>
    life_step rs (subst_order (r\<lparr>od_status := 3, od_callback_no := c, od_paid_at := Some t\<rparr>) rs)"

text \<open>What the steps keep: keys and trade numbers are distinct, a user has at most one pending order.\<close>

definition life_inv :: "order list \<Rightarrow> bool" where
  "life_inv rs \<longleftrightarrow> distinct (map od_id rs) \<and> distinct (map od_trade_no rs) \<and>
     (\<forall>uid. count_where (\<lambda>r. od_user_id r = uid \<and> od_status r = 0) rs \<le> 1)"

lemma subst_order_map:
  assumes "distinct (map od_id rs)" "r \<in> set rs" "od_id r' = od_id r" "f r' = f r"
  shows "map f (subst_order r' rs) = map f rs"
proof -
  have "x = r" if "x \<in> set rs" "od_id x = od_id r" for x
    using that assms(1,2) by (auto simp: distinct_map dest: inj_onD)
  then show ?thesis using assms(3,4) by (auto simp: subst_order_def)
qed

lemma subst_order_count:
  assumes "distinct (map od_id rs)" "r \<in> set rs" "od_id r' = od_id r" "P r' \<longrightarrow> P r"
  shows "count_where P (subst_order r' rs) \<le> count_where P rs"
proof -
  have "x = r" if "x \<in> set rs" "od_id x = od_id r" for x
    using that assms(1,2) by (auto simp: distinct_map dest: inj_onD)
  then show ?thesis using assms(3,4) unfolding subst_order_def count_where_map
    by (intro count_where_mono) (auto split: if_splits)
qed

lemma subst_order_inv:
  assumes "life_inv rs" "r \<in> set rs" "od_id r' = od_id r" "od_trade_no r' = od_trade_no r"
    and "od_user_id r' = od_user_id r" "od_status r' = 0 \<longrightarrow> od_status r = 0"
  shows "life_inv (subst_order r' rs)"
proof -
  from assms(1) have d: "distinct (map od_id rs)" by (simp add: life_inv_def)
  have "count_where (\<lambda>r. od_user_id r = uid \<and> od_status r = 0) (subst_order r' rs) \<le> 1" for uid
    using subst_order_count [OF d assms(2,3), of "\<lambda>r. od_user_id r = uid \<and> od_status r = 0"] assms(1,5,6)
    by (auto simp: life_inv_def dest!: spec [of _ uid])
  then show ?thesis
    using assms(1) subst_order_map [OF d assms(2,3), of od_id] subst_order_map [OF d assms(2,3), of od_trade_no] assms(3,4)
    by (simp add: life_inv_def)
qed

lemma life_step_inv: "life_step rs rs' \<Longrightarrow> life_inv rs \<Longrightarrow> life_inv rs'"
proof (induction rule: life_step.induct)
  case (place r rs)
  have "count_where (\<lambda>r. od_user_id r = uid \<and> od_status r = 0) (rs @ [r]) \<le> 1" for uid
    using place.prems place.hyps(2) count_where_zero [of "\<lambda>r. od_user_id r = uid \<and> od_status r = 0" rs]
    by (auto simp: life_inv_def)
  then show ?case using place by (simp add: life_inv_def)
next
  case (transfer r rs)
  then show ?case by (simp add: life_inv_def)
qed (auto intro!: subst_order_inv)

lemma life_run_inv: "life_step\<^sup>*\<^sup>* rs rs' \<Longrightarrow> life_inv rs \<Longrightarrow> life_inv rs'"
  by (induction rule: rtranclp_induct) (auto intro: life_step_inv)

text \<open>What was agreed at creation, and the moves of the status.\<close>

definition order_terms :: "order \<Rightarrow> order" where
  "order_terms r = (order_core r)\<lparr>od_status := 0, od_handling_amount := None, od_payment_id := None,
     od_callback_no := None, od_paid_at := None\<rparr>"

inductive status_step :: "int \<Rightarrow> int \<Rightarrow> bool" where
  cancels: "status_step 0 2"
| completes: "s \<in> {0, 1} \<Longrightarrow> status_step s 3"

inductive_simps status_step_final [simp]: "status_step 2 t" "status_step 3 t"

definition row_after :: "order \<Rightarrow> order \<Rightarrow> bool" where
  "row_after r r' \<longleftrightarrow> od_id r' = od_id r \<and> order_terms r' = order_terms r \<and>
     (if od_status r \<in> {2, 3} then r' = r
      else od_status r' = od_status r \<or> status_step (od_status r) (od_status r'))"

lemma row_after_refl [simp]: "row_after r r"
  by (simp add: row_after_def)

lemma row_after_trans: "row_after a b \<Longrightarrow> row_after b c \<Longrightarrow> row_after a c"
  by (auto simp: row_after_def status_step.simps split: if_splits)

lemma subst_row:
  assumes "distinct (map od_id rs)" "r \<in> set rs" "row_after r r'" "x \<in> set rs"
  shows "\<exists>x'\<in>set (subst_order r' rs). row_after x x'"
proof (cases "od_id x = od_id r")
  case True
  with assms(1,2,4) have "x = r" by (auto simp: distinct_map dest: inj_onD)
  moreover have "r' \<in> set (subst_order r' rs)" using assms(2,3) by (auto simp: subst_order_def row_after_def image_iff)
  ultimately show ?thesis using assms(3) by blast
next
  case False
  then have "x \<in> set (subst_order r' rs)" using assms(3,4) by (auto simp: subst_order_def row_after_def image_iff)
  then show ?thesis using row_after_refl by blast
qed

lemma life_step_rows: "life_step rs rs' \<Longrightarrow> life_inv rs \<Longrightarrow> x \<in> set rs \<Longrightarrow> \<exists>x'\<in>set rs'. row_after x x'"
proof (induction rule: life_step.induct)
  case (choose_payment r rs h p)
  then show ?case
    by (intro subst_row [of _ r]) (auto simp: life_inv_def row_after_def order_terms_def order_core_def)
next
  case (cancel r rs)
  then show ?case
    by (intro subst_row [of _ r]) (auto simp: life_inv_def row_after_def order_terms_def order_core_def intro: status_step.intros)
next
  case (complete r rs c t)
  then show ?case
    by (intro subst_row [of _ r]) (auto simp: life_inv_def row_after_def order_terms_def order_core_def intro: status_step.intros)
qed (rule bexI [of _ x], rule row_after_refl, simp)+

lemma life_run_rows: "life_step\<^sup>*\<^sup>* rs rs' \<Longrightarrow> life_inv rs \<Longrightarrow> x \<in> set rs \<Longrightarrow> \<exists>x'\<in>set rs'. row_after x x'"
proof (induction rule: rtranclp_induct)
  case (step ys zs)
  then obtain y where "y \<in> set ys" "row_after x y" by blast
  with life_step_rows [OF step.hyps(2) life_run_inv [OF step.hyps(1)]] step.prems row_after_trans show ?case by blast
qed (rule bexI [of _ x], simp_all)

section \<open>The requests of the order service\<close>

datatype order_op =
    CreateOrder string int order_create
  | Checkout int string int
  | Notify string string "(string \<times> json) list"
  | CancelOrder string int
  | AdminUpdateOrder string "int option option" "int option"
  | AdminMarkPaid string "int option"
  | AdminCancelOrder string "int option"
  | AdminAssignOrder string order_assign "int option"
  | HandleOrder string
  | TransferCommission string int int

fun run_order_op :: "order_env \<Rightarrow> int \<Rightarrow> order_op \<Rightarrow> db \<Rightarrow> exn + db" where
  "run_order_op E now (CreateOrder uuid uid data) db = bindE (create_order E now uuid uid data db) (\<lambda>(_, db'). Inr db')"
| "run_order_op E now (Checkout uid tn meth) db = bindE (checkout E now uid tn meth db) (\<lambda>(_, db'). Inr db')"
| "run_order_op E now (Notify gw uuid params) db = bindE (handle_payment_notify E now gw uuid params db) (\<lambda>(_, db'). Inr db')"
| "run_order_op E now (CancelOrder tn uid) db = cancel_order now tn uid db"
| "run_order_op E now (AdminUpdateOrder tn cs aid) db = admin_update_order now tn cs aid db"
| "run_order_op E now (AdminMarkPaid tn aid) db = admin_mark_paid E now tn aid db"
| "run_order_op E now (AdminCancelOrder tn aid) db = admin_cancel_order now tn aid db"
| "run_order_op E now (AdminAssignOrder uuid data aid) db = bindE (admin_assign_order now uuid data aid db) (\<lambda>(_, db'). Inr db')"
| "run_order_op E now (HandleOrder tn) db = order_handle E now tn db"
| "run_order_op E now (TransferCommission uuid uid amount) db = transfer_commission now uuid uid amount db"

text \<open>A request that raises is rolled back.\<close>

definition serve :: "order_env \<Rightarrow> int \<times> order_op \<Rightarrow> db \<Rightarrow> db" where
  "serve E req db = (case run_order_op E (fst req) (snd req) db of Inl _ \<Rightarrow> db | Inr db' \<Rightarrow> db')"

section \<open>The order table, abstractly\<close>

definition orders_of :: "db \<Rightarrow> order list" where
  "orders_of db = map order_core (rows (t_orders db))"

lemma order_core_fields [simp]:
  "od_id (order_core r) = od_id r" "od_status (order_core r) = od_status r" "od_user_id (order_core r) = od_user_id r"
  "od_trade_no (order_core r) = od_trade_no r" "od_type (order_core r) = od_type r" "od_plan_id (order_core r) = od_plan_id r"
  "od_total_amount (order_core r) = od_total_amount r" "od_balance_amount (order_core r) = od_balance_amount r"
  "od_period (order_core r) = od_period r" "order_core (order_core r) = order_core r"
  by (simp_all add: order_core_def)

lemma orders_of_same: "t_orders db' = t_orders db \<Longrightarrow> orders_of db' = orders_of db"
  by (simp add: orders_of_def)

lemma orders_of_frame: "commission_frame db db' \<Longrightarrow> orders_of db' = orders_of db"
  by (simp add: orders_of_def commission_frame_def)

lemma orders_of_update:
  "map order_core (rows (repo_update order_entity now t r)) = subst_order (order_core r) (map order_core (rows t))"
  by (simp add: subst_order_def rows_repo_update)

lemma orders_of_put: "orders_of (put_order now db r) = subst_order (order_core r) (orders_of db)"
  unfolding orders_of_def put_order_def by (simp add: orders_of_update)

lemma subst_order_twice: "od_id r' = od_id r \<Longrightarrow> subst_order r' (subst_order r rs) = subst_order r' rs"
  by (simp add: subst_order_def)

lemma orders_of_mem: "r \<in> set (rows (t_orders db)) \<Longrightarrow> order_core r \<in> set (orders_of db)"
  by (simp add: orders_of_def)

lemma paid_db_of_abs:
  "orders_of (paid_db_of now cb r u' c t db) =
     subst_order ((order_core r)\<lparr>od_status := 3, od_callback_no := (case cb of None \<Rightarrow> od_callback_no r | Some x \<Rightarrow> Some x),
        od_paid_at := Some now\<rparr>) (orders_of db)"
proof -
  have "order_core (completed now cb r) = (order_core r)\<lparr>od_status := 3,
      od_callback_no := (case cb of None \<Rightarrow> od_callback_no r | Some x \<Rightarrow> Some x), od_paid_at := Some now\<rparr>"
    by (simp add: completed_def order_core_def)
  then show ?thesis by (simp add: orders_of_def paid_db_of_orders orders_of_update subst_order_twice)
qed

lemma process_refines:
  assumes "process_paid_order E now oid cb aty aid db = Inr db'" "wf_accounts db"
  shows "life_step (orders_of db) (orders_of db') \<and> wf_accounts db'"
proof -
  from process_shape [OF assms] obtain r where r: "order_by_id db oid = Some r"
    and cases: "od_status r \<notin> {0, 1} \<and> db' = db \<or> od_status r \<in> {0, 1} \<and> (\<exists>u u' c t. user_by_id db (od_user_id r) = Some u \<and>
       account_after r u u' \<and> commission_frame (paid_db_of now cb r u' c t db) db')" by blast
  from cases show ?thesis
  proof
    assume "od_status r \<notin> {0, 1} \<and> db' = db"
    then show ?thesis using assms(2) life_step.stay by simp
  next
    assume *: "od_status r \<in> {0, 1} \<and> (\<exists>u u' c t. user_by_id db (od_user_id r) = Some u \<and>
       account_after r u u' \<and> commission_frame (paid_db_of now cb r u' c t db) db')"
    then obtain u' c t where f: "commission_frame (paid_db_of now cb r u' c t db) db'" by blast
    have mem: "order_core r \<in> set (orders_of db)" using order_by_idD [OF r] by (simp add: orders_of_mem)
    have "wf_accounts (paid_db_of now cb r u' c t db)"
      using assms(2) by (simp add: wf_accounts_def paid_db_of_orders orders.wf_update users.wf_update)
    then show ?thesis
      using life_step.complete [OF mem] * wf_accounts_frame [OF f] orders_of_frame [OF f] by (simp add: paid_db_of_abs)
  qed
qed

lemma new_row_core:
  "order_core (new_row order_entity now t r) = (order_core r)\<lparr>od_id := next_id t, od_created_at := stamp now (od_created_at r)\<rparr>"
  by (simp add: new_row_def order_entity_def order_core_def)

lemma has_pending_abs: "has_pending_order db uid \<longleftrightarrow> (\<exists>x\<in>set (orders_of db). od_user_id x = uid \<and> od_status x = 0)"
  by (simp add: has_pending_order_def orders_of_def list_ex_iff)

lemma insert_refines:
  assumes "insert_order now db r = Inr (x, db')" "wf_accounts db"
    and "od_status r = 0 \<and> \<not> has_pending_order db (od_user_id r) \<or> od_status r = 3 \<and> od_type r = 9 \<and> od_plan_id r = 0"
  shows "life_step (orders_of db) (orders_of db') \<and> wf_accounts db'"
proof -
  let ?new = "order_core (new_row order_entity now (t_orders db) r)"
  from assms(1) have free: "od_trade_no r \<notin> od_trade_no ` set (orders_of db)"
    and db': "db' = db\<lparr>t_orders := repo_create order_entity now (t_orders db) r\<rparr>"
    by (auto simp: insert_order_def result_simps orders_of_def list_ex_iff)
  have abs: "orders_of db' = orders_of db @ [?new]" by (simp add: orders_of_def db')
  have id: "od_id ?new \<notin> od_id ` set (orders_of db)"
    using assms(2) by (auto simp: wf_accounts_def wf_table_def list_all_iff orders_of_def)
  have "life_step (orders_of db) (orders_of db @ [?new])"
    using assms(3)
  proof
    assume "od_status r = 0 \<and> \<not> has_pending_order db (od_user_id r)"
    then show ?thesis using free id by (intro life_step.place) (auto simp: has_pending_abs)
  next
    assume "od_status r = 3 \<and> od_type r = 9 \<and> od_plan_id r = 0"
    then show ?thesis using free id by (intro life_step.transfer) auto
  qed
  moreover have "wf_accounts db'" using assms(2) by (simp add: wf_accounts_def db' orders.wf_create)
  ultimately show ?thesis by (simp add: abs)
qed

lemma apply_to_order_keeps:
  "apply_to_order C now db code r = Inr r' \<Longrightarrow> od_status r' = od_status r \<and> od_user_id r' = od_user_id r"
  by (auto dest!: apply_to_orderD)

lemma log_order_event_life:
  "orders_of (log_order_event now r ev msg aty aid data db) = orders_of db"
  "wf_accounts (log_order_event now r ev msg aty aid data db) = wf_accounts db"
  by (simp_all add: orders_of_def wf_accounts_def)

section \<open>What a request does to the orders and accounts\<close>

text \<open>Every successful request is one of five outcomes. A plan order never has the period \<open>deposit\<close>;
  \<open>fair_order\<close> is what the balances need of a pending order, and only the administrator's
  assignment of an order can break it.\<close>

definition same_tables :: "db \<Rightarrow> db \<Rightarrow> bool" where
  "same_tables db db' \<longleftrightarrow> t_orders db' = t_orders db \<and> t_users db' = t_users db \<and> t_plans db' = t_plans db"

lemma same_tables_log [simp]: "same_tables db (log_order_event now r ev msg aty aid data db)"
  by (simp add: same_tables_def)

lemma same_tables_refl [simp]: "same_tables db db"
  by (simp add: same_tables_def)

lemma same_tables_facts:
  "same_tables db db' \<Longrightarrow> orders_of db' = orders_of db"
  "same_tables db db' \<Longrightarrow> wf_accounts db' = wf_accounts db"
  by (simp_all add: same_tables_def orders_of_def wf_accounts_def)

definition fair_order :: "order \<Rightarrow> bool" where
  "fair_order r \<longleftrightarrow> (od_period r = ''deposit'' \<or> od_plan_id r = 0 \<longrightarrow> 0 \<le> od_total_amount r)"

fun fair_request :: "order_op \<Rightarrow> bool" where
  "fair_request (AdminAssignOrder uuid data aid) = (0 \<le> oa_total_amount data)"
| "fair_request _ = True"

inductive order_outcome :: "order_env \<Rightarrow> int \<Rightarrow> bool \<Rightarrow> db \<Rightarrow> db \<Rightarrow> bool" for E now fair where
  unchanged: "order_outcome E now fair db db"
| paid: "process_paid_order E now oid cb aty aid d = Inr d' \<Longrightarrow> same_tables db d \<Longrightarrow> same_tables d' db' \<Longrightarrow>
    order_outcome E now fair db db'"
| placed: "insert_order now db r = Inr (x, d) \<Longrightarrow> od_status r = 0 \<Longrightarrow> \<not> has_pending_order db (od_user_id r) \<Longrightarrow>
    (fair \<longrightarrow> fair_order r) \<Longrightarrow> same_tables d db' \<Longrightarrow> order_outcome E now fair db db'"
| updated: "r \<in> set (rows (t_orders db)) \<Longrightarrow>
    order_core r' = order_core r \<or> od_status r = 0 \<and> (order_core r' = (order_core r)\<lparr>od_status := 2\<rparr> \<or>
      (\<exists>h p. order_core r' = (order_core r)\<lparr>od_handling_amount := h, od_payment_id := p\<rparr>)) \<Longrightarrow>
    same_tables (put_order now db r') db' \<Longrightarrow> order_outcome E now fair db db'"
| transferred: "transfer_commission now uuid uid amount db = Inr db' \<Longrightarrow> order_outcome E now fair db db'"

lemma create_outcome:
  assumes "create_order E now uuid uid data db = Inr (tn, db')"
  shows "order_outcome E now fair db db'"
proof -
  from assms obtain u where u: "user_by_id db uid = Some u" and free: "\<not> has_pending_order db uid"
    and step: "(if oc_plan_id data = 0 then create_deposit_order now uuid u data db else create_plan_order E now uuid u data db) = Inr (tn, db')"
    by (auto simp: create_order_def result_simps split: option.splits)
  have id: "us_id u = uid" using user_by_idD [OF u] by simp
  have "\<exists>r x d. insert_order now db r = Inr (x, d) \<and> od_status r = 0 \<and> od_user_id r = uid \<and> fair_order r \<and> same_tables d db'"
  proof (cases "oc_plan_id data = 0")
    case True
    with step obtain amount x d where "0 < amount" and ins: "insert_order now db (blank_order\<lparr>od_user_id := us_id u, od_period := ''deposit'',
             od_trade_no := generate_trade_no now uuid, od_total_amount := amount,
             od_invite_user_id := us_invite_user_id u, od_type := 9\<rparr>) = Inr (x, d)"
      and db': "\<exists>dt. db' = log_order_event now x ''order.created'' ''order created'' ''user'' (Some (us_id u)) dt d"
      by (auto simp: create_deposit_order_def result_simps not_le split: option.splits)
    then have "same_tables d db'" by auto
    then show ?thesis using id \<open>0 < amount\<close> ins by (fastforce simp: blank_order_def fair_order_def)
  next
    case False
    with step create_plan_shape [of E now uuid u data db tn db'] obtain p price r1 x d where
      price: "check_plan_sale now u p (oc_period data) db = Inr price"
      and r1: "if text_given (oc_coupon_code data)
        then apply_to_order (oe_codec E) now db (set_if (oc_coupon_code data) []) (draft_order now uuid u p data price) = Inr r1
        else r1 = draft_order now uuid u p data price"
      and ins: "insert_order now db (r1\<lparr>od_total_amount := snd (use_balance (us_balance u) (od_total_amount r1)),
          od_balance_amount := fst (use_balance (us_balance u) (od_total_amount r1))\<rparr>) = Inr (x, d)"
      and db': "db' = log_order_event now x ''order.created'' ''order created'' ''user'' (Some (us_id u)) (plan_order_data x) d"
      by auto
    have "oc_period data \<in> set price_periods" using price by (auto simp: check_plan_sale_def result_simps Let_def)
    then have per: "oc_period data \<noteq> ''deposit''" by (auto simp: price_periods_def)
    have "od_status r1 = 0 \<and> od_user_id r1 = uid \<and> od_period r1 = oc_period data \<and> od_plan_id r1 = oc_plan_id data"
      using r1 id by (auto dest!: apply_to_orderD split: if_splits)
    then have "fair_order (r1\<lparr>od_total_amount := snd (use_balance (us_balance u) (od_total_amount r1)),
          od_balance_amount := fst (use_balance (us_balance u) (od_total_amount r1))\<rparr>)" "od_status r1 = 0" "od_user_id r1 = uid"
      using per False by (simp_all add: fair_order_def)
    then show ?thesis using ins db' by fastforce
  qed
  then show ?thesis using free order_outcome.placed by blast
qed

lemma paid_outcome: "process_paid_order E now oid cb aty aid db = Inr db' \<Longrightarrow> order_outcome E now fair db db'"
  by (rule order_outcome.paid [OF _ same_tables_refl same_tables_refl])

lemma checkout_outcome:
  assumes "checkout E now uid tn meth db = Inr (res, db')"
  shows "order_outcome E now fair db db'"
proof -
  from assms obtain r where r: "pending_by_trade_no db tn uid = Some r"
    by (auto simp: checkout_def split: option.splits)
  from pending_by_trade_noD [OF r] have mem: "r \<in> set (rows (t_orders db))" and st: "od_status r = 0" by auto
  show ?thesis
  proof (cases "od_total_amount r \<le> 0")
    case True
    with assms r obtain ev msg aty aid data cb where
      p: "process_paid_order E now (od_id r) cb ''user'' (Some uid) (log_order_event now r ev msg aty aid data db) = Inr db'"
      by (auto simp: checkout_def result_simps)
    show ?thesis by (rule order_outcome.paid [OF p]) simp_all
  next
    case False
    with assms r obtain pm where pm: "enabled_payment_by_id db meth = Some pm"
      by (auto simp: checkout_def split: option.splits)
    define r1 where "r1 = r\<lparr>od_handling_amount := (if 0 < handling_fee pm (od_total_amount r) then Some (handling_fee pm (od_total_amount r))
      else od_handling_amount r), od_payment_id := Some meth\<rparr>"
    from assms r False pm have "\<exists>d ev msg aty aid data. d = snd (get_str (oe_settings E) now ''app_url'' [] (put_order now db r1)) \<and>
        db' = log_order_event now r1 ev msg aty aid data d"
      by (auto simp: checkout_def result_simps Let_def r1_def [symmetric] split_beta simp del: if_split) blast+
    then obtain c ev msg aty aid data where
      db': "db' = log_order_event now r1 ev msg aty aid data ((put_order now db r1)\<lparr>t_cache := c\<rparr>)"
      using get_str_state [of "oe_settings E" now "''app_url''" "[]" "put_order now db r1"] by metis
    have "order_core r1 = (order_core r)\<lparr>od_handling_amount := od_handling_amount r1, od_payment_id := od_payment_id r1\<rparr>"
      by (simp add: r1_def order_core_def)
    moreover have "same_tables (put_order now db r1) db'" by (simp add: same_tables_def db')
    ultimately show ?thesis using mem st order_outcome.updated by metis
  qed
qed

lemma cancel_outcome:
  assumes "cancel_row now r aty aid db = Inr db'" "r \<in> set (rows (t_orders db))"
  shows "order_outcome E now fair db db'"
proof -
  from assms(1) have st: "od_status r = 0" and db': "same_tables (put_order now db (r\<lparr>od_status := 2\<rparr>)) db'"
    by (auto simp: cancel_row_def result_simps Let_def)
  have "order_core (r\<lparr>od_status := 2\<rparr>) = (order_core r)\<lparr>od_status := 2\<rparr>" by (simp add: order_core_def)
  then show ?thesis using st db' assms(2) order_outcome.updated by metis
qed

lemma notify_outcome:
  assumes "handle_payment_notify E now gw uuid params db = Inr (res, db')"
  shows "order_outcome E now fair db db'"
proof -
  have "db' = db \<or> (\<exists>oid cb aty aid. process_paid_order E now oid cb aty aid db = Inr db')"
    using notify_shape [OF assms] by (auto dest!: notify_order_shape split: if_splits)
  then show ?thesis using paid_outcome order_outcome.unchanged by blast
qed

lemma handle_outcome:
  assumes "order_handle E now tn db = Inr db'"
  shows "order_outcome E now fair db db'"
proof (cases "\<exists>r. order_by_trade_no db tn = Some r \<and> od_status r = 0 \<and> db' = put_order now db (r\<lparr>od_status := 2\<rparr>)")
  case True
  then obtain r where r: "order_by_trade_no db tn = Some r" "od_status r = 0" and db': "db' = put_order now db (r\<lparr>od_status := 2\<rparr>)" by blast
  have "order_core (r\<lparr>od_status := 2\<rparr>) = (order_core r)\<lparr>od_status := 2\<rparr>" by (simp add: order_core_def)
  then show ?thesis using r(2) order_by_trade_noD [OF r(1)] unfolding db' by (metis order_outcome.updated same_tables_refl)
next
  case False
  with assms have "db' = db \<or> (\<exists>oid cb aty aid. process_paid_order E now oid cb aty aid db = Inr db')"
    by (auto simp: order_handle_def split: option.splits if_splits)
  then show ?thesis using paid_outcome order_outcome.unchanged by blast
qed

lemma assign_outcome:
  assumes "admin_assign_order now uuid data aid db = Inr (tn, db')"
  shows "order_outcome E now (0 \<le> oa_total_amount data) db db'"
proof -
  from assign_shape [OF assms] obtain u p x d dt where *: "\<not> has_pending_order db (us_id u)"
    "insert_order now db (assigned_order now uuid u p data) = Inr (x, d)"
    and db': "db' = log_order_event now x ''order.created'' ''order assigned'' ''admin'' aid dt d" by blast
  show ?thesis unfolding db' by (rule order_outcome.placed [OF *(2)]) (simp_all add: *(1) fair_order_def)
qed

lemma order_op_outcome:
  assumes "run_order_op E now op db = Inr db'"
  shows "order_outcome E now (fair_request op) db db'"
proof (cases op)
  case (CreateOrder uuid uid data)
  then show ?thesis using assms create_outcome by (auto simp: bindE_eq_Inr)
next
  case (Checkout uid tn meth)
  then show ?thesis using assms checkout_outcome by (auto simp: bindE_eq_Inr)
next
  case (Notify gw uuid params)
  then show ?thesis using assms notify_outcome by (auto simp: bindE_eq_Inr)
next
  case (CancelOrder tn uid)
  then show ?thesis using assms cancel_outcome
    by (auto simp: cancel_order_def own_order_def result_simps dest!: order_by_trade_noD split: option.splits)
next
  case (AdminUpdateOrder tn cs aid)
  then obtain r where r: "order_by_trade_no db tn = Some r"
    and db': "same_tables (put_order now db (r\<lparr>od_commission_status := set_if (given cs) (od_commission_status r)\<rparr>)) db'"
    using assms by (auto simp: admin_update_order_def result_simps Let_def split: option.splits)
  show ?thesis by (rule order_outcome.updated [OF _ _ db']) (use order_by_trade_noD [OF r] in auto)
next
  case (AdminMarkPaid tn aid)
  then obtain r d where p: "process_paid_order E now (od_id r) (Some ''manual_operation'') ''admin'' aid db = Inr d"
    and db': "db' = log_order_event now r ''order.admin_paid'' ''order marked paid'' ''admin'' aid JNull d"
    using assms by (auto simp: admin_mark_paid_def result_simps split: option.splits)
  show ?thesis unfolding db' by (rule order_outcome.paid [OF p]) simp_all
next
  case (AdminCancelOrder tn aid)
  then show ?thesis using assms cancel_outcome
    by (auto simp: admin_cancel_order_def dest!: order_by_trade_noD split: option.splits)
next
  case (AdminAssignOrder uuid data aid)
  then show ?thesis using assms assign_outcome by (auto simp: bindE_eq_Inr)
next
  case (HandleOrder tn)
  then show ?thesis using assms handle_outcome by simp
next
  case (TransferCommission uuid uid amount)
  then show ?thesis using assms order_outcome.transferred by simp
qed

section \<open>The refinement\<close>

lemma put_refines:
  assumes "r \<in> set (rows (t_orders db))" "wf_accounts db"
    and "order_core r' = order_core r \<or> od_status r = 0 \<and> (order_core r' = (order_core r)\<lparr>od_status := 2\<rparr> \<or>
      (\<exists>h p. order_core r' = (order_core r)\<lparr>od_handling_amount := h, od_payment_id := p\<rparr>))"
  shows "life_step (orders_of db) (orders_of (put_order now db r'))"
proof -
  have mem: "order_core r \<in> set (orders_of db)" using assms(1) by (rule orders_of_mem)
  have "distinct (map od_id (orders_of db))" using assms(2) by (simp add: wf_accounts_def wf_table_def orders_of_def comp_def)
  then have "map id (subst_order (order_core r) (orders_of db)) = map id (orders_of db)"
    using mem by (intro subst_order_map [of _ "order_core r"]) simp_all
  then have same: "subst_order (order_core r) (orders_of db) = orders_of db" by simp
  from assms(3) show ?thesis
    using life_step.choose_payment [OF mem] life_step.cancel [OF mem] life_step.stay same by (auto simp: orders_of_put)
qed

lemma outcome_refines:
  assumes "order_outcome E now fair db db'" "wf_accounts db"
  shows "life_step (orders_of db) (orders_of db') \<and> wf_accounts db'"
  using assms
proof cases
  case unchanged
  then show ?thesis using assms(2) life_step.stay by simp
next
  case (paid oid cb aty aid d d')
  then show ?thesis using process_refines [OF paid(1)] assms(2) by (simp add: same_tables_facts)
next
  case (placed r x d)
  then show ?thesis using insert_refines [OF placed(1) assms(2)] by (simp add: same_tables_facts)
next
  case (updated r r')
  then show ?thesis using put_refines [OF updated(1) assms(2) updated(2)] assms(2) by (simp add: same_tables_facts)
next
  case (transferred uuid uid amount)
  from transfer_shape [OF transferred] obtain u where
    fresh: "\<not> list_ex (\<lambda>x. od_trade_no x = generate_trade_no now uuid) (rows (t_orders db))"
    and db': "db' = put_user now db (u\<lparr>us_commission_balance := us_commission_balance u - amount, us_balance := us_balance u + amount\<rparr>)
        \<lparr>t_orders := repo_create order_entity now (t_orders db) (transfer_order now uuid u uid amount)\<rparr>" by blast
  let ?d = "put_user now db (u\<lparr>us_commission_balance := us_commission_balance u - amount, us_balance := us_balance u + amount\<rparr>)"
  have "insert_order now ?d (transfer_order now uuid u uid amount) =
      Inr (new_row order_entity now (t_orders ?d) (transfer_order now uuid u uid amount), db')"
    using fresh by (simp add: insert_order_def db' put_user_def)
  moreover have "wf_accounts ?d" "orders_of ?d = orders_of db"
    using assms(2) by (simp_all add: orders_of_def put_user_def [of now db] wf_accounts_def users.wf_update)
  ultimately show ?thesis using insert_refines [of now ?d] by simp
qed

lemma order_op_refines:
  assumes "run_order_op E now op db = Inr db'" "wf_accounts db"
  shows "life_step (orders_of db) (orders_of db') \<and> wf_accounts db'"
  using outcome_refines [OF order_op_outcome [OF assms(1)] assms(2)] .

lemma serve_refines:
  "wf_accounts db \<Longrightarrow> life_step (orders_of db) (orders_of (serve E req db)) \<and> wf_accounts (serve E req db)"
  using order_op_refines [of E "fst req" "snd req" db] life_step.stay by (auto simp: serve_def split: sum.split)

lemma serve_all_refines:
  "wf_accounts db \<Longrightarrow> life_step\<^sup>*\<^sup>* (orders_of db) (orders_of (fold (serve E) reqs db)) \<and> wf_accounts (fold (serve E) reqs db)"
proof (induction reqs arbitrary: db)
  case (Cons req reqs)
  from serve_refines [OF Cons.prems] have s: "life_step (orders_of db) (orders_of (serve E req db))"
    and w: "wf_accounts (serve E req db)" by auto
  from Cons.IH [OF w] s show ?case by (auto intro: converse_rtranclp_into_rtranclp)
qed simp

lemma serve_all_inv: "wf_accounts db \<Longrightarrow> life_inv (orders_of db) \<Longrightarrow> life_inv (orders_of (fold (serve E) reqs db))"
  using serve_all_refines life_run_inv by blast

lemma life_inv_concrete:
  "life_inv (orders_of db) \<longleftrightarrow> distinct (map od_id (rows (t_orders db))) \<and> distinct (map od_trade_no (rows (t_orders db))) \<and>
     (\<forall>uid. count_where (\<lambda>r. od_user_id r = uid \<and> od_status r = 0) (rows (t_orders db)) \<le> 1)"
  by (simp add: life_inv_def orders_of_def comp_def count_where_map)

section \<open>Properties\<close>

text \<open>C1: The order service implements the life cycle \<open>life_step\<close>: whatever sequence of requests it
  serves (creation, checkout, notifications, cancellations, administration, the order job, commission
  transfers; failed ones are rolled back), the order table moves only by placing a pending order of a
  user who has none, choosing a payment for a pending order, cancelling a pending order, completing
  a pending or paid order, or recording a commission transfer.\<close>

theorem order_service_refines:
  assumes "wf_accounts db"
  shows "life_step\<^sup>*\<^sup>* (orders_of db) (orders_of (fold (serve E) reqs db))"
  using serve_all_refines [OF assms] by blast

definition sample_env :: order_env where
  "sample_env = \<lparr>oe_settings = sample_service, oe_tz = (\<lambda>_. 28800), oe_md5 = plain_md5\<rparr>"

definition sample_epay_method :: payment where
  "sample_epay_method = \<lparr>pm_id = 1, pm_uuid = ''pu'', pm_payment = ''EPay'', pm_name = ''n'', pm_icon = None,
     pm_config = [(''url'', JStr ''u''), (''pid'', JStr ''7''), (''key'', JStr ''k'')], pm_notify_domain = None,
     pm_handling_fee_fixed = Some 30, pm_handling_fee_percent = None, pm_enable = True, pm_sort = None,
     pm_created_at = 0, pm_updated_at = 0\<rparr>"

text \<open>A shop with one user, one plan and one payment method.\<close>

definition shop_db :: db where
  "shop_db = empty_db\<lparr>t_users := \<lparr>rows = [sample_user\<lparr>us_balance := 400\<rparr>], next_id = 2\<rparr>, t_plans := \<lparr>rows = [sample_plan], next_id = 2\<rparr>,
     t_payments := \<lparr>rows = [sample_epay_method], next_id = 2\<rparr>\<rparr>"

definition month_order :: order_create where
  "month_order = \<lparr>oc_plan_id = 1, oc_period = ''month_price'', oc_coupon_code = None, oc_deposit_amount = None\<rparr>"

definition shop_requests :: "(int \<times> order_op) list" where
  "shop_requests = [(100, CreateOrder ''abcdefgh-i'' 1 month_order), (101, CreateOrder ''bbcdefgh-i'' 1 month_order),
     (102, AdminMarkPaid ''100ABCDEFGH'' None), (103, CancelOrder ''100ABCDEFGH'' 1)]"

lemma shop_db_ok: "wf_accounts shop_db" "orders_of shop_db = []" "life_inv (orders_of shop_db)"
proof -
  show "wf_accounts shop_db" and o: "orders_of shop_db = []" by code_simp+
  show "life_inv (orders_of shop_db)" by (simp add: o life_inv_def)
qed

theorem order_service_refines_witness:
  "life_step\<^sup>*\<^sup>* [] (orders_of (fold (serve sample_env) shop_requests shop_db)) \<and>
     map od_status (orders_of (fold (serve sample_env) shop_requests shop_db)) = [3]"
proof
  show "life_step\<^sup>*\<^sup>* [] (orders_of (fold (serve sample_env) shop_requests shop_db))"
    using order_service_refines [OF shop_db_ok(1), of sample_env shop_requests] by (simp add: shop_db_ok(2))
  show "map od_status (orders_of (fold (serve sample_env) shop_requests shop_db)) = [3]" by code_simp
qed

text \<open>From a consistent order table, no sequence of requests gives a user two pending orders or two
  orders the same key or trade number.\<close>

theorem pending_orders_unique:
  assumes "wf_accounts db" "life_inv (orders_of db)" "db' = fold (serve E) reqs db"
  shows "count_where (\<lambda>r. od_user_id r = uid \<and> od_status r = 0) (rows (t_orders db')) \<le> 1 \<and>
     distinct (map od_id (rows (t_orders db'))) \<and> distinct (map od_trade_no (rows (t_orders db')))"
  using serve_all_inv [OF assms(1,2), of E reqs] assms(3) by (simp add: life_inv_concrete)

theorem pending_orders_unique_witness:
  "count_where (\<lambda>r. od_user_id r = 1 \<and> od_status r = 0)
     (rows (t_orders (fold (serve sample_env) (take 2 shop_requests) shop_db))) \<le> 1 \<and>
   has_pending_order (fold (serve sample_env) (take 2 shop_requests) shop_db) 1"
proof
  show "count_where (\<lambda>r. od_user_id r = 1 \<and> od_status r = 0)
     (rows (t_orders (fold (serve sample_env) (take 2 shop_requests) shop_db))) \<le> 1"
    using pending_orders_unique [OF shop_db_ok(1,3) refl] by blast
  show "has_pending_order (fold (serve sample_env) (take 2 shop_requests) shop_db) 1" by code_simp
qed

text \<open>C3: Over any history of requests to the order service (orders, payments, notifications, cancellations,
  administrators' updates and commission transfers), an order is never lost, and its user, plan, period, price,
  discount and balance share never change; its status moves only from pending to cancelled or from pending or paid
  to completed; a completed or cancelled order changes in nothing but its commission columns. Other services do
  not keep this: deleting an account removes its orders, and a failed manual payment on the back-office pages
  leaves a pending order marked as paid.\<close>

theorem settled_orders_final:
  assumes "wf_accounts db" "life_inv (orders_of db)" "order_by_id db i = Some r" "db' = fold (serve E) reqs db"
  shows "\<exists>r'. order_by_id db' i = Some r' \<and> order_terms r' = order_terms r \<and>
     (od_status r' = od_status r \<or> status_step (od_status r) (od_status r')) \<and>
     (od_status r \<in> {2, 3} \<longrightarrow> order_core r' = order_core r)"
proof -
  have "order_core r \<in> set (orders_of db)" using order_by_idD [OF assms(3)] by (simp add: orders_of_mem)
  with serve_all_refines [OF assms(1), of E reqs] life_run_rows [OF _ assms(2)]
  obtain x where x: "x \<in> set (orders_of db')" "row_after (order_core r) x" unfolding assms(4) by blast
  then obtain r' where r': "r' \<in> set (rows (t_orders db'))" "x = order_core r'" by (auto simp: orders_of_def)
  have wf: "wf_table order_entity (t_orders db')" using serve_all_refines [OF assms(1), of E reqs] by (simp add: assms(4) wf_accounts_def)
  have "od_id r' = i" using x(2) r'(2) order_by_idD [OF assms(3)] by (simp add: row_after_def)
  then have "order_by_id db' i = Some r'" using orders.get_unique [OF wf r'(1)] by (simp add: order_by_id_def)
  moreover have "order_terms (order_core y) = order_terms y" for y by (simp add: order_terms_def)
  ultimately show ?thesis using x(2) r'(2) order_core_eqD(2) [of r' r] by (auto simp: row_after_def split: if_splits)
qed

theorem settled_orders_final_witness:
  "\<exists>r'. order_by_id (fold (serve sample_env) shop_requests shop_db) 1 = Some r' \<and> od_status r' = 3 \<and> od_total_amount r' = 600"
proof -
  let ?d = "fold (serve sample_env) (take 2 shop_requests) shop_db"
  have w: "wf_accounts ?d" "life_inv (orders_of ?d)"
    using serve_all_refines serve_all_inv shop_db_ok by blast+
  have "case order_by_id ?d 1 of None \<Rightarrow> False | Some r \<Rightarrow> od_total_amount r = 600" by code_simp
  then obtain r where r: "order_by_id ?d 1 = Some r" "od_total_amount r = 600" by (auto split: option.splits)
  have run: "fold (serve sample_env) shop_requests shop_db = fold (serve sample_env) (drop 2 shop_requests) ?d"
    by (simp add: shop_requests_def)
  have "case order_by_id (fold (serve sample_env) shop_requests shop_db) 1 of None \<Rightarrow> False | Some r \<Rightarrow> od_status r = 3" by code_simp
  then obtain r' where r': "order_by_id (fold (serve sample_env) shop_requests shop_db) 1 = Some r'" "od_status r' = 3"
    by (auto split: option.splits)
  from settled_orders_final [OF w r(1) run] r' have "order_terms r' = order_terms r" by auto
  then have "od_total_amount (order_terms r') = od_total_amount (order_terms r)" by simp
  then show ?thesis using r' r(2) by (simp add: order_terms_def)
qed

end
