(* ===== verification/OrderMoney.thy ===== *)
theory OrderMoney
  imports OrderLifecycle
begin

text \<open>
  What orders cost and what they give: the price at creation, the effect of a completed payment on
  the account, balances that never become negative, capacity, the length of a subscription, and
  the conditions under which a payment notification completes an order.
\<close>

section \<open>The price\<close>

lemma use_balance_split:
  assumes "use_balance b amount = (x, rest)" "0 \<le> amount"
  shows "rest + or_zero x = amount \<and> 0 \<le> rest \<and> 0 \<le> or_zero x \<and> or_zero x \<le> max 0 b"
  using assms by (auto simp: use_balance_def split: if_splits)

lemma check_plan_saleD:
  "check_plan_sale now u p period db = Inr price \<Longrightarrow>
     plan_price p period = Some price \<and> 0 \<le> price \<and> period \<in> set price_periods"
  by (auto simp: check_plan_sale_def result_simps Let_def not_less split: option.splits)

lemma insert_order_row:
  assumes "insert_order now db r = Inr (x, d)"
  shows "x = new_row order_entity now (t_orders db) r \<and> order_by_trade_no d (od_trade_no r) = Some x \<and>
    d = db\<lparr>t_orders := repo_create order_entity now (t_orders db) r\<rparr>"
proof -
  from assms have new: "x = new_row order_entity now (t_orders db) r"
    and d: "d = db\<lparr>t_orders := repo_create order_entity now (t_orders db) r\<rparr>"
    and none: "find (\<lambda>x. od_trade_no x = od_trade_no r) (rows (t_orders db)) = None"
    by (auto simp: insert_order_def result_simps list_ex_iff find_None_iff)
  then show ?thesis by (simp add: order_by_trade_no_def find_append)
qed

text \<open>C21: A plan order is placed at the plan's price for its period: the amount to pay, the balance
  share and the coupon discount are non-negative and add up to that price, the balance share is
  covered by the user's balance at that moment, and creating the order moves no money.\<close>

theorem order_price_at_creation:
  assumes "create_order E now uuid uid data db = Inr (tn, db')" "oc_plan_id data \<noteq> 0" "user_by_id db uid = Some u"
  shows "\<exists>p price r. plan_by_id db (oc_plan_id data) = Some p \<and> plan_price p (oc_period data) = Some price \<and>
     order_by_trade_no db' tn = Some r \<and> od_status r = 0 \<and> od_user_id r = uid \<and> od_plan_id r = oc_plan_id data \<and>
     od_total_amount r + or_zero (od_balance_amount r) + or_zero (od_discount_amount r) = price \<and>
     0 \<le> od_total_amount r \<and> 0 \<le> or_zero (od_balance_amount r) \<and> 0 \<le> or_zero (od_discount_amount r) \<and>
     or_zero (od_balance_amount r) \<le> max 0 (us_balance u) \<and> t_users db' = t_users db \<and> t_coupons db' = t_coupons db"
proof -
  have id: "us_id u = uid" using user_by_idD [OF assms(3)] by simp
  from assms have c: "create_plan_order E now uuid u data db = Inr (tn, db')" by (simp add: create_order_def result_simps)
  from create_plan_shape [OF c] obtain p price r1 x d where p: "plan_by_id db (oc_plan_id data) = Some p"
    and price: "check_plan_sale now u p (oc_period data) db = Inr price"
    and r1: "if text_given (oc_coupon_code data)
      then apply_to_order (oe_codec E) now db (set_if (oc_coupon_code data) []) (draft_order now uuid u p data price) = Inr r1
      else r1 = draft_order now uuid u p data price"
    and ins: "insert_order now db (r1\<lparr>od_total_amount := snd (use_balance (us_balance u) (od_total_amount r1)),
        od_balance_amount := fst (use_balance (us_balance u) (od_total_amount r1))\<rparr>) = Inr (x, d)"
    and out: "tn = od_trade_no x"
      "db' = log_order_event now x ''order.created'' ''order created'' ''user'' (Some (us_id u)) (plan_order_data x) d" by blast
  have amounts: "od_total_amount r1 + or_zero (od_discount_amount r1) = price \<and> 0 \<le> od_total_amount r1 \<and>
      0 \<le> or_zero (od_discount_amount r1) \<and> od_status r1 = 0 \<and> od_user_id r1 = uid \<and> od_plan_id r1 = oc_plan_id data"
    using r1 id check_plan_saleD [OF price] by (auto split: if_splits dest!: apply_to_orderD)
  obtain bal rest where b: "use_balance (us_balance u) (od_total_amount r1) = (bal, rest)" by (cases "use_balance (us_balance u) (od_total_amount r1)")
  have split: "rest + or_zero bal = od_total_amount r1 \<and> 0 \<le> rest \<and> 0 \<le> or_zero bal \<and> or_zero bal \<le> max 0 (us_balance u)"
    using use_balance_split [OF b] amounts by blast
  note row = insert_order_row [OF ins]
  have "tn = od_trade_no r1" using out(1) row by simp
  then have "order_by_trade_no d tn = Some x" using conjunct1 [OF conjunct2 [OF row]] by simp
  then have "order_by_trade_no db' tn = Some x" by (simp add: order_by_trade_no_def out(2))
  moreover have "od_total_amount x = rest" "od_balance_amount x = bal" "od_discount_amount x = od_discount_amount r1"
    "od_status x = 0" "od_user_id x = uid" "od_plan_id x = oc_plan_id data" using row b amounts by simp_all
  moreover have "t_users db' = t_users db" "t_coupons db' = t_coupons db" using row out by simp_all
  ultimately show ?thesis using p check_plan_saleD [OF price] amounts split by (intro exI conjI) auto
qed

theorem order_price_at_creation_witness:
  "\<exists>tn db' r. create_order sample_env 100 ''abcdefgh-i'' 1 month_order shop_db = Inr (tn, db') \<and>
     order_by_trade_no db' tn = Some r \<and> od_total_amount r + or_zero (od_balance_amount r) = 1000"
proof -
  have "is_ok (create_order sample_env 100 ''abcdefgh-i'' 1 month_order shop_db)" by code_simp
  then obtain tn db' where c: "create_order sample_env 100 ''abcdefgh-i'' 1 month_order shop_db = Inr (tn, db')"
    by (auto elim: is_okE)
  have u: "user_by_id shop_db 1 = Some (sample_user\<lparr>us_balance := 400\<rparr>)" by code_simp
  have "oc_plan_id month_order \<noteq> 0" "plan_by_id shop_db (oc_plan_id month_order) = Some sample_plan"
    "plan_price sample_plan (oc_period month_order) = Some 1000" by code_simp+
  moreover have "case create_order sample_env 100 ''abcdefgh-i'' 1 month_order shop_db of Inl _ \<Rightarrow> False
      | Inr (tn, d) \<Rightarrow> map od_discount_amount (rows (t_orders d)) = [None]" by code_simp
  moreover from c this have "\<forall>r. order_by_trade_no db' tn = Some r \<longrightarrow> od_discount_amount r = None"
    by (auto dest!: order_by_trade_noD)
  ultimately show ?thesis using order_price_at_creation [OF c _ u] c by fastforce
qed

section \<open>The effect of a payment\<close>

text \<open>The user's row after a successful processing, and everybody else's.\<close>

lemma process_accounts:
  assumes "process_paid_order E now oid cb aty aid db = Inr db'" "wf_accounts db"
    and "order_by_id db oid = Some r" "od_status r \<in> {0, 1}"
  shows "\<exists>u u' v. user_by_id db (od_user_id r) = Some u \<and> account_after r u u' \<and>
     user_by_id db' (od_user_id r) = Some v \<and> user_core v = user_core u' \<and>
     (\<forall>i w. i \<noteq> od_user_id r \<longrightarrow> user_by_id db i = Some w \<longrightarrow> (\<exists>w'. user_by_id db' i = Some w' \<and> user_core w' = user_core w))"
proof -
  from process_shape [OF assms(1,2)] assms(3,4) obtain u u' c t where u: "user_by_id db (od_user_id r) = Some u"
    and u': "account_after r u u'" and f: "commission_frame (paid_db_of now cb r u' c t db) db'" by auto
  have id: "us_id u' = od_user_id r" using u' user_by_idD [OF u] by (simp add: account_after_def same_account_def)
  have at: "order_by_id db (od_id r) = Some r" using assms(3) order_by_idD [OF assms(3)] by simp
  have at': "user_by_id db (us_id u') = Some u" using u id by simp
  note reads = paid_db_of_reads [OF at at', where cb = cb and now = now and c = c and t = t]
  from commission_frame_user [OF f reads(2)] obtain v where v: "user_by_id db' (us_id u') = Some v" "user_core v = user_core u'" by auto
  have "\<exists>w'. user_by_id db' i = Some w' \<and> user_core w' = user_core w" if "i \<noteq> od_user_id r" "user_by_id db i = Some w" for i w
    using commission_frame_user [OF f, of i w] reads(3) [of i] that id by auto
  then show ?thesis using u u' v id by auto
qed

lemma process_again:
  assumes "process_paid_order E now oid cb aty aid db = Inr db'" "wf_accounts db"
  shows "process_paid_order E' now' oid cb' aty' aid' db' = Inr db'"
proof -
  from process_shape [OF assms] obtain r where r: "order_by_id db oid = Some r" and d: "od_status r \<notin> {0, 1} \<longrightarrow> db' = db" by blast
  show ?thesis
  proof (cases "od_status r \<in> {0, 1}")
    case True
    from process_completes [OF assms r True] obtain r' where r': "order_by_id db' oid = Some r'" "order_core r' = order_core (completed now cb r)" by blast
    then have "od_status r' = 3" using order_core_eqD(2) [OF r'(2)] by simp
    then show ?thesis using r' by (simp add: process_paid_order_def for_update)
  next
    case False
    then show ?thesis using r d by (auto simp: process_paid_order_def for_update)
  qed
qed

text \<open>C2: A paid order takes effect exactly once: completing it charges the user's balance the
  order's balance share (which the balance must cover) or, for a deposit, credits the amount and a
  non-negative bonus; nobody else's account changes, apart from commission; and processing the order
  again, for whatever reason (repeated notification, order job, manual marking), changes nothing.\<close>

theorem paid_order_takes_effect_once:
  assumes "process_paid_order E now oid cb aty aid db = Inr db'" "wf_accounts db"
    and "order_by_id db oid = Some r" "od_status r \<in> {0, 1}"
  shows "\<exists>r' u u'. order_by_id db' oid = Some r' \<and> od_status r' = 3 \<and>
     user_by_id db (od_user_id r) = Some u \<and> user_by_id db' (od_user_id r) = Some u' \<and>
     (if od_period r = ''deposit'' \<or> od_plan_id r = 0
      then us_balance u + od_total_amount r \<le> us_balance u'
      else max 0 (or_zero (od_balance_amount r)) \<le> max 0 (us_balance u) \<and>
        us_balance u' = us_balance u - max 0 (or_zero (od_balance_amount r))) \<and>
     (\<forall>i w. i \<noteq> od_user_id r \<longrightarrow> user_by_id db i = Some w \<longrightarrow>
        (\<exists>w'. user_by_id db' i = Some w' \<and> us_balance w' = us_balance w \<and> us_plan_id w' = us_plan_id w \<and> us_expired_at w' = us_expired_at w)) \<and>
     process_paid_order E' now' oid cb' aty' aid' db' = Inr db'"
proof -
  from process_accounts [OF assms] obtain u u' v where u: "user_by_id db (od_user_id r) = Some u" and a: "account_after r u u'"
    and v: "user_by_id db' (od_user_id r) = Some v" "user_core v = user_core u'"
    and others: "\<And>i w. i \<noteq> od_user_id r \<Longrightarrow> user_by_id db i = Some w \<Longrightarrow> \<exists>w'. user_by_id db' i = Some w' \<and> user_core w' = user_core w"
    by blast
  from process_completes [OF assms] obtain r' where r': "order_by_id db' oid = Some r'" "order_core r' = order_core (completed now cb r)" by blast
  have s: "od_status r' = 3" using order_core_eqD(2) [OF r'(2)] by simp
  have b: "us_balance v = us_balance u'" using user_core_eqD(2) [OF v(2)] .
  have acc: "if od_period r = ''deposit'' \<or> od_plan_id r = 0 then us_balance u + od_total_amount r \<le> us_balance v
      else max 0 (or_zero (od_balance_amount r)) \<le> max 0 (us_balance u) \<and>
        us_balance v = us_balance u - max 0 (or_zero (od_balance_amount r))"
    using a b by (auto simp: account_after_def max.commute)
  have "\<exists>w'. user_by_id db' i = Some w' \<and> us_balance w' = us_balance w \<and> us_plan_id w' = us_plan_id w \<and> us_expired_at w' = us_expired_at w"
    if "i \<noteq> od_user_id r" "user_by_id db i = Some w" for i w
    using others [OF that] user_core_eqD(2,3,4) by blast
  then show ?thesis using r'(1) s u v(1) acc process_again [OF assms(1,2)] by blast
qed

theorem paid_order_takes_effect_once_witness:
  "\<exists>db'. process_paid_order sample_env 200 1 None ''system'' None (serve sample_env (hd shop_requests) shop_db) = Inr db' \<and>
     process_paid_order sample_env 300 1 (Some ''x'') ''system'' None db' = Inr db' \<and>
     (\<exists>u'. user_by_id db' 1 = Some u' \<and> us_balance u' = 0)"
proof -
  let ?d = "serve sample_env (hd shop_requests) shop_db"
  have "is_ok (process_paid_order sample_env 200 1 None ''system'' None ?d)" "wf_accounts ?d" by code_simp+
  then obtain db' where p: "process_paid_order sample_env 200 1 None ''system'' None ?d = Inr db'" and w: "wf_accounts ?d"
    by (auto elim: is_okE)
  have "case order_by_id ?d 1 of None \<Rightarrow> False | Some r \<Rightarrow> od_status r = 0 \<and> od_user_id r = 1 \<and> od_plan_id r = 1 \<and>
      od_period r = ''month_price'' \<and> od_balance_amount r = Some 400" by code_simp
  then obtain r where r: "order_by_id ?d 1 = Some r" "od_status r = 0" "od_user_id r = 1" "od_plan_id r = 1"
    "od_period r = ''month_price''" "od_balance_amount r = Some 400" by (auto split: option.splits)
  have "case user_by_id ?d 1 of None \<Rightarrow> False | Some u \<Rightarrow> us_balance u = 400" by code_simp
  then show ?thesis
    using paid_order_takes_effect_once [OF p w r(1), where E' = sample_env and now' = 300 and cb' = "Some ''x''"
      and aty' = "''system''" and aid' = None] r p by (auto split: option.splits)
qed

section \<open>Balances\<close>

definition money_ok :: "db \<Rightarrow> bool" where
  "money_ok db \<longleftrightarrow> (\<forall>u\<in>set (rows (t_users db)). 0 \<le> us_balance u) \<and>
     (\<forall>r\<in>set (orders_of db). od_status r \<in> {0, 1} \<longrightarrow> fair_order r)"

lemma fair_order_core [simp]: "fair_order (order_core r) = fair_order r"
  by (simp add: fair_order_def)

lemma balances_core: "(\<forall>u\<in>set us. 0 \<le> us_balance u) \<longleftrightarrow> (\<forall>u\<in>set (map user_core us). 0 \<le> us_balance u)"
  by (simp add: user_core_def)

lemma money_ok_frame: "commission_frame db db' \<Longrightarrow> money_ok db' = money_ok db"
proof -
  assume f: "commission_frame db db'"
  then have "map user_core (rows (t_users db')) = map user_core (rows (t_users db))" by (simp add: commission_frame_def)
  then have "(\<forall>u\<in>set (rows (t_users db')). 0 \<le> us_balance u) = (\<forall>u\<in>set (rows (t_users db)). 0 \<le> us_balance u)"
    by (simp only: balances_core [of "rows (t_users db')"] balances_core [of "rows (t_users db)"])
  then show ?thesis by (simp only: money_ok_def orders_of_frame [OF f])
qed

lemma money_okD: "money_ok db \<Longrightarrow> r \<in> set (rows (t_orders db)) \<Longrightarrow> od_status r \<in> {0, 1} \<Longrightarrow> fair_order r"
  using orders_of_mem [of r db] unfolding money_ok_def by (metis fair_order_core order_core_fields(2))

lemma money_ok_same: "same_tables db db' \<Longrightarrow> money_ok db' = money_ok db"
  using same_tables_facts(1) [of db db'] by (simp add: money_ok_def same_tables_def)

lemma balances_update:
  "\<forall>u\<in>set (rows t). 0 \<le> us_balance u \<Longrightarrow> 0 \<le> us_balance v \<Longrightarrow> \<forall>u\<in>set (rows (repo_update user_entity now t v)). 0 \<le> us_balance u"
  by (auto simp: rows_repo_update)

lemma subst_order_ball: "\<forall>r\<in>set rs. P r \<Longrightarrow> P r' \<Longrightarrow> \<forall>r\<in>set (subst_order r' rs). P r"
  by (auto simp: subst_order_def)

lemma process_money:
  assumes "process_paid_order E now oid cb aty aid db = Inr db'" "wf_accounts db" "money_ok db"
  shows "money_ok db'"
proof -
  from process_shape [OF assms(1,2)] obtain r where r: "order_by_id db oid = Some r"
    and cases: "od_status r \<notin> {0, 1} \<and> db' = db \<or> od_status r \<in> {0, 1} \<and> (\<exists>u u' c t. user_by_id db (od_user_id r) = Some u \<and>
       account_after r u u' \<and> commission_frame (paid_db_of now cb r u' c t db) db')" by blast
  from cases show ?thesis
  proof
    assume *: "od_status r \<in> {0, 1} \<and> (\<exists>u u' c t. user_by_id db (od_user_id r) = Some u \<and>
       account_after r u u' \<and> commission_frame (paid_db_of now cb r u' c t db) db')"
    then obtain u u' c t where u: "user_by_id db (od_user_id r) = Some u" and a: "account_after r u u'"
      and f: "commission_frame (paid_db_of now cb r u' c t db) db'" by blast
    have "0 \<le> us_balance u" using user_by_idD [OF u] assms(3) by (simp add: money_ok_def)
    moreover have "fair_order r" using * order_by_idD [OF r] money_okD [OF assms(3)] by blast
    ultimately have b: "0 \<le> us_balance u'" using a by (auto simp: account_after_def fair_order_def split: if_splits)
    have "money_ok (paid_db_of now cb r u' c t db)"
      using assms(3) b unfolding money_ok_def paid_db_of_orders(2) paid_db_of_abs
      by (intro conjI balances_update subst_order_ball) simp_all
    then show ?thesis using money_ok_frame [OF f] by simp
  qed (use assms(3) in simp)
qed

lemma outcome_money:
  assumes "order_outcome E now True db db'" "wf_accounts db" "money_ok db"
  shows "money_ok db'"
  using assms(1)
proof cases
  case unchanged
  then show ?thesis using assms(3) by simp
next
  case (paid oid cb aty aid d d')
  then show ?thesis using process_money [OF paid(1)] assms(2,3) by (simp add: same_tables_facts money_ok_same)
next
  case (placed r x d)
  from insert_order_row [OF placed(1)] have d: "orders_of d = orders_of db @ [order_core (new_row order_entity now (t_orders db) r)]"
    "t_users d = t_users db" by (auto simp: orders_of_def)
  have "fair_order (new_row order_entity now (t_orders db) r)" using placed(4) by (simp add: fair_order_def)
  then have "money_ok d" using assms(3) by (auto simp: money_ok_def d)
  then show ?thesis using placed(5) by (simp add: money_ok_same)
next
  case (updated r r')
  have "od_status r \<in> {0, 1} \<longrightarrow> fair_order (order_core r)" using money_okD [OF assms(3) updated(1)] by simp
  then have "od_status (order_core r') \<in> {0, 1} \<longrightarrow> fair_order (order_core r')"
    using updated(2) order_core_fields(2) [of r] unfolding fair_order_def
    by (elim disjE conjE exE) (simp_all del: fair_order_core order_core_fields)
  then have "\<forall>x\<in>set (orders_of (put_order now db r')). od_status x \<in> {0, 1} \<longrightarrow> fair_order x"
    unfolding orders_of_put using assms(3) by (intro subst_order_ball) (simp_all add: money_ok_def)
  moreover have "t_users (put_order now db r') = t_users db" by (simp add: put_order_def)
  ultimately have "money_ok (put_order now db r')" using assms(3) by (simp add: money_ok_def)
  then show ?thesis using updated(3) by (simp add: money_ok_same)
next
  case (transferred uuid uid amount)
  from transfer_shape [OF transferred] obtain u where u: "user_by_id db uid = Some u" "0 < amount"
    and db': "db' = put_user now db (u\<lparr>us_commission_balance := us_commission_balance u - amount, us_balance := us_balance u + amount\<rparr>)
        \<lparr>t_orders := repo_create order_entity now (t_orders db) (transfer_order now uuid u uid amount)\<rparr>" by blast
  have "0 \<le> us_balance u + amount" using user_by_idD [OF u(1)] u(2) assms(3) by (auto simp: money_ok_def)
  then have "\<forall>v\<in>set (rows (t_users db')). 0 \<le> us_balance v"
    using assms(3) by (auto simp: money_ok_def db' put_user_def rows_repo_update)
  then show ?thesis using assms(3) by (auto simp: money_ok_def db' orders_of_def)
qed

lemma serve_all_money:
  "wf_accounts db \<Longrightarrow> money_ok db \<Longrightarrow> list_all (fair_request \<circ> snd) reqs \<Longrightarrow> money_ok (fold (serve E) reqs db)"
proof (induction reqs arbitrary: db)
  case (Cons req reqs)
  have "money_ok (serve E req db)"
    using outcome_money [OF _ Cons.prems(1,2), of E "fst req"] order_op_outcome [of E "fst req" "snd req" db] Cons.prems
    by (auto simp: serve_def split: sum.split)
  then show ?case using Cons.IH [of "serve E req db"] serve_refines [OF Cons.prems(1)] Cons.prems(3) by simp
qed simp

text \<open>C19: As long as administrators assign no order of a negative amount, no sequence of requests to the order
  service (orders, payments, notifications, cancellations and commission transfers) makes a balance negative.
  What an administrator writes into an account and what a gift card adds are not part of these requests.\<close>

theorem balances_stay_nonnegative:
  assumes "wf_accounts db" "money_ok db" "list_all (fair_request \<circ> snd) reqs"
    and "u \<in> set (rows (t_users (fold (serve E) reqs db)))"
  shows "0 \<le> us_balance u"
  using serve_all_money [OF assms(1-3), of E] assms(4) unfolding money_ok_def by blast

theorem balances_stay_nonnegative_witness:
  "\<exists>u\<in>set (rows (t_users (fold (serve sample_env) shop_requests shop_db))). us_balance u = 0 \<and> 0 \<le> us_balance u"
proof -
  have "money_ok shop_db" "list_all (fair_request \<circ> snd) shop_requests" by code_simp+
  note pos = balances_stay_nonnegative [OF shop_db_ok(1) this, of _ sample_env]
  have "list_ex (\<lambda>u. us_balance u = 0) (rows (t_users (fold (serve sample_env) shop_requests shop_db)))" by code_simp
  then show ?thesis using pos unfolding list_ex_iff by blast
qed

text \<open>The restriction is necessary: an administrator may assign an order of period \<open>deposit\<close> and of
  a negative amount, and completing it takes the amount from the user's balance without a check.\<close>

theorem assigned_deposit_overdraws:
  "\<exists>u\<in>set (rows (t_users (fold (serve sample_env)
      [(100, AdminAssignOrder ''abcdefgh-i'' \<lparr>oa_email = ''a@b.c'', oa_plan_id = 1, oa_period = ''deposit'', oa_total_amount = - 500\<rparr> None),
       (101, AdminMarkPaid ''100ABCDEFGH'' None)] shop_db))). us_balance u = - 100"
proof -
  have "list_ex (\<lambda>u. us_balance u = - 100) (rows (t_users (fold (serve sample_env)
      [(100, AdminAssignOrder ''abcdefgh-i'' \<lparr>oa_email = ''a@b.c'', oa_plan_id = 1, oa_period = ''deposit'', oa_total_amount = - 500\<rparr> None),
       (101, AdminMarkPaid ''100ABCDEFGH'' None)] shop_db)))" by code_simp
  then show ?thesis by (simp only: list_ex_iff)
qed

section \<open>Payment notifications\<close>

text \<open>C7: A notification completes an order only if it is genuine: some enabled payment method with the
  UUID of the URL and the gateway named there has a secret key under which the notification carries
  the right signature, it reports success for the trade number of an order that was sent to that
  payment method, and it states exactly the amount due, handling fee included. The answer
  \<open>success\<close> is given under the same conditions, and then the order is pending no longer.\<close>

theorem notification_is_genuine:
  assumes "handle_payment_notify E now gw uuid params db = Inr (res, db')" "wf_accounts db" "db' \<noteq> db \<or> res"
  shows "\<exists>p g key tn r r'. payment_by_uuid db uuid = Inr (Some p) \<and> pm_enable p \<and>
     canonical_gateway_name gw = canonical_gateway_name (pm_payment p) \<and>
     create_payment_gateway (oe_codec E) (pm_payment p) (JObj (pm_config p)) = Inr g \<and>
     ep_key g = JStr key \<and> param params ''sign'' = JStr (oe_md5 E (notify_text (oe_codec E) params @ key)) \<and>
     param params ''trade_status'' = JStr ''TRADE_SUCCESS'' \<and>
     param params ''out_trade_no'' = JStr tn \<and> order_by_trade_no db tn = Some r \<and> od_payment_id r = Some (pm_id p) \<and>
     money_to_cents (money_text (oe_codec E) params) = Inr (Some (order_due r)) \<and>
     order_by_id db' (od_id r) = Some r' \<and> od_status r' \<noteq> 0 \<and> res"
proof -
  from assms(1,3) notify_shape [OF assms(1)] obtain p g n where p: "payment_by_uuid db uuid = Inr (Some p)" "pm_enable p"
    and g: "open_gateway E gw p = Inr (Some g)"
    and n: "epay_verify_notify (oe_codec E) (oe_md5 E) g params = Inr n" "nr_success n"
    and o: "notify_order E now p n db = Inr (res, db')" by blast
  from g have gateway: "canonical_gateway_name gw = canonical_gateway_name (pm_payment p)"
    "create_payment_gateway (oe_codec E) (pm_payment p) (JObj (pm_config p)) = Inr g"
    by (auto simp: open_gateway_def result_simps split: sum.splits if_splits)
  from verify_notify_signed [OF n] obtain key where key: "ep_key g = JStr key"
    "param params ''sign'' = JStr (oe_md5 E (notify_text (oe_codec E) params @ key))" "param params ''trade_status'' = JStr ''TRADE_SUCCESS''"
    and t: "nr_trade_no n = param params ''out_trade_no''"
    and m: "\<exists>a. nr_paid_amount n = Some a \<and> money_to_cents (money_text (oe_codec E) params) = Inr (Some a)" by auto
  from notify_order_shape [OF o] assms(3) obtain tn r where r: "res" "nr_trade_no n = JStr tn" "order_by_trade_no db tn = Some r"
    "od_payment_id r = Some (pm_id p)" "nr_paid_amount n = Some (order_due r)"
    and step: "if od_status r \<in> {0, 1}
      then \<exists>cb. nr_callback_no n = JStr cb \<and> process_paid_order E now (od_id r) (Some cb) ''system'' None db = Inr db' else db' = db"
    by blast
  have at: "order_by_id db (od_id r) = Some r"
    using orders.get_unique [of "t_orders db" r] order_by_trade_noD [OF r(3)] assms(2) by (simp add: wf_accounts_def order_by_id_def)
  obtain r' where r': "order_by_id db' (od_id r) = Some r'" "od_status r' \<noteq> 0"
  proof (cases "od_status r \<in> {0, 1}")
    case True
    then obtain cb where "process_paid_order E now (od_id r) (Some cb) ''system'' None db = Inr db'" using step by auto
    from process_completes [OF this assms(2) at True] obtain r' where r': "order_by_id db' (od_id r) = Some r'"
      "order_core r' = order_core (completed now (Some cb) r)" by blast
    from that [OF r'(1)] show ?thesis using order_core_eqD(2) [OF r'(2)] by simp
  next
    case False
    with step at that show ?thesis by simp
  qed
  have money: "money_to_cents (money_text (oe_codec E) params) = Inr (Some (order_due r))" using m r(5) by auto
  show ?thesis
    by (rule exI [of _ p], rule exI [of _ g], rule exI [of _ key], rule exI [of _ tn], rule exI [of _ r], rule exI [of _ r'], intro conjI)
      (rule p gateway key r(2) [unfolded t] r(3,4) money r' r(1))+
qed

text \<open>The shop with an order of 10 that was sent to the gateway; \<open>sample_notify\<close> reports its payment.\<close>

definition sent_db :: db where
  "sent_db = shop_db\<lparr>t_orders := \<lparr>rows = [sample_order\<lparr>od_id := 1, od_payment_id := Some 1\<rparr>], next_id = 2\<rparr>\<rparr>"

theorem notification_is_genuine_witness:
  "\<exists>db' r'. handle_payment_notify sample_env 102 ''epay'' ''pu'' sample_notify sent_db = Inr (True, db') \<and>
     order_by_id db' 1 = Some r' \<and> od_status r' \<noteq> 0"
proof -
  have "case handle_payment_notify sample_env 102 ''epay'' ''pu'' sample_notify sent_db of Inl _ \<Rightarrow> False | Inr (b, _) \<Rightarrow> b" by code_simp
  then obtain db' where h: "handle_payment_notify sample_env 102 ''epay'' ''pu'' sample_notify sent_db = Inr (True, db')"
    by (auto split: sum.splits)
  have "wf_accounts sent_db" "map od_id (rows (t_orders sent_db)) = [1]" by code_simp+
  with notification_is_genuine [OF h _ disjI2 [OF TrueI]] obtain tn r r' where
    "order_by_trade_no sent_db tn = Some r" "order_by_id db' (od_id r) = Some r'" "od_status r' \<noteq> 0"
    by blast
  moreover from this(1) have "r \<in> set (rows (t_orders sent_db))" using order_by_trade_noD by blast
  then have "od_id r \<in> set (map od_id (rows (t_orders sent_db)))" by simp
  then have "od_id r = 1" using \<open>map od_id (rows (t_orders sent_db)) = [1]\<close> by simp
  ultimately show ?thesis using h by auto
qed

section \<open>Capacity\<close>

text \<open>The users that count against a plan's capacity.\<close>

definition occupies :: "int \<Rightarrow> int \<Rightarrow> user \<Rightarrow> bool" where
  "occupies now pid u \<longleftrightarrow> us_plan_id u = Some pid \<and> now \<le> us_expired_at u"

lemma active_users_occupies: "active_users_of_plan now db pid = count_where (occupies now pid) (rows (t_users db))"
  by (simp add: active_users_of_plan_def occupies_def [abs_def])

lemma occupies_core [simp]: "occupies now pid (user_core u) = occupies now pid u"
  by (simp add: occupies_def user_core_def)

lemma active_users_frame:
  assumes "commission_frame db db'"
  shows "active_users_of_plan now db' pid = active_users_of_plan now db pid"
proof -
  have core: "active_users_of_plan now d pid = count_where (occupies now pid) (map user_core (rows (t_users d)))" for d
    by (simp add: active_users_occupies count_where_map)
  from assms have "map user_core (rows (t_users db')) = map user_core (rows (t_users db))" by (simp add: commission_frame_def)
  then show ?thesis by (simp only: core)
qed

lemma count_update_user:
  assumes "wf_table user_entity t" "repo_get user_entity t (us_id u') = Some u"
  shows "count_where (occupies now pid) (rows (repo_update user_entity now' t u')) =
     count_where (occupies now pid) (rows t) - (if occupies now pid u then 1 else 0) + (if occupies now pid u' then 1 else 0)"
proof -
  have as_sum: "count_where P rs = sum_list (map (\<lambda>x. if P x then 1 else 0) rs)" for P :: "user \<Rightarrow> bool" and rs
    by (induction rs) auto
  have touch: "occupies now pid (e_touch user_entity now' x) = occupies now pid x" for x
    by (simp add: occupies_def user_entity_def)
  show ?thesis
    using users.sum_update [of t u' u "\<lambda>x. if occupies now pid x then 1 else 0" now'] assms
    by (simp add: as_sum occupies_def user_entity_def)
qed

lemma apply_plan_occupies:
  assumes "apply_plan tz now r p u = Inr u'" "od_period r \<noteq> ''deposit''" "occupies now pid u'" "\<not> occupies now pid u"
  shows "pid = pl_id p \<and> od_period r \<noteq> ''reset_price''"
  using assms by (auto simp: apply_plan_def occupies_def result_simps reset_traffic_def entitle_def Let_def split: if_splits option.splits)

text \<open>The row of the user before and after a plan order was processed.\<close>

lemma process_plan_user:
  assumes "process_paid_order E now oid cb aty aid db = Inr db'" "wf_accounts db"
    and "order_by_id db oid = Some r" "od_status r \<in> {0, 1}" "od_period r \<noteq> ''deposit''" "od_plan_id r \<noteq> 0"
  shows "\<exists>p u u1 u' c t. plan_by_id db (od_plan_id r) = Some p \<and> user_by_id db (od_user_id r) = Some u \<and>
     charge_balance r u = Inr u1 \<and> apply_plan (oe_tz E) now r p u1 = Inr u' \<and> us_id u' = od_user_id r \<and>
     (requires_capacity_slot now (us_plan_id u) (Some (us_expired_at u)) (pl_id p) (od_period r) \<longrightarrow>
        ensure_capacity now (pl_id p) (pl_capacity_limit p) db = Inr ()) \<and>
     commission_frame (paid_db_of now cb r u' c t db) db'"
proof -
  from process_fulfils [OF assms(1,2)] assms(3,4) obtain u u' c t where u: "user_by_id db (od_user_id r) = Some u"
    and f: "fulfilled E now r db u u'" and fr: "commission_frame (paid_db_of now cb r u' c t db) db'" by auto
  have "us_id u' = od_user_id r" using fulfilled_account [OF f] user_by_idD [OF u] by (simp add: account_after_def same_account_def)
  then show ?thesis using u f fr assms(5,6) unfolding fulfilled_def by auto blast+
qed

lemma process_active_users:
  assumes "wf_accounts db" "us_id u' = uid" "user_by_id db uid = Some u" "commission_frame (paid_db_of now cb r u' c t db) db'"
  shows "active_users_of_plan now db' pid =
     active_users_of_plan now db pid - (if occupies now pid u then 1 else 0) + (if occupies now pid u' then 1 else 0)"
proof -
  have "active_users_of_plan now (paid_db_of now cb r u' c t db) pid =
     active_users_of_plan now db pid - (if occupies now pid u then 1 else 0) + (if occupies now pid u' then 1 else 0)"
    using count_update_user [of "t_users db" u' u now pid now] assms(1-3)
    by (simp only: active_users_occupies paid_db_of_orders(2) wf_accounts_def user_by_id_def)
  then show ?thesis using active_users_frame [OF assms(4)] by simp
qed

text \<open>C20: Completing a plan order never oversells: the number of active users of a plan with a capacity
  limit stays within the limit (or does not grow, if the limit was lowered below it), and no other
  plan gains a user.\<close>

theorem capacity_not_exceeded:
  assumes "process_paid_order E now oid cb aty aid db = Inr db'" "wf_accounts db"
    and "order_by_id db oid = Some r" "od_status r \<in> {0, 1}" "od_period r \<noteq> ''deposit''" "od_plan_id r \<noteq> 0"
  shows "\<exists>p. plan_by_id db (od_plan_id r) = Some p \<and>
     (\<forall>limit. pl_capacity_limit p = Some limit \<longrightarrow> 0 < limit \<longrightarrow>
        active_users_of_plan now db' (pl_id p) \<le> max limit (active_users_of_plan now db (pl_id p))) \<and>
     (\<forall>pid. pid \<noteq> pl_id p \<longrightarrow> active_users_of_plan now db' pid \<le> active_users_of_plan now db pid)"
proof -
  from process_plan_user [OF assms] obtain p u u1 u' c t where p: "plan_by_id db (od_plan_id r) = Some p"
    and u: "user_by_id db (od_user_id r) = Some u" and c: "charge_balance r u = Inr u1"
    and a: "apply_plan (oe_tz E) now r p u1 = Inr u'" and id: "us_id u' = od_user_id r"
    and cap: "requires_capacity_slot now (us_plan_id u) (Some (us_expired_at u)) (pl_id p) (od_period r) \<longrightarrow>
        ensure_capacity now (pl_id p) (pl_capacity_limit p) db = Inr ()"
    and f: "commission_frame (paid_db_of now cb r u' c t db) db'" by blast
  note n = process_active_users [OF assms(2) id u f]
  have u1: "occupies now pid u1 = occupies now pid u" for pid using charge_balanceD [OF c] by (simp add: occupies_def)
  have new: "pid = pl_id p \<and> od_period r \<noteq> ''reset_price''" if "occupies now pid u'" "\<not> occupies now pid u" for pid
    using apply_plan_occupies [OF a assms(5) that(1)] that(2) u1 by simp
  have "active_users_of_plan now db' (pl_id p) \<le> max limit (active_users_of_plan now db (pl_id p))"
    if l: "pl_capacity_limit p = Some limit" "0 < limit" for limit
  proof (cases "occupies now (pl_id p) u' \<and> \<not> occupies now (pl_id p) u")
    case True
    then have "requires_capacity_slot now (us_plan_id u) (Some (us_expired_at u)) (pl_id p) (od_period r)"
      using new [of "pl_id p"] by (auto simp: requires_capacity_slot_def occupies_def is_user_active_def)
    then have "active_users_of_plan now db (pl_id p) < limit" using cap l by (auto simp: ensure_capacity_def result_simps)
    then show ?thesis using n [of "pl_id p"] True by simp
  next
    case False
    then show ?thesis using n [of "pl_id p"] by auto
  qed
  moreover have "active_users_of_plan now db' pid \<le> active_users_of_plan now db pid" if "pid \<noteq> pl_id p" for pid
    using n [of pid] new [of pid] that by auto
  ultimately show ?thesis using p by blast
qed

lemma placed_order_paid:
  "\<exists>db' r. process_paid_order sample_env 200 1 None ''system'' None (serve sample_env (hd shop_requests) shop_db) = Inr db' \<and>
     wf_accounts (serve sample_env (hd shop_requests) shop_db) \<and>
     order_by_id (serve sample_env (hd shop_requests) shop_db) 1 = Some r \<and> od_status r = 0 \<and> od_user_id r = 1 \<and> od_plan_id r = 1 \<and>
     od_period r = ''month_price''"
proof -
  let ?d = "serve sample_env (hd shop_requests) shop_db"
  have "is_ok (process_paid_order sample_env 200 1 None ''system'' None ?d)" "wf_accounts ?d" by code_simp+
  moreover have "case order_by_id ?d 1 of None \<Rightarrow> False | Some r \<Rightarrow> od_status r = 0 \<and> od_user_id r = 1 \<and> od_plan_id r = 1 \<and>
      od_period r = ''month_price''" by code_simp
  ultimately show ?thesis by (auto elim!: is_okE split: option.splits)
qed

theorem capacity_not_exceeded_witness:
  "\<exists>db'. process_paid_order sample_env 200 1 None ''system'' None (serve sample_env (hd shop_requests) shop_db) = Inr db' \<and>
     active_users_of_plan 200 db' 1 \<le> 10"
proof -
  let ?d = "serve sample_env (hd shop_requests) shop_db"
  from placed_order_paid obtain db' r where p: "process_paid_order sample_env 200 1 None ''system'' None ?d = Inr db'" "wf_accounts ?d"
    "order_by_id ?d 1 = Some r" and r: "od_status r = 0" "od_plan_id r = 1" "od_period r = ''month_price''" by blast
  have d: "plan_by_id ?d 1 = Some sample_plan" "active_users_of_plan 200 ?d 1 = 0" "pl_id sample_plan = 1"
    "pl_capacity_limit sample_plan = Some 10" by code_simp+
  show ?thesis using capacity_not_exceeded [OF p] r d p(1) by auto
qed

section \<open>The length of a subscription\<close>




end
