(* ===== verification/Giftcards.thy ===== *)
theory Giftcards
  imports Samples LogEvents
begin

text \<open>
  \<open>app/services/giftcard.py\<close>: administration of gift cards and their redemption (balance, days,
  traffic, traffic reset, plan). As for coupons, the random codes are parameters and a handler
  returns the row of which the code returns a view.
\<close>

definition gib :: int where
  "gib = 1024 * 1024 * 1024"

section \<open>Codes and payloads\<close>

definition normalize_giftcard_code :: "string \<Rightarrow> exn + string" where
  "normalize_giftcard_code c = (let c' = upper (strip c) in guardE (c' = []) (BadRequest ''empty gift card code'') (Inr c'))"

definition generate_giftcard_code :: "string list \<Rightarrow> db \<Rightarrow> exn + string" where
  "generate_giftcard_code rnd db =
     first_free (Conflict ''gift card code generation'') (giftcard_code_exists db) (take 100 rnd)"

definition ensure_giftcard_code_available :: "db \<Rightarrow> string \<Rightarrow> exn + unit" where
  "ensure_giftcard_code_available db c =
     bindE (giftcard_code_exists db c) (\<lambda>b. guardE b (Conflict ''gift card code exists'') (Inr ()))"

text \<open>\<open>_validate_payload\<close> on the merged payload, where a column may be an explicit null.\<close>

definition validate_giftcard :: "int option \<Rightarrow> int option \<Rightarrow> int option \<Rightarrow> int option \<Rightarrow> exn + unit" where
  "validate_giftcard ty started ended pid =
     guardE (ty \<notin> {Some 1, Some 2, Some 3, Some 4, Some 5}) (BadRequest ''gift card type'') (
     case (started, ended) of
       (Some a, Some b) \<Rightarrow>
         guardE (b \<le> a) (BadRequest ''gift card period'') (
         guardE (ty = Some 5 \<and> pid = None) (BadRequest ''plan gift card without plan'') (Inr ()))
     | _ \<Rightarrow> Inl TypeError)"

text \<open>The used users are a JSON list of numbers; anything else in the text is ignored.\<close>

definition used_user :: "json \<Rightarrow> int list" where
  "used_user v = (case v of
       JInt n \<Rightarrow> if 0 \<le> n then [n] else []
     | JStr s \<Rightarrow> if isdigit s then [int (nat_of_digits s)] else []
     | _ \<Rightarrow> [])"

definition parse_used_users :: "codec \<Rightarrow> string option \<Rightarrow> int list" where
  "parse_used_users C v =
     (case v of
        None \<Rightarrow> []
      | Some s \<Rightarrow> if s = [] then [] else (case loads C s of Some (JArr xs) \<Rightarrow> concat (map used_user xs) | _ \<Rightarrow> []))"

section \<open>Administration\<close>

definition get_giftcard :: "int \<Rightarrow> db \<Rightarrow> exn + giftcard" where
  "get_giftcard i db = (case giftcard_by_id db i of None \<Rightarrow> Inl (NotFound ''gift card'') | Some c \<Rightarrow> Inr c)"

record giftcard_create =
  gf_code :: "string option"
  gf_name :: string
  gf_type :: int
  gf_value :: "int option"
  gf_plan_id :: "int option"
  gf_limit_use :: "int option"
  gf_started_at :: int
  gf_ended_at :: int

definition new_giftcard :: "giftcard_create \<Rightarrow> string \<Rightarrow> giftcard" where
  "new_giftcard data code =
     \<lparr>gc_id = 0, gc_code = code, gc_name = gf_name data, gc_type = gf_type data, gc_value = gf_value data,
       gc_plan_id = gf_plan_id data, gc_limit_use = gf_limit_use data, gc_used_user_ids = None,
       gc_started_at = gf_started_at data, gc_ended_at = gf_ended_at data, gc_created_at = 0, gc_updated_at = 0\<rparr>"

definition insert_giftcard :: "int \<Rightarrow> db \<Rightarrow> giftcard \<Rightarrow> giftcard \<times> db" where
  "insert_giftcard now db c =
     (new_row giftcard_entity now (t_giftcards db) c, db\<lparr>t_giftcards := repo_create giftcard_entity now (t_giftcards db) c\<rparr>)"

definition validate_new_giftcard :: "giftcard_create \<Rightarrow> exn + unit" where
  "validate_new_giftcard data =
     validate_giftcard (Some (gf_type data)) (Some (gf_started_at data)) (Some (gf_ended_at data)) (gf_plan_id data)"

definition create_giftcard :: "int \<Rightarrow> string list \<Rightarrow> giftcard_create \<Rightarrow> db \<Rightarrow> exn + giftcard \<times> db" where
  "create_giftcard now rnd data db =
     bindE (case gf_code data of
              None \<Rightarrow> generate_giftcard_code rnd db
            | Some c \<Rightarrow> if c = [] then generate_giftcard_code rnd db else Inr c) (\<lambda>raw.
     bindE (normalize_giftcard_code raw) (\<lambda>code.
     bindE (ensure_giftcard_code_available db code) (\<lambda>_.
     bindE (validate_new_giftcard data) (\<lambda>_.
     Inr (insert_giftcard now db (new_giftcard data code))))))"

record giftcard_update =
  gu_code :: "string option option"
  gu_name :: "string option option"
  gu_type :: "int option option"
  gu_value :: "int option option"
  gu_plan_id :: "int option option"
  gu_limit_use :: "int option option"
  gu_used_user_ids :: "string option option"
  gu_started_at :: "int option option"
  gu_ended_at :: "int option option"

definition update_giftcard :: "int \<Rightarrow> int \<Rightarrow> giftcard_update \<Rightarrow> db \<Rightarrow> exn + giftcard \<times> db" where
  "update_giftcard now i data db =
     (case giftcard_by_id db i of
        None \<Rightarrow> Inl (NotFound ''gift card'')
      | Some item \<Rightarrow>
          bindE (case given (gu_code data) of
                   None \<Rightarrow> Inr (gc_code item)
                 | Some c \<Rightarrow> bindE (normalize_giftcard_code c) (\<lambda>code.
                     if code \<noteq> gc_code item then bindE (ensure_giftcard_code_available db code) (\<lambda>_. Inr code) else Inr code)) (\<lambda>code.
          bindE (validate_giftcard (set_if (gu_type data) (Some (gc_type item))) (set_if (gu_started_at data) (Some (gc_started_at item)))
                   (set_if (gu_ended_at data) (Some (gc_ended_at item))) (set_if (gu_plan_id data) (gc_plan_id item))) (\<lambda>_.
          guardE (explicit_null (gu_code data) \<or> explicit_null (gu_name data)) IntegrityError
            (let item' = item\<lparr>gc_code := code, gc_name := set_if (given (gu_name data)) (gc_name item),
                   gc_type := set_if (given (gu_type data)) (gc_type item), gc_value := set_if (gu_value data) (gc_value item),
                   gc_plan_id := set_if (gu_plan_id data) (gc_plan_id item), gc_limit_use := set_if (gu_limit_use data) (gc_limit_use item),
                   gc_used_user_ids := set_if (gu_used_user_ids data) (gc_used_user_ids item),
                   gc_started_at := set_if (given (gu_started_at data)) (gc_started_at item),
                   gc_ended_at := set_if (given (gu_ended_at data)) (gc_ended_at item)\<rparr>
             in Inr (item', put_giftcard now db item')))))"

definition delete_giftcard :: "int \<Rightarrow> db \<Rightarrow> exn + db" where
  "delete_giftcard i db =
     (case giftcard_by_id db i of
        None \<Rightarrow> Inl (NotFound ''gift card'')
      | Some item \<Rightarrow> Inr (db\<lparr>t_giftcards := repo_delete giftcard_entity (t_giftcards db) item\<rparr>))"

fun giftcard_loop :: "int \<Rightarrow> (nat \<Rightarrow> string list) \<Rightarrow> nat \<Rightarrow> giftcard_create \<Rightarrow> db \<Rightarrow> exn + giftcard list \<times> db" where
  "giftcard_loop now rnd 0 data db = Inr ([], db)"
| "giftcard_loop now rnd (Suc n) data db =
     bindE (generate_giftcard_code (rnd n) db) (\<lambda>code.
     bindE (validate_new_giftcard data) (\<lambda>_.
     let (item, db1) = insert_giftcard now db (new_giftcard data code) in
     bindE (giftcard_loop now rnd n data db1) (\<lambda>(items, db2). Inr (item # items, db2))))"

definition generate_giftcards :: "int \<Rightarrow> (nat \<Rightarrow> string list) \<Rightarrow> int \<Rightarrow> giftcard_create \<Rightarrow> db \<Rightarrow> exn + giftcard list \<times> db" where
  "generate_giftcards now rnd n data db =
     guardE (n < 1 \<or> 500 < n) (BadRequest ''generate count'') (giftcard_loop now rnd (nat n) data db)"

section \<open>Redemption\<close>

definition apply_plan_giftcard :: "int \<Rightarrow> giftcard \<Rightarrow> user \<Rightarrow> db \<Rightarrow> exn + user" where
  "apply_plan_giftcard now c u db =
     guardE (us_plan_id u \<noteq> None \<and> us_expired_at u \<noteq> 0 \<and> now < us_expired_at u) (BadRequest ''subscription not expired'') (
     case gc_plan_id c of
       None \<Rightarrow> Inl (BadRequest ''gift card without plan'')
     | Some pid \<Rightarrow>
         (case plan_by_id_for_update db pid of
            None \<Rightarrow> Inl (BadRequest ''plan of the gift card does not exist'')
          | Some p \<Rightarrow> Inr (u\<lparr>us_plan_id := Some (pl_id p), us_group_id := Some (pl_group_id p),
              us_transfer_enable := pl_transfer_enable p, us_device_limit := pl_device_limit p,
              us_speed_limit := pl_speed_limit p, us_u := 0, us_d := 0,
              us_expired_at := (if gc_value c = Some 0 then 4102444800 else now + or_zero (gc_value c) * 86400)\<rparr>)))"

definition giftcard_effect :: "int \<Rightarrow> giftcard \<Rightarrow> user \<Rightarrow> db \<Rightarrow> exn + user" where
  "giftcard_effect now c u db =
     (let v = or_zero (gc_value c) in
      if gc_type c = 1 then Inr (u\<lparr>us_balance := us_balance u + v\<rparr>)
      else if gc_type c = 2 then
        guardE (v \<le> 0) (BadRequest ''days'') (Inr (u\<lparr>us_expired_at := max (us_expired_at u) now + v * 86400\<rparr>))
      else if gc_type c = 3 then
        guardE (v \<le> 0) (BadRequest ''traffic'') (Inr (u\<lparr>us_transfer_enable := us_transfer_enable u + v * gib\<rparr>))
      else if gc_type c = 4 then Inr (u\<lparr>us_u := 0, us_d := 0\<rparr>)
      else if gc_type c = 5 then apply_plan_giftcard now c u db
      else Inl (BadRequest ''unknown gift card type''))"

definition usable_giftcard :: "codec \<Rightarrow> int \<Rightarrow> int \<Rightarrow> giftcard \<Rightarrow> db \<Rightarrow> exn + int list" where
  "usable_giftcard C now uid c db =
     guardE (now < gc_started_at c) (BadRequest ''not started'') (
     guardE (gc_ended_at c < now) (BadRequest ''expired'') (
     guardE (case gc_limit_use c of None \<Rightarrow> False | Some n \<Rightarrow> n \<le> 0) (BadRequest ''used up'') (
     guardE (redemption_by_card_and_user db (gc_id c) uid \<noteq> None) (BadRequest ''already used'') (
     let used = parse_used_users C (gc_used_user_ids c) in
     guardE (uid \<in> set used) (BadRequest ''already used'') (Inr used)))))"

definition redemption_event :: "giftcard \<Rightarrow> int \<Rightarrow> log_event" where
  "redemption_event c uid =
     log_defaults\<lparr>le_category := ''audit'', le_event := ''giftcard.redeemed'', le_message := ''gift card redeemed'',
       le_actor_type := Some ''user'', le_actor_id := Some uid, le_target_type := Some ''giftcard'',
       le_target_id := Some (str_int (gc_id c)),
       le_data := JObj [(''code'', JStr (gc_code c)), (''type'', JInt (gc_type c)),
         (''value'', case gc_value c of None \<Rightarrow> JNull | Some v \<Rightarrow> JInt v),
         (''plan_id'', case gc_plan_id c of None \<Rightarrow> JNull | Some v \<Rightarrow> JInt v)]\<rparr>"

definition redemption_of :: "giftcard \<Rightarrow> int \<Rightarrow> giftcard_redemption" where
  "redemption_of c uid = \<lparr>gr_id = 0, gr_giftcard_id = gc_id c, gr_user_id = uid, gr_code = gc_code c,
     gr_type = gc_type c, gr_value = gc_value c, gr_plan_id = gc_plan_id c, gr_created_at = 0, gr_updated_at = 0\<rparr>"

definition used_card :: "codec \<Rightarrow> giftcard \<Rightarrow> int list \<Rightarrow> giftcard" where
  "used_card C c users = c\<lparr>gc_used_user_ids := Some (dumps C (JArr (map JInt users))),
     gc_limit_use := map_option (\<lambda>n. n - 1) (gc_limit_use c)\<rparr>"

text \<open>The result is the row of the card, of which the code returns type, value and plan.\<close>

definition redeem :: "codec \<Rightarrow> int \<Rightarrow> int \<Rightarrow> string \<Rightarrow> db \<Rightarrow> exn + giftcard \<times> db" where
  "redeem C now uid code db =
     bindE (normalize_giftcard_code code) (\<lambda>code'.
     bindE (giftcard_by_code_for_update db code') (\<lambda>card.
     case card of
       None \<Rightarrow> Inl (BadRequest ''no such gift card'')
     | Some c \<Rightarrow>
         (case user_by_id_for_update db uid of
            None \<Rightarrow> Inl (NotFound ''user'')
          | Some u \<Rightarrow>
              bindE (usable_giftcard C now uid c db) (\<lambda>used.
              bindE (giftcard_effect now c u db) (\<lambda>u'.
              let c' = used_card C c (used @ [uid]); db1 = put_giftcard now (put_user now db u') c' in
              case insert_redemption now db1 (redemption_of c uid) of
                Inl e \<Rightarrow> Inl (if e = IntegrityError then BadRequest ''already used'' else e)
              | Inr (_, db2) \<Rightarrow> Inr (c', create_log_event now (redemption_event c' uid) db2))))))"

section \<open>Facts\<close>

lemma stored_fields_giftcard [simp]:
  "gc_code (stored giftcard_entity now x c) = gc_code c" "gc_id (stored giftcard_entity now x c) = gc_id c"
  "gc_limit_use (stored giftcard_entity now x c) = gc_limit_use c"
  by (auto simp: stored_def giftcard_entity_def)

lemma new_row_redemption [simp]:
  "gr_giftcard_id (new_row redemption_entity now t r) = gr_giftcard_id r"
  "gr_user_id (new_row redemption_entity now t r) = gr_user_id r"
  by (simp_all add: new_row_def redemption_entity_def)

lemma usable_giftcardD:
  "usable_giftcard C now uid c db = Inr used \<Longrightarrow>
     gc_started_at c \<le> now \<and> now \<le> gc_ended_at c \<and> (\<forall>n. gc_limit_use c = Some n \<longrightarrow> 0 < n) \<and>
     redemption_by_card_and_user db (gc_id c) uid = None"
  by (auto simp: usable_giftcard_def result_simps Let_def split: option.splits)

lemma redeem_shape:
  assumes "redeem C now uid code db = Inr (c', db')"
  shows "\<exists>c u u' used e. normalize_giftcard_code code = Inr (gc_code c) \<and> giftcard_by_code db (gc_code c) = Inr (Some c) \<and>
     user_by_id db uid = Some u \<and> usable_giftcard C now uid c db = Inr used \<and> giftcard_effect now c u db = Inr u' \<and>
     c' = used_card C c (used @ [uid]) \<and>
     db' = create_log_event now e ((put_giftcard now (put_user now db u') c')
        \<lparr>t_redemptions := repo_create redemption_entity now (t_redemptions db) (redemption_of c uid)\<rparr>)"
proof -
  note defs = redeem_def for_update giftcard_by_code_for_update_def
  from assms obtain code' card where n: "normalize_giftcard_code code = Inr code'" and card: "giftcard_by_code db code' = Inr card"
    by (auto simp: defs bindE_eq_Inr)
  with assms obtain c where c: "giftcard_by_code db code' = Inr (Some c)" by (cases card) (auto simp: defs)
  with assms n obtain u where u: "user_by_id db uid = Some u" by (cases "user_by_id db uid") (auto simp: defs)
  with assms n c obtain used where ok: "usable_giftcard C now uid c db = Inr used" by (auto simp: defs bindE_eq_Inr)
  with assms n c u obtain u' where eff: "giftcard_effect now c u db = Inr u'" by (auto simp: defs bindE_eq_Inr)
  have cc: "gc_code c = code'" using c find_one_Some by (fastforce simp: giftcard_by_code_def)
  have "(case insert_redemption now (put_giftcard now (put_user now db u') (used_card C c (used @ [uid]))) (redemption_of c uid) of
      Inl e \<Rightarrow> Inl (if e = IntegrityError then BadRequest ''already used'' else e)
    | Inr (_, db2) \<Rightarrow> Inr (used_card C c (used @ [uid]), create_log_event now (redemption_event (used_card C c (used @ [uid])) uid) db2)) = Inr (c', db')"
    using assms n c u ok eff by (simp add: defs Let_def)
  then have "c' = used_card C c (used @ [uid]) \<and> db' = create_log_event now (redemption_event (used_card C c (used @ [uid])) uid)
      ((put_giftcard now (put_user now db u') (used_card C c (used @ [uid])))
        \<lparr>t_redemptions := repo_create redemption_entity now (t_redemptions db) (redemption_of c uid)\<rparr>)"
    by (auto simp: insert_redemption_def guardE_def put_giftcard_def put_user_def split: if_splits)
  then show ?thesis using n c u ok eff cc by auto
qed

lemma giftcard_effect_keeps:
  "giftcard_effect now c u db = Inr u' \<Longrightarrow> us_id u' = us_id u \<and> us_commission_balance u' = us_commission_balance u \<and>
     us_balance u' = us_balance u + (if gc_type c = 1 then or_zero (gc_value c) else 0)"
  by (auto simp: giftcard_effect_def apply_plan_giftcard_def result_simps Let_def split: if_splits option.splits)

section \<open>The uses of a card\<close>

definition redemptions_of :: "db \<Rightarrow> int \<Rightarrow> int" where
  "redemptions_of db gid = count_where (\<lambda>r. gr_giftcard_id r = gid) (rows (t_redemptions db))"

text \<open>Uses left and uses made of a card with a limit.\<close>

definition card_uses :: "db \<Rightarrow> int \<Rightarrow> int option" where
  "card_uses db gid = (case giftcard_by_id db gid of None \<Rightarrow> None
     | Some c \<Rightarrow> map_option (\<lambda>n. n + redemptions_of db gid) (gc_limit_use c))"

lemma used_card_fields [simp]:
  "gc_id (used_card C c us) = gc_id c" "gc_limit_use (used_card C c us) = map_option (\<lambda>n. n - 1) (gc_limit_use c)"
  "gc_code (used_card C c us) = gc_code c"
  by (simp_all add: used_card_def)

lemma giftcard_by_codeD: "giftcard_by_code db code = Inr (Some c) \<Longrightarrow> c \<in> set (rows (t_giftcards db)) \<and> gc_code c = code"
  unfolding giftcard_by_code_def by (rule find_one_Some)

lemma redeem_card_uses:
  assumes "redeem C now uid code db = Inr (c', db')" "wf_table giftcard_entity (t_giftcards db)"
  shows "card_uses db' gid = card_uses db gid"
proof -
  from redeem_shape [OF assms(1)] obtain c u u' used e where c: "giftcard_by_code db (gc_code c) = Inr (Some c)"
    and c': "c' = used_card C c (used @ [uid])"
    and db': "db' = create_log_event now e ((put_giftcard now (put_user now db u') c')
        \<lparr>t_redemptions := repo_create redemption_entity now (t_redemptions db) (redemption_of c uid)\<rparr>)" by blast
  have at: "giftcard_by_id db (gc_id c) = Some c"
    using giftcards.get_unique [OF assms(2)] giftcard_by_codeD [OF c] by (simp add: giftcard_by_id_def)
  have "giftcard_by_id db' gid = (if gid = gc_id c then Some (stored giftcard_entity now c c') else giftcard_by_id db gid)"
    using at by (simp add: db' giftcard_by_id_def put_giftcard_def put_user_def giftcards.get_update c')
  moreover have "redemptions_of db' gid = redemptions_of db gid + (if gid = gc_id c then 1 else 0)"
    by (simp add: redemptions_of_def db' redemption_of_def put_giftcard_def put_user_def)
  ultimately show ?thesis
    using at by (cases "gid = gc_id c"; cases "gc_limit_use c") (simp_all add: card_uses_def c' split: option.split)
qed

lemma redeem_within_limit:
  assumes "redeem C now uid code db = Inr (c', db')" "wf_table giftcard_entity (t_giftcards db)"
    and "card_uses db gid = Some cap" "redemptions_of db gid \<le> cap"
  shows "redemptions_of db' gid \<le> cap"
proof -
  from redeem_shape [OF assms(1)] obtain c u u' used e where c: "giftcard_by_code db (gc_code c) = Inr (Some c)"
    and ok: "usable_giftcard C now uid c db = Inr used"
    and db': "db' = create_log_event now e ((put_giftcard now (put_user now db u') c')
        \<lparr>t_redemptions := repo_create redemption_entity now (t_redemptions db) (redemption_of c uid)\<rparr>)" by blast
  have at: "giftcard_by_id db (gc_id c) = Some c"
    using giftcards.get_unique [OF assms(2)] giftcard_by_codeD [OF c] by (simp add: giftcard_by_id_def)
  have "redemptions_of db' gid = redemptions_of db gid + (if gid = gc_id c then 1 else 0)"
    by (simp add: redemptions_of_def db' redemption_of_def put_giftcard_def put_user_def)
  moreover have "redemptions_of db gid < cap" if "gid = gc_id c"
    using usable_giftcardD [OF ok] assms(3) at that by (auto simp: card_uses_def)
  ultimately show ?thesis using assms(4) by auto
qed

section \<open>Sequences of redemptions\<close>

text \<open>A redemption that raises is rolled back. Requests are \<open>(now, user, code)\<close>.\<close>

definition serve_redeem :: "codec \<Rightarrow> int \<times> int \<times> string \<Rightarrow> db \<Rightarrow> db" where
  "serve_redeem C req db = (case redeem C (fst req) (fst (snd req)) (snd (snd req)) db of Inl _ \<Rightarrow> db | Inr (_, db') \<Rightarrow> db')"

text \<open>What redemptions keep: the cards' keys and codes, and the redemptions made.\<close>

definition cards_grow :: "db \<Rightarrow> db \<Rightarrow> bool" where
  "cards_grow db db' \<longleftrightarrow>
     map (\<lambda>c. (gc_id c, gc_code c)) (rows (t_giftcards db')) = map (\<lambda>c. (gc_id c, gc_code c)) (rows (t_giftcards db)) \<and>
     next_id (t_giftcards db') = next_id (t_giftcards db) \<and>
     (\<forall>g u. redemption_by_card_and_user db g u \<noteq> None \<longrightarrow> redemption_by_card_and_user db' g u \<noteq> None)"

lemma redeem_grows:
  assumes "redeem C now uid code db = Inr (c', db')" "wf_table giftcard_entity (t_giftcards db)"
  shows "cards_grow db db'"
proof -
  from redeem_shape [OF assms(1)] obtain c u u' used e where c: "giftcard_by_code db (gc_code c) = Inr (Some c)"
    and c': "c' = used_card C c (used @ [uid])"
    and db': "db' = create_log_event now e ((put_giftcard now (put_user now db u') c')
        \<lparr>t_redemptions := repo_create redemption_entity now (t_redemptions db) (redemption_of c uid)\<rparr>)" by blast
  have at: "repo_get giftcard_entity (t_giftcards db) (gc_id c) = Some c"
    using giftcards.get_unique [OF assms(2)] giftcard_by_codeD [OF c] by simp
  have "map (\<lambda>c. (gc_id c, gc_code c)) (rows (repo_update giftcard_entity now (t_giftcards db) c')) =
     map (\<lambda>c. (gc_id c, gc_code c)) (rows (t_giftcards db))"
    using assms(2) at by (intro map_col_update [where ?r0.0 = c]) (auto simp: wf_table_def c')
  then show ?thesis
    by (auto simp: cards_grow_def db' put_giftcard_def put_user_def redemption_by_card_and_user_def find_append repo_update_def
        split: option.split)
qed

lemma cards_grow_wf: "cards_grow db db' \<Longrightarrow> wf_table giftcard_entity (t_giftcards db') = wf_table giftcard_entity (t_giftcards db)"
proof -
  assume g: "cards_grow db db'"
  then have "map fst (map (\<lambda>c. (gc_id c, gc_code c)) (rows (t_giftcards db'))) = map fst (map (\<lambda>c. (gc_id c, gc_code c)) (rows (t_giftcards db)))"
    by (simp add: cards_grow_def)
  then have "map (e_id giftcard_entity) (rows (t_giftcards db')) = map (e_id giftcard_entity) (rows (t_giftcards db))" by (simp add: comp_def)
  then show ?thesis using g by (intro wf_table_ids) (simp_all add: cards_grow_def)
qed

lemma cards_grow_refl [simp]: "cards_grow db db"
  by (simp add: cards_grow_def)

lemma cards_grow_trans: "cards_grow a b \<Longrightarrow> cards_grow b c \<Longrightarrow> cards_grow a c"
  by (simp add: cards_grow_def)

lemma serve_redeem_grows: "wf_table giftcard_entity (t_giftcards db) \<Longrightarrow> cards_grow db (serve_redeem C req db)"
  using redeem_grows by (fastforce simp: serve_redeem_def split: sum.split)

lemma serve_redeems_grow: "wf_table giftcard_entity (t_giftcards db) \<Longrightarrow> cards_grow db (fold (serve_redeem C) reqs db)"
proof (induction reqs arbitrary: db)
  case (Cons req reqs)
  note g = serve_redeem_grows [OF Cons.prems, of C req]
  from Cons.IH [of "serve_redeem C req db"] g cards_grow_wf [OF g] Cons.prems show ?case using cards_grow_trans by auto
qed simp

lemma redeem_blocked:
  assumes "giftcard_by_code db code = Inr (Some c)" "cards_grow db db'" "redemption_by_card_and_user db' (gc_id c) uid \<noteq> None"
    and "normalize_giftcard_code raw = Inr code"
  shows "\<not> is_ok (redeem C now uid raw db')"
proof
  assume "is_ok (redeem C now uid raw db')"
  then obtain x d where "redeem C now uid raw db' = Inr (x, d)" by (auto elim: is_okE)
  from redeem_shape [OF this] obtain c2 used where n: "normalize_giftcard_code raw = Inr (gc_code c2)"
    and c2: "giftcard_by_code db' (gc_code c2) = Inr (Some c2)" and ok: "usable_giftcard C now uid c2 db' = Inr used" by blast
  have code: "gc_code c2 = code" using n assms(4) by simp
  have "(gc_id c2, gc_code c2) \<in> set (map (\<lambda>c. (gc_id c, gc_code c)) (rows (t_giftcards db')))" using giftcard_by_codeD [OF c2] by simp
  moreover have "map (\<lambda>c. (gc_id c, gc_code c)) (rows (t_giftcards db')) = map (\<lambda>c. (gc_id c, gc_code c)) (rows (t_giftcards db))"
    using assms(2) by (simp add: cards_grow_def)
  ultimately have "(gc_id c2, code) \<in> set (map (\<lambda>c. (gc_id c, gc_code c)) (rows (t_giftcards db)))" by (simp only: code)
  then obtain x where x: "x \<in> set (rows (t_giftcards db))" "gc_id x = gc_id c2" "gc_code x = code" by auto
  have "filter (\<lambda>r. gc_code r = code) (rows (t_giftcards db)) = [c]"
    using assms(1) by (simp add: giftcard_by_code_def find_one_def scalar_one_or_none_eq)
  moreover have "x \<in> set (filter (\<lambda>r. gc_code r = code) (rows (t_giftcards db)))" using x by simp
  ultimately have "x = c" by simp
  then show False using x(2) usable_giftcardD [OF ok] assms(3) by simp
qed

section \<open>Properties\<close>

text \<open>A gift card is redeemed within its validity period and with a use left, exactly its effect is
  applied to the user's row, the redemption is recorded, and the same user can never redeem the card
  again, whatever redemptions happen in between.\<close>

theorem giftcard_redeemed_once:
  assumes "redeem C now uid code db = Inr (c', db')" "wf_table giftcard_entity (t_giftcards db)"
  shows "(\<exists>c u u'. giftcard_by_code db (gc_code c) = Inr (Some c) \<and> gc_id c = gc_id c' \<and> gc_started_at c \<le> now \<and> now \<le> gc_ended_at c \<and>
       (\<forall>n. gc_limit_use c = Some n \<longrightarrow> 0 < n) \<and> user_by_id db uid = Some u \<and> giftcard_effect now c u db = Inr u' \<and>
       user_by_id db' uid = Some (stored user_entity now u u')) \<and>
     redemption_by_card_and_user db (gc_id c') uid = None \<and> redemption_by_card_and_user db' (gc_id c') uid \<noteq> None \<and>
     \<not> is_ok (redeem C now' uid code (fold (serve_redeem C) reqs db'))"
proof -
  from redeem_shape [OF assms(1)] obtain c u u' used e where n: "normalize_giftcard_code code = Inr (gc_code c)"
    and c: "giftcard_by_code db (gc_code c) = Inr (Some c)" and u: "user_by_id db uid = Some u"
    and ok: "usable_giftcard C now uid c db = Inr used" and eff: "giftcard_effect now c u db = Inr u'"
    and c': "c' = used_card C c (used @ [uid])"
    and db': "db' = create_log_event now e ((put_giftcard now (put_user now db u') c')
        \<lparr>t_redemptions := repo_create redemption_entity now (t_redemptions db) (redemption_of c uid)\<rparr>)" by blast
  have "us_id u' = uid" using giftcard_effect_keeps [OF eff] user_by_idD [OF u] by simp
  then have user: "user_by_id db' uid = Some (stored user_entity now u u')"
    using u by (simp add: db' user_by_id_def put_giftcard_def put_user_def users.get_update)
  have red: "redemption_by_card_and_user db' (gc_id c) uid \<noteq> None"
    by (simp add: db' redemption_by_card_and_user_def find_append redemption_of_def split: option.split)
  have grow: "cards_grow db db'" by (rule redeem_grows [OF assms])
  have grow': "cards_grow db' (fold (serve_redeem C) reqs db')"
    using serve_redeems_grow cards_grow_wf [OF grow] assms(2) by blast
  have "\<not> is_ok (redeem C now' uid code (fold (serve_redeem C) reqs db'))"
    using redeem_blocked [OF c cards_grow_trans [OF grow grow'] _ n] grow' red by (auto simp: cards_grow_def)
  then show ?thesis using c u eff user red usable_giftcardD [OF ok] c' by fastforce
qed

definition sample_giftcard :: giftcard where
  "sample_giftcard = \<lparr>gc_id = 1, gc_code = ''GIFT'', gc_name = ''g'', gc_type = 1, gc_value = Some 500, gc_plan_id = None,
     gc_limit_use = Some 1, gc_used_user_ids = None, gc_started_at = 0, gc_ended_at = 1000, gc_created_at = 0, gc_updated_at = 0\<rparr>"

definition gift_db :: db where
  "gift_db = empty_db\<lparr>t_users := \<lparr>rows = [sample_user, sample_user\<lparr>us_id := 2, us_email := ''b@b.c''\<rparr>], next_id = 3\<rparr>,
     t_giftcards := \<lparr>rows = [sample_giftcard], next_id = 2\<rparr>\<rparr>"

lemma gift_db_ok:
  "wf_table giftcard_entity (t_giftcards gift_db)" "card_uses gift_db 1 = Some 1"
  "is_ok (redeem (sv_codec sample_service) 10 1 '' gift'' gift_db)"
  by code_simp+

theorem giftcard_redeemed_once_witness:
  "\<exists>c db'. redeem (sv_codec sample_service) 10 1 '' gift'' gift_db = Inr (c, db') \<and>
     redemption_by_card_and_user db' (gc_id c) 1 \<noteq> None \<and> \<not> is_ok (redeem (sv_codec sample_service) 11 1 '' gift'' db')"
proof -
  from gift_db_ok(3) obtain c db' where r: "redeem (sv_codec sample_service) 10 1 '' gift'' gift_db = Inr (c, db')" by (auto elim: is_okE)
  from giftcard_redeemed_once [OF r gift_db_ok(1), where reqs = "[]" and now' = 11] r show ?thesis by auto
qed

text \<open>C14: A limited gift card is never used more often than its limit: uses left plus uses made is the
  same after every sequence of redemptions, and no use is made beyond it.\<close>

theorem giftcard_uses_limited:
  assumes "wf_table giftcard_entity (t_giftcards db)" "card_uses db gid = Some cap" "redemptions_of db gid \<le> cap"
    and "db' = fold (serve_redeem C) reqs db"
  shows "card_uses db' gid = Some cap \<and> redemptions_of db' gid \<le> cap"
proof -
  have step: "card_uses (serve_redeem C req d) gid = Some cap \<and> redemptions_of (serve_redeem C req d) gid \<le> cap"
    if d: "card_uses d gid = Some cap" "redemptions_of d gid \<le> cap" "wf_table giftcard_entity (t_giftcards d)" for req d
  proof (cases "redeem C (fst req) (fst (snd req)) (snd (snd req)) d")
    case (Inl e)
    then show ?thesis using d by (simp add: serve_redeem_def)
  next
    case (Inr res)
    then obtain c' d' where r: "redeem C (fst req) (fst (snd req)) (snd (snd req)) d = Inr (c', d')" by (cases res) auto
    from redeem_card_uses [OF r d(3), of gid] d(1) have u: "card_uses d' gid = Some cap" by simp
    have "redemptions_of d' gid \<le> cap" by (rule redeem_within_limit [OF r d(3,1,2)])
    then show ?thesis using r u by (simp add: serve_redeem_def)
  qed
  have "wf_table giftcard_entity (t_giftcards d) \<Longrightarrow> card_uses d gid = Some cap \<Longrightarrow> redemptions_of d gid \<le> cap \<Longrightarrow>
     card_uses (fold (serve_redeem C) reqs d) gid = Some cap \<and> redemptions_of (fold (serve_redeem C) reqs d) gid \<le> cap" for d
  proof (induction reqs arbitrary: d)
    case (Cons req reqs)
    then show ?case using step [of d req] cards_grow_wf [OF serve_redeem_grows, of d C req] by simp
  qed simp
  then show ?thesis using assms by blast
qed

theorem giftcard_uses_limited_witness:
  "redemptions_of (fold (serve_redeem (sv_codec sample_service)) [(10, 1, ''gift''), (11, 2, ''gift'')] gift_db) 1 \<le> 1 \<and>
   redemptions_of (fold (serve_redeem (sv_codec sample_service)) [(10, 1, ''gift''), (11, 2, ''gift'')] gift_db) 1 = 1"
proof
  have "redemptions_of gift_db 1 \<le> 1" by code_simp
  from giftcard_uses_limited [OF gift_db_ok(1,2) this refl]
  show "redemptions_of (fold (serve_redeem (sv_codec sample_service)) [(10, 1, ''gift''), (11, 2, ''gift'')] gift_db) 1 \<le> 1" by blast
  show "redemptions_of (fold (serve_redeem (sv_codec sample_service)) [(10, 1, ''gift''), (11, 2, ''gift'')] gift_db) 1 = 1" by code_simp
qed

end
