(* ===== verification/Plans.thy ===== *)
theory Plans
  imports Orders
begin

text \<open>
  \<open>app/services/plan.py\<close>: the plans that users see and administrators maintain. A view is the row
  together with the number the code computes for it (remaining capacity for users, active users for
  administrators).
\<close>

definition capacity_remaining :: "int option \<Rightarrow> int \<Rightarrow> int option" where
  "capacity_remaining limit active =
     (case limit of None \<Rightarrow> None | Some l \<Rightarrow> if l \<le> 0 then None else Some (max 0 (l - active)))"

section \<open>Users\<close>

definition plan_with_remaining :: "int \<Rightarrow> db \<Rightarrow> plan \<Rightarrow> plan" where
  "plan_with_remaining now db p = p\<lparr>pl_capacity_limit := capacity_remaining (pl_capacity_limit p) (active_users_of_plan now db (pl_id p))\<rparr>"

definition list_visible_plans :: "int \<Rightarrow> db \<Rightarrow> plan list" where
  "list_visible_plans now db = map (plan_with_remaining now db) (plans_visible db)"

definition get_plan_for_user :: "int \<Rightarrow> int \<Rightarrow> int option \<Rightarrow> db \<Rightarrow> exn + plan" where
  "get_plan_for_user now pid user_plan db =
     (case plan_by_id db pid of
        None \<Rightarrow> Inl (NotFound ''plan'')
      | Some p \<Rightarrow>
          guardE (\<not> pl_show p \<and> (\<not> pl_renew p \<or> user_plan \<noteq> Some (pl_id p))) (NotFound ''plan'')
            (Inr (plan_with_remaining now db p)))"

definition has_capacity :: "int \<Rightarrow> int \<Rightarrow> db \<Rightarrow> exn + bool" where
  "has_capacity now pid db =
     (case plan_by_id db pid of
        None \<Rightarrow> Inl (NotFound ''plan'')
      | Some p \<Rightarrow>
          (case pl_capacity_limit p of
             None \<Rightarrow> Inr True
           | Some l \<Rightarrow> if l \<le> 0 then Inr True else Inr (active_users_of_plan now db pid < l)))"

section \<open>Administration\<close>

definition plan_view :: "int \<Rightarrow> db \<Rightarrow> plan \<Rightarrow> plan \<times> int" where
  "plan_view now db p = (p, active_users_of_plan now db (pl_id p))"

definition list_plans :: "int \<Rightarrow> db \<Rightarrow> (plan \<times> int) list" where
  "list_plans now db = map (plan_view now db) (plans_all db)"

definition get_plan :: "int \<Rightarrow> int \<Rightarrow> db \<Rightarrow> exn + plan \<times> int" where
  "get_plan now pid db = (case plan_by_id db pid of None \<Rightarrow> Inl (NotFound ''plan'') | Some p \<Rightarrow> Inr (plan_view now db p))"

record plan_create =
  pc_group_id :: int
  pc_transfer_enable :: int
  pc_device_limit :: "int option"
  pc_plan_name :: string
  pc_speed_limit :: "int option"
  pc_show :: bool
  pc_plan_sort :: "int option"
  pc_renew :: bool
  pc_content :: "string option"
  pc_month_price :: "int option"
  pc_quarter_price :: "int option"
  pc_half_year_price :: "int option"
  pc_year_price :: "int option"
  pc_two_year_price :: "int option"
  pc_three_year_price :: "int option"
  pc_onetime_price :: "int option"
  pc_reset_price :: "int option"
  pc_reset_traffic_method :: "int option"
  pc_capacity_limit :: "int option"

definition new_plan :: "plan_create \<Rightarrow> plan" where
  "new_plan d = \<lparr>pl_id = 0, pl_group_id = pc_group_id d, pl_transfer_enable = pc_transfer_enable d,
     pl_device_limit = pc_device_limit d, pl_name = pc_plan_name d, pl_speed_limit = pc_speed_limit d, pl_show = pc_show d,
     pl_sort = pc_plan_sort d, pl_renew = pc_renew d, pl_content = pc_content d, pl_month_price = pc_month_price d,
     pl_quarter_price = pc_quarter_price d, pl_half_year_price = pc_half_year_price d, pl_year_price = pc_year_price d,
     pl_two_year_price = pc_two_year_price d, pl_three_year_price = pc_three_year_price d,
     pl_onetime_price = pc_onetime_price d, pl_reset_price = pc_reset_price d,
     pl_reset_traffic_method = pc_reset_traffic_method d, pl_capacity_limit = pc_capacity_limit d,
     pl_created_at = 0, pl_updated_at = 0\<rparr>"

definition create_plan :: "int \<Rightarrow> plan_create \<Rightarrow> db \<Rightarrow> (plan \<times> int) \<times> db" where
  "create_plan now d db =
     (let p = new_row plan_entity now (t_plans db) (new_plan d);
          db' = db\<lparr>t_plans := repo_create plan_entity now (t_plans db) (new_plan d)\<rparr>
      in (plan_view now db' p, db'))"

record plan_update =
  pu_group_id :: "int option option"
  pu_transfer_enable :: "int option option"
  pu_device_limit :: "int option option"
  pu_name :: "string option option"
  pu_speed_limit :: "int option option"
  pu_show :: "bool option option"
  pu_sort :: "int option option"
  pu_renew :: "bool option option"
  pu_content :: "string option option"
  pu_month_price :: "int option option"
  pu_quarter_price :: "int option option"
  pu_half_year_price :: "int option option"
  pu_year_price :: "int option option"
  pu_two_year_price :: "int option option"
  pu_three_year_price :: "int option option"
  pu_onetime_price :: "int option option"
  pu_reset_price :: "int option option"
  pu_reset_traffic_method :: "int option option"
  pu_capacity_limit :: "int option option"

definition updated_plan :: "plan_update \<Rightarrow> plan \<Rightarrow> plan" where
  "updated_plan d p = p\<lparr>pl_group_id := set_if (given (pu_group_id d)) (pl_group_id p),
     pl_transfer_enable := set_if (given (pu_transfer_enable d)) (pl_transfer_enable p),
     pl_device_limit := set_if (pu_device_limit d) (pl_device_limit p), pl_name := set_if (given (pu_name d)) (pl_name p),
     pl_speed_limit := set_if (pu_speed_limit d) (pl_speed_limit p), pl_show := set_if (given (pu_show d)) (pl_show p),
     pl_sort := set_if (pu_sort d) (pl_sort p), pl_renew := set_if (given (pu_renew d)) (pl_renew p),
     pl_content := set_if (pu_content d) (pl_content p), pl_month_price := set_if (pu_month_price d) (pl_month_price p),
     pl_quarter_price := set_if (pu_quarter_price d) (pl_quarter_price p),
     pl_half_year_price := set_if (pu_half_year_price d) (pl_half_year_price p),
     pl_year_price := set_if (pu_year_price d) (pl_year_price p), pl_two_year_price := set_if (pu_two_year_price d) (pl_two_year_price p),
     pl_three_year_price := set_if (pu_three_year_price d) (pl_three_year_price p),
     pl_onetime_price := set_if (pu_onetime_price d) (pl_onetime_price p), pl_reset_price := set_if (pu_reset_price d) (pl_reset_price p),
     pl_reset_traffic_method := set_if (pu_reset_traffic_method d) (pl_reset_traffic_method p),
     pl_capacity_limit := set_if (pu_capacity_limit d) (pl_capacity_limit p)\<rparr>"

definition update_plan :: "int \<Rightarrow> int \<Rightarrow> plan_update \<Rightarrow> db \<Rightarrow> exn + (plan \<times> int) \<times> db" where
  "update_plan now pid d db =
     (case plan_by_id db pid of
        None \<Rightarrow> Inl (NotFound ''plan'')
      | Some p \<Rightarrow>
          guardE (explicit_null (pu_group_id d) \<or> explicit_null (pu_transfer_enable d) \<or> explicit_null (pu_name d) \<or>
              explicit_null (pu_show d) \<or> explicit_null (pu_renew d)) IntegrityError
            (let db' = put_plan now db (updated_plan d p) in Inr (plan_view now db' (updated_plan d p), db')))"

definition delete_plan :: "int \<Rightarrow> int \<Rightarrow> db \<Rightarrow> exn + db" where
  "delete_plan now pid db =
     guardE (plan_has_orders db pid) (Conflict ''plan has orders'') (
     guardE (plan_has_active_users now db pid) (Conflict ''plan has active users'') (
     case plan_by_id db pid of
       None \<Rightarrow> Inl (NotFound ''plan'')
     | Some p \<Rightarrow> Inr (db\<lparr>t_plans := repo_delete plan_entity (t_plans db) p\<rparr>)))"

section \<open>Facts\<close>

text \<open>Every order for a plan and every running subscription refers to a plan that exists.\<close>

definition plan_refs :: "int \<Rightarrow> db \<Rightarrow> bool" where
  "plan_refs now db \<longleftrightarrow> (\<forall>r\<in>set (rows (t_orders db)). od_plan_id r \<noteq> 0 \<longrightarrow> plan_by_id db (od_plan_id r) \<noteq> None) \<and>
     (\<forall>u\<in>set (rows (t_users db)). \<forall>pid. us_plan_id u = Some pid \<longrightarrow> now \<le> us_expired_at u \<longrightarrow> plan_by_id db pid \<noteq> None)"

lemma plan_refs_mono:
  assumes "plan_refs now db" "t_orders db' = t_orders db" "t_users db' = t_users db"
    and "\<And>pid. plan_by_id db pid \<noteq> None \<Longrightarrow> plan_has_orders db pid \<or> plan_has_active_users now db pid \<Longrightarrow> plan_by_id db' pid \<noteq> None"
  shows "plan_refs now db'"
  unfolding plan_refs_def assms(2,3)
proof (intro conjI ballI allI impI)
  fix r assume "r \<in> set (rows (t_orders db))" "od_plan_id r \<noteq> 0"
  then show "plan_by_id db' (od_plan_id r) \<noteq> None"
    using assms(1) by (intro assms(4)) (auto simp: plan_refs_def plan_has_orders_def count_where_pos)
next
  fix u pid assume "u \<in> set (rows (t_users db))" "us_plan_id u = Some pid" "now \<le> us_expired_at u"
  then show "plan_by_id db' pid \<noteq> None"
    using assms(1) by (intro assms(4)) (auto simp: plan_refs_def plan_has_active_users_def active_users_of_plan_def count_where_pos)
qed

lemma delete_plan_refs:
  assumes "delete_plan now pid db = Inr db'" "plan_refs now db" "wf_table plan_entity (t_plans db)"
  shows "plan_refs now db'"
proof -
  from assms(1) obtain p where free: "\<not> plan_has_orders db pid" "\<not> plan_has_active_users now db pid"
    and p: "plan_by_id db pid = Some p" and db': "db' = db\<lparr>t_plans := repo_delete plan_entity (t_plans db) p\<rparr>"
    by (auto simp: delete_plan_def result_simps split: option.splits)
  have "plan_by_id db' i \<noteq> None" if "plan_by_id db i \<noteq> None" "i \<noteq> pid" for i
    using that plan_by_idD [OF p] by (auto simp: plan_by_id_def db' repo_get_None repo_delete_def)
  then show ?thesis using free by (intro plan_refs_mono [OF assms(2)]) (simp_all add: db', metis)
qed

lemma update_plan_refs: "update_plan now i d db = Inr (v, db') \<Longrightarrow> plan_refs now db \<Longrightarrow> plan_refs now db'"
  by (rule plan_refs_mono [of now db])
     (auto simp: update_plan_def result_simps Let_def put_plan_def plan_by_id_def plans.get_update split: option.splits)

lemma create_plan_refs: "create_plan now d db = (v, db') \<Longrightarrow> plan_refs now db \<Longrightarrow> plan_refs now db'"
  by (rule plan_refs_mono [of now db])
     (auto simp: create_plan_def Let_def plan_by_id_def repo_get_def find_append split: option.splits)

text \<open>A history of plan requests: one that raises changes nothing.\<close>

datatype plan_op = CreatePlan plan_create | UpdatePlan int plan_update | DeletePlan int

fun run_plan_op :: "int \<Rightarrow> plan_op \<Rightarrow> db \<Rightarrow> exn + db" where
  "run_plan_op now (CreatePlan d) db = Inr (snd (create_plan now d db))"
| "run_plan_op now (UpdatePlan pid d) db = bindE (update_plan now pid d db) (\<lambda>(_, db'). Inr db')"
| "run_plan_op now (DeletePlan pid) db = delete_plan now pid db"

definition serve_plan :: "int \<times> plan_op \<Rightarrow> db \<Rightarrow> db" where
  "serve_plan r db = (case run_plan_op (fst r) (snd r) db of Inl _ \<Rightarrow> db | Inr db' \<Rightarrow> db')"

lemma delete_plan_row:
  "delete_plan now pid db = Inr db' \<longleftrightarrow> \<not> plan_has_orders db pid \<and> \<not> plan_has_active_users now db pid \<and>
     (\<exists>p. plan_by_id db pid = Some p \<and> db' = db\<lparr>t_plans := repo_delete plan_entity (t_plans db) p\<rparr>)"
  by (auto simp: delete_plan_def result_simps split: option.splits)

lemma plan_refs_later: "plan_refs now db \<Longrightarrow> now \<le> t \<Longrightarrow> plan_refs t db"
  unfolding plan_refs_def by fastforce

lemma plan_op_kept:
  assumes "run_plan_op now rq db = Inr db'" "plan_refs now db" "wf_table plan_entity (t_plans db)"
  shows "plan_refs now db' \<and> wf_table plan_entity (t_plans db')"
proof (cases rq)
  case (CreatePlan d)
  with assms have db': "db' = snd (create_plan now d db)" by simp
  then show ?thesis
    using create_plan_refs [of now d db "fst (create_plan now d db)" db'] assms(2,3) plans.wf_create
    by (simp add: create_plan_def Let_def)
next
  case (UpdatePlan pid d)
  with assms(1) obtain v where u: "update_plan now pid d db = Inr (v, db')" by (auto simp: bindE_eq_Inr)
  then have "wf_table plan_entity (t_plans db')"
    using assms(3) plans.wf_update by (auto simp: update_plan_def result_simps Let_def put_plan_def split: option.splits)
  then show ?thesis using update_plan_refs [OF u assms(2)] by simp
next
  case (DeletePlan pid)
  with assms(1) have d: "delete_plan now pid db = Inr db'" by simp
  then have "wf_table plan_entity (t_plans db')" using assms(3) plans.wf_delete by (auto simp: delete_plan_row)
  then show ?thesis using delete_plan_refs [OF d assms(2,3)] by simp
qed

lemma plan_requests_kept:
  assumes "plan_refs t db" "wf_table plan_entity (t_plans db)" "sorted (t # map fst reqs)"
  shows "plan_refs (last (t # map fst reqs)) (fold serve_plan reqs db) \<and> wf_table plan_entity (t_plans (fold serve_plan reqs db))"
  using assms
proof (induction reqs arbitrary: t db)
  case (Cons rq reqs)
  have "plan_refs (fst rq) db" using plan_refs_later [OF Cons.prems(1)] Cons.prems(3) by simp
  then have "plan_refs (fst rq) (serve_plan rq db) \<and> wf_table plan_entity (t_plans (serve_plan rq db))"
    using plan_op_kept [of "fst rq" "snd rq" db] Cons.prems(2) by (auto simp: serve_plan_def split: sum.split)
  then show ?case using Cons.IH [of "fst rq" "serve_plan rq db"] Cons.prems(3) by simp
qed simp

text \<open>The deletion does not look at the gift cards: what it answers and does is the same whatever they are.\<close>

lemma delete_plan_ignores_giftcards:
  "delete_plan now pid (db\<lparr>t_giftcards := cards\<rparr>) = bindE (delete_plan now pid db) (\<lambda>db'. Inr (db'\<lparr>t_giftcards := cards\<rparr>))"
  by (simp add: delete_plan_def guardE_def plan_has_orders_def plan_has_active_users_def active_users_of_plan_def plan_by_id_def
      split: option.split)

section \<open>Properties\<close>

text \<open>C36: Over any history of creating, updating and deleting plans, every plan that an order or a running
  subscription names keeps existing, and a plan that is then deleted has neither orders nor users whose
  subscription still runs. Gift cards and expired subscriptions are not protected: they may name a deleted plan.\<close>

theorem plan_references_kept:
  assumes "plan_refs t db" "wf_table plan_entity (t_plans db)" "sorted (t # map fst reqs @ [now])"
    and "db' = fold serve_plan reqs db"
  shows "plan_refs now db' \<and>
     (delete_plan now pid db' = Inr db2 \<longrightarrow> plan_refs now db2 \<and> \<not> plan_has_orders db' pid \<and>
        active_users_of_plan now db' pid = 0 \<and> plan_by_id db2 pid = None)"
proof -
  have times: "sorted (t # map fst reqs)" "last (t # map fst reqs) \<le> now"
    using assms(3) sorted_append [of "t # map fst reqs" "[now]"] last_in_set [of "t # map fst reqs"] by auto
  from plan_requests_kept [OF assms(1,2) times(1)] have wf: "wf_table plan_entity (t_plans db')" and refs: "plan_refs now db'"
    using plan_refs_later times(2) unfolding assms(4) by blast+
  have "\<not> plan_has_orders db' pid \<and> active_users_of_plan now db' pid = 0 \<and> plan_by_id db2 pid = None"
    if del: "delete_plan now pid db' = Inr db2"
  proof -
    from del [unfolded delete_plan_row] obtain p where p: "plan_by_id db' pid = Some p"
      and free: "\<not> plan_has_orders db' pid" "\<not> plan_has_active_users now db' pid"
      and db2: "db2 = db'\<lparr>t_plans := repo_delete plan_entity (t_plans db') p\<rparr>" by blast
    have "plan_by_id db2 pid = None" using plan_by_idD [OF p] by (auto simp: db2 plan_by_id_def repo_get_None repo_delete_def)
    moreover have "active_users_of_plan now db' pid = 0"
      using free(2) count_where_nonneg by (simp add: plan_has_active_users_def active_users_of_plan_def not_less order_antisym)
    ultimately show ?thesis using free(1) by simp
  qed
  then show ?thesis using refs delete_plan_refs [OF _ refs wf] by blast
qed

definition plan_db :: db where
  "plan_db = empty_db\<lparr>t_plans := \<lparr>rows = [sample_plan, sample_plan\<lparr>pl_id := 2\<rparr>], next_id = 3\<rparr>,
     t_orders := \<lparr>rows = [sample_order\<lparr>od_id := 1\<rparr>], next_id = 2\<rparr>\<rparr>"

theorem plan_references_kept_witness:
  "\<exists>db2. delete_plan 6 2 (fold serve_plan [(4, DeletePlan 1), (5, DeletePlan 7)] plan_db) = Inr db2 \<and> plan_refs 6 db2 \<and> plan_by_id db2 2 = None"
proof -
  let ?d = "fold serve_plan [(4, DeletePlan 1), (5, DeletePlan 7)] plan_db"
  have w: "wf_table plan_entity (t_plans plan_db)" "is_ok (delete_plan 6 2 ?d)" "plan_by_id plan_db 1 = Some sample_plan" by code_simp+
  have r: "plan_refs 3 plan_db" using w(3) by (auto simp: plan_refs_def plan_db_def empty_db_def sample_order_def)
  obtain db2 where d: "delete_plan 6 2 ?d = Inr db2" using w(2) by (rule is_okE)
  have "sorted (3 # map fst [(4, DeletePlan 1), (5, DeletePlan 7)] @ [6 :: int])" by simp
  from plan_references_kept [OF r w(1) this refl] d show ?thesis by blast
qed

text \<open>The three places that compute a plan's free capacity agree: the order service's check passes
  exactly when \<open>has_capacity\<close> says so and when the remaining capacity shown to users is not 0.\<close>

theorem capacity_checks_agree:
  assumes "plan_by_id db pid = Some p"
  shows "has_capacity now pid db = Inr (is_ok (ensure_capacity now pid (pl_capacity_limit p) db)) \<and>
     (is_ok (ensure_capacity now pid (pl_capacity_limit p) db) \<longleftrightarrow> pl_capacity_limit (plan_with_remaining now db p) \<noteq> Some 0)"
proof -
  have "pl_id p = pid" using plan_by_idD [OF assms] by simp
  then show ?thesis
    using assms by (auto simp: has_capacity_def ensure_capacity_def plan_with_remaining_def capacity_remaining_def guardE_def split: option.split)
qed

theorem capacity_checks_agree_witness:
  "has_capacity 5 1 plan_db = Inr True \<and> is_ok (ensure_capacity 5 1 (Some 10) plan_db)"
proof -
  have p: "plan_by_id plan_db 1 = Some sample_plan" "pl_capacity_limit sample_plan = Some 10"
    "is_ok (ensure_capacity 5 1 (Some 10) plan_db)" by code_simp+
  then show ?thesis using capacity_checks_agree [OF p(1), of 5] by simp
qed

end
