(* ===== verification/Tickets.thy ===== *)
theory Tickets
  imports Samples "HOL-Library.Multiset"
begin

text \<open>
  \<open>app/services/ticket.py\<close>: support tickets. A user has a dialogue with the staff per ticket; a ticket
  is open (status 0) or closed (1) and waits for the staff (reply status 0) or for the user (1). The
  detail view is the ticket with its messages, each with the \<open>is_me\<close> flag.
\<close>

record ticket_detail =
  td_ticket :: ticket
  td_messages :: "(ticket_message \<times> bool) list"

definition ticket_detail :: "ticket \<Rightarrow> int option \<Rightarrow> bool \<Rightarrow> db \<Rightarrow> ticket_detail" where
  "ticket_detail t viewer staff_view db =
     \<lparr>td_ticket = t, td_messages = map (\<lambda>m. (m, if staff_view then tm_user_id m \<noteq> tk_user_id t else Some (tm_user_id m) = viewer))
        (messages_by_ticket db (tk_id t))\<rparr>"

definition list_user_tickets :: "int \<Rightarrow> int \<Rightarrow> int \<Rightarrow> db \<Rightarrow> ticket list" where
  "list_user_tickets uid offset limit db = tickets_by_user db uid offset limit"

definition own_ticket :: "int \<Rightarrow> int \<Rightarrow> db \<Rightarrow> exn + ticket" where
  "own_ticket uid tid db =
     (case ticket_by_id db tid of
        None \<Rightarrow> Inl (NotFound ''ticket'')
      | Some t \<Rightarrow> guardE (tk_user_id t \<noteq> uid) (NotFound ''ticket'') (Inr t))"

definition get_user_ticket :: "int \<Rightarrow> int \<Rightarrow> db \<Rightarrow> exn + ticket_detail" where
  "get_user_ticket uid tid db = bindE (own_ticket uid tid db) (\<lambda>t. Inr (ticket_detail t (Some uid) False db))"

record ticket_create =
  tc_subject :: string
  tc_level :: int
  tc_message :: string

definition insert_ticket :: "int \<Rightarrow> db \<Rightarrow> ticket \<Rightarrow> ticket \<times> db" where
  "insert_ticket now db t =
     (new_row ticket_entity now (t_tickets db) t, db\<lparr>t_tickets := repo_create ticket_entity now (t_tickets db) t\<rparr>)"

definition insert_message :: "int \<Rightarrow> int \<Rightarrow> int \<Rightarrow> string \<Rightarrow> db \<Rightarrow> db" where
  "insert_message now uid tid message db =
     db\<lparr>t_ticket_messages := repo_create ticket_message_entity now (t_ticket_messages db)
        \<lparr>tm_id = 0, tm_user_id = uid, tm_ticket_id = tid, tm_message = message, tm_created_at = 0, tm_updated_at = 0\<rparr>\<rparr>"

definition create_ticket :: "setting_service \<Rightarrow> int \<Rightarrow> int \<Rightarrow> ticket_create \<Rightarrow> db \<Rightarrow> exn + ticket_detail \<times> db" where
  "create_ticket S now uid data db =
     guardE (strip (tc_subject data) = []) (BadRequest ''empty subject'') (
     guardE (strip (tc_message data) = []) (BadRequest ''empty message'') (
     guardE (0 < count_open_by_user db uid) (BadRequest ''open ticket'') (
     bindE (get_int S now ''ticket_status'' 0 db) (\<lambda>(ticket_status, db1).
     guardE (ticket_status = 1 \<and> \<not> has_paid_order db1 uid) (BadRequest ''buy a plan first'') (
     guardE (ticket_status = 2) (BadRequest ''tickets are closed'')
       (let (t, db2) = insert_ticket now db1 \<lparr>tk_id = 0, tk_user_id = uid, tk_subject = strip (tc_subject data),
              tk_level = tc_level data, tk_status = 0, tk_reply_status = 0, tk_created_at = 0, tk_updated_at = 0\<rparr>;
            db3 = insert_message now uid (tk_id t) (strip (tc_message data)) db2
        in Inr (ticket_detail t (Some uid) False db3, db3)))))))"

definition reply_to :: "int \<Rightarrow> ticket \<Rightarrow> int \<Rightarrow> string \<Rightarrow> db \<Rightarrow> ticket \<times> db" where
  "reply_to now t uid message db =
     (let t' = t\<lparr>tk_reply_status := (if uid = tk_user_id t then 0 else 1)\<rparr>
      in (t', put_ticket now (insert_message now uid (tk_id t) message db) t'))"

definition reply_user_ticket :: "int \<Rightarrow> int \<Rightarrow> int \<Rightarrow> string \<Rightarrow> db \<Rightarrow> exn + ticket_detail \<times> db" where
  "reply_user_ticket now uid tid message db =
     bindE (own_ticket uid tid db) (\<lambda>t.
     guardE (tk_status t \<noteq> 0) (BadRequest ''ticket closed'') (
     guardE (strip message = []) (BadRequest ''empty reply'') (
     guardE (case last_message db tid of None \<Rightarrow> False | Some m \<Rightarrow> tm_user_id m = uid) (BadRequest ''wait for the staff'')
       (let (t', db') = reply_to now t uid (strip message) db in Inr (ticket_detail t' (Some uid) False db', db')))))"

definition close_user_ticket :: "int \<Rightarrow> int \<Rightarrow> int \<Rightarrow> db \<Rightarrow> exn + db" where
  "close_user_ticket now uid tid db =
     bindE (own_ticket uid tid db) (\<lambda>t. Inr (put_ticket now db (t\<lparr>tk_status := 1\<rparr>)))"

text \<open>Python's \<open>in\<close> on the decoded list of methods: a string contains its substrings, a dict its keys.\<close>

definition json_contains :: "json \<Rightarrow> string \<Rightarrow> exn + bool" where
  "json_contains j s = (case j of
       JArr xs \<Rightarrow> Inr (JStr s \<in> set xs)
     | JObj kvs \<Rightarrow> Inr (s \<in> set (map fst kvs))
     | JStr t \<Rightarrow> Inr (contains s t)
     | _ \<Rightarrow> Inl TypeError)"

definition create_withdraw_ticket :: "setting_service \<Rightarrow> int \<Rightarrow> int \<Rightarrow> string \<Rightarrow> string \<Rightarrow> db \<Rightarrow> exn + ticket_detail \<times> db" where
  "create_withdraw_ticket S now uid meth account db =
     bindE (get_int S now ''withdraw_close_enable'' 0 db) (\<lambda>(closed, db1).
     guardE (closed \<noteq> 0) (BadRequest ''withdrawal closed'') (
     bindE (get_json S now ''commission_withdraw_method'' (JArr [JStr ''alipay'', JStr ''usdt'', JStr ''bank'']) db1) (\<lambda>(methods, db2).
     bindE (json_contains methods meth) (\<lambda>known.
     guardE (\<not> known) (BadRequest ''withdraw method'') (
     case user_by_id db2 uid of
       None \<Rightarrow> Inl (NotFound ''user'')
     | Some u \<Rightarrow>
         bindE (get_int S now ''commission_withdraw_limit'' 100 db2) (\<lambda>(limit_yuan, db3).
         guardE (us_commission_balance u < limit_yuan * 100) (BadRequest ''withdraw limit'')
           (create_ticket S now uid \<lparr>tc_subject = ''commission withdrawal'', tc_level = 2,
              tc_message = ''method: '' @ meth @ [CHR 0x0A] @ ''account: '' @ account\<rparr> db3)))))))"

section \<open>Staff\<close>

definition list_admin_tickets :: "int \<Rightarrow> int \<Rightarrow> int option \<Rightarrow> int option \<Rightarrow> string option \<Rightarrow> db \<Rightarrow> ticket list \<times> int" where
  "list_admin_tickets page sz status reply_status email db =
     (tickets_all db ((page - 1) * sz) sz status reply_status email, count_tickets db status reply_status email)"

definition staff_ticket :: "int \<Rightarrow> db \<Rightarrow> exn + ticket" where
  "staff_ticket tid db = (case ticket_by_id db tid of None \<Rightarrow> Inl (NotFound ''ticket'') | Some t \<Rightarrow> Inr t)"

definition get_admin_ticket :: "int \<Rightarrow> db \<Rightarrow> exn + ticket_detail" where
  "get_admin_ticket tid db = bindE (staff_ticket tid db) (\<lambda>t. Inr (ticket_detail t None True db))"

definition reply_admin_ticket :: "int \<Rightarrow> int \<Rightarrow> int \<Rightarrow> string \<Rightarrow> db \<Rightarrow> exn + ticket_detail \<times> db" where
  "reply_admin_ticket now admin_id tid message db =
     bindE (staff_ticket tid db) (\<lambda>t.
     guardE (strip message = []) (BadRequest ''empty reply'')
       (let (t', db') = reply_to now (t\<lparr>tk_status := 0\<rparr>) admin_id (strip message) db
        in Inr (ticket_detail t' (Some admin_id) True db', db')))"

definition close_admin_ticket :: "int \<Rightarrow> int \<Rightarrow> db \<Rightarrow> exn + db" where
  "close_admin_ticket now tid db = bindE (staff_ticket tid db) (\<lambda>t. Inr (put_ticket now db (t\<lparr>tk_status := 1\<rparr>)))"

section \<open>Messages in order\<close>

lemma sort_key_snoc:
  fixes f :: "'a \<Rightarrow> int"
  assumes "\<forall>y\<in>set xs. f y < f x"
  shows "sort_key f (xs @ [x]) = sort_key f xs @ [x]"
proof (rule properties_for_sort_key)
  show "mset (sort_key f xs @ [x]) = mset (xs @ [x])" by simp
  show "sorted (map f (sort_key f xs @ [x]))" using assms by (auto simp: sorted_append less_imp_le)
  fix k assume "k \<in> set (sort_key f xs @ [x])"
  have "filter (\<lambda>y. f k = f y) (sort_key f xs) = filter (\<lambda>y. f k = f y) xs"
    using sort_key_stable [of f "f k" xs] by (simp add: eq_commute)
  then show "filter (\<lambda>y. f k = f y) (sort_key f xs @ [x]) = filter (\<lambda>y. f k = f y) (xs @ [x])" by simp
qed

lemma sort_key_descending:
  fixes f :: "'a \<Rightarrow> int"
  assumes "distinct (map f xs)"
  shows "sort_key (\<lambda>x. - f x) xs = rev (sort_key f xs)"
proof (rule sort_key_inj_key_eq)
  show "mset xs = mset (rev (sort_key f xs))" by simp
  show "inj_on (\<lambda>x. - f x) (set xs)" using assms by (auto simp: distinct_map inj_on_def)
  have "sorted_wrt (\<lambda>x y. f x \<le> f y) (sort_key f xs)" using sorted_sort_key [of f xs] by (simp only: sorted_wrt_map)
  then show "sorted (map (\<lambda>x. - f x) (rev (sort_key f xs)))" by (simp add: sorted_wrt_map sorted_wrt_rev)
qed

definition wf_tickets :: "db \<Rightarrow> bool" where
  "wf_tickets db \<longleftrightarrow> wf_table ticket_entity (t_tickets db) \<and> wf_table ticket_message_entity (t_ticket_messages db) \<and>
     (\<forall>m\<in>set (rows (t_ticket_messages db)). tm_ticket_id m < next_id (t_tickets db))"

lemma new_message_fields [simp]:
  "tm_user_id (new_row ticket_message_entity now t m) = tm_user_id m"
  "tm_ticket_id (new_row ticket_message_entity now t m) = tm_ticket_id m"
  "tm_id (new_row ticket_message_entity now t m) = next_id t"
  by (simp_all add: new_row_def ticket_message_entity_def)

lemma stored_fields_ticket [simp]:
  "tk_id (stored ticket_entity now x t) = tk_id t" "tk_user_id (stored ticket_entity now x t) = tk_user_id t"
  "tk_status (stored ticket_entity now x t) = tk_status t"
  by (auto simp: stored_def ticket_entity_def)

lemma new_ticket_fields [simp]:
  "tk_id (new_row ticket_entity now tb t) = next_id tb" "tk_user_id (new_row ticket_entity now tb t) = tk_user_id t"
  "tk_status (new_row ticket_entity now tb t) = tk_status t"
  by (simp_all add: new_row_def ticket_entity_def)

lemma messages_after_insert:
  assumes "wf_tickets db"
  shows "messages_by_ticket (insert_message now uid tid message db) t =
     (if t = tid then messages_by_ticket db t @ [new_row ticket_message_entity now (t_ticket_messages db)
        \<lparr>tm_id = 0, tm_user_id = uid, tm_ticket_id = tid, tm_message = message, tm_created_at = 0, tm_updated_at = 0\<rparr>]
      else messages_by_ticket db t)"
proof -
  have "\<forall>y\<in>set (filter (\<lambda>m. tm_ticket_id m = tid) (rows (t_ticket_messages db))). tm_id y < next_id (t_ticket_messages db)"
    using assms by (auto simp: wf_tickets_def wf_table_def list_all_iff)
  then show ?thesis by (auto simp: messages_by_ticket_def insert_message_def sort_key_snoc)
qed

lemma last_message_is_last:
  assumes "wf_tickets db"
  shows "last_message db tid = (if messages_by_ticket db tid = [] then None else Some (last (messages_by_ticket db tid)))"
proof -
  have "distinct (map tm_id (filter (\<lambda>m. tm_ticket_id m = tid) (rows (t_ticket_messages db))))"
    using assms by (auto simp: wf_tickets_def wf_table_def distinct_map inj_on_def)
  from sort_key_descending [OF this] show ?thesis
    by (auto simp: last_message_def messages_by_ticket_def hd_rev [symmetric] split: list.split)
qed

section \<open>Operations\<close>

datatype ticket_op =
    OpenTicket int ticket_create
  | OpenWithdrawal int string string
  | UserReply int int string
  | UserClose int int
  | StaffReply int int string
  | StaffClose int

fun run_ticket_op :: "setting_service \<Rightarrow> int \<Rightarrow> ticket_op \<Rightarrow> db \<Rightarrow> exn + db" where
  "run_ticket_op S now (OpenTicket uid data) db = bindE (create_ticket S now uid data db) (\<lambda>(_, db'). Inr db')"
| "run_ticket_op S now (OpenWithdrawal uid meth account) db = bindE (create_withdraw_ticket S now uid meth account db) (\<lambda>(_, db'). Inr db')"
| "run_ticket_op S now (UserReply uid tid message) db = bindE (reply_user_ticket now uid tid message db) (\<lambda>(_, db'). Inr db')"
| "run_ticket_op S now (UserClose uid tid) db = close_user_ticket now uid tid db"
| "run_ticket_op S now (StaffReply aid tid message) db = bindE (reply_admin_ticket now aid tid message db) (\<lambda>(_, db'). Inr db')"
| "run_ticket_op S now (StaffClose tid) db = close_admin_ticket now tid db"

text \<open>A staff member answers an open ticket of somebody else.\<close>

fun courteous :: "db \<Rightarrow> ticket_op \<Rightarrow> bool" where
  "courteous db (StaffReply aid tid message) =
     (case ticket_by_id db tid of None \<Rightarrow> True | Some t \<Rightarrow> tk_status t = 0 \<and> tk_user_id t \<noteq> aid)"
| "courteous db _ = True"

text \<open>The three things that then happen: a first message with a new ticket of a user without an open one,
  a message in an open ticket that is not the owner's second in a row, a ticket closed.\<close>

inductive ticket_outcome :: "int \<Rightarrow> db \<Rightarrow> db \<Rightarrow> bool" for now where
  opened: "count_open_by_user db (tk_user_id t) = 0 \<Longrightarrow> t_tickets d = t_tickets db \<Longrightarrow> t_ticket_messages d = t_ticket_messages db \<Longrightarrow>
    tk_status t = 0 \<Longrightarrow>
    db' = insert_message now (tk_user_id t) (next_id (t_tickets db)) msg (d\<lparr>t_tickets := repo_create ticket_entity now (t_tickets db) t\<rparr>) \<Longrightarrow>
    ticket_outcome now db db'"
| replied: "ticket_by_id db tid = Some t \<Longrightarrow> tk_id t' = tk_id t \<Longrightarrow> tk_user_id t' = tk_user_id t \<Longrightarrow>
    tk_status t = 0 \<Longrightarrow> tk_status t' = 0 \<Longrightarrow>
    uid = tk_user_id t \<longrightarrow> (case last_message db tid of None \<Rightarrow> True | Some m \<Rightarrow> tm_user_id m \<noteq> uid) \<Longrightarrow>
    ticket_outcome now db (put_ticket now (insert_message now uid (tk_id t) msg db) t')"
| closed: "ticket_by_id db tid = Some t \<Longrightarrow> ticket_outcome now db (put_ticket now db (t\<lparr>tk_status := 1\<rparr>))"

lemma own_ticketD: "own_ticket uid tid db = Inr t \<Longrightarrow> ticket_by_id db tid = Some t \<and> tk_user_id t = uid"
  by (auto simp: own_ticket_def result_simps split: option.splits)

lemma staff_ticketD: "staff_ticket tid db = Inr t \<Longrightarrow> ticket_by_id db tid = Some t"
  by (auto simp: staff_ticket_def split: option.splits)

lemma create_ticket_outcome:
  assumes "create_ticket S now uid data db = Inr (v, db')" "t_tickets db = t_tickets db0" "t_ticket_messages db = t_ticket_messages db0"
  shows "ticket_outcome now db0 db'"
proof -
  let ?t = "\<lparr>tk_id = 0, tk_user_id = uid, tk_subject = strip (tc_subject data),
      tk_level = tc_level data, tk_status = 0, tk_reply_status = 0, tk_created_at = 0, tk_updated_at = 0\<rparr>"
  from assms(1) obtain st d where g: "get_int S now ''ticket_status'' 0 db = Inr (st, d)" and free: "\<not> 0 < count_open_by_user db uid"
    and db': "db' = insert_message now uid (next_id (t_tickets d)) (strip (tc_message data)) (d\<lparr>t_tickets := repo_create ticket_entity now (t_tickets d) ?t\<rparr>)"
    by (auto simp: create_ticket_def result_simps Let_def insert_ticket_def)
  from get_int_state [OF g] obtain c where d: "d = db\<lparr>t_cache := c\<rparr>" by blast
  have "0 \<le> count_open_by_user db uid" by (simp add: count_open_by_user_def count_where_nonneg)
  with free have "count_open_by_user db uid = 0" by linarith
  then have "count_open_by_user db0 uid = 0" using assms(2) by (simp add: count_open_by_user_def)
  then show ?thesis
    using assms(2,3) d by (intro ticket_outcome.opened [of db0 ?t d]) (simp_all add: db')
qed

lemma withdraw_outcome:
  assumes "create_withdraw_ticket S now uid meth account db = Inr (v, db')"
  shows "ticket_outcome now db db'"
proof -
  from assms obtain closed db1 methods db2 where g1: "get_int S now ''withdraw_close_enable'' 0 db = Inr (closed, db1)"
    and g2: "get_json S now ''commission_withdraw_method'' (JArr [JStr ''alipay'', JStr ''usdt'', JStr ''bank'']) db1 = Inr (methods, db2)"
    by (auto simp: create_withdraw_ticket_def result_simps)
  with assms obtain u where "user_by_id db2 uid = Some u"
    by (cases "user_by_id db2 uid") (auto simp: create_withdraw_ticket_def result_simps)
  with assms g1 g2 obtain l db3 data where g3: "get_int S now ''commission_withdraw_limit'' 100 db2 = Inr (l, db3)"
    and c: "create_ticket S now uid data db3 = Inr (v, db')"
    by (auto simp: create_withdraw_ticket_def result_simps)
  from get_int_state [OF g1] get_json_state [OF g2] get_int_state [OF g3]
  have "t_tickets db3 = t_tickets db" "t_ticket_messages db3 = t_ticket_messages db" by auto
  with create_ticket_outcome [OF c] show ?thesis .
qed

lemma ticket_op_outcome:
  assumes "run_ticket_op S now op db = Inr db'" "courteous db op"
  shows "ticket_outcome now db db'"
proof (cases op)
  case (OpenTicket uid data)
  then show ?thesis using assms create_ticket_outcome by (auto simp: bindE_eq_Inr)
next
  case (OpenWithdrawal uid meth account)
  then show ?thesis using assms withdraw_outcome by (auto simp: bindE_eq_Inr)
next
  case (UserReply uid tid message)
  with assms obtain t where t: "own_ticket uid tid db = Inr t" "tk_status t = 0"
    and l: "\<not> (case last_message db tid of None \<Rightarrow> False | Some m \<Rightarrow> tm_user_id m = uid)"
    and db': "db' = snd (reply_to now t uid (strip message) db)"
    by (auto simp: reply_user_ticket_def result_simps split_beta)
  show ?thesis unfolding db' reply_to_def Let_def snd_conv
    using own_ticketD [OF t(1)] t(2) l by (intro ticket_outcome.replied) (auto split: option.splits)
next
  case (UserClose uid tid)
  with assms obtain t where "own_ticket uid tid db = Inr t" "db' = put_ticket now db (t\<lparr>tk_status := 1\<rparr>)"
    by (auto simp: close_user_ticket_def bindE_eq_Inr)
  with ticket_outcome.closed [OF conjunct1 [OF own_ticketD]] show ?thesis by metis
next
  case (StaffReply aid tid message)
  with assms obtain t where t: "staff_ticket tid db = Inr t" and db': "db' = snd (reply_to now (t\<lparr>tk_status := 0\<rparr>) aid (strip message) db)"
    by (auto simp: reply_admin_ticket_def result_simps split_beta)
  have "tk_status t = 0" "tk_user_id t \<noteq> aid" using assms(2) staff_ticketD [OF t] StaffReply by simp_all
  then show ?thesis unfolding db' reply_to_def Let_def snd_conv
    using staff_ticketD [OF t] ticket_outcome.replied [of db tid t "t\<lparr>tk_status := 0, tk_reply_status := 1\<rparr>" aid now "strip message"] by simp
next
  case (StaffClose tid)
  with assms obtain t where "staff_ticket tid db = Inr t" "db' = put_ticket now db (t\<lparr>tk_status := 1\<rparr>)"
    by (auto simp: close_admin_ticket_def bindE_eq_Inr)
  with ticket_outcome.closed [OF staff_ticketD] show ?thesis by metis
qed

section \<open>The desk stays in order\<close>

definition one_open_ticket :: "db \<Rightarrow> bool" where
  "one_open_ticket db \<longleftrightarrow> (\<forall>x\<in>set (rows (t_tickets db)). \<forall>y\<in>set (rows (t_tickets db)).
     tk_status x = 0 \<longrightarrow> tk_status y = 0 \<longrightarrow> tk_user_id x = tk_user_id y \<longrightarrow> tk_id x = tk_id y)"

definition in_turns :: "int \<Rightarrow> ticket_message list \<Rightarrow> bool" where
  "in_turns owner = successively (\<lambda>a b. \<not> (tm_user_id a = owner \<and> tm_user_id b = owner))"

definition owner_waits :: "db \<Rightarrow> bool" where
  "owner_waits db \<longleftrightarrow> (\<forall>t\<in>set (rows (t_tickets db)). in_turns (tk_user_id t) (messages_by_ticket db (tk_id t)))"

definition ticket_desk :: "db \<Rightarrow> bool" where
  "ticket_desk db \<longleftrightarrow> wf_tickets db \<and> one_open_ticket db \<and> owner_waits db"

lemma in_turns_simps [simp]: "in_turns owner [] = True" "in_turns owner [m] = True"
  by (simp_all add: in_turns_def)

lemma in_turns_snoc:
  "in_turns owner ms \<Longrightarrow> ms = [] \<or> tm_user_id (last ms) \<noteq> owner \<or> tm_user_id m \<noteq> owner \<Longrightarrow> in_turns owner (ms @ [m])"
  by (auto simp: in_turns_def successively_append_iff)

lemma tables_of_insert_message [simp]:
  "t_tickets (insert_message now uid tid msg db) = t_tickets db"
  by (simp add: insert_message_def)

lemma tables_of_put_ticket [simp]:
  "t_tickets (put_ticket now db t) = repo_update ticket_entity now (t_tickets db) t"
  "t_ticket_messages (put_ticket now db t) = t_ticket_messages db"
  by (simp_all add: put_ticket_def)

lemma messages_by_ticket_cong:
  "t_ticket_messages db' = t_ticket_messages db \<Longrightarrow> messages_by_ticket db' tid = messages_by_ticket db tid"
  by (simp add: messages_by_ticket_def)

lemma ticket_by_idD: "ticket_by_id db tid = Some t \<Longrightarrow> t \<in> set (rows (t_tickets db)) \<and> tk_id t = tid"
  by (auto simp: ticket_by_id_def ticket_entity_def dest: repo_get_SomeD)

lemma no_messages_yet:
  assumes "wf_tickets db" "next_id (t_tickets db) \<le> tid"
  shows "messages_by_ticket db tid = []"
proof -
  have "filter (\<lambda>m. tm_ticket_id m = tid) (rows (t_ticket_messages db)) = []"
    using assms by (auto simp: wf_tickets_def filter_empty_conv)
  then show ?thesis by (simp only: messages_by_ticket_def) simp
qed

lemma wf_insert_message:
  assumes "wf_tickets db" "tid < next_id (t_tickets db)"
  shows "wf_tickets (insert_message now uid tid msg db)"
  using assms by (auto simp: wf_tickets_def insert_message_def intro: ticket_messages.wf_create)

lemma next_id_repo_update [simp]: "next_id (repo_update E now t r) = next_id t"
  by (simp add: repo_update_def)

lemma wf_put_ticket: "wf_tickets db \<Longrightarrow> wf_tickets (put_ticket now db t)"
  by (auto simp: wf_tickets_def intro: tickets.wf_update)

lemma wf_new_ticket:
  assumes "wf_tickets db" "t_tickets d = t_tickets db" "t_ticket_messages d = t_ticket_messages db"
  shows "wf_tickets (d\<lparr>t_tickets := repo_create ticket_entity now (t_tickets db) t\<rparr>)"
proof -
  have n: "next_id (repo_create ticket_entity now (t_tickets db) t) = next_id (t_tickets db) + 1"
    by (simp add: repo_create_def)
  show ?thesis using assms tickets.wf_create [of "t_tickets db" now t]
    unfolding wf_tickets_def by (fastforce simp: n)
qed

text \<open>A ticket that keeps its owner, and is not opened, keeps the order of the desk.\<close>

lemma desk_put_ticket:
  assumes desk: "wf_tickets db" "one_open_ticket db"
    and turns: "\<forall>x\<in>set (rows (t_tickets db)). in_turns (tk_user_id x) (messages_by_ticket db (tk_id x))"
    and t: "t \<in> set (rows (t_tickets db))" "tk_id t' = tk_id t" "tk_user_id t' = tk_user_id t"
    and closing: "tk_status t' = 0 \<longrightarrow> tk_status t = 0"
  shows "ticket_desk (put_ticket now db t')"
proof -
  let ?tb = "repo_update ticket_entity now (t_tickets db) t'"
  have row: "\<exists>y\<in>set (rows (t_tickets db)). tk_id x = tk_id y \<and> tk_user_id x = tk_user_id y \<and> (tk_status x = 0 \<longrightarrow> tk_status y = 0)"
    if x: "x \<in> set (rows ?tb)" for x
  proof -
    from tickets.set_update_cases [OF x] consider
      "x \<in> set (rows (t_tickets db))" | y where "y \<in> set (rows (t_tickets db))" "tk_id y = tk_id t'" "x = stored ticket_entity now y t'"
      by (auto simp: ticket_entity_def)
    then show ?thesis
    proof cases
      case 2
      then show ?thesis using t closing by (intro bexI [of _ t]) simp_all
    qed blast
  qed
  have "one_open_ticket (put_ticket now db t')"
    unfolding one_open_ticket_def tables_of_put_ticket
  proof (intro ballI impI)
    fix x y assume xy: "x \<in> set (rows ?tb)" "y \<in> set (rows ?tb)" "tk_status x = 0" "tk_status y = 0" "tk_user_id x = tk_user_id y"
    from row [OF xy(1)] row [OF xy(2)] show "tk_id x = tk_id y"
      using desk(2) xy(3-5) unfolding one_open_ticket_def by metis
  qed
  moreover have "owner_waits (put_ticket now db t')"
    unfolding owner_waits_def tables_of_put_ticket
  proof
    fix x assume "x \<in> set (rows ?tb)"
    from row [OF this] turns show "in_turns (tk_user_id x) (messages_by_ticket (put_ticket now db t') (tk_id x))"
      using messages_by_ticket_cong [of "put_ticket now db t'" db] by auto
  qed
  ultimately show ?thesis using wf_put_ticket [OF desk(1)] by (simp add: ticket_desk_def)
qed

lemma desk_step:
  assumes "ticket_outcome now db db'" "ticket_desk db"
  shows "ticket_desk db'"
  using assms
proof (cases rule: ticket_outcome.cases)
  case (opened t d msg)
  let ?d = "d\<lparr>t_tickets := repo_create ticket_entity now (t_tickets db) t\<rparr>"
  let ?n = "next_id (t_tickets db)"
  have wf: "wf_tickets ?d" "wf_tickets db" using assms(2) opened wf_new_ticket by (auto simp: ticket_desk_def)
  have tk: "t_tickets db' = repo_create ticket_entity now (t_tickets db) t" by (simp add: opened)
  have n: "?n < next_id (t_tickets ?d)" by (simp add: repo_create_def)
  have none_open: "\<forall>x\<in>set (rows (t_tickets db)). tk_user_id x = tk_user_id t \<longrightarrow> tk_status x \<noteq> 0"
    using opened(1) by (auto simp: count_open_by_user_def count_where_zero)
  have fresh: "\<forall>x\<in>set (rows (t_tickets db)). tk_id x < ?n"
    using wf(2) by (auto simp: wf_tickets_def wf_table_def list_all_iff ticket_entity_def)
  have old: "messages_by_ticket ?d i = messages_by_ticket db i" for i
    using opened by (intro messages_by_ticket_cong) simp
  have "one_open_ticket db'"
    using assms(2) none_open unfolding one_open_ticket_def ticket_desk_def tk by fastforce
  moreover have "owner_waits db'"
    using assms(2) fresh no_messages_yet [OF wf(2) order_refl]
    unfolding owner_waits_def ticket_desk_def tk opened(5) messages_after_insert [OF wf(1)] old by auto
  moreover have "wf_tickets db'"
    using wf_insert_message [OF wf(1) n] opened(5) by simp
  ultimately show ?thesis by (simp add: ticket_desk_def)
next
  case (replied tid t t' uid msg)
  let ?d = "insert_message now uid (tk_id t) msg db"
  have desk: "wf_tickets db" "one_open_ticket db" "owner_waits db" using assms(2) by (auto simp: ticket_desk_def)
  from ticket_by_idD [OF replied(2)] have t: "t \<in> set (rows (t_tickets db))" "tk_id t = tid" by auto
  have wf: "wf_tickets ?d"
    using desk(1) t(1) by (intro wf_insert_message) (auto simp: wf_tickets_def wf_table_def list_all_iff ticket_entity_def)
  have turns: "in_turns (tk_user_id x) (messages_by_ticket ?d (tk_id x))" if x: "x \<in> set (rows (t_tickets db))" for x
  proof (cases "tk_id x = tid")
    case True
    have "x = t" using wf_same_row [of ticket_entity "t_tickets db" x t] desk(1) x t True
      by (simp add: wf_tickets_def ticket_entity_def)
    have "in_turns (tk_user_id t) (messages_by_ticket db tid)" using desk(3) t by (auto simp: owner_waits_def)
    moreover have "messages_by_ticket db tid = [] \<or> tm_user_id (last (messages_by_ticket db tid)) \<noteq> tk_user_id t \<or> uid \<noteq> tk_user_id t"
      using replied(7) last_message_is_last [OF desk(1), of tid] by (cases "messages_by_ticket db tid = []") (auto split: option.splits)
    ultimately show ?thesis
      unfolding \<open>x = t\<close> t(2) messages_after_insert [OF desk(1)] by (simp add: in_turns_snoc)
  next
    case False
    then have "messages_by_ticket ?d (tk_id x) = messages_by_ticket db (tk_id x)"
      by (simp only: t(2) messages_after_insert [OF desk(1)] if_False)
    then show ?thesis using desk(3) x by (simp add: owner_waits_def)
  qed
  have "one_open_ticket ?d" using desk(2) by (simp only: one_open_ticket_def tables_of_insert_message)
  moreover have "t \<in> set (rows (t_tickets ?d))" using t(1) by simp
  moreover have "\<forall>x\<in>set (rows (t_tickets ?d)). in_turns (tk_user_id x) (messages_by_ticket ?d (tk_id x))"
    using turns by simp
  ultimately have "ticket_desk (put_ticket now ?d t')"
    using replied(5) desk_put_ticket [OF wf, where t = t and t' = t'] replied(3,4) by blast
  then show ?thesis by (simp only: replied(1))
next
  case (closed tid t)
  have desk: "wf_tickets db" "one_open_ticket db"
    and turns: "\<forall>x\<in>set (rows (t_tickets db)). in_turns (tk_user_id x) (messages_by_ticket db (tk_id x))"
    using assms(2) by (auto simp: ticket_desk_def owner_waits_def)
  have "ticket_desk (put_ticket now db (t\<lparr>tk_status := 1\<rparr>))"
    by (rule desk_put_ticket [OF desk turns conjunct1 [OF ticket_by_idD [OF closed(2)]]]) simp_all
  then show ?thesis by (simp only: closed(1))
qed

fun run_desk :: "setting_service \<Rightarrow> (int \<times> ticket_op) list \<Rightarrow> db \<Rightarrow> db" where
  "run_desk S [] db = db"
| "run_desk S ((now, op) # ops) db = run_desk S ops (case run_ticket_op S now op db of Inl _ \<Rightarrow> db | Inr db' \<Rightarrow> db')"

fun courteous_desk :: "setting_service \<Rightarrow> (int \<times> ticket_op) list \<Rightarrow> db \<Rightarrow> bool" where
  "courteous_desk S [] db = True"
| "courteous_desk S ((now, op) # ops) db =
     (courteous db op \<and> courteous_desk S ops (case run_ticket_op S now op db of Inl _ \<Rightarrow> db | Inr db' \<Rightarrow> db'))"

lemma desk_kept: "ticket_desk db \<Longrightarrow> courteous_desk S ops db \<Longrightarrow> ticket_desk (run_desk S ops db)"
proof (induction S ops db rule: run_desk.induct)
  case (2 S now op ops db)
  then show ?case
    using desk_step [OF ticket_op_outcome [of S now op db]] by (cases "run_ticket_op S now op db") simp_all
qed simp

lemma one_open_counts:
  assumes "ticket_desk db"
  shows "count_open_by_user db uid \<le> 1"
proof -
  let ?rs = "filter (\<lambda>r. tk_user_id r = uid \<and> tk_status r = 0) (rows (t_tickets db))"
  have d: "distinct (map tk_id ?rs)"
    using assms by (auto simp: ticket_desk_def wf_tickets_def wf_table_def ticket_entity_def distinct_map inj_on_def)
  have one: "\<forall>x\<in>set ?rs. \<forall>y\<in>set ?rs. tk_id x = tk_id y"
    using assms by (auto simp: ticket_desk_def one_open_ticket_def)
  have "length ?rs \<le> 1"
  proof (cases ?rs)
    case (Cons a as)
    have "as = []"
    proof (rule ccontr)
      assume "as \<noteq> []"
      then have b: "hd as \<in> set as" by simp
      with one have "tk_id a = tk_id (hd as)" unfolding Cons by (blast intro: list.set_intros)
      moreover have "tk_id a \<notin> tk_id ` set as" using d unfolding Cons by simp
      ultimately show False using b by blast
    qed
    then show ?thesis unfolding Cons by simp
  qed simp
  then show ?thesis by (simp add: count_open_by_user_def count_where_def)
qed

definition desk_db :: db where
  "desk_db = empty_db\<lparr>t_users := \<lparr>rows = [sample_user, sample_user\<lparr>us_id := 9, us_email := ''s@b.c''\<rparr>], next_id = 10\<rparr>\<rparr>"

definition desk_question :: ticket_create where
  "desk_question = \<lparr>tc_subject = ''login'', tc_level = 1, tc_message = ''help''\<rparr>"

definition desk_ops :: "(int \<times> ticket_op) list" where
  "desk_ops = [(10, OpenTicket 1 desk_question), (11, UserReply 1 1 ''again''), (12, StaffReply 9 1 ''which one''),
     (13, UserReply 1 1 ''the app''), (14, UserClose 1 1), (15, OpenTicket 1 desk_question)]"

lemma desk_db_ok: "ticket_desk desk_db"
  by (simp add: ticket_desk_def wf_tickets_def one_open_ticket_def owner_waits_def desk_db_def empty_db_def wf_table_def)

text \<open>C16: While the staff answers open tickets only, and no staff member answers a ticket of the own account, no
  sequence of requests gives a user two open tickets, lets the owner of a ticket write twice in a row, or breaks the
  link from messages to tickets.\<close>

theorem ticket_desk_in_order:
  assumes "ticket_desk db" "courteous_desk S ops db"
  shows "ticket_desk (run_desk S ops db) \<and> count_open_by_user (run_desk S ops db) uid \<le> 1"
  using desk_kept [OF assms] one_open_counts by blast

theorem ticket_desk_in_order_witness:
  "courteous_desk sample_service desk_ops desk_db \<and> count_open_by_user (run_desk sample_service desk_ops desk_db) 1 \<le> 1 \<and>
   map tm_message (messages_by_ticket (run_desk sample_service desk_ops desk_db) 1) = [''help'', ''which one'', ''the app'']"
proof (intro conjI)
  show c: "courteous_desk sample_service desk_ops desk_db" by code_simp
  show "count_open_by_user (run_desk sample_service desk_ops desk_db) 1 \<le> 1"
    using ticket_desk_in_order [OF desk_db_ok c] by blast
  show "map tm_message (messages_by_ticket (run_desk sample_service desk_ops desk_db) 1) = [''help'', ''which one'', ''the app'']"
    by code_simp
qed

text \<open>A reply of the staff to a closed ticket reopens it: its user, who opened another ticket in the
  meantime, has two open tickets, and can open no third one.\<close>

theorem staff_reply_reopens:
  "count_open_by_user (run_desk sample_service [(10, OpenTicket 1 desk_question), (11, UserClose 1 1),
     (12, OpenTicket 1 desk_question), (13, StaffReply 9 1 ''better late'')] desk_db) 1 = 2"
  by code_simp

end
