(* ===== verification/Users.thy ===== *)
theory Users
  imports Samples
begin

text \<open>
  \<open>app/services/user.py\<close> with \<open>app/utils/password.py\<close> and the request models of
  \<open>app/models/user/dto.py\<close>: the accounts. The password hashes are a library: a record of functions
  (\<open>pw_hash\<close> takes the random salt). Random tokens and identifiers are arguments of the operations
  that draw them.
\<close>

section \<open>Passwords\<close>

record passwords =
  pw_hash :: "string \<Rightarrow> string \<Rightarrow> string"
  pw_argon2_verify :: "string \<Rightarrow> string \<Rightarrow> exn + bool"
  pw_needs_rehash :: "string \<Rightarrow> bool"
  pw_bcrypt_check :: "string \<Rightarrow> string \<Rightarrow> exn + bool"

definition hash_password :: "passwords \<Rightarrow> string \<Rightarrow> string \<Rightarrow> string" where
  "hash_password P salt secret = pw_hash P salt secret"

definition verify_argon2id :: "passwords \<Rightarrow> string \<Rightarrow> string \<Rightarrow> string \<Rightarrow> exn + bool \<times> string option" where
  "verify_argon2id P salt secret h =
     bindE (pw_argon2_verify P h secret) (\<lambda>good.
       if \<not> good then Inr (False, None)
       else if pw_needs_rehash P h then Inr (True, Some (pw_hash P salt secret)) else Inr (True, None))"

definition verify_bcrypt :: "passwords \<Rightarrow> string \<Rightarrow> string \<Rightarrow> string \<Rightarrow> exn + bool \<times> string option" where
  "verify_bcrypt P salt secret h =
     (case pw_bcrypt_check P secret h of
        Inl e \<Rightarrow> if e = ValueError \<or> e = TypeError then Inr (False, None) else Inl e
      | Inr good \<Rightarrow> if good then Inr (True, Some (pw_hash P salt secret)) else Inr (False, None))"

definition verify_and_upgrade :: "passwords \<Rightarrow> string \<Rightarrow> string \<Rightarrow> string \<Rightarrow> exn + bool \<times> string option" where
  "verify_and_upgrade P salt secret h =
     (if starts_with ''$argon2'' h then verify_argon2id P salt secret h
      else if starts_with ''$2'' h then verify_bcrypt P salt secret h
      else Inr (False, None))"

section \<open>Request models\<close>

definition normalize_email :: "string \<Rightarrow> exn + string" where
  "normalize_email value = (let v = lower (strip value) in guardE (CHR ''@'' \<notin> set v) ValueError (Inr v))"

definition validate_password :: "string \<Rightarrow> exn + string" where
  "validate_password value = guardE (length value < 8) ValueError (Inr value)"

record user_create =
  uc_email :: string
  uc_password :: string
  uc_invite_code :: "string option"
  uc_email_code :: "string option"
  uc_recaptcha_data :: "string option"

definition user_create_request :: "user_create \<Rightarrow> exn + user_create" where
  "user_create_request d =
     bindE (normalize_email (uc_email d)) (\<lambda>e. bindE (validate_password (uc_password d)) (\<lambda>p.
       Inr (d\<lparr>uc_email := e, uc_password := p\<rparr>)))"

record user_update =
  uu_email :: "string option option"
  uu_password :: "string option option"
  uu_balance :: "int option option"
  uu_discount :: "int option option"
  uu_commission_type :: "int option option"
  uu_commission_rate :: "int option option"
  uu_transfer_enable :: "int option option"
  uu_device_limit :: "int option option"
  uu_banned :: "bool option option"
  uu_is_admin :: "bool option option"
  uu_is_staff :: "bool option option"
  uu_speed_limit :: "int option option"
  uu_group_id :: "int option option"
  uu_plan_id :: "int option option"
  uu_auto_renewal :: "int option option"
  uu_remind_expire :: "int option option"
  uu_remind_traffic :: "int option option"
  uu_expired_at :: "int option option"
  uu_remarks :: "string option option"

record self_update =
  se_auto_renewal :: "int option option"
  se_remind_expire :: "int option option"
  se_remind_traffic :: "int option option"

record user_generate =
  ug_email_prefix :: "string option"
  ug_email_suffix :: string
  ug_password :: "string option"
  ug_plan_id :: "int option"
  ug_expired_at :: "int option"
  ug_count :: "int option"

section \<open>Queries\<close>

definition list_users :: "int \<Rightarrow> int \<Rightarrow> string option \<Rightarrow> string option \<Rightarrow> db \<Rightarrow> user list" where
  "list_users offset limit q status db = search_users db offset limit q status"

definition get_user :: "int \<Rightarrow> db \<Rightarrow> exn + user" where
  "get_user uid db = (case user_by_id db uid of None \<Rightarrow> Inl (NotFound ''user'') | Some u \<Rightarrow> Inr u)"

definition get_profile :: "(string \<Rightarrow> string) \<Rightarrow> int \<Rightarrow> db \<Rightarrow> exn + user \<times> string" where
  "get_profile md5 uid db =
     bindE (get_user uid db) (\<lambda>u. Inr (u, ''https://cravatar.cn/avatar/'' @ md5 (us_email u) @ ''?s=64&d=identicon''))"

definition get_account_stat :: "int \<Rightarrow> db \<Rightarrow> exn + int list" where
  "get_account_stat uid db =
     bindE (get_user uid db) (\<lambda>_.
       Inr [count_pending_orders db uid, count_open_tickets db uid, count_invited_users db uid])"

section \<open>Operations\<close>

definition blank_user :: user where
  "blank_user = \<lparr>us_id = 0, us_email = [], us_password = [], us_token = [], us_invite_user_id = None,
     us_telegram_id = None, us_balance = 0, us_discount = None, us_commission_type = 0, us_commission_rate = None,
     us_commission_balance = 0, us_t = 0, us_u = 0, us_d = 0, us_transfer_enable = 0, us_group_id = None,
     us_plan_id = None, us_speed_limit = None, us_device_limit = None, us_banned = False, us_is_admin = False,
     us_is_staff = False, us_auto_renewal = 0, us_remind_expire = 1, us_remind_traffic = 1, us_last_login_at = None,
     us_last_login_ip = None, us_uuid = [], us_expired_at = 0, us_remarks = None, us_created_at = 0, us_updated_at = 0\<rparr>"

text \<open>The random values drawn for one account: salt, token, uuid, and a random mailbox name.\<close>

record account_random =
  ar_salt :: string
  ar_token :: string
  ar_uuid :: string
  ar_prefix :: string

definition create_user :: "passwords \<Rightarrow> account_random \<Rightarrow> int \<Rightarrow> user_create \<Rightarrow> db \<Rightarrow> exn + user \<times> db" where
  "create_user P r now data db =
     guardE (email_exists db (uc_email data)) (Conflict ''email'')
       (insert_user now db (blank_user\<lparr>us_email := uc_email data, us_password := hash_password P (ar_salt r) (uc_password data),
          us_token := ar_token r, us_uuid := ar_uuid r\<rparr>))"

definition forced_null :: "user_update \<Rightarrow> bool" where
  "forced_null x = (explicit_null (uu_balance x) \<or> explicit_null (uu_commission_type x) \<or> explicit_null (uu_transfer_enable x) \<or>
     explicit_null (uu_banned x) \<or> explicit_null (uu_is_admin x) \<or> explicit_null (uu_is_staff x) \<or>
     explicit_null (uu_auto_renewal x) \<or> explicit_null (uu_remind_expire x) \<or> explicit_null (uu_remind_traffic x) \<or>
     explicit_null (uu_expired_at x))"

definition updated_user :: "passwords \<Rightarrow> string \<Rightarrow> user_update \<Rightarrow> user \<Rightarrow> user" where
  "updated_user P salt x u =
     u\<lparr>us_email := set_if (given (uu_email x)) (us_email u),
       us_password := (case given (uu_password x) of None \<Rightarrow> us_password u | Some p \<Rightarrow> hash_password P salt p),
       us_balance := set_if (given (uu_balance x)) (us_balance u),
       us_discount := set_if (uu_discount x) (us_discount u),
       us_commission_type := set_if (given (uu_commission_type x)) (us_commission_type u),
       us_commission_rate := set_if (uu_commission_rate x) (us_commission_rate u),
       us_transfer_enable := set_if (given (uu_transfer_enable x)) (us_transfer_enable u),
       us_device_limit := set_if (uu_device_limit x) (us_device_limit u),
       us_banned := set_if (given (uu_banned x)) (us_banned u),
       us_is_admin := set_if (given (uu_is_admin x)) (us_is_admin u),
       us_is_staff := set_if (given (uu_is_staff x)) (us_is_staff u),
       us_speed_limit := set_if (uu_speed_limit x) (us_speed_limit u),
       us_group_id := set_if (uu_group_id x) (us_group_id u),
       us_plan_id := set_if (uu_plan_id x) (us_plan_id u),
       us_auto_renewal := set_if (given (uu_auto_renewal x)) (us_auto_renewal u),
       us_remind_expire := set_if (given (uu_remind_expire x)) (us_remind_expire u),
       us_remind_traffic := set_if (given (uu_remind_traffic x)) (us_remind_traffic u),
       us_expired_at := set_if (given (uu_expired_at x)) (us_expired_at u),
       us_remarks := set_if (uu_remarks x) (us_remarks u)\<rparr>"

definition update_user :: "passwords \<Rightarrow> string \<Rightarrow> int \<Rightarrow> int \<Rightarrow> user_update \<Rightarrow> db \<Rightarrow> exn + user \<times> db" where
  "update_user P salt now uid x db =
     (case user_by_id db uid of
        None \<Rightarrow> Inl (NotFound ''user'')
      | Some u \<Rightarrow>
          guardE (case given (uu_email x) of None \<Rightarrow> False | Some e \<Rightarrow> e \<noteq> us_email u \<and> email_exists db e) (Conflict ''email'') (
          guardE (forced_null x) IntegrityError
            (let u' = updated_user P salt x u in bindE (save_user now db u') (\<lambda>db'. Inr (u', db')))))"

definition update_profile :: "int \<Rightarrow> int \<Rightarrow> self_update \<Rightarrow> db \<Rightarrow> exn + db" where
  "update_profile now uid x db =
     (case user_by_id db uid of
        None \<Rightarrow> Inl (NotFound ''user'')
      | Some u \<Rightarrow>
          guardE (explicit_null (se_auto_renewal x) \<or> explicit_null (se_remind_expire x) \<or> explicit_null (se_remind_traffic x)) IntegrityError
            (Inr (put_user now db (u\<lparr>us_auto_renewal := set_if (given (se_auto_renewal x)) (us_auto_renewal u),
               us_remind_expire := set_if (given (se_remind_expire x)) (us_remind_expire u),
               us_remind_traffic := set_if (given (se_remind_traffic x)) (us_remind_traffic u)\<rparr>))))"

definition change_password :: "passwords \<Rightarrow> string \<Rightarrow> int \<Rightarrow> int \<Rightarrow> string \<Rightarrow> string \<Rightarrow> db \<Rightarrow> exn + db" where
  "change_password P salt now uid old_password new_password db =
     (case user_by_id db uid of
        None \<Rightarrow> Inl (NotFound ''user'')
      | Some u \<Rightarrow>
          bindE (verify_and_upgrade P salt old_password (us_password u)) (\<lambda>(valid, _).
          guardE (\<not> valid) (BadRequest ''old password'')
            (Inr (put_user now db (u\<lparr>us_password := hash_password P salt new_password\<rparr>)))))"

definition reset_security :: "account_random \<Rightarrow> int \<Rightarrow> int \<Rightarrow> db \<Rightarrow> exn + (string \<times> string) \<times> db" where
  "reset_security r now uid db =
     (case user_by_id db uid of
        None \<Rightarrow> Inl (NotFound ''user'')
      | Some u \<Rightarrow> bindE (save_user now db (u\<lparr>us_uuid := ar_uuid r, us_token := ar_token r\<rparr>)) (\<lambda>db'.
          Inr ((ar_uuid r, ar_token r), db')))"

definition admin_reset_security :: "account_random \<Rightarrow> int \<Rightarrow> int \<Rightarrow> db \<Rightarrow> exn + db" where
  "admin_reset_security r now uid db = bindE (reset_security r now uid db) (\<lambda>(_, db'). Inr db')"

definition admin_set_banned :: "int \<Rightarrow> int \<Rightarrow> bool \<Rightarrow> db \<Rightarrow> exn + db" where
  "admin_set_banned now uid banned db =
     (case user_by_id db uid of None \<Rightarrow> Inl (NotFound ''user'') | Some u \<Rightarrow> Inr (put_user now db (u\<lparr>us_banned := banned\<rparr>)))"

definition admin_set_invite_user :: "int \<Rightarrow> int \<Rightarrow> string option \<Rightarrow> db \<Rightarrow> exn + db" where
  "admin_set_invite_user now uid email db =
     (case user_by_id db uid of
        None \<Rightarrow> Inl (NotFound ''user'')
      | Some u \<Rightarrow>
          if email = None \<or> email = Some [] then Inr (put_user now db (u\<lparr>us_invite_user_id := None\<rparr>))
          else (case user_by_email db (lower (strip (the email))) of
              None \<Rightarrow> Inl (BadRequest ''inviter'')
            | Some v \<Rightarrow> guardE (us_id v = us_id u) (BadRequest ''inviter'')
                (Inr (put_user now db (u\<lparr>us_invite_user_id := Some (us_id v)\<rparr>)))))"

definition generated_email :: "user_generate \<Rightarrow> int \<Rightarrow> nat \<Rightarrow> string \<Rightarrow> string" where
  "generated_email data cnt index random_prefix =
     (let named = (ug_email_prefix data \<noteq> None \<and> ug_email_prefix data \<noteq> Some []);
          prefix = (if named then lower (strip (the (ug_email_prefix data))) else random_prefix);
          prefix = (if 1 < cnt \<and> named then prefix @ str_nat (index + 1) else prefix)
      in prefix @ ''@'' @ lstrip_chars {CHR ''@''} (lower (strip (ug_email_suffix data))))"

definition generated_user :: "passwords \<Rightarrow> account_random \<Rightarrow> user_generate \<Rightarrow> plan option \<Rightarrow> string \<Rightarrow> string \<Rightarrow> user" where
  "generated_user P r data plan email password =
     blank_user\<lparr>us_email := email, us_password := hash_password P (ar_salt r) password, us_token := ar_token r, us_uuid := ar_uuid r,
       us_plan_id := map_option pl_id plan, us_group_id := map_option pl_group_id plan,
       us_transfer_enable := (case plan of None \<Rightarrow> 0 | Some p \<Rightarrow> pl_transfer_enable p),
       us_device_limit := Option.bind plan pl_device_limit, us_speed_limit := Option.bind plan pl_speed_limit,
       us_expired_at := or_zero (ug_expired_at data)\<rparr>"

fun generate_users_loop :: "passwords \<Rightarrow> (nat \<Rightarrow> account_random) \<Rightarrow> int \<Rightarrow> user_generate \<Rightarrow> plan option \<Rightarrow> int \<Rightarrow> nat list \<Rightarrow> db
    \<Rightarrow> exn + (user \<times> string) list \<times> db" where
  "generate_users_loop P rnd now data plan cnt [] db = Inr ([], db)"
| "generate_users_loop P rnd now data plan cnt (index # is) db =
     (let email = generated_email data cnt index (ar_prefix (rnd index));
          password = (case ug_password data of None \<Rightarrow> email | Some p \<Rightarrow> if p = [] then email else p)
      in guardE (email_exists db email) (Conflict ''email'')
           (bindE (insert_user now db (generated_user P (rnd index) data plan email password)) (\<lambda>(u, db1).
            bindE (generate_users_loop P rnd now data plan cnt is db1) (\<lambda>(us, db2). Inr ((u, password) # us, db2)))))"

definition admin_generate_users :: "passwords \<Rightarrow> (nat \<Rightarrow> account_random) \<Rightarrow> int \<Rightarrow> user_generate \<Rightarrow> db \<Rightarrow> exn + (user \<times> string) list \<times> db" where
  "admin_generate_users P rnd now data db =
     guardE (ug_email_suffix data = [] \<or> CHR ''@'' \<in> set (ug_email_suffix data)) (BadRequest ''suffix'')
       (let cnt = or_zero (py_or (ug_count data) (Some 1)) in
        guardE (cnt < 1 \<or> 500 < cnt) (BadRequest ''count'')
          (bindE (if truthy (ug_plan_id data) then
                    (case plan_by_id db (or_zero (ug_plan_id data)) of None \<Rightarrow> Inl (NotFound ''plan'') | Some p \<Rightarrow> Inr (Some p))
                  else Inr None) (\<lambda>plan.
           generate_users_loop P rnd now data plan cnt [0..<nat cnt] db)))"

definition unbind_telegram :: "int \<Rightarrow> int \<Rightarrow> db \<Rightarrow> exn + db" where
  "unbind_telegram now uid db =
     (case user_by_id db uid of None \<Rightarrow> Inl (NotFound ''user'') | Some u \<Rightarrow> Inr (put_user now db (u\<lparr>us_telegram_id := None\<rparr>)))"

definition delete_user_related_data :: "int \<Rightarrow> int \<Rightarrow> db \<Rightarrow> db" where
  "delete_user_related_data now uid db =
     (let ticket_ids = map tk_id (filter (\<lambda>t. tk_user_id t = uid) (rows (t_tickets db)))
      in db\<lparr>t_ticket_messages := delete_where (\<lambda>m. tm_ticket_id m \<in> set ticket_ids) (t_ticket_messages db),
            t_tickets := delete_where (\<lambda>t. tk_user_id t = uid) (t_tickets db),
            t_orders := delete_where (\<lambda>r. od_user_id r = uid) (t_orders db),
            t_invite_codes := delete_where (\<lambda>c. iv_user_id c = uid) (t_invite_codes db),
            t_users := update_where user_entity now (\<lambda>u. us_invite_user_id u = Some uid) (\<lambda>u. u\<lparr>us_invite_user_id := None\<rparr>) (t_users db)\<rparr>)"

definition delete_user :: "int \<Rightarrow> int \<Rightarrow> db \<Rightarrow> exn + db" where
  "delete_user now uid db =
     (case user_by_id db uid of
        None \<Rightarrow> Inl (NotFound ''user'')
      | Some u \<Rightarrow> (let db1 = delete_user_related_data now uid db
                  in Inr (db1\<lparr>t_users := repo_delete user_entity (t_users db1) u\<rparr>)))"

text \<open>What the deletion leaves in place, whoever it names: gift-card redemptions and commission logs, the inviter of
  an order, and the author of a message in the ticket of another account.\<close>

lemma delete_user_leaves:
  assumes "delete_user now uid db = Inr db'"
  shows "t_redemptions db' = t_redemptions db" "t_commission_logs db' = t_commission_logs db"
    and "r \<in> set (rows (t_orders db)) \<Longrightarrow> od_user_id r \<noteq> uid \<Longrightarrow> r \<in> set (rows (t_orders db'))"
  using assms by (auto simp: delete_user_def delete_user_related_data_def Let_def delete_where_def split: option.splits)

section \<open>The book of accounts\<close>

definition user_ids :: "db \<Rightarrow> int set" where
  "user_ids db = us_id ` set (rows (t_users db))"

text \<open>The references that the deletion of an account clears: the owner of every ticket, order and invite code and
  the inviter of every account exist, and every message belongs to an existing ticket.\<close>

definition user_refs :: "db \<Rightarrow> bool" where
  "user_refs db \<longleftrightarrow> tk_user_id ` set (rows (t_tickets db)) \<subseteq> user_ids db \<and> od_user_id ` set (rows (t_orders db)) \<subseteq> user_ids db \<and>
     iv_user_id ` set (rows (t_invite_codes db)) \<subseteq> user_ids db \<and>
     (\<forall>u\<in>set (rows (t_users db)). set_option (us_invite_user_id u) \<subseteq> user_ids db) \<and>
     tm_ticket_id ` set (rows (t_ticket_messages db)) \<subseteq> tk_id ` set (rows (t_tickets db))"

definition account_book :: "db \<Rightarrow> bool" where
  "account_book db \<longleftrightarrow> wf_table user_entity (t_users db) \<and> distinct (map us_email (rows (t_users db))) \<and>
     distinct (map us_token (rows (t_users db))) \<and> user_refs db"

text \<open>What the operations do to the tables: an account changes without taking a used address or token,
  an account is added, an account goes with everything that refers to it.\<close>

definition invites_kept :: "invite_code table \<Rightarrow> invite_code table \<Rightarrow> bool" where
  "invites_kept t t' \<longleftrightarrow> (\<forall>r'\<in>set (rows t'). \<exists>r\<in>set (rows t). iv_user_id r' = iv_user_id r \<and> iv_code r' = iv_code r \<and>
     (iv_status r' = iv_status r \<or> iv_status r' = 1))"

definition other_tables :: "db \<Rightarrow> db \<Rightarrow> bool" where
  "other_tables db db' \<longleftrightarrow> t_tickets db' = t_tickets db \<and> t_orders db' = t_orders db \<and> t_ticket_messages db' = t_ticket_messages db \<and>
     invites_kept (t_invite_codes db) (t_invite_codes db')"

inductive account_step :: "int \<Rightarrow> db \<Rightarrow> db \<Rightarrow> bool" for now where
  changed: "user_by_id db uid = Some u \<Longrightarrow> us_id u' = us_id u \<Longrightarrow> user_key_free db u' \<Longrightarrow>
    set_option (us_invite_user_id u') \<subseteq> set_option (us_invite_user_id u) \<union> user_ids db \<Longrightarrow>
    other_tables db db' \<Longrightarrow> t_users db' = repo_update user_entity now (t_users db) u' \<Longrightarrow> account_step now db db'"
| added: "\<not> list_ex (\<lambda>v. us_email v = us_email u \<or> us_token v = us_token u) (rows (t_users db)) \<Longrightarrow>
    set_option (us_invite_user_id u) \<subseteq> user_ids db \<Longrightarrow>
    other_tables db db' \<Longrightarrow> t_users db' = repo_create user_entity now (t_users db) u \<Longrightarrow> account_step now db db'"
| removed: "delete_user now uid db = Inr db' \<Longrightarrow> account_step now db db'"
| same: "other_tables db db' \<Longrightarrow> t_users db' = t_users db \<Longrightarrow> account_step now db db'"

lemma invites_kept_refl [simp]: "invites_kept t t"
  by (auto simp: invites_kept_def)

lemma invites_kept_trans: "invites_kept t1 t2 \<Longrightarrow> invites_kept t2 t3 \<Longrightarrow> invites_kept t1 t3"
  unfolding invites_kept_def by metis

lemma invites_kept_owners: "invites_kept t t' \<Longrightarrow> iv_user_id ` set (rows t') \<subseteq> iv_user_id ` set (rows t)"
  unfolding invites_kept_def by blast

lemma invites_kept_delete [simp]: "invites_kept t (delete_where P t)"
  by (auto simp: invites_kept_def)

lemma invites_kept_update:
  assumes "iv \<in> set (rows t)" "iv_user_id iv' = iv_user_id iv" "iv_code iv' = iv_code iv" "iv_status iv' = iv_status iv \<or> iv_status iv' = 1"
  shows "invites_kept t (repo_update invite_code_entity now t iv')"
proof -
  have f: "iv_user_id (stored invite_code_entity now x r) = iv_user_id r" "iv_code (stored invite_code_entity now x r) = iv_code r"
    "iv_status (stored invite_code_entity now x r) = iv_status r" for x r
    by (auto simp: stored_def invite_code_entity_def)
  show ?thesis unfolding invites_kept_def
  proof
    fix x assume "x \<in> set (rows (repo_update invite_code_entity now t iv'))"
    from invite_codes.set_update_cases [OF this] consider "x \<in> set (rows t)" | y where "x = stored invite_code_entity now y iv'" by blast
    then show "\<exists>r\<in>set (rows t). iv_user_id x = iv_user_id r \<and> iv_code x = iv_code r \<and> (iv_status x = iv_status r \<or> iv_status x = 1)"
    proof cases
      case 2
      then show ?thesis using assms by (intro bexI [of _ iv]) (simp_all add: f)
    qed blast
  qed
qed

lemma other_tables_refl [simp]: "other_tables db db"
  by (simp add: other_tables_def)

lemma map_eq_image: "map f xs = map f ys \<Longrightarrow> f ` set xs = f ` set ys"
  by (metis list.set_map)

lemma refs_other_tables:
  assumes "user_refs db" "other_tables db db'" "user_ids db \<subseteq> user_ids db'"
    "\<forall>u\<in>set (rows (t_users db')). set_option (us_invite_user_id u) \<subseteq> user_ids db'"
  shows "user_refs db'"
  using assms invites_kept_owners unfolding user_refs_def other_tables_def by (metis subset_trans)

lemma distinct_update:
  assumes wf: "wf_table user_entity tb" and d: "distinct (map f (rows tb))"
    and st: "\<And>x y. f (stored user_entity now x y) = f y"
    and free: "\<forall>v\<in>set (rows tb). us_id v \<noteq> us_id u \<longrightarrow> f v \<noteq> f u"
  shows "distinct (map f (rows (repo_update user_entity now tb u)))"
proof -
  let ?g = "\<lambda>x. f (if us_id x = us_id u then stored user_entity now x u else x)"
  have "inj_on ?g (set (rows tb))"
  proof (rule inj_onI)
    fix x y assume xy: "x \<in> set (rows tb)" "y \<in> set (rows tb)" "?g x = ?g y"
    consider "us_id x = us_id u" "us_id y = us_id u" | "f x = f y"
      using xy st free by (auto split: if_splits)
    then show "x = y"
    proof cases
      case 1
      then show ?thesis using wf_same_row [OF wf xy(1,2)] by simp
    next
      case 2
      then show ?thesis using d xy(1,2) unfolding distinct_map by (metis inj_onD)
    qed
  qed
  moreover have "distinct (rows tb)" using d by (simp add: distinct_map)
  ultimately show ?thesis by (simp add: rows_repo_update distinct_map comp_def)
qed

lemma ids_after_update: "user_ids (db\<lparr>t_users := repo_update user_entity now (t_users d) u\<rparr>) = user_ids d"
proof -
  have "us_id ` set (rows (repo_update user_entity now (t_users d) u)) = us_id ` set (rows (t_users d))"
    using users.ids_update [of now "t_users d" u] by (intro map_eq_image) simp
  then show ?thesis by (simp add: user_ids_def)
qed

lemma user_ids_cong: "t_users db' = t_users db \<Longrightarrow> user_ids db' = user_ids db"
  by (simp add: user_ids_def)

lemma stored_invite_user [simp]: "us_invite_user_id (stored user_entity now x u) = us_invite_user_id u"
  by (simp add: stored_def user_entity_def)

lemma new_row_invite_user [simp]: "us_invite_user_id (new_row user_entity now tb u) = us_invite_user_id u"
  by (simp add: new_row_def user_entity_def)

lemma book_changed:
  assumes book: "account_book db" and u: "user_by_id db uid = Some u" "us_id u' = us_id u" and free: "user_key_free db u'"
    and inv: "set_option (us_invite_user_id u') \<subseteq> set_option (us_invite_user_id u) \<union> user_ids db"
    and oth: "other_tables db db'" and us: "t_users db' = repo_update user_entity now (t_users db) u'"
  shows "account_book db'"
proof -
  have wf: "wf_table user_entity (t_users db)" and d: "distinct (map us_email (rows (t_users db)))" "distinct (map us_token (rows (t_users db)))"
    and refs: "user_refs db" using book by (auto simp: account_book_def)
  have ids: "user_ids db' = user_ids db"
    using user_ids_cong [of db' "db\<lparr>t_users := repo_update user_entity now (t_users db) u'\<rparr>"] us by (simp add: ids_after_update)
  have u_in: "u \<in> set (rows (t_users db))" using user_by_idD [OF u(1)] by blast
  have old: "set_option (us_invite_user_id x) \<subseteq> user_ids db" if "x \<in> set (rows (t_users db))" for x
    using refs that unfolding user_refs_def by blast
  have "set_option (us_invite_user_id x) \<subseteq> user_ids db" if "x \<in> set (rows (t_users db'))" for x
  proof -
    have n: "set_option (us_invite_user_id u') \<subseteq> user_ids db" using inv old [OF u_in] by blast
    from users.set_update_cases [OF that [unfolded us]] consider "x \<in> set (rows (t_users db))" | y where "x = stored user_entity now y u'" by blast
    then show ?thesis
    proof cases
      case 1
      then show ?thesis by (rule old)
    next
      case 2
      show ?thesis unfolding 2 stored_invite_user by (rule n)
    qed
  qed
  then have "user_refs db'" using refs_other_tables [OF refs oth] ids by blast
  moreover have "distinct (map us_email (rows (t_users db')))" "distinct (map us_token (rows (t_users db')))"
    unfolding us using free by (auto simp: user_key_free_def list_ex_iff intro!: distinct_update [OF wf] d)
  ultimately show ?thesis using users.wf_update [OF wf] by (simp add: account_book_def us)
qed

lemma book_added:
  assumes book: "account_book db" and free: "\<not> list_ex (\<lambda>v. us_email v = us_email u \<or> us_token v = us_token u) (rows (t_users db))"
    and inv: "set_option (us_invite_user_id u) \<subseteq> user_ids db"
    and oth: "other_tables db db'" and us: "t_users db' = repo_create user_entity now (t_users db) u"
  shows "account_book db'"
proof -
  have ids: "user_ids db \<subseteq> user_ids db'" by (auto simp: user_ids_def us)
  have refs: "user_refs db" and wf: "wf_table user_entity (t_users db)" and d: "distinct (map us_email (rows (t_users db)))" "distinct (map us_token (rows (t_users db)))"
    using book by (auto simp: account_book_def)
  have "set_option (us_invite_user_id x) \<subseteq> user_ids db'" if "x \<in> set (rows (t_users db'))" for x
  proof (cases "x \<in> set (rows (t_users db))")
    case True
    then have "set_option (us_invite_user_id x) \<subseteq> user_ids db" using refs by (simp add: user_refs_def)
    then show ?thesis using ids by (rule subset_trans)
  next
    case False
    then have "us_invite_user_id x = us_invite_user_id u" using that us by simp
    then show ?thesis using inv ids by simp
  qed
  then have "user_refs db'" using refs_other_tables [OF refs oth ids] by blast
  moreover have "us_email u \<notin> us_email ` set (rows (t_users db))" "us_token u \<notin> us_token ` set (rows (t_users db))"
    using free by (auto simp: list_ex_iff)
  ultimately show ?thesis
    using d users.wf_create [OF wf, of now u] by (simp add: account_book_def us)
qed

lemma book_removed:
  assumes book: "account_book db" and del: "delete_user now uid db = Inr db'"
  shows "account_book db'"
proof -
  from del obtain u where u: "user_by_id db uid = Some u"
    and db': "db' = (delete_user_related_data now uid db)\<lparr>t_users := repo_delete user_entity (t_users (delete_user_related_data now uid db)) u\<rparr>"
    by (auto simp: delete_user_def Let_def split: option.splits)
  define g where "g = (\<lambda>x. if us_invite_user_id x = Some uid then e_touch user_entity now (x\<lparr>us_invite_user_id := None\<rparr>) else x)"
  have uid: "us_id u = uid" using user_by_idD [OF u] by blast
  have us: "rows (t_users db') = filter (\<lambda>x. us_id x \<noteq> uid) (map g (rows (t_users db)))" "next_id (t_users db') = next_id (t_users db)"
    by (simp_all add: db' delete_user_related_data_def Let_def update_where_def repo_delete_def uid g_def)
  have g: "us_id (g x) = us_id x" "us_email (g x) = us_email x" "us_token (g x) = us_token x"
    "set_option (us_invite_user_id (g x)) = set_option (us_invite_user_id x) - {uid}" for x
    by (auto simp: g_def user_entity_def)
  have col: "map f (rows (t_users db')) = map f (filter (\<lambda>x. us_id x \<noteq> uid) (rows (t_users db)))" if "\<And>x. f (g x) = f x" for f :: "user \<Rightarrow> 'a"
    unfolding us by (simp add: filter_map comp_def g that)
  have ids: "user_ids db' = user_ids db - {uid}"
    unfolding user_ids_def using map_eq_image [OF col [of us_id, OF g(1)]] by auto
  have "wf_table user_entity (t_users db')"
    using book us col [of us_id, OF g(1)] by (auto simp: account_book_def wf_table_def list_all_iff distinct_map inj_on_def g(1))
  moreover have "distinct (map us_email (rows (t_users db')))" "distinct (map us_token (rows (t_users db')))"
    using book unfolding col [of us_email, OF g(2)] col [of us_token, OF g(3)] by (simp_all add: account_book_def distinct_map_filter)
  moreover have "user_refs db'"
    unfolding user_refs_def ids
  proof (intro conjI ballI)
    have refs: "user_refs db" using book by (simp add: account_book_def)
    have tab: "rows (t_tickets db') = filter (\<lambda>t. tk_user_id t \<noteq> uid) (rows (t_tickets db))"
      "rows (t_orders db') = filter (\<lambda>r. od_user_id r \<noteq> uid) (rows (t_orders db))"
      "rows (t_invite_codes db') = filter (\<lambda>c. iv_user_id c \<noteq> uid) (rows (t_invite_codes db))"
      "rows (t_ticket_messages db') = filter (\<lambda>m. tm_ticket_id m \<notin> tk_id ` {t \<in> set (rows (t_tickets db)). tk_user_id t = uid}) (rows (t_ticket_messages db))"
      by (simp_all add: db' delete_user_related_data_def Let_def)
    show "tk_user_id ` set (rows (t_tickets db')) \<subseteq> user_ids db - {uid}"
      "od_user_id ` set (rows (t_orders db')) \<subseteq> user_ids db - {uid}"
      "iv_user_id ` set (rows (t_invite_codes db')) \<subseteq> user_ids db - {uid}"
      using refs unfolding tab user_refs_def by auto
    show "tm_ticket_id ` set (rows (t_ticket_messages db')) \<subseteq> tk_id ` set (rows (t_tickets db'))"
    proof
      fix i assume "i \<in> tm_ticket_id ` set (rows (t_ticket_messages db'))"
      then have "i \<in> tm_ticket_id ` set (rows (t_ticket_messages db))"
        and no: "i \<notin> tk_id ` {t \<in> set (rows (t_tickets db)). tk_user_id t = uid}" unfolding tab by auto
      then have "i \<in> tk_id ` set (rows (t_tickets db))" using refs unfolding user_refs_def by blast
      then show "i \<in> tk_id ` set (rows (t_tickets db'))" using no unfolding tab by auto
    qed
    fix x assume "x \<in> set (rows (t_users db'))"
    then obtain y where "y \<in> set (rows (t_users db))" "x = g y" unfolding us by auto
    then show "set_option (us_invite_user_id x) \<subseteq> user_ids db - {uid}"
      using refs g(4) [of y] unfolding user_refs_def by auto
  qed
  ultimately show ?thesis by (simp add: account_book_def)
qed

lemma book_step: "account_step now db db' \<Longrightarrow> account_book db \<Longrightarrow> account_book db'"
proof (erule account_step.cases)
  fix db1 db2 assume "db = db1" "db' = db2" "account_book db" and same: "other_tables db1 db2" "t_users db2 = t_users db1"
  then have "account_book db1" by simp
  then have "user_refs db2"
    using refs_other_tables [OF _ same(1)] user_ids_cong [OF same(2)] same(2) by (simp add: account_book_def user_refs_def)
  then show "account_book db'" using \<open>account_book db1\<close> same(2) \<open>db' = db2\<close> by (simp add: account_book_def)
qed (blast intro: book_changed book_added book_removed)+

lemma book_steps: "(account_step now)\<^sup>*\<^sup>* db db' \<Longrightarrow> account_book db \<Longrightarrow> account_book db'"
  by (induction rule: rtranclp_induct) (auto intro: book_step)

text \<open>A changed row that keeps its address and token keeps them unique.\<close>

lemma key_free_same:
  assumes "account_book db" "user_by_id db uid = Some u" "us_id u' = us_id u" "us_email u' = us_email u" "us_token u' = us_token u"
  shows "user_key_free db u'"
proof -
  have u: "u \<in> set (rows (t_users db))" using user_by_idD [OF assms(2)] by blast
  have "v = u" if "v \<in> set (rows (t_users db))" "us_email v = us_email u \<or> us_token v = us_token u" for v
    using that u assms(1) unfolding account_book_def distinct_map by (metis inj_onD)
  then show ?thesis using assms(3-5) by (auto simp: user_key_free_def list_ex_iff)
qed

lemma step_put:
  assumes "account_book db" "user_by_id db uid = Some u" "us_id u' = us_id u" "us_email u' = us_email u" "us_token u' = us_token u"
    "set_option (us_invite_user_id u') \<subseteq> set_option (us_invite_user_id u) \<union> user_ids db"
  shows "account_step now db (put_user now db u')"
  by (rule account_step.changed [OF assms(2,3) key_free_same [OF assms(1-5)] assms(6)]) (simp_all add: put_user_def other_tables_def)

lemma step_save:
  assumes "save_user now db u' = Inr db'" "user_by_id db uid = Some u" "us_id u' = us_id u" "us_invite_user_id u' = us_invite_user_id u"
  shows "account_step now db db'"
proof -
  have "user_key_free db u'" and db': "db' = put_user now db u'" using assms(1) by (simp_all add: save_user_def guardE_def split: if_splits)
  then show ?thesis
    using assms(4) by (intro account_step.changed [OF assms(2,3)]) (simp_all add: put_user_def other_tables_def)
qed

lemma step_insert:
  assumes "insert_user now db u = Inr (v, db')" "us_invite_user_id u = None"
  shows "account_step now db db'"
  using assms by (intro account_step.added [of u]) (auto simp: insert_user_def guardE_def other_tables_def split: if_splits)

lemma user_by_email_id: "user_by_email db e = Some v \<Longrightarrow> us_id v \<in> user_ids db"
  by (auto simp: user_by_email_def user_ids_def dest: find_Some_set)

section \<open>Requests\<close>

datatype user_op =
    CreateUser account_random user_create
  | UpdateUser string int user_update
  | UpdateProfile int self_update
  | ChangePassword string int string string
  | ResetSecurity account_random int
  | SetBanned int bool
  | SetInviter int "string option"
  | GenerateUsers "nat \<Rightarrow> account_random" user_generate
  | UnbindTelegram int
  | DeleteUser int

fun run_user_op :: "passwords \<Rightarrow> int \<Rightarrow> user_op \<Rightarrow> db \<Rightarrow> exn + db" where
  "run_user_op P now (CreateUser r d) db = bindE (create_user P r now d db) (\<lambda>(_, db'). Inr db')"
| "run_user_op P now (UpdateUser salt uid x) db = bindE (update_user P salt now uid x db) (\<lambda>(_, db'). Inr db')"
| "run_user_op P now (UpdateProfile uid x) db = update_profile now uid x db"
| "run_user_op P now (ChangePassword salt uid old_pw new_pw) db = change_password P salt now uid old_pw new_pw db"
| "run_user_op P now (ResetSecurity r uid) db = admin_reset_security r now uid db"
| "run_user_op P now (SetBanned uid b) db = admin_set_banned now uid b db"
| "run_user_op P now (SetInviter uid e) db = admin_set_invite_user now uid e db"
| "run_user_op P now (GenerateUsers rnd d) db = bindE (admin_generate_users P rnd now d db) (\<lambda>(_, db'). Inr db')"
| "run_user_op P now (UnbindTelegram uid) db = unbind_telegram now uid db"
| "run_user_op P now (DeleteUser uid) db = delete_user now uid db"

lemma generate_steps:
  "generate_users_loop P rnd now data plan cnt is db = Inr (us, db') \<Longrightarrow> (account_step now)\<^sup>*\<^sup>* db db'"
proof (induction "is" arbitrary: db us)
  case (Cons i "is")
  let ?e = "generated_email data cnt i (ar_prefix (rnd i))"
  from Cons.prems obtain u pw v db1 us' where ins: "insert_user now db (generated_user P (rnd i) data plan ?e pw) = Inr (v, db1)"
    and rest: "generate_users_loop P rnd now data plan cnt is db1 = Inr (us', db')"
    by (auto simp: Let_def bindE_eq_Inr guardE_eq_Inr)
  have "account_step now db db1" by (rule step_insert [OF ins]) (simp add: generated_user_def blank_user_def)
  then show ?case using Cons.IH [OF rest] by (rule converse_rtranclp_into_rtranclp)
qed simp

lemma user_op_steps:
  assumes book: "account_book db" and run: "run_user_op P now op db = Inr db'"
  shows "(account_step now)\<^sup>*\<^sup>* db db'"
proof (cases op)
  case (CreateUser r d)
  with run obtain v where "insert_user now db (blank_user\<lparr>us_email := uc_email d, us_password := hash_password P (ar_salt r) (uc_password d),
      us_token := ar_token r, us_uuid := ar_uuid r\<rparr>) = Inr (v, db')"
    by (auto simp: create_user_def result_simps)
  from step_insert [OF this] show ?thesis by (simp add: blank_user_def)
next
  case (UpdateUser salt uid x)
  with run obtain u where u: "user_by_id db uid = Some u" and s: "save_user now db (updated_user P salt x u) = Inr db'"
    by (auto simp: update_user_def Let_def result_simps split: option.splits)
  from step_save [OF s u] show ?thesis by (simp add: updated_user_def)
next
  case (UpdateProfile uid x)
  with run show ?thesis
    by (auto simp: update_profile_def result_simps split: option.splits intro!: r_into_rtranclp step_put [OF book])
next
  case (ChangePassword salt uid old_pw new_pw)
  with run show ?thesis
    by (auto simp: change_password_def result_simps split: option.splits intro!: r_into_rtranclp step_put [OF book])
next
  case (ResetSecurity r uid)
  with run obtain u where u: "user_by_id db uid = Some u" and s: "save_user now db (u\<lparr>us_uuid := ar_uuid r, us_token := ar_token r\<rparr>) = Inr db'"
    by (auto simp: admin_reset_security_def reset_security_def result_simps split: option.splits)
  from step_save [OF s u] show ?thesis by simp
next
  case (SetBanned uid b)
  with run show ?thesis
    by (auto simp: admin_set_banned_def split: option.splits intro!: r_into_rtranclp step_put [OF book])
next
  case (SetInviter uid e)
  with run show ?thesis
    by (auto simp: admin_set_invite_user_def result_simps split: option.splits if_splits
        intro!: r_into_rtranclp step_put [OF book] dest: user_by_email_id)
next
  case (GenerateUsers rnd d)
  with run show ?thesis
    by (auto simp: admin_generate_users_def Let_def bindE_eq_Inr guardE_eq_Inr dest: generate_steps)
next
  case (UnbindTelegram uid)
  with run show ?thesis
    by (auto simp: unbind_telegram_def split: option.splits intro!: r_into_rtranclp step_put [OF book])
next
  case (DeleteUser uid)
  with run show ?thesis by (auto intro: account_step.removed)
qed

lemma deleted_gone:
  assumes "delete_user now uid db = Inr db'"
  shows "uid \<notin> user_ids db'"
proof -
  from assms obtain u where "user_by_id db uid = Some u"
    and db': "db' = (delete_user_related_data now uid db)\<lparr>t_users := repo_delete user_entity (t_users (delete_user_related_data now uid db)) u\<rparr>"
    by (auto simp: delete_user_def Let_def split: option.splits)
  with user_by_idD have "us_id u = uid" by blast
  then show ?thesis by (auto simp: user_ids_def db' repo_delete_def)
qed

definition account_db :: db where
  "account_db = empty_db\<lparr>t_users := \<lparr>rows = [sample_user, sample_user\<lparr>us_id := 2, us_email := ''b@b.c'', us_token := ''t2'', us_invite_user_id := None\<rparr>], next_id = 3\<rparr>,
     t_orders := \<lparr>rows = [sample_order\<lparr>od_id := 1\<rparr>], next_id = 2\<rparr>\<rparr>"

definition sample_random :: account_random where
  "sample_random = \<lparr>ar_salt = ''s'', ar_token = ''t3'', ar_uuid = ''u3'', ar_prefix = ''x''\<rparr>"

text \<open>A stand-in for the password library: the digest is the secret itself behind the format tag.\<close>

definition plain_passwords :: passwords where
  "plain_passwords = \<lparr>pw_hash = (\<lambda>salt secret. ''$argon2id$'' @ secret), pw_argon2_verify = (\<lambda>h secret. Inr (h = ''$argon2id$'' @ secret)),
     pw_needs_rehash = (\<lambda>_. False), pw_bcrypt_check = (\<lambda>secret h. Inr (h = ''$2$'' @ secret))\<rparr>"

lemma account_db_ok: "account_book account_db"
  by code_simp

end
