(* ===== verification/Auth.thy ===== *)
theory Auth
  imports Users Epay Coupons
begin

text \<open>
  \<open>app/services/auth.py\<close> with \<open>app/services/turnstile.py\<close>, the authentication dependencies of
  \<open>app/core/deps.py\<close> and the one-time login of \<open>app/controllers/auth.py\<close>: registration, login, the
  JSON web tokens, e-mail codes and the guards of the routes. Libraries and remote services are
  parameters: the signed token (\<open>jw_decode\<close> takes the time at which the expiry is checked), the
  password hashes of theory Users, and the answer of Cloudflare's verification service.
\<close>

record jwt_payload =
  jp_sub :: "string option"
  jp_email :: string
  jp_is_admin :: bool
  jp_is_staff :: bool
  jp_iat :: int
  jp_exp :: int

record auth_service =
  au_settings :: setting_service
  au_passwords :: passwords
  au_encode :: "jwt_payload \<Rightarrow> string"
  au_decode :: "int \<Rightarrow> string \<Rightarrow> jwt_payload option"
  au_expire_minutes :: int
  au_turnstile :: "string \<Rightarrow> string \<Rightarrow> string option \<Rightarrow> json option"

definition text_given :: "string option \<Rightarrow> bool" where
  "text_given s = (s \<noteq> None \<and> s \<noteq> Some [])"

section \<open>Turnstile\<close>

definition verify_if_enabled :: "auth_service \<Rightarrow> int \<Rightarrow> string option \<Rightarrow> string option \<Rightarrow> db \<Rightarrow> exn + db" where
  "verify_if_enabled A now token ip db =
     bindE (get_int (au_settings A) now ''recaptcha_enable'' 0 db) (\<lambda>(enabled, db1).
       if enabled = 0 then Inr db1
       else (case get_str (au_settings A) now ''recaptcha_key'' [] db1 of (secret, db2) \<Rightarrow>
         guardE (secret = []) (BadRequest ''no secret key'')
           (let tok = strip (set_if token []) in
            guardE (tok = [] \<or> 2048 < length tok) (BadRequest ''no answer'')
              (case au_turnstile A secret tok (if text_given ip then ip else None) of
                 None \<Rightarrow> Inl (BadRequest ''service unavailable'')
               | Some r \<Rightarrow> guardE (case r of JObj kvs \<Rightarrow> \<not> json_truthy (json_get kvs ''success'' JNull) | _ \<Rightarrow> True)
                   (BadRequest ''verification failed'') (Inr db2)))))"

section \<open>Checks before registration\<close>

definition json_items :: "json \<Rightarrow> exn + json list" where
  "json_items j = (case j of
       JArr xs \<Rightarrow> Inr xs
     | JObj kvs \<Rightarrow> Inr (map (JStr \<circ> fst) kvs)
     | JStr s \<Rightarrow> Inr (map (\<lambda>c. JStr [c]) s)
     | _ \<Rightarrow> Inl TypeError)"

definition check_email_policy :: "auth_service \<Rightarrow> int \<Rightarrow> string \<Rightarrow> db \<Rightarrow> exn + db" where
  "check_email_policy A now email db =
     bindE (get_int (au_settings A) now ''email_whitelist_enable'' 0 db) (\<lambda>(whitelist, db1).
     bindE (if whitelist = 0 then Inr db1
            else bindE (get_json (au_settings A) now ''email_whitelist_suffix'' (JArr []) db1) (\<lambda>(suffixes, db2).
                 bindE (json_items suffixes) (\<lambda>items.
                 guardE (lower (after_last (CHR ''@'') email) \<notin>
                     set (map (\<lambda>i. lstrip_chars {CHR ''@''} (lower (py_str (sv_codec (au_settings A)) i))) items))
                   (BadRequest ''suffix not allowed'') (Inr db2)))) (\<lambda>db3.
     bindE (get_int (au_settings A) now ''email_gmail_limit_enable'' 0 db3) (\<lambda>(gmail, db4).
       if gmail = 0 then Inr db4
       else (case partition_at (CHR ''@'') email of (local_part, _, domain) \<Rightarrow>
         guardE (lower domain = ''gmail.com'' \<and> (CHR ''+'' \<in> set local_part \<or> CHR ''.'' \<in> set local_part))
           (BadRequest ''gmail alias'') (Inr db4)))))"

definition check_register_limit :: "auth_service \<Rightarrow> int \<Rightarrow> string option \<Rightarrow> db \<Rightarrow> exn + db" where
  "check_register_limit A now ip db =
     (if \<not> text_given ip then Inr db
      else bindE (get_int (au_settings A) now ''register_limit_by_ip_enable'' 0 db) (\<lambda>(enabled, db1).
        if enabled = 0 then Inr db1
        else bindE (get_int (au_settings A) now ''register_limit_count'' 3 db1) (\<lambda>(cnt, db2).
             bindE (get_int (au_settings A) now ''register_limit_expire'' 60 db2) (\<lambda>(expire, db3).
             case cache_incr now (''register_limit:'' @ the ip) (Some expire) (t_cache db3) of (current, c) \<Rightarrow>
               guardE (cnt < current) (BadRequest ''too many registrations'') (Inr (db3\<lparr>t_cache := c\<rparr>))))))"

definition check_email_verify_rate :: "int \<Rightarrow> string option \<Rightarrow> db \<Rightarrow> exn + db" where
  "check_email_verify_rate now ip db =
     (if \<not> text_given ip then Inr db
      else (case cache_incr now (''email_verify_rate:'' @ the ip) (Some 60) (t_cache db) of (current, c) \<Rightarrow>
        guardE (3 < current) (BadRequest ''too many requests'') (Inr (db\<lparr>t_cache := c\<rparr>))))"

definition code_key :: "string \<Rightarrow> string" where
  "code_key email = ''email_verify_code:'' @ email"

definition last_send_key :: "string \<Rightarrow> string" where
  "last_send_key email = ''email_verify_last_send:'' @ email"

text \<open>\<open>str(None)\<close> is the text \<open>None\<close>.\<close>

definition py_str_opt :: "codec \<Rightarrow> json option \<Rightarrow> string" where
  "py_str_opt C v = (case v of None \<Rightarrow> ''None'' | Some j \<Rightarrow> py_str C j)"

definition verify_email_code :: "auth_service \<Rightarrow> int \<Rightarrow> string \<Rightarrow> string option \<Rightarrow> db \<Rightarrow> exn + db" where
  "verify_email_code A now email email_code db =
     guardE (\<not> text_given email_code) (BadRequest ''no code'')
       (case cache_get now (code_key email) (t_cache db) of (code, c) \<Rightarrow>
          guardE (py_str_opt (sv_codec (au_settings A)) code \<noteq> the email_code) (BadRequest ''wrong code'')
            (Inr (db\<lparr>t_cache := c\<rparr>)))"

definition resolve_invite_user_id :: "auth_service \<Rightarrow> int \<Rightarrow> string option \<Rightarrow> db \<Rightarrow> exn + int option \<times> db" where
  "resolve_invite_user_id A now invite_code db =
     bindE (get_int (au_settings A) now ''invite_force'' 0 db) (\<lambda>(force, db1).
       if \<not> text_given invite_code then guardE (force \<noteq> 0) (BadRequest ''invite code required'') (Inr (None, db1))
       else bindE (active_invite_by_code db1 (upper (strip (the invite_code)))) (\<lambda>found.
         case found of
           None \<Rightarrow> Inl (BadRequest ''invite code'')
         | Some iv \<Rightarrow> bindE (get_int (au_settings A) now ''invite_never_expire'' 0 db1) (\<lambda>(never, db2).
             let iv' = iv\<lparr>iv_pv := iv_pv iv + 1, iv_status := (if never = 0 then 1 else iv_status iv)\<rparr>
             in Inr (Some (iv_user_id iv), put_invite now db2 iv'))))"

definition record_invite_pv :: "int \<Rightarrow> string option \<Rightarrow> db \<Rightarrow> exn + db" where
  "record_invite_pv now invite_code db =
     (if \<not> text_given invite_code then Inr db
      else bindE (invite_by_code db (upper (strip (the invite_code)))) (\<lambda>found.
        case found of None \<Rightarrow> Inr db | Some iv \<Rightarrow> Inr (put_invite now db (iv\<lparr>iv_pv := iv_pv iv + 1\<rparr>))))"

section \<open>Tokens\<close>

definition auth_payload :: "auth_service \<Rightarrow> int \<Rightarrow> user \<Rightarrow> jwt_payload" where
  "auth_payload A now u =
     \<lparr>jp_sub = Some (str_int (us_id u)), jp_email = us_email u, jp_is_admin = us_is_admin u, jp_is_staff = us_is_staff u,
      jp_iat = now, jp_exp = now + 60 * au_expire_minutes A\<rparr>"

definition build_auth_token :: "auth_service \<Rightarrow> int \<Rightarrow> user \<Rightarrow> string" where
  "build_auth_token A now u = ''Bearer '' @ au_encode A (auth_payload A now u)"

definition decode_user_id :: "auth_service \<Rightarrow> int \<Rightarrow> string \<Rightarrow> exn + int" where
  "decode_user_id A now token =
     (case au_decode A now token of
        None \<Rightarrow> Inl (Unauthorized [])
      | Some p \<Rightarrow> (case jp_sub p of
          None \<Rightarrow> Inl (Unauthorized [])
        | Some s \<Rightarrow> (case py_int s of None \<Rightarrow> Inl (Unauthorized []) | Some n \<Rightarrow> Inr n)))"

definition get_current_user :: "auth_service \<Rightarrow> int \<Rightarrow> string \<Rightarrow> db \<Rightarrow> exn + user" where
  "get_current_user A now token db =
     bindE (decode_user_id A now token) (\<lambda>uid.
       case user_by_id db uid of
         None \<Rightarrow> Inl (Unauthorized [])
       | Some u \<Rightarrow> guardE (us_banned u) (Forbidden ''banned'') (Inr u))"

definition require_admin :: "auth_service \<Rightarrow> int \<Rightarrow> string \<Rightarrow> db \<Rightarrow> exn + user" where
  "require_admin A now token db =
     bindE (get_current_user A now token db) (\<lambda>u. guardE (\<not> us_is_admin u) (Forbidden []) (Inr u))"

definition require_staff :: "auth_service \<Rightarrow> int \<Rightarrow> string \<Rightarrow> db \<Rightarrow> exn + user" where
  "require_staff A now token db =
     bindE (get_current_user A now token db) (\<lambda>u. guardE (\<not> us_is_staff u \<and> \<not> us_is_admin u) (Forbidden []) (Inr u))"

text \<open>The credentials of an Authorization header: scheme and token.\<close>

definition get_bearer_token :: "(string \<times> string) option \<Rightarrow> exn + string" where
  "get_bearer_token cred =
     (case cred of None \<Rightarrow> Inl (Unauthorized [])
      | Some (scheme, tok) \<Rightarrow> guardE (lower scheme \<noteq> ''bearer'') (Unauthorized []) (Inr tok))"

definition get_optional_current_user :: "auth_service \<Rightarrow> int \<Rightarrow> (string \<times> string) option \<Rightarrow> db \<Rightarrow> exn + user option" where
  "get_optional_current_user A now cred db =
     (case cred of None \<Rightarrow> Inr None
      | Some (scheme, tok) \<Rightarrow>
          if lower scheme \<noteq> ''bearer'' then Inr None
          else (case get_current_user A now tok db of
              Inr u \<Rightarrow> Inr (Some u) | Inl e \<Rightarrow> if is_app_exception e then Inr None else Inl e))"

section \<open>Operations\<close>

definition registered_user :: "auth_service \<Rightarrow> account_random \<Rightarrow> int \<Rightarrow> user_create \<Rightarrow> int option \<Rightarrow> user" where
  "registered_user A r now data inviter =
     blank_user\<lparr>us_email := uc_email data, us_password := hash_password (au_passwords A) (ar_salt r) (uc_password data),
       us_token := ar_token r, us_uuid := ar_uuid r, us_invite_user_id := inviter, us_last_login_at := Some now\<rparr>"

definition register :: "auth_service \<Rightarrow> account_random \<Rightarrow> int \<Rightarrow> user_create \<Rightarrow> string option \<Rightarrow> db \<Rightarrow> exn + string \<times> db" where
  "register A r now data ip db =
     bindE (get_int (au_settings A) now ''stop_register'' 0 db) (\<lambda>(stop, db1).
     guardE (stop \<noteq> 0) (Forbidden ''registration is closed'') (
     bindE (check_email_policy A now (uc_email data) db1) (\<lambda>db2.
     bindE (check_register_limit A now ip db2) (\<lambda>db3.
     bindE (verify_if_enabled A now (uc_recaptcha_data data) ip db3) (\<lambda>db4.
     bindE (get_int (au_settings A) now ''email_verify'' 0 db4) (\<lambda>(verify, db5).
     bindE (if verify = 0 then Inr db5 else verify_email_code A now (uc_email data) (uc_email_code data) db5) (\<lambda>db6.
     guardE (email_exists db6 (uc_email data)) (Conflict ''email'') (
     bindE (resolve_invite_user_id A now (uc_invite_code data) db6) (\<lambda>(inviter, db7).
     bindE (insert_user now db7 (registered_user A r now data inviter)) (\<lambda>(u, db8).
     Inr (build_auth_token A now u, db8\<lparr>t_cache := snd (cache_delete (code_key (uc_email data)) (t_cache db8))\<rparr>)))))))))))"

definition login :: "auth_service \<Rightarrow> string \<Rightarrow> int \<Rightarrow> string \<Rightarrow> string \<Rightarrow> string option \<Rightarrow> string option \<Rightarrow> bool \<Rightarrow> db \<Rightarrow> exn + string \<times> db" where
  "login A salt now email password recaptcha ip verify_turnstile db =
     bindE (if verify_turnstile then verify_if_enabled A now recaptcha ip db else Inr db) (\<lambda>db1.
     case user_by_email db1 email of
       None \<Rightarrow> Inl (Unauthorized ''wrong credentials'')
     | Some u \<Rightarrow>
         bindE (verify_and_upgrade (au_passwords A) salt password (us_password u)) (\<lambda>(valid, new_hash).
         guardE (\<not> valid) (Unauthorized ''wrong credentials'') (
         guardE (us_banned u) (Forbidden ''banned'')
           (let u' = u\<lparr>us_password := set_if new_hash (us_password u), us_last_login_at := Some now\<rparr>
            in Inr (build_auth_token A now u', put_user now db1 u')))))"

definition build_token_for_user_id :: "auth_service \<Rightarrow> int \<Rightarrow> int \<Rightarrow> db \<Rightarrow> exn + string \<times> db" where
  "build_token_for_user_id A now uid db =
     (case user_by_id db uid of
        None \<Rightarrow> Inl (Unauthorized [])
      | Some u \<Rightarrow> guardE (us_banned u) (Forbidden ''banned'')
          (let u' = u\<lparr>us_last_login_at := Some now\<rparr> in Inr (build_auth_token A now u', put_user now db u')))"

record forget_request =
  fr_email :: string
  fr_email_code :: string
  fr_password :: string
  fr_recaptcha_data :: "string option"

definition forget_password :: "auth_service \<Rightarrow> string \<Rightarrow> int \<Rightarrow> forget_request \<Rightarrow> string option \<Rightarrow> string option \<Rightarrow> db \<Rightarrow> exn + db" where
  "forget_password A salt now data email_code ip db =
     bindE (verify_if_enabled A now (fr_recaptcha_data data) ip db) (\<lambda>db1.
     case (case email_code of Some c \<Rightarrow> (Some (JStr c), t_cache db1) | None \<Rightarrow> cache_get now (code_key (fr_email data)) (t_cache db1)) of
       (code, c) \<Rightarrow>
         guardE ((case code of None \<Rightarrow> True | Some j \<Rightarrow> \<not> json_truthy j) \<or>
             py_str_opt (sv_codec (au_settings A)) code \<noteq> fr_email_code data) (BadRequest ''wrong code'')
           (let db2 = db1\<lparr>t_cache := c\<rparr> in
            case user_by_email db2 (fr_email data) of
              None \<Rightarrow> Inl (NotFound ''email'')
            | Some u \<Rightarrow>
                let db3 = put_user now db2 (u\<lparr>us_password := hash_password (au_passwords A) salt (fr_password data)\<rparr>)
                in Inr (db3\<lparr>t_cache := snd (cache_delete (code_key (fr_email data)) (t_cache db3))\<rparr>)))"

record verify_request =
  vr_email :: string
  vr_isforget :: "int option"
  vr_recaptcha_data :: "string option"

definition create_email_verify_code :: "auth_service \<Rightarrow> int \<Rightarrow> int \<Rightarrow> verify_request \<Rightarrow> string option \<Rightarrow> db \<Rightarrow> exn + string \<times> db" where
  "create_email_verify_code A random now data ip db =
     bindE (check_email_verify_rate now ip db) (\<lambda>db1.
     bindE (check_email_policy A now (vr_email data) db1) (\<lambda>db2.
     bindE (verify_if_enabled A now (vr_recaptcha_data data) ip db2) (\<lambda>db3.
     let known = email_exists db3 (vr_email data) in
     guardE (vr_isforget data = Some 0 \<and> known) (Conflict ''email'') (
     guardE (vr_isforget data = Some 1 \<and> \<not> known) (NotFound ''email'')
       (case cache_get now (last_send_key (vr_email data)) (t_cache db3) of (sent, c) \<Rightarrow>
          guardE (case sent of None \<Rightarrow> False | Some j \<Rightarrow> json_truthy j) (BadRequest ''code already sent'')
            (let code = str_int (random + 100000);
                 c1 = snd (cache_set now (code_key (vr_email data)) (JStr code) (Some 300) c);
                 c2 = snd (cache_set now (last_send_key (vr_email data)) (JInt now) (Some 60) c1)
             in Inr (code, db3\<lparr>t_cache := c2\<rparr>)))))))"

text \<open>The answer of the one-time login: a redirect, a token, or nothing.\<close>

datatype token2_answer = Redirect string | LoggedIn string | NoToken

definition token2_login :: "auth_service \<Rightarrow> int \<Rightarrow> string option \<Rightarrow> string option \<Rightarrow> string \<Rightarrow> db \<Rightarrow> exn + token2_answer \<times> db" where
  "token2_login A now verify token redirect db =
     (if text_given token then
        Inr (Redirect (''/#/login?verify='' @ the token @ ''&redirect='' @ (if redirect = [] then ''dashboard'' else redirect)), db)
      else if \<not> text_given verify then Inr (NoToken, db)
      else (case cache_get now (''temp_token:'' @ the verify) (t_cache db) of
          (None, c) \<Rightarrow> Inr (NoToken, db\<lparr>t_cache := c\<rparr>)
        | (Some j, c) \<Rightarrow>
            let db1 = db\<lparr>t_cache := snd (cache_delete (''temp_token:'' @ the verify) c)\<rparr> in
            bindE (int_of_json j) (\<lambda>uid.
            bindE (build_token_for_user_id A now uid db1) (\<lambda>(tok, db2). Inr (LoggedIn tok, db2)))))"

section \<open>What the checks change\<close>

text \<open>The checks touch nothing but the cache, and there neither the coherence of the cached settings nor
  the e-mail codes.\<close>

definition quiet :: "int \<Rightarrow> db \<Rightarrow> db \<Rightarrow> bool" where
  "quiet now db db' \<longleftrightarrow> db' = db\<lparr>t_cache := t_cache db'\<rparr> \<and> (setting_coherent now db \<longrightarrow> setting_coherent now db') \<and>
     (\<forall>e t. now \<le> t \<longrightarrow> cache_value t (code_key e) (t_cache db') = cache_value t (code_key e) (t_cache db))"

lemma quiet_refl [simp, intro]: "quiet now db db"
  by (simp add: quiet_def)

lemma quiet_trans: "quiet now db1 db2 \<Longrightarrow> quiet now db2 db3 \<Longrightarrow> quiet now db1 db3"
proof -
  assume a: "quiet now db1 db2" "quiet now db2 db3"
  have "db3 = (db1\<lparr>t_cache := t_cache db2\<rparr>)\<lparr>t_cache := t_cache db3\<rparr>" using a unfolding quiet_def by metis
  then show ?thesis using a by (simp add: quiet_def)
qed

lemma quietE: "quiet now db db' \<Longrightarrow> (\<And>c. db' = db\<lparr>t_cache := c\<rparr> \<Longrightarrow> P) \<Longrightarrow> P"
  unfolding quiet_def by blast

lemma quiet_tables:
  "quiet now db db' \<Longrightarrow> t_users db' = t_users db" "quiet now db db' \<Longrightarrow> t_invite_codes db' = t_invite_codes db"
  "quiet now db db' \<Longrightarrow> t_settings db' = t_settings db" "quiet now db db' \<Longrightarrow> other_tables db db'"
  by (erule quietE; simp add: other_tables_def)+

lemma code_key_not_setting [simp]: "code_key e \<noteq> cache_key k" "\<not> is_setting_key (code_key e)"
  by (simp_all add: code_key_def cache_key_def is_setting_key_def)

lemma quiet_get_cached:
  assumes "snd (get_cached S now k db) = db'"
  shows "quiet now db db'"
proof -
  have "cache_value t (code_key e) (t_cache db') = cache_value t (code_key e) (t_cache db)" if t: "now \<le> t" for e t
  proof -
    have g: "cache_value t (code_key e) (snd (cache_get now (cache_key k) (t_cache db))) = cache_value t (code_key e) (t_cache db)"
      using cache_get_state [of now "cache_key k" "t_cache db"] t by (auto simp: value_delete_expired)
    obtain r c where rc: "cache_get now (cache_key k) (t_cache db) = (r, c)" by (cases "cache_get now (cache_key k) (t_cache db)")
    then show ?thesis
      using g unfolding assms [symmetric]
      by (cases "setting_by_key db k"; cases r) (simp_all add: get_cached_def setting_cache_set_def value_set_other)
  qed
  moreover obtain c where "db' = db\<lparr>t_cache := c\<rparr>" using get_cached_state [of S now k db] assms by blast
  ultimately show ?thesis using get_cached_coherent [of now db S k] assms by (simp add: quiet_def)
qed

lemma quiet_get_int: "get_int S now k d db = Inr (n, db') \<Longrightarrow> quiet now db db'"
  by (rule quiet_get_cached [of S now k]) (auto simp: get_int_def split: prod.splits option.splits)

lemma quiet_get_json: "get_json S now k d db = Inr (n, db') \<Longrightarrow> quiet now db db'"
  by (rule quiet_get_cached [of S now k]) (auto simp: get_json_def split: prod.splits option.splits)

lemma quiet_get_str: "get_str S now k d db = (v, db') \<Longrightarrow> quiet now db db'"
  by (rule quiet_get_cached [of S now k]) (auto simp: get_str_def split: prod.splits)

lemma coherent_other_values:
  assumes "setting_coherent now db" "wf_cache c" "\<And>t k. now \<le> t \<Longrightarrow> is_setting_key k \<Longrightarrow> cache_value t k c = cache_value t k (t_cache db)"
  shows "setting_coherent now (db\<lparr>t_cache := c\<rparr>)"
  using assms by (auto simp: setting_coherent_def rc.coherent_def cache_get_value)

lemma coherent_wf_cache: "setting_coherent now db \<Longrightarrow> wf_cache (t_cache db)"
  by (simp add: setting_coherent_def rc.coherent_def)

lemma value_incr_other: "k' \<noteq> k \<Longrightarrow> cache_value t k' (snd (cache_incr now k ex c)) = cache_value t k' c"
  by (simp add: cache_value_def cache_incr_def Let_def find_upsert_other incr_row_def)

lemma quiet_incr:
  assumes "\<not> is_setting_key k" "\<And>e. code_key e \<noteq> k"
  shows "quiet now db (db\<lparr>t_cache := snd (cache_incr now' k ex (t_cache db))\<rparr>)"
proof -
  have "wf_cache (snd (cache_incr now' k ex (t_cache db)))" if "wf_cache (t_cache db)"
    using that by (simp add: cache_incr_def Let_def wf_cache_upsert incr_row_def)
  moreover have "k' \<noteq> k" if "is_setting_key k'" for k' using that assms(1) by blast
  ultimately have "setting_coherent now (db\<lparr>t_cache := snd (cache_incr now' k ex (t_cache db))\<rparr>)" if "setting_coherent now db"
    using that coherent_wf_cache [OF that] by (intro coherent_other_values) (auto simp: value_incr_other)
  then show ?thesis using assms(2) by (simp add: quiet_def value_incr_other)
qed

lemma quiet_get: "quiet now db (db\<lparr>t_cache := snd (cache_get now k (t_cache db))\<rparr>)"
proof -
  have v: "cache_value t k' (snd (cache_get now k (t_cache db))) = cache_value t k' (t_cache db)" if "now \<le> t" for t k'
    using that cache_get_state [of now k "t_cache db"] by (auto simp: value_delete_expired)
  then have "setting_coherent now (db\<lparr>t_cache := snd (cache_get now k (t_cache db))\<rparr>)" if "setting_coherent now db"
    using that coherent_wf_cache [OF that] by (intro coherent_other_values) (auto simp: wf_cache_get)
  then show ?thesis using v by (simp add: quiet_def)
qed

lemma quiet_turnstile:
  assumes r: "verify_if_enabled A now tok ip db = Inr db'"
  shows "quiet now db db'"
proof -
  from r obtain n db1 where g: "get_int (au_settings A) now ''recaptcha_enable'' 0 db = Inr (n, db1)" by (auto simp: verify_if_enabled_def bindE_eq_Inr)
  obtain secret db2 where s: "get_str (au_settings A) now ''recaptcha_key'' [] db1 = (secret, db2)" by (cases "get_str (au_settings A) now ''recaptcha_key'' [] db1")
  have "db' = db1 \<or> db' = db2"
    using r g s by (auto simp: verify_if_enabled_def Let_def guardE_eq_Inr split: if_splits option.splits)
  with quiet_get_int [OF g] quiet_trans [OF quiet_get_int [OF g] quiet_get_str [OF s]] show ?thesis by metis
qed

lemma quiet_policy:
  assumes r: "check_email_policy A now e db = Inr db'"
  shows "quiet now db db'"
proof -
  from r obtain w db1 where g: "get_int (au_settings A) now ''email_whitelist_enable'' 0 db = Inr (w, db1)" by (auto simp: check_email_policy_def bindE_eq_Inr)
  with r obtain db3 gm where m: "db3 = db1 \<or> (\<exists>j. get_json (au_settings A) now ''email_whitelist_suffix'' (JArr []) db1 = Inr (j, db3))"
    and g3: "get_int (au_settings A) now ''email_gmail_limit_enable'' 0 db3 = Inr (gm, db')"
    by (auto simp: check_email_policy_def bindE_eq_Inr guardE_eq_Inr split: if_splits prod.splits)
  from m have "quiet now db1 db3" by (auto intro: quiet_get_json)
  from quiet_trans [OF quiet_trans [OF quiet_get_int [OF g] this] quiet_get_int [OF g3]] show ?thesis .
qed

lemma quiet_register_limit:
  assumes r: "check_register_limit A now ip db = Inr db'"
  shows "quiet now db db'"
proof (cases "text_given ip")
  case True
  with r obtain e db1 where g: "get_int (au_settings A) now ''register_limit_by_ip_enable'' 0 db = Inr (e, db1)"
    by (auto simp: check_register_limit_def bindE_eq_Inr)
  show ?thesis
  proof (cases "e = 0")
    case True
    then show ?thesis using r g \<open>text_given ip\<close> quiet_get_int by (simp add: check_register_limit_def)
  next
    case False
    with r g \<open>text_given ip\<close> obtain n db2 x db3 where g2: "get_int (au_settings A) now ''register_limit_count'' 3 db1 = Inr (n, db2)"
      and g3: "get_int (au_settings A) now ''register_limit_expire'' 60 db2 = Inr (x, db3)"
      and d: "db' = db3\<lparr>t_cache := snd (cache_incr now (''register_limit:'' @ the ip) (Some x) (t_cache db3))\<rparr>"
      by (auto simp: check_register_limit_def bindE_eq_Inr guardE_eq_Inr split_beta)
    have d: "quiet now db3 db'" unfolding d by (rule quiet_incr) (simp_all add: is_setting_key_def cache_key_def code_key_def)
    from quiet_trans [OF quiet_trans [OF quiet_trans [OF quiet_get_int [OF g] quiet_get_int [OF g2]]
       quiet_get_int [OF g3]] d] show ?thesis .
  qed
next
  case False
  then show ?thesis using r by (simp add: check_register_limit_def)
qed

lemma quiet_verify_rate: "check_email_verify_rate now ip db = Inr db' \<Longrightarrow> quiet now db db'"
  by (auto simp: check_email_verify_rate_def guardE_eq_Inr split_beta is_setting_key_def cache_key_def code_key_def
      intro!: quiet_incr split: if_splits)

lemma quiet_verify_code: "verify_email_code A now e code db = Inr db' \<Longrightarrow> quiet now db db'"
  by (auto simp: verify_email_code_def guardE_eq_Inr split_beta intro: quiet_get)

text \<open>The invite table after a resolved code: the row's counter and status.\<close>

lemma resolve_invite_shape:
  assumes "resolve_invite_user_id A now code db = Inr (inviter, db')"
  shows "t_users db' = t_users db \<and> other_tables db db' \<and>
     (if text_given code then \<exists>iv never c. active_invite_by_code db (upper (strip (the code))) = Inr (Some iv) \<and> inviter = Some (iv_user_id iv) \<and>
         db' = put_invite now (db\<lparr>t_cache := c\<rparr>) (iv\<lparr>iv_pv := iv_pv iv + 1, iv_status := (if never = 0 then 1 else iv_status iv)\<rparr>) \<and>
         (\<exists>d1 d2. get_int (au_settings A) now ''invite_never_expire'' 0 d1 = Inr (never, d2) \<and> quiet now db d1)
      else inviter = None \<and> quiet now db db')"
proof -
  from assms obtain force db1 where g: "get_int (au_settings A) now ''invite_force'' 0 db = Inr (force, db1)"
    by (auto simp: resolve_invite_user_id_def bindE_eq_Inr)
  note oc1 = quiet_get_int [OF g]
  show ?thesis
  proof (cases "text_given code")
    case False
    then show ?thesis using assms g oc1 quiet_tables [OF oc1] by (auto simp: resolve_invite_user_id_def guardE_eq_Inr)
  next
    case True
    with assms g obtain iv where iv: "active_invite_by_code db1 (upper (strip (the code))) = Inr (Some iv)"
      by (auto simp: resolve_invite_user_id_def bindE_eq_Inr split: option.splits)
    with assms g True obtain never db2 where g2: "get_int (au_settings A) now ''invite_never_expire'' 0 db1 = Inr (never, db2)"
      and inviter: "inviter = Some (iv_user_id iv)"
      and db': "db' = put_invite now db2 (iv\<lparr>iv_pv := iv_pv iv + 1, iv_status := (if never = 0 then 1 else iv_status iv)\<rparr>)"
      by (auto simp: resolve_invite_user_id_def bindE_eq_Inr Let_def)
    have oc2: "quiet now db db2" using oc1 quiet_get_int [OF g2] quiet_trans by blast
    then have db2: "db2 = db\<lparr>t_cache := t_cache db2\<rparr>" by (simp add: quiet_def)
    have act: "active_invite_by_code db1 c = active_invite_by_code db c" for c
      using quiet_tables(2) [OF oc1] by (simp add: active_invite_by_code_def)
    have "iv \<in> set (rows (t_invite_codes db))"
      using iv [unfolded act] by (simp add: active_invite_by_code_def find_one_Some)
    then have owners: "invites_kept (t_invite_codes db) (t_invite_codes db')"
      using quiet_tables(2) [OF oc2] by (auto simp: db' put_invite_def intro!: invites_kept_update [of iv])
    have "t_users db' = t_users db" "other_tables db db'"
      using quiet_tables [OF oc2] owners by (simp_all add: db' put_invite_def other_tables_def)
    moreover have "db' = put_invite now (db\<lparr>t_cache := t_cache db2\<rparr>) (iv\<lparr>iv_pv := iv_pv iv + 1, iv_status := (if never = 0 then 1 else iv_status iv)\<rparr>)"
      using db' db2 by metis
    ultimately show ?thesis using True iv act inviter g2 oc1 by auto
  qed
qed

section \<open>The shape of the operations\<close>

lemma register_shape:
  assumes "register A r now data ip db = Inr (tok, db')"
  obtains d inviter d7 u where "quiet now db d" "\<not> email_exists d (uc_email data)"
    "resolve_invite_user_id A now (uc_invite_code data) d = Inr (inviter, d7)"
    "u = registered_user A r now data inviter"
    "\<not> list_ex (\<lambda>v. us_email v = us_email u \<or> us_token v = us_token u) (rows (t_users d7))"
    "tok = build_auth_token A now (new_row user_entity now (t_users d7) u)"
    "db' = d7\<lparr>t_users := repo_create user_entity now (t_users d7) u, t_cache := snd (cache_delete (code_key (uc_email data)) (t_cache d7))\<rparr>"
proof -
  from assms obtain stop db1 where g1: "get_int (au_settings A) now ''stop_register'' 0 db = Inr (stop, db1)" by (auto simp: register_def bindE_eq_Inr)
  with assms obtain db2 where g2: "check_email_policy A now (uc_email data) db1 = Inr db2" by (auto simp: register_def bindE_eq_Inr guardE_eq_Inr)
  with assms g1 obtain db3 where g3: "check_register_limit A now ip db2 = Inr db3" by (auto simp: register_def bindE_eq_Inr guardE_eq_Inr)
  with assms g1 g2 obtain db4 where g4: "verify_if_enabled A now (uc_recaptcha_data data) ip db3 = Inr db4" by (auto simp: register_def bindE_eq_Inr guardE_eq_Inr)
  with assms g1 g2 g3 obtain verify db5 where g5: "get_int (au_settings A) now ''email_verify'' 0 db4 = Inr (verify, db5)" by (auto simp: register_def bindE_eq_Inr guardE_eq_Inr)
  with assms g1 g2 g3 g4 obtain db6 where g6: "(if verify = 0 then Inr db5 else verify_email_code A now (uc_email data) (uc_email_code data) db5) = Inr db6"
    by (auto simp: register_def bindE_eq_Inr guardE_eq_Inr)
  with assms g1 g2 g3 g4 g5 obtain inviter db7 where free: "\<not> email_exists db6 (uc_email data)"
    and g7: "resolve_invite_user_id A now (uc_invite_code data) db6 = Inr (inviter, db7)"
    by (auto simp: register_def bindE_eq_Inr guardE_eq_Inr)
  let ?u = "registered_user A r now data inviter"
  from assms g1 g2 g3 g4 g5 g6 free g7 obtain v db8 where ins: "insert_user now db7 ?u = Inr (v, db8)"
    and res: "tok = build_auth_token A now v" "db' = db8\<lparr>t_cache := snd (cache_delete (code_key (uc_email data)) (t_cache db8))\<rparr>"
    by (auto simp: register_def bindE_eq_Inr guardE_eq_Inr)
  have "quiet now db5 db6" using g6 quiet_verify_code by (auto split: if_splits)
  from quiet_trans [OF quiet_trans [OF quiet_trans [OF quiet_trans [OF quiet_trans [OF quiet_get_int [OF g1] quiet_policy [OF g2]]
      quiet_register_limit [OF g3]] quiet_turnstile [OF g4]] quiet_get_int [OF g5]] this]
  have "quiet now db db6" .
  moreover have "\<not> list_ex (\<lambda>v. us_email v = us_email ?u \<or> us_token v = us_token ?u) (rows (t_users db7))"
    "v = new_row user_entity now (t_users db7) ?u" "db8 = db7\<lparr>t_users := repo_create user_entity now (t_users db7) ?u\<rparr>"
    using ins by (simp_all only: insert_user_def guardE_eq_Inr prod.inject sum.inject not_False_eq_True)
  ultimately show ?thesis using that [OF _ free g7 refl] res by simp
qed

lemma login_shape:
  assumes "login A salt now email password rc ip vt db = Inr (tok, db')"
  obtains d u h where "quiet now db d" "user_by_email d email = Some u"
    "verify_and_upgrade (au_passwords A) salt password (us_password u) = Inr (True, h)" "\<not> us_banned u"
    "tok = build_auth_token A now (u\<lparr>us_password := set_if h (us_password u), us_last_login_at := Some now\<rparr>)"
    "db' = put_user now d (u\<lparr>us_password := set_if h (us_password u), us_last_login_at := Some now\<rparr>)"
proof -
  from assms obtain d where g: "(if vt then verify_if_enabled A now rc ip db else Inr db) = Inr d" by (auto simp: login_def bindE_eq_Inr)
  have q: "quiet now db d" using g quiet_turnstile by (auto split: if_splits)
  from assms g obtain u where u: "user_by_email d email = Some u" by (auto simp: login_def bindE_eq_Inr split: option.splits)
  with assms g show ?thesis using that [OF q u] by (auto simp: login_def bindE_eq_Inr guardE_eq_Inr Let_def)
qed

lemma forget_shape:
  assumes "forget_password A salt now data code ip db = Inr db'"
  obtains d u d3 where "quiet now db d" "user_by_email d (fr_email data) = Some u"
    "d3 = put_user now d (u\<lparr>us_password := hash_password (au_passwords A) salt (fr_password data)\<rparr>)"
    "db' = d3\<lparr>t_cache := snd (cache_delete (code_key (fr_email data)) (t_cache d3))\<rparr>"
    "code = None \<longrightarrow> (\<exists>j. cache_value now (code_key (fr_email data)) (t_cache db) = Some j \<and> json_truthy j \<and>
        py_str (sv_codec (au_settings A)) j = fr_email_code data)"
proof -
  from assms obtain db1 where g: "verify_if_enabled A now (fr_recaptcha_data data) ip db = Inr db1" by (auto simp: forget_password_def bindE_eq_Inr)
  have q: "quiet now db db1" by (rule quiet_turnstile [OF g])
  obtain v c where vc: "(case code of Some c \<Rightarrow> (Some (JStr c), t_cache db1) | None \<Rightarrow> cache_get now (code_key (fr_email data)) (t_cache db1)) = (v, c)"
    by (rule prod.exhaust)
  have "quiet now db1 (db1\<lparr>t_cache := c\<rparr>)"
    using vc quiet_get [of now db1 "code_key (fr_email data)"] by (cases code) (auto simp: quiet_def split: prod.splits)
  with q have q2: "quiet now db (db1\<lparr>t_cache := c\<rparr>)" by (rule quiet_trans)
  from assms g vc obtain j where j: "v = Some j" "json_truthy j" "py_str (sv_codec (au_settings A)) j = fr_email_code data"
    by (auto simp: forget_password_def Let_def guardE_eq_Inr py_str_opt_def split: option.splits)
  from assms g vc obtain u where u: "user_by_email (db1\<lparr>t_cache := c\<rparr>) (fr_email data) = Some u"
    by (auto simp: forget_password_def Let_def guardE_eq_Inr split: option.splits)
  have "db' = put_user now (db1\<lparr>t_cache := c\<rparr>) (u\<lparr>us_password := hash_password (au_passwords A) salt (fr_password data)\<rparr>)
      \<lparr>t_cache := snd (cache_delete (code_key (fr_email data)) (t_cache (put_user now (db1\<lparr>t_cache := c\<rparr>) (u\<lparr>us_password := hash_password (au_passwords A) salt (fr_password data)\<rparr>))))\<rparr>"
    using assms g vc u by (simp add: forget_password_def Let_def guardE_eq_Inr)
  moreover have "cache_value now (code_key (fr_email data)) (t_cache db) = Some j" if "code = None"
    using vc that j(1) cache_get_value [of now "code_key (fr_email data)" "t_cache db1"] q by (simp add: quiet_def)
  ultimately show ?thesis using that [OF q2 u refl] j by blast
qed

section \<open>Account requests\<close>

datatype auth_op =
    AccountOp user_op
  | Register account_random user_create "string option"
  | Login string string string "string option" "string option"
  | Forget string forget_request "string option"
  | SendCode int verify_request "string option"
  | InvitePv "string option"
  | Token2 "string option" "string option" string

fun run_auth_op :: "auth_service \<Rightarrow> int \<Rightarrow> auth_op \<Rightarrow> db \<Rightarrow> exn + db" where
  "run_auth_op A now (AccountOp op) db = run_user_op (au_passwords A) now op db"
| "run_auth_op A now (Register r data ip) db = bindE (register A r now data ip db) (\<lambda>(_, db'). Inr db')"
| "run_auth_op A now (Login salt email pw rc ip) db = bindE (login A salt now email pw rc ip True db) (\<lambda>(_, db'). Inr db')"
| "run_auth_op A now (Forget salt data ip) db = forget_password A salt now data None ip db"
| "run_auth_op A now (SendCode random data ip) db = bindE (create_email_verify_code A random now data ip db) (\<lambda>(_, db'). Inr db')"
| "run_auth_op A now (InvitePv code) db = record_invite_pv now code db"
| "run_auth_op A now (Token2 verify tok redirect) db = bindE (token2_login A now verify tok redirect db) (\<lambda>(_, db'). Inr db')"

definition auth_request :: "auth_service \<Rightarrow> int \<times> auth_op \<Rightarrow> db \<Rightarrow> db" where
  "auth_request A r db = (case run_auth_op A (fst r) (snd r) db of Inl _ \<Rightarrow> db | Inr db' \<Rightarrow> db')"

lemma other_tables_trans: "other_tables db1 db2 \<Longrightarrow> other_tables db2 db3 \<Longrightarrow> other_tables db1 db3"
  unfolding other_tables_def by (metis invites_kept_trans)

lemma other_tables_user [simp]:
  "other_tables d (d\<lparr>t_users := us\<rparr>)" "other_tables d (d\<lparr>t_users := us, t_cache := c\<rparr>)" "other_tables d (d\<lparr>t_cache := c\<rparr>)"
  by (simp_all add: other_tables_def)

text \<open>A change of the users' table of a database that differs from the first in its cache only.\<close>

lemma quiet_change:
  assumes book: "account_book db" and d: "t_users d = t_users db" "other_tables db d" and u: "u \<in> set (rows (t_users d))"
    and same: "us_id u' = us_id u" "us_email u' = us_email u" "us_token u' = us_token u" "us_invite_user_id u' = us_invite_user_id u"
    and db': "t_users db' = repo_update user_entity now (t_users d) u'" "other_tables d db'"
  shows "account_step now db db'"
proof -
  have wf: "wf_table user_entity (t_users db)" using book by (simp add: account_book_def)
  have u_db: "user_by_id db (us_id u) = Some u" using users.get_unique [OF wf] u d(1) by (simp add: user_by_id_def)
  show ?thesis
    by (rule account_step.changed [OF u_db same(1) key_free_same [OF book u_db same(1-3)]])
       (use same(4) d db' other_tables_trans [OF d(2) db'(2)] in simp_all)
qed

lemma user_by_emailD: "user_by_email db e = Some u \<Longrightarrow> u \<in> set (rows (t_users db)) \<and> us_email u = e"
  by (auto simp: user_by_email_def dest: find_Some_set)

lemma token_step:
  assumes book: "account_book db" and d: "t_users d = t_users db" "other_tables db d" and t: "build_token_for_user_id A now uid d = Inr (tok, db')"
  shows "account_step now db db'"
proof -
  from t obtain u where u: "user_by_id d uid = Some u" and db': "db' = put_user now d (u\<lparr>us_last_login_at := Some now\<rparr>)"
    by (auto simp: build_token_for_user_id_def guardE_eq_Inr Let_def split: option.splits)
  show ?thesis by (rule quiet_change [OF book d conjunct1 [OF user_by_idD [OF u]]]) (simp_all add: db' put_user_def)
qed

lemma register_step:
  assumes book: "account_book db" and r: "register A r now data ip db = Inr (tok, db')"
  shows "account_step now db db'"
proof -
  obtain d inviter d7 u where q: "quiet now db d"
    and inv: "resolve_invite_user_id A now (uc_invite_code data) d = Inr (inviter, d7)"
    and u: "u = registered_user A r now data inviter"
    and free: "\<not> list_ex (\<lambda>v. us_email v = us_email u \<or> us_token v = us_token u) (rows (t_users d7))"
    and db': "db' = d7\<lparr>t_users := repo_create user_entity now (t_users d7) u, t_cache := snd (cache_delete (code_key (uc_email data)) (t_cache d7))\<rparr>"
    by (rule register_shape [OF r]) (rule that; assumption)
  note shape = resolve_invite_shape [OF inv]
  have us: "t_users d7 = t_users db" using shape quiet_tables(1) [OF q] by simp
  have "set_option inviter \<subseteq> user_ids db"
  proof (cases "text_given (uc_invite_code data)")
    case True
    with shape obtain iv c where "active_invite_by_code d c = Inr (Some iv)" "inviter = Some (iv_user_id iv)" by auto
    then have "iv_user_id iv \<in> iv_user_id ` set (rows (t_invite_codes db))"
      using quiet_tables(2) [OF q] by (auto simp: active_invite_by_code_def dest: find_one_Some)
    then show ?thesis using book \<open>inviter = _\<close> unfolding account_book_def user_refs_def by auto
  qed (use shape in simp)
  moreover have "other_tables db db'" using other_tables_trans [OF quiet_tables(4) [OF q]] shape other_tables_trans db' other_tables_user by metis
  ultimately show ?thesis using free us db' by (intro account_step.added [of u]) (simp_all add: u registered_user_def)
qed

lemma auth_op_steps:
  assumes book: "account_book db" and run: "run_auth_op A now op db = Inr db'"
  shows "(account_step now)\<^sup>*\<^sup>* db db'"
proof (cases op)
  case (AccountOp op)
  with run show ?thesis using user_op_steps [OF book] by simp
next
  case (Register r data ip)
  with run obtain tok where "register A r now data ip db = Inr (tok, db')" by (auto simp: bindE_eq_Inr)
  from register_step [OF book this] show ?thesis by simp
next
  case (Login salt email pw rc ip)
  with run obtain tok where "login A salt now email pw rc ip True db = Inr (tok, db')" by (auto simp: bindE_eq_Inr)
  from login_shape [OF this] obtain d u h where q: "quiet now db d" and u: "user_by_email d email = Some u"
    and db': "db' = put_user now d (u\<lparr>us_password := set_if h (us_password u), us_last_login_at := Some now\<rparr>)" by metis
  have "account_step now db db'"
    by (rule quiet_change [OF book quiet_tables(1,4) [OF q] conjunct1 [OF user_by_emailD [OF u]]]) (simp_all add: db' put_user_def)
  then show ?thesis by simp
next
  case (Forget salt data ip)
  with run have "forget_password A salt now data None ip db = Inr db'" by simp
  from forget_shape [OF this] obtain d u d3 where q: "quiet now db d" and u: "user_by_email d (fr_email data) = Some u"
    and db': "d3 = put_user now d (u\<lparr>us_password := hash_password (au_passwords A) salt (fr_password data)\<rparr>)"
      "db' = d3\<lparr>t_cache := snd (cache_delete (code_key (fr_email data)) (t_cache d3))\<rparr>" by metis
  have "account_step now db db'"
    by (rule quiet_change [OF book quiet_tables(1,4) [OF q] conjunct1 [OF user_by_emailD [OF u]]]) (simp_all add: db' put_user_def)
  then show ?thesis by simp
next
  case (SendCode random data ip)
  with run obtain db1 db2 db3 where g1: "check_email_verify_rate now ip db = Inr db1" and g2: "check_email_policy A now (vr_email data) db1 = Inr db2"
    and g3: "verify_if_enabled A now (vr_recaptcha_data data) ip db2 = Inr db3" and c: "\<exists>c. db' = db3\<lparr>t_cache := c\<rparr>"
    by (auto simp: create_email_verify_code_def bindE_eq_Inr guardE_eq_Inr Let_def split_beta)
  from quiet_trans [OF quiet_trans [OF quiet_verify_rate [OF g1] quiet_policy [OF g2]] quiet_turnstile [OF g3]]
  have q: "quiet now db db3" .
  have "account_step now db db'" using c quiet_tables(1,4) [OF q] by (intro account_step.same) (auto simp: other_tables_def)
  then show ?thesis by simp
next
  case (InvitePv code)
  have "t_users db' = t_users db \<and> other_tables db db'"
  proof (cases "text_given code")
    case True
    with run InvitePv obtain found where f: "invite_by_code db (upper (strip (the code))) = Inr found"
      and res: "(case found of None \<Rightarrow> Inr db | Some iv \<Rightarrow> Inr (put_invite now db (iv\<lparr>iv_pv := iv_pv iv + 1\<rparr>))) = (Inr db' :: exn + db)"
      by (auto simp: record_invite_pv_def bindE_eq_Inr)
    show ?thesis
    proof (cases found)
      case (Some iv)
      with f have "iv \<in> set (rows (t_invite_codes db))" unfolding invite_by_code_def by (blast dest: find_one_Some)
      with res Some show ?thesis
        by (auto simp: put_invite_def other_tables_def intro!: invites_kept_update [of iv])
    qed (use res in simp)
  qed (use run InvitePv in \<open>simp add: record_invite_pv_def\<close>)
  then have "account_step now db db'" by (intro account_step.same) simp_all
  then show ?thesis by simp
next
  case (Token2 verify tok redirect)
  with run obtain ans where t: "token2_login A now verify tok redirect db = Inr (ans, db')" by (auto simp: bindE_eq_Inr)
  show ?thesis
  proof (cases ans)
    case (LoggedIn jwt)
    then obtain uid c where b: "build_token_for_user_id A now uid (db\<lparr>t_cache := c\<rparr>) = Inr (jwt, db')"
      using t by (auto simp: token2_login_def bindE_eq_Inr Let_def split: if_splits prod.splits option.splits)
    have "account_step now db db'" by (rule token_step [OF book _ _ b]) simp_all
    then show ?thesis by simp
  next
    case (Redirect url)
    then have "db' = db" using t by (auto simp: token2_login_def bindE_eq_Inr Let_def split: if_splits prod.splits option.splits)
    then show ?thesis by simp
  next
    case NoToken
    then obtain c where "db' = db\<lparr>t_cache := c\<rparr> \<or> db' = db"
      using t by (auto simp: token2_login_def bindE_eq_Inr Let_def split: if_splits prod.splits option.splits)
    then have "account_step now db db'" by (intro account_step.same) auto
    then show ?thesis by simp
  qed
qed

lemma book_requests: "account_book db \<Longrightarrow> account_book (fold (auth_request A) reqs db)"
proof (induction reqs arbitrary: db)
  case (Cons r reqs)
  have "account_book (auth_request A r db)"
    using Cons.prems book_steps [OF auth_op_steps [OF Cons.prems]]
    by (cases "run_auth_op A (fst r) (snd r) db") (simp_all add: auth_request_def)
  with Cons.IH show ?case by simp
qed simp

section \<open>Passwords, tokens, codes\<close>

text \<open>The documented behaviour of the two libraries: an Argon2id digest carries its format tag and verifies
  exactly the password it was made from; a signed token decodes to its claims until it expires.\<close>

definition argon2 :: "passwords \<Rightarrow> bool" where
  "argon2 P \<longleftrightarrow> (\<forall>salt s s'. starts_with ''$argon2'' (pw_hash P salt s) \<and> pw_argon2_verify P (pw_hash P salt s) s' = Inr (s' = s))"

definition signed_tokens :: "auth_service \<Rightarrow> bool" where
  "signed_tokens A \<longleftrightarrow> (\<forall>p t. (t \<le> jp_exp p \<longrightarrow> (\<exists>q. au_decode A t (au_encode A p) = Some q \<and> jp_sub q = jp_sub p)) \<and>
     (jp_exp p < t \<longrightarrow> au_decode A t (au_encode A p) = None))"

lemma verify_hash:
  "argon2 P \<Longrightarrow> \<exists>h. verify_and_upgrade P salt s' (hash_password P salt0 s) = Inr (s' = s, h)"
  by (auto simp: argon2_def verify_and_upgrade_def verify_argon2id_def hash_password_def)

lemma login_outcome:
  assumes "argon2 (au_passwords A)" "user_by_email db e = Some u" "us_password u = hash_password (au_passwords A) salt0 pw"
  shows "is_ok (login A salt t e p rc ip False db) \<longleftrightarrow> p = pw \<and> \<not> us_banned u"
proof -
  from verify_hash [OF assms(1)] obtain h where "verify_and_upgrade (au_passwords A) salt p (us_password u) = Inr (p = pw, h)"
    unfolding assms(3) by blast
  then show ?thesis by (simp add: login_def assms(2) guardE_def Let_def)
qed

lemma email_after_put:
  assumes "wf_table user_entity (t_users db)" "u \<in> set (rows (t_users db))" "us_id u' = us_id u" "us_email u' = us_email u"
    "user_by_email db e = Some u"
  shows "user_by_email (put_user now db u') e = Some (stored user_entity now u u')"
proof -
  have "us_email (stored user_entity now x u') = e \<longleftrightarrow> us_email x = e" if x: "x \<in> set (rows (t_users db))" "us_id x = us_id u'" for x
    using wf_same_row [OF assms(1) x(1) assms(2)] x(2) assms(3,4) by simp
  then have "user_by_email (put_user now db u') e =
     map_option (\<lambda>x. if us_id x = us_id u' then stored user_entity now x u' else x) (user_by_email db e)"
    using find_update [of "t_users db" user_entity u' "\<lambda>x. us_email x = e" now] by (simp add: user_by_email_def put_user_def)
  then show ?thesis using assms(3,5) by simp
qed

lemma stored_user_password [simp]: "us_password (stored user_entity now x u) = us_password u"
  by (simp add: stored_def user_entity_def)

lemma new_row_password [simp]: "us_password (new_row user_entity now t u) = us_password u" "us_banned (new_row user_entity now t u) = us_banned u"
  by (simp_all add: new_row_def user_entity_def)

lemma user_by_email_cache [simp]: "user_by_email (db\<lparr>t_cache := c\<rparr>) e = user_by_email db e"
  by (simp add: user_by_email_def)

lemma email_unique: "account_book db \<Longrightarrow> u \<in> set (rows (t_users db)) \<Longrightarrow> user_by_email db (us_email u) = Some u"
proof -
  assume a: "account_book db" "u \<in> set (rows (t_users db))"
  then obtain v where v: "user_by_email db (us_email u) = Some v"
    by (cases "user_by_email db (us_email u)") (auto simp: user_by_email_def find_None_iff)
  from user_by_emailD [OF v] a have "v = u" unfolding account_book_def distinct_map by (metis inj_onD)
  with v show ?thesis by simp
qed

lemma registered_email:
  assumes "register A r now data ip db = Inr (tok, db')"
  shows "\<exists>u. user_by_email db' (uc_email data) = Some u \<and> us_password u = hash_password (au_passwords A) (ar_salt r) (uc_password data) \<and> \<not> us_banned u"
proof -
  obtain d inviter d7 u where u: "u = registered_user A r now data inviter"
    and free: "\<not> list_ex (\<lambda>v. us_email v = us_email u \<or> us_token v = us_token u) (rows (t_users d7))"
    and db': "db' = d7\<lparr>t_users := repo_create user_entity now (t_users d7) u, t_cache := snd (cache_delete (code_key (uc_email data)) (t_cache d7))\<rparr>"
    by (rule register_shape [OF assms]) (rule that; assumption)
  have "find (\<lambda>v. us_email v = uc_email data) (rows (t_users d7)) = None"
    using free by (auto simp: find_None_iff list_ex_iff u registered_user_def)
  then show ?thesis
    by (simp add: user_by_email_def db' find_append u registered_user_def blank_user_def)
qed

lemma forgotten_email:
  assumes book: "account_book db" and f: "forget_password A salt now fr code ip db = Inr db'"
  shows "\<exists>u. user_by_email db (fr_email fr) = Some u \<and> (\<exists>u'. user_by_email db' (fr_email fr) = Some u' \<and>
     us_password u' = hash_password (au_passwords A) salt (fr_password fr) \<and> us_banned u' = us_banned u)"
proof -
  from forget_shape [OF f] obtain d u d3 where q: "quiet now db d" and u: "user_by_email d (fr_email fr) = Some u"
    and db': "d3 = put_user now d (u\<lparr>us_password := hash_password (au_passwords A) salt (fr_password fr)\<rparr>)"
      "db' = d3\<lparr>t_cache := snd (cache_delete (code_key (fr_email fr)) (t_cache d3))\<rparr>" by metis
  have wf: "wf_table user_entity (t_users d)" using book quiet_tables(1) [OF q] by (simp add: account_book_def)
  have "user_by_email db (fr_email fr) = Some u" using u quiet_tables(1) [OF q] by (simp add: user_by_email_def)
  moreover have "user_by_email db' (fr_email fr) = Some (stored user_entity now u (u\<lparr>us_password := hash_password (au_passwords A) salt (fr_password fr)\<rparr>))"
    unfolding db' user_by_email_cache using user_by_emailD [OF u] u by (intro email_after_put [OF wf]) simp_all
  ultimately show ?thesis by auto
qed

lemma changed_email:
  assumes book: "account_book db" and c: "change_password P salt now uid old_pw new_pw db = Inr db'"
  shows "\<exists>u. user_by_id db uid = Some u \<and> (\<exists>u'. user_by_email db' (us_email u) = Some u' \<and>
     us_password u' = hash_password P salt new_pw \<and> us_banned u' = us_banned u)"
proof -
  from c obtain u where u: "user_by_id db uid = Some u" and db': "db' = put_user now db (u\<lparr>us_password := hash_password P salt new_pw\<rparr>)"
    by (auto simp: change_password_def bindE_eq_Inr guardE_eq_Inr split: option.splits)
  have "u \<in> set (rows (t_users db))" using user_by_idD [OF u] by blast
  then have "user_by_email db' (us_email u) = Some (stored user_entity now u (u\<lparr>us_password := hash_password P salt new_pw\<rparr>))"
    unfolding db' using book email_unique by (intro email_after_put) (simp_all add: account_book_def)
  with u show ?thesis by auto
qed

text \<open>C12: Under any sequence of registrations, logins, password resets, code requests and account
  requests the primary keys, e-mail addresses and subscription tokens of the accounts stay unique, the owner of
  every ticket, order and invite code and the inviter of every account exist, and every message belongs to an
  existing ticket; all this also holds after an account is deleted, which leaves the account neither itself nor
  as an owner or inviter of these, but leaves its gift-card redemptions, its commission log and the orders of
  others that name it as their inviter.\<close>

theorem account_book_kept:
  assumes "account_book db" and "db' = fold (auth_request A) reqs db" and "delete_user now uid db' = Inr db2"
  shows "account_book db' \<and> account_book db2 \<and> uid \<notin> user_ids db2 \<and>
     t_redemptions db2 = t_redemptions db' \<and> t_commission_logs db2 = t_commission_logs db' \<and>
     {r \<in> set (rows (t_orders db')). od_user_id r \<noteq> uid} \<subseteq> set (rows (t_orders db2))"
proof -
  have "account_book db' \<and> account_book db2 \<and> uid \<notin> user_ids db2"
    using book_requests [OF assms(1)] assms(2,3) book_removed deleted_gone by blast
  then show ?thesis using delete_user_leaves [OF assms(3)] by blast
qed

text \<open>C24: After a registration, a reset by e-mail code or a change of the password, exactly the new
  password logs the user in, unless the account is banned.\<close>

theorem password_login:
  assumes "argon2 (au_passwords A)" "account_book db"
  shows "(register A r now data ip db = Inr (tok, db1) \<longrightarrow> is_ok (login A salt t (uc_email data) p rc ip' False db1) = (p = uc_password data)) \<and>
     (forget_password A salt0 now fr code ip db = Inr db2 \<longrightarrow> (\<exists>u. user_by_email db (fr_email fr) = Some u \<and>
        is_ok (login A salt t (fr_email fr) p rc ip' False db2) = (p = fr_password fr \<and> \<not> us_banned u))) \<and>
     (change_password (au_passwords A) salt0 now uid old_pw new_pw db = Inr db3 \<longrightarrow> (\<exists>u. user_by_id db uid = Some u \<and>
        is_ok (login A salt t (us_email u) p rc ip' False db3) = (p = new_pw \<and> \<not> us_banned u)))"
proof (intro conjI impI)
  assume "register A r now data ip db = Inr (tok, db1)"
  from registered_email [OF this] show "is_ok (login A salt t (uc_email data) p rc ip' False db1) = (p = uc_password data)"
    using login_outcome [OF assms(1)] by metis
next
  assume "forget_password A salt0 now fr code ip db = Inr db2"
  from forgotten_email [OF assms(2) this] show "\<exists>u. user_by_email db (fr_email fr) = Some u \<and>
        is_ok (login A salt t (fr_email fr) p rc ip' False db2) = (p = fr_password fr \<and> \<not> us_banned u)"
    using login_outcome [OF assms(1)] by metis
next
  assume "change_password (au_passwords A) salt0 now uid old_pw new_pw db = Inr db3"
  from changed_email [OF assms(2) this] show "\<exists>u. user_by_id db uid = Some u \<and>
        is_ok (login A salt t (us_email u) p rc ip' False db3) = (p = new_pw \<and> \<not> us_banned u)"
    using login_outcome [OF assms(1)] by metis
qed

text \<open>A stand-in for the token library: the expiry, a dot and the subject.\<close>

definition plain_encode :: "jwt_payload \<Rightarrow> string" where
  "plain_encode p = str_int (jp_exp p) @ ''.'' @ (case jp_sub p of None \<Rightarrow> ''N'' | Some s \<Rightarrow> CHR ''S'' # s)"

definition plain_decode :: "int \<Rightarrow> string \<Rightarrow> jwt_payload option" where
  "plain_decode now tok =
     (case partition_at (CHR ''.'') tok of (e, _, s) \<Rightarrow>
        (case py_int e of None \<Rightarrow> None | Some x \<Rightarrow> if x < now then None
         else Some \<lparr>jp_sub = (if take 1 s = ''S'' then Some (drop 1 s) else None), jp_email = [], jp_is_admin = False, jp_is_staff = False,
            jp_iat = 0, jp_exp = x\<rparr>))"

definition sample_auth :: auth_service where
  "sample_auth = \<lparr>au_settings = sample_service, au_passwords = plain_passwords, au_encode = plain_encode, au_decode = plain_decode,
     au_expire_minutes = 10, au_turnstile = (\<lambda>_ _ _. None)\<rparr>"

lemma str_int_no_dot: "CHR ''.'' \<notin> set (str_int n)"
proof -
  have "\<not> is_digit (CHR ''.'')" by code_simp
  then have "CHR ''.'' \<notin> set (str_nat m)" for m using str_nat_digits [of m] by (auto simp: list_all_iff)
  then show ?thesis by (simp add: str_int_def)
qed

lemma sample_auth_ok: "argon2 (au_passwords sample_auth)" "signed_tokens sample_auth"
proof -
  show "argon2 (au_passwords sample_auth)" by (simp add: argon2_def sample_auth_def plain_passwords_def eq_commute)
  have "takeWhile (\<lambda>c. c \<noteq> CHR ''.'') (str_int n @ CHR ''.'' # s) = str_int n" "dropWhile (\<lambda>c. c \<noteq> CHR ''.'') (str_int n @ CHR ''.'' # s) = CHR ''.'' # s" for n s
    using str_int_no_dot [of n] by (subst takeWhile_append2 dropWhile_append2, auto)+
  then show "signed_tokens sample_auth"
    by (auto simp: signed_tokens_def sample_auth_def plain_encode_def plain_decode_def partition_at_def split: option.split)
qed

definition join_request :: user_create where
  "join_request = \<lparr>uc_email = ''n@b.c'', uc_password = ''password'', uc_invite_code = Some '' code1 '', uc_email_code = None, uc_recaptcha_data = None\<rparr>"

definition auth_db :: db where
  "auth_db = account_db\<lparr>t_invite_codes := \<lparr>rows = [\<lparr>iv_id = 1, iv_user_id = 2, iv_code = ''CODE1'', iv_status = 0, iv_pv = 0,
     iv_created_at = 0, iv_updated_at = 0\<rparr>], next_id = 2\<rparr>,
     t_cache := [\<lparr>ck_key = code_key ''a@b.c'', ck_value = JStr ''100123'', ck_expires = Some 300\<rparr>]\<rparr>"

definition reset_request :: forget_request where
  "reset_request = \<lparr>fr_email = ''a@b.c'', fr_email_code = ''100123'', fr_password = ''new-word'', fr_recaptcha_data = None\<rparr>"

definition auth_requests :: "(int \<times> auth_op) list" where
  "auth_requests = [(5, Register sample_random join_request None), (7, Forget ''s'' reset_request None),
     (8, AccountOp (SetInviter 1 (Some ''B@b.c''))), (9, AccountOp (DeleteUser 1))]"

lemma auth_db_ok: "account_book auth_db"
  by code_simp

theorem account_book_kept_witness:
  "\<exists>db2. delete_user 9 2 (fold (auth_request sample_auth) auth_requests auth_db) = Inr db2 \<and>
     account_book db2 \<and> count_invited_users db2 2 = 0"
proof -
  have "is_ok (delete_user 9 2 (fold (auth_request sample_auth) auth_requests auth_db))" by code_simp
  then obtain db2 where d: "delete_user 9 2 (fold (auth_request sample_auth) auth_requests auth_db) = Inr db2"
    by (rule is_okE)
  from account_book_kept [OF auth_db_ok refl d] have b: "account_book db2" "2 \<notin> user_ids db2" by blast+
  then have "count_invited_users db2 2 = 0"
    unfolding count_invited_users_def count_where_zero account_book_def user_refs_def by fastforce
  with d b(1) show ?thesis by blast
qed

theorem password_login_witness:
  "\<exists>tok db1. register sample_auth sample_random 5 join_request None auth_db = Inr (tok, db1) \<and>
     is_ok (login sample_auth ''s'' 9 ''n@b.c'' ''password'' None None False db1) \<and>
     \<not> is_ok (login sample_auth ''s'' 9 ''n@b.c'' ''Password'' None None False db1)"
proof -
  have "is_ok (register sample_auth sample_random 5 join_request None auth_db)" by code_simp
  then obtain tok db1 where r: "register sample_auth sample_random 5 join_request None auth_db = Inr (tok, db1)" by (auto elim: is_okE)
  have e: "uc_email join_request = ''n@b.c''" "uc_password join_request = ''password''" by (simp_all add: join_request_def)
  show ?thesis
    using password_login [OF sample_auth_ok(1) auth_db_ok, where r = sample_random and now = 5 and data = join_request and ip = None and tok = tok
        and ?db1.0 = db1 and salt = "''s''" and t = 9 and rc = None and ip' = None] r e by auto
qed

section \<open>Tokens, invite codes and e-mail codes\<close>

lemma decode_built_token:
  assumes "signed_tokens A"
  shows "decode_user_id A t (drop 7 (build_auth_token A now u)) =
     (if now + 60 * au_expire_minutes A < t then Inl (Unauthorized []) else Inr (us_id u))"
proof (cases "t \<le> now + 60 * au_expire_minutes A")
  case True
  then have "t \<le> jp_exp (auth_payload A now u)" by (simp add: auth_payload_def)
  then obtain q where "au_decode A t (au_encode A (auth_payload A now u)) = Some q" "jp_sub q = jp_sub (auth_payload A now u)"
    using assms unfolding signed_tokens_def by blast
  then show ?thesis using True by (simp add: build_auth_token_def decode_user_id_def auth_payload_def)
next
  case False
  then have "au_decode A t (au_encode A (auth_payload A now u)) = None"
    using assms by (simp add: signed_tokens_def auth_payload_def)
  then show ?thesis using False by (simp add: build_auth_token_def decode_user_id_def)
qed

text \<open>The sum of what the guards of the routes see of a decoded token.\<close>

definition token_bearer :: "db \<Rightarrow> int \<Rightarrow> exn + user" where
  "token_bearer db uid = (case user_by_id db uid of None \<Rightarrow> Inl (Unauthorized [])
     | Some u \<Rightarrow> if us_banned u then Inl (Forbidden ''banned'') else Inr u)"

lemma current_user_bearer:
  "get_current_user A t tok db = bindE (decode_user_id A t tok) (token_bearer db)"
  by (simp add: get_current_user_def token_bearer_def [abs_def] guardE_def cong: option.case_cong)

text \<open>C25: The token of a login stands, until its expiry and at no later time, for the account that logged in,
  with the account's rights and ban as they are when it is used; it opens the administration only to an
  administrator and the staff routes only to staff.\<close>

theorem token_stands_for_account:
  assumes "signed_tokens A" "login A salt now email pw rc ip vt db = Inr (tok, db')"
  shows "\<exists>u. user_by_email db email = Some u \<and>
     get_current_user A t (drop 7 tok) db2 =
       (if now + 60 * au_expire_minutes A < t then Inl (Unauthorized []) else token_bearer db2 (us_id u)) \<and>
     (\<forall>v. require_admin A t (drop 7 tok) db2 = Inr v \<longrightarrow> v \<in> set (rows (t_users db2)) \<and> us_id v = us_id u \<and> us_is_admin v \<and> \<not> us_banned v) \<and>
     (\<forall>v. require_staff A t (drop 7 tok) db2 = Inr v \<longrightarrow> us_id v = us_id u \<and> (us_is_staff v \<or> us_is_admin v) \<and> \<not> us_banned v)"
proof -
  from login_shape [OF assms(2)] obtain d u h where q: "quiet now db d" and u: "user_by_email d email = Some u"
    and tok: "tok = build_auth_token A now (u\<lparr>us_password := set_if h (us_password u), us_last_login_at := Some now\<rparr>)" by metis
  have cur: "get_current_user A t (drop 7 tok) db2 =
       (if now + 60 * au_expire_minutes A < t then Inl (Unauthorized []) else token_bearer db2 (us_id u))"
    using decode_built_token [OF assms(1)] by (simp add: tok current_user_bearer)
  have bearer: "v \<in> set (rows (t_users db2)) \<and> us_id v = us_id u \<and> \<not> us_banned v" if "get_current_user A t (drop 7 tok) db2 = Inr v" for v
    using that unfolding cur token_bearer_def by (auto split: if_splits option.splits dest: user_by_idD)
  have "user_by_email db email = Some u" using u quiet_tables(1) [OF q] by (simp add: user_by_email_def)
  then show ?thesis
    using cur bearer unfolding require_admin_def require_staff_def bindE_eq_Inr guardE_eq_Inr by blast
qed

theorem token_stands_for_account_witness:
  "\<exists>tok db'. login sample_auth ''s'' 9 ''a@b.c'' ''x'' None None False (account_db\<lparr>t_users := \<lparr>rows = [sample_user\<lparr>us_password := ''$2$x''\<rparr>], next_id = 2\<rparr>\<rparr>) = Inr (tok, db') \<and>
     get_current_user sample_auth 609 (drop 7 tok) account_db = Inr sample_user \<and>
     \<not> is_ok (get_current_user sample_auth 610 (drop 7 tok) account_db)"
proof -
  let ?db = "account_db\<lparr>t_users := \<lparr>rows = [sample_user\<lparr>us_password := ''$2$x''\<rparr>], next_id = 2\<rparr>\<rparr>"
  have "is_ok (login sample_auth ''s'' 9 ''a@b.c'' ''x'' None None False ?db)"
    "user_by_email ?db ''a@b.c'' = Some (sample_user\<lparr>us_password := ''$2$x''\<rparr>)" "token_bearer account_db 1 = Inr sample_user"
    by code_simp+
  moreover from this(1) obtain tok db' where l: "login sample_auth ''s'' 9 ''a@b.c'' ''x'' None None False ?db = Inr (tok, db')"
    by (auto elim: is_okE)
  moreover have "us_id (sample_user\<lparr>us_password := ''$2$x''\<rparr>) = 1" "au_expire_minutes sample_auth = 10"
    by (simp_all add: sample_user_def sample_auth_def)
  ultimately show ?thesis
    using token_stands_for_account [OF sample_auth_ok(2) l, of 609 account_db] token_stands_for_account [OF sample_auth_ok(2) l, of 610 account_db] by auto
qed

text \<open>The registration as it would be if the code were not compared: the cache is read, nothing is asked.\<close>

definition register_unverified :: "auth_service \<Rightarrow> account_random \<Rightarrow> int \<Rightarrow> user_create \<Rightarrow> string option \<Rightarrow> db \<Rightarrow> exn + string \<times> db" where
  "register_unverified A r now data ip db =
     bindE (get_int (au_settings A) now ''stop_register'' 0 db) (\<lambda>(stop, db1).
     guardE (stop \<noteq> 0) (Forbidden ''registration is closed'') (
     bindE (check_email_policy A now (uc_email data) db1) (\<lambda>db2.
     bindE (check_register_limit A now ip db2) (\<lambda>db3.
     bindE (verify_if_enabled A now (uc_recaptcha_data data) ip db3) (\<lambda>db4.
     bindE (get_int (au_settings A) now ''email_verify'' 0 db4) (\<lambda>(_, db5).
     let db6 = db5\<lparr>t_cache := snd (cache_get now (code_key (uc_email data)) (t_cache db5))\<rparr> in
     guardE (email_exists db6 (uc_email data)) (Conflict ''email'') (
     bindE (resolve_invite_user_id A now (uc_invite_code data) db6) (\<lambda>(inviter, db7).
     bindE (insert_user now db7 (registered_user A r now data inviter)) (\<lambda>(u, db8).
     Inr (build_auth_token A now u, db8\<lparr>t_cache := snd (cache_delete (code_key (uc_email data)) (t_cache db8))\<rparr>))))))))))"

text \<open>The answer of the code check where no code is cached.\<close>

lemma verify_code_uncached:
  assumes "cache_value now (code_key e) (t_cache db) = None"
  shows "verify_email_code A now e (Some ''None'') db = Inr (db\<lparr>t_cache := snd (cache_get now (code_key e) (t_cache db))\<rparr>)"
    and "code \<noteq> Some ''None'' \<Longrightarrow> \<not> is_ok (verify_email_code A now e code db)"
proof -
  have g: "fst (cache_get now (code_key e) (t_cache db)) = None" using assms by (simp add: cache_get_value)
  show "verify_email_code A now e (Some ''None'') db = Inr (db\<lparr>t_cache := snd (cache_get now (code_key e) (t_cache db))\<rparr>)"
    using g by (cases "cache_get now (code_key e) (t_cache db)")
      (simp add: verify_email_code_def guardE_def py_str_opt_def text_given_def)
  show "\<not> is_ok (verify_email_code A now e code db)" if "code \<noteq> Some ''None''"
    using that g by (cases "cache_get now (code_key e) (t_cache db)"; cases code)
      (auto simp: verify_email_code_def guardE_def py_str_opt_def text_given_def is_ok_def)
qed

lemma quiet_verify_setting:
  assumes "quiet now db db4" "get_int S now ''email_verify'' 0 db4 = Inr (v, db5)"
    and "setting_coherent now db" "int_setting db ''email_verify'' 0 = Inr n"
  shows "v = n"
proof -
  have "int_setting db4 ''email_verify'' 0 = Inr n"
    using assms(4) quiet_tables(3) [OF assms(1)] by (simp add: int_setting_def setting_by_key_def)
  moreover have "setting_coherent now db4" using assms(1,3) by (simp add: quiet_def)
  ultimately show ?thesis using assms(2) get_int_value [of now db4 S "''email_verify''" 0] by simp
qed

lemma quiet_codes: "quiet now db db' \<Longrightarrow> cache_value now (code_key e) (t_cache db') = cache_value now (code_key e) (t_cache db)"
  by (simp add: quiet_def)

lemma register_checked:
  assumes "register A r now data ip db = Inr (tok, db')"
  obtains v db4 db5 db6 where "quiet now db db4" "get_int (au_settings A) now ''email_verify'' 0 db4 = Inr (v, db5)"
    "(if v = 0 then Inr db5 else verify_email_code A now (uc_email data) (uc_email_code data) db5) = Inr db6"
proof -
  from assms obtain stop db1 where g1: "get_int (au_settings A) now ''stop_register'' 0 db = Inr (stop, db1)" by (auto simp: register_def bindE_eq_Inr)
  with assms obtain db2 where g2: "check_email_policy A now (uc_email data) db1 = Inr db2" by (auto simp: register_def bindE_eq_Inr guardE_eq_Inr)
  with assms g1 obtain db3 where g3: "check_register_limit A now ip db2 = Inr db3" by (auto simp: register_def bindE_eq_Inr guardE_eq_Inr)
  with assms g1 g2 obtain db4 where g4: "verify_if_enabled A now (uc_recaptcha_data data) ip db3 = Inr db4" by (auto simp: register_def bindE_eq_Inr guardE_eq_Inr)
  with assms g1 g2 g3 obtain verify db5 where g5: "get_int (au_settings A) now ''email_verify'' 0 db4 = Inr (verify, db5)" by (auto simp: register_def bindE_eq_Inr guardE_eq_Inr)
  with assms g1 g2 g3 g4 obtain db6 where g6: "(if verify = 0 then Inr db5 else verify_email_code A now (uc_email data) (uc_email_code data) db5) = Inr db6"
    by (auto simp: register_def bindE_eq_Inr guardE_eq_Inr)
  from quiet_trans [OF quiet_trans [OF quiet_trans [OF quiet_get_int [OF g1] quiet_policy [OF g2]] quiet_register_limit [OF g3]] quiet_turnstile [OF g4]]
  show ?thesis by (rule that [OF _ g5 g6])
qed

lemma guardE_cong: "(\<not> b \<Longrightarrow> x = y) \<Longrightarrow> guardE b e x = guardE b e y"
  by (simp add: guardE_def)

lemma register_code_step:
  assumes "setting_coherent now db" "int_setting db ''email_verify'' 0 = Inr n" "n \<noteq> 0"
    and "cache_value now (code_key (uc_email data)) (t_cache db) = None" "uc_email_code data = Some ''None''"
    and g: "get_int (au_settings A) now ''stop_register'' 0 db = Inr (stop, db1)" "check_email_policy A now (uc_email data) db1 = Inr db2"
      "check_register_limit A now ip db2 = Inr db3" "verify_if_enabled A now (uc_recaptcha_data data) ip db3 = Inr db4"
      "get_int (au_settings A) now ''email_verify'' 0 db4 = Inr (v, db5)"
  shows "(if v = 0 then Inr db5 else verify_email_code A now (uc_email data) (uc_email_code data) db5) =
    Inr (db5\<lparr>t_cache := snd (cache_get now (code_key (uc_email data)) (t_cache db5))\<rparr>)"
proof -
  have q: "quiet now db db4"
    using quiet_trans [OF quiet_trans [OF quiet_trans [OF quiet_get_int [OF g(1)] quiet_policy [OF g(2)]] quiet_register_limit [OF g(3)]]
      quiet_turnstile [OF g(4)]] .
  have "v = n" by (rule quiet_verify_setting [OF q g(5) assms(1,2)])
  moreover have "cache_value now (code_key (uc_email data)) (t_cache db5) = None"
    using quiet_codes [OF quiet_trans [OF q quiet_get_int [OF g(5)]]] assms(4) by simp
  ultimately show ?thesis using assms(3,5) by (simp add: verify_code_uncached(1))
qed

lemma register_bypassed:
  assumes "setting_coherent now db" "int_setting db ''email_verify'' 0 = Inr n" "n \<noteq> 0"
    and "cache_value now (code_key (uc_email data)) (t_cache db) = None" and "uc_email_code data = Some ''None''"
  shows "register A r now data ip db = register_unverified A r now data ip db"
  unfolding register_def register_unverified_def Let_def
  by (intro bindE_cong refl, clarsimp, intro guardE_cong bindE_cong refl, clarsimp split del: if_split)
    (frule (4) register_code_step [OF assms], simp split del: if_split)

text \<open>C29: With \<open>email_verify\<close> switched on and no code in the cache for the address, the text \<open>None\<close> passes
  the check of the mailed code, since the text of the missing entry is compared with it: a visitor who never asked for
  a code registers any address with it, exactly as if no code were asked for, and any other code is refused.\<close>

theorem email_verification_bypassed:
  assumes "setting_coherent now db" "int_setting db ''email_verify'' 0 = Inr n" "n \<noteq> 0"
    and "cache_value now (code_key (uc_email data)) (t_cache db) = None"
  shows "if uc_email_code data = Some ''None'' then register A r now data ip db = register_unverified A r now data ip db
     else \<not> is_ok (register A r now data ip db)"
proof (cases "uc_email_code data = Some ''None''")
  case True
  then show ?thesis using register_bypassed [OF assms] by simp
next
  case False
  have "register A r now data ip db \<noteq> Inr (tok, db')" for tok db'
  proof
    assume "register A r now data ip db = Inr (tok, db')"
    then obtain v db4 db5 db6 where q: "quiet now db db4" "get_int (au_settings A) now ''email_verify'' 0 db4 = Inr (v, db5)"
      and check: "(if v = 0 then Inr db5 else verify_email_code A now (uc_email data) (uc_email_code data) db5) = Inr db6"
      by (rule register_checked)
    have "cache_value now (code_key (uc_email data)) (t_cache db5) = None"
      using quiet_codes [OF quiet_trans [OF q(1) quiet_get_int [OF q(2)]]] assms(4) by simp
    from verify_code_uncached(2) [OF this False, of A] check quiet_verify_setting [OF q assms(1,2)] assms(3) show False
      by simp
  qed
  then show ?thesis using False by (cases "register A r now data ip db") auto
qed

theorem email_verification_bypassed_witness:
  "\<exists>db tok db'. int_setting db ''email_verify'' 0 = Inr 1 \<and>
     register sample_auth sample_random 5 (join_request\<lparr>uc_email_code := Some ''None''\<rparr>) None db = Inr (tok, db') \<and>
     \<not> is_ok (register sample_auth sample_random 5 (join_request\<lparr>uc_email_code := Some ''123456''\<rparr>) None db)"
proof -
  let ?db = "auth_db\<lparr>t_settings := \<lparr>rows = [blank_setting\<lparr>st_id := 1, st_key := ''email_verify'', st_value := ''1''\<rparr>], next_id = 2\<rparr>, t_cache := []\<rparr>"
  have "setting_coherent 5 ?db"
    by (auto simp: setting_coherent_def rc.coherent_def wf_cache_def cache_get_value cache_value_def)
  note bypass = email_verification_bypassed [OF this]
  have i: "int_setting ?db ''email_verify'' 0 = Inr 1" and c: "cache_value 5 (code_key (uc_email join_request)) (t_cache ?db) = None"
    and u: "is_ok (register_unverified sample_auth sample_random 5 (join_request\<lparr>uc_email_code := Some ''None''\<rparr>) None ?db)" by code_simp+
  have "register sample_auth sample_random 5 (join_request\<lparr>uc_email_code := Some ''None''\<rparr>) None ?db =
      register_unverified sample_auth sample_random 5 (join_request\<lparr>uc_email_code := Some ''None''\<rparr>) None ?db"
    using bypass [OF i, of "join_request\<lparr>uc_email_code := Some ''None''\<rparr>" sample_auth sample_random None] c by simp
  with u obtain tok db' where "register sample_auth sample_random 5 (join_request\<lparr>uc_email_code := Some ''None''\<rparr>) None ?db = Inr (tok, db')"
    by (auto elim: is_okE)
  moreover have "\<not> is_ok (register sample_auth sample_random 5 (join_request\<lparr>uc_email_code := Some ''123456''\<rparr>) None ?db)"
    using bypass [OF i, of "join_request\<lparr>uc_email_code := Some ''123456''\<rparr>" sample_auth sample_random None] c by simp
  ultimately show ?thesis using i by blast
qed

text \<open>A code is used up when no active invite row carries it.\<close>

definition used_up :: "string \<Rightarrow> db \<Rightarrow> bool" where
  "used_up c db \<longleftrightarrow> (\<forall>r\<in>set (rows (t_invite_codes db)). iv_code r = c \<longrightarrow> iv_status r \<noteq> 0)"

lemma used_up_kept: "invites_kept (t_invite_codes db) (t_invite_codes db') \<Longrightarrow> used_up c db \<Longrightarrow> used_up c db'"
  unfolding used_up_def invites_kept_def by (metis zero_neq_one)

lemma step_invites: "account_step now db db' \<Longrightarrow> invites_kept (t_invite_codes db) (t_invite_codes db')"
proof (erule account_step.cases)
  fix uid db1 db2 assume "db = db1" "db' = db2" "delete_user now uid db1 = Inr db2"
  then have "t_invite_codes db' = delete_where (\<lambda>c. iv_user_id c = uid) (t_invite_codes db)"
    by (auto simp: delete_user_def delete_user_related_data_def Let_def split: option.splits)
  then show ?thesis by simp
qed (auto simp: other_tables_def)

lemma steps_used_up: "(account_step now)\<^sup>*\<^sup>* db db' \<Longrightarrow> used_up c db \<Longrightarrow> used_up c db'"
  by (induction rule: rtranclp_induct) (auto dest: step_invites used_up_kept)

lemma requests_used_up: "account_book db \<Longrightarrow> used_up c db \<Longrightarrow> used_up c (fold (auth_request A) reqs db)"
proof (induction reqs arbitrary: db)
  case (Cons r reqs)
  have "account_book (auth_request A r db) \<and> used_up c (auth_request A r db)"
  proof (cases "run_auth_op A (fst r) (snd r) db")
    case (Inl e)
    then show ?thesis using Cons.prems by (simp add: auth_request_def)
  next
    case (Inr d)
    from auth_op_steps [OF Cons.prems(1) Inr] have "account_book d" "used_up c d"
      using book_steps steps_used_up Cons.prems by blast+
    then show ?thesis by (simp add: auth_request_def Inr)
  qed
  with Cons.IH show ?case by simp
qed simp

lemma active_inviteD: "active_invite_by_code db c = Inr (Some iv) \<Longrightarrow> iv \<in> set (rows (t_invite_codes db)) \<and> iv_code iv = c \<and> iv_status iv = 0"
  unfolding active_invite_by_code_def by (rule find_one_Some)

lemma register_needs_active_code:
  assumes "register A r now data ip db = Inr (tok, db')" "text_given (uc_invite_code data)" "upper (strip (the (uc_invite_code data))) = c"
  shows "\<not> used_up c db"
proof -
  obtain d inviter d7 where q: "quiet now db d" and inv: "resolve_invite_user_id A now (uc_invite_code data) d = Inr (inviter, d7)"
    by (rule register_shape [OF assms(1)]) (rule that; assumption)
  from resolve_invite_shape [OF inv] assms(2,3) obtain iv where "active_invite_by_code d c = Inr (Some iv)" by auto
  from active_inviteD [OF this] quiet_tables(2) [OF q] show ?thesis by (auto simp: used_up_def)
qed

lemma register_uses_code:
  assumes reg: "register A r now data ip db = Inr (tok, db')" and c: "text_given (uc_invite_code data)" "upper (strip (the (uc_invite_code data))) = c"
    and once: "setting_coherent now db" "int_setting db ''invite_never_expire'' 0 = Inr 0"
  shows "used_up c db'"
proof -
  obtain d inviter d7 u where q: "quiet now db d" and inv: "resolve_invite_user_id A now (uc_invite_code data) d = Inr (inviter, d7)"
    and db': "db' = d7\<lparr>t_users := repo_create user_entity now (t_users d7) u, t_cache := snd (cache_delete (code_key (uc_email data)) (t_cache d7))\<rparr>"
    by (rule register_shape [OF reg]) (rule that; assumption)
  from resolve_invite_shape [OF inv] c obtain iv never cc d1 d2 where act: "active_invite_by_code d c = Inr (Some iv)"
    and d7: "d7 = put_invite now (d\<lparr>t_cache := cc\<rparr>) (iv\<lparr>iv_pv := iv_pv iv + 1, iv_status := (if never = 0 then 1 else iv_status iv)\<rparr>)"
    and g: "get_int (au_settings A) now ''invite_never_expire'' 0 d1 = Inr (never, d2)" and q1: "quiet now d d1" by auto
  have q2: "quiet now db d1" by (rule quiet_trans [OF q q1])
  have "int_setting d1 ''invite_never_expire'' 0 = Inr 0"
    using once(2) quiet_tables(3) [OF q2] by (simp add: int_setting_def setting_by_key_def)
  moreover have "setting_coherent now d1" using q2 once(1) by (simp add: quiet_def)
  ultimately have "never = 0" using g get_int_value [of now d1 "au_settings A" "''invite_never_expire''" 0] by simp
  have only: "x = iv" if "x \<in> set (rows (t_invite_codes d))" "iv_code x = c" "iv_status x = 0" for x
  proof -
    have "filter (\<lambda>r. iv_code r = c \<and> iv_status r = 0) (rows (t_invite_codes d)) = [iv]"
      using act by (simp add: active_invite_by_code_def find_one_def scalar_one_or_none_eq)
    then have "set (filter (\<lambda>r. iv_code r = c \<and> iv_status r = 0) (rows (t_invite_codes d))) = {iv}" by simp
    then show ?thesis using that by auto
  qed
  show ?thesis unfolding used_up_def
  proof (intro ballI impI)
    fix x assume "x \<in> set (rows (t_invite_codes db'))" "iv_code x = c"
    then have x: "x \<in> set (rows (repo_update invite_code_entity now (t_invite_codes d) (iv\<lparr>iv_pv := iv_pv iv + 1, iv_status := 1\<rparr>)))"
      using \<open>never = 0\<close> by (simp add: db' d7 put_invite_def)
    from invite_codes.set_update_cases [OF x] consider "x \<in> set (rows (t_invite_codes d))" "iv_id x \<noteq> iv_id iv"
      | y where "x = stored invite_code_entity now y (iv\<lparr>iv_pv := iv_pv iv + 1, iv_status := 1\<rparr>)" by auto
    then show "iv_status x \<noteq> 0"
    proof cases
      case 1
      then show ?thesis using only [OF 1(1) \<open>iv_code x = c\<close>] by auto
    next
      case 2
      then show ?thesis by (auto simp: stored_def invite_code_entity_def)
    qed
  qed
qed

text \<open>C27: Unless invite codes are set never to expire, a code brings in one account: after a registration
  with it, whatever registrations, logins, password resets, code requests and account requests follow, no
  registration with the same code (in any spelling that normalises to it) succeeds. Only an administrator's edit
  of the invite code, which is none of these requests, makes it active again.\<close>

theorem invite_code_single_use:
  assumes "register A r now data ip db = Inr (tok, db')" "text_given (uc_invite_code data)"
    and "setting_coherent now db" "int_setting db ''invite_never_expire'' 0 = Inr 0" "account_book db"
    and "text_given (uc_invite_code data2)"
    and "upper (strip (the (uc_invite_code data2))) = upper (strip (the (uc_invite_code data)))"
  shows "\<not> is_ok (register A r2 t data2 ip2 (fold (auth_request A) reqs db'))"
proof -
  have "used_up (upper (strip (the (uc_invite_code data)))) db'"
    by (rule register_uses_code [OF assms(1,2) refl assms(3,4)])
  moreover have "account_book db'" using book_step [OF register_step [OF assms(5,1)] assms(5)] .
  ultimately have "used_up (upper (strip (the (uc_invite_code data)))) (fold (auth_request A) reqs db')"
    by (intro requests_used_up)
  then show ?thesis
    using register_needs_active_code [OF _ assms(6,7)] by (metis is_okE surj_pair)
qed

lemma auth_db_coherent: "setting_coherent t auth_db"
proof -
  have "wf_cache (t_cache auth_db)" by code_simp
  moreover have "\<not> is_setting_key (code_key e)" for e by simp
  ultimately show ?thesis
    by (auto simp: setting_coherent_def rc.coherent_def cache_get_value cache_value_def auth_db_def)
qed

theorem invite_code_single_use_witness:
  "\<exists>tok db'. register sample_auth sample_random 5 join_request None auth_db = Inr (tok, db') \<and>
     \<not> is_ok (register sample_auth (sample_random\<lparr>ar_token := ''t9''\<rparr>) 9
        (join_request\<lparr>uc_email := ''m@b.c'', uc_invite_code := Some ''CODE1''\<rparr>) None
        (fold (auth_request sample_auth) [(8, AccountOp (DeleteUser 3))] db'))"
proof -
  have "is_ok (register sample_auth sample_random 5 join_request None auth_db)" by code_simp
  then obtain tok db' where r: "register sample_auth sample_random 5 join_request None auth_db = Inr (tok, db')" by (auto elim: is_okE)
  have "text_given (uc_invite_code join_request)" "int_setting auth_db ''invite_never_expire'' 0 = Inr 0"
    "text_given (uc_invite_code (join_request\<lparr>uc_email := ''m@b.c'', uc_invite_code := Some ''CODE1''\<rparr>))"
    "upper (strip (the (uc_invite_code (join_request\<lparr>uc_email := ''m@b.c'', uc_invite_code := Some ''CODE1''\<rparr>)))) =
     upper (strip (the (uc_invite_code join_request)))" by code_simp+
  from invite_code_single_use [OF r this(1) auth_db_coherent this(2) auth_db_ok this(3,4)] r show ?thesis by blast
qed

text \<open>C26: A password is reset only with the live code of its address, and the code is used up by it: a second
  reset of the same address fails until a new code is sent.\<close>

theorem reset_code_single_use:
  assumes "forget_password A salt now data None ip db = Inr db'" and "now \<le> t" and "fr_email data2 = fr_email data"
  shows "(\<exists>j. cache_value now (code_key (fr_email data)) (t_cache db) = Some j \<and>
       py_str (sv_codec (au_settings A)) j = fr_email_code data) \<and>
     \<not> is_ok (forget_password A salt2 t data2 None ip2 db')"
proof -
  from forget_shape [OF assms(1)] obtain d3 where db': "db' = d3\<lparr>t_cache := snd (cache_delete (code_key (fr_email data)) (t_cache d3))\<rparr>"
    and live: "\<exists>j. cache_value now (code_key (fr_email data)) (t_cache db) = Some j \<and> json_truthy j \<and>
        py_str (sv_codec (au_settings A)) j = fr_email_code data" by metis
  have "cache_value t (code_key (fr_email data2)) (t_cache db') = None" by (simp add: db' assms(3) value_delete_same)
  then have "forget_password A salt2 t data2 None ip2 db' \<noteq> Inr d" for d
    using forget_shape [of A salt2 t data2 None ip2 db' d] by (metis option.distinct(1))
  with live show ?thesis by (metis is_okE)
qed

theorem reset_code_single_use_witness:
  "\<exists>db'. forget_password sample_auth ''s'' 9 reset_request None None auth_db = Inr db' \<and>
     \<not> is_ok (forget_password sample_auth ''s'' 10 reset_request None None db')"
proof -
  have "is_ok (forget_password sample_auth ''s'' 9 reset_request None None auth_db)" by code_simp
  then obtain db' where r: "forget_password sample_auth ''s'' 9 reset_request None None auth_db = Inr db'" by (rule is_okE)
  from reset_code_single_use [OF r _ refl, of 10] r show ?thesis by auto
qed

end
