(* ===== verification/Queue.thy ===== *)
theory Queue
  imports LogEvents Epay Coupons
begin

text \<open>
  The job queue in the table \<open>queue_job\<close>: the client \<open>app/core/queue.py\<close>, the worker
  \<open>app/queues/worker.py\<close> and \<open>app/queues/failure_handler.py\<close>. A claim and each update of a job is one
  transaction. What a job does is the parameter \<open>perform\<close> of the worker: it returns the database it
  leaves and, when it raised, the exception's type and text. The locale \<open>job_runner\<close> states what the
  worker relies on; the jobs of the program are put in its place in theory Jobs. The jobs of one claim
  run concurrently in the code; the model runs them one after the other in the order of the claim.
\<close>

record queue_config =
  qc_codec :: codec
  qc_default_name :: string
  qc_max_tries :: int
  qc_retry_jobs :: bool
  qc_max_jobs :: int

section \<open>The client\<close>

text \<open>\<open>dict.pop(key, default)\<close> on the keyword arguments.\<close>

definition kw_pop :: "string \<Rightarrow> json \<Rightarrow> (string \<times> json) list \<Rightarrow> json \<times> (string \<times> json) list" where
  "kw_pop k d kws = (json_get kws k d, filter (\<lambda>kv. fst kv \<noteq> k) kws)"

text \<open>\<open>after d\<close> is \<open>int(time.time() + float(d))\<close>, the clock read with its fraction of a second.\<close>

definition scheduled_at :: "int \<Rightarrow> (json \<Rightarrow> exn + int) \<Rightarrow> json \<Rightarrow> json \<Rightarrow> exn + int" where
  "scheduled_at now after defer_until defer_by =
     (if defer_until \<noteq> JNull then int_of_json defer_until
      else if defer_by \<noteq> JNull then after defer_by
      else Inr now)"

definition insert_job :: "int \<Rightarrow> queue_job \<Rightarrow> db \<Rightarrow> int \<times> db" where
  "insert_job now j db =
     (next_id (t_queue_jobs db), db\<lparr>t_queue_jobs := repo_create queue_job_entity now (t_queue_jobs db) j\<rparr>)"

definition queued_job :: "queue_config \<Rightarrow> string \<Rightarrow> string \<Rightarrow> string option \<Rightarrow> json list \<Rightarrow> (string \<times> json) list \<Rightarrow> int \<Rightarrow> queue_job" where
  "queued_job Q queue_name job_name key args kws due =
     \<lparr>qj_id = 0, qj_queue = queue_name, qj_job_name = job_name, qj_job_key = key, qj_args = args, qj_kwargs = kws,
      qj_status = ''pending'', qj_attempts = 0, qj_max_tries = qc_max_tries Q, qj_scheduled_at = due, qj_reserved_at = None,
      qj_finished_at = None, qj_failed_at = None, qj_last_error = None, qj_created_at = 0, qj_updated_at = 0\<rparr>"

definition enqueue_job :: "queue_config \<Rightarrow> int \<Rightarrow> (json \<Rightarrow> exn + int) \<Rightarrow> string \<Rightarrow> json list \<Rightarrow> (string \<times> json) list \<Rightarrow> db
    \<Rightarrow> exn + int option \<times> db" where
  "enqueue_job Q now after job_name args kwargs db =
     (let (name, kw1) = kw_pop ''_queue_name'' (JStr (qc_default_name Q)) kwargs;
          (job_id, kw2) = kw_pop ''_job_id'' JNull kw1;
          (defer_until, kw3) = kw_pop ''_defer_until'' JNull kw2;
          (defer_by, kw4) = kw_pop ''_defer_by'' JNull kw3;
          key = (if json_truthy job_id then Some (py_str (qc_codec Q) job_id) else None)
      in bindE (scheduled_at now after defer_until defer_by) (\<lambda>due.
           if key \<noteq> None \<and> list_ex (\<lambda>j. qj_job_key j = key) (rows (t_queue_jobs db)) then Inr (None, db)
           else (let (i, db') = insert_job now (queued_job Q (py_str (qc_codec Q) name) job_name key args kw4 due) db
                 in Inr (Some i, db'))))"

section \<open>The worker\<close>

definition claimable :: "int \<Rightarrow> string list \<Rightarrow> queue_job \<Rightarrow> bool" where
  "claimable now queues j \<longleftrightarrow> qj_status j = ''pending'' \<and> qj_queue j \<in> set queues \<and> qj_scheduled_at j \<le> now"

definition picked :: "int \<Rightarrow> string list \<Rightarrow> int \<Rightarrow> db \<Rightarrow> queue_job list" where
  "picked now queues limit db =
     take (nat limit) (sort_key (\<lambda>j. (qj_scheduled_at j, qj_id j)) (filter (claimable now queues) (rows (t_queue_jobs db))))"

definition claimed :: "int \<Rightarrow> queue_job \<Rightarrow> queue_job" where
  "claimed now j = j\<lparr>qj_status := ''running'', qj_attempts := qj_attempts j + 1, qj_reserved_at := Some now\<rparr>"

definition set_jobs :: "int \<Rightarrow> (queue_job \<Rightarrow> bool) \<Rightarrow> (queue_job \<Rightarrow> queue_job) \<Rightarrow> db \<Rightarrow> db" where
  "set_jobs now P f db = db\<lparr>t_queue_jobs := update_where queue_job_entity now P f (t_queue_jobs db)\<rparr>"

definition claim_jobs :: "int \<Rightarrow> string list \<Rightarrow> int \<Rightarrow> db \<Rightarrow> queue_job list \<times> db" where
  "claim_jobs now queues limit db =
     (let ids = map qj_id (picked now queues limit db);
          db' = set_jobs now (\<lambda>j. qj_id j \<in> set ids) (claimed now) db
      in (filter (\<lambda>j. qj_id j \<in> set ids) (rows (t_queue_jobs db')), db'))"

definition finish_job :: "int \<Rightarrow> int \<Rightarrow> db \<Rightarrow> db" where
  "finish_job now job_id db =
     set_jobs now (\<lambda>j. qj_id j = job_id) (\<lambda>j. j\<lparr>qj_status := ''finished'', qj_finished_at := Some now\<rparr>) db"

definition job_payload :: "queue_job \<Rightarrow> json" where
  "job_payload j = JObj [(''job_id'', JInt (qj_id j)), (''job_name'', JStr (qj_job_name j)), (''args'', JArr (qj_args j)), (''kwargs'', JObj (qj_kwargs j))]"

text \<open>An exception as the failure handler sees it: the name of its type and its text; \<open>stamp\<close> is the
  formatted local time.\<close>

definition record_failed_job :: "int \<Rightarrow> string \<Rightarrow> queue_job \<Rightarrow> string \<times> string \<Rightarrow> db \<Rightarrow> db" where
  "record_failed_job now stamp_text j exc db =
     (let failed = \<lparr>fj_id = 0, fj_connection = ''postgresql'', fj_queue = qj_queue j, fj_payload = job_payload j, fj_exception = snd exc,
            fj_failed_at = stamp_text, fj_created_at = 0, fj_updated_at = 0\<rparr>;
          db1 = db\<lparr>t_failed_jobs := repo_create failed_job_entity now (t_failed_jobs db) failed\<rparr>
      in create_log_event now (log_defaults\<lparr>le_level := ''error'', le_category := ''queue'', le_event := ''queue.failed'',
           le_message := ''queue job failed: '' @ qj_job_name j, le_target_type := Some ''queue_job'', le_target_id := Some (str_int (qj_id j)),
           le_data := JObj [(''connection'', JStr ''postgresql''), (''queue'', JStr (qj_queue j)), (''job_id'', JInt (qj_id j)),
             (''job_name'', JStr (qj_job_name j)), (''args'', JArr (qj_args j)), (''kwargs'', JObj (qj_kwargs j)),
             (''failed_job_id'', JInt (next_id (t_failed_jobs db)))],
           le_error_type := Some (fst exc), le_error_stack := Some (snd exc)\<rparr>) db1)"

definition should_retry :: "queue_config \<Rightarrow> queue_job \<Rightarrow> bool \<Rightarrow> bool" where
  "should_retry Q j retry \<longleftrightarrow> retry \<and> qj_attempts j < (if qj_max_tries j = 0 then qc_max_tries Q else qj_max_tries j)"

definition fail_job :: "queue_config \<Rightarrow> int \<Rightarrow> string \<Rightarrow> queue_job \<Rightarrow> string \<times> string \<Rightarrow> bool \<Rightarrow> db \<Rightarrow> db" where
  "fail_job Q now stamp_text j exc retry db =
     (if should_retry Q j retry then
        set_jobs now (\<lambda>r. qj_id r = qj_id j) (\<lambda>r. r\<lparr>qj_status := ''pending'', qj_reserved_at := None,
          qj_scheduled_at := now + min 60 (qj_attempts j * 5), qj_last_error := Some (snd exc)\<rparr>) db
      else record_failed_job now stamp_text j exc
        (set_jobs now (\<lambda>r. qj_id r = qj_id j) (\<lambda>r. r\<lparr>qj_status := ''failed'', qj_failed_at := Some now, qj_last_error := Some (snd exc)\<rparr>) db))"

text \<open>\<open>perform\<close> is undefined (\<open>None\<close>) on a name that is not in the registry.\<close>

type_synonym performer = "int \<Rightarrow> queue_job \<Rightarrow> (db \<Rightarrow> (string \<times> string) option \<times> db) option"

definition run_job :: "queue_config \<Rightarrow> performer \<Rightarrow> int \<Rightarrow> string \<Rightarrow> queue_job \<Rightarrow> db \<Rightarrow> db" where
  "run_job Q perform now stamp_text j db =
     (case perform now j of
        None \<Rightarrow> fail_job Q now stamp_text j (''RuntimeError'', ''unregistered queue job: '' @ qj_job_name j) False db
      | Some f \<Rightarrow> (case f db of
          (Some exc, db') \<Rightarrow> fail_job Q now stamp_text j exc (qc_retry_jobs Q) db'
        | (None, db') \<Rightarrow> finish_job now (qj_id j) db'))"

text \<open>\<open>run_worker\<close> in the mode \<open>--once\<close>: round by round until no job can be claimed. \<open>clock\<close> gives the
  time of each round; the first argument bounds the number of rounds; \<open>queues\<close> is the list after the
  default queue has been filled in for an empty one.\<close>

definition run_round :: "queue_config \<Rightarrow> performer \<Rightarrow> string list \<Rightarrow> int \<Rightarrow> string \<Rightarrow> db \<Rightarrow> (nat \<times> db)" where
  "run_round Q perform queues now stamp_text db =
     (case claim_jobs now queues (qc_max_jobs Q) db of (jobs, db1) \<Rightarrow>
        (length jobs, fold (run_job Q perform now stamp_text) jobs db1))"

fun run_worker :: "nat \<Rightarrow> queue_config \<Rightarrow> performer \<Rightarrow> string list \<Rightarrow> (nat \<Rightarrow> int \<times> string) \<Rightarrow> db \<Rightarrow> db option" where
  "run_worker 0 Q perform queues clock db = None"
| "run_worker (Suc n) Q perform queues clock db =
     (case run_round Q perform queues (fst (clock 0)) (snd (clock 0)) db of
        (0, db') \<Rightarrow> Some db'
      | (Suc _, db') \<Rightarrow> run_worker n Q perform queues (\<lambda>i. clock (Suc i)) db')"

section \<open>What a job may do to the queue\<close>

text \<open>A job may put further jobs into queues outside \<open>W\<close>; it leaves the rows of the queue alone.\<close>

inductive queue_ext :: "queue_config \<Rightarrow> string set \<Rightarrow> db \<Rightarrow> db \<Rightarrow> bool" for Q W where
  same: "t_queue_jobs db' = t_queue_jobs db \<Longrightarrow> queue_ext Q W db db'"
| enqueue: "queue_ext Q W db db1 \<Longrightarrow> j = queued_job Q queue_name job_name key args kws due \<Longrightarrow> queue_name \<notin> W \<Longrightarrow>
    key = None \<or> (\<forall>r\<in>set (rows (t_queue_jobs db1)). qj_job_key r \<noteq> key) \<Longrightarrow>
    t_queue_jobs db2 = repo_create queue_job_entity now (t_queue_jobs db1) j \<Longrightarrow> queue_ext Q W db db2"

lemma queue_ext_trans: "queue_ext Q W db2 db3 \<Longrightarrow> queue_ext Q W db1 db2 \<Longrightarrow> queue_ext Q W db1 db3"
proof (induction rule: queue_ext.induct)
  case (same db3 db2)
  from same(2,1) show ?case
  proof (cases rule: queue_ext.cases)
    case same
    then show ?thesis using \<open>t_queue_jobs db3 = t_queue_jobs db2\<close> by (intro queue_ext.same) simp
  next
    case (enqueue db1' j queue_name job_name key args kws due now)
    then show ?thesis using \<open>t_queue_jobs db3 = t_queue_jobs db2\<close> queue_ext.enqueue [of Q W db1 db1' j queue_name job_name key args kws due db3 now] by simp
  qed
next
  case (enqueue db db1 j queue_name job_name key args kws due db2 now)
  then show ?case using queue_ext.enqueue [OF enqueue.IH [OF enqueue.prems] enqueue.hyps(2-5)] by blast
qed

lemma enqueue_job_ext:
  assumes "enqueue_job Q now after job_name args kws db = Inr (r, db')"
    and "py_str (qc_codec Q) (json_get kws ''_queue_name'' (JStr (qc_default_name Q))) \<notin> W"
  shows "queue_ext Q W db db'"
proof -
  let ?kw1 = "filter (\<lambda>kv. fst kv \<noteq> ''_queue_name'') kws"
  let ?job = "json_get ?kw1 ''_job_id'' JNull"
  let ?key = "if json_truthy ?job then Some (py_str (qc_codec Q) ?job) else None"
  from assms(1) obtain due kw4 where
    res: "(if ?key \<noteq> None \<and> list_ex (\<lambda>j. qj_job_key j = ?key) (rows (t_queue_jobs db)) then Inr (None, db)
           else (let (i, db') = insert_job now (queued_job Q (py_str (qc_codec Q) (json_get kws ''_queue_name'' (JStr (qc_default_name Q)))) job_name ?key args kw4 due) db
                 in Inr (Some i, db'))) = (Inr (r, db') :: exn + _)"
    by (auto simp: enqueue_job_def kw_pop_def Let_def bindE_eq_Inr simp del: if_split)
  show ?thesis
  proof (cases "?key \<noteq> None \<and> list_ex (\<lambda>j. qj_job_key j = ?key) (rows (t_queue_jobs db))")
    case True
    then have "db' = db" using res by (simp only: if_P) simp
    then show ?thesis by (intro queue_ext.same) simp
  next
    case False
    then have db': "db' = db\<lparr>t_queue_jobs := repo_create queue_job_entity now (t_queue_jobs db)
        (queued_job Q (py_str (qc_codec Q) (json_get kws ''_queue_name'' (JStr (qc_default_name Q)))) job_name ?key args kw4 due)\<rparr>"
      using res by (simp only: if_not_P) (simp add: insert_job_def)
    show ?thesis
      by (rule queue_ext.enqueue [OF queue_ext.same [OF refl] refl assms(2), of ?key])
         (use False in \<open>auto simp: db' list_ex_iff simp del: if_split\<close>)
  qed
qed

section \<open>Well-formed queues\<close>

definition job_ok :: "queue_job \<Rightarrow> bool" where
  "job_ok j \<longleftrightarrow> qj_status j \<in> {''pending'', ''running'', ''finished'', ''failed''} \<and> 0 \<le> qj_attempts j \<and> qj_attempts j \<le> qj_max_tries j \<and>
     (qj_status j = ''pending'' \<longrightarrow> qj_attempts j < qj_max_tries j) \<and> (qj_status j \<noteq> ''pending'' \<longrightarrow> 0 < qj_attempts j)"

definition keys_unique :: "queue_job list \<Rightarrow> bool" where
  "keys_unique js \<longleftrightarrow> distinct (map qj_job_key (filter (\<lambda>j. qj_job_key j \<noteq> None) js))"

definition queue_ok :: "db \<Rightarrow> bool" where
  "queue_ok db \<longleftrightarrow> wf_table queue_job_entity (t_queue_jobs db) \<and> keys_unique (rows (t_queue_jobs db)) \<and>
     (\<forall>j\<in>set (rows (t_queue_jobs db)). job_ok j)"

abbreviation jobs_of :: "db \<Rightarrow> queue_job set" where
  "jobs_of db \<equiv> set (rows (t_queue_jobs db))"

lemma new_job_fields [simp]:
  "qj_status (new_row queue_job_entity now t j) = qj_status j" "qj_attempts (new_row queue_job_entity now t j) = qj_attempts j"
  "qj_max_tries (new_row queue_job_entity now t j) = qj_max_tries j" "qj_job_key (new_row queue_job_entity now t j) = qj_job_key j"
  "qj_queue (new_row queue_job_entity now t j) = qj_queue j"
  by (simp_all add: new_row_def queue_job_entity_def)

lemma touched_job_fields [simp]:
  "qj_id (e_touch queue_job_entity now j) = qj_id j" "qj_status (e_touch queue_job_entity now j) = qj_status j"
  "qj_attempts (e_touch queue_job_entity now j) = qj_attempts j" "qj_max_tries (e_touch queue_job_entity now j) = qj_max_tries j"
  "qj_job_key (e_touch queue_job_entity now j) = qj_job_key j" "qj_queue (e_touch queue_job_entity now j) = qj_queue j"
  by (simp_all add: queue_job_entity_def)

lemma ext_keeps_rows: "queue_ext Q W db db' \<Longrightarrow> jobs_of db \<subseteq> jobs_of db'"
  by (induction rule: queue_ext.induct) auto

lemma ext_ok: "queue_ext Q W db db' \<Longrightarrow> 0 < qc_max_tries Q \<Longrightarrow> queue_ok db \<Longrightarrow> queue_ok db'"
proof (induction rule: queue_ext.induct)
  case (same db' db)
  then show ?case by (simp add: queue_ok_def)
next
  case (enqueue db db1 j queue_name job_name key args kws due db2 now)
  have "job_ok (new_row queue_job_entity now (t_queue_jobs db1) j)"
    using enqueue.hyps(2) enqueue.prems(1) by (simp add: job_ok_def queued_job_def)
  moreover have "keys_unique (rows (t_queue_jobs db1) @ [new_row queue_job_entity now (t_queue_jobs db1) j])"
    using enqueue.IH [OF enqueue.prems] enqueue.hyps(2,4)
    by (auto simp: keys_unique_def queue_ok_def queued_job_def)
  ultimately show ?case
    using enqueue.IH [OF enqueue.prems] enqueue.hyps(5) queue_jobs.wf_create [of "t_queue_jobs db1" now j]
    by (auto simp: queue_ok_def)
qed

text \<open>An update of rows that keeps ids and keys keeps the table well formed.\<close>

lemma rows_set_jobs [simp]:
  "rows (t_queue_jobs (set_jobs now P f db)) = map (\<lambda>x. if P x then e_touch queue_job_entity now (f x) else x) (rows (t_queue_jobs db))"
  "next_id (t_queue_jobs (set_jobs now P f db)) = next_id (t_queue_jobs db)"
  by (simp_all add: set_jobs_def update_where_def)

lemma set_jobs_ok:
  assumes "queue_ok db" "\<And>j. P j \<Longrightarrow> qj_id (f j) = qj_id j" "\<And>j. P j \<Longrightarrow> qj_job_key (f j) = qj_job_key j"
    and ok: "\<And>j. j \<in> jobs_of db \<Longrightarrow> P j \<Longrightarrow> job_ok j \<Longrightarrow> job_ok (e_touch queue_job_entity now (f j))"
  shows "queue_ok (set_jobs now P f db)"
proof -
  define g where "g = (\<lambda>x. if P x then e_touch queue_job_entity now (f x) else x)"
  have g: "qj_id (g x) = qj_id x" "qj_job_key (g x) = qj_job_key x" for x using assms(2,3) by (auto simp: g_def)
  have r: "rows (t_queue_jobs (set_jobs now P f db)) = map g (rows (t_queue_jobs db))" by (simp add: g_def)
  have "wf_table queue_job_entity (t_queue_jobs (set_jobs now P f db))"
    using assms(1) wf_table_ids [of queue_job_entity "t_queue_jobs (set_jobs now P f db)" "t_queue_jobs db"]
    by (simp add: queue_ok_def r g comp_def del: rows_set_jobs(1))
  moreover have "keys_unique (rows (t_queue_jobs (set_jobs now P f db)))"
    using assms(1) by (simp add: queue_ok_def keys_unique_def r filter_map comp_def g del: rows_set_jobs(1))
  moreover have "job_ok (g x)" if "x \<in> jobs_of db" for x
    using assms(1) ok that by (auto simp: queue_ok_def g_def)
  ultimately show ?thesis by (auto simp: queue_ok_def r simp del: rows_set_jobs(1))
qed

lemma record_failed_job_queue [simp]: "t_queue_jobs (record_failed_job now st j exc db) = t_queue_jobs db"
  by (simp add: record_failed_job_def Let_def)

lemma queue_ok_cong: "t_queue_jobs db' = t_queue_jobs db \<Longrightarrow> queue_ok db' = queue_ok db"
  by (simp add: queue_ok_def)

text \<open>How much work the queues in \<open>W\<close> still hold: the tries left of their open jobs.\<close>

definition tries_left :: "string set \<Rightarrow> queue_job \<Rightarrow> int" where
  "tries_left W j = (if qj_queue j \<in> W \<and> (qj_status j = ''pending'' \<or> qj_status j = ''running'') then qj_max_tries j - qj_attempts j else 0)"

definition workload :: "string set \<Rightarrow> db \<Rightarrow> int" where
  "workload W db = sum_list (map (tries_left W) (rows (t_queue_jobs db)))"

lemma tries_left_nonneg: "job_ok j \<Longrightarrow> 0 \<le> tries_left W j"
  by (simp add: job_ok_def tries_left_def)

lemma workload_nonneg: "queue_ok db \<Longrightarrow> 0 \<le> workload W db"
  unfolding workload_def by (rule sum_list_nonneg) (auto simp: queue_ok_def tries_left_nonneg)

lemma ext_workload: "queue_ext Q W db db' \<Longrightarrow> workload W db' = workload W db"
  by (induction rule: queue_ext.induct) (auto simp: workload_def tries_left_def queued_job_def)

lemma sum_list_update_le:
  fixes f :: "'a \<Rightarrow> int"
  assumes "\<And>x. x \<in> set xs \<Longrightarrow> f (g x) \<le> f x"
  shows "sum_list (map f (map g xs)) \<le> sum_list (map f xs)"
  using assms by (induction xs) (auto intro!: add_mono)

lemma set_jobs_workload:
  assumes "\<And>j. j \<in> jobs_of db \<Longrightarrow> P j \<Longrightarrow> tries_left W (e_touch queue_job_entity now (f j)) \<le> tries_left W j"
  shows "workload W (set_jobs now P f db) \<le> workload W db"
  unfolding workload_def rows_set_jobs by (rule sum_list_update_le) (use assms in auto)

section \<open>One job\<close>

text \<open>The job that runs is the row of the queue it was claimed as; afterwards the other rows are as before.\<close>

definition runs :: "queue_job \<Rightarrow> db \<Rightarrow> bool" where
  "runs j db \<longleftrightarrow> j \<in> jobs_of db \<and> qj_status j = ''running''"

definition others_kept :: "queue_job \<Rightarrow> db \<Rightarrow> db \<Rightarrow> bool" where
  "others_kept j db db' \<longleftrightarrow> (\<forall>r\<in>jobs_of db. qj_id r \<noteq> qj_id j \<longrightarrow> r \<in> jobs_of db')"

lemma queue_row_unique: "queue_ok db \<Longrightarrow> r \<in> jobs_of db \<Longrightarrow> j \<in> jobs_of db \<Longrightarrow> qj_id r = qj_id j \<Longrightarrow> r = j"
  using wf_same_row [of queue_job_entity "t_queue_jobs db" r j] by (simp add: queue_ok_def)

lemma others_kept_set: "others_kept j db (set_jobs now (\<lambda>r. qj_id r = qj_id j) f db)"
  by (auto simp: others_kept_def)

lemma finish_job_facts:
  assumes "queue_ok db" "runs j db"
  shows "queue_ok (finish_job now (qj_id j) db) \<and> others_kept j db (finish_job now (qj_id j) db) \<and>
     workload W (finish_job now (qj_id j) db) \<le> workload W db"
proof -
  have row: "r = j" if "r \<in> jobs_of db" "qj_id r = qj_id j" for r
    using queue_row_unique [OF assms(1) that(1) _ that(2)] assms(2) by (simp add: runs_def)
  have "job_ok j" using assms by (auto simp: queue_ok_def runs_def)
  then show ?thesis unfolding finish_job_def
    using others_kept_set row assms
    by (intro conjI set_jobs_ok set_jobs_workload) (auto dest!: row simp: runs_def job_ok_def tries_left_def)
qed

lemma fail_job_facts:
  assumes "queue_ok db" "runs j db"
  shows "queue_ok (fail_job Q now st j exc retry db) \<and> others_kept j db (fail_job Q now st j exc retry db) \<and>
     workload W (fail_job Q now st j exc retry db) \<le> workload W db"
proof -
  have row: "r = j" if "r \<in> jobs_of db" "qj_id r = qj_id j" for r
    using queue_row_unique [OF assms(1) that(1) _ that(2)] assms(2) by (simp add: runs_def)
  have j: "job_ok j" "qj_status j = ''running''" using assms by (auto simp: queue_ok_def runs_def)
  show ?thesis
  proof (cases "should_retry Q j retry")
    case True
    let ?f = "\<lambda>r. r\<lparr>qj_status := ''pending'', qj_reserved_at := None, qj_scheduled_at := now + min 60 (qj_attempts j * 5), qj_last_error := Some (snd exc)\<rparr>"
    have "0 < qj_max_tries j" using j by (auto simp: job_ok_def)
    then have more: "qj_attempts j < qj_max_tries j" using True by (simp add: should_retry_def)
    have "queue_ok (set_jobs now (\<lambda>r. qj_id r = qj_id j) ?f db)"
      by (rule set_jobs_ok [OF assms(1)]) (use j more in \<open>auto dest!: row simp: job_ok_def\<close>)
    moreover have "workload W (set_jobs now (\<lambda>r. qj_id r = qj_id j) ?f db) \<le> workload W db"
      by (rule set_jobs_workload) (use j in \<open>auto dest!: row simp: tries_left_def\<close>)
    ultimately show ?thesis using True others_kept_set by (simp add: fail_job_def)
  next
    case False
    let ?f = "\<lambda>r. r\<lparr>qj_status := ''failed'', qj_failed_at := Some now, qj_last_error := Some (snd exc)\<rparr>"
    let ?d = "set_jobs now (\<lambda>r. qj_id r = qj_id j) ?f db"
    have "queue_ok ?d" by (rule set_jobs_ok [OF assms(1)]) (use j in \<open>auto dest!: row simp: job_ok_def\<close>)
    moreover have "workload W ?d \<le> workload W db"
      by (rule set_jobs_workload) (use j in \<open>auto dest!: row simp: tries_left_def job_ok_def\<close>)
    moreover have "others_kept j db ?d" by (rule others_kept_set)
    ultimately show ?thesis using False queue_ok_cong [OF record_failed_job_queue]
      by (simp add: fail_job_def workload_def others_kept_def del: rows_set_jobs)
  qed
qed

section \<open>Claiming\<close>

lemma picked_claimable: "j \<in> set (picked now queues limit db) \<Longrightarrow> j \<in> jobs_of db \<and> claimable now queues j"
  by (auto simp: picked_def dest: in_set_takeD)

lemma picked_empty: "0 < limit \<Longrightarrow> picked now queues limit db = [] \<longleftrightarrow> (\<forall>j\<in>jobs_of db. \<not> claimable now queues j)"
proof -
  assume "0 < limit"
  let ?xs = "filter (claimable now queues) (rows (t_queue_jobs db))"
  have "picked now queues limit db = [] \<longleftrightarrow> sort_key (\<lambda>j. (qj_scheduled_at j, qj_id j)) ?xs = []"
    using \<open>0 < limit\<close> by (simp add: picked_def)
  also have "\<dots> \<longleftrightarrow> ?xs = []" by (metis length_0_conv length_sort)
  also have "\<dots> \<longleftrightarrow> (\<forall>j\<in>jobs_of db. \<not> claimable now queues j)" by (simp add: filter_empty_conv)
  finally show ?thesis .
qed

lemma sum_list_claim:
  fixes f :: "'a \<Rightarrow> int"
  assumes "\<And>x. x \<in> set xs \<Longrightarrow> P x \<Longrightarrow> f (g x) = f x - 1"
  shows "sum_list (map f (map (\<lambda>x. if P x then g x else x) xs)) = sum_list (map f xs) - int (length (filter P xs))"
  using assms by (induction xs) auto

lemma claim_jobs_facts:
  assumes ok: "queue_ok db" and c: "claim_jobs now queues limit db = (jobs, db1)"
  shows "queue_ok db1" "\<forall>j\<in>set jobs. runs j db1" "distinct (map qj_id jobs)"
    "set queues \<subseteq> W \<Longrightarrow> workload W db1 = workload W db - int (length jobs)"
    "\<forall>r\<in>jobs_of db. qj_status r \<noteq> ''pending'' \<longrightarrow> r \<in> jobs_of db1 \<and> qj_id r \<notin> qj_id ` set jobs"
    "jobs = [] \<longleftrightarrow> picked now queues limit db = []"
    "jobs = [] \<Longrightarrow> rows (t_queue_jobs db1) = rows (t_queue_jobs db)"
proof -
  let ?ids = "map qj_id (picked now queues limit db)"
  define g where "g = (\<lambda>x. e_touch queue_job_entity now (claimed now x))"
  have db1: "db1 = set_jobs now (\<lambda>j. qj_id j \<in> set ?ids) (claimed now) db"
    and jobs: "jobs = filter (\<lambda>j. qj_id j \<in> set ?ids) (rows (t_queue_jobs db1))"
    using c by (auto simp: claim_jobs_def Let_def)
  have g: "qj_id (g x) = qj_id x" "qj_status (g x) = ''running''" "qj_attempts (g x) = qj_attempts x + 1" "qj_max_tries (g x) = qj_max_tries x"
    "qj_queue (g x) = qj_queue x" for x
    by (simp_all add: g_def claimed_def)
  have claim: "claimable now queues j \<and> j \<in> set (picked now queues limit db)" if "j \<in> jobs_of db" "qj_id j \<in> set ?ids" for j
  proof -
    from that obtain p where p: "p \<in> set (picked now queues limit db)" "qj_id p = qj_id j" by auto
    with picked_claimable [OF p(1)] queue_row_unique [OF ok _ that(1)] show ?thesis by auto
  qed
  have r: "rows (t_queue_jobs db1) = map (\<lambda>x. if qj_id x \<in> set ?ids then g x else x) (rows (t_queue_jobs db))"
    unfolding db1 by (simp add: g_def)
  have jobs': "jobs = map g (filter (\<lambda>j. qj_id j \<in> set ?ids) (rows (t_queue_jobs db)))"
  proof -
    have "filter (\<lambda>j. qj_id j \<in> set ?ids) (map (\<lambda>x. if qj_id x \<in> set ?ids then g x else x) xs) = map g (filter (\<lambda>j. qj_id j \<in> set ?ids) xs)" for xs
      by (induction xs) (auto simp: g(1))
    then show ?thesis unfolding jobs r .
  qed
  show "queue_ok db1" unfolding db1
    by (rule set_jobs_ok [OF ok]) (use claim in \<open>auto simp: claimed_def claimable_def job_ok_def\<close>)
  show "\<forall>j\<in>set jobs. runs j db1" unfolding runs_def jobs r by (auto simp: g)
  have "distinct (map qj_id (filter (\<lambda>j. qj_id j \<in> set ?ids) (rows (t_queue_jobs db))))"
    using ok by (simp add: queue_ok_def wf_table_def distinct_map_filter)
  then show "distinct (map qj_id jobs)" unfolding jobs' by (simp add: comp_def g)
  show "workload W db1 = workload W db - int (length jobs)" if W: "set queues \<subseteq> W"
    unfolding workload_def r jobs' length_map
    by (rule sum_list_claim) (use claim W in \<open>auto simp: tries_left_def g claimable_def\<close>)
  show "\<forall>r\<in>jobs_of db. qj_status r \<noteq> ''pending'' \<longrightarrow> r \<in> jobs_of db1 \<and> qj_id r \<notin> qj_id ` set jobs"
  proof (intro ballI impI)
    fix x assume x: "x \<in> jobs_of db" "qj_status x \<noteq> ''pending''"
    then have no: "qj_id x \<notin> set ?ids" using claim [OF x(1)] by (auto simp: claimable_def)
    then show "x \<in> jobs_of db1 \<and> qj_id x \<notin> qj_id ` set jobs" using x(1) unfolding r jobs' by (auto simp: g)
  qed
  show e: "jobs = [] \<longleftrightarrow> picked now queues limit db = []"
  proof
    assume "jobs = []"
    then have "\<forall>j\<in>jobs_of db. qj_id j \<notin> set ?ids" unfolding jobs' by (simp add: filter_empty_conv)
    then show "picked now queues limit db = []" using picked_claimable [of "hd (picked now queues limit db)"]
      by (metis image_eqI list.set_map list.set_sel(1))
  qed (simp add: jobs')
  show "rows (t_queue_jobs db1) = rows (t_queue_jobs db)" if "jobs = []" using that unfolding e r by simp
qed

section \<open>The worker on a well-behaved registry\<close>

locale job_runner =
  fixes Q :: queue_config and perform :: performer and W :: "string set"
  assumes keeps: "perform now j = Some f \<Longrightarrow> queue_ext Q W db (snd (f db))"
begin

lemma run_job_facts:
  assumes tries: "0 < qc_max_tries Q" and prem: "queue_ok db" "runs j db"
  shows "queue_ok (run_job Q perform now st j db) \<and> others_kept j db (run_job Q perform now st j db) \<and>
     workload W (run_job Q perform now st j db) \<le> workload W db"
proof (cases "perform now j")
  case None
  then show ?thesis using fail_job_facts [OF prem] by (simp add: run_job_def)
next
  case (Some f)
  let ?d = "snd (f db)"
  from keeps [OF Some] have ext: "queue_ext Q W db ?d" .
  have d: "queue_ok ?d" "runs j ?d" "workload W ?d = workload W db"
    using ext_ok [OF ext tries prem(1)] ext_keeps_rows [OF ext] ext_workload [OF ext] prem(2) by (auto simp: runs_def)
  have step: "run_job Q perform now st j db =
      (case fst (f db) of Some exc \<Rightarrow> fail_job Q now st j exc (qc_retry_jobs Q) ?d | None \<Rightarrow> finish_job now (qj_id j) ?d)"
    by (simp add: run_job_def Some split: prod.split option.split)
  have "others_kept j ?d d' \<Longrightarrow> others_kept j db d'" for d' using ext_keeps_rows [OF ext] by (auto simp: others_kept_def)
  then show ?thesis unfolding step
    using finish_job_facts [OF d(1,2), of now W] fail_job_facts [OF d(1,2), of Q now st _ "qc_retry_jobs Q" W] d(3)
    by (simp split: option.split)
qed

lemma batch_facts:
  assumes tries: "0 < qc_max_tries Q"
  shows "queue_ok db \<Longrightarrow> \<forall>j\<in>set jobs. runs j db \<Longrightarrow> distinct (map qj_id jobs) \<Longrightarrow>
     queue_ok (fold (run_job Q perform now st) jobs db) \<and> workload W (fold (run_job Q perform now st) jobs db) \<le> workload W db \<and>
     (\<forall>r\<in>jobs_of db. qj_id r \<notin> qj_id ` set jobs \<longrightarrow> r \<in> jobs_of (fold (run_job Q perform now st) jobs db))"
proof (induction jobs arbitrary: db)
  case (Cons j jobs)
  let ?d = "run_job Q perform now st j db"
  from Cons.prems have j: "runs j db" and others: "\<forall>x\<in>set jobs. runs x db \<and> qj_id x \<noteq> qj_id j" by (auto simp: image_iff)
  note one = run_job_facts [OF tries Cons.prems(1) j, of now st]
  have "\<forall>x\<in>set jobs. runs x ?d" using others one by (auto simp: runs_def others_kept_def)
  with Cons.IH [of ?d] one Cons.prems(3) have
    "queue_ok (fold (run_job Q perform now st) jobs ?d)" "workload W (fold (run_job Q perform now st) jobs ?d) \<le> workload W ?d"
    "\<forall>r\<in>jobs_of ?d. qj_id r \<notin> qj_id ` set jobs \<longrightarrow> r \<in> jobs_of (fold (run_job Q perform now st) jobs ?d)" by auto
  then show ?case using one by (auto simp: others_kept_def)
qed simp

lemma round_facts:
  assumes tries: "0 < qc_max_tries Q" and ok: "queue_ok db" and r: "run_round Q perform queues now st db = (n, db')"
  shows "queue_ok db'" "set queues \<subseteq> W \<Longrightarrow> workload W db' \<le> workload W db - int n"
    "\<forall>r\<in>jobs_of db. qj_status r \<in> {''finished'', ''failed''} \<longrightarrow> r \<in> jobs_of db'"
    "n = 0 \<Longrightarrow> 0 < qc_max_jobs Q \<Longrightarrow> \<forall>j\<in>jobs_of db'. \<not> claimable now queues j"
proof -
  obtain jobs db1 where c: "claim_jobs now queues (qc_max_jobs Q) db = (jobs, db1)" by (cases "claim_jobs now queues (qc_max_jobs Q) db")
  then have n: "n = length jobs" and db': "db' = fold (run_job Q perform now st) jobs db1" using r by (auto simp: run_round_def)
  note cf = claim_jobs_facts [OF ok c]
  note bf = batch_facts [OF tries cf(1-3), of now st]
  show "queue_ok db'" using bf db' by simp
  show "workload W db' \<le> workload W db - int n" if "set queues \<subseteq> W" using bf cf(4) [OF that] db' n by simp
  show "\<forall>r\<in>jobs_of db. qj_status r \<in> {''finished'', ''failed''} \<longrightarrow> r \<in> jobs_of db'"
  proof (intro ballI impI)
    fix x assume x: "x \<in> jobs_of db" "qj_status x \<in> {''finished'', ''failed''}"
    then have "x \<in> jobs_of db1 \<and> qj_id x \<notin> qj_id ` set jobs" using cf(5) by auto
    then show "x \<in> jobs_of db'" using bf db' by blast
  qed
  show "\<forall>j\<in>jobs_of db'. \<not> claimable now queues j" if "n = 0" "0 < qc_max_jobs Q"
  proof -
    have "jobs = []" using that(1) n by simp
    with cf(6,7) have "picked now queues (qc_max_jobs Q) db = []" "rows (t_queue_jobs db') = rows (t_queue_jobs db)" by (simp_all add: db')
    then show ?thesis using picked_empty [OF that(2)] by simp
  qed
qed

text \<open>The worker stops after at most as many rounds as there are tries left, plus the last empty one.\<close>

lemma worker_stops:
  assumes tries: "0 < qc_max_tries Q" and prem: "set queues \<subseteq> W" "0 < qc_max_jobs Q"
  shows "queue_ok db \<Longrightarrow> workload W db < int n \<Longrightarrow>
     \<exists>db' k. run_worker n Q perform queues clock db = Some db' \<and> queue_ok db' \<and> k < n \<and>
       (\<forall>j\<in>jobs_of db'. \<not> claimable (fst (clock k)) queues j)"
proof (induction n arbitrary: db clock)
  case 0
  then show ?case using workload_nonneg [of db W] by simp
next
  case (Suc n)
  obtain m db1 where r: "run_round Q perform queues (fst (clock 0)) (snd (clock 0)) db = (m, db1)"
    by (cases "run_round Q perform queues (fst (clock 0)) (snd (clock 0)) db")
  note rf = round_facts [OF tries Suc.prems(1) r]
  show ?case
  proof (cases m)
    case 0
    then show ?thesis using r rf(1) rf(4) prem(2) by (intro exI [of _ db1] exI [of _ "0::nat"]) simp
  next
    case (Suc m')
    have "workload W db1 < int n" using rf(2) [OF prem(1)] Suc Suc.prems(2) by simp
    from Suc.IH [OF rf(1) this, of "\<lambda>i. clock (Suc i)"] obtain db' k where
      "run_worker n Q perform queues (\<lambda>i. clock (Suc i)) db1 = Some db'" "queue_ok db'" "k < n"
      "\<forall>j\<in>jobs_of db'. \<not> claimable (fst (clock (Suc k))) queues j" by blast
    then show ?thesis using r Suc by (intro exI [of _ db'] exI [of _ "Suc k"]) simp
  qed
qed

end

end
