(* ===== verification/Traffic.thy ===== *)
theory Traffic
  imports Samples Epay Coupons Orders "HOL-Library.AList"
begin

text \<open>
  The traffic pipeline of \<open>app/queues/jobs/traffic.py\<close> and \<open>app/queues/jobs/pg_cache.py\<close>: a node
  reports a dictionary user id \<open>\<rightarrow>\<close> (upload, download); \<open>traffic_fetch\<close> adds the amounts, multiplied by
  the node's rate, to the table \<open>traffic_cache\<close>; \<open>traffic_update\<close> moves the cached amounts into the
  counters of the users. The jobs \<open>stat_user\<close> and \<open>stat_server\<close> keep one row per day. The clock of a job
  is read once. Whether another transaction holds the advisory lock is a parameter of the flush.
\<close>

section \<open>Reports\<close>

text \<open>\<open>value.get(k1, value.get(k2, 0))\<close>, and \<open>value[i]\<close> on a list or a text.\<close>

definition get_either :: "(string \<times> json) list \<Rightarrow> string \<Rightarrow> string \<Rightarrow> json" where
  "get_either kvs k1 k2 = json_get kvs k1 (json_get kvs k2 (JInt 0))"

definition json_index :: "json \<Rightarrow> nat \<Rightarrow> json option" where
  "json_index v i =
     (case v of JArr xs \<Rightarrow> if i < length xs then Some (xs ! i) else None
      | JStr s \<Rightarrow> if i < length s then Some (JStr [s ! i]) else None
      | _ \<Rightarrow> None)"

definition ok_part :: "'e + 'a \<Rightarrow> 'a option" where
  "ok_part r = (case r of Inl _ \<Rightarrow> None | Inr x \<Rightarrow> Some x)"

definition traffic_amounts :: "json \<Rightarrow> (int \<times> int) option" where
  "traffic_amounts v =
     (let (u, d) = (case v of
            JObj kvs \<Rightarrow> (Some (get_either kvs ''u'' ''upload''), Some (get_either kvs ''d'' ''download''))
          | _ \<Rightarrow> (json_index v 0, json_index v 1))
      in (case (Option.bind u (ok_part \<circ> int_of_json), Option.bind d (ok_part \<circ> int_of_json)) of
            (Some a, Some b) \<Rightarrow> Some (a, b) | _ \<Rightarrow> None))"

definition traffic_entry :: "string \<times> json \<Rightarrow> (int \<times> (int \<times> int)) option" where
  "traffic_entry kv =
     (case (py_int (fst kv), traffic_amounts (snd kv)) of (Some i, Some a) \<Rightarrow> Some (i, a) | _ \<Rightarrow> None)"

text \<open>A later entry of the same user replaces the earlier one.\<close>

definition normalize_traffic_data :: "json \<Rightarrow> exn + (int \<times> (int \<times> int)) list" where
  "normalize_traffic_data data =
     (case data of
        JObj kvs \<Rightarrow> Inr (fold (\<lambda>(i, a) t. AList.update i a t) (List.map_filter traffic_entry kvs) [])
      | _ \<Rightarrow> Inl AttributeError)"

section \<open>Rates\<close>

datatype rate = Rate bool nat int | RNan bool | RInf

definition decimal_rate :: "codec \<Rightarrow> json \<Rightarrow> rate" where
  "decimal_rate C v =
     (let s = py_str C v; l = lower (filter (\<lambda>c. c \<noteq> CHR ''_'') s) in
      case parse_decimal s of
        None \<Rightarrow> Rate False 1 0
      | Some (Fin n c e) \<Rightarrow> Rate n c e
      | Some Special \<Rightarrow> if contains ''snan'' l then RNan True else if contains ''nan'' l then RNan False else RInf)"

text \<open>\<open>server.get("rate", 1)\<close>.\<close>

definition server_rate :: "codec \<Rightarrow> json \<Rightarrow> exn + rate" where
  "server_rate C server =
     (case server of JObj kvs \<Rightarrow> Inr (decimal_rate C (json_get kvs ''rate'' (JInt 1))) | _ \<Rightarrow> Inl AttributeError)"

text \<open>\<open>int(Decimal(n) * rate)\<close>: the product in the context of 28 digits, truncated towards zero.\<close>

definition scaled_traffic :: "rate \<Rightarrow> int \<Rightarrow> exn + int" where
  "scaled_traffic r n =
     (case r of
        Rate neg c e \<Rightarrow>
          (case fit_context (nat \<bar>n\<bar> * c) e of (c', e') \<Rightarrow>
             let m = int (if 0 \<le> e' then c' * 10 ^ nat e' else c' div 10 ^ nat (- e'))
             in Inr (if neg \<noteq> (n < 0) then - m else m))
      | RNan signaling \<Rightarrow> Inl (if signaling then ArithmeticError else ValueError)
      | RInf \<Rightarrow> Inl (if n = 0 then ArithmeticError else OverflowError))"

text \<open>\<open>float(rate)\<close>.\<close>

definition float_rate :: "rate \<Rightarrow> exn + pyfloat" where
  "float_rate r =
     (case r of Rate neg c e \<Rightarrow> Inr (float_of_decimal neg c e)
      | RNan signaling \<Rightarrow> if signaling then Inl ValueError else Inr PNan
      | RInf \<Rightarrow> Inr PInf)"

section \<open>The cache of \<open>pg_cache.py\<close>\<close>

definition active_stage :: string where "active_stage = ''active''"
definition processing_stage :: string where "processing_stage = ''processing''"

definition pg_cache_exists :: "int \<Rightarrow> string \<Rightarrow> cache_row list \<Rightarrow> bool" where
  "pg_cache_exists now k c = list_ex (\<lambda>r. ck_key r = k \<and> cache_live now r) c"

definition pg_cache_set :: "int \<Rightarrow> string \<Rightarrow> json \<Rightarrow> int option \<Rightarrow> cache_row list \<Rightarrow> cache_row list" where
  "pg_cache_set now k v ttl c =
     upsert k \<lparr>ck_key = k, ck_value = v, ck_expires = expiry now ttl\<rparr> (\<lambda>r. r\<lparr>ck_value := v, ck_expires := expiry now ttl\<rparr>) c"

definition pg_cache_delete :: "string \<Rightarrow> cache_row list \<Rightarrow> cache_row list" where
  "pg_cache_delete k c = filter (\<lambda>r. ck_key r \<noteq> k) c"

text \<open>\<open>INSERT ... ON CONFLICT (stage, user_id) DO UPDATE\<close>, one item.\<close>

definition at_key :: "string \<Rightarrow> int \<Rightarrow> traffic_row \<Rightarrow> bool" where
  "at_key stage i r \<longleftrightarrow> tr_stage r = stage \<and> tr_user_id r = i"

definition add_traffic :: "string \<Rightarrow> int \<times> (int \<times> int) \<Rightarrow> traffic_row list \<Rightarrow> traffic_row list" where
  "add_traffic stage item ts =
     (case item of (i, (u, d)) \<Rightarrow>
        if list_ex (at_key stage i) ts
        then map (\<lambda>r. if at_key stage i r then r\<lparr>tr_u := tr_u r + u, tr_d := tr_d r + d\<rparr> else r) ts
        else ts @ [\<lparr>tr_stage = stage, tr_user_id = i, tr_u = u, tr_d = d\<rparr>])"

definition scaled_item :: "rate \<Rightarrow> int \<times> (int \<times> int) \<Rightarrow> exn + int \<times> (int \<times> int)" where
  "scaled_item r item =
     bindE (scaled_traffic r (fst (snd item))) (\<lambda>u. bindE (scaled_traffic r (snd (snd item))) (\<lambda>d. Inr (fst item, (u, d))))"

definition increment_traffic_cache :: "(int \<times> (int \<times> int)) list \<Rightarrow> rate \<Rightarrow> db \<Rightarrow> exn + db" where
  "increment_traffic_cache traffic r db =
     bindE (mapE (scaled_item r) traffic) (\<lambda>items.
       Inr (db\<lparr>t_traffic := fold (add_traffic active_stage) items (t_traffic db)\<rparr>))"

definition count_stage :: "string \<Rightarrow> traffic_row list \<Rightarrow> int" where
  "count_stage stage ts = int (length (filter (\<lambda>r. tr_stage r = stage) ts))"

definition take_active :: "traffic_row list \<Rightarrow> traffic_row list" where
  "take_active ts =
     (if count_stage processing_stage ts = 0
      then map (\<lambda>r. if tr_stage r = active_stage then r\<lparr>tr_stage := processing_stage\<rparr> else r) ts else ts)"

definition credit_traffic :: "int \<Rightarrow> traffic_row list \<Rightarrow> user \<Rightarrow> user" where
  "credit_traffic now items u =
     (case find (\<lambda>r. tr_user_id r = us_id u) items of
        None \<Rightarrow> u
      | Some r \<Rightarrow> u\<lparr>us_u := us_u u + tr_u r, us_d := us_d u + tr_d r, us_t := now\<rparr>)"

definition apply_processing_traffic :: "int \<Rightarrow> traffic_row list \<Rightarrow> db \<Rightarrow> db" where
  "apply_processing_traffic now items db =
     db\<lparr>t_users := update_where user_entity now (\<lambda>u. list_ex (\<lambda>r. tr_user_id r = us_id u) items) (credit_traffic now items) (t_users db)\<rparr>"

definition flush_traffic_cache_to_users :: "int \<Rightarrow> bool \<Rightarrow> db \<Rightarrow> bool \<times> db" where
  "flush_traffic_cache_to_users now lock_free db =
     (if \<not> lock_free then (False, db)
      else if pg_cache_exists now ''traffic_reset_lock'' (t_cache db) then (False, db)
      else
        let ts = take_active (t_traffic db);
            items = sort_key tr_user_id (filter (\<lambda>r. tr_stage r = processing_stage) ts);
            db1 = db\<lparr>t_traffic := ts\<rparr>
        in if items = [] then (True, db1)
           else (True, (apply_processing_traffic now items db1)\<lparr>t_traffic := filter (\<lambda>r. tr_stage r \<noteq> processing_stage) ts\<rparr>))"

section \<open>The jobs\<close>

definition traffic_fetch :: "codec \<Rightarrow> json \<Rightarrow> json \<Rightarrow> db \<Rightarrow> exn + db" where
  "traffic_fetch C data server db =
     bindE (normalize_traffic_data data) (\<lambda>traffic.
       if traffic = [] then Inr db
       else bindE (server_rate C server) (\<lambda>r. increment_traffic_cache traffic r db))"

definition traffic_update :: "int \<Rightarrow> bool \<Rightarrow> db \<Rightarrow> db" where
  "traffic_update now lock_free db = snd (flush_traffic_cache_to_users now lock_free db)"

definition day_start :: "int \<Rightarrow> int" where
  "day_start now = now - now mod 86400"

text \<open>Equality of the rate column: of the values of two floats (NaN equals itself in PostgreSQL).\<close>

definition double_eq :: "double \<Rightarrow> double \<Rightarrow> bool" where
  "double_eq x y = (let e = min (expo x) (expo y) in mant x * 2 ^ nat (expo x - e) = mant y * 2 ^ nat (expo y - e))"

definition pyfloat_eq :: "pyfloat \<Rightarrow> pyfloat \<Rightarrow> bool" where
  "pyfloat_eq x y = (case (x, y) of (PFloat a, PFloat b) \<Rightarrow> double_eq a b | (PInf, PInf) \<Rightarrow> True | (PNan, PNan) \<Rightarrow> True | _ \<Rightarrow> False)"

definition new_stat_user :: "int \<Rightarrow> pyfloat \<Rightarrow> int \<times> int \<Rightarrow> string \<Rightarrow> int \<Rightarrow> stat_user" where
  "new_stat_user i rate a record_type record_at =
     \<lparr>su_id = 0, su_user_id = i, su_server_rate = rate, su_u = fst a, su_d = snd a, su_record_type = record_type,
      su_record_at = record_at, su_created_at = 0, su_updated_at = 0\<rparr>"

text \<open>\<open>existing\<close> is built before the loop; a user id occurs once in \<open>traffic\<close>.\<close>

definition record_stat_user :: "int \<Rightarrow> (int \<times> (int \<times> int)) list \<Rightarrow> pyfloat \<Rightarrow> string \<Rightarrow> db \<Rightarrow> db" where
  "record_stat_user now traffic rate record_type db =
     (let record_at = day_start now;
          stored_rows = filter (\<lambda>x. su_record_at x = record_at \<and> pyfloat_eq (su_server_rate x) rate \<and> su_user_id x \<in> set (map fst traffic)) (rows (t_stat_users db));
          existing = (\<lambda>i. find (\<lambda>x. su_user_id x = i) (rev stored_rows))
      in db\<lparr>t_stat_users := fold (\<lambda>(i, a) t. case existing i of
             Some x \<Rightarrow> repo_update stat_user_entity now t (x\<lparr>su_u := su_u x + fst a, su_d := su_d x + snd a\<rparr>)
           | None \<Rightarrow> repo_create stat_user_entity now t (new_stat_user i rate a record_type record_at)) traffic (t_stat_users db)\<rparr>)"

definition stat_user_job :: "codec \<Rightarrow> int \<Rightarrow> json \<Rightarrow> json \<Rightarrow> string \<Rightarrow> db \<Rightarrow> exn + db" where
  "stat_user_job C now data server record_type db =
     bindE (normalize_traffic_data data) (\<lambda>traffic.
       if traffic = [] then Inr db
       else bindE (server_rate C server) (\<lambda>r. bindE (float_rate r) (\<lambda>rate.
         Inr (record_stat_user now traffic rate record_type db))))"

definition new_stat_server :: "int \<Rightarrow> string \<Rightarrow> int \<Rightarrow> int \<Rightarrow> string \<Rightarrow> int \<Rightarrow> stat_server" where
  "new_stat_server server_id protocol upload download record_type record_at =
     \<lparr>ss_id = 0, ss_server_id = server_id, ss_server_type = protocol, ss_u = upload, ss_d = download,
      ss_record_type = record_type, ss_record_at = record_at, ss_created_at = 0, ss_updated_at = 0\<rparr>"

definition record_stat_server :: "int \<Rightarrow> int \<Rightarrow> string \<Rightarrow> (int \<times> (int \<times> int)) list \<Rightarrow> string \<Rightarrow> db \<Rightarrow> exn + db" where
  "record_stat_server now server_id protocol traffic record_type db =
     (let record_at = day_start now;
          upload = sum_list (map (\<lambda>x. fst (snd x)) traffic);
          download = sum_list (map (\<lambda>x. snd (snd x)) traffic)
      in bindE (find_one (\<lambda>x. ss_record_at x = record_at \<and> ss_server_id x = server_id \<and> ss_server_type x = protocol) (t_stat_servers db)) (\<lambda>item.
        case item of
          Some x \<Rightarrow> Inr (db\<lparr>t_stat_servers := repo_update stat_server_entity now (t_stat_servers db)
              (x\<lparr>ss_u := ss_u x + upload, ss_d := ss_d x + download\<rparr>)\<rparr>)
        | None \<Rightarrow> Inr (db\<lparr>t_stat_servers := repo_create stat_server_entity now (t_stat_servers db)
              (new_stat_server server_id protocol upload download record_type record_at)\<rparr>)))"

text \<open>\<open>int(server["id"])\<close>.\<close>

definition server_id_of :: "json \<Rightarrow> exn + int" where
  "server_id_of server =
     (case server of
        JObj kvs \<Rightarrow> (case map_of kvs ''id'' of None \<Rightarrow> Inl KeyError | Some v \<Rightarrow> int_of_json v)
      | _ \<Rightarrow> Inl TypeError)"

definition stat_server_job :: "int \<Rightarrow> json \<Rightarrow> json \<Rightarrow> string \<Rightarrow> string \<Rightarrow> db \<Rightarrow> exn + db" where
  "stat_server_job now data server protocol record_type db =
     bindE (normalize_traffic_data data) (\<lambda>traffic.
       if traffic = [] then Inr db
       else bindE (server_id_of server) (\<lambda>i. record_stat_server now i protocol traffic record_type db))"

section \<open>Nothing is lost\<close>

text \<open>\<open>sel\<close> is \<open>fst\<close> for uploads and \<open>snd\<close> for downloads: what the cache holds for a user, what a user's
  counter shows, and what a report brings in.\<close>

definition cached :: "(int \<times> int \<Rightarrow> int) \<Rightarrow> int \<Rightarrow> traffic_row list \<Rightarrow> int" where
  "cached sel i ts = sum_list (map (\<lambda>r. sel (tr_u r, tr_d r)) (filter (\<lambda>r. tr_user_id r = i) ts))"

definition used_traffic :: "(int \<times> int \<Rightarrow> int) \<Rightarrow> user \<Rightarrow> int" where
  "used_traffic sel u = sel (us_u u, us_d u)"

definition item_amount :: "(int \<times> int \<Rightarrow> int) \<Rightarrow> int \<Rightarrow> (int \<times> (int \<times> int)) list \<Rightarrow> int" where
  "item_amount sel i items = sum_list (map (\<lambda>x. if fst x = i then sel (snd x) else 0) items)"

definition report_items :: "codec \<Rightarrow> json \<Rightarrow> json \<Rightarrow> exn + (int \<times> (int \<times> int)) list" where
  "report_items C data server =
     bindE (normalize_traffic_data data) (\<lambda>traffic.
       if traffic = [] then Inr [] else bindE (server_rate C server) (\<lambda>r. mapE (scaled_item r) traffic))"

text \<open>The primary key of the cache and of the users.\<close>

definition cache_keys_ok :: "traffic_row list \<Rightarrow> bool" where
  "cache_keys_ok ts \<longleftrightarrow> distinct (map (\<lambda>r. (tr_stage r, tr_user_id r)) ts)"

definition traffic_ok :: "db \<Rightarrow> bool" where
  "traffic_ok db \<longleftrightarrow> wf_table user_entity (t_users db) \<and> cache_keys_ok (t_traffic db)"

lemma cached_simps [simp]:
  "cached sel i [] = 0"
  "cached sel i (r # ts) = (if tr_user_id r = i then sel (tr_u r, tr_d r) else 0) + cached sel i ts"
  "cached sel i (xs @ ys) = cached sel i xs + cached sel i ys"
  by (simp_all add: cached_def)

lemma item_amount_simps [simp]:
  "item_amount sel i [] = 0"
  "item_amount sel i (x # xs) = (if fst x = i then sel (snd x) else 0) + item_amount sel i xs"
  by (simp_all add: item_amount_def)

lemma cached_split: "cached sel i ts = cached sel i (filter P ts) + cached sel i (filter (\<lambda>r. \<not> P r) ts)"
  by (induction ts) simp_all

lemma keys_Cons:
  "cache_keys_ok (r # ts) \<longleftrightarrow> cache_keys_ok ts \<and> (\<forall>x\<in>set ts. \<not> at_key (tr_stage r) (tr_user_id r) x)"
  by (auto simp: cache_keys_ok_def at_key_def image_iff)

lemma at_keyD: "at_key stage i r \<Longrightarrow> stage = tr_stage r \<and> i = tr_user_id r"
  by (simp add: at_key_def)

lemma key_rows:
  "cache_keys_ok ts \<Longrightarrow> filter (at_key stage i) ts = [] \<or> (\<exists>r. filter (at_key stage i) ts = [r])"
proof (induction ts)
  case (Cons r ts)
  then have "cache_keys_ok ts" by (simp add: keys_Cons)
  show ?case
  proof (cases "at_key stage i r")
    case True
    then have "filter (at_key stage i) ts = []"
      using Cons.prems at_keyD [OF True] by (simp add: keys_Cons filter_empty_conv)
    then show ?thesis using True by simp
  next
    case False
    then show ?thesis using Cons.IH \<open>cache_keys_ok ts\<close> by simp
  qed
qed simp

lemma cached_update:
  assumes sel: "sel \<in> {fst, snd}" and g: "g = (\<lambda>r. if at_key stage j r then r\<lparr>tr_u := tr_u r + u, tr_d := tr_d r + d\<rparr> else r)"
  shows "cache_keys_ok ts \<Longrightarrow>
    cached sel i (map g ts) = cached sel i ts + (if i = j \<and> list_ex (at_key stage j) ts then sel (u, d) else 0)"
proof (induction ts)
  case (Cons r ts)
  then have ok: "cache_keys_ok ts" by (simp add: keys_Cons)
  have gr: "tr_user_id (g r) = tr_user_id r" by (simp add: g)
  show ?case
  proof (cases "at_key stage j r")
    case True
    then have none: "\<not> list_ex (at_key stage j) ts" using Cons.prems at_keyD [OF True] by (simp add: keys_Cons list_ex_iff)
    have "cached sel i (map g ts) = cached sel i ts" using Cons.IH [OF ok] none by simp
    moreover have "sel (tr_u (g r), tr_d (g r)) = sel (tr_u r, tr_d r) + sel (u, d)" using sel True by (auto simp: g)
    ultimately show ?thesis using True gr by (auto simp: at_key_def)
  next
    case False
    then have "g r = r" by (simp add: g)
    then show ?thesis using Cons.IH [OF ok] False by simp
  qed
qed simp

lemma add_traffic_cached:
  assumes "sel \<in> {fst, snd}" "cache_keys_ok ts"
  shows "cached sel i (add_traffic stage item ts) = cached sel i ts + (if fst item = i then sel (snd item) else 0)"
proof -
  obtain j u d where item: "item = (j, (u, d))" by (metis surj_pair)
  show ?thesis
    using cached_update [OF assms(1) refl assms(2), where i = i and stage = stage and j = j and u = u and d = d]
    by (cases "list_ex (at_key stage j) ts") (simp_all add: add_traffic_def item)
qed

lemma add_traffic_keys: "cache_keys_ok ts \<Longrightarrow> cache_keys_ok (add_traffic stage item ts)"
proof -
  assume ok: "cache_keys_ok ts"
  obtain j u d where item: "item = (j, (u, d))" by (metis surj_pair)
  let ?k = "\<lambda>r. (tr_stage r, tr_user_id r)"
  show ?thesis
  proof (cases "list_ex (at_key stage j) ts")
    case True
    have "map ?k (add_traffic stage item ts) = map ?k ts" using True by (simp add: add_traffic_def item)
    then show ?thesis using ok by (simp only: cache_keys_ok_def)
  next
    case False
    then have "(stage, j) \<notin> ?k ` set ts" by (auto simp: list_ex_iff at_key_def)
    then show ?thesis using ok False by (simp add: add_traffic_def item cache_keys_ok_def)
  qed
qed

lemma fold_add_traffic:
  assumes "sel \<in> {fst, snd}"
  shows "cache_keys_ok ts \<Longrightarrow> cache_keys_ok (fold (add_traffic stage) items ts) \<and>
     cached sel i (fold (add_traffic stage) items ts) = cached sel i ts + item_amount sel i items"
  by (induction items arbitrary: ts) (auto simp: add_traffic_keys add_traffic_cached [OF assms])

lemma take_active_facts:
  assumes "cache_keys_ok ts"
  shows "cache_keys_ok (take_active ts)" "cached sel i (take_active ts) = cached sel i ts"
proof -
  let ?g = "\<lambda>r. if tr_stage r = active_stage then r\<lparr>tr_stage := processing_stage\<rparr> else r"
  have "cached sel i (map ?g ts) = cached sel i ts" by (induction ts) auto
  then show "cached sel i (take_active ts) = cached sel i ts" by (simp add: take_active_def)
  show "cache_keys_ok (take_active ts)"
  proof (cases "count_stage processing_stage ts = 0")
    case True
    then have none: "\<forall>r\<in>set ts. tr_stage r \<noteq> processing_stage" by (simp add: count_stage_def filter_empty_conv)
    have inj: "inj_on (\<lambda>r. (tr_stage r, tr_user_id r)) (set ts)" "distinct ts"
      using assms by (auto simp: cache_keys_ok_def distinct_map)
    have "inj_on (\<lambda>r. (tr_stage (?g r), tr_user_id (?g r))) (set ts)"
    proof (rule inj_onI)
      fix x y assume xy: "x \<in> set ts" "y \<in> set ts" and eq: "(tr_stage (?g x), tr_user_id (?g x)) = (tr_stage (?g y), tr_user_id (?g y))"
      have "tr_stage x = tr_stage y \<and> tr_user_id x = tr_user_id y"
        using eq none xy by (auto split: if_splits)
      then show "x = y" using inj(1) xy by (auto dest: inj_onD)
    qed
    then show ?thesis using True inj(2) by (simp add: take_active_def cache_keys_ok_def distinct_map comp_def inj_on_def)
  qed (use assms in \<open>simp add: take_active_def\<close>)
qed

lemma find_hd: "find P xs = (case filter P xs of [] \<Rightarrow> None | x # _ \<Rightarrow> Some x)"
  by (induction xs) auto

lemma credit_amount:
  assumes sel: "sel \<in> {fst, snd}" and ok: "cache_keys_ok ts"
    and items: "items = sort_key tr_user_id (filter (\<lambda>r. tr_stage r = processing_stage) ts)"
  shows "used_traffic sel (credit_traffic now items u) =
     used_traffic sel u + cached sel (us_id u) (filter (\<lambda>r. tr_stage r = processing_stage) ts)"
proof -
  have f: "filter (\<lambda>r. tr_user_id r = us_id u) items = filter (at_key processing_stage (us_id u)) ts"
    by (simp add: items sort_key_stable at_key_def [abs_def] conj_commute)
  have c: "cached sel (us_id u) (filter (\<lambda>r. tr_stage r = processing_stage) ts) =
      sum_list (map (\<lambda>r. sel (tr_u r, tr_d r)) (filter (at_key processing_stage (us_id u)) ts))"
    by (simp add: cached_def at_key_def [abs_def] conj_commute)
  show ?thesis using key_rows [OF ok, of processing_stage "us_id u"] sel
    unfolding c credit_traffic_def find_hd f by (auto simp: used_traffic_def)
qed

lemma user_after_update:
  assumes "wf_table user_entity (t_users db)" "user_by_id db i = Some u" "t_users db' = update_where user_entity now P f (t_users db)"
    "\<And>x. us_id (f x) = us_id x"
  shows "user_by_id db' i = Some (if P u then e_touch user_entity now (f u) else u)"
proof -
  define g where "g = (\<lambda>x. if P x then e_touch user_entity now (f x) else x)"
  have id: "us_id (g x) = us_id x" for x using assms(4) users.id_touch by (simp add: g_def)
  have "user_by_id db' i = find (\<lambda>x. us_id x = i) (map g (rows (t_users db)))"
    by (simp add: user_by_id_def repo_get_def assms(3) update_where_def g_def)
  also have "\<dots> = map_option g (find (\<lambda>x. us_id x = i) (rows (t_users db)))" by (rule find_map_cong) (simp add: id)
  also have "\<dots> = Some (g u)" using assms(2) by (simp add: user_by_id_def repo_get_def)
  finally show ?thesis by (simp add: g_def)
qed

lemma update_where_users_wf:
  "wf_table user_entity t \<Longrightarrow> (\<And>x. us_id (f x) = us_id x) \<Longrightarrow> wf_table user_entity (update_where user_entity now P f t)"
  using wf_table_ids [of user_entity "update_where user_entity now P f t" t] users.id_touch by (simp add: update_where_def)

lemma credit_id [simp]: "us_id (credit_traffic now items u) = us_id u"
  by (simp add: credit_traffic_def split: option.split)

lemma used_touch [simp]: "used_traffic sel (e_touch user_entity now u) = used_traffic sel u"
  by (simp add: used_traffic_def user_entity_def)

lemma no_credit: "\<not> list_ex (\<lambda>r. tr_user_id r = us_id u) items \<Longrightarrow> credit_traffic now items u = u"
  by (auto simp: credit_traffic_def list_ex_iff find_None_iff split: option.split dest: find_Some_set)

text \<open>A flush moves the cached amounts of a user into the counters, and nothing else.\<close>

lemma flush_facts:
  assumes ok: "traffic_ok db" and u: "user_by_id db i = Some u" and sel: "sel \<in> {fst, snd}"
    and r: "flush_traffic_cache_to_users now lock_free db = (b, db')"
  shows "traffic_ok db' \<and> (\<exists>u'. user_by_id db' i = Some u' \<and>
     used_traffic sel u' + cached sel i (t_traffic db') = used_traffic sel u + cached sel i (t_traffic db))"
proof (cases "lock_free \<and> \<not> pg_cache_exists now ''traffic_reset_lock'' (t_cache db)")
  case False
  then have "flush_traffic_cache_to_users now lock_free db = (False, db)"
    unfolding flush_traffic_cache_to_users_def by (cases lock_free) (simp_all only: if_True if_False simp_thms)
  then have "db' = db" using r by simp
  then show ?thesis using ok u by auto
next
  case True
  define ts where "ts = take_active (t_traffic db)"
  define items where "items = sort_key tr_user_id (filter (\<lambda>r. tr_stage r = processing_stage) ts)"
  note ta = take_active_facts [of "t_traffic db", folded ts_def]
  have keys: "cache_keys_ok ts" and same: "cached sel i ts = cached sel i (t_traffic db)" using ok ta by (auto simp: traffic_ok_def)
  show ?thesis
  proof (cases "items = []")
    case True': True
    then have "db' = db\<lparr>t_traffic := ts\<rparr>" using r True by (simp add: flush_traffic_cache_to_users_def ts_def [symmetric] items_def [symmetric])
    then show ?thesis using ok u keys same by (auto simp: traffic_ok_def user_by_id_def)
  next
    case False
    then have db': "db' = (apply_processing_traffic now items (db\<lparr>t_traffic := ts\<rparr>))\<lparr>t_traffic := filter (\<lambda>r. tr_stage r \<noteq> processing_stage) ts\<rparr>"
      using r True by (simp add: flush_traffic_cache_to_users_def ts_def [symmetric] items_def [symmetric])
    let ?P = "\<lambda>u. list_ex (\<lambda>r. tr_user_id r = us_id u) items"
    have users: "t_users db' = update_where user_entity now ?P (credit_traffic now items) (t_users db)"
      by (simp add: db' apply_processing_traffic_def)
    have wf: "wf_table user_entity (t_users db)" using ok by (simp add: traffic_ok_def)
    have u': "user_by_id db' i = Some (if ?P u then e_touch user_entity now (credit_traffic now items u) else u)"
      by (rule user_after_update [OF wf u users]) simp
    have id: "us_id u = i" using user_by_idD [OF u] by simp
    have amount: "used_traffic sel (if ?P u then e_touch user_entity now (credit_traffic now items u) else u) =
        used_traffic sel u + cached sel i (filter (\<lambda>r. tr_stage r = processing_stage) ts)"
      using credit_amount [OF sel keys items_def, of now u] no_credit [of u items now] id by (cases "?P u") simp_all
    have "cache_keys_ok (t_traffic db')" using keys by (simp add: db' cache_keys_ok_def distinct_map_filter)
    moreover have "wf_table user_entity (t_users db')" unfolding users by (rule update_where_users_wf [OF wf]) simp
    moreover have "cached sel i (t_traffic db') = cached sel i (filter (\<lambda>r. tr_stage r \<noteq> processing_stage) ts)" by (simp add: db')
    ultimately show ?thesis using u' amount same cached_split [of sel i ts "\<lambda>r. tr_stage r = processing_stage"]
      by (auto simp: traffic_ok_def)
  qed
qed

text \<open>A report adds its amounts to the cache.\<close>

lemma traffic_fetch_report:
  "traffic_fetch C data server db =
     bindE (report_items C data server) (\<lambda>items. Inr (db\<lparr>t_traffic := fold (add_traffic active_stage) items (t_traffic db)\<rparr>))"
  by (cases "normalize_traffic_data data")
     (simp_all add: traffic_fetch_def report_items_def bindE_assoc increment_traffic_cache_def)

section \<open>Histories of reports and flushes\<close>

datatype traffic_op = Report json json | Flush bool

fun run_traffic_op :: "codec \<Rightarrow> int \<times> traffic_op \<Rightarrow> db \<Rightarrow> db" where
  "run_traffic_op C (now, Report data server) db = (case traffic_fetch C data server db of Inl _ \<Rightarrow> db | Inr db' \<Rightarrow> db')"
| "run_traffic_op C (now, Flush lock_free) db = traffic_update now lock_free db"

fun reported :: "codec \<Rightarrow> (int \<times> int \<Rightarrow> int) \<Rightarrow> int \<Rightarrow> int \<times> traffic_op \<Rightarrow> int" where
  "reported C sel i (now, Report data server) =
     (case report_items C data server of Inl _ \<Rightarrow> 0 | Inr items \<Rightarrow> item_amount sel i items)"
| "reported C sel i (now, Flush lock_free) = 0"

lemma traffic_op_facts:
  assumes ok: "traffic_ok db" and u: "user_by_id db i = Some u" and sel: "sel \<in> {fst, snd}"
  shows "traffic_ok (run_traffic_op C op db) \<and> (\<exists>u'. user_by_id (run_traffic_op C op db) i = Some u' \<and>
     used_traffic sel u' + cached sel i (t_traffic (run_traffic_op C op db)) =
       used_traffic sel u + cached sel i (t_traffic db) + reported C sel i op)"
proof -
  obtain now o' where op: "op = (now, o')" by (cases op)
  show ?thesis
  proof (cases o')
    case (Report data server)
    show ?thesis
    proof (cases "report_items C data server")
      case (Inl e)
      then show ?thesis using ok u by (simp add: op Report traffic_fetch_report)
    next
      case (Inr items)
      have "cache_keys_ok (t_traffic db)" using ok by (simp add: traffic_ok_def)
      from fold_add_traffic [OF sel this, of active_stage items i] show ?thesis
        using ok u Inr by (simp add: op Report traffic_fetch_report traffic_ok_def user_by_id_def)
    qed
  next
    case (Flush lock_free)
    obtain b db' where f: "flush_traffic_cache_to_users now lock_free db = (b, db')"
      by (cases "flush_traffic_cache_to_users now lock_free db")
    show ?thesis using flush_facts [OF ok u sel f] by (simp add: op Flush traffic_update_def f)
  qed
qed

text \<open>C4: No traffic is lost or invented between a node's reports and a user's counters: whatever
  reports and flushes run, in whatever order and with whatever of them refused, what the user's
  counter shows plus what the cache still holds is what it was at the start plus what the reports
  brought in, for uploads and for downloads.\<close>

theorem traffic_conserved:
  assumes "traffic_ok db" "user_by_id db i = Some u" "sel \<in> {fst, snd}"
  shows "\<exists>u'. user_by_id (fold (run_traffic_op C) ops db) i = Some u' \<and>
     used_traffic sel u' + cached sel i (t_traffic (fold (run_traffic_op C) ops db)) =
       used_traffic sel u + cached sel i (t_traffic db) + sum_list (map (reported C sel i) ops)"
  using assms
proof (induction ops arbitrary: db u)
  case (Cons op ops)
  from traffic_op_facts [OF Cons.prems, of C op] obtain v where
    ok: "traffic_ok (run_traffic_op C op db)" and v: "user_by_id (run_traffic_op C op db) i = Some v" and
    e: "used_traffic sel v + cached sel i (t_traffic (run_traffic_op C op db)) =
       used_traffic sel u + cached sel i (t_traffic db) + reported C sel i op" by blast
  from Cons.IH [OF ok v Cons.prems(3)] e show ?case by (auto simp: add.assoc)
qed simp

definition traffic_codec :: codec where
  "traffic_codec = \<lparr>dumps = (\<lambda>v. []), loads = (\<lambda>s. None), py_repr = (\<lambda>v. [])\<rparr>"

definition traffic_db :: db where
  "traffic_db = empty_db\<lparr>t_users := \<lparr>rows = [sample_user], next_id = 2\<rparr>\<rparr>"

definition node_report :: json where
  "node_report = JObj [(''01'', JArr [JInt 10, JInt 20]), (''x'', JArr [JInt 1, JInt 1]), (''1'', JObj [(''u'', JStr ''7''), (''d'', JInt 9)])]"

definition node_server :: json where
  "node_server = JObj [(''id'', JInt 4), (''rate'', JStr ''1.5'')]"

definition sample_traffic :: "(int \<times> traffic_op) list" where
  "sample_traffic = [(50, Report node_report node_server), (60, Flush True), (70, Report JNull node_server), (80, Report node_report node_server)]"

text \<open>Two reports of 7 up and 9 down at rate 1.5 (10 and 13 after truncation), the first of them flushed.\<close>

theorem traffic_conserved_witness:
  "\<exists>u'. user_by_id (fold (run_traffic_op traffic_codec) sample_traffic traffic_db) 1 = Some u' \<and>
     used_traffic snd u' + cached snd 1 (t_traffic (fold (run_traffic_op traffic_codec) sample_traffic traffic_db)) = 32"
proof -
  have "traffic_ok traffic_db" by code_simp
  moreover have "user_by_id traffic_db 1 = Some sample_user" by code_simp
  moreover have "used_traffic snd sample_user + cached snd 1 (t_traffic traffic_db) = 6" by code_simp
  moreover have "sum_list (map (reported traffic_codec snd 1) sample_traffic) = 26" by code_simp
  ultimately show ?thesis
    using traffic_conserved [of traffic_db 1 sample_user snd traffic_codec sample_traffic] by simp
qed

end
