(* ===== verification/Stats.thy ===== *)
theory Stats
  imports Store Calendar Epay
begin

text \<open>
  The site statistics: the job \<open>aggregate_stats\<close> of \<open>app/queues/jobs/stat.py\<close>, which computes one row
  of the table \<open>stat\<close> for a day or a month, and the queries of \<open>app/services/stat.py\<close>. \<open>tz\<close> is the
  local time zone. A row of a result is a record or a JSON object.
\<close>

section \<open>The aggregation\<close>

record stat_data =
  sd_order_count :: int
  sd_order_total :: int
  sd_commission_count :: int
  sd_commission_total :: int
  sd_paid_count :: int
  sd_paid_total :: int
  sd_register_count :: int
  sd_invite_count :: int
  sd_transfer_used_total :: string

definition stat_count :: "'r table \<Rightarrow> ('r \<Rightarrow> bool) \<Rightarrow> int" where
  "stat_count t P = int (length (filter P (rows t)))"

definition stat_sum :: "'r table \<Rightarrow> ('r \<Rightarrow> int) \<Rightarrow> ('r \<Rightarrow> bool) \<Rightarrow> int" where
  "stat_sum t f P = sum_list (map f (filter P (rows t)))"

definition in_window :: "int \<Rightarrow> int \<Rightarrow> int \<Rightarrow> bool" where
  "in_window a b x \<longleftrightarrow> a \<le> x \<and> x < b"

definition paid_within :: "int \<Rightarrow> int \<Rightarrow> order \<Rightarrow> bool" where
  "paid_within a b r \<longleftrightarrow> (case od_paid_at r of None \<Rightarrow> False | Some p \<Rightarrow> in_window a b p) \<and> od_status r \<notin> {0, 2}"

definition range_end :: "time_zone \<Rightarrow> int \<Rightarrow> string \<Rightarrow> int" where
  "range_end tz start record_type =
     (case ord2ymd (local_seconds tz start div 86400 + 719163) of (y, m, d) \<Rightarrow>
        if record_type = ''m'' then start + days_in_month y m * 86400 else start + 86400)"

definition generate_stat_data :: "int \<Rightarrow> int \<Rightarrow> db \<Rightarrow> stat_data" where
  "generate_stat_data a b db =
     \<lparr>sd_order_count = stat_count (t_orders db) (\<lambda>r. in_window a b (od_created_at r)),
      sd_order_total = stat_sum (t_orders db) od_total_amount (\<lambda>r. in_window a b (od_created_at r)),
      sd_commission_count = stat_count (t_commission_logs db) (\<lambda>r. in_window a b (cl_created_at r)),
      sd_commission_total = stat_sum (t_commission_logs db) cl_get_amount (\<lambda>r. in_window a b (cl_created_at r)),
      sd_paid_count = stat_count (t_orders db) (paid_within a b),
      sd_paid_total = stat_sum (t_orders db) od_total_amount (paid_within a b),
      sd_register_count = stat_count (t_users db) (\<lambda>r. in_window a b (us_created_at r)),
      sd_invite_count = stat_count (t_users db) (\<lambda>r. in_window a b (us_created_at r) \<and> us_invite_user_id r \<noteq> None),
      sd_transfer_used_total = str_int (stat_sum (t_stat_servers db) (\<lambda>r. ss_u r + ss_d r) (\<lambda>r. in_window a b (ss_created_at r)))\<rparr>"

definition blank_stat :: "int \<Rightarrow> stat" where
  "blank_stat record_at = \<lparr>sa_id = 0, sa_record_at = record_at, sa_record_type = [], sa_order_count = 0, sa_order_total = 0,
     sa_commission_count = 0, sa_commission_total = 0, sa_paid_count = 0, sa_paid_total = 0, sa_register_count = 0,
     sa_invite_count = 0, sa_transfer_used_total = [], sa_created_at = 0, sa_updated_at = 0\<rparr>"

definition with_stat_data :: "string \<Rightarrow> stat_data \<Rightarrow> stat \<Rightarrow> stat" where
  "with_stat_data record_type d s = s\<lparr>sa_record_type := record_type,
     sa_order_count := sd_order_count d, sa_order_total := sd_order_total d,
     sa_commission_count := sd_commission_count d, sa_commission_total := sd_commission_total d,
     sa_paid_count := sd_paid_count d, sa_paid_total := sd_paid_total d,
     sa_register_count := sd_register_count d, sa_invite_count := sd_invite_count d,
     sa_transfer_used_total := sd_transfer_used_total d\<rparr>"

text \<open>\<open>record_at\<close> is unique: the row of that start is replaced, whatever its type.\<close>

definition aggregate_stats :: "time_zone \<Rightarrow> int \<Rightarrow> string \<Rightarrow> int \<Rightarrow> db \<Rightarrow> db" where
  "aggregate_stats tz now record_type record_at db =
     (let d = generate_stat_data record_at (range_end tz record_at record_type) db
      in case find (\<lambda>s. sa_record_at s = record_at) (rows (t_stats db)) of
           None \<Rightarrow> db\<lparr>t_stats := repo_create stat_entity now (t_stats db) (with_stat_data record_type d (blank_stat record_at))\<rparr>
         | Some s \<Rightarrow> db\<lparr>t_stats := repo_update stat_entity now (t_stats db) (with_stat_data record_type d s)\<rparr>)"

section \<open>Queries\<close>

definition stats_latest_first :: "db \<Rightarrow> stat list" where
  "stats_latest_first db = sort_key (\<lambda>s. - sa_record_at s) (rows (t_stats db))"

definition order_totals :: "db \<Rightarrow> int \<times> int \<times> int \<times> int" where
  "order_totals db =
     (let paid = (\<lambda>r. od_status r \<notin> {0, 2})
      in (stat_count (t_orders db) (\<lambda>r. True), stat_sum (t_orders db) od_total_amount (\<lambda>r. True),
          stat_count (t_orders db) paid, stat_sum (t_orders db) od_total_amount paid))"

definition transfer_used_total :: "db \<Rightarrow> int" where
  "transfer_used_total db = stat_sum (t_stat_servers db) (\<lambda>r. ss_u r + ss_d r) (\<lambda>r. True)"

text \<open>The latest stored row, or totals over all orders when there is none.\<close>

definition stat_overview :: "db \<Rightarrow> stat + stat_data" where
  "stat_overview db =
     (case stats_latest_first db of
        s # _ \<Rightarrow> Inl s
      | [] \<Rightarrow> (case order_totals db of (n, tot, pn, pt) \<Rightarrow>
          Inr \<lparr>sd_order_count = n, sd_order_total = tot, sd_commission_count = 0, sd_commission_total = 0,
            sd_paid_count = pn, sd_paid_total = pt, sd_register_count = 0, sd_invite_count = 0,
            sd_transfer_used_total = str_int (transfer_used_total db)\<rparr>))"

definition order_series :: "int \<Rightarrow> db \<Rightarrow> stat list" where
  "order_series limit db = take (nat limit) (stats_latest_first db)"

definition period_range :: "int \<Rightarrow> string \<Rightarrow> int \<times> int" where
  "period_range now period =
     (let today = now - now mod 86400 in
      if period \<in> {''last'', ''yesterday''} then (today - 86400, today)
      else if period = ''all'' then (0, 4102444800)
      else (today, today + 86400))"

text \<open>\<open>GROUP BY k\<close> with the sums of \<open>u\<close> and \<open>d\<close>, largest total first; groups of equal totals come
  in the order of their first row.\<close>

definition rank_by :: "('r \<Rightarrow> 'k) \<Rightarrow> ('r \<Rightarrow> int) \<Rightarrow> ('r \<Rightarrow> int) \<Rightarrow> int \<Rightarrow> 'r list \<Rightarrow> ('k \<times> int \<times> int \<times> int) list" where
  "rank_by k u d limit rs =
     (let group_rows = (\<lambda>x. filter (\<lambda>r. k r = x) rs);
          row = (\<lambda>x. let a = sum_list (map u (group_rows x)); b = sum_list (map d (group_rows x)) in (x, a, b, a + b))
      in take (nat limit) (sort_key (\<lambda>(x, a, b, t). - t) (map row (rev (remdups (rev (map k rs)))))))"

definition server_rank :: "int \<Rightarrow> string \<Rightarrow> int \<Rightarrow> db \<Rightarrow> ((int \<times> string) \<times> int \<times> int \<times> int) list" where
  "server_rank now period limit db =
     (case period_range now period of (a, b) \<Rightarrow>
        rank_by (\<lambda>r. (ss_server_id r, ss_server_type r)) ss_u ss_d limit
          (filter (\<lambda>r. in_window a b (ss_record_at r)) (rows (t_stat_servers db))))"

definition user_rank :: "int \<Rightarrow> string \<Rightarrow> int \<Rightarrow> db \<Rightarrow> ((int \<times> pyfloat) \<times> int \<times> int \<times> int) list" where
  "user_rank now period limit db =
     (case period_range now period of (a, b) \<Rightarrow>
        rank_by (\<lambda>r. (su_user_id r, su_server_rate r)) su_u su_d limit
          (filter (\<lambda>r. in_window a b (su_record_at r)) (rows (t_stat_users db))))"

definition user_traffic_log :: "int \<Rightarrow> int \<Rightarrow> db \<Rightarrow> stat_user list" where
  "user_traffic_log i limit db =
     take (nat limit) (sort_key (\<lambda>r. - su_record_at r) (filter (\<lambda>r. su_user_id r = i) (rows (t_stat_users db))))"

section \<open>Facts\<close>

text \<open>The ranges of consecutive days tile the time line: every day's counts add up to those of the
  whole period.\<close>

lemma sum_split: "stat_sum t f (\<lambda>r. in_window a c (x r)) = stat_sum t f (\<lambda>r. in_window a b (x r)) + stat_sum t f (\<lambda>r. in_window b c (x r))"
  if "a \<le> b" "b \<le> c"
proof -
  have "sum_list (map f (filter (\<lambda>r. in_window a c (x r)) rs)) =
      sum_list (map f (filter (\<lambda>r. in_window a b (x r)) rs)) + sum_list (map f (filter (\<lambda>r. in_window b c (x r)) rs))" for rs
    by (induction rs) (use that in \<open>auto simp: in_window_def\<close>)
  then show ?thesis by (simp add: stat_sum_def)
qed

lemma sum_within_days:
  "stat_sum t f (\<lambda>r. in_window a (a + int n * 86400) (x r)) =
     sum_list (map (\<lambda>k. stat_sum t f (\<lambda>r. in_window (a + int k * 86400) (a + int (Suc k) * 86400) (x r))) [0..<n])"
proof (induction n)
  case 0
  show ?case by (simp add: stat_sum_def in_window_def)
next
  case (Suc n)
  have "stat_sum t f (\<lambda>r. in_window a (a + int (Suc n) * 86400) (x r)) =
      stat_sum t f (\<lambda>r. in_window a (a + int n * 86400) (x r)) + stat_sum t f (\<lambda>r. in_window (a + int n * 86400) (a + int (Suc n) * 86400) (x r))"
    by (rule sum_split) simp_all
  then show ?case using Suc.IH by simp
qed

definition stat_starts_unique :: "db \<Rightarrow> bool" where
  "stat_starts_unique db \<longleftrightarrow> wf_table stat_entity (t_stats db) \<and> distinct (map sa_record_at (rows (t_stats db)))"

lemma with_stat_data_keys [simp]:
  "sa_record_at (with_stat_data ty d s) = sa_record_at s" "sa_id (with_stat_data ty d s) = sa_id s"
  by (simp_all add: with_stat_data_def)

lemma stored_stat_at [simp]:
  "sa_record_at (stored stat_entity now x s) = sa_record_at s" "sa_id (stored stat_entity now x s) = sa_id s"
  by (auto simp: stored_def stat_entity_def)

lemma aggregate_keeps_unique:
  assumes "stat_starts_unique db"
  shows "stat_starts_unique (aggregate_stats tz now ty start db)"
proof (cases "find (\<lambda>s. sa_record_at s = start) (rows (t_stats db))")
  case None
  then have "\<forall>s\<in>set (rows (t_stats db)). sa_record_at s \<noteq> start" by (auto simp: find_None_iff)
  moreover have "sa_record_at (new_row stat_entity now t (with_stat_data ty d (blank_stat start))) = start" for t d
    by (simp add: new_row_def stat_entity_def with_stat_data_def blank_stat_def)
  ultimately show ?thesis using assms None stats.wf_create [of "t_stats db" now]
    by (auto simp: stat_starts_unique_def aggregate_stats_def)
next
  case (Some s)
  then have s: "s \<in> set (rows (t_stats db))" "sa_record_at s = start" by (auto dest: find_Some_set)
  have wf: "wf_table stat_entity (t_stats db)" using assms by (simp add: stat_starts_unique_def)
  have same: "map sa_record_at (rows (repo_update stat_entity now (t_stats db) (with_stat_data ty d s))) = map sa_record_at (rows (t_stats db))" for d
  proof -
    have "sa_record_at (if sa_id x = sa_id s then stored stat_entity now x (with_stat_data ty d s) else x) = sa_record_at x"
      if "x \<in> set (rows (t_stats db))" for x
      using wf_same_row [OF wf that s(1)] by auto
    then show ?thesis by (simp add: rows_repo_update)
  qed
  show ?thesis using assms Some same stats.wf_update [OF wf, of now]
    by (simp add: stat_starts_unique_def aggregate_stats_def)
qed

end
