(* ===== verification/Mail.thy ===== *)
theory Mail
  imports Samples LogEvents Epay Coupons
begin

text \<open>
  Messages: the mail service (\<open>app/services/mail.py\<close>), the job \<open>send_mail\<close> of
  \<open>app/queues/jobs/mail.py\<close>, the job \<open>send_telegram\<close> of \<open>app/queues/jobs/telegram.py\<close>, the query of
  \<open>app/repositories/log_event.py\<close> behind the mail log, and the template name of
  \<open>app/utils/template.py\<close>. Jinja, SMTP and the Telegram API are parameters: the model keeps what is
  sent to them and what the program does with their exceptions. An exception is the name of its type and
  its text.
\<close>

type_synonym raised = "string \<times> string"

datatype rendered = Rendered string | TemplateNotFound | RenderError raised

record mail_message =
  msg_subject :: string
  msg_from :: string
  msg_to :: string
  msg_body :: string

record smtp_login =
  smtp_host :: string
  smtp_port :: int
  smtp_username :: string
  smtp_password :: string
  smtp_encryption :: string

record mailer =
  ml_render :: "string \<Rightarrow> (string \<times> json) list \<Rightarrow> rendered"
  ml_smtp :: "smtp_login \<Rightarrow> mail_message \<Rightarrow> raised option"
  ml_telegram :: "string \<Rightarrow> int \<Rightarrow> string \<Rightarrow> string \<Rightarrow> raised option"
  ml_raised :: "exn \<Rightarrow> raised"

section \<open>Log queries\<close>

record log_query =
  lq_category :: string
  lq_level :: string
  lq_event :: string
  lq_request_id :: string
  lq_actor_id :: "int option"
  lq_ip :: string
  lq_q :: string

definition any_log :: log_query where
  "any_log = \<lparr>lq_category = [], lq_level = [], lq_event = [], lq_request_id = [], lq_actor_id = None, lq_ip = [], lq_q = []\<rparr>"

definition some_ilike :: "string option \<Rightarrow> string \<Rightarrow> bool" where
  "some_ilike v pat = (case v of None \<Rightarrow> False | Some s \<Rightarrow> ilike s pat)"

definition log_matches :: "log_query \<Rightarrow> log_event \<Rightarrow> bool" where
  "log_matches Q e \<longleftrightarrow>
     (lq_category Q = [] \<or> le_category e = lq_category Q) \<and> (lq_level Q = [] \<or> le_level e = lq_level Q) \<and>
     (lq_event Q = [] \<or> le_event e = lq_event Q) \<and> (lq_request_id Q = [] \<or> le_request_id e = Some (lq_request_id Q)) \<and>
     (lq_actor_id Q = None \<or> le_actor_id e = lq_actor_id Q) \<and> (lq_ip Q = [] \<or> le_ip e = Some (lq_ip Q)) \<and>
     (lq_q Q = [] \<or> (let pat = ''%'' @ strip (lq_q Q) @ ''%'' in
        ilike (le_message e) pat \<or> some_ilike (le_path e) pat \<or> ilike (le_event e) pat \<or> some_ilike (le_request_id e) pat))"

definition log_events_all :: "db \<Rightarrow> int \<Rightarrow> int \<Rightarrow> log_query \<Rightarrow> log_event list" where
  "log_events_all db offset limit Q =
     paginate offset limit (sort_key (\<lambda>e. (- le_created_at e, - le_id e)) (filter (log_matches Q) (rows (t_log_events db))))"

definition log_event_by_id :: "db \<Rightarrow> int \<Rightarrow> log_event option" where
  "log_event_by_id db i = repo_get log_event_entity (t_log_events db) i"

section \<open>Composing a message\<close>

definition resolve_name :: "string \<Rightarrow> string" where
  "resolve_name s =
     (if list_ex (\<lambda>x. starts_with (rev x) (rev s)) [''.html'', ''.txt'', ''.jinja2'', ''.j2''] then s else s @ ''.html'')"

record mail_send =
  md_email :: string
  md_subject :: string
  md_template_name :: string
  md_template_value :: "(string \<times> json) list"

text \<open>The common part of the two senders; \<open>fail\<close> is the exception for a missing configuration or
  template.\<close>

definition deliver_mail :: "mailer \<Rightarrow> (string \<Rightarrow> exn) \<Rightarrow> smtp_login \<Rightarrow> string \<Rightarrow> string \<Rightarrow> mail_send \<Rightarrow> raised option" where
  "deliver_mail M fail login from app_name m =
     (if smtp_host login = [] \<or> smtp_port login = 0 \<or> from = [] then Some (ml_raised M (fail ''SMTP configuration incomplete''))
      else (case ml_render M (resolve_name (''mail/'' @ md_template_name m)) (set_default ''name'' (JStr app_name) (md_template_value m)) of
          TemplateNotFound \<Rightarrow> Some (ml_raised M (fail ''mail template missing''))
        | RenderError e \<Rightarrow> Some e
        | Rendered body \<Rightarrow> ml_smtp M login \<lparr>msg_subject = md_subject m, msg_from = from, msg_to = md_email m, msg_body = body\<rparr>))"

definition error_text :: "raised option \<Rightarrow> string" where
  "error_text e = (case e of None \<Rightarrow> [] | Some x \<Rightarrow> snd x)"

definition mail_event :: "mail_send \<Rightarrow> raised option \<Rightarrow> log_event" where
  "mail_event m e = log_defaults\<lparr>le_level := (if error_text e \<noteq> [] then ''error'' else ''info''), le_category := ''mail'',
     le_event := (if error_text e \<noteq> [] then ''mail.failed'' else ''mail.sent''), le_message := md_subject m,
     le_target_type := Some ''email'', le_target_id := Some (md_email m),
     le_data := JObj [(''email'', JStr (md_email m)), (''subject'', JStr (md_subject m)), (''template_name'', JStr (md_template_name m)),
       (''error'', case e of None \<Rightarrow> JNull | Some x \<Rightarrow> JStr (snd x))],
     le_error_type := map_option fst e\<rparr>"

section \<open>The mail service\<close>

text \<open>\<open>_send_email\<close> of the service reads its configuration through the settings service; a value of
  \<open>email_port\<close> that is no integer is a \<open>ValueError\<close>, raised before the later reads.\<close>

definition service_send :: "mailer \<Rightarrow> setting_service \<Rightarrow> int \<Rightarrow> mail_send \<Rightarrow> db \<Rightarrow> raised option \<times> db" where
  "service_send M S now m db =
     (case get_str S now ''email_host'' [] db of (host, db1) \<Rightarrow>
      (case get_int S now ''email_port'' 0 db1 of
         Inl e \<Rightarrow> (Some (ml_raised M e), snd (get_cached S now ''email_port'' db1))
       | Inr (port, db2) \<Rightarrow>
      (case get_str S now ''email_username'' [] db2 of (username, db3) \<Rightarrow>
      (case get_str S now ''email_password'' [] db3 of (password, db4) \<Rightarrow>
      (case get_str S now ''email_encryption'' [] db4 of (encryption, db5) \<Rightarrow>
      (case get_str S now ''email_from_address'' [] db5 of (from, db6) \<Rightarrow>
      (case get_str S now ''app_name'' ''PyBoard'' db6 of (app_name, db7) \<Rightarrow>
         (deliver_mail M BadRequest \<lparr>smtp_host = host, smtp_port = port, smtp_username = username, smtp_password = password,
            smtp_encryption = lower encryption\<rparr> from app_name m, db7))))))))"

definition send_mail_now :: "mailer \<Rightarrow> setting_service \<Rightarrow> int \<Rightarrow> mail_send \<Rightarrow> db \<Rightarrow> bool \<times> db" where
  "send_mail_now M S now m db =
     (case service_send M S now m db of (e, db1) \<Rightarrow> (e = None, create_log_event now (mail_event m e) db1))"

record mail_log =
  mg_id :: int
  mg_email :: string
  mg_subject :: string
  mg_template_name :: string
  mg_error :: "string option"
  mg_created_at :: int
  mg_updated_at :: int

definition first_text :: "codec \<Rightarrow> json list \<Rightarrow> string" where
  "first_text C vs = (case filter json_truthy vs of [] \<Rightarrow> [] | v # _ \<Rightarrow> py_str C v)"

definition mail_log_of :: "codec \<Rightarrow> log_event \<Rightarrow> mail_log" where
  "mail_log_of C e =
     (let kvs = (case le_data e of JObj x \<Rightarrow> x | _ \<Rightarrow> []); field = (\<lambda>k. json_get kvs k JNull)
      in \<lparr>mg_id = le_id e,
          mg_email = first_text C [field ''email'', (case le_target_id e of None \<Rightarrow> JNull | Some s \<Rightarrow> JStr s)],
          mg_subject = first_text C [field ''subject'', JStr (le_message e)],
          mg_template_name = first_text C [field ''template_name''],
          mg_error = (if field ''error'' = JNull then None else Some (py_str C (field ''error''))),
          mg_created_at = le_created_at e, mg_updated_at = le_updated_at e\<rparr>)"

definition list_mail_logs :: "codec \<Rightarrow> int \<Rightarrow> int \<Rightarrow> db \<Rightarrow> mail_log list" where
  "list_mail_logs C offset limit db = map (mail_log_of C) (log_events_all db offset limit (any_log\<lparr>lq_category := ''mail''\<rparr>))"

definition get_mail_log :: "codec \<Rightarrow> int \<Rightarrow> db \<Rightarrow> exn + mail_log" where
  "get_mail_log C i db =
     (case log_event_by_id db i of
        None \<Rightarrow> Inl (NotFound ''mail log'')
      | Some e \<Rightarrow> guardE (le_category e \<noteq> ''mail'') (NotFound ''mail log'') (Inr (mail_log_of C e)))"

section \<open>The jobs\<close>

definition raw_setting :: "db \<Rightarrow> string \<Rightarrow> string \<Rightarrow> string" where
  "raw_setting db k d = (case setting_by_key db k of None \<Rightarrow> d | Some s \<Rightarrow> st_value s)"

definition job_send :: "mailer \<Rightarrow> mail_send \<Rightarrow> db \<Rightarrow> raised option" where
  "job_send M m db =
     (case (let p = raw_setting db ''email_port'' ''0'' in if p = [] then Some 0 else py_int p) of
        None \<Rightarrow> Some (ml_raised M ValueError)
      | Some port \<Rightarrow>
          deliver_mail M RuntimeError \<lparr>smtp_host = raw_setting db ''email_host'' [], smtp_port = port,
            smtp_username = raw_setting db ''email_username'' [], smtp_password = raw_setting db ''email_password'' [],
            smtp_encryption = lower (raw_setting db ''email_encryption'' [])\<rparr>
            (raw_setting db ''email_from_address'' []) (raw_setting db ''app_name'' ''PyBoard'') m)"

text \<open>The log event is committed before the job raises.\<close>

definition send_mail_job :: "mailer \<Rightarrow> int \<Rightarrow> mail_send \<Rightarrow> db \<Rightarrow> raised option \<times> db" where
  "send_mail_job M now m db =
     (let e = job_send M m db
      in (if error_text e \<noteq> [] then Some (''RuntimeError'', error_text e) else None, create_log_event now (mail_event m e) db))"

definition escape_markdown :: "string \<Rightarrow> string" where
  "escape_markdown s = concat (map (\<lambda>c. if c = CHR ''_'' then [bs, c] else [c]) s)"

definition send_telegram_job :: "mailer \<Rightarrow> int \<Rightarrow> string \<Rightarrow> string \<Rightarrow> db \<Rightarrow> raised option" where
  "send_telegram_job M telegram_id txt parse_mode db =
     (let token = raw_setting db ''telegram_bot_token'' [] in
      if token = [] then Some (''RuntimeError'', ''no telegram bot token'')
      else ml_telegram M token telegram_id (if parse_mode = ''markdown'' then escape_markdown txt else txt) parse_mode)"

section \<open>Facts\<close>

text \<open>The mail log of a send shows its address, subject, template and error again.\<close>

lemma mail_log_shows:
  "mail_log_of C ((mail_event m e)\<lparr>le_id := i\<rparr>) =
     \<lparr>mg_id = i, mg_email = md_email m, mg_subject = md_subject m, mg_template_name = md_template_name m,
      mg_error = map_option snd e, mg_created_at = 0, mg_updated_at = 0\<rparr>"
  by (auto simp: mail_log_of_def mail_event_def log_defaults_def json_get_def first_text_def json_truthy_def py_str_def Let_def split: option.split)

lemma send_mail_job_tables:
  "t_queue_jobs (snd (send_mail_job M now m db)) = t_queue_jobs db"
  by (simp add: send_mail_job_def Let_def)

end
