(* ===== verification/Jobs.thy ===== *)
theory Jobs
  imports Queue Traffic Stats Mail OrderFacts
begin

text \<open>
  The registry of the worker (\<open>JOB_REGISTRY\<close> of \<open>app/queues/worker.py\<close>) and the periodic jobs of
  \<open>app/queues/jobs/maintenance.py\<close>, \<open>order.py\<close> and \<open>commission.py\<close>. A job binds the stored positional and
  keyword arguments to its parameters; a value of another type than the parameter declares is a
  \<open>TypeError\<close>. A job that raises leaves the database as it found it (its session is rolled back), apart
  from the mail event that \<open>send_mail\<close> commits first. \<open>job_runner\<close> is interpreted on this registry: its
  jobs keep the queue, except that \<open>check_order\<close> puts jobs into the queue \<open>order_handle\<close>.
\<close>

record job_env =
  je_orders :: order_env
  je_queue :: queue_config
  je_mailer :: mailer
  je_lock_free :: "int \<Rightarrow> bool"
  je_after :: "int \<Rightarrow> json \<Rightarrow> exn + int"

section \<open>Calling a job\<close>

text \<open>\<open>func(ctx, *args, **kwargs)\<close>: the parameters after \<open>ctx\<close> with their defaults.\<close>

definition bind_args :: "(string \<times> json option) list \<Rightarrow> json list \<Rightarrow> (string \<times> json) list \<Rightarrow> exn + json list" where
  "bind_args params args kws =
     (let rest = drop (length args) params in
      if length params < length args \<or> \<not> list_all (\<lambda>kv. fst kv \<in> set (map fst rest)) kws then Inl TypeError
      else bindE (mapE (\<lambda>p. case map_of kws (fst p) of
             Some v \<Rightarrow> Inr v
           | None \<Rightarrow> (case snd p of Some v \<Rightarrow> Inr v | None \<Rightarrow> Inl TypeError)) rest) (\<lambda>vs. Inr (args @ vs)))"

definition str_arg :: "json \<Rightarrow> exn + string" where
  "str_arg v = (case v of JStr s \<Rightarrow> Inr s | _ \<Rightarrow> Inl TypeError)"

definition int_arg :: "json \<Rightarrow> exn + int" where
  "int_arg v = (case v of JInt n \<Rightarrow> Inr n | _ \<Rightarrow> Inl TypeError)"

definition obj_arg :: "json \<Rightarrow> exn + (string \<times> json) list" where
  "obj_arg v = (case v of JObj kvs \<Rightarrow> Inr kvs | JNull \<Rightarrow> Inr [] | _ \<Rightarrow> Inl TypeError)"

type_synonym job_body = "job_env \<Rightarrow> int \<Rightarrow> queue_job \<Rightarrow> json list \<Rightarrow> db \<Rightarrow> raised option \<times> db"

text \<open>A job whose session is rolled back when it raises.\<close>

definition transaction :: "job_env \<Rightarrow> db \<Rightarrow> exn + db \<Rightarrow> raised option \<times> db" where
  "transaction E db r = (case r of Inl e \<Rightarrow> (Some (ml_raised (je_mailer E) e), db) | Inr db' \<Rightarrow> (None, db'))"

text \<open>The jobs build their settings service without the runtime cache.\<close>

definition job_orders :: "job_env \<Rightarrow> order_env" where
  "job_orders E = (je_orders E)\<lparr>oe_settings := (oe_settings (je_orders E))\<lparr>sv_cached := False\<rparr>\<rparr>"

abbreviation job_codec :: "job_env \<Rightarrow> codec" where
  "job_codec E \<equiv> oe_codec (je_orders E)"

section \<open>The jobs\<close>

definition order_handle_job :: job_body where
  "order_handle_job E now j args db =
     transaction E db (bindE (str_arg (args ! 0)) (\<lambda>tn. order_handle (job_orders E) now tn db))"

definition calc_commission :: job_body where
  "calc_commission E now j args db =
     transaction E db (bindE (int_arg (args ! 0)) (\<lambda>i.
       case order_by_id db i of None \<Rightarrow> Inr db | Some r \<Rightarrow> calculate_for_order (oe_settings (job_orders E)) now (od_id r) db))"

definition send_mail :: job_body where
  "send_mail E now j args db =
     (case bindE (str_arg (args ! 0)) (\<lambda>email. bindE (str_arg (args ! 1)) (\<lambda>subject. bindE (str_arg (args ! 2)) (\<lambda>template.
             bindE (obj_arg (args ! 3)) (\<lambda>ctx. Inr \<lparr>md_email = email, md_subject = subject, md_template_name = template, md_template_value = ctx\<rparr>)))) of
        Inl e \<Rightarrow> (Some (ml_raised (je_mailer E) e), db)
      | Inr m \<Rightarrow> send_mail_job (je_mailer E) now m db)"

definition send_telegram :: job_body where
  "send_telegram E now j args db =
     (case bindE (int_arg (args ! 0)) (\<lambda>i. bindE (str_arg (args ! 1)) (\<lambda>s. bindE (str_arg (args ! 2)) (\<lambda>p. Inr (i, s, p)))) of
        Inl e \<Rightarrow> (Some (ml_raised (je_mailer E) e), db)
      | Inr (i, s, p) \<Rightarrow> (send_telegram_job (je_mailer E) i s p db, db))"

definition aggregate_stats_job :: job_body where
  "aggregate_stats_job E now j args db =
     transaction E db (bindE (str_arg (args ! 0)) (\<lambda>ty. bindE (int_of_json (args ! 1)) (\<lambda>start.
       Inr (aggregate_stats (oe_tz (je_orders E)) now ty start db))))"

definition aggregate_yesterday_stats :: job_body where
  "aggregate_yesterday_stats E now j args db =
     transaction E db (Inr (aggregate_stats (oe_tz (je_orders E)) now ''d'' (day_start now - 86400) db))"

definition traffic_update_job :: job_body where
  "traffic_update_job E now j args db = transaction E db (Inr (traffic_update now (je_lock_free E now) db))"

definition traffic_fetch_job :: job_body where
  "traffic_fetch_job E now j args db = transaction E db (traffic_fetch (job_codec E) (args ! 0) (args ! 1) db)"

definition run_stat_user :: job_body where
  "run_stat_user E now j args db =
     transaction E db (bindE (str_arg (args ! 3)) (\<lambda>ty. stat_user_job (job_codec E) now (args ! 0) (args ! 1) ty db))"

definition run_stat_server :: job_body where
  "run_stat_server E now j args db =
     transaction E db (bindE (str_arg (args ! 2)) (\<lambda>p. bindE (str_arg (args ! 3)) (\<lambda>ty.
       stat_server_job now (args ! 0) (args ! 1) p ty db)))"

definition cleanup_log_events :: job_body where
  "cleanup_log_events E now j args db =
     (case cleanup_log_events_by_retention now None db of (deleted, db1) \<Rightarrow>
        (None, create_log_event now (log_defaults\<lparr>le_category := ''system'', le_event := ''log.cleanup'',
           le_message := ''log retention cleanup done'',
           le_data := JObj [(''deleted'', JObj (map (\<lambda>(c, n). (c, JInt n)) deleted))]\<rparr>) db1))"

text \<open>The queue client of a job has the job's own queue as its default.\<close>

definition ctx_queue :: "job_env \<Rightarrow> queue_job \<Rightarrow> queue_config" where
  "ctx_queue E j = (if qj_queue j = [] then je_queue E else (je_queue E)\<lparr>qc_default_name := qj_queue j\<rparr>)"

definition order_handle_queue :: string where
  "order_handle_queue = ''order_handle''"

definition enqueue_order :: "job_env \<Rightarrow> int \<Rightarrow> queue_job \<Rightarrow> order \<Rightarrow> db \<Rightarrow> exn + db" where
  "enqueue_order E now j r db =
     bindE (enqueue_job (ctx_queue E j) now (je_after E now) ''order_handle'' [JStr (od_trade_no r)]
       [(''_queue_name'', JStr order_handle_queue), (''_job_id'', JStr (''order_handle:'' @ od_trade_no r))] db) (\<lambda>(i, db'). Inr db')"

definition open_orders :: "db \<Rightarrow> order list" where
  "open_orders db = sort_key od_created_at (filter (\<lambda>r. od_status r \<in> {0, 1}) (rows (t_orders db)))"

definition check_order :: job_body where
  "check_order E now j args db = transaction E db (foldE (enqueue_order E now j) (open_orders db) db)"

section \<open>The registry\<close>

definition job_registry :: "(string \<times> (string \<times> json option) list \<times> job_body) list" where
  "job_registry =
     [(''send_mail'', [(''email'', None), (''subject'', None), (''template_name'', None), (''template_value'', Some JNull)], send_mail),
      (''send_telegram'', [(''telegram_id'', None), (''text'', None), (''parse_mode'', Some (JStr ''markdown''))], send_telegram),
      (''order_handle'', [(''trade_no'', None)], order_handle_job),
      (''calc_commission'', [(''order_id'', None)], calc_commission),
      (''aggregate_stats'', [(''record_type'', None), (''record_at'', None)], aggregate_stats_job),
      (''traffic_update'', [], traffic_update_job),
      (''check_order'', [], check_order),
      (''aggregate_yesterday_stats'', [], aggregate_yesterday_stats),
      (''cleanup_log_events'', [], cleanup_log_events),
      (''traffic_fetch'', [(''data'', None), (''server'', None), (''protocol'', None)], traffic_fetch_job),
      (''stat_user'', [(''data'', None), (''server'', None), (''protocol'', None), (''record_type'', Some (JStr ''d''))], run_stat_user),
      (''stat_server'', [(''data'', None), (''server'', None), (''protocol'', None), (''record_type'', Some (JStr ''d''))], run_stat_server)]"

definition call_job :: "job_env \<Rightarrow> (string \<times> json option) list \<Rightarrow> job_body \<Rightarrow> int \<Rightarrow> queue_job \<Rightarrow> db \<Rightarrow> raised option \<times> db" where
  "call_job E params body now j db =
     (case bind_args params (qj_args j) (qj_kwargs j) of
        Inl e \<Rightarrow> (Some (ml_raised (je_mailer E) e), db)
      | Inr args \<Rightarrow> body E now j args db)"

definition perform_job :: "job_env \<Rightarrow> performer" where
  "perform_job E now j =
     map_option (\<lambda>(params, body) db. call_job E params body now j db) (map_of job_registry (qj_job_name j))"

section \<open>The jobs and the queue\<close>

abbreviation same_queue :: "db \<Rightarrow> db \<Rightarrow> bool" where
  "same_queue db db' \<equiv> t_queue_jobs db' = t_queue_jobs db"

lemma get_int_queue: "get_int S now k d db = Inr (n, db') \<Longrightarrow> same_queue db db'"
  by (auto dest: get_int_state)

lemma put_queue [simp]:
  "t_queue_jobs (put_order now db r) = t_queue_jobs db" "t_queue_jobs (put_user now db u) = t_queue_jobs db"
  "t_queue_jobs (put_coupon now db c) = t_queue_jobs db" "t_queue_jobs (set_commission_status now db r s) = t_queue_jobs db"
  by (simp_all add: store set_commission_status_def)

lemma grant_commission_queue: "grant_commission now r iv a rate db = Inr db' \<Longrightarrow> same_queue db db'"
  by (auto simp: grant_commission_def insert_commission_log_def Let_def result_simps)

lemma commission_for_inviter_queue: "commission_for_inviter S now r iv db = Inr db' \<Longrightarrow> same_queue db db'"
  by (auto simp: commission_for_inviter_def Let_def result_simps split: if_splits
      dest!: get_int_queue grant_commission_queue)

lemma calculate_queue: "calculate_for_order S now oid db = Inr db' \<Longrightarrow> same_queue db db'"
  by (auto simp: calculate_for_order_def Let_def split: option.splits if_splits dest!: commission_for_inviter_queue)

lemma consume_queue: "consume_for_paid_order C now r db = Inr db' \<Longrightarrow> same_queue db db'"
  by (auto simp: consume_for_paid_order_def result_simps split: option.splits)

lemma fulfil_deposit_queue: "fulfil_deposit E now r u db = Inr db' \<Longrightarrow> same_queue db db'"
  by (auto simp: fulfil_deposit_def result_simps dest!: deposit_bonus_shape)

lemma fulfil_plan_queue: "fulfil_plan E now r u db = Inr db' \<Longrightarrow> same_queue db db'"
  by (auto simp: fulfil_plan_def result_simps split: option.splits if_splits dest!: consume_queue)

lemma complete_order_queue: "complete_order E now r cb aty aid db = Inr db' \<Longrightarrow> same_queue db db'"
  by (auto simp: complete_order_def Let_def log_order_event_def result_simps split: if_splits dest!: calculate_queue)

lemma process_paid_queue: "process_paid_order E now oid cb aty aid db = Inr db' \<Longrightarrow> same_queue db db'"
  by (auto simp: process_paid_order_def Let_def result_simps split: option.splits if_splits
      dest!: complete_order_queue fulfil_plan_queue fulfil_deposit_queue)

lemma order_handle_queue_kept: "order_handle E now tn db = Inr db' \<Longrightarrow> same_queue db db'"
  by (auto simp: order_handle_def split: option.splits if_splits dest!: process_paid_queue)

lemma traffic_fetch_queue: "traffic_fetch C d s db = Inr db' \<Longrightarrow> same_queue db db'"
  by (auto simp: traffic_fetch_report result_simps)

lemma traffic_update_queue: "same_queue db (traffic_update now l db)"
  by (simp add: traffic_update_def flush_traffic_cache_to_users_def apply_processing_traffic_def Let_def)

lemma stat_jobs_queue:
  "stat_user_job C now d s ty db = Inr db' \<Longrightarrow> same_queue db db'"
  "stat_server_job now d s p ty db = Inr db' \<Longrightarrow> same_queue db db'"
  by (auto simp: stat_user_job_def record_stat_user_def stat_server_job_def record_stat_server_def Let_def result_simps
      split: if_splits option.splits)

lemma aggregate_queue: "same_queue db (aggregate_stats tz now ty a db)"
  by (simp add: aggregate_stats_def Let_def split: option.split)

lemma cleanup_queue: "same_queue db (snd (cleanup_categories now ps db))"
  by (induction now ps db rule: cleanup_categories.induct) (auto simp: Let_def split_beta split: option.split)

lemma transaction_queue: "(\<And>db'. r = Inr db' \<Longrightarrow> same_queue db db') \<Longrightarrow> same_queue db (snd (transaction E db r))"
  by (cases r) (simp_all add: transaction_def)

lemmas job_queue_facts = order_handle_queue_kept calculate_queue traffic_fetch_queue stat_jobs_queue

lemma quiet_jobs:
  "same_queue db (snd (order_handle_job E now j args db))" "same_queue db (snd (calc_commission E now j args db))"
  "same_queue db (snd (send_mail E now j args db))" "same_queue db (snd (send_telegram E now j args db))"
  "same_queue db (snd (aggregate_stats_job E now j args db))" "same_queue db (snd (aggregate_yesterday_stats E now j args db))"
  "same_queue db (snd (traffic_update_job E now j args db))" "same_queue db (snd (traffic_fetch_job E now j args db))"
  "same_queue db (snd (run_stat_user E now j args db))" "same_queue db (snd (run_stat_server E now j args db))"
  "same_queue db (snd (cleanup_log_events E now j args db))"
proof -
  show "same_queue db (snd (order_handle_job E now j args db))" "same_queue db (snd (calc_commission E now j args db))"
    "same_queue db (snd (traffic_fetch_job E now j args db))" "same_queue db (snd (run_stat_user E now j args db))"
    "same_queue db (snd (run_stat_server E now j args db))"
    unfolding order_handle_job_def calc_commission_def traffic_fetch_job_def run_stat_user_def run_stat_server_def
    by (rule transaction_queue; auto simp: bindE_eq_Inr split: option.splits dest: job_queue_facts)+
  show "same_queue db (snd (aggregate_stats_job E now j args db))" "same_queue db (snd (aggregate_yesterday_stats E now j args db))"
    "same_queue db (snd (traffic_update_job E now j args db))"
    unfolding aggregate_stats_job_def aggregate_yesterday_stats_def traffic_update_job_def
    by (rule transaction_queue; auto simp: bindE_eq_Inr aggregate_queue traffic_update_queue)+
  show "same_queue db (snd (send_mail E now j args db))"
    by (simp add: send_mail_def send_mail_job_tables split: sum.split)
  show "same_queue db (snd (send_telegram E now j args db))"
    by (simp add: send_telegram_def split: sum.split prod.split)
  show "same_queue db (snd (cleanup_log_events E now j args db))"
    using cleanup_queue [of now retention_policies db]
    by (simp add: cleanup_log_events_def cleanup_log_events_by_retention_def truthy_def split_beta)
qed

text \<open>What the worker of the program may rely on: only the queue \<open>order_handle\<close> receives jobs.\<close>

definition worker_queues :: "string set" where
  "worker_queues = UNIV - {order_handle_queue}"

lemma queued_job_ctx: "queued_job (ctx_queue E j) = queued_job (je_queue E)"
  by (intro ext) (simp add: queued_job_def ctx_queue_def)

lemma queue_ext_ctx: "queue_ext (ctx_queue E j) W db db' \<Longrightarrow> queue_ext (je_queue E) W db db'"
proof (induction rule: queue_ext.induct)
  case (same db' db)
  then show ?case by (rule queue_ext.same)
next
  case (enqueue db db1 j' qn jn key args kws due db2 now)
  from enqueue.hyps(2) have "j' = queued_job (je_queue E) qn jn key args kws due" unfolding queued_job_ctx .
  from queue_ext.enqueue [OF enqueue.IH this enqueue.hyps(3-5)] show ?case .
qed

lemma enqueue_order_ext:
  assumes "enqueue_order E now j r db = Inr db'"
  shows "queue_ext (je_queue E) worker_queues db db'"
proof -
  from assms obtain i where e: "enqueue_job (ctx_queue E j) now (je_after E now) ''order_handle'' [JStr (od_trade_no r)]
      [(''_queue_name'', JStr order_handle_queue), (''_job_id'', JStr (''order_handle:'' @ od_trade_no r))] db = Inr (i, db')"
    by (auto simp: enqueue_order_def bindE_eq_Inr)
  have "queue_ext (ctx_queue E j) worker_queues db db'"
    by (rule enqueue_job_ext [OF e]) (simp add: json_get_def py_str_def worker_queues_def)
  then show ?thesis by (rule queue_ext_ctx)
qed

lemma check_order_ext: "queue_ext (je_queue E) worker_queues db (snd (check_order E now j args db))"
proof -
  have "queue_ext (je_queue E) worker_queues db db'" if "foldE (enqueue_order E now j) rs db = Inr db'" for rs db'
    by (rule foldE_invariant [OF that, where P = "queue_ext (je_queue E) worker_queues db"])
      (auto intro: queue_ext.same enqueue_order_ext dest: queue_ext_trans [rotated])
  then show ?thesis by (auto simp: check_order_def transaction_def intro: queue_ext.same split: sum.split)
qed

lemma registry_jobs:
  assumes "map_of job_registry k = Some (params, body)"
  shows "body = check_order \<or> (\<forall>E now j args db. same_queue db (snd (body E now j args db)))"
proof -
  from map_of_SomeD [OF assms] have "(k, params, body) \<in> set job_registry" .
  then have "body \<in> {check_order, order_handle_job, calc_commission, send_mail, send_telegram, aggregate_stats_job,
      aggregate_yesterday_stats, traffic_update_job, traffic_fetch_job, run_stat_user, run_stat_server, cleanup_log_events}"
    unfolding job_registry_def by auto
  then show ?thesis using quiet_jobs by (elim insertE emptyE) simp_all
qed

lemma perform_keeps:
  assumes "perform_job E now j = Some f"
  shows "queue_ext (je_queue E) worker_queues db (snd (f db))"
proof -
  from assms obtain params body where
    m: "map_of job_registry (qj_job_name j) = Some (params, body)" and f: "f db = call_job E params body now j db" for db
    by (auto simp: perform_job_def)
  show ?thesis
  proof (cases "bind_args params (qj_args j) (qj_kwargs j)")
    case (Inl e)
    then show ?thesis by (simp add: f call_job_def queue_ext.same)
  next
    case (Inr args)
    then have "f db = body E now j args db" by (simp add: f call_job_def)
    then show ?thesis using registry_jobs [OF m] check_order_ext queue_ext.same by metis
  qed
qed

interpretation worker: job_runner "je_queue E" "perform_job E" worker_queues for E
  by unfold_locales (rule perform_keeps)

end
