(* ===== verification/AdminTools.thy ===== *)
theory AdminTools
  imports Jobs
begin

text \<open>
  \<open>app/services/admin_tools.py\<close> (the log viewer, the failed jobs and their retry) and the queue
  figures of \<open>app/services/system.py\<close>; then the properties of the queue as a whole: histories of
  enqueued jobs, worker rounds and retries.
\<close>

section \<open>Logs\<close>

definition list_logs :: "int \<Rightarrow> int \<Rightarrow> log_query \<Rightarrow> db \<Rightarrow> log_event list" where
  "list_logs offset limit Q db = log_events_all db offset limit Q"

definition get_log :: "int \<Rightarrow> db \<Rightarrow> exn + log_event" where
  "get_log i db = (case log_event_by_id db i of None \<Rightarrow> Inl (NotFound ''log'') | Some e \<Rightarrow> Inr e)"

definition delete_log :: "int \<Rightarrow> db \<Rightarrow> exn + db" where
  "delete_log i db =
     bindE (get_log i db) (\<lambda>e.
       guardE (is_protected_category (le_category e)) (BadRequest ''protected log category'')
         (Inr (db\<lparr>t_log_events := repo_delete log_event_entity (t_log_events db) e\<rparr>)))"

section \<open>Failed jobs\<close>

definition list_failed_jobs :: "int \<Rightarrow> int \<Rightarrow> db \<Rightarrow> failed_job list" where
  "list_failed_jobs offset limit db = paginate offset limit (sort_key (\<lambda>f. - fj_id f) (rows (t_failed_jobs db)))"

definition get_failed_job :: "int \<Rightarrow> db \<Rightarrow> exn + failed_job" where
  "get_failed_job i db =
     (case repo_get failed_job_entity (t_failed_jobs db) i of None \<Rightarrow> Inl (NotFound ''failed job'') | Some f \<Rightarrow> Inr f)"

definition drop_failed_job :: "failed_job \<Rightarrow> db \<Rightarrow> db" where
  "drop_failed_job f db = db\<lparr>t_failed_jobs := repo_delete failed_job_entity (t_failed_jobs db) f\<rparr>"

definition delete_failed_job :: "int \<Rightarrow> db \<Rightarrow> exn + db" where
  "delete_failed_job i db = bindE (get_failed_job i db) (\<lambda>f. Inr (drop_failed_job f db))"

definition payload_object :: "codec \<Rightarrow> json \<Rightarrow> exn + (string \<times> json) list" where
  "payload_object C payload =
     (case (case payload of JStr s \<Rightarrow> loads C s | _ \<Rightarrow> Some payload) of
        Some (JObj kvs) \<Rightarrow> Inr kvs | _ \<Rightarrow> Inl (BadRequest ''payload''))"

text \<open>\<open>isinstance(v, list)\<close> and \<open>isinstance(v, dict)\<close>.\<close>

definition list_of :: "json \<Rightarrow> json list option" where
  "list_of v = (case v of JArr xs \<Rightarrow> Some xs | _ \<Rightarrow> None)"

definition dict_of :: "json \<Rightarrow> (string \<times> json) list option" where
  "dict_of v = (case v of JObj kvs \<Rightarrow> Some kvs | _ \<Rightarrow> None)"

text \<open>The new job is committed by the queue client before the failed one is deleted; a job name that is
  no text is refused by the driver.\<close>

definition retry_job :: "queue_config \<Rightarrow> int \<Rightarrow> (json \<Rightarrow> exn + int) \<Rightarrow> int \<Rightarrow> db \<Rightarrow> exn + db" where
  "retry_job Q now after i db =
     bindE (get_failed_job i db) (\<lambda>f.
     bindE (payload_object (qc_codec Q) (fj_payload f)) (\<lambda>kvs.
       let name = json_get kvs ''job_name'' JNull in
       guardE (\<not> json_truthy name) (BadRequest ''job_name'')
         (case (list_of (json_get kvs ''args'' (JArr [])), dict_of (json_get kvs ''kwargs'' (JObj []))) of
            (Some args, Some kws) \<Rightarrow>
              bindE (str_arg name) (\<lambda>job_name.
              bindE (enqueue_job Q now after job_name args (set_default ''_queue_name'' (JStr (fj_queue f)) kws) db) (\<lambda>(j, db1).
                Inr (drop_failed_job f db1)))
          | _ \<Rightarrow> Inl (BadRequest ''arguments''))))"

section \<open>Queue figures\<close>

definition queue_names :: "string list" where
  "queue_names = [''default'', ''order_handle'', ''send_email'', ''send_telegram'', ''traffic_fetch'', ''stat'']"

definition queue_counts :: "db \<Rightarrow> (string \<times> int) list" where
  "queue_counts db =
     map (\<lambda>n. (n, int (length (filter (\<lambda>j. qj_status j \<in> {''pending'', ''running''} \<and> qj_queue j = n) (rows (t_queue_jobs db)))))) queue_names"

definition queue_stats :: "db \<Rightarrow> (string \<times> int) list \<times> int" where
  "queue_stats db = (queue_counts db, repo_count (t_failed_jobs db))"

definition queue_workload :: "db \<Rightarrow> (string \<times> int) list" where
  "queue_workload db = map (\<lambda>n. (n, set_if (map_of (queue_counts db) n) 0)) queue_names"

section \<open>Histories of the queue\<close>

datatype queue_op =
    Enqueue string "json list" "(string \<times> json) list"
  | WorkerRound "string list" string
  | RetryFailed int
  | DeleteFailed int

definition kept_on_error :: "db \<Rightarrow> exn + db \<Rightarrow> db" where
  "kept_on_error db r = (case r of Inl e \<Rightarrow> db | Inr db' \<Rightarrow> db')"

fun run_queue_op :: "job_env \<Rightarrow> int \<times> queue_op \<Rightarrow> db \<Rightarrow> db" where
  "run_queue_op E (now, Enqueue name args kws) db =
     kept_on_error db (bindE (enqueue_job (je_queue E) now (je_after E now) name args kws db) (\<lambda>(i, db'). Inr db'))"
| "run_queue_op E (now, WorkerRound queues st) db = snd (run_round (je_queue E) (perform_job E) queues now st db)"
| "run_queue_op E (now, RetryFailed i) db = kept_on_error db (retry_job (je_queue E) now (je_after E now) i db)"
| "run_queue_op E (now, DeleteFailed i) db = kept_on_error db (delete_failed_job i db)"

definition settled_job :: "queue_job \<Rightarrow> bool" where
  "settled_job j \<longleftrightarrow> qj_status j = ''finished'' \<or> qj_status j = ''failed''"

definition queue_step_ok :: "db \<Rightarrow> db \<Rightarrow> bool" where
  "queue_step_ok db db' \<longleftrightarrow> queue_ok db' \<and> (\<forall>j\<in>jobs_of db. settled_job j \<longrightarrow> j \<in> jobs_of db')"

lemma queue_step_trans: "queue_step_ok db1 db2 \<Longrightarrow> queue_step_ok db2 db3 \<Longrightarrow> queue_step_ok db1 db3"
  by (auto simp: queue_step_ok_def)

lemma drop_failed_queue [simp]: "t_queue_jobs (drop_failed_job f db) = t_queue_jobs db"
  by (simp add: drop_failed_job_def)

lemma step_same: "queue_ok db \<Longrightarrow> same_queue db db' \<Longrightarrow> queue_step_ok db db'"
  by (simp add: queue_step_ok_def queue_ok_def)

lemma step_ext: "queue_ok db \<Longrightarrow> 0 < qc_max_tries Q \<Longrightarrow> queue_ext Q {} db db' \<Longrightarrow> queue_step_ok db db'"
  using ext_ok [of Q "{}" db db'] ext_keeps_rows [of Q "{}" db db'] by (auto simp: queue_step_ok_def)

lemma step_enqueue:
  assumes "queue_ok db" "0 < qc_max_tries Q" "enqueue_job Q now after n a k db = Inr (r, db')"
  shows "queue_step_ok db db'"
  by (rule step_ext [OF assms(1,2) enqueue_job_ext [OF assms(3)]]) simp

lemma retry_shape:
  assumes "retry_job Q now after i db = Inr db'"
  shows "\<exists>f n a k r db1. enqueue_job Q now after n a k db = Inr (r, db1) \<and> db' = drop_failed_job f db1"
proof -
  let ?args = "\<lambda>kvs. list_of (json_get kvs ''args'' (JArr []))"
  let ?kws = "\<lambda>kvs. dict_of (json_get kvs ''kwargs'' (JObj []))"
  from assms obtain f kvs where k: "(case (?args kvs, ?kws kvs) of
      (Some args, Some kws) \<Rightarrow>
        bindE (str_arg (json_get kvs ''job_name'' JNull)) (\<lambda>job_name.
        bindE (enqueue_job Q now after job_name args (set_default ''_queue_name'' (JStr (fj_queue f)) kws) db) (\<lambda>(j, db1).
          Inr (drop_failed_job f db1)))
    | _ \<Rightarrow> Inl (BadRequest ''arguments'')) = Inr db'"
    unfolding retry_job_def Let_def bindE_eq_Inr guardE_eq_Inr by blast
  then show ?thesis by (cases "?args kvs"; cases "?kws kvs") (auto simp: bindE_eq_Inr, blast)
qed

lemma queue_op_ok:
  assumes ok: "queue_ok db" and tries: "0 < qc_max_tries (je_queue E)"
  shows "queue_step_ok db (run_queue_op E op db)"
proof -
  obtain now o' where op: "op = (now, o')" by (cases op)
  note refl = step_same [OF ok HOL.refl]
  show ?thesis
  proof (cases o')
    case (Enqueue name args kws)
    show ?thesis
    proof (cases "enqueue_job (je_queue E) now (je_after E now) name args kws db")
      case (Inr p)
      obtain i db' where "p = (i, db')" by (cases p)
      with Inr step_enqueue [OF ok tries, of now "je_after E now" name args kws i db'] show ?thesis
        by (simp add: op Enqueue kept_on_error_def)
    qed (simp add: op Enqueue kept_on_error_def refl)
  next
    case (WorkerRound queues st)
    obtain n db' where r: "run_round (je_queue E) (perform_job E) queues now st db = (n, db')"
      by (cases "run_round (je_queue E) (perform_job E) queues now st db")
    show ?thesis using worker.round_facts(1,3) [OF tries ok r] by (simp add: op WorkerRound r queue_step_ok_def settled_job_def)
  next
    case (RetryFailed i)
    show ?thesis
    proof (cases "retry_job (je_queue E) now (je_after E now) i db")
      case (Inr db')
      from retry_shape [OF Inr] obtain f n a k r db1 where
        e: "enqueue_job (je_queue E) now (je_after E now) n a k db = Inr (r, db1)" and d: "db' = drop_failed_job f db1" by blast
      from step_enqueue [OF ok tries e] have "queue_step_ok db db'" by (simp add: queue_step_ok_def queue_ok_def d)
      then show ?thesis by (simp add: op RetryFailed Inr kept_on_error_def)
    qed (simp add: op RetryFailed kept_on_error_def refl)
  next
    case (DeleteFailed i)
    show ?thesis
    proof (cases "delete_failed_job i db")
      case (Inr db')
      then have "same_queue db db'" by (auto simp: delete_failed_job_def result_simps)
      then show ?thesis using step_same [OF ok] by (simp add: op DeleteFailed Inr kept_on_error_def)
    qed (simp add: op DeleteFailed kept_on_error_def refl)
  qed
qed

definition sample_mailer :: mailer where
  "sample_mailer = \<lparr>ml_render = (\<lambda>n c. TemplateNotFound), ml_smtp = (\<lambda>l m. None),
     ml_telegram = (\<lambda>t i s p. None), ml_raised = (\<lambda>e. (''Error'', ''failed''))\<rparr>"

definition sample_jobs :: job_env where
  "sample_jobs = \<lparr>je_orders = \<lparr>oe_settings = \<lparr>sv_codec = traffic_codec, sv_cached = True\<rparr>, oe_tz = (\<lambda>_. 0), oe_md5 = (\<lambda>s. s)\<rparr>,
     je_queue = \<lparr>qc_codec = traffic_codec, qc_default_name = ''default'', qc_max_tries = 3, qc_retry_jobs = True, qc_max_jobs = 20\<rparr>,
     je_mailer = sample_mailer, je_lock_free = (\<lambda>now. True), je_after = (\<lambda>now v. Inr now)\<rparr>"

definition queued_db :: db where
  "queued_db = fold (run_queue_op sample_jobs)
     [(10, Enqueue ''traffic_fetch'' [node_report, node_server, JStr ''vmess''] [(''_queue_name'', JStr ''traffic_fetch'')]),
      (11, Enqueue ''send_mail'' [JStr ''a@b.c''] [])] traffic_db"

text \<open>C10: A worker started with \<open>--once\<close> whose queues do not include \<open>order_handle\<close> (the queue into which a job
  puts new jobs), and whose numbers of tries and of jobs per round are positive, stops: on any well-formed queue it
  returns within one round more than there are tries left (fuel above that number always suffices), whatever its
  jobs do and however often they fail, and when it stops no job of its queues was due in the last round.\<close>

theorem once_worker_stops:
  assumes "queue_ok db" "0 < qc_max_tries (je_queue E)" "0 < qc_max_jobs (je_queue E)" "order_handle_queue \<notin> set queues"
    "workload worker_queues db < int n"
  shows "\<exists>db' k. run_worker n (je_queue E) (perform_job E) queues clock db = Some db' \<and> queue_ok db' \<and> k < n \<and>
     (\<forall>j\<in>jobs_of db'. \<not> claimable (fst (clock k)) queues j)"
  by (rule worker.worker_stops) (use assms in \<open>auto simp: worker_queues_def\<close>)

theorem once_worker_stops_witness:
  "\<exists>db'. run_worker 7 (je_queue sample_jobs) (perform_job sample_jobs) [''traffic_fetch'', ''default''] (\<lambda>i. (100 * int i + 100, [])) queued_db = Some db' \<and>
     queue_ok db'"
proof -
  have "queue_ok queued_db" by code_simp
  moreover have "0 < qc_max_tries (je_queue sample_jobs) \<and> 0 < qc_max_jobs (je_queue sample_jobs)" by code_simp
  moreover have "order_handle_queue \<notin> set [''traffic_fetch'', ''default'']" by code_simp
  moreover have "workload worker_queues queued_db < int 7" by code_simp
  ultimately show ?thesis
    using once_worker_stops [of queued_db sample_jobs "[''traffic_fetch'', ''default'']" 7 "\<lambda>i. (100 * int i + 100, [])"] by auto
qed

text \<open>C11: Whatever jobs are enqueued, run, retried or deleted, the queue stays well formed: primary keys and
  job keys are unique, no job has been attempted more often than its tries allow, a pending job has a try
  left; and the row of a finished or failed job is never touched again.\<close>

theorem queue_history_ok:
  assumes "queue_ok db" "0 < qc_max_tries (je_queue E)"
  shows "queue_ok (fold (run_queue_op E) ops db) \<and>
     (\<forall>j\<in>jobs_of db. settled_job j \<longrightarrow> j \<in> jobs_of (fold (run_queue_op E) ops db))"
proof -
  have "queue_step_ok db (fold (run_queue_op E) ops db)" using assms
  proof (induction ops arbitrary: db)
    case (Cons op ops)
    have "queue_step_ok db (run_queue_op E op db)" by (rule queue_op_ok [OF Cons.prems])
    moreover from this have "queue_ok (run_queue_op E op db)" by (simp add: queue_step_ok_def)
    ultimately show ?case using Cons.IH [OF _ Cons.prems(2)] queue_step_trans by simp
  qed (simp add: queue_step_ok_def)
  then show ?thesis by (simp add: queue_step_ok_def)
qed

definition worked_db :: db where
  "worked_db = fold (run_queue_op sample_jobs) [(50, WorkerRound [''traffic_fetch''] [])] queued_db"

theorem queue_history_ok_witness:
  "queue_ok worked_db \<and> (\<exists>j\<in>jobs_of worked_db. settled_job j) \<and>
     queue_ok (fold (run_queue_op sample_jobs) [(60, WorkerRound [''default''] []), (70, RetryFailed 1)] worked_db)"
proof -
  have ok: "queue_ok queued_db" by code_simp
  have tries: "0 < qc_max_tries (je_queue sample_jobs)" by code_simp
  have w: "queue_ok worked_db" using queue_history_ok [OF ok tries] unfolding worked_db_def by blast
  moreover have "\<exists>j\<in>jobs_of worked_db. settled_job j" by code_simp
  ultimately show ?thesis using queue_history_ok [OF w tries] by blast
qed

end
