(* ===== verification/Base64.thy ===== *)
theory Base64
  imports PyStr
begin

text \<open>
  The parts of Python's \<open>base64\<close>, \<open>binascii\<close> and UTF-8 decoding that the subscription tokens use, on
  texts given as bytes: \<open>b64encode\<close>, \<open>urlsafe_b64encode(..).rstrip("=")\<close> (the helper
  \<open>_base64_urlsafe\<close>), and \<open>urlsafe_b64decode\<close>, which skips characters outside its alphabet as
  \<open>binascii.a2b_base64\<close> does. What is encoded decodes to itself.
\<close>

definition b64_char :: "nat \<Rightarrow> char" where
  "b64_char n = (if n < 26 then char_of (65 + n) else if n < 52 then char_of (71 + n) else if n < 62 then char_of (n - 4)
     else if n = 62 then CHR ''+'' else CHR ''/'')"

definition b64_index :: "char \<Rightarrow> nat option" where
  "b64_index c = (let k = char_code c in
     if 65 \<le> k \<and> k \<le> 90 then Some (k - 65) else if 97 \<le> k \<and> k \<le> 122 then Some (k - 71)
     else if 48 \<le> k \<and> k \<le> 57 then Some (k + 4) else if c = CHR ''+'' then Some 62 else if c = CHR ''/'' then Some 63 else None)"

fun b64_sextets :: "nat list \<Rightarrow> nat list" where
  "b64_sextets [] = []"
| "b64_sextets [a] = [a div 4, a mod 4 * 16]"
| "b64_sextets [a, b] = [a div 4, a mod 4 * 16 + b div 16, b mod 16 * 4]"
| "b64_sextets (a # b # c # r) = a div 4 # (a mod 4 * 16 + b div 16) # (b mod 16 * 4 + c div 64) # c mod 64 # b64_sextets r"

definition b64_body :: "string \<Rightarrow> string" where
  "b64_body s = map b64_char (b64_sextets (map char_code s))"

definition b64_padding :: "string \<Rightarrow> string" where
  "b64_padding s = replicate ((4 - length s mod 4) mod 4) (CHR ''='')"

definition b64encode :: "string \<Rightarrow> string" where
  "b64encode s = b64_body s @ b64_padding (b64_body s)"

definition to_urlsafe :: "char \<Rightarrow> char" where
  "to_urlsafe c = (if c = CHR ''+'' then CHR ''-'' else if c = CHR ''/'' then CHR ''_'' else c)"

definition from_urlsafe :: "char \<Rightarrow> char" where
  "from_urlsafe c = (if c = CHR ''-'' then CHR ''+'' else if c = CHR ''_'' then CHR ''/'' else c)"

definition base64_urlsafe :: "string \<Rightarrow> string" where
  "base64_urlsafe s = rstrip_chars {CHR ''=''} (map to_urlsafe (b64encode s))"

text \<open>\<open>a2b_base64\<close>: position in the group of four, bits left over, padding characters seen.\<close>

fun a2b :: "nat \<Rightarrow> nat \<Rightarrow> nat \<Rightarrow> string \<Rightarrow> string option" where
  "a2b q l p [] = (if q = 0 then Some [] else None)"
| "a2b q l p (c # cs) =
     (if c = CHR ''='' then
        (if 2 \<le> q then (if 4 \<le> q + (p + 1) then Some [] else a2b q l (p + 1) cs) else a2b q l p cs)
      else (case b64_index c of
          None \<Rightarrow> a2b q l p cs
        | Some v \<Rightarrow>
            if q = 0 then a2b 1 v 0 cs
            else if q = 1 then map_option (Cons (char_of (l * 4 + v div 16))) (a2b 2 (v mod 16) 0 cs)
            else if q = 2 then map_option (Cons (char_of (l * 16 + v div 4))) (a2b 3 (v mod 4) 0 cs)
            else map_option (Cons (char_of (l * 64 + v))) (a2b 0 0 0 cs)))"

definition urlsafe_b64decode :: "string \<Rightarrow> string option" where
  "urlsafe_b64decode s = (if list_all (\<lambda>c. char_code c < 128) s then a2b 0 0 0 (map from_urlsafe s) else None)"

text \<open>The texts \<open>bytes.decode()\<close> accepts.\<close>

definition continuation :: "nat \<Rightarrow> nat \<Rightarrow> char \<Rightarrow> bool" where
  "continuation lo hi c \<longleftrightarrow> lo \<le> char_code c \<and> char_code c \<le> hi"

fun valid_utf8 :: "string \<Rightarrow> bool" where
  "valid_utf8 [] = True"
| "valid_utf8 (c # cs) =
     (let k = char_code c in
      if k < 128 then valid_utf8 cs
      else if 194 \<le> k \<and> k \<le> 223 then
        (case cs of d # r \<Rightarrow> continuation 128 191 d \<and> valid_utf8 r | _ \<Rightarrow> False)
      else if 224 \<le> k \<and> k \<le> 239 then
        (case cs of d # e # r \<Rightarrow> continuation (if k = 224 then 160 else 128) (if k = 237 then 159 else 191) d
            \<and> continuation 128 191 e \<and> valid_utf8 r | _ \<Rightarrow> False)
      else if 240 \<le> k \<and> k \<le> 244 then
        (case cs of d # e # f # r \<Rightarrow> continuation (if k = 240 then 144 else 128) (if k = 244 then 143 else 191) d
            \<and> continuation 128 191 e \<and> continuation 128 191 f \<and> valid_utf8 r | _ \<Rightarrow> False)
      else False)"

section \<open>Decoding inverts encoding\<close>

lemma a2b_padding:
  "a2b 2 l 0 (CHR ''='' # CHR ''='' # cs) = Some []" "a2b 3 l 0 (CHR ''='' # cs) = Some []"
  by simp_all

declare a2b.simps(2) [simp del]

lemma b64_index_char: "n < 64 \<Longrightarrow> b64_index (b64_char n) = Some n"
proof -
  assume n: "n < 64"
  then consider "n < 26" | "26 \<le> n" "n < 52" | "52 \<le> n" "n < 62" | "n = 62" | "n = 63" by linarith
  then show ?thesis
    by cases (auto simp: b64_char_def b64_index_def char_code_def Let_def)
qed

lemma b64_char_code:
  "n < 64 \<Longrightarrow> let k = char_code (b64_char n) in k < 128 \<and> k \<noteq> 45 \<and> k \<noteq> 61 \<and> k \<noteq> 95"
  by (auto simp: b64_char_def char_code_def Let_def)

lemma b64_char_plain:
  assumes "n < 64"
  shows "b64_char n \<noteq> CHR ''=''" "from_urlsafe (to_urlsafe (b64_char n)) = b64_char n"
    "char_code (to_urlsafe (b64_char n)) < 128" "to_urlsafe (b64_char n) \<noteq> CHR ''=''"
proof -
  have codes: "char_code (CHR ''='') = 61" "char_code (CHR ''-'') = 45" "char_code (CHR ''_'') = 95" by (simp_all add: char_code_def)
  with b64_char_code [OF assms] have ne: "b64_char n \<noteq> CHR ''=''" "b64_char n \<noteq> CHR ''-''" "b64_char n \<noteq> CHR ''_''"
    by (auto simp: Let_def)
  then show "b64_char n \<noteq> CHR ''=''" "from_urlsafe (to_urlsafe (b64_char n)) = b64_char n" "to_urlsafe (b64_char n) \<noteq> CHR ''=''"
    by (auto simp: from_urlsafe_def to_urlsafe_def)
  show "char_code (to_urlsafe (b64_char n)) < 128"
    using b64_char_code [OF assms] codes by (simp add: to_urlsafe_def Let_def)
qed

lemma sextets_small: "list_all (\<lambda>a. a < 256) xs \<Longrightarrow> list_all (\<lambda>n. n < 64) (b64_sextets xs)"
  by (induction xs rule: b64_sextets.induct) auto

lemma codes_small: "list_all (\<lambda>a. a < 256) (map char_code s)"
  by (simp add: list_all_iff char_code_def)

lemma b64_body_chars: "c \<in> set (b64_body s) \<Longrightarrow> \<exists>n<64. c = b64_char n"
  using sextets_small [OF codes_small, of s] by (auto simp: b64_body_def list_all_iff)

lemma a2b_step:
  assumes "v < 64"
  shows "a2b 0 l p (b64_char v # cs) = a2b 1 v 0 cs"
    "a2b 1 l p (b64_char v # cs) = map_option (Cons (char_of (l * 4 + v div 16))) (a2b 2 (v mod 16) 0 cs)"
    "a2b 2 l p (b64_char v # cs) = map_option (Cons (char_of (l * 16 + v div 4))) (a2b 3 (v mod 4) 0 cs)"
    "a2b 3 l p (b64_char v # cs) = map_option (Cons (char_of (l * 64 + v))) (a2b 0 0 0 cs)"
  using b64_index_char [OF assms] b64_char_plain [OF assms] by (simp_all add: a2b.simps(2))

lemma div_split: "x < m \<Longrightarrow> (k * m + x) div m = k" "x < m \<Longrightarrow> (k * m + x) mod m = x" for k m x :: nat
  by simp_all

lemma sextet_bytes:
  fixes a b c :: nat
  assumes "b < 256" "c < 256"
  shows "a div 4 * 4 + (a mod 4 * 16 + b div 16) div 16 = a" "a div 4 * 4 + (a mod 4 * 16) div 16 = a"
    "(a mod 4 * 16 + b div 16) mod 16 * 16 + (b mod 16 * 4 + c div 64) div 4 = b"
    "(a mod 4 * 16 + b div 16) mod 16 * 16 + (b mod 16 * 4) div 4 = b"
    "(b mod 16 * 4 + c div 64) mod 4 * 64 + c mod 64 = c"
proof -
  have s: "b div 16 < 16" "c div 64 < 4" using assms by auto
  note d = div_split [OF s(1), of "a mod 4"] div_split [OF s(2), of "b mod 16"]
  show "a div 4 * 4 + (a mod 4 * 16 + b div 16) div 16 = a" "a div 4 * 4 + (a mod 4 * 16) div 16 = a"
    "(a mod 4 * 16 + b div 16) mod 16 * 16 + (b mod 16 * 4 + c div 64) div 4 = b"
    "(a mod 4 * 16 + b div 16) mod 16 * 16 + (b mod 16 * 4) div 4 = b"
    "(b mod 16 * 4 + c div 64) mod 4 * 64 + c mod 64 = c"
    unfolding d by simp_all
qed

lemma b64_padding_short:
  "b64_padding [] = []" "b64_padding [x, y] = [CHR ''='', CHR ''='']" "b64_padding [x, y, z] = [CHR ''='']"
  "b64_padding (w # x # y # z # s) = b64_padding s"
  by (simp_all add: b64_padding_def numeral_2_eq_2)

lemmas a2b_steps = a2b_step a2b_step(2) [unfolded One_nat_def]

lemma a2b_sextets:
  "list_all (\<lambda>a. a < 256) xs \<Longrightarrow>
     a2b 0 l p (map b64_char (b64_sextets xs) @ b64_padding (map b64_char (b64_sextets xs))) = Some (map char_of xs)"
proof (induction xs arbitrary: l p rule: b64_sextets.induct)
  case 1
  show ?case by (simp add: b64_padding_def)
next
  case (2 a)
  then have "a div 4 < 64" "a mod 4 * 16 < 64" by auto
  then show ?case using sextet_bytes(2) [of 0 0 a] by (simp add: a2b_steps a2b_padding b64_padding_short)
next
  case (3 a b)
  then have "a div 4 < 64" "a mod 4 * 16 + b div 16 < 64" "b mod 16 * 4 < 64" "b div 16 < 16" by auto
  then show ?case using sextet_bytes(1) [of b 0 a] sextet_bytes(4) [of b 0 a] 3
    by (simp add: a2b_steps a2b_padding b64_padding_short)
next
  case (4 a b c r)
  then have "a div 4 < 64" "a mod 4 * 16 + b div 16 < 64" "b mod 16 * 4 + c div 64 < 64" "c mod 64 < 64" "b < 256" "c < 256" by auto
  then show ?case using 4 sextet_bytes(1,3) [of b c a] sextet_bytes(5) [of b c] by (simp add: a2b_steps b64_padding_short)
qed

lemma map_char_of_code [simp]: "map char_of (map char_code s) = s"
  by (simp add: comp_def char_code_def)

lemma rstrip_padding:
  assumes "\<And>c. c \<in> set s \<Longrightarrow> c \<noteq> d"
  shows "rstrip_chars {d} (s @ replicate n d) = s"
proof -
  have "dropWhile (\<lambda>c. c \<in> {d}) (replicate n d @ rev s) = rev s"
  proof (cases s rule: rev_cases)
    case Nil
    then show ?thesis by simp
  next
    case (snoc ys y)
    then show ?thesis using assms [of y] by (induction n) simp_all
  qed
  then show ?thesis by (simp add: rstrip_chars_def)
qed

lemma base64_urlsafe_body: "base64_urlsafe s = map to_urlsafe (b64_body s)"
proof -
  have "map to_urlsafe (b64_padding (b64_body s)) = replicate ((4 - length (b64_body s) mod 4) mod 4) (CHR ''='')"
    by (simp add: b64_padding_def to_urlsafe_def)
  moreover have "c \<noteq> CHR ''=''" if "c \<in> set (map to_urlsafe (b64_body s))" for c
    using that b64_body_chars [of _ s] b64_char_plain(4) by fastforce
  ultimately show ?thesis
    using rstrip_padding [of "map to_urlsafe (b64_body s)" "CHR ''=''"] by (simp add: base64_urlsafe_def b64encode_def)
qed

theorem urlsafe_roundtrip:
  "urlsafe_b64decode (base64_urlsafe s @ b64_padding (base64_urlsafe s)) = Some s"
proof -
  have body: "map from_urlsafe (map to_urlsafe (b64_body s)) = b64_body s"
  proof -
    have "from_urlsafe (to_urlsafe c) = c" if "c \<in> set (b64_body s)" for c using b64_body_chars [OF that] b64_char_plain by auto
    then show ?thesis by (simp add: map_idI)
  qed
  have pad: "map from_urlsafe (b64_padding (base64_urlsafe s)) = b64_padding (b64_body s)"
    by (simp add: base64_urlsafe_body b64_padding_def from_urlsafe_def)
  have "list_all (\<lambda>c. char_code c < 128) (base64_urlsafe s @ b64_padding (base64_urlsafe s))"
  proof -
    have "char_code (to_urlsafe c) < 128" if "c \<in> set (b64_body s)" for c using b64_body_chars [OF that] b64_char_plain by auto
    moreover have "char_code (CHR ''='') < 128" by (simp add: char_code_def)
    ultimately show ?thesis by (auto simp: list_all_iff base64_urlsafe_body b64_padding_def)
  qed
  then have "urlsafe_b64decode (base64_urlsafe s @ b64_padding (base64_urlsafe s)) = a2b 0 0 0 (b64_body s @ b64_padding (b64_body s))"
    by (simp add: urlsafe_b64decode_def body pad base64_urlsafe_body [of s, symmetric] del: map_map)
       (simp add: base64_urlsafe_body body [simplified])
  also have "\<dots> = Some s" using a2b_sextets [OF codes_small, of 0 0 s] by (simp add: b64_body_def comp_def char_code_def)
  finally show ?thesis .
qed

end
