(* ===== verification/Formats.thy ===== *)
theory Formats
  imports Calendar Base64 Epay
begin

text \<open>
  Text formats of the standard library that the subscription and Telegram services use:
  \<open>urllib.parse.quote\<close> and \<open>unquote\<close>, \<open>round(x, 2)\<close> and \<open>f"{x:.2f}"\<close> on floats, \<open>_format_bytes\<close>, dates
  of \<open>time.strftime\<close>, and the recognition of an IPv6 address by \<open>ipaddress.ip_address\<close>.
\<close>

section \<open>URLs\<close>

definition quote_path :: "string \<Rightarrow> string" where
  "quote_path s = concat (map (\<lambda>c. if unreserved c \<or> c = CHR ''/'' then [c]
     else [CHR ''%'', hex_digit (char_code c div 16), hex_digit (char_code c mod 16)]) s)"

fun unquote :: "string \<Rightarrow> string" where
  "unquote [] = []"
| "unquote (c # cs) =
     (if c = CHR ''%'' then
        (case cs of
           a # b # rest \<Rightarrow>
             (case (hex_val a, hex_val b) of
                (Some x, Some y) \<Rightarrow> char_of (16 * x + y) # unquote rest
              | _ \<Rightarrow> CHR ''%'' # unquote cs)
         | _ \<Rightarrow> CHR ''%'' # unquote cs)
      else c # unquote cs)"

lemma unquote_quote_path: "unquote (quote_path s) = s"
proof (induction s)
  case (Cons c s)
  have step: "unquote (quote_path [c] @ t) = c # unquote t" for t
  proof (cases "unreserved c \<or> c = CHR ''/''")
    case True
    then have "c \<noteq> CHR ''%''" using unreserved_plain [of c] by auto
    then show ?thesis using True by (simp add: quote_path_def)
  next
    case False
    then show ?thesis using char_code_bound [of c] by (simp add: quote_path_def hex_val_digit)
  qed
  have "quote_path (c # s) = quote_path [c] @ quote_path s" by (simp add: quote_path_def)
  then show ?case using step Cons.IH by simp
qed (simp add: quote_path_def)

section \<open>Numbers\<close>

text \<open>\<open>hundredths x\<close> is \<open>100 * x\<close> rounded to an integer, ties to even, from the exact value of the float.\<close>

definition hundredths :: "double \<Rightarrow> int" where
  "hundredths x = round_half_even (scaled_num (100 * mant x) (expo x)) (scaled_den 1 (expo x))"

definition round2 :: "double \<Rightarrow> double" where
  "round2 x = round_q (hundredths x) 100"

definition add_double :: "double \<Rightarrow> double \<Rightarrow> double" where
  "add_double x y =
     (let e = min (expo x) (expo y); m = mant x * 2 ^ nat (expo x - e) + mant y * 2 ^ nat (expo y - e)
      in round_q (scaled_num m e) (scaled_den 1 e))"

definition two_digits :: "nat \<Rightarrow> string" where
  "two_digits n = [digit_char (n div 10 mod 10), digit_char (n mod 10)]"

text \<open>\<open>f"{x:.2f}"\<close> for a float that is not negative.\<close>

definition fixed2 :: "double \<Rightarrow> string" where
  "fixed2 x = (let h = nat (hundredths x) in str_nat (h div 100) @ ''.'' @ two_digits (h mod 100))"

definition below_1024 :: "double \<Rightarrow> bool" where
  "below_1024 x \<longleftrightarrow> scaled_num (mant x) (expo x) < 1024 * scaled_den 1 (expo x)"

fun format_size :: "string list \<Rightarrow> double \<Rightarrow> string" where
  "format_size [] x = fixed2 x @ '' PB''"
| "format_size (unit # units) x =
     (if below_1024 x \<or> unit = ''PB'' then fixed2 x @ '' '' @ unit else format_size units (div_double_int x 1024))"

definition format_bytes :: "int \<Rightarrow> string" where
  "format_bytes v =
     (let x = of_int_double (max v 0) in
      if below_1024 x then str_int (trunc_double x) @ '' B''
      else format_size [''KB'', ''MB'', ''GB'', ''TB'', ''PB''] (div_double_int x 1024))"

section \<open>Dates\<close>

definition local_day :: "time_zone \<Rightarrow> int \<Rightarrow> int \<times> int \<times> int" where
  "local_day tz t = ord2ymd (local_seconds tz t div 86400 + 719163)"

definition date_text :: "time_zone \<Rightarrow> int \<Rightarrow> string" where
  "date_text tz t = (case local_day tz t of (y, m, d) \<Rightarrow> str_int y @ ''-'' @ two_digits (nat m) @ ''-'' @ two_digits (nat d))"

definition time_text :: "time_zone \<Rightarrow> int \<Rightarrow> string" where
  "time_text tz t =
     (let s = local_seconds tz t mod 86400
      in date_text tz t @ '' '' @ two_digits (nat (s div 3600)) @ '':'' @ two_digits (nat (s div 60 mod 60)) @ '':'' @ two_digits (nat (s mod 60)))"

section \<open>IP addresses\<close>

definition ipv4_octet :: "string \<Rightarrow> bool" where
  "ipv4_octet s \<longleftrightarrow> isdigit s \<and> length s \<le> 3 \<and> \<not> (s \<noteq> ''0'' \<and> hd s = CHR ''0'') \<and> nat_of_digits s \<le> 255"

definition is_ipv4 :: "string \<Rightarrow> bool" where
  "is_ipv4 s \<longleftrightarrow> (let os = split_on (CHR ''.'') s in length os = 4 \<and> list_all ipv4_octet os)"

definition hextet :: "string \<Rightarrow> bool" where
  "hextet s \<longleftrightarrow> s \<noteq> [] \<and> length s \<le> 4 \<and> list_all (\<lambda>c. hex_val c \<noteq> None) s"

text \<open>The parts between the colons, an IPv4 tail replaced by two hextets (\<open>0\<close>).\<close>

definition ipv6_parts :: "string \<Rightarrow> string list option" where
  "ipv6_parts s =
     (let ps = split_on (CHR '':'') s in
      if length ps < 3 then None
      else if CHR ''.'' \<in> set (last ps) then (if is_ipv4 (last ps) then Some (butlast ps @ [''0'', ''0'']) else None)
      else Some ps)"

definition valid_ipv6_parts :: "string list \<Rightarrow> bool" where
  "valid_ipv6_parts ps \<longleftrightarrow>
     length ps \<le> 9 \<and>
     (case filter (\<lambda>i. ps ! i = []) [1..<length ps - 1] of
        [] \<Rightarrow> length ps = 8 \<and> list_all hextet ps
      | [k] \<Rightarrow>
          let hi = (if hd ps = [] then 0 else k); lo = (if last ps = [] then 0 else length ps - k - 1)
          in (hd ps = [] \<longrightarrow> k = 1) \<and> (last ps = [] \<longrightarrow> length ps - k - 1 = 1) \<and> hi + lo < 8 \<and>
             list_all hextet (take hi ps) \<and> list_all hextet (drop (length ps - lo) ps)
      | _ \<Rightarrow> False)"

definition is_ipv6 :: "string \<Rightarrow> bool" where
  "is_ipv6 s \<longleftrightarrow>
     CHR ''/'' \<notin> set s \<and>
     (case partition_at (CHR ''%'') s of (addr, sep, scope) \<Rightarrow>
        (sep \<longrightarrow> scope \<noteq> [] \<and> CHR ''%'' \<notin> set scope) \<and>
        (case ipv6_parts addr of None \<Rightarrow> False | Some ps \<Rightarrow> valid_ipv6_parts ps))"

definition format_host :: "string \<Rightarrow> string" where
  "format_host host = (if is_ipv6 host then ''['' @ host @ '']'' else host)"

end
