(* ===== verification/Servers.thy ===== *)
theory Servers
  imports Samples Formats Queue "HOL-Library.AList"
begin

text \<open>
  The node API (\<open>app/services/server.py\<close>, with the guard \<open>_uniproxy_context\<close> of
  \<open>app/controllers/server.py\<close>) and the repositories of nodes, routes and groups. A JSON column is decoded
  by \<open>json_cast\<close>; a dictionary that goes out is a JSON object. MD5 is a parameter.
\<close>

section \<open>JSON columns\<close>

text \<open>\<open>_json_cast\<close> of the services, \<open>_json_load\<close> of the administration.\<close>

definition json_cast :: "codec \<Rightarrow> json \<Rightarrow> json" where
  "json_cast C v =
     (case v of
        JStr s \<Rightarrow> if s = [] then JNull else (case loads C s of Some j \<Rightarrow> j | None \<Rightarrow> v)
      | _ \<Rightarrow> v)"

definition digit_items :: "string \<Rightarrow> int list" where
  "digit_items s = map (\<lambda>w. int (nat_of_digits (strip w))) (filter (\<lambda>w. isdigit (strip w)) (split_on (CHR '','') s))"

definition int_list_cast :: "codec \<Rightarrow> json \<Rightarrow> int list" where
  "int_list_cast C v =
     (case json_cast C v of
        JInt n \<Rightarrow> [n]
      | JBool b \<Rightarrow> [if b then 1 else 0]
      | JStr s \<Rightarrow> if s = [] then [] else digit_items s
      | JArr xs \<Rightarrow> List.map_filter (\<lambda>x. case int_of_json x of Inl _ \<Rightarrow> None | Inr n \<Rightarrow> Some n) xs
      | _ \<Rightarrow> [])"

definition compact_none :: "(string \<times> json) list \<Rightarrow> (string \<times> json) list" where
  "compact_none kvs = filter (\<lambda>kv. snd kv \<noteq> JNull) kvs"

definition opt_int_json :: "int option \<Rightarrow> json" where
  "opt_int_json v = (case v of None \<Rightarrow> JNull | Some n \<Rightarrow> JInt n)"

definition opt_str_json :: "string option \<Rightarrow> json" where
  "opt_str_json v = (case v of None \<Rightarrow> JNull | Some s \<Rightarrow> JStr s)"

section \<open>Repositories\<close>

definition groups_all :: "db \<Rightarrow> server_group list" where
  "groups_all db = sort_key sg_id (rows (t_server_groups db))"

definition group_by_id :: "db \<Rightarrow> int \<Rightarrow> server_group option" where
  "group_by_id db i = repo_get server_group_entity (t_server_groups db) i"

definition routes_all :: "db \<Rightarrow> server_route list" where
  "routes_all db = sort_key rt_id (rows (t_routes db))"

definition route_by_id :: "db \<Rightarrow> int \<Rightarrow> server_route option" where
  "route_by_id db i = repo_get server_route_entity (t_routes db) i"

definition routes_by_ids_ordered :: "db \<Rightarrow> int list \<Rightarrow> server_route list" where
  "routes_by_ids_ordered db ids = List.map_filter (route_by_id db) ids"

definition nodes_all :: "db \<Rightarrow> server_node list" where
  "nodes_all db = sort_key (\<lambda>n. (nulls_last (nd_sort n), nd_id n)) (rows (t_nodes db))"

definition node_by_id :: "db \<Rightarrow> int \<Rightarrow> server_node option" where
  "node_by_id db i = repo_get server_node_entity (t_nodes db) i"

text \<open>\<open>_group_contains\<close>: a bool is an int; a list is compared by the texts of its items; any other value
  by its text, as JSON, or as a comma separated list.\<close>

definition text_in :: "codec \<Rightarrow> int \<Rightarrow> json list \<Rightarrow> bool" where
  "text_in C g xs \<longleftrightarrow> list_ex (\<lambda>x. py_str C x = str_int g) xs"

definition group_contains :: "codec \<Rightarrow> json \<Rightarrow> int \<Rightarrow> bool" where
  "group_contains C raw g =
     (case raw of
        JInt n \<Rightarrow> n = g
      | JBool b \<Rightarrow> (if b then 1 else 0) = g
      | JArr xs \<Rightarrow> text_in C g xs
      | _ \<Rightarrow>
          let s = (if json_truthy raw then py_str C raw else []) in
          s = str_int g \<or>
          (case (case loads C s of Some j \<Rightarrow> j | None \<Rightarrow> JArr (map (\<lambda>w. JStr (strip w)) (split_on (CHR '','') s))) of
             JInt n \<Rightarrow> n = g
           | JBool b \<Rightarrow> (if b then 1 else 0) = g
           | JArr xs \<Rightarrow> text_in C g xs
           | _ \<Rightarrow> False))"

definition visible_nodes_of_group :: "codec \<Rightarrow> db \<Rightarrow> int option \<Rightarrow> server_node list" where
  "visible_nodes_of_group C db group_id =
     (case group_id of None \<Rightarrow> []
      | Some g \<Rightarrow> filter (\<lambda>n. group_contains C (nd_group_id n) g) (filter nd_show (nodes_all db)))"

section \<open>The configuration of a node\<close>

definition server_key :: "(string \<Rightarrow> string) \<Rightarrow> int \<Rightarrow> nat \<Rightarrow> string" where
  "server_key md5 timestamp n = b64encode (take n (md5 (str_int timestamp)))"

definition route_match_cast :: "codec \<Rightarrow> json \<Rightarrow> json" where
  "route_match_cast C v = (case json_cast C v of JArr xs \<Rightarrow> JArr xs | JObj kvs \<Rightarrow> JObj kvs | _ \<Rightarrow> v)"

definition route_to_config :: "codec \<Rightarrow> server_route \<Rightarrow> json" where
  "route_to_config C r = JObj [(''id'', JInt (rt_id r)), (''match'', route_match_cast C (rt_match r)),
     (''action'', JStr (rt_action r)), (''action_value'', rt_action_value r)]"

definition node_settings :: "codec \<Rightarrow> server_node \<Rightarrow> (string \<times> json) list" where
  "node_settings C n =
     [(''listen_ip'', JStr (nd_listen_ip n)), (''server_port'', JInt (nd_server_port n)), (''network'', JStr (nd_network n)),
      (''network_settings'', json_cast C (nd_network_settings n)), (''protocol'', JStr (nd_protocol n)), (''tls'', JInt (nd_tls n)),
      (''tls_settings'', json_cast C (nd_tls_settings n)), (''encryption'', opt_str_json (nd_encryption n)),
      (''encryption_settings'', json_cast C (nd_encryption_settings n)), (''flow'', opt_str_json (nd_flow n)),
      (''cipher'', opt_str_json (nd_cipher n)), (''congestion_control'', opt_str_json (nd_congestion_control n)),
      (''zero_rtt_handshake'', JBool (nd_zero_rtt_handshake n)), (''up_mbps'', JInt (nd_up_mbps n)),
      (''down_mbps'', JInt (nd_down_mbps n)), (''obfs'', opt_str_json (nd_obfs n)),
      (''obfs_password'', opt_str_json (nd_obfs_password n)), (''padding_scheme'', json_cast C (nd_padding_scheme n))]"

definition node_server_key :: "(string \<Rightarrow> string) \<Rightarrow> server_node \<Rightarrow> (string \<times> json) list" where
  "node_server_key md5 n =
     (if nd_cipher n = Some ''2022-blake3-aes-128-gcm'' then [(''server_key'', JStr (server_key md5 (nd_created_at n) 16))]
      else if nd_cipher n = Some ''2022-blake3-aes-256-gcm'' then [(''server_key'', JStr (server_key md5 (nd_created_at n) 32))]
      else [])"

definition get_v2node_config :: "setting_service \<Rightarrow> (string \<Rightarrow> string) \<Rightarrow> int \<Rightarrow> int \<Rightarrow> db \<Rightarrow> exn + json option \<times> db" where
  "get_v2node_config S md5 now node_id db =
     (case node_by_id db node_id of
        None \<Rightarrow> Inr (None, db)
      | Some n \<Rightarrow>
          bindE (get_int S now ''server_push_interval'' 60 db) (\<lambda>(push_interval, db1).
          bindE (get_int S now ''server_pull_interval'' 60 db1) (\<lambda>(pull_interval, db2).
          bindE (get_int S now ''server_node_report_min_traffic'' 0 db2) (\<lambda>(report_min, db3).
          bindE (get_int S now ''server_device_online_min_traffic'' 0 db3) (\<lambda>(online_min, db4).
            let C = sv_codec S; ids = int_list_cast C (nd_route_id n) in
            Inr (Some (JObj (node_settings C n @ node_server_key md5 n @
              [(''ignore_client_bandwidth'', JBool (nd_up_mbps n = 0 \<and> nd_down_mbps n = 0)),
               (''base_config'', JObj [(''push_interval'', JInt push_interval), (''pull_interval'', JInt pull_interval),
                  (''node_report_min_traffic'', JInt report_min), (''device_online_min_traffic'', JInt online_min)])] @
              (if ids = [] then [] else [(''routes'', JArr (map (route_to_config C) (routes_by_ids_ordered db4 ids)))]))), db4))))))"

section \<open>The UniProxy API\<close>

definition normalize_node_type :: "string \<Rightarrow> string" where
  "normalize_node_type s = (if s = ''v2ray'' then ''vmess'' else if s = ''hysteria2'' then ''hysteria'' else s)"

definition get_uniproxy_node :: "int \<Rightarrow> string \<Rightarrow> db \<Rightarrow> server_node option" where
  "get_uniproxy_node node_id node_type db =
     (case node_by_id db node_id of
        None \<Rightarrow> None
      | Some n \<Rightarrow> if node_type \<noteq> ''v2node'' \<and> normalize_node_type (nd_protocol n) \<noteq> node_type then None else Some n)"

datatype uniproxy_result = Abort int string | Proceed string int server_node

definition opt_int :: "json option \<Rightarrow> int option" where
  "opt_int v = (case v of None \<Rightarrow> None | Some j \<Rightarrow> (case int_of_json j of Inl _ \<Rightarrow> None | Inr n \<Rightarrow> Some n))"

text \<open>The request's input is the merged dictionary of query and body.\<close>

definition uniproxy_context :: "setting_service \<Rightarrow> int \<Rightarrow> string \<Rightarrow> (string \<times> json) list \<Rightarrow> db \<Rightarrow> uniproxy_result \<times> db" where
  "uniproxy_context S now controller params db =
     (let token = json_get params ''token'' JNull in
      if lower controller \<noteq> ''uniproxy'' then (Abort 404 ''server controller is not exist'', db)
      else if \<not> json_truthy token then (Abort 500 ''token is null'', db)
      else (case get_str S now ''server_token'' [] db of (expected, db1) \<Rightarrow>
        if py_str (sv_codec S) token \<noteq> expected then (Abort 500 ''token is error'', db1)
        else
          let raw = json_get params ''node_type'' JNull;
              node_type = normalize_node_type (if json_truthy raw then py_str (sv_codec S) raw else [])
          in (case opt_int (map_of params ''node_id'') of
                None \<Rightarrow> (Abort 500 ''server is not exist'', db1)
              | Some node_id \<Rightarrow> (case get_uniproxy_node node_id node_type db1 of
                    None \<Rightarrow> (Abort 500 ''server is not exist'', db1)
                  | Some n \<Rightarrow> (Proceed node_type node_id n, db1)))))"

definition server_cache_key :: "string \<Rightarrow> string \<Rightarrow> int \<Rightarrow> string" where
  "server_cache_key node_type name node_id = ''SERVER_'' @ upper node_type @ ''_'' @ name @ ''_'' @ str_int node_id"

definition put_cache :: "int \<Rightarrow> string \<Rightarrow> json \<Rightarrow> int \<Rightarrow> db \<Rightarrow> db" where
  "put_cache now k v ex db = db\<lparr>t_cache := snd (cache_set now k v (Some ex) (t_cache db))\<rparr>"

definition mark_uniproxy_check :: "int \<Rightarrow> string \<Rightarrow> int \<Rightarrow> db \<Rightarrow> db" where
  "mark_uniproxy_check now node_type node_id db =
     put_cache now (server_cache_key node_type ''LAST_CHECK_AT'' node_id) (JInt now) 3600 db"

text \<open>\<open>expired_at\<close> is not null in the database.\<close>

definition serviceable :: "int \<Rightarrow> user \<Rightarrow> bool" where
  "serviceable now u \<longleftrightarrow> us_u u + us_d u < us_transfer_enable u \<and> now \<le> us_expired_at u \<and> \<not> us_banned u"

definition user_to_node_dict :: "user \<Rightarrow> json" where
  "user_to_node_dict u = JObj (compact_none
     [(''id'', JInt (us_id u)), (''uuid'', JStr (us_uuid u)), (''speed_limit'', opt_int_json (us_speed_limit u)),
      (''device_limit'', opt_int_json (us_device_limit u)), (''u'', JInt (us_u u)), (''d'', JInt (us_d u)),
      (''transfer_enable'', JInt (us_transfer_enable u)), (''expired_at'', JInt (us_expired_at u)), (''t'', JInt (us_t u)),
      (''group_id'', opt_int_json (us_group_id u)), (''plan_id'', opt_int_json (us_plan_id u))])"

definition users_of_groups :: "int \<Rightarrow> int list \<Rightarrow> db \<Rightarrow> user list" where
  "users_of_groups now ids db =
     filter (\<lambda>u. (case us_group_id u of None \<Rightarrow> False | Some g \<Rightarrow> g \<in> set ids) \<and> serviceable now u) (rows (t_users db))"

definition get_available_users :: "codec \<Rightarrow> int \<Rightarrow> json \<Rightarrow> db \<Rightarrow> json list" where
  "get_available_users C now group_id db =
     (let ids = int_list_cast C group_id in if ids = [] then [] else map user_to_node_dict (users_of_groups now ids db))"

text \<open>The three jobs are committed by the queue client one by one.\<close>

definition push_job :: "queue_config \<Rightarrow> int \<Rightarrow> (json \<Rightarrow> exn + int) \<Rightarrow> string \<Rightarrow> json list \<Rightarrow> string \<Rightarrow> db \<Rightarrow> exn + db" where
  "push_job Q now after job_name args queue_name db =
     bindE (enqueue_job Q now after job_name args [(''_queue_name'', JStr queue_name)] db) (\<lambda>(i, db'). Inr db')"

definition handle_uniproxy_push :: "queue_config \<Rightarrow> int \<Rightarrow> (json \<Rightarrow> exn + int) \<Rightarrow> server_node \<Rightarrow> string \<Rightarrow> (string \<times> json) list \<Rightarrow> db \<Rightarrow> exn + db" where
  "handle_uniproxy_push Q now after n node_type data db =
     (let node_id = nd_id n;
          db1 = put_cache now (server_cache_key node_type ''ONLINE_USER'' node_id) (JInt (int (length data))) 3600 db;
          db2 = put_cache now (server_cache_key node_type ''LAST_PUSH_AT'' node_id) (JInt now) 3600 db1;
          server = JObj [(''id'', JInt node_id), (''rate'', JStr (nd_rate n))]
      in if data = [] then Inr db2
         else
           bindE (push_job Q now after ''traffic_fetch'' [JObj data, server, JStr node_type] ''traffic_fetch'' db2) (\<lambda>db3.
           bindE (push_job Q now after ''stat_user'' [JObj data, server, JStr node_type, JStr ''d''] ''stat'' db3) (\<lambda>db4.
           push_job Q now after ''stat_server'' [JObj data, server, JStr node_type, JStr ''d''] ''stat'' db4)))"

section \<open>Online devices\<close>

definition loads_cache_json :: "codec \<Rightarrow> json option \<Rightarrow> json option" where
  "loads_cache_json C raw =
     (case raw of
        Some (JObj kvs) \<Rightarrow> Some (JObj kvs)
      | Some (JArr xs) \<Rightarrow> Some (JArr xs)
      | Some (JStr s) \<Rightarrow> (case loads C s of Some JNull \<Rightarrow> None | r \<Rightarrow> r)
      | _ \<Rightarrow> None)"

definition device_limited_users :: "int \<Rightarrow> db \<Rightarrow> int list" where
  "device_limited_users now db =
     map us_id (filter (\<lambda>u. serviceable now u \<and> (case us_device_limit u of None \<Rightarrow> False | Some n \<Rightarrow> 0 < n)) (rows (t_users db)))"

definition alive_key :: "string \<Rightarrow> string" where
  "alive_key uid = ''ALIVE_IP_USER_'' @ uid"

definition alive_entry :: "codec \<Rightarrow> int \<times> json option \<Rightarrow> exn + (string \<times> json) option" where
  "alive_entry C p =
     (case loads_cache_json C (snd p) of
        Some (JObj kvs) \<Rightarrow> (case map_of kvs ''alive_ip'' of
            None \<Rightarrow> Inr None
          | Some v \<Rightarrow> bindE (int_of_json v) (\<lambda>n. Inr (Some (str_int (fst p), JInt n))))
      | _ \<Rightarrow> Inr None)"

definition get_alive_list :: "codec \<Rightarrow> int \<Rightarrow> db \<Rightarrow> exn + (string \<times> json) list \<times> db" where
  "get_alive_list C now db =
     (case cache_get now ''ALIVE_LIST'' (t_cache db) of (raw, c) \<Rightarrow>
        let db1 = db\<lparr>t_cache := c\<rparr> in
        (case loads_cache_json C raw of
           Some (JObj kvs) \<Rightarrow> bindE (mapE (\<lambda>(k, v). bindE (int_of_json v) (\<lambda>n. Inr (k, JInt n))) kvs) (\<lambda>alive. Inr (alive, db1))
         | _ \<Rightarrow>
             let ids = device_limited_users now db1 in
             if ids = [] then Inr ([], put_cache now ''ALIVE_LIST'' (JObj []) 60 db1)
             else bindE (mapE (alive_entry C) (zip ids (cache_mget now (map (\<lambda>i. alive_key (str_int i)) ids) (t_cache db1)))) (\<lambda>entries.
               let alive = List.map_filter id entries in Inr (alive, put_cache now ''ALIVE_LIST'' (JObj alive) 60 db1))))"

text \<open>What a \<open>for\<close> over a decoded value visits.\<close>

definition json_items :: "json \<Rightarrow> exn + json list" where
  "json_items v = (case v of JArr xs \<Rightarrow> Inr xs | JObj kvs \<Rightarrow> Inr (map (\<lambda>kv. JStr (fst kv)) kvs)
     | JStr s \<Rightarrow> Inr (map (\<lambda>c. JStr [c]) s) | _ \<Rightarrow> Inl TypeError)"

definition node_ips :: "json \<Rightarrow> exn + json list" where
  "node_ips v = (case v of JObj kvs \<Rightarrow> (case map_of kvs ''aliveips'' of None \<Rightarrow> Inr [] | Some ips \<Rightarrow> json_items ips) | _ \<Rightarrow> Inr [])"

definition ip_text :: "codec \<Rightarrow> json \<Rightarrow> string" where
  "ip_text C v = takeWhile (\<lambda>c. c \<noteq> CHR ''_'') (py_str C v)"

definition listed_ips :: "json \<Rightarrow> int" where
  "listed_ips v = (case v of JObj kvs \<Rightarrow> (case map_of kvs ''aliveips'' of Some (JArr xs) \<Rightarrow> int (length xs) | _ \<Rightarrow> 0) | _ \<Rightarrow> 0)"

definition count_alive_ips :: "codec \<Rightarrow> (string \<times> json) list \<Rightarrow> bool \<Rightarrow> exn + int" where
  "count_alive_ips C ips unique =
     (if unique then bindE (mapE node_ips (map snd ips)) (\<lambda>xss. Inr (int (length (remdups (map (ip_text C) (concat xss))))))
      else Inr (sum_list (map (\<lambda>kv. listed_ips (snd kv)) ips)))"

definition dict_set :: "string \<Rightarrow> json \<Rightarrow> (string \<times> json) list \<Rightarrow> (string \<times> json) list" where
  "dict_set k v kvs = AList.update k v kvs"

text \<open>\<open>int(old.get("lastupdateAt") or 0)\<close>, and whether a report older than 100 seconds is dropped.\<close>

definition stale_node :: "int \<Rightarrow> string \<times> json \<Rightarrow> exn + bool" where
  "stale_node now kv =
     (if fst kv = ''alive_ip'' then Inr False
      else (case snd kv of
          JObj old \<Rightarrow> (let at_json = json_get old ''lastupdateAt'' JNull in
             bindE (if json_truthy at_json then int_of_json at_json else Inr 0) (\<lambda>t. Inr (100 < now - t)))
        | _ \<Rightarrow> Inr False))"

definition drop_stale :: "int \<Rightarrow> (string \<times> json) list \<Rightarrow> exn + (string \<times> json) list" where
  "drop_stale now kvs =
     bindE (mapE (\<lambda>kv. bindE (stale_node now kv) (\<lambda>b. Inr (b, kv))) kvs) (\<lambda>xs. Inr (map snd (filter (\<lambda>x. \<not> fst x) xs)))"

definition alive_update :: "codec \<Rightarrow> int \<Rightarrow> bool \<Rightarrow> string \<Rightarrow> json \<Rightarrow> (string \<times> json) list \<Rightarrow> exn + (string \<times> json) list" where
  "alive_update C now unique node_key ips old =
     bindE (drop_stale now (dict_set node_key (JObj [(''aliveips'', ips), (''lastupdateAt'', JInt now)]) old)) (\<lambda>kvs.
     bindE (count_alive_ips C kvs unique) (\<lambda>n. Inr (dict_set ''alive_ip'' (JInt n) kvs)))"

definition old_alive :: "codec \<Rightarrow> json option \<Rightarrow> (string \<times> json) list" where
  "old_alive C raw = (case loads_cache_json C raw of Some (JObj kvs) \<Rightarrow> kvs | _ \<Rightarrow> [])"

definition alive_one :: "codec \<Rightarrow> int \<Rightarrow> bool \<Rightarrow> string \<Rightarrow> (string \<Rightarrow> json option) \<Rightarrow> string \<times> json \<Rightarrow> db \<Rightarrow> exn + db" where
  "alive_one C now unique node_key read entry db =
     (case snd entry of
        JArr ips \<Rightarrow>
          if \<not> isdigit (fst entry) then Inr db
          else bindE (alive_update C now unique node_key (JArr ips) (old_alive C (read (alive_key (fst entry))))) (\<lambda>kvs.
            Inr (put_cache now (alive_key (fst entry)) (JObj kvs) 120 db))
      | _ \<Rightarrow> Inr db)"

text \<open>The cached values are read before the loop.\<close>

definition handle_alive :: "setting_service \<Rightarrow> int \<Rightarrow> string \<Rightarrow> int \<Rightarrow> (string \<times> json) list \<Rightarrow> db \<Rightarrow> exn + db" where
  "handle_alive S now node_type node_id data db =
     (let keys = map (\<lambda>e. alive_key (fst e)) data;
          values = zip keys (cache_mget now keys (t_cache db));
          read = (\<lambda>k. case map_of values k of None \<Rightarrow> None | Some v \<Rightarrow> v)
      in bindE (get_int S now ''device_limit_mode'' 0 db) (\<lambda>(mode, db1).
         bindE (foldE (alive_one (sv_codec S) now (mode = 1) (node_type @ str_int node_id) read) data db1) (\<lambda>db2.
           Inr (db2\<lparr>t_cache := snd (cache_delete ''ALIVE_LIST'' (t_cache db2))\<rparr>))))"

definition dict_update :: "(string \<times> json) list \<Rightarrow> (string \<times> json) list \<Rightarrow> (string \<times> json) list" where
  "dict_update new d = fold (\<lambda>(k, v). dict_set k v) new d"

end
