(* ===== verification/Subscribe.thy ===== *)
theory Subscribe
  imports Formats Mail Servers
begin

text \<open>
  \<open>app/services/subscribe.py\<close>: the subscription link with its three kinds of token (permanent, one-time,
  time based), the resolution of a token, the nodes of a user, the choice of the client format and the
  response. The environment holds the settings service, the time zone, MD5, HMAC-SHA1 of a counter (as a
  hexadecimal digest, under the user's token as key) and the Jinja templates.
\<close>

record sub_context =
  sc_app_name :: string
  sc_app_url :: string
  sc_subscribe_url :: string
  sc_format :: string
  sc_user :: "(string \<times> json) list"
  sc_servers :: "(string \<times> json) list list"

record sub_env =
  sb_settings :: setting_service
  sb_tz :: time_zone
  sb_md5 :: "string \<Rightarrow> string"
  sb_hmac :: "string \<Rightarrow> int \<Rightarrow> string"
  sb_render :: "string \<Rightarrow> sub_context \<Rightarrow> string"

abbreviation sb_codec :: "sub_env \<Rightarrow> codec" where
  "sb_codec B \<equiv> sv_codec (sb_settings B)"

section \<open>Tokens\<close>

definition py_str_or_none :: "codec \<Rightarrow> json option \<Rightarrow> string" where
  "py_str_or_none C v = (case v of None \<Rightarrow> ''None'' | Some j \<Rightarrow> py_str C j)"

text \<open>\<open>counter.to_bytes(4, "big")\<close> refuses a counter of 2^32 or more.\<close>

definition totp_step :: "int \<Rightarrow> int" where
  "totp_step expire_minutes = max expire_minutes 1 * 60"

definition totp_digest :: "sub_env \<Rightarrow> int \<Rightarrow> int \<Rightarrow> string \<Rightarrow> exn + string" where
  "totp_digest B now expire_minutes user_token =
     (let counter = now div totp_step expire_minutes
      in guardE (counter < 0 \<or> 2 ^ 32 \<le> counter) OverflowError (Inr (sb_hmac B user_token counter)))"

definition otp_key :: "string \<Rightarrow> string" where "otp_key t = ''otp_'' @ t"
definition otpn_key :: "string \<Rightarrow> string" where "otpn_key t = ''otpn_'' @ t"
definition totp_key :: "string \<Rightarrow> string" where "totp_key t = ''totp_'' @ t"

definition text_or_none :: "json option \<Rightarrow> bool" where
  "text_or_none v = (case v of None \<Rightarrow> False | Some j \<Rightarrow> json_truthy j)"

text \<open>\<open>rnd\<close> is the text of \<open>secrets.token_bytes(24)\<close>.\<close>

definition one_time_token :: "codec \<Rightarrow> int \<Rightarrow> string \<Rightarrow> string \<Rightarrow> db \<Rightarrow> string \<times> db" where
  "one_time_token C now rnd user_token db =
     (case cache_get now (otp_key user_token) (t_cache db) of (cached, c1) \<Rightarrow>
        if text_or_none cached then (py_str_or_none C cached, db\<lparr>t_cache := c1\<rparr>)
        else
          let fresh = base64_urlsafe rnd in
          (case cache_set_nx now (otp_key user_token) (JStr fresh) (Some 86400) c1 of (added, c2) \<Rightarrow>
             if added then (fresh, db\<lparr>t_cache := snd (cache_set now (otpn_key fresh) (JStr user_token) (Some 86400) c2)\<rparr>)
             else (case cache_get now (otp_key user_token) c2 of (v, c3) \<Rightarrow> (py_str_or_none C v, db\<lparr>t_cache := c3\<rparr>))))"

definition totp_token :: "sub_env \<Rightarrow> int \<Rightarrow> user \<Rightarrow> db \<Rightarrow> exn + string \<times> db" where
  "totp_token B now u db =
     bindE (get_int (sb_settings B) now ''show_subscribe_expire'' 5 db) (\<lambda>(expire, db1).
     bindE (totp_digest B now expire (us_token u)) (\<lambda>digest.
       Inr (base64_urlsafe (str_int (us_id u) @ '':'' @ digest), db1)))"

definition link_token :: "sub_env \<Rightarrow> int \<Rightarrow> string \<Rightarrow> int \<Rightarrow> user \<Rightarrow> db \<Rightarrow> exn + string \<times> db" where
  "link_token B now rnd meth u db =
     (if meth = 1 then Inr (one_time_token (sb_codec B) now rnd (us_token u) db)
      else if meth = 2 then totp_token B now u db
      else Inr (us_token u, db))"

definition subscribe_base_url :: "sub_env \<Rightarrow> int \<Rightarrow> db \<Rightarrow> string \<times> db" where
  "subscribe_base_url B now db =
     (case get_str (sb_settings B) now ''subscribe_url'' [] db of (urls, db1) \<Rightarrow>
        (case map (\<lambda>w. rstrip_chars {CHR ''/''} (strip w)) (filter (\<lambda>w. strip w \<noteq> []) (split_on (CHR '','') urls)) of
           c # cs \<Rightarrow> (c, db1)
         | [] \<Rightarrow> (case get_str (sb_settings B) now ''app_url'' [] db1 of (url, db2) \<Rightarrow> (rstrip_chars {CHR ''/''} url, db2))))"

definition build_subscribe_url :: "sub_env \<Rightarrow> int \<Rightarrow> string \<Rightarrow> user \<Rightarrow> db \<Rightarrow> exn + string \<times> db" where
  "build_subscribe_url B now rnd u db =
     bindE (get_int (sb_settings B) now ''show_subscribe_method'' 0 db) (\<lambda>(meth, db1).
     case get_str (sb_settings B) now ''subscribe_path'' ''/api/v1/client/subscribe'' db1 of (p, db2) \<Rightarrow>
     let path = (if p = [] then ''/api/v1/client/subscribe'' else p) in
     bindE (link_token B now rnd meth u db2) (\<lambda>(token, db3).
     let url_path = path @ (if CHR ''?'' \<in> set path then ''&'' else ''?'') @ ''token='' @ quote_path token in
     case subscribe_base_url B now db3 of (base, db4) \<Rightarrow> Inr (if base = [] then url_path else base @ url_path, db4)))"

definition decode_totp_token :: "string \<Rightarrow> exn + int \<times> string" where
  "decode_totp_token token =
     (case urlsafe_b64decode (token @ b64_padding token) of
        None \<Rightarrow> Inl (Unauthorized ''token is error'')
      | Some decoded \<Rightarrow>
          (case partition_at (CHR '':'') decoded of (uid, colon, digest) \<Rightarrow>
             (case (if valid_utf8 decoded \<and> colon then py_int uid else None) of
                None \<Rightarrow> Inl (Unauthorized ''token is error'')
              | Some i \<Rightarrow> Inr (i, digest))))"

definition take_one_time :: "codec \<Rightarrow> int \<Rightarrow> string \<Rightarrow> db \<Rightarrow> exn + string \<times> db" where
  "take_one_time C now token db =
     (case cache_get now (otpn_key token) (t_cache db) of
        (None, c) \<Rightarrow> Inl (Unauthorized ''token is error'')
      | (Some v, c) \<Rightarrow>
          let user_token = py_str C v
          in Inr (user_token, db\<lparr>t_cache := snd (cache_delete (otp_key user_token) (snd (cache_delete (otpn_key token) c)))\<rparr>))"

definition check_totp :: "sub_env \<Rightarrow> int \<Rightarrow> string \<Rightarrow> db \<Rightarrow> exn + string \<times> db" where
  "check_totp B now token db =
     (case cache_get now (totp_key token) (t_cache db) of (cached, c) \<Rightarrow>
        let db1 = db\<lparr>t_cache := c\<rparr> in
        (case cached of
           Some v \<Rightarrow> Inr (py_str (sb_codec B) v, db1)
         | None \<Rightarrow>
             bindE (decode_totp_token token) (\<lambda>(i, digest).
             case user_by_id db1 i of
               None \<Rightarrow> Inl (Unauthorized ''token is error'')
             | Some u \<Rightarrow>
                 bindE (get_int (sb_settings B) now ''show_subscribe_expire'' 5 db1) (\<lambda>(expire, db2).
                 bindE (totp_digest B now expire (us_token u)) (\<lambda>expected.
                 bindE (hash_equals expected digest) (\<lambda>same.
                 guardE (\<not> same) (Unauthorized ''token is error'')
                   (Inr (us_token u, put_cache now (totp_key token) (JStr (us_token u)) (totp_step expire) db2))))))))"

definition resolve_subscribe_user :: "sub_env \<Rightarrow> int \<Rightarrow> string \<Rightarrow> db \<Rightarrow> exn + user \<times> db" where
  "resolve_subscribe_user B now token db =
     guardE (token = []) (Unauthorized ''token is null'') (
     bindE (get_int (sb_settings B) now ''show_subscribe_method'' 0 db) (\<lambda>(meth, db1).
     bindE (if meth = 1 then take_one_time (sb_codec B) now token db1
            else if meth = 2 then check_totp B now token db1 else Inr (token, db1)) (\<lambda>(user_token, db2).
     case user_by_token db2 user_token of
       None \<Rightarrow> Inl (Unauthorized ''token is error'')
     | Some u \<Rightarrow> Inr (u, db2))))"

section \<open>Nodes for a client\<close>

definition is_available :: "int \<Rightarrow> user \<Rightarrow> bool" where
  "is_available now u \<longleftrightarrow> \<not> us_banned u \<and> truthy (us_plan_id u) \<and> 0 < us_transfer_enable u \<and>
     us_u u + us_d u < us_transfer_enable u \<and> now < us_expired_at u"

definition first_true :: "json list \<Rightarrow> json" where
  "first_true vs = (case filter json_truthy vs of [] \<Rightarrow> JNull | v # _ \<Rightarrow> v)"

definition dict_or_empty :: "json \<Rightarrow> (string \<times> json) list" where
  "dict_or_empty v = (case v of JObj kvs \<Rightarrow> kvs | _ \<Rightarrow> [])"

definition dict_get :: "(string \<times> json) list \<Rightarrow> string \<Rightarrow> json" where
  "dict_get kvs k = json_get kvs k JNull"

definition first_port :: "string \<Rightarrow> string" where
  "first_port s = takeWhile (\<lambda>c. c \<noteq> CHR ''-'') (takeWhile (\<lambda>c. c \<noteq> CHR '','') s)"

definition allow_insecure :: "(string \<times> json) list \<Rightarrow> (string \<times> json) list \<Rightarrow> bool" where
  "allow_insecure server tls \<longleftrightarrow> list_ex json_truthy
     [dict_get server ''insecure'', dict_get server ''allow_insecure'', dict_get tls ''allow_insecure'', dict_get tls ''allowInsecure'']"

definition ss_password :: "sub_env \<Rightarrow> string \<Rightarrow> (string \<times> json) list \<Rightarrow> exn + string" where
  "ss_password B uuid server =
     (let cipher = first_text (sb_codec B) [dict_get server ''cipher''] in
      if \<not> contains ''2022-blake3'' cipher then Inr uuid
      else
        let n = (if cipher = ''2022-blake3-aes-128-gcm'' then 16 else 32); at_json = dict_get server ''created_at''
        in bindE (if json_truthy at_json then int_of_json at_json else Inr 0) (\<lambda>t.
             Inr (server_key (sb_md5 B) t n @ '':'' @ b64encode (take n uuid))))"

definition plugin_host :: "(string \<times> json) list \<Rightarrow> exn + json" where
  "plugin_host network =
     (let host = dict_get network ''Host''; headers = dict_get network ''headers'' in
      if json_truthy host then Inr host
      else if \<not> json_truthy headers then Inr JNull
      else (case headers of JObj kvs \<Rightarrow> Inr (dict_get kvs ''Host'') | _ \<Rightarrow> Inl AttributeError))"

definition ss_plugin :: "codec \<Rightarrow> (string \<times> json) list \<Rightarrow> (string \<times> json) list \<Rightarrow> exn + string" where
  "ss_plugin C server network =
     (if dict_get server ''obfs'' = JStr ''http'' then
        Inr (''obfs-local;obfs=http;obfs-host='' @ first_text C [dict_get server ''obfs_host'', dict_get server ''obfs-host''] @
          '';path='' @ first_text C [dict_get server ''obfs_path'', dict_get server ''obfs-path'', JStr ''/''])
      else bindE (plugin_host network) (\<lambda>host.
        Inr (if first_text C [dict_get server ''network''] = ''http'' \<and> json_truthy host
             then ''obfs-local;obfs=http;obfs-host='' @ py_str C host @ '';path='' @ first_text C [dict_get network ''path'', JStr ''/'']
             else [])))"

definition vless_encryption :: "codec \<Rightarrow> (string \<times> json) list \<Rightarrow> string" where
  "vless_encryption C server =
     (let settings = dict_or_empty (dict_get server ''encryption_settings'') in
      if dict_get server ''encryption'' \<noteq> JStr ''mlkem768x25519plus'' \<or> settings = [] then []
      else join_with ''.'' ([''mlkem768x25519plus'', first_text C [dict_get settings ''mode'', JStr ''native''],
          first_text C [dict_get settings ''rtt'', JStr ''1rtt'']] @
        (if json_truthy (dict_get settings ''client_padding'') then [py_str C (dict_get settings ''client_padding'')] else []) @
        [first_text C [dict_get settings ''password'']]))"

definition sip008_ciphers :: "string list" where
  "sip008_ciphers = [''aes-128-gcm'', ''aes-192-gcm'', ''aes-256-gcm'', ''chacha20-ietf-poly1305'']"

definition text_among :: "json \<Rightarrow> string list \<Rightarrow> bool" where
  "text_among v xs \<longleftrightarrow> (case v of JStr s \<Rightarrow> s \<in> set xs | _ \<Rightarrow> False)"

definition prepare_subscribe_server :: "sub_env \<Rightarrow> string \<Rightarrow> (string \<times> json) list \<Rightarrow> exn + (string \<times> json) list" where
  "prepare_subscribe_server B uuid server =
     (let C = sb_codec B;
          protocol = first_text C [dict_get server ''protocol'', dict_get server ''type''];
          network = first_text C [dict_get server ''network'', JStr ''tcp''];
          tls = dict_or_empty (first_true [dict_get server ''tls_settings'', dict_get server ''tlsSettings'']);
          net = dict_or_empty (first_true [dict_get server ''network_settings'', dict_get server ''networkSettings'']);
          port = first_text C [dict_get server ''port''];
          insecure = allow_insecure server tls
      in bindE (ss_password B uuid server) (\<lambda>password.
         bindE (ss_plugin C server net) (\<lambda>plugin.
           Inr (dict_update
             [(''protocol'', JStr protocol), (''network'', JStr network), (''tls_settings'', JObj tls), (''network_settings'', JObj net),
              (''formatted_host'', JStr (format_host (first_text C [dict_get server ''host'']))), (''first_port'', JStr (first_port port)),
              (''first_port_int'', JInt (case py_int (first_port port) of None \<Rightarrow> 0 | Some n \<Rightarrow> n)),
              (''allow_insecure'', JBool insecure), (''allow_insecure_int'', JInt (if insecure then 1 else 0)),
              (''sni'', JStr (first_text C [dict_get server ''server_name'', dict_get tls ''server_name'', dict_get tls ''serverName''])),
              (''ss_password'', JStr password),
              (''ss_auth'', JStr (base64_urlsafe (first_text C [dict_get server ''cipher'', JStr ''none''] @ '':'' @ password))),
              (''ss_plugin'', JStr plugin),
              (''sip008'', JBool (protocol = ''shadowsocks'' \<and> text_among (dict_get server ''cipher'') sip008_ciphers)),
              (''vless_encryption'', JStr (vless_encryption C server)),
              (''multi_port'', JBool (CHR '','' \<in> set port \<or> CHR ''-'' \<in> set port))] server))))"

definition or_empty_dict :: "json \<Rightarrow> json" where
  "or_empty_dict v = (if json_truthy v then v else JObj [])"

definition node_dict :: "codec \<Rightarrow> server_node \<Rightarrow> (string \<times> json) list" where
  "node_dict C n =
     [(''id'', JInt (nd_id n)), (''type'', JStr ''v2node''), (''protocol'', JStr (nd_protocol n)), (''name'', JStr (nd_name n)),
      (''host'', JStr (nd_host n)), (''port'', JStr (nd_port n)), (''server_port'', JInt (nd_server_port n)), (''rate'', JStr (nd_rate n)),
      (''network'', JStr (nd_network n)), (''network_settings'', or_empty_dict (json_cast C (nd_network_settings n))),
      (''tls'', JInt (nd_tls n)), (''tls_settings'', or_empty_dict (json_cast C (nd_tls_settings n))), (''flow'', opt_str_json (nd_flow n)),
      (''encryption'', opt_str_json (nd_encryption n)), (''encryption_settings'', or_empty_dict (json_cast C (nd_encryption_settings n))),
      (''cipher'', opt_str_json (nd_cipher n)), (''obfs'', opt_str_json (nd_obfs n)), (''obfs_password'', opt_str_json (nd_obfs_password n)),
      (''up_mbps'', JInt (nd_up_mbps n)), (''down_mbps'', JInt (nd_down_mbps n)), (''disable_sni'', JBool (nd_disable_sni n)),
      (''udp_relay_mode'', opt_str_json (nd_udp_relay_mode n)), (''zero_rtt_handshake'', JBool (nd_zero_rtt_handshake n)),
      (''congestion_control'', opt_str_json (nd_congestion_control n)),
      (''padding_scheme'', or_empty_dict (json_cast C (nd_padding_scheme n))), (''created_at'', JInt (nd_created_at n)),
      (''updated_at'', JInt (nd_updated_at n)), (''cache_key'', JStr (''v2node:'' @ str_int (nd_id n) @ '':'' @ str_int (nd_updated_at n)))]"

definition node_to_subscribe_dict :: "sub_env \<Rightarrow> string \<Rightarrow> server_node \<Rightarrow> exn + (string \<times> json) list" where
  "node_to_subscribe_dict B uuid n = prepare_subscribe_server B uuid (node_dict (sb_codec B) n)"

text \<open>\<open>_reset_day\<close> always returns \<open>None\<close>, so there are two information entries.\<close>

definition reset_day :: "user \<Rightarrow> int option" where
  "reset_day u = None"

definition prepend_info :: "time_zone \<Rightarrow> user \<Rightarrow> (string \<times> json) list list \<Rightarrow> (string \<times> json) list list" where
  "prepend_info tz u servers =
     (case servers of [] \<Rightarrow> []
      | s # _ \<Rightarrow>
          let named = (\<lambda>txt. dict_set ''name'' (JStr txt) s) in
          [named (''remaining traffic: '' @ format_bytes (us_transfer_enable u - us_u u - us_d u)),
           named (''plan expires: '' @ date_text tz (us_expired_at u))] @
          (case reset_day u of None \<Rightarrow> [] | Some n \<Rightarrow> if n = 0 then [] else [named (''next reset in days: '' @ str_int n)]) @ servers)"

definition get_available_servers :: "sub_env \<Rightarrow> int \<Rightarrow> user \<Rightarrow> db \<Rightarrow> exn + (string \<times> json) list list \<times> db" where
  "get_available_servers B now u db =
     (if \<not> is_available now u then Inr ([], db)
      else bindE (mapE (node_to_subscribe_dict B (us_uuid u)) (visible_nodes_of_group (sb_codec B) db (us_group_id u))) (\<lambda>servers.
        bindE (get_int (sb_settings B) now ''show_info_to_server_enable'' 0 db) (\<lambda>(info, db1).
          Inr (if info \<noteq> 0 then prepend_info (sb_tz B) u servers else servers, db1))))"

section \<open>Client formats\<close>

definition format_checks :: "(string \<times> string list) list" where
  "format_checks =
     [(''singbox'', [''sing'']), (''clash_meta'', [''clash.meta'', ''clash-meta'', ''mihomo'', ''meta'']),
      (''clash_verge'', [''clash-verge'', ''verge'']), (''clash_nyanpasu'', [''nyanpasu'']), (''stash'', [''stash'']),
      (''clash'', [''clash'']), (''shadowrocket'', [''shadowrocket'']),
      (''quantumultx'', [''quantumult x'', ''quantumult%20x'', ''quantumultx'']), (''surfboard'', [''surfboard'']),
      (''surge'', [''surge'']), (''loon'', [''loon'']), (''shadowsocks'', [''shadowsocks'', ''sip008'']), (''sagernet'', [''sagernet'']),
      (''passwall'', [''passwall'']), (''ssrplus'', [''ssrplus'']), (''v2raytun'', [''v2raytun'']), (''v2rayng'', [''v2rayng'']),
      (''v2rayn'', [''v2rayn''])]"

fun singbox_version :: "string list \<Rightarrow> string option" where
  "singbox_version [] = None"
| "singbox_version (p # ps) =
     (if p = ''sing-box'' \<and> ps \<noteq> [] then Some (hd ps)
      else if starts_with ''sing-box'' p \<and> rstrip_chars {CHR ''/''} (lstrip_chars {CHR ''/''} (drop 8 p)) \<noteq> []
      then Some (rstrip_chars {CHR ''/''} (lstrip_chars {CHR ''/''} (drop 8 p)))
      else singbox_version ps)"

definition extract_singbox_version :: "string \<Rightarrow> string option" where
  "extract_singbox_version s = singbox_version (split_ws (map (\<lambda>c. if c = CHR ''/'' then CHR '' '' else c) s))"

definition version_numbers :: "string \<Rightarrow> nat list" where
  "version_numbers s = map (\<lambda>p. nat_of_digits (filter is_digit p)) (split_on (CHR ''.'') s)"

text \<open>Tuples padded with zeros to the longer length, compared lexicographically.\<close>

fun padded_gte :: "nat list \<Rightarrow> nat list \<Rightarrow> bool" where
  "padded_gte [] [] = True"
| "padded_gte [] (y # ys) = (y = 0 \<and> padded_gte [] ys)"
| "padded_gte (x # xs) [] = (0 < x \<or> padded_gte xs [])"
| "padded_gte (x # xs) (y # ys) = (y < x \<or> x = y \<and> padded_gte xs ys)"

definition version_gte :: "string \<Rightarrow> string \<Rightarrow> bool" where
  "version_gte version target = padded_gte (version_numbers version) (version_numbers target)"

definition detect_format :: "string option \<Rightarrow> string" where
  "detect_format flag =
     (let v = unquote (lower (set_if flag [])) in
      if contains ''sing-box'' v then
        (case extract_singbox_version v of
           Some version \<Rightarrow> if version \<noteq> [] \<and> version_gte version ''1.12.0'' then ''singbox'' else ''singbox_old''
         | None \<Rightarrow> ''singbox_old'')
      else (case find (\<lambda>(name, needles). list_ex (\<lambda>w. contains w v) needles) format_checks of
          Some (name, needles) \<Rightarrow> name | None \<Rightarrow> ''general''))"

definition clash_formats :: "string list" where
  "clash_formats = [''clash'', ''clash_meta'', ''clash_verge'', ''clash_nyanpasu'', ''stash'']"

definition base64_formats :: "string list" where
  "base64_formats = [''general'', ''passwall'', ''ssrplus'', ''v2rayn'', ''v2rayng'', ''v2raytun'', ''sagernet'', ''shadowrocket'', ''quantumultx'']"

definition template_for_format :: "string \<Rightarrow> string \<times> string" where
  "template_for_format f =
     (if f \<in> set clash_formats then (''subscribe/clash.yaml.j2'', ''text/yaml; charset=utf-8'')
      else if f \<in> {''singbox'', ''singbox_old''} then (''subscribe/singbox.json.j2'', ''application/json; charset=utf-8'')
      else if f = ''shadowsocks'' then (''subscribe/sip008.json.j2'', ''application/json; charset=utf-8'')
      else if f = ''surge'' then (''subscribe/surge.conf.j2'', ''text/plain; charset=utf-8'')
      else if f = ''surfboard'' then (''subscribe/surfboard.conf.j2'', ''text/plain; charset=utf-8'')
      else if f \<in> {''loon'', ''quantumultx'', ''shadowrocket''} then (''subscribe/client_lines.txt.j2'', ''text/plain; charset=utf-8'')
      else (''subscribe/general.txt.j2'', ''text/plain; charset=utf-8''))"

section \<open>The response\<close>

definition gigabytes :: "int \<Rightarrow> double" where
  "gigabytes n = round2 (round_q n (1024 * 1024 * 1024))"

definition user_to_subscribe_dict :: "time_zone \<Rightarrow> user \<Rightarrow> (string \<times> json) list" where
  "user_to_subscribe_dict tz u =
     [(''id'', JInt (us_id u)), (''email'', JStr (us_email u)), (''uuid'', JStr (us_uuid u)), (''u'', JInt (us_u u)), (''d'', JInt (us_d u)),
      (''transfer_enable'', JInt (us_transfer_enable u)), (''expired_at'', JInt (us_expired_at u)),
      (''upload_gb'', JFloat (gigabytes (us_u u))), (''download_gb'', JFloat (gigabytes (us_d u))),
      (''used_gb'', JFloat (round2 (add_double (gigabytes (us_u u)) (gigabytes (us_d u))))),
      (''total_gb'', JFloat (gigabytes (us_transfer_enable u))), (''expired_date'', JStr (date_text tz (us_expired_at u))),
      (''expired_at_text'', JStr (time_text tz (us_expired_at u)))]"

definition set_header :: "string \<Rightarrow> string \<Rightarrow> (string \<times> string) list \<Rightarrow> (string \<times> string) list" where
  "set_header k v hs = AList.update k v hs"

definition subscription_headers :: "user \<Rightarrow> string \<Rightarrow> string \<Rightarrow> (string \<times> string) list" where
  "subscription_headers u app_name app_url =
     [(''subscription-userinfo'', ''upload='' @ str_int (us_u u) @ ''; download='' @ str_int (us_d u) @ ''; total='' @
         str_int (us_transfer_enable u) @ ''; expire='' @ str_int (us_expired_at u)),
      (''profile-update-interval'', ''24''),
      (''content-disposition'', ''attachment;filename*=UTF-8'' @ [CHR 0x27, CHR 0x27] @ quote_path app_name)] @
     (if app_url = [] then [] else [(''profile-web-page-url'', app_url)])"

definition format_headers :: "string \<Rightarrow> string \<Rightarrow> (string \<times> string) list \<Rightarrow> (string \<times> string) list" where
  "format_headers f app_name hs =
     (if f \<in> {''singbox'', ''singbox_old''} then set_header ''profile-title'' (''base64:'' @ b64encode app_name) hs
      else if f \<in> {''surge'', ''surfboard''} then
        set_header ''content-disposition'' (''attachment;filename*=UTF-8'' @ [CHR 0x27, CHR 0x27] @ quote_path app_name @ ''.conf'') hs
      else if f = ''v2raytun'' then
        set_header ''content-disposition'' (''attachment; filename='' @ [CHR 0x22] @ app_name @ [CHR 0x22]) (set_header ''profile-title'' app_name hs)
      else hs)"

definition render_subscription :: "sub_env \<Rightarrow> int \<Rightarrow> string \<Rightarrow> user \<Rightarrow> string option \<Rightarrow> db
    \<Rightarrow> exn + (string \<times> string \<times> (string \<times> string) list) \<times> db" where
  "render_subscription B now rnd u flag db =
     guardE (\<not> is_available now u) (Forbidden ''subscription not available'')
       (case get_str (sb_settings B) now ''app_name'' ''PyBoard'' db of (app_name, db1) \<Rightarrow>
        (case get_str (sb_settings B) now ''app_url'' [] db1 of (app_url, db2) \<Rightarrow>
          let f = detect_format flag in
          bindE (get_available_servers B now u db2) (\<lambda>(servers, db3).
          bindE (build_subscribe_url B now rnd u db3) (\<lambda>(url, db4).
            let ctx = \<lparr>sc_app_name = app_name, sc_app_url = app_url, sc_subscribe_url = url, sc_format = f,
                  sc_user = user_to_subscribe_dict (sb_tz B) u,
                  sc_servers = (if f = ''sagernet'' then filter (\<lambda>s. dict_get s ''protocol'' \<noteq> JStr ''hysteria'') servers else servers)\<rparr>;
                (template, media_type) = template_for_format f;
                content = sb_render B template ctx
            in Inr ((if f \<in> set base64_formats then b64encode content else content, media_type,
                format_headers f app_name (subscription_headers u app_name app_url)), db4)))))"

section \<open>The panel of a user\<close>

record subscribe_info =
  si_user :: user
  si_plan :: "plan option"
  si_alive_ip :: int
  si_subscribe_url :: string
  si_reset_day :: "int option"
  si_allow_new_period :: int

definition alive_ip_of :: "json option \<Rightarrow> exn + int" where
  "alive_ip_of v = (case v of Some (JObj kvs) \<Rightarrow> int_of_json (json_get kvs ''alive_ip'' (JInt 0)) | _ \<Rightarrow> Inr 0)"

definition get_user_subscribe_info :: "sub_env \<Rightarrow> int \<Rightarrow> string \<Rightarrow> int \<Rightarrow> db \<Rightarrow> exn + subscribe_info \<times> db" where
  "get_user_subscribe_info B now rnd uid db =
     (case user_by_id db uid of
        None \<Rightarrow> Inl (NotFound ''user'')
      | Some u \<Rightarrow>
          let plan = (if truthy (us_plan_id u) then plan_by_id db (or_zero (us_plan_id u)) else None) in
          (case cache_get now (alive_key (str_int uid)) (t_cache db) of (raw, c) \<Rightarrow>
             bindE (alive_ip_of (loads_cache_json (sb_codec B) raw)) (\<lambda>alive_ip.
             bindE (build_subscribe_url B now rnd u (db\<lparr>t_cache := c\<rparr>)) (\<lambda>(url, db1).
             bindE (get_int (sb_settings B) now ''allow_new_period'' 0 db1) (\<lambda>(allow, db2).
               Inr (\<lparr>si_user = u, si_plan = plan, si_alive_ip = alive_ip, si_subscribe_url = url, si_reset_day = reset_day u,
                  si_allow_new_period = allow\<rparr>, db2))))))"

end
