(* ===== verification/ServerAdmin.thy ===== *)
theory ServerAdmin
  imports Servers
begin

text \<open>
  \<open>app/services/server_admin.py\<close>: the administration of node groups, routing rules and nodes. A request
  is the dictionary of the fields it sets (\<open>model_dump\<close>, with \<open>exclude_unset\<close> for an update). The random
  keys of a REALITY node and SHA-1 are parameters.
\<close>

section \<open>Dictionaries and columns\<close>

definition jget :: "(string \<times> json) list \<Rightarrow> string \<Rightarrow> json" where
  "jget kvs k = json_get kvs k JNull"

definition has_key :: "(string \<times> json) list \<Rightarrow> string \<Rightarrow> bool" where
  "has_key kvs k \<longleftrightarrow> map_of kvs k \<noteq> None"

text \<open>Setting an attribute from the dictionary: an absent key leaves it, a null violates NOT NULL.\<close>

definition str_col :: "(string \<times> json) list \<Rightarrow> string \<Rightarrow> string \<Rightarrow> exn + string" where
  "str_col kvs k old = (case map_of kvs k of None \<Rightarrow> Inr old | Some (JStr s) \<Rightarrow> Inr s | Some JNull \<Rightarrow> Inl IntegrityError | Some _ \<Rightarrow> Inl TypeError)"

definition opt_str_col :: "(string \<times> json) list \<Rightarrow> string \<Rightarrow> string option \<Rightarrow> exn + string option" where
  "opt_str_col kvs k old = (case map_of kvs k of None \<Rightarrow> Inr old | Some (JStr s) \<Rightarrow> Inr (Some s) | Some JNull \<Rightarrow> Inr None | Some _ \<Rightarrow> Inl TypeError)"

definition int_col :: "(string \<times> json) list \<Rightarrow> string \<Rightarrow> int \<Rightarrow> exn + int" where
  "int_col kvs k old = (case map_of kvs k of None \<Rightarrow> Inr old | Some (JInt n) \<Rightarrow> Inr n | Some JNull \<Rightarrow> Inl IntegrityError | Some _ \<Rightarrow> Inl TypeError)"

definition opt_int_col :: "(string \<times> json) list \<Rightarrow> string \<Rightarrow> int option \<Rightarrow> exn + int option" where
  "opt_int_col kvs k old = (case map_of kvs k of None \<Rightarrow> Inr old | Some (JInt n) \<Rightarrow> Inr (Some n) | Some JNull \<Rightarrow> Inr None | Some _ \<Rightarrow> Inl TypeError)"

definition bool_col :: "(string \<times> json) list \<Rightarrow> string \<Rightarrow> bool \<Rightarrow> exn + bool" where
  "bool_col kvs k old = (case map_of kvs k of None \<Rightarrow> Inr old | Some (JBool b) \<Rightarrow> Inr b | Some JNull \<Rightarrow> Inl IntegrityError | Some _ \<Rightarrow> Inl TypeError)"

definition json_col :: "(string \<times> json) list \<Rightarrow> string \<Rightarrow> json \<Rightarrow> json" where
  "json_col kvs k old = (case map_of kvs k of None \<Rightarrow> old | Some v \<Rightarrow> v)"

section \<open>Groups\<close>

definition count_users_in_group :: "db \<Rightarrow> int \<Rightarrow> int" where
  "count_users_in_group db g = count_where (\<lambda>u. us_group_id u = Some g) (rows (t_users db))"

definition count_plans_in_group :: "db \<Rightarrow> int \<Rightarrow> int" where
  "count_plans_in_group db g = count_where (\<lambda>p. pl_group_id p = g) (rows (t_plans db))"

definition count_nodes_in_group :: "codec \<Rightarrow> db \<Rightarrow> int \<Rightarrow> int" where
  "count_nodes_in_group C db g = count_where (\<lambda>n. g \<in> set (int_list_cast C (nd_group_id n))) (nodes_all db)"

definition count_nodes_in_route :: "codec \<Rightarrow> db \<Rightarrow> int \<Rightarrow> int" where
  "count_nodes_in_route C db r = count_where (\<lambda>n. r \<in> set (int_list_cast C (nd_route_id n))) (nodes_all db)"

definition list_groups :: "codec \<Rightarrow> db \<Rightarrow> (server_group \<times> int \<times> int) list" where
  "list_groups C db = map (\<lambda>g. (g, count_users_in_group db (sg_id g), count_nodes_in_group C db (sg_id g))) (groups_all db)"

definition create_group :: "int \<Rightarrow> string \<Rightarrow> db \<Rightarrow> exn + server_group \<times> db" where
  "create_group now name db =
     guardE (name = []) (BadRequest ''empty name'')
       (let g = \<lparr>sg_id = 0, sg_name = name, sg_created_at = 0, sg_updated_at = 0\<rparr>
        in Inr (new_row server_group_entity now (t_server_groups db) g,
                db\<lparr>t_server_groups := repo_create server_group_entity now (t_server_groups db) g\<rparr>))"

definition update_group :: "int \<Rightarrow> int \<Rightarrow> string option \<Rightarrow> db \<Rightarrow> exn + server_group \<times> db" where
  "update_group now i name db =
     (case group_by_id db i of
        None \<Rightarrow> Inl (NotFound ''group'')
      | Some g \<Rightarrow>
          guardE (name = Some []) (BadRequest ''empty name'')
            (let g' = (case name of None \<Rightarrow> g | Some s \<Rightarrow> g\<lparr>sg_name := s\<rparr>)
             in Inr (g', db\<lparr>t_server_groups := repo_update server_group_entity now (t_server_groups db) g'\<rparr>)))"

definition delete_group :: "codec \<Rightarrow> int \<Rightarrow> db \<Rightarrow> exn + db" where
  "delete_group C i db =
     (case group_by_id db i of
        None \<Rightarrow> Inl (NotFound ''group'')
      | Some g \<Rightarrow>
          guardE (count_nodes_in_group C db i \<noteq> 0) (Conflict ''group used by a node'') (
          guardE (count_plans_in_group db i \<noteq> 0) (Conflict ''group used by a plan'') (
          guardE (count_users_in_group db i \<noteq> 0) (Conflict ''group used by a user'')
            (Inr (db\<lparr>t_server_groups := repo_delete server_group_entity (t_server_groups db) g\<rparr>)))))"

section \<open>Routes\<close>

definition route_actions :: "string list" where
  "route_actions = [''block'', ''block_ip'', ''block_port'', ''protocol'', ''dns'', ''route'', ''route_ip'', ''default_out'']"

definition json_dump :: "codec \<Rightarrow> json \<Rightarrow> json" where
  "json_dump C v =
     (case v of JStr s \<Rightarrow> if s = [] then JNull else (case loads C s of Some j \<Rightarrow> j | None \<Rightarrow> v) | _ \<Rightarrow> v)"

definition is_text_in :: "json \<Rightarrow> string list \<Rightarrow> bool" where
  "is_text_in v xs \<longleftrightarrow> (case v of JStr s \<Rightarrow> s \<in> set xs | _ \<Rightarrow> False)"

definition clean_match :: "json \<Rightarrow> json" where
  "clean_match v = (case v of JArr xs \<Rightarrow> JArr (filter json_truthy xs) | _ \<Rightarrow> v)"

definition normalize_route :: "codec \<Rightarrow> bool \<Rightarrow> (string \<times> json) list \<Rightarrow> exn + (string \<times> json) list" where
  "normalize_route C partial data =
     (let action = jget data ''action'' in
      guardE (action \<noteq> JNull \<and> \<not> is_text_in action route_actions) (BadRequest ''action'') (
      guardE (\<not> partial \<and> \<not> json_truthy (jget data ''remarks'')) (BadRequest ''empty remarks'') (
      if action = JStr ''default_out'' then Inr (dict_set ''match'' (JArr []) data)
      else if has_key data ''match'' then
        guardE (\<not> json_truthy (jget data ''match'') \<and> \<not> partial) (BadRequest ''empty match'')
          (Inr (dict_set ''match'' (json_dump C (clean_match (jget data ''match''))) data))
      else Inr data)))"

definition set_route :: "(string \<times> json) list \<Rightarrow> server_route \<Rightarrow> exn + server_route" where
  "set_route data r =
     bindE (str_col data ''remarks'' (rt_remarks r)) (\<lambda>remarks.
     bindE (str_col data ''action'' (rt_action r)) (\<lambda>action.
       Inr (r\<lparr>rt_remarks := remarks, rt_match := json_col data ''match'' (rt_match r), rt_action := action,
          rt_action_value := json_col data ''action_value'' (rt_action_value r)\<rparr>)))"

definition blank_route :: server_route where
  "blank_route = \<lparr>rt_id = 0, rt_remarks = [], rt_match = JArr [], rt_action = [], rt_action_value = JNull, rt_created_at = 0, rt_updated_at = 0\<rparr>"

text \<open>\<open>_route_dict\<close>: the row with a match given as JSON text decoded.\<close>

definition route_view :: "codec \<Rightarrow> server_route \<Rightarrow> server_route" where
  "route_view C r = (case json_cast C (rt_match r) of JArr xs \<Rightarrow> r\<lparr>rt_match := JArr xs\<rparr> | _ \<Rightarrow> r)"

definition list_routes :: "codec \<Rightarrow> db \<Rightarrow> server_route list" where
  "list_routes C db = map (route_view C) (routes_all db)"

definition create_route :: "codec \<Rightarrow> int \<Rightarrow> (string \<times> json) list \<Rightarrow> db \<Rightarrow> exn + server_route \<times> db" where
  "create_route C now data db =
     bindE (normalize_route C False data) (\<lambda>payload.
     bindE (set_route payload blank_route) (\<lambda>r.
       Inr (new_row server_route_entity now (t_routes db) r, db\<lparr>t_routes := repo_create server_route_entity now (t_routes db) r\<rparr>)))"

definition update_route :: "codec \<Rightarrow> int \<Rightarrow> int \<Rightarrow> (string \<times> json) list \<Rightarrow> db \<Rightarrow> exn + server_route \<times> db" where
  "update_route C now i data db =
     (case route_by_id db i of
        None \<Rightarrow> Inl (NotFound ''route'')
      | Some r \<Rightarrow>
          bindE (normalize_route C True data) (\<lambda>payload.
          bindE (set_route payload r) (\<lambda>r'.
            Inr (r', db\<lparr>t_routes := repo_update server_route_entity now (t_routes db) r'\<rparr>))))"

definition delete_route :: "codec \<Rightarrow> int \<Rightarrow> db \<Rightarrow> exn + db" where
  "delete_route C i db =
     (case route_by_id db i of
        None \<Rightarrow> Inl (NotFound ''route'')
      | Some r \<Rightarrow>
          guardE (count_nodes_in_route C db i \<noteq> 0) (Conflict ''route used by a node'')
            (Inr (db\<lparr>t_routes := repo_delete server_route_entity (t_routes db) r\<rparr>)))"

section \<open>Nodes\<close>

definition node_protocols :: "string list" where
  "node_protocols = [''shadowsocks'', ''vmess'', ''vless'', ''trojan'', ''tuic'', ''hysteria2'', ''hysteria'', ''anytls'']"

definition node_networks :: "string list" where
  "node_networks = [''tcp'', ''ws'', ''grpc'', ''http'', ''httpupgrade'', ''xhttp'']"

definition required_node_fields :: "string list" where
  "required_node_fields = [''group_id'', ''name'', ''host'', ''port'', ''server_port'', ''protocol'', ''tls'', ''network'', ''rate'']"

definition json_object_dump :: "codec \<Rightarrow> json \<Rightarrow> exn + json" where
  "json_object_dump C v =
     (case v of
        JNull \<Rightarrow> Inr JNull
      | JObj kvs \<Rightarrow> Inr v
      | JStr s \<Rightarrow> if strip s = [] then Inr JNull
          else (case loads C (strip s) of Some (JObj kvs) \<Rightarrow> Inr (JObj kvs) | _ \<Rightarrow> Inl (BadRequest ''not a JSON object''))
      | _ \<Rightarrow> Inl (BadRequest ''not a JSON object''))"

definition adapt_protocol :: "(string \<times> json) list \<Rightarrow> (string \<times> json) list" where
  "adapt_protocol data =
     (let protocol = jget data ''protocol'';
          d1 = (if protocol = JStr ''anytls'' \<and> jget data ''tls'' = JInt 0 then dict_set ''tls'' (JInt 1) data else data);
          d2 = (if is_text_in protocol [''hysteria2'', ''hysteria'', ''trojan'', ''tuic''] then dict_set ''tls'' (JInt 1) d1 else d1)
      in if protocol = JStr ''shadowsocks'' \<and> \<not> json_truthy (jget d2 ''cipher'') then dict_set ''cipher'' (JStr ''aes-128-gcm'') d2 else d2)"

definition dump_fields :: "codec \<Rightarrow> (string \<times> json) list \<Rightarrow> (string \<times> json) list" where
  "dump_fields C data =
     fold (\<lambda>k d. if has_key d k then dict_set k (json_dump C (jget d k)) d else d) [''group_id'', ''route_id'', ''tags'', ''padding_scheme''] data"

definition dump_object_fields :: "codec \<Rightarrow> (string \<times> json) list \<Rightarrow> exn + (string \<times> json) list" where
  "dump_object_fields C data =
     foldE (\<lambda>k d. if has_key d k then bindE (json_object_dump C (jget d k)) (\<lambda>v. Inr (dict_set k v d)) else Inr d)
       [''tls_settings'', ''network_settings'', ''encryption_settings''] data"

text \<open>The fresh keys of a node: public key, private key, obfuscation password.\<close>

record node_secrets =
  ns_public_key :: string
  ns_private_key :: string
  ns_obfs_password :: string
  ns_sha1 :: "string \<Rightarrow> string"

definition reality_settings :: "node_secrets \<Rightarrow> (string \<times> json) list \<Rightarrow> exn + (string \<times> json) list" where
  "reality_settings R kvs =
     (let k2 = set_default ''private_key'' (JStr (ns_private_key R)) (set_default ''public_key'' (JStr (ns_public_key R)) kvs) in
      case jget k2 ''private_key'' of
        JStr s \<Rightarrow> Inr (set_default ''server_port'' (JStr ''443'') (set_default ''short_id'' (JStr (take 8 (ns_sha1 R s))) k2))
      | _ \<Rightarrow> Inl AttributeError)"

definition adapt_tls :: "codec \<Rightarrow> node_secrets \<Rightarrow> (string \<times> json) list \<Rightarrow> exn + (string \<times> json) list" where
  "adapt_tls C R data =
     (if jget data ''tls'' \<noteq> JInt 2 then Inr data
      else (let loaded = json_cast C (jget data ''tls_settings'') in
        case (if json_truthy loaded then loaded else JObj []) of
          JObj kvs \<Rightarrow> bindE (reality_settings R kvs) (\<lambda>kvs'. Inr (dict_set ''tls_settings'' (JObj kvs') data))
        | _ \<Rightarrow> Inl AttributeError))"

definition adapt_transport :: "node_secrets \<Rightarrow> (string \<times> json) list \<Rightarrow> (string \<times> json) list" where
  "adapt_transport R data =
     (let d1 = (if jget data ''network'' \<notin> {JNull, JStr ''tcp''} \<and> jget data ''encryption'' \<noteq> JStr ''mlkem768x25519plus''
                then dict_set ''flow'' JNull data else data);
          d2 = (if json_truthy (jget d1 ''obfs'') \<and> \<not> json_truthy (jget d1 ''obfs_password'')
                then dict_set ''obfs_password'' (JStr (ns_obfs_password R)) d1 else d1);
          d3 = (if has_key d2 ''obfs'' \<and> \<not> json_truthy (jget d2 ''obfs'') then dict_set ''obfs_password'' JNull d2 else d2)
      in set_default ''down_mbps'' (JInt 0) (set_default ''up_mbps'' (JInt 0) d3))"

definition normalize_node :: "codec \<Rightarrow> node_secrets \<Rightarrow> bool \<Rightarrow> (string \<times> json) list \<Rightarrow> exn + (string \<times> json) list" where
  "normalize_node C R partial data =
     guardE (jget data ''protocol'' \<noteq> JNull \<and> \<not> is_text_in (jget data ''protocol'') node_protocols) (BadRequest ''protocol'') (
     guardE (jget data ''network'' \<noteq> JNull \<and> \<not> is_text_in (jget data ''network'') node_networks) (BadRequest ''network'') (
     guardE (\<not> partial \<and> list_ex (\<lambda>k. jget data k \<in> {JNull, JStr []}) required_node_fields) (BadRequest ''missing field'') (
     bindE (dump_object_fields C (dump_fields C (adapt_protocol data))) (\<lambda>d1.
     bindE (adapt_tls C R d1) (\<lambda>d2. Inr (adapt_transport R d2))))))"

definition set_node_text :: "(string \<times> json) list \<Rightarrow> server_node \<Rightarrow> exn + server_node" where
  "set_node_text d n =
     bindE (str_col d ''name'' (nd_name n)) (\<lambda>name.
     bindE (str_col d ''host'' (nd_host n)) (\<lambda>host.
     bindE (str_col d ''listen_ip'' (nd_listen_ip n)) (\<lambda>listen_ip.
     bindE (str_col d ''port'' (nd_port n)) (\<lambda>port.
     bindE (str_col d ''rate'' (nd_rate n)) (\<lambda>rate.
     bindE (str_col d ''protocol'' (nd_protocol n)) (\<lambda>protocol.
     bindE (str_col d ''network'' (nd_network n)) (\<lambda>network.
     bindE (opt_str_col d ''flow'' (nd_flow n)) (\<lambda>flow.
     bindE (opt_str_col d ''encryption'' (nd_encryption n)) (\<lambda>encryption.
     bindE (opt_str_col d ''udp_relay_mode'' (nd_udp_relay_mode n)) (\<lambda>udp_relay_mode.
     bindE (opt_str_col d ''congestion_control'' (nd_congestion_control n)) (\<lambda>congestion_control.
     bindE (opt_str_col d ''cipher'' (nd_cipher n)) (\<lambda>cipher.
     bindE (opt_str_col d ''obfs'' (nd_obfs n)) (\<lambda>obfs.
     bindE (opt_str_col d ''obfs_password'' (nd_obfs_password n)) (\<lambda>obfs_password.
       Inr (n\<lparr>nd_name := name, nd_host := host, nd_listen_ip := listen_ip, nd_port := port, nd_rate := rate,
         nd_protocol := protocol, nd_network := network, nd_flow := flow, nd_encryption := encryption,
         nd_udp_relay_mode := udp_relay_mode, nd_congestion_control := congestion_control, nd_cipher := cipher,
         nd_obfs := obfs, nd_obfs_password := obfs_password\<rparr>)))))))))))))))"

definition set_node_numbers :: "(string \<times> json) list \<Rightarrow> server_node \<Rightarrow> exn + server_node" where
  "set_node_numbers d n =
     bindE (opt_int_col d ''parent_id'' (nd_parent_id n)) (\<lambda>parent_id.
     bindE (int_col d ''server_port'' (nd_server_port n)) (\<lambda>server_port.
     bindE (opt_int_col d ''sort'' (nd_sort n)) (\<lambda>sort.
     bindE (int_col d ''tls'' (nd_tls n)) (\<lambda>tls.
     bindE (int_col d ''up_mbps'' (nd_up_mbps n)) (\<lambda>up_mbps.
     bindE (int_col d ''down_mbps'' (nd_down_mbps n)) (\<lambda>down_mbps.
     bindE (bool_col d ''show'' (nd_show n)) (\<lambda>shown.
     bindE (bool_col d ''disable_sni'' (nd_disable_sni n)) (\<lambda>disable_sni.
     bindE (bool_col d ''zero_rtt_handshake'' (nd_zero_rtt_handshake n)) (\<lambda>zero_rtt.
       Inr (n\<lparr>nd_parent_id := parent_id, nd_server_port := server_port, nd_sort := sort, nd_tls := tls, nd_up_mbps := up_mbps,
         nd_down_mbps := down_mbps, nd_show := shown, nd_disable_sni := disable_sni, nd_zero_rtt_handshake := zero_rtt\<rparr>))))))))))"

definition set_node_json :: "(string \<times> json) list \<Rightarrow> server_node \<Rightarrow> server_node" where
  "set_node_json d n = n\<lparr>nd_group_id := json_col d ''group_id'' (nd_group_id n), nd_route_id := json_col d ''route_id'' (nd_route_id n),
     nd_tags := json_col d ''tags'' (nd_tags n), nd_tls_settings := json_col d ''tls_settings'' (nd_tls_settings n),
     nd_network_settings := json_col d ''network_settings'' (nd_network_settings n),
     nd_encryption_settings := json_col d ''encryption_settings'' (nd_encryption_settings n),
     nd_padding_scheme := json_col d ''padding_scheme'' (nd_padding_scheme n)\<rparr>"

definition set_node :: "(string \<times> json) list \<Rightarrow> server_node \<Rightarrow> exn + server_node" where
  "set_node d n = bindE (set_node_text d n) (\<lambda>n1. bindE (set_node_numbers d n1) (\<lambda>n2. Inr (set_node_json d n2)))"

definition blank_node :: server_node where
  "blank_node = \<lparr>nd_id = 0, nd_group_id = JArr [], nd_route_id = JNull, nd_name = [], nd_parent_id = None, nd_host = [],
     nd_listen_ip = ''0.0.0.0'', nd_port = [], nd_server_port = 0, nd_tags = JNull, nd_rate = ''1'', nd_show = False, nd_sort = None,
     nd_protocol = [], nd_tls = 0, nd_tls_settings = JNull, nd_flow = None, nd_network = [], nd_network_settings = JNull,
     nd_encryption = None, nd_encryption_settings = JNull, nd_disable_sni = False, nd_udp_relay_mode = None,
     nd_zero_rtt_handshake = False, nd_congestion_control = None, nd_cipher = None, nd_up_mbps = 0, nd_down_mbps = 0,
     nd_obfs = None, nd_obfs_password = None, nd_padding_scheme = JNull, nd_created_at = 0, nd_updated_at = 0\<rparr>"

definition node_view :: "codec \<Rightarrow> server_node \<Rightarrow> server_node" where
  "node_view C n = n\<lparr>nd_group_id := json_cast C (nd_group_id n), nd_route_id := json_cast C (nd_route_id n), nd_tags := json_cast C (nd_tags n),
     nd_tls_settings := json_cast C (nd_tls_settings n), nd_network_settings := json_cast C (nd_network_settings n),
     nd_encryption_settings := json_cast C (nd_encryption_settings n), nd_padding_scheme := json_cast C (nd_padding_scheme n)\<rparr>"

definition list_nodes :: "codec \<Rightarrow> db \<Rightarrow> server_node list" where
  "list_nodes C db = map (node_view C) (nodes_all db)"

definition find_node :: "int \<Rightarrow> db \<Rightarrow> exn + server_node" where
  "find_node i db = (case node_by_id db i of None \<Rightarrow> Inl (NotFound ''node'') | Some n \<Rightarrow> Inr n)"

definition get_node :: "codec \<Rightarrow> int \<Rightarrow> db \<Rightarrow> exn + server_node" where
  "get_node C i db = bindE (find_node i db) (\<lambda>n. Inr (node_view C n))"

definition insert_node :: "codec \<Rightarrow> int \<Rightarrow> server_node \<Rightarrow> db \<Rightarrow> server_node \<times> db" where
  "insert_node C now n db =
     (node_view C (new_row server_node_entity now (t_nodes db) n), db\<lparr>t_nodes := repo_create server_node_entity now (t_nodes db) n\<rparr>)"

definition put_node :: "int \<Rightarrow> server_node \<Rightarrow> db \<Rightarrow> db" where
  "put_node now n db = db\<lparr>t_nodes := repo_update server_node_entity now (t_nodes db) n\<rparr>"

definition create_node :: "codec \<Rightarrow> node_secrets \<Rightarrow> int \<Rightarrow> (string \<times> json) list \<Rightarrow> db \<Rightarrow> exn + server_node \<times> db" where
  "create_node C R now data db =
     bindE (normalize_node C R False data) (\<lambda>payload. bindE (set_node payload blank_node) (\<lambda>n. Inr (insert_node C now n db)))"

definition update_node :: "codec \<Rightarrow> node_secrets \<Rightarrow> int \<Rightarrow> int \<Rightarrow> (string \<times> json) list \<Rightarrow> db \<Rightarrow> exn + server_node \<times> db" where
  "update_node C R now i data db =
     bindE (find_node i db) (\<lambda>n.
     bindE (normalize_node C R True data) (\<lambda>payload.
     bindE (set_node payload n) (\<lambda>n'. Inr (node_view C n', put_node now n' db))))"

definition delete_node :: "int \<Rightarrow> db \<Rightarrow> exn + db" where
  "delete_node i db = bindE (find_node i db) (\<lambda>n. Inr (db\<lparr>t_nodes := repo_delete server_node_entity (t_nodes db) n\<rparr>))"

definition copy_node :: "codec \<Rightarrow> int \<Rightarrow> int \<Rightarrow> db \<Rightarrow> exn + server_node \<times> db" where
  "copy_node C now i db =
     bindE (find_node i db) (\<lambda>n. Inr (insert_node C now (n\<lparr>nd_id := 0, nd_created_at := 0, nd_updated_at := 0, nd_show := False\<rparr>) db))"

definition sort_one :: "int \<Rightarrow> string \<times> int \<Rightarrow> db \<Rightarrow> exn + db" where
  "sort_one now entry db =
     (case py_int (fst entry) of
        None \<Rightarrow> Inl ValueError
      | Some i \<Rightarrow> (case node_by_id db i of None \<Rightarrow> Inr db | Some n \<Rightarrow> Inr (put_node now (n\<lparr>nd_sort := Some (snd entry)\<rparr>) db)))"

definition sort_nodes :: "int \<Rightarrow> (string \<times> int) list \<Rightarrow> db \<Rightarrow> exn + db" where
  "sort_nodes now sorts db = foldE (sort_one now) sorts db"

end
