(* ===== verification/ServerFacts.thy ===== *)
theory ServerFacts
  imports ServerAdmin
begin

text \<open>
  The administration of the node service as a whole: a request is one of the operations of
  \<open>services/server_admin.py\<close>, a failing request rolls back. What any history keeps: the types of the columns
  that the configuration of a node and the subscription rely on, and the references between nodes, groups,
  routes, plans and users. And the agreement of the two sides that use a node: its subscribers and its server.
\<close>

section \<open>Requests\<close>

datatype server_request =
    CreateGroup string
  | UpdateGroup int "string option"
  | DeleteGroup int
  | CreateRoute "(string \<times> json) list"
  | UpdateRoute int "(string \<times> json) list"
  | DeleteRoute int
  | CreateNode node_secrets "(string \<times> json) list"
  | UpdateNode node_secrets int "(string \<times> json) list"
  | DeleteNode int
  | CopyNode int
  | SortNodes "(string \<times> int) list"

fun serve :: "codec \<Rightarrow> int \<Rightarrow> server_request \<Rightarrow> db \<Rightarrow> exn + db" where
  "serve C now (CreateGroup name) db = bindE (create_group now name db) (\<lambda>(g, db'). Inr db')"
| "serve C now (UpdateGroup i name) db = bindE (update_group now i name db) (\<lambda>(g, db'). Inr db')"
| "serve C now (DeleteGroup i) db = delete_group C i db"
| "serve C now (CreateRoute d) db = bindE (create_route C now d db) (\<lambda>(r, db'). Inr db')"
| "serve C now (UpdateRoute i d) db = bindE (update_route C now i d db) (\<lambda>(r, db'). Inr db')"
| "serve C now (DeleteRoute i) db = delete_route C i db"
| "serve C now (CreateNode R d) db = bindE (create_node C R now d db) (\<lambda>(n, db'). Inr db')"
| "serve C now (UpdateNode R i d) db = bindE (update_node C R now i d db) (\<lambda>(n, db'). Inr db')"
| "serve C now (DeleteNode i) db = delete_node i db"
| "serve C now (CopyNode i) db = bindE (copy_node C now i db) (\<lambda>(n, db'). Inr db')"
| "serve C now (SortNodes sorts) db = sort_nodes now sorts db"

fun serve_all :: "codec \<Rightarrow> (int \<times> server_request) list \<Rightarrow> db \<Rightarrow> db" where
  "serve_all C [] db = db"
| "serve_all C (x # xs) db = serve_all C xs (case serve C (fst x) (snd x) db of Inl e \<Rightarrow> db | Inr db' \<Rightarrow> db')"

section \<open>The dictionary of a node\<close>

lemma map_of_dict_set [simp]: "map_of (dict_set k v d) k' = (if k' = k then Some v else map_of d k')"
  by (simp add: dict_set_def update_conv')

lemma map_of_set_default [simp]:
  "map_of (set_default k v d) k' = (if k' = k \<and> map_of d k = None then Some v else map_of d k')"
  by (auto simp: set_default_def map_add_def split: option.split)

lemma jget_dict_set [simp]: "jget (dict_set k v d) k' = (if k' = k then v else jget d k')"
  by (simp add: jget_def json_get_def)

definition is_object :: "json \<Rightarrow> bool" where
  "is_object v \<longleftrightarrow> (case v of JNull \<Rightarrow> True | JObj kvs \<Rightarrow> True | _ \<Rightarrow> False)"

definition object_at :: "(string \<times> json) list \<Rightarrow> string \<Rightarrow> bool" where
  "object_at d k \<longleftrightarrow> (case map_of d k of None \<Rightarrow> True | Some v \<Rightarrow> is_object v)"

lemma is_object_simps [simp]: "is_object JNull" "is_object (JObj kvs)"
  by (simp_all add: is_object_def)

lemma object_at_set [simp]: "object_at (dict_set k v d) k' = (if k' = k then is_object v else object_at d k')"
  by (simp add: object_at_def)

lemma json_object_dump_object: "json_object_dump C v = Inr w \<Longrightarrow> is_object w"
  by (auto simp: json_object_dump_def split: json.splits if_splits option.splits)

text \<open>Every stage keeps the protocol and the network of the request.\<close>

definition same_kind :: "(string \<times> json) list \<Rightarrow> (string \<times> json) list \<Rightarrow> bool" where
  "same_kind d d' \<longleftrightarrow> map_of d' ''protocol'' = map_of d ''protocol'' \<and> map_of d' ''network'' = map_of d ''network''"

lemma same_kind_trans: "same_kind a b \<Longrightarrow> same_kind b c \<Longrightarrow> same_kind a c"
  by (simp add: same_kind_def)

lemma adapt_protocol_kind: "same_kind d (adapt_protocol d)"
  by (simp add: adapt_protocol_def same_kind_def Let_def)

lemma dump_fields_kind: "same_kind d (dump_fields C d)"
  by (simp add: dump_fields_def same_kind_def)

lemma dump_object_fields_facts:
  assumes "dump_object_fields C d = Inr d'"
  shows "same_kind d d' \<and> object_at d' ''tls_settings'' \<and> object_at d' ''network_settings'' \<and> object_at d' ''encryption_settings''"
proof -
  have one: "same_kind x y \<and> object_at y k \<and> (\<forall>k'. k' \<noteq> k \<longrightarrow> object_at x k' \<longrightarrow> object_at y k')"
    if "(if has_key x k then bindE (json_object_dump C (jget x k)) (\<lambda>v. Inr (dict_set k v x)) else Inr x) = Inr y"
      "k \<noteq> ''protocol''" "k \<noteq> ''network''" for k x y
    using that json_object_dump_object
    by (auto simp: same_kind_def has_key_def object_at_def result_simps split: if_splits)
  from assms obtain a b where
    a: "(if has_key d ''tls_settings'' then bindE (json_object_dump C (jget d ''tls_settings'')) (\<lambda>v. Inr (dict_set ''tls_settings'' v d)) else Inr d) = Inr a" and
    b: "(if has_key a ''network_settings'' then bindE (json_object_dump C (jget a ''network_settings'')) (\<lambda>v. Inr (dict_set ''network_settings'' v a)) else Inr a) = Inr b" and
    c: "(if has_key b ''encryption_settings'' then bindE (json_object_dump C (jget b ''encryption_settings'')) (\<lambda>v. Inr (dict_set ''encryption_settings'' v b)) else Inr b) = Inr d'"
    by (auto simp only: dump_object_fields_def foldE.simps bindE_eq_Inr Inr_inject)
  show ?thesis using one [OF a] one [OF b] one [OF c] by (auto intro: same_kind_trans)
qed

lemma adapt_tls_facts:
  assumes "adapt_tls C R d = Inr d'"
  shows "same_kind d d' \<and> (\<forall>k. object_at d k \<longrightarrow> object_at d' k)"
proof (cases "jget d ''tls'' = JInt 2")
  case True
  with assms obtain kvs where "d' = dict_set ''tls_settings'' (JObj kvs) d"
    by (auto simp: adapt_tls_def bindE_eq_Inr Let_def split: json.splits)
  then show ?thesis by (simp add: same_kind_def)
next
  case False
  with assms show ?thesis by (simp add: adapt_tls_def same_kind_def)
qed

lemma kind_steps:
  "same_kind a b \<Longrightarrow> k \<noteq> ''protocol'' \<Longrightarrow> k \<noteq> ''network'' \<Longrightarrow> same_kind a (dict_set k v b)"
  "same_kind a b \<Longrightarrow> k \<noteq> ''protocol'' \<Longrightarrow> k \<noteq> ''network'' \<Longrightarrow> same_kind a (set_default k v b)"
  "same_kind a b \<Longrightarrow> same_kind a c \<Longrightarrow> same_kind a (if P then b else c)"
  "same_kind a a"
  by (simp_all add: same_kind_def)

lemma object_steps:
  "object_at b k' \<Longrightarrow> k' \<noteq> k \<Longrightarrow> object_at (dict_set k v b) k'"
  "object_at b k' \<Longrightarrow> k' \<noteq> k \<Longrightarrow> object_at (set_default k v b) k'"
  "object_at b k' \<Longrightarrow> object_at c k' \<Longrightarrow> object_at (if P then b else c) k'"
  by (simp_all add: object_at_def)

lemma adapt_transport_kind: "same_kind d (adapt_transport R d)"
  unfolding adapt_transport_def Let_def by (intro kind_steps) simp_all

lemma adapt_transport_objects:
  "object_at d k \<Longrightarrow> k \<notin> {''flow'', ''obfs_password'', ''up_mbps'', ''down_mbps''} \<Longrightarrow> object_at (adapt_transport R d) k"
  unfolding adapt_transport_def Let_def by (intro object_steps) simp_all

lemma normalize_node_facts:
  assumes "normalize_node C R partial data = Inr d"
  shows "(jget d ''protocol'' = JNull \<or> is_text_in (jget d ''protocol'') node_protocols) \<and>
     (jget d ''network'' = JNull \<or> is_text_in (jget d ''network'') node_networks) \<and>
     object_at d ''tls_settings'' \<and> object_at d ''network_settings'' \<and> object_at d ''encryption_settings'' \<and>
     (\<not> partial \<longrightarrow> jget d ''protocol'' \<noteq> JNull \<and> jget d ''network'' \<noteq> JNull)"
proof -
  from assms obtain d1 d2 where d1: "dump_object_fields C (dump_fields C (adapt_protocol data)) = Inr d1"
    and d2: "adapt_tls C R d1 = Inr d2" and d: "d = adapt_transport R d2"
    and ok: "jget data ''protocol'' = JNull \<or> is_text_in (jget data ''protocol'') node_protocols"
      "jget data ''network'' = JNull \<or> is_text_in (jget data ''network'') node_networks"
      "\<not> partial \<longrightarrow> jget data ''protocol'' \<noteq> JNull \<and> jget data ''network'' \<noteq> JNull"
    by (auto simp: normalize_node_def required_node_fields_def result_simps)
  note f1 = dump_object_fields_facts [OF d1]
  note f2 = adapt_tls_facts [OF d2]
  have "same_kind data d"
    unfolding d using f1 f2 adapt_transport_kind adapt_protocol_kind dump_fields_kind by (meson same_kind_trans)
  then have "jget d ''protocol'' = jget data ''protocol''" "jget d ''network'' = jget data ''network''"
    by (simp_all add: same_kind_def jget_def json_get_def)
  then show ?thesis using f1 f2 ok by (simp add: d adapt_transport_objects)
qed

section \<open>The types of the columns\<close>

definition node_typed :: "server_node \<Rightarrow> bool" where
  "node_typed n \<longleftrightarrow> nd_protocol n \<in> set node_protocols \<and> nd_network n \<in> set node_networks \<and>
     is_object (nd_tls_settings n) \<and> is_object (nd_network_settings n) \<and> is_object (nd_encryption_settings n)"

definition server_typed :: "db \<Rightarrow> bool" where
  "server_typed db \<longleftrightarrow> list_all node_typed (rows (t_nodes db)) \<and> list_all (\<lambda>r. rt_action r \<in> set route_actions) (rows (t_routes db)) \<and>
     list_all (\<lambda>g. sg_name g \<noteq> []) (rows (t_server_groups db))"

lemma all_create: "list_all P (rows t) \<Longrightarrow> P (new_row E now t r) \<Longrightarrow> list_all P (rows (repo_create E now t r))"
  by simp

lemma all_update: "list_all P (rows t) \<Longrightarrow> (\<And>x. P (stored E now x r)) \<Longrightarrow> list_all P (rows (repo_update E now t r))"
  by (auto simp: rows_repo_update list_all_iff)

lemma all_delete: "list_all P (rows t) \<Longrightarrow> list_all P (rows (repo_delete E t r))"
  by (auto simp: repo_delete_def list_all_iff)

lemma node_typed_rows [simp]:
  "node_typed (new_row server_node_entity now t n) = node_typed n"
  "node_typed (stored server_node_entity now x n) = node_typed n"
  by (simp_all add: node_typed_def new_row_def stored_def server_node_entity_def)

lemma route_rows [simp]:
  "rt_action (new_row server_route_entity now t r) = rt_action r" "rt_action (stored server_route_entity now x r) = rt_action r"
  by (simp_all add: new_row_def stored_def server_route_entity_def)

lemma group_rows [simp]:
  "sg_name (new_row server_group_entity now t r) = sg_name r" "sg_name (stored server_group_entity now x r) = sg_name r"
  by (simp_all add: new_row_def stored_def server_group_entity_def)

lemma set_node_facts:
  assumes "set_node d n = Inr n'"
  shows "str_col d ''protocol'' (nd_protocol n) = Inr (nd_protocol n')" "str_col d ''network'' (nd_network n) = Inr (nd_network n')"
    "nd_tls_settings n' = json_col d ''tls_settings'' (nd_tls_settings n)"
    "nd_network_settings n' = json_col d ''network_settings'' (nd_network_settings n)"
    "nd_encryption_settings n' = json_col d ''encryption_settings'' (nd_encryption_settings n)"
    "nd_group_id n' = json_col d ''group_id'' (nd_group_id n)" "nd_route_id n' = json_col d ''route_id'' (nd_route_id n)"
    "nd_id n' = nd_id n"
  using assms by (auto simp: set_node_def set_node_text_def set_node_numbers_def set_node_json_def result_simps)

lemma str_col_among:
  assumes "str_col d k old = Inr s" and "jget d k = JNull \<or> is_text_in (jget d k) xs" and "jget d k \<noteq> JNull \<or> old \<in> set xs"
  shows "s \<in> set xs"
  using assms by (cases "map_of d k") (auto simp: str_col_def jget_def json_get_def is_text_in_def split: json.splits)

lemma json_col_object: "object_at d k \<Longrightarrow> is_object old \<Longrightarrow> is_object (json_col d k old)"
  by (simp add: object_at_def json_col_def split: option.splits)

lemma written_node_typed:
  assumes "normalize_node C R partial data = Inr d" and "set_node d n = Inr n'" and "node_typed n \<or> \<not> partial \<and> n = blank_node"
  shows "node_typed n'"
proof -
  note f = normalize_node_facts [OF assms(1)]
  note g = set_node_facts [OF assms(2)]
  have old: "is_object (nd_tls_settings n)" "is_object (nd_network_settings n)" "is_object (nd_encryption_settings n)"
    using assms(3) by (auto simp: node_typed_def blank_node_def)
  have "nd_protocol n' \<in> set node_protocols" using str_col_among [OF g(1)] f assms(3) by (auto simp: node_typed_def)
  moreover have "nd_network n' \<in> set node_networks" using str_col_among [OF g(2)] f assms(3) by (auto simp: node_typed_def)
  moreover have "is_object (nd_tls_settings n')" "is_object (nd_network_settings n')" "is_object (nd_encryption_settings n')"
    using f old by (simp_all add: g(3,4,5) json_col_object)
  ultimately show ?thesis by (simp add: node_typed_def)
qed

text \<open>A creation request carries every field of its DTO.\<close>

definition complete_request :: "server_request \<Rightarrow> bool" where
  "complete_request req \<longleftrightarrow> (case req of CreateRoute d \<Rightarrow> has_key d ''action'' | _ \<Rightarrow> True)"

lemma node_by_id_row: "node_by_id db i = Some n \<Longrightarrow> n \<in> set (rows (t_nodes db))"
  unfolding node_by_id_def using repo_get_SomeD by metis

lemma route_by_id_row: "route_by_id db i = Some r \<Longrightarrow> r \<in> set (rows (t_routes db))"
  unfolding route_by_id_def using repo_get_SomeD by metis

lemma group_by_id_row: "group_by_id db i = Some g \<Longrightarrow> g \<in> set (rows (t_server_groups db))"
  unfolding group_by_id_def using repo_get_SomeD by metis

lemma put_node_typed: "server_typed db \<Longrightarrow> node_typed n \<Longrightarrow> server_typed (put_node now n db)"
  by (simp add: server_typed_def put_node_def all_update)

lemma insert_node_typed: "server_typed db \<Longrightarrow> node_typed n \<Longrightarrow> server_typed (snd (insert_node C now n db))"
  by (simp add: server_typed_def insert_node_def)

lemma group_request_typed:
  assumes "server_typed db"
  shows "create_group now name db = Inr (g, db') \<Longrightarrow> server_typed db'"
    and "update_group now i nm db = Inr (g, db') \<Longrightarrow> server_typed db'"
    and "delete_group C i db = Inr db' \<Longrightarrow> server_typed db'"
proof -
  show "create_group now name db = Inr (g, db') \<Longrightarrow> server_typed db'"
    using assms by (auto simp: create_group_def server_typed_def result_simps Let_def)
  show "delete_group C i db = Inr db' \<Longrightarrow> server_typed db'"
    using assms by (auto simp: delete_group_def server_typed_def result_simps all_delete split: option.splits)
  assume u: "update_group now i nm db = Inr (g, db')"
  then obtain g0 where g0: "group_by_id db i = Some g0" and nm: "nm \<noteq> Some []"
    and db': "db' = db\<lparr>t_server_groups := repo_update server_group_entity now (t_server_groups db) (case nm of None \<Rightarrow> g0 | Some s \<Rightarrow> g0\<lparr>sg_name := s\<rparr>)\<rparr>"
    by (auto simp: update_group_def result_simps Let_def split: option.splits)
  have "sg_name g0 \<noteq> []" using assms group_by_id_row [OF g0] by (auto simp: server_typed_def list_all_iff)
  then show "server_typed db'" using assms nm by (auto simp: db' server_typed_def intro!: all_update split: option.split)
qed

lemma normalize_route_action:
  assumes "normalize_route C partial data = Inr d"
  shows "map_of d ''action'' = map_of data ''action'' \<and> (jget d ''action'' = JNull \<or> is_text_in (jget d ''action'') route_actions)"
  using assms by (auto simp: normalize_route_def result_simps Let_def jget_def json_get_def split: if_splits)

lemma set_route_action: "set_route d r = Inr r' \<Longrightarrow> str_col d ''action'' (rt_action r) = Inr (rt_action r') \<and> rt_id r' = rt_id r"
  by (auto simp: set_route_def result_simps)

lemma route_request_typed:
  assumes "server_typed db"
  shows "create_route C now data db = Inr (r, db') \<Longrightarrow> has_key data ''action'' \<Longrightarrow> server_typed db'"
    and "update_route C now i data db = Inr (r, db') \<Longrightarrow> server_typed db'"
    and "delete_route C i db = Inr db' \<Longrightarrow> server_typed db'"
proof -
  show "delete_route C i db = Inr db' \<Longrightarrow> server_typed db'"
    using assms by (auto simp: delete_route_def server_typed_def result_simps all_delete split: option.splits)
  {
    assume c: "create_route C now data db = Inr (r, db')" and key: "has_key data ''action''"
    then obtain d r1 where d: "normalize_route C False data = Inr d" and r1: "set_route d blank_route = Inr r1"
      and db': "db' = db\<lparr>t_routes := repo_create server_route_entity now (t_routes db) r1\<rparr>"
      by (auto simp: create_route_def result_simps)
    have "rt_action r1 \<in> set route_actions"
      using normalize_route_action [OF d] set_route_action [OF r1] key
      by (auto simp: str_col_def has_key_def jget_def json_get_def is_text_in_def split: option.splits json.splits)
    then show "server_typed db'" using assms by (simp add: db' server_typed_def)
  }
  assume u: "update_route C now i data db = Inr (r, db')"
  then obtain r0 d r1 where r0: "route_by_id db i = Some r0" and d: "normalize_route C True data = Inr d" and r1: "set_route d r0 = Inr r1"
    and db': "db' = db\<lparr>t_routes := repo_update server_route_entity now (t_routes db) r1\<rparr>"
    by (auto simp: update_route_def result_simps split: option.splits)
  have "rt_action r0 \<in> set route_actions" using assms route_by_id_row [OF r0] by (auto simp: server_typed_def list_all_iff)
  then have "rt_action r1 \<in> set route_actions"
    using str_col_among [of d "''action''" "rt_action r0" "rt_action r1" route_actions] normalize_route_action [OF d] set_route_action [OF r1] by blast
  then show "server_typed db'" using assms by (simp add: db' server_typed_def all_update)
qed

lemma node_request_typed:
  assumes "server_typed db"
  shows "create_node C R now data db = Inr (n, db') \<Longrightarrow> server_typed db'"
    and "update_node C R now i data db = Inr (n, db') \<Longrightarrow> server_typed db'"
    and "delete_node i db = Inr db' \<Longrightarrow> server_typed db'"
    and "copy_node C now i db = Inr (n, db') \<Longrightarrow> server_typed db'"
    and "sort_nodes now sorts db = Inr db' \<Longrightarrow> server_typed db'"
proof -
  have row: "node_by_id x j = Some n0 \<Longrightarrow> server_typed x \<Longrightarrow> node_typed n0" for x j n0
    using node_by_id_row by (auto simp: server_typed_def list_all_iff)
  show "create_node C R now data db = Inr (n, db') \<Longrightarrow> server_typed db'"
    using assms written_node_typed insert_node_typed by (auto simp: create_node_def result_simps) (metis snd_conv)
  show "update_node C R now i data db = Inr (n, db') \<Longrightarrow> server_typed db'"
    using assms written_node_typed put_node_typed row by (auto simp: update_node_def find_node_def result_simps split: option.splits)
  show "delete_node i db = Inr db' \<Longrightarrow> server_typed db'"
    using assms by (auto simp: delete_node_def server_typed_def result_simps all_delete)
  show "copy_node C now i db = Inr (n, db') \<Longrightarrow> server_typed db'"
  proof -
    assume "copy_node C now i db = Inr (n, db')"
    then obtain n0 where n0: "node_by_id db i = Some n0"
      and db': "(n, db') = insert_node C now (n0\<lparr>nd_id := 0, nd_created_at := 0, nd_updated_at := 0, nd_show := False\<rparr>) db"
      by (auto simp: copy_node_def find_node_def result_simps split: option.splits)
    have "node_typed (n0\<lparr>nd_id := 0, nd_created_at := 0, nd_updated_at := 0, nd_show := False\<rparr>)"
      using row [OF n0 assms] by (simp add: node_typed_def)
    then show "server_typed db'" using insert_node_typed [OF assms] by (metis db' snd_conv)
  qed
  show "sort_nodes now sorts db = Inr db' \<Longrightarrow> server_typed db'"
    unfolding sort_nodes_def
  proof (erule foldE_invariant)
    fix e x y assume "server_typed x" and "sort_one now e x = Inr y"
    then show "server_typed y"
      using row by (auto simp: sort_one_def node_typed_def intro!: put_node_typed split: option.splits)
  qed (rule assms)
qed

lemma serve_typed:
  assumes "serve C now req db = Inr db'" and "server_typed db" and "complete_request req"
  shows "server_typed db'"
  using assms by (cases req)
    (auto simp: bindE_eq_Inr complete_request_def dest: group_request_typed route_request_typed node_request_typed)

section \<open>References\<close>

definition has_group :: "db \<Rightarrow> int \<Rightarrow> bool" where
  "has_group db g \<longleftrightarrow> group_by_id db g \<noteq> None"

definition has_route :: "db \<Rightarrow> int \<Rightarrow> bool" where
  "has_route db r \<longleftrightarrow> route_by_id db r \<noteq> None"

definition node_refs :: "codec \<Rightarrow> db \<Rightarrow> server_node \<Rightarrow> bool" where
  "node_refs C db n \<longleftrightarrow> list_all (has_group db) (int_list_cast C (nd_group_id n)) \<and> list_all (has_route db) (int_list_cast C (nd_route_id n))"

definition user_refs :: "db \<Rightarrow> user \<Rightarrow> bool" where
  "user_refs db u \<longleftrightarrow> (case us_group_id u of None \<Rightarrow> True | Some g \<Rightarrow> has_group db g)"

definition server_refs :: "codec \<Rightarrow> db \<Rightarrow> bool" where
  "server_refs C db \<longleftrightarrow> list_all (node_refs C db) (rows (t_nodes db)) \<and> list_all (user_refs db) (rows (t_users db)) \<and>
     list_all (\<lambda>p. has_group db (pl_group_id p)) (rows (t_plans db))"

text \<open>A request that writes a node names existing groups and routes only.\<close>

definition names_existing :: "codec \<Rightarrow> server_request \<Rightarrow> db \<Rightarrow> bool" where
  "names_existing C req db \<longleftrightarrow> (case req of
       CreateNode R d \<Rightarrow> (case normalize_node C R False d of Inl e \<Rightarrow> True | Inr x \<Rightarrow> node_refs C db (set_node_json x blank_node))
     | UpdateNode R i d \<Rightarrow>
         (case normalize_node C R True d of Inl e \<Rightarrow> True
          | Inr x \<Rightarrow> (case node_by_id db i of None \<Rightarrow> True | Some n \<Rightarrow> node_refs C db (set_node_json x n)))
     | _ \<Rightarrow> True)"

fun all_named :: "codec \<Rightarrow> (int \<times> server_request) list \<Rightarrow> db \<Rightarrow> bool" where
  "all_named C [] db = True"
| "all_named C (x # xs) db =
     (names_existing C (snd x) db \<and> all_named C xs (case serve C (fst x) (snd x) db of Inl e \<Rightarrow> db | Inr db' \<Rightarrow> db'))"

lemma has_group_iff: "has_group db g \<longleftrightarrow> (\<exists>x\<in>set (rows (t_server_groups db)). sg_id x = g)"
  by (simp add: has_group_def group_by_id_def repo_get_None server_group_entity_def)

lemma has_route_iff: "has_route db r \<longleftrightarrow> (\<exists>x\<in>set (rows (t_routes db)). rt_id x = r)"
  by (simp add: has_route_def route_by_id_def repo_get_None server_route_entity_def)

text \<open>What does not lose a group or a route keeps the references.\<close>

lemma refs_mono:
  assumes "server_refs C db" and "\<And>g. has_group db g \<Longrightarrow> has_group db' g" and "\<And>r. has_route db r \<Longrightarrow> has_route db' r"
    and "t_users db' = t_users db" "t_plans db' = t_plans db"
    and "\<And>n. n \<in> set (rows (t_nodes db')) \<Longrightarrow> node_refs C db n"
  shows "server_refs C db'"
proof -
  have "node_refs C db n \<Longrightarrow> node_refs C db' n" for n using assms(2,3) by (auto simp: node_refs_def list_all_iff)
  moreover have "user_refs db u \<Longrightarrow> user_refs db' u" for u using assms(2) by (auto simp: user_refs_def split: option.splits)
  ultimately show ?thesis using assms by (auto simp: server_refs_def list_all_iff)
qed

lemma refs_row: "server_refs C db \<Longrightarrow> n \<in> set (rows (t_nodes db)) \<Longrightarrow> node_refs C db n"
  by (simp add: server_refs_def list_all_iff)

lemma has_group_create: "has_group db g \<Longrightarrow> has_group (db\<lparr>t_server_groups := repo_create server_group_entity now (t_server_groups db) x\<rparr>) g"
  by (auto simp: has_group_iff)

lemma has_group_update: "has_group (db\<lparr>t_server_groups := repo_update server_group_entity now (t_server_groups db) x\<rparr>) g = has_group db g"
  by (simp add: has_group_def group_by_id_def server_groups.get_update)

lemma has_route_create: "has_route db r \<Longrightarrow> has_route (db\<lparr>t_routes := repo_create server_route_entity now (t_routes db) x\<rparr>) r"
  by (auto simp: has_route_iff)

lemma has_route_update: "has_route (db\<lparr>t_routes := repo_update server_route_entity now (t_routes db) x\<rparr>) r = has_route db r"
  by (simp add: has_route_def route_by_id_def routes.get_update)

lemma count_where_none: "count_where P xs = 0 \<longleftrightarrow> (\<forall>x\<in>set xs. \<not> P x)"
  by (auto simp: count_where_def filter_empty_conv)

lemma set_nodes_all: "set (nodes_all db) = set (rows (t_nodes db))"
  by (simp add: nodes_all_def)

text \<open>A deleted group or route is referenced by nothing.\<close>

lemma delete_group_refs:
  assumes "delete_group C i db = Inr db'" and "server_refs C db"
  shows "server_refs C db' \<and> \<not> has_group db' i"
proof -
  from assms(1) obtain g where g: "group_by_id db i = Some g" and db': "db' = db\<lparr>t_server_groups := repo_delete server_group_entity (t_server_groups db) g\<rparr>"
    and free: "\<forall>n\<in>set (rows (t_nodes db)). i \<notin> set (int_list_cast C (nd_group_id n))"
      "\<forall>p\<in>set (rows (t_plans db)). pl_group_id p \<noteq> i" "\<forall>u\<in>set (rows (t_users db)). us_group_id u \<noteq> Some i"
    by (auto simp: delete_group_def result_simps count_nodes_in_group_def count_plans_in_group_def count_users_in_group_def
        count_where_none set_nodes_all split: option.splits)
  have id: "sg_id g = i" using g by (auto simp: group_by_id_def server_group_entity_def dest: repo_get_SomeD)
  have hg: "has_group db' j \<longleftrightarrow> has_group db j \<and> j \<noteq> i" for j
    by (auto simp: db' has_group_iff repo_delete_def delete_where_def server_group_entity_def id)
  have hr: "has_route db' = has_route db" by (rule ext) (simp add: db' has_route_iff)
  show ?thesis using assms(2) free
    by (auto simp: server_refs_def node_refs_def user_refs_def hr db' [symmetric] list_all_iff hg split: option.splits)
       (auto simp: db' hg [unfolded db'])
qed

lemma delete_route_refs:
  assumes "delete_route C i db = Inr db'" and "server_refs C db"
  shows "server_refs C db' \<and> \<not> has_route db' i"
proof -
  from assms(1) obtain r where r: "route_by_id db i = Some r" and db': "db' = db\<lparr>t_routes := repo_delete server_route_entity (t_routes db) r\<rparr>"
    and free: "\<forall>n\<in>set (rows (t_nodes db)). i \<notin> set (int_list_cast C (nd_route_id n))"
    by (auto simp: delete_route_def result_simps count_nodes_in_route_def count_where_none set_nodes_all split: option.splits)
  have id: "rt_id r = i" using r by (auto simp: route_by_id_def server_route_entity_def dest: repo_get_SomeD)
  have hr: "has_route db' j \<longleftrightarrow> has_route db j \<and> j \<noteq> i" for j
    by (auto simp: db' has_route_iff repo_delete_def server_route_entity_def id)
  have hg: "has_group db' = has_group db" by (rule ext) (simp add: db' has_group_iff)
  have "node_refs C db n \<Longrightarrow> n \<in> set (rows (t_nodes db)) \<Longrightarrow> node_refs C db' n" for n
    using free by (auto simp: node_refs_def hg hr list_all_iff)
  moreover have "user_refs db' = user_refs db" by (rule ext) (simp add: user_refs_def hg split: option.split)
  moreover have "t_nodes db' = t_nodes db" "t_users db' = t_users db" "t_plans db' = t_plans db" by (simp_all add: db')
  ultimately show ?thesis using assms(2) by (simp add: server_refs_def hg hr list_all_iff)
qed

lemma node_refs_rows:
  "node_refs C db (new_row server_node_entity now t n) = node_refs C db n"
  "node_refs C db (stored server_node_entity now x n) = node_refs C db n"
  by (simp_all add: node_refs_def new_row_def stored_def server_node_entity_def)

lemma node_refs_eq: "nd_group_id n' = nd_group_id n \<Longrightarrow> nd_route_id n' = nd_route_id n \<Longrightarrow> node_refs C db n' = node_refs C db n"
  by (simp add: node_refs_def)

lemma put_node_refs:
  assumes "server_refs C db" "node_refs C db n"
  shows "server_refs C (put_node now n db)"
proof (rule refs_mono [OF assms(1)])
  fix m assume "m \<in> set (rows (t_nodes (put_node now n db)))"
  then have "m \<in> set (rows (repo_update server_node_entity now (t_nodes db) n))" by (simp add: put_node_def)
  from nodes.set_update_cases [OF this] show "node_refs C db m"
    using refs_row [OF assms(1)] assms(2) by (auto simp: node_refs_rows)
qed (simp_all add: put_node_def has_group_iff has_route_iff)

lemma insert_node_refs:
  assumes "server_refs C db" "node_refs C db n"
  shows "server_refs C (snd (insert_node C now n db))"
proof (rule refs_mono [OF assms(1)])
  fix m assume "m \<in> set (rows (t_nodes (snd (insert_node C now n db))))"
  then show "node_refs C db m"
    using refs_row [OF assms(1)] assms(2) by (auto simp: insert_node_def node_refs_rows)
qed (simp_all add: insert_node_def has_group_iff has_route_iff)

lemma set_node_refs:
  assumes "set_node x n = Inr n'"
  shows "node_refs C db n' = node_refs C db (set_node_json x n)"
  using set_node_facts(6,7) [OF assms] by (simp add: node_refs_def set_node_json_def)

lemma node_request_refs:
  assumes "server_refs C db"
  shows "create_node C R now data db = Inr (n, db') \<Longrightarrow> names_existing C (CreateNode R data) db \<Longrightarrow> server_refs C db'"
    and "update_node C R now i data db = Inr (n, db') \<Longrightarrow> names_existing C (UpdateNode R i data) db \<Longrightarrow> server_refs C db'"
    and "delete_node i db = Inr db' \<Longrightarrow> server_refs C db'"
    and "copy_node C now i db = Inr (n, db') \<Longrightarrow> server_refs C db'"
    and "sort_nodes now sorts db = Inr db' \<Longrightarrow> server_refs C db'"
proof -
  have row: "node_by_id x j = Some n0 \<Longrightarrow> server_refs C x \<Longrightarrow> node_refs C x n0" for x j n0
    using node_by_id_row refs_row by metis
  {
    assume c: "create_node C R now data db = Inr (n, db')" and named: "names_existing C (CreateNode R data) db"
    then obtain x m where x: "normalize_node C R False data = Inr x" and m: "set_node x blank_node = Inr m"
      and db': "db' = snd (insert_node C now m db)"
      by (auto simp: create_node_def result_simps)
    show "server_refs C db'" unfolding db'
      using insert_node_refs [OF assms] named by (simp add: names_existing_def x set_node_refs [OF m])
  }
  {
    assume u: "update_node C R now i data db = Inr (n, db')" and named: "names_existing C (UpdateNode R i data) db"
    then obtain n0 x m where n0: "node_by_id db i = Some n0" and x: "normalize_node C R True data = Inr x" and m: "set_node x n0 = Inr m"
      and db': "db' = put_node now m db"
      by (auto simp: update_node_def find_node_def result_simps split: option.splits)
    show "server_refs C db'" unfolding db'
      using put_node_refs [OF assms] named by (simp add: names_existing_def n0 x set_node_refs [OF m])
  }
  {
    assume "delete_node i db = Inr db'"
    then obtain n0 where db': "db' = db\<lparr>t_nodes := repo_delete server_node_entity (t_nodes db) n0\<rparr>"
      by (auto simp: delete_node_def result_simps)
    show "server_refs C db'"
    proof (rule refs_mono [OF assms])
      fix m assume "m \<in> set (rows (t_nodes db'))"
      then show "node_refs C db m" using refs_row [OF assms] by (simp add: db' repo_delete_def)
    qed (simp_all add: db' has_group_iff has_route_iff)
  }
  {
    assume "copy_node C now i db = Inr (n, db')"
    then obtain n0 where n0: "node_by_id db i = Some n0"
      and db': "(n, db') = insert_node C now (n0\<lparr>nd_id := 0, nd_created_at := 0, nd_updated_at := 0, nd_show := False\<rparr>) db"
      by (auto simp: copy_node_def find_node_def result_simps split: option.splits)
    have "node_refs C db (n0\<lparr>nd_id := 0, nd_created_at := 0, nd_updated_at := 0, nd_show := False\<rparr>)"
      using row [OF n0 assms] by (simp add: node_refs_def)
    then show "server_refs C db'" using insert_node_refs [OF assms] by (metis db' snd_conv)
  }
  show "sort_nodes now sorts db = Inr db' \<Longrightarrow> server_refs C db'"
    unfolding sort_nodes_def
  proof (erule foldE_invariant)
    fix e x y assume x: "server_refs C x" and "sort_one now e x = Inr y"
    then show "server_refs C y"
      using row by (auto simp: sort_one_def node_refs_def intro!: put_node_refs split: option.splits)
  qed (rule assms)
qed

lemma server_refs_frame:
  assumes "server_refs C db" "t_nodes db' = t_nodes db" "t_users db' = t_users db" "t_plans db' = t_plans db"
    and "\<And>g. has_group db g \<Longrightarrow> has_group db' g" "\<And>r. has_route db r \<Longrightarrow> has_route db' r"
  shows "server_refs C db'"
  using assms refs_row by (intro refs_mono [OF assms(1)]) auto

lemma other_request_refs:
  assumes "server_refs C db"
  shows "create_group now name db = Inr (g, db') \<Longrightarrow> server_refs C db'"
    and "update_group now i nm db = Inr (g, db') \<Longrightarrow> server_refs C db'"
    and "create_route C now data db = Inr (r, db') \<Longrightarrow> server_refs C db'"
    and "update_route C now i data db = Inr (r, db') \<Longrightarrow> server_refs C db'"
proof -
  show "create_group now name db = Inr (g, db') \<Longrightarrow> server_refs C db'"
    by (auto simp: create_group_def result_simps Let_def has_group_create has_route_iff intro!: server_refs_frame [OF assms])
  show "update_group now i nm db = Inr (g, db') \<Longrightarrow> server_refs C db'"
    by (auto simp: update_group_def result_simps Let_def has_group_update has_route_iff intro!: server_refs_frame [OF assms] split: option.splits)
  show "create_route C now data db = Inr (r, db') \<Longrightarrow> server_refs C db'"
    by (auto simp: create_route_def result_simps has_route_create has_group_iff intro!: server_refs_frame [OF assms])
  show "update_route C now i data db = Inr (r, db') \<Longrightarrow> server_refs C db'"
    by (auto simp: update_route_def result_simps has_route_update has_group_iff intro!: server_refs_frame [OF assms] split: option.splits)
qed

lemma serve_refs:
  assumes "serve C now req db = Inr db'" and "server_refs C db" and "names_existing C req db"
  shows "server_refs C db'"
  using assms by (cases req) (auto simp: bindE_eq_Inr dest: other_request_refs delete_group_refs delete_route_refs node_request_refs)

section \<open>Properties\<close>

definition plain_codec :: codec where
  "plain_codec = \<lparr>dumps = (\<lambda>v. []), loads = (\<lambda>s. None), py_repr = (\<lambda>v. [])\<rparr>"

definition sample_node :: server_node where
  "sample_node = blank_node\<lparr>nd_id := 1, nd_group_id := JArr [JInt 3], nd_name := ''n'', nd_host := ''h.example'', nd_port := ''443'',
     nd_server_port := 443, nd_show := True, nd_protocol := ''vless'', nd_network := ''tcp''\<rparr>"

definition sample_group :: server_group where
  "sample_group = \<lparr>sg_id = 3, sg_name = ''g'', sg_created_at = 0, sg_updated_at = 0\<rparr>"

definition server_db :: db where
  "server_db = empty_db\<lparr>t_nodes := \<lparr>rows = [sample_node], next_id = 2\<rparr>, t_users := \<lparr>rows = [sample_user\<lparr>us_group_id := Some 3,
       us_plan_id := Some 1, us_transfer_enable := 100, us_expired_at := 50\<rparr>], next_id = 2\<rparr>,
     t_server_groups := \<lparr>rows = [sample_group, sample_group\<lparr>sg_id := 4\<rparr>], next_id = 5\<rparr>, t_plans := \<lparr>rows = [sample_plan], next_id = 2\<rparr>\<rparr>"

definition sample_secrets :: node_secrets where
  "sample_secrets = \<lparr>ns_public_key = ''p'', ns_private_key = ''k'', ns_obfs_password = ''o'', ns_sha1 = (\<lambda>s. ''0123456789'')\<rparr>"

definition server_history :: "(int \<times> server_request) list" where
  "server_history = [(2, DeleteGroup 3), (3, CreateRoute [(''remarks'', JStr ''r''), (''action'', JStr ''dns''), (''match'', JArr [])]),
     (4, UpdateNode sample_secrets 1 [(''protocol'', JStr ''trojan''), (''tls'', JInt 2)]), (5, DeleteGroup 4)]"

definition group_history :: "(int \<times> server_request) list" where
  "group_history = [(2, DeleteGroup 3), (3, CreateGroup ''x''), (4, CopyNode 1), (5, DeleteGroup 4), (6, SortNodes [(''1'', 7)])]"

text \<open>C32: Whatever the administrator does to the node service, every stored node keeps a known protocol and a
  known transport, and its TLS, network and encryption settings are objects or null; every route keeps a known
  action and every group a name. Requests are DTOs with their required fields; a failing request changes nothing.\<close>

theorem server_columns_typed:
  assumes "server_typed db" and "list_all (\<lambda>x. complete_request (snd x)) hist"
  shows "server_typed (serve_all C hist db)"
  using assms
proof (induction hist arbitrary: db)
  case (Cons x hist)
  have "server_typed (case serve C (fst x) (snd x) db of Inl e \<Rightarrow> db | Inr db' \<Rightarrow> db')"
    using Cons.prems by (cases "serve C (fst x) (snd x) db") (auto dest: serve_typed)
  then show ?case using Cons by simp
qed simp

theorem server_columns_typed_witness:
  "server_typed (serve_all plain_codec server_history server_db)"
proof -
  have "server_typed server_db" "list_all (\<lambda>x. complete_request (snd x)) server_history" by code_simp+
  then show ?thesis using server_columns_typed [of server_db server_history plain_codec] by blast
qed

text \<open>C31: As long as the administrator writes nodes that name existing groups and routes, no history of requests
  leaves a node, a user or a plan that refers to a missing group, or a node that refers to a missing route: the
  guards of the deletions are enough.\<close>

theorem server_references_kept:
  assumes "server_refs C db" and "all_named C hist db"
  shows "server_refs C (serve_all C hist db)"
  using assms
proof (induction hist arbitrary: db)
  case (Cons x hist)
  have "server_refs C (case serve C (fst x) (snd x) db of Inl e \<Rightarrow> db | Inr db' \<Rightarrow> db')"
    using Cons.prems by (cases "serve C (fst x) (snd x) db") (auto dest: serve_refs)
  then show ?case using Cons by simp
qed simp

theorem server_references_kept_witness:
  "server_refs plain_codec (serve_all plain_codec group_history server_db) \<and>
   \<not> is_ok (serve plain_codec 2 (DeleteGroup 3) server_db) \<and> is_ok (serve plain_codec 2 (DeleteGroup 4) server_db)"
proof -
  have "server_refs plain_codec server_db" "all_named plain_codec group_history server_db"
    "\<not> is_ok (serve plain_codec 2 (DeleteGroup 3) server_db)" "is_ok (serve plain_codec 2 (DeleteGroup 4) server_db)" by code_simp+
  then show ?thesis using server_references_kept [of plain_codec server_db group_history] by blast
qed

end
