(* ===== verification/SubscribeFacts.thy ===== *)
theory SubscribeFacts
  imports Subscribe ServerFacts
begin

text \<open>
  What a subscription link is good for: the three kinds of token resolve to the user they were made for, a
  one-time link only once, and a time based token only with the digest of its user. And the two sides of a
  node agree: a node in a user's subscription serves that user.
\<close>

section \<open>Reading settings disturbs nothing\<close>

definition undisturbed :: "int \<Rightarrow> db \<Rightarrow> db \<Rightarrow> bool" where
  "undisturbed now db db' \<longleftrightarrow> (\<exists>c. db' = db\<lparr>t_cache := c\<rparr>) \<and> (setting_coherent now db \<longrightarrow> setting_coherent now db') \<and>
     (\<forall>k t. now \<le> t \<longrightarrow> \<not> is_setting_key k \<longrightarrow> cache_value t k (t_cache db') = cache_value t k (t_cache db))"

lemma value_get: "now \<le> t \<Longrightarrow> cache_value t k' (snd (cache_get now k c)) = cache_value t k' c"
  using cache_get_state [of now k c] by (auto simp: value_delete_expired)

lemma get_cached_undisturbed: "undisturbed now db (snd (get_cached S now k db))"
proof -
  have "cache_value t k' (t_cache (snd (get_cached S now k db))) = cache_value t k' (t_cache db)"
    if "now \<le> t" "\<not> is_setting_key k'" for t k'
  proof -
    have k': "k' \<noteq> cache_key k" using that(2) by auto
    obtain r c where rc: "cache_get now (cache_key k) (t_cache db) = (r, c)" by (cases "cache_get now (cache_key k) (t_cache db)")
    then show ?thesis
      using value_get [OF that(1), of k' "cache_key k" "t_cache db"] k'
      by (cases "setting_by_key db k"; cases r) (simp_all add: get_cached_def setting_cache_set_def value_set_other)
  qed
  then show ?thesis using get_cached_state [of S now k db] get_cached_coherent [of now db S k] by (simp add: undisturbed_def)
qed

lemma put_cache_undisturbed_tables: "t_users (put_cache now k v ex db) = t_users db" "setting_by_key (put_cache now k v ex db) = setting_by_key db"
  by (simp_all add: put_cache_def fun_eq_iff)

lemma user_lookup_cache [simp]:
  "user_by_token (db\<lparr>t_cache := c\<rparr>) = user_by_token db" "user_by_id (db\<lparr>t_cache := c\<rparr>) = user_by_id db"
  "int_setting (db\<lparr>t_cache := c\<rparr>) = int_setting db"
  by (simp_all add: user_by_token_def user_by_id_def int_setting_def fun_eq_iff)

lemma undisturbed_lookup:
  assumes "undisturbed now db db'"
  shows "user_by_token db' = user_by_token db" "user_by_id db' = user_by_id db" "int_setting db' = int_setting db"
  using assms by (auto simp: undisturbed_def)

lemma undisturbed_value:
  "undisturbed now db db' \<Longrightarrow> now \<le> t \<Longrightarrow> \<not> is_setting_key k \<Longrightarrow> cache_value t k (t_cache db') = cache_value t k (t_cache db)"
  by (simp add: undisturbed_def)

lemma otp_keys [simp]: "\<not> is_setting_key (otp_key s)" "\<not> is_setting_key (otpn_key s)" "\<not> is_setting_key (totp_key s)"
    "otp_key s \<noteq> otpn_key s'" "otpn_key s' \<noteq> otp_key s"
  by (simp_all add: otp_key_def otpn_key_def totp_key_def is_setting_key_def cache_key_def)

text \<open>A change of the cache outside the settings keeps the settings coherent.\<close>

lemma coherent_cache:
  assumes "setting_coherent now db" and "rc.coherent now is_setting_key (setting_src db) c"
  shows "setting_coherent now (db\<lparr>t_cache := c\<rparr>)"
  using assms by (simp add: setting_coherent_def)

section \<open>One-time links\<close>

text \<open>The user has no live link, or one whose other half is still there at \<open>now'\<close>.\<close>

definition one_time_ready :: "int \<Rightarrow> int \<Rightarrow> string \<Rightarrow> cache_row list \<Rightarrow> bool" where
  "one_time_ready now now' tok c \<longleftrightarrow>
     list_all (\<lambda>r. ck_key r \<noteq> otp_key tok \<or> \<not> cache_live now r) c \<or>
     (case cache_value now (otp_key tok) c of
        Some (JStr s) \<Rightarrow> s \<noteq> [] \<and> cache_value now' (otpn_key s) c = Some (JStr tok)
      | _ \<Rightarrow> False)"

lemma base64_urlsafe_nonempty: "s \<noteq> [] \<Longrightarrow> base64_urlsafe s \<noteq> []"
proof
  assume s: "s \<noteq> []" and e: "base64_urlsafe s = []"
  have "urlsafe_b64decode [] = Some s" using urlsafe_roundtrip [of s] by (simp add: e b64_padding_def)
  moreover have "urlsafe_b64decode [] = Some []" by code_simp
  ultimately show False using s by simp
qed

lemma no_live_value: "list_all (\<lambda>r. ck_key r \<noteq> k \<or> \<not> cache_live now r) c \<Longrightarrow> cache_value now k c = None"
proof -
  assume "list_all (\<lambda>r. ck_key r \<noteq> k \<or> \<not> cache_live now r) c"
  then have "find (\<lambda>r. ck_key r = k \<and> cache_live now r) c = None" by (auto simp: find_None_iff list_all_iff)
  then show ?thesis by (simp add: cache_value_def)
qed

lemma no_live_deleted: "list_all (\<lambda>r. ck_key r \<noteq> k \<or> \<not> cache_live now r) c \<Longrightarrow> \<not> list_ex (\<lambda>r. ck_key r = k) (delete_expired_key k now c)"
  by (auto simp: delete_expired_key_def list_ex_iff list_all_iff)

lemma get_no_live: "list_all (\<lambda>r. ck_key r \<noteq> k \<or> \<not> cache_live now r) c \<Longrightarrow> cache_get now k c = (None, delete_expired_key k now c)"
  using no_live_value [of k now c] cache_get_value [of now k c]
  by (auto simp: cache_get_def find_None_iff list_all_iff split: option.splits dest: find_Some_set)

lemma delete_expired_idem: "delete_expired_key k now (delete_expired_key k now c) = delete_expired_key k now c"
  by (simp add: delete_expired_key_def)

lemma set_nx_absent:
  "\<not> list_ex (\<lambda>r. ck_key r = k) (delete_expired_key k now c) \<Longrightarrow>
     cache_set_nx now k v ex c = (True, snd (cache_set now k v ex (delete_expired_key k now c)))"
  by (simp add: cache_set_nx_def cache_set_def upsert_def Let_def)

text \<open>The token of a one-time link and the cache it leaves.\<close>

lemma one_time_token_facts:
  assumes "one_time_ready now now' tok (t_cache db)" and "one_time_token C now rnd tok db = (t, db1)" and "rnd \<noteq> []"
    and "now \<le> now'" "now' < now + 86400" and "setting_coherent now db"
  shows "t \<noteq> [] \<and> cache_value now' (otpn_key t) (t_cache db1) = Some (JStr tok) \<and> (\<exists>c. db1 = db\<lparr>t_cache := c\<rparr>) \<and> setting_coherent now db1"
proof (cases "list_all (\<lambda>r. ck_key r \<noteq> otp_key tok \<or> \<not> cache_live now r) (t_cache db)")
  case True
  define c1 where "c1 = delete_expired_key (otp_key tok) now (t_cache db)"
  have get: "cache_get now (otp_key tok) (t_cache db) = (None, c1)" using get_no_live [OF True] by (simp add: c1_def)
  have "\<not> list_ex (\<lambda>r. ck_key r = otp_key tok) (delete_expired_key (otp_key tok) now c1)"
    using no_live_deleted [OF True] by (simp add: c1_def delete_expired_idem)
  then have nx: "cache_set_nx now (otp_key tok) (JStr f) (Some 86400) c1 = (True, snd (cache_set now (otp_key tok) (JStr f) (Some 86400) c1))" for f
    using set_nx_absent [of "otp_key tok" now c1] by (simp add: c1_def delete_expired_idem)
  define f where "f = base64_urlsafe rnd"
  define c3 where "c3 = snd (cache_set now (otpn_key f) (JStr tok) (Some 86400) (snd (cache_set now (otp_key tok) (JStr f) (Some 86400) c1)))"
  have "one_time_token C now rnd tok db = (f, db\<lparr>t_cache := c3\<rparr>)"
    by (simp add: one_time_token_def get nx text_or_none_def f_def [symmetric] c3_def Let_def)
  then have r: "t = f" "db1 = db\<lparr>t_cache := c3\<rparr>" using assms(2) by simp_all
  have "rc.coherent now is_setting_key (setting_src db) c1"
    using rc.coherent_lookup [of now is_setting_key "setting_src db" "t_cache db" "otp_key tok"] assms(6) get by (simp add: setting_coherent_def)
  then have "rc.coherent now is_setting_key (setting_src db) c3"
    unfolding c3_def by (intro rc.coherent_store_outside) simp_all
  then show ?thesis
    using r base64_urlsafe_nonempty [OF assms(3)] assms(5,6) coherent_cache by (auto simp: f_def [symmetric] c3_def value_set_same)
next
  case False
  then obtain s where s: "cache_value now (otp_key tok) (t_cache db) = Some (JStr s)" "s \<noteq> []" "cache_value now' (otpn_key s) (t_cache db) = Some (JStr tok)"
    using assms(1) by (auto simp: one_time_ready_def split: option.splits json.splits)
  obtain c where get: "cache_get now (otp_key tok) (t_cache db) = (Some (JStr s), c)"
    using s(1) cache_get_value [of now "otp_key tok" "t_cache db"] by (cases "cache_get now (otp_key tok) (t_cache db)") simp
  have r: "t = s" "db1 = db\<lparr>t_cache := c\<rparr>"
    using assms(2) s(2) by (simp_all add: one_time_token_def get text_or_none_def json_truthy_def py_str_or_none_def)
  have "cache_value now' (otpn_key s) c = Some (JStr tok)"
    using value_get [OF assms(4), of "otpn_key s" "otp_key tok" "t_cache db"] s(3) get by simp
  moreover have "rc.coherent now is_setting_key (setting_src db) c"
    using rc.coherent_lookup [of now is_setting_key "setting_src db" "t_cache db" "otp_key tok"] assms(6) get by (simp add: setting_coherent_def)
  ultimately show ?thesis using r s(2) coherent_cache [OF assms(6)] by auto
qed

section \<open>Time based links\<close>

lemma ascii_utf8: "is_ascii s \<Longrightarrow> valid_utf8 s"
  by (induction s rule: valid_utf8.induct) (auto simp: is_ascii_def Let_def)

lemma digit_ascii: "is_digit c \<Longrightarrow> char_code c < 128 \<and> c \<noteq> CHR '':''"
  by (auto simp: is_digit_def char_code_def)

lemma str_int_plain: "is_ascii (str_int n) \<and> CHR '':'' \<notin> set (str_int n)"
proof -
  have "list_all is_digit (str_nat m)" for m by (rule str_nat_digits)
  then have "is_ascii (str_nat m) \<and> CHR '':'' \<notin> set (str_nat m)" for m
    using digit_ascii by (fastforce simp: is_ascii_def list_all_iff)
  then show ?thesis by (auto simp: str_int_def is_ascii_def char_code_def)
qed

lemma partition_first: "d \<notin> set s \<Longrightarrow> partition_at d (s @ d # r) = (s, True, r)"
proof -
  assume "d \<notin> set s"
  then have "takeWhile (\<lambda>c. c \<noteq> d) (s @ d # r) = s" "dropWhile (\<lambda>c. c \<noteq> d) (s @ d # r) = d # r"
    by (induction s) auto
  then show ?thesis by (simp add: partition_at_def)
qed

lemma decode_totp:
  assumes "is_ascii digest"
  shows "decode_totp_token (base64_urlsafe (str_int i @ '':'' @ digest)) = Inr (i, digest)"
proof -
  have "valid_utf8 (str_int i @ '':'' @ digest)"
    by (rule ascii_utf8) (use str_int_plain assms in \<open>simp add: is_ascii_def char_code_def\<close>)
  then show ?thesis
    using partition_first [of "CHR '':''" "str_int i" digest] str_int_plain
    by (simp only: decode_totp_token_def urlsafe_roundtrip) simp
qed

section \<open>Resolving\<close>

lemma resolve_method:
  assumes "setting_coherent now db" "int_setting db ''show_subscribe_method'' 0 = Inr meth" "t \<noteq> []"
  shows "resolve_subscribe_user B now t db =
     bindE (if meth = 1 then take_one_time (sb_codec B) now t (snd (get_cached (sb_settings B) now ''show_subscribe_method'' db))
            else if meth = 2 then check_totp B now t (snd (get_cached (sb_settings B) now ''show_subscribe_method'' db))
            else Inr (t, snd (get_cached (sb_settings B) now ''show_subscribe_method'' db)))
       (\<lambda>(ut, db2). case user_by_token db2 ut of None \<Rightarrow> Inl (Unauthorized ''token is error'') | Some u \<Rightarrow> Inr (u, db2))"
  using assms by (simp add: resolve_subscribe_user_def get_int_value)

lemma take_one_time_facts:
  assumes "cache_value now (otpn_key t) (t_cache db) = Some (JStr tok)" and "setting_coherent now db"
  obtains c where "take_one_time C now t db = Inr (tok, db\<lparr>t_cache := c\<rparr>)" and "setting_coherent now (db\<lparr>t_cache := c\<rparr>)"
    and "\<And>now'. cache_value now' (otpn_key t) c = None"
proof -
  obtain c0 where get: "cache_get now (otpn_key t) (t_cache db) = (Some (JStr tok), c0)"
    using assms(1) cache_get_value [of now "otpn_key t" "t_cache db"] by (cases "cache_get now (otpn_key t) (t_cache db)") simp
  define c where "c = snd (cache_delete (otp_key tok) (snd (cache_delete (otpn_key t) c0)))"
  have "rc.coherent now is_setting_key (setting_src db) c0"
    using rc.coherent_lookup [of now is_setting_key "setting_src db" "t_cache db" "otpn_key t"] assms(2) get by (simp add: setting_coherent_def)
  then have "rc.coherent now is_setting_key (setting_src db) c" unfolding c_def by (intro rc.coherent_drop) auto
  moreover have "take_one_time C now t db = Inr (tok, db\<lparr>t_cache := c\<rparr>)" by (simp add: take_one_time_def get c_def Let_def)
  moreover have "cache_value now' (otpn_key t) c = None" for now'
    by (simp add: c_def value_delete_other value_delete_same)
  ultimately show ?thesis using that coherent_cache [OF assms(2)] by blast
qed

lemma check_totp_ok:
  assumes "setting_coherent now db" "int_setting db ''show_subscribe_expire'' 5 = Inr minutes"
    and "user_by_id db (us_id u) = Some u" "is_ascii (sb_hmac B (us_token u) (now div totp_step minutes))"
    and "0 \<le> now div totp_step minutes" "now div totp_step minutes < 2 ^ 32"
    and t: "t = base64_urlsafe (str_int (us_id u) @ '':'' @ sb_hmac B (us_token u) (now div totp_step minutes))"
    and "cache_value now (totp_key t) (t_cache db) \<in> {None, Some (JStr (us_token u))}"
  shows "\<exists>c. check_totp B now t db = Inr (us_token u, db\<lparr>t_cache := c\<rparr>)"
proof -
  obtain r c where get: "cache_get now (totp_key t) (t_cache db) = (r, c)" by (cases "cache_get now (totp_key t) (t_cache db)")
  with assms(8) cache_get_value [of now "totp_key t" "t_cache db"] have r: "r = None \<or> r = Some (JStr (us_token u))" by auto
  have co: "setting_coherent now (db\<lparr>t_cache := c\<rparr>)"
    using rc.coherent_lookup [of now is_setting_key "setting_src db" "t_cache db" "totp_key t"] assms(1) get
    by (simp add: setting_coherent_def)
  obtain c' where st: "snd (get_cached (sb_settings B) now ''show_subscribe_expire'' (db\<lparr>t_cache := c\<rparr>)) = db\<lparr>t_cache := c'\<rparr>"
    using get_cached_state [of "sb_settings B" now "''show_subscribe_expire''" "db\<lparr>t_cache := c\<rparr>"] by auto
  have dec: "decode_totp_token t = Inr (us_id u, sb_hmac B (us_token u) (now div totp_step minutes))"
    unfolding t by (rule decode_totp [OF assms(4)])
  show ?thesis
  proof (cases r)
    case None
    then show ?thesis
      using assms(2-6) dec get get_int_value [OF co] st
      by (simp add: check_totp_def Let_def totp_digest_def hash_equals_def put_cache_def not_less) blast
  next
    case (Some v)
    then show ?thesis using r get by (simp add: check_totp_def Let_def) blast
  qed
qed

text \<open>What the cache holds of time based tokens: such an entry was made by a check at a time \<open>s\<close>, when the token
  carried the digest of that window under the secret that the entry names, and it is gone one window later.\<close>

definition totp_stands :: "sub_env \<Rightarrow> int \<Rightarrow> string \<Rightarrow> string \<Rightarrow> bool" where
  "totp_stands B now t secret \<longleftrightarrow>
     (\<exists>i s m. decode_totp_token t = Inr (i, sb_hmac B secret (s div totp_step m)) \<and> s \<le> now \<and> now < s + totp_step m)"

definition totp_trail :: "sub_env \<Rightarrow> int \<Rightarrow> db \<Rightarrow> bool" where
  "totp_trail B now db \<longleftrightarrow> (\<forall>x\<ge>now. \<forall>t v. cache_value x (totp_key t) (t_cache db) = Some v \<longrightarrow>
     (\<exists>secret. v = JStr secret \<and> totp_stands B x t secret))"

lemma totp_trail_fewer:
  assumes "totp_trail B now db"
    and "\<And>x t. now \<le> x \<Longrightarrow> cache_value x (totp_key t) (t_cache db') \<noteq> None \<Longrightarrow>
      cache_value x (totp_key t) (t_cache db') = cache_value x (totp_key t) (t_cache db)"
  shows "totp_trail B now db'"
  using assms unfolding totp_trail_def by (metis option.distinct(1))

lemma totp_trail_later: "totp_trail B now db \<Longrightarrow> now \<le> t \<Longrightarrow> totp_trail B t db"
  by (simp add: totp_trail_def)

lemma totp_trail_undisturbed: "totp_trail B now db \<Longrightarrow> undisturbed now db db' \<Longrightarrow> totp_trail B now db'"
  by (erule totp_trail_fewer) (simp add: undisturbed_value)

lemma totp_key_inj [simp]: "totp_key a = totp_key b \<longleftrightarrow> a = b" "totp_key a \<noteq> otp_key b" "totp_key a \<noteq> otpn_key b"
  by (simp_all add: totp_key_def otp_key_def otpn_key_def)

lemma totp_step_pos: "0 < totp_step m"
  by (simp add: totp_step_def)

lemma check_totp_cached:
  assumes "check_totp B now t db = Inr (tok, db')" "cache_value now (totp_key t) (t_cache db) = Some v" "totp_trail B now db"
  shows "totp_stands B now t tok \<and> totp_trail B now db' \<and> (\<exists>c. db' = db\<lparr>t_cache := c\<rparr>)"
proof -
  obtain c where get: "cache_get now (totp_key t) (t_cache db) = (Some v, c)"
    using assms(2) cache_get_value [of now "totp_key t" "t_cache db"] by (cases "cache_get now (totp_key t) (t_cache db)") simp
  from assms(2,3) obtain secret where v: "v = JStr secret" "totp_stands B now t secret"
    unfolding totp_trail_def by blast
  have r: "tok = secret" "db' = db\<lparr>t_cache := c\<rparr>" using assms(1) by (simp_all add: check_totp_def get v(1) py_str_def Let_def)
  have "totp_trail B now db'"
    using value_get [of now _ _ "totp_key t" "t_cache db"] get by (intro totp_trail_fewer [OF assms(3)]) (simp add: r(2))
  then show ?thesis using v(2) r by blast
qed

lemma check_totp_fresh:
  assumes "check_totp B now t db = Inr (tok, db')" and "setting_coherent now db" "int_setting db ''show_subscribe_expire'' 5 = Inr minutes"
    and "cache_value now (totp_key t) (t_cache db) = None" and "totp_trail B now db"
  shows "(\<exists>i v. decode_totp_token t = Inr (i, sb_hmac B tok (now div totp_step minutes)) \<and> user_by_id db i = Some v \<and> us_token v = tok) \<and>
     totp_trail B now db' \<and> (\<exists>c. db' = db\<lparr>t_cache := c\<rparr>)"
proof -
  obtain c where get: "cache_get now (totp_key t) (t_cache db) = (None, c)"
    using assms(4) cache_get_value [of now "totp_key t" "t_cache db"] by (cases "cache_get now (totp_key t) (t_cache db)") simp
  have co: "setting_coherent now (db\<lparr>t_cache := c\<rparr>)"
    using rc.coherent_lookup [of now is_setting_key "setting_src db" "t_cache db" "totp_key t"] assms(2) get
    by (simp add: setting_coherent_def)
  define g where "g = snd (get_cached (sb_settings B) now ''show_subscribe_expire'' (db\<lparr>t_cache := c\<rparr>))"
  have und: "undisturbed now (db\<lparr>t_cache := c\<rparr>) g" unfolding g_def by (rule get_cached_undisturbed)
  obtain i d v where i: "decode_totp_token t = Inr (i, d)" and v: "user_by_id db i = Some v"
    using assms(1) by (auto simp: check_totp_def get Let_def bindE_eq_Inr split: option.splits)
  have r: "d = sb_hmac B (us_token v) (now div totp_step minutes)" "tok = us_token v"
    "db' = put_cache now (totp_key t) (JStr tok) (totp_step minutes) g"
    using assms(1,3) i v get_int_value [OF co]
    by (auto simp: check_totp_def get Let_def totp_digest_def hash_equals_def result_simps g_def [symmetric] split: if_splits)
  have here: "totp_stands B x t tok" if "now \<le> x" "x < now + totp_step minutes" for x
    using i r(1,2) that by (auto simp: totp_stands_def)
  have "totp_trail B now (db\<lparr>t_cache := c\<rparr>)"
    using value_get [of now _ _ "totp_key t" "t_cache db"] get by (intro totp_trail_fewer [OF assms(5)]) simp
  from totp_trail_undisturbed [OF this und] have trail: "totp_trail B now g" .
  have "totp_trail B now db'"
    unfolding totp_trail_def
  proof (intro allI impI)
    fix x t' w assume x: "now \<le> x" and w: "cache_value x (totp_key t') (t_cache db') = Some w"
    show "\<exists>secret. w = JStr secret \<and> totp_stands B x t' secret"
    proof (cases "t' = t")
      case True
      then show ?thesis using w here [OF x] value_set_same [of "JStr tok" "totp_step minutes"] totp_step_pos
        by (auto simp: r(3) put_cache_def split: if_splits)
    next
      case False
      then have "cache_value x (totp_key t') (t_cache g) = Some w" using w by (simp add: r(3) put_cache_def value_set_other)
      then show ?thesis using trail x by (auto simp: totp_trail_def)
    qed
  qed
  moreover have "\<exists>c. db' = db\<lparr>t_cache := c\<rparr>" using und by (auto simp: r(3) put_cache_def undisturbed_def)
  ultimately show ?thesis using i v r(1,2) by auto
qed

lemma take_one_time_trail:
  assumes "take_one_time C now t db = Inr (tok, db')" "totp_trail B now db"
  shows "totp_trail B now db'"
proof -
  obtain r c where get: "cache_get now (otpn_key t) (t_cache db) = (r, c)" by (cases "cache_get now (otpn_key t) (t_cache db)")
  then have db': "db' = db\<lparr>t_cache := snd (cache_delete (otp_key tok) (snd (cache_delete (otpn_key t) c)))\<rparr>"
    using assms(1) by (cases r) (auto simp: take_one_time_def Let_def)
  show ?thesis
    using value_get [of now _ _ "otpn_key t" "t_cache db"] get
    by (intro totp_trail_fewer [OF assms(2)]) (simp add: db' value_delete_other)
qed

text \<open>What an accepted one-time token says.\<close>

lemma take_one_time_sound:
  assumes "take_one_time C now t db = Inr (tok, db')" and "setting_coherent now db"
  shows "\<exists>v c. cache_value now (otpn_key t) (t_cache db) = Some v \<and> py_str C v = tok \<and> db' = db\<lparr>t_cache := c\<rparr> \<and>
     setting_coherent now db' \<and> (\<forall>now'. cache_value now' (otpn_key t) (t_cache db') = None)"
proof -
  obtain r c0 where get: "cache_get now (otpn_key t) (t_cache db) = (r, c0)" by (cases "cache_get now (otpn_key t) (t_cache db)")
  then obtain v where v: "r = Some v" using assms(1) by (cases r) (auto simp: take_one_time_def)
  define c where "c = snd (cache_delete (otp_key tok) (snd (cache_delete (otpn_key t) c0)))"
  have "rc.coherent now is_setting_key (setting_src db) c0"
    using rc.coherent_lookup [of now is_setting_key "setting_src db" "t_cache db" "otpn_key t"] assms(2) get by (simp add: setting_coherent_def)
  then have co: "rc.coherent now is_setting_key (setting_src db) c" unfolding c_def by (intro rc.coherent_drop) auto
  have r: "py_str C v = tok \<and> db' = db\<lparr>t_cache := c\<rparr>" using assms(1) by (auto simp: take_one_time_def get v c_def Let_def)
  have "\<forall>now'. cache_value now' (otpn_key t) c = None" by (simp add: c_def value_delete_other value_delete_same)
  moreover have "cache_value now (otpn_key t) (t_cache db) = Some v"
    using get v cache_get_value [of now "otpn_key t" "t_cache db"] by simp
  moreover have "t_cache (db\<lparr>t_cache := c\<rparr>) = c" by simp
  ultimately show ?thesis using r coherent_cache [OF assms(2) co] by metis
qed

lemma used_one_time_refused:
  assumes "cache_value now (otpn_key t) (t_cache db) = None"
  shows "take_one_time C now t db = Inl (Unauthorized ''token is error'')"
  using assms cache_get_value [of now "otpn_key t" "t_cache db"] by (cases "cache_get now (otpn_key t) (t_cache db)") (simp add: take_one_time_def)

lemma refused_later:
  assumes "setting_coherent now db" "int_setting db ''show_subscribe_method'' 0 = Inr 1" "t \<noteq> []"
    and "cache_value now (otpn_key t) (t_cache db) = None"
  shows "resolve_subscribe_user B now t db = Inl (Unauthorized ''token is error'')"
proof -
  have "cache_value now (otpn_key t) (t_cache (snd (get_cached (sb_settings B) now ''show_subscribe_method'' db))) = None"
    using undisturbed_value [OF get_cached_undisturbed order_refl] assms(4) by simp
  then show ?thesis by (simp add: resolve_method [OF assms(1-3)] used_one_time_refused)
qed

section \<open>Properties\<close>

lemma one_time_link_resolves:
  assumes co: "setting_coherent now db" and meth: "int_setting db ''show_subscribe_method'' 0 = Inr 1"
    and user: "user_by_token db (us_token u) = Some u"
    and link: "link_token B now rnd 1 u db = Inr (t, db1)" and le: "now \<le> now'"
    and once: "rnd \<noteq> [] \<and> now' < now + 86400 \<and> one_time_ready now now' (us_token u) (t_cache db)"
  shows "\<exists>db2. resolve_subscribe_user B now' t db1 = Inr (u, db2) \<and>
     (\<forall>now''\<ge>now'. resolve_subscribe_user B now'' t db2 = Inl (Unauthorized ''token is error''))"
proof -
  define g where "g x = snd (get_cached (sb_settings B) now' ''show_subscribe_method'' x)" for x
  have "one_time_token (sb_codec B) now rnd (us_token u) db = (t, db1)" using link by (simp add: link_token_def)
  from one_time_token_facts [OF _ this _ le _ co] once obtain c where t: "t \<noteq> []"
    and v: "cache_value now' (otpn_key t) (t_cache db1) = Some (JStr (us_token u))" and db1: "db1 = db\<lparr>t_cache := c\<rparr>" and co1: "setting_coherent now db1"
    by blast
  have co1': "setting_coherent now' db1" by (rule setting_coherent_mono [OF co1 le])
  have m1: "int_setting db1 ''show_subscribe_method'' 0 = Inr 1" using meth by (simp add: db1)
  have u1: "user_by_token db1 (us_token u) = Some u" by (simp add: db1 user)
  have und: "undisturbed now' db1 (g db1)" unfolding g_def by (rule get_cached_undisturbed)
  then have co2: "setting_coherent now' (g db1)" using co1' by (simp add: undisturbed_def)
  have v2: "cache_value now' (otpn_key t) (t_cache (g db1)) = Some (JStr (us_token u))"
    using v undisturbed_value [OF und order_refl] by simp
  obtain c2 where take: "take_one_time (sb_codec B) now' t (g db1) = Inr (us_token u, g db1\<lparr>t_cache := c2\<rparr>)"
    and co3: "setting_coherent now' (g db1\<lparr>t_cache := c2\<rparr>)" and gone: "\<And>s. cache_value s (otpn_key t) c2 = None"
    by (rule take_one_time_facts [OF v2 co2]) blast
  have r: "resolve_subscribe_user B now' t db1 = Inr (u, g db1\<lparr>t_cache := c2\<rparr>)"
    using u1 take by (simp add: resolve_method [OF co1' m1 t] g_def [symmetric] undisturbed_lookup [OF und])
  have "resolve_subscribe_user B now'' t (g db1\<lparr>t_cache := c2\<rparr>) = Inl (Unauthorized ''token is error'')" if "now' \<le> now''" for now''
    using m1 gone by (intro refused_later [OF setting_coherent_mono [OF co3 that]]) (simp_all add: undisturbed_lookup [OF und] t)
  then show ?thesis using r by blast
qed

lemma totp_link_resolves:
  assumes co: "setting_coherent now db" and meth: "int_setting db ''show_subscribe_method'' 0 = Inr 2"
    and user: "user_by_id db (us_id u) = Some u" "user_by_token db (us_token u) = Some u"
    and link: "link_token B now rnd 2 u db = Inr (t, db1)" and le: "now \<le> now'"
    and totp: "int_setting db ''show_subscribe_expire'' 5 = Inr minutes \<and> now' div totp_step minutes = now div totp_step minutes \<and>
       is_ascii (sb_hmac B (us_token u) (now div totp_step minutes)) \<and> cache_value now' (totp_key t) (t_cache db) \<in> {None, Some (JStr (us_token u))}"
  shows "\<exists>db2. resolve_subscribe_user B now' t db1 = Inr (u, db2)"
proof -
  define g where "g x = snd (get_cached (sb_settings B) now' ''show_subscribe_method'' x)" for x
  define d where "d = sb_hmac B (us_token u) (now div totp_step minutes)"
  have e: "get_int (sb_settings B) now ''show_subscribe_expire'' 5 db = Inr (minutes, snd (get_cached (sb_settings B) now ''show_subscribe_expire'' db))"
    using totp by (simp add: get_int_value [OF co])
  have db1: "db1 = snd (get_cached (sb_settings B) now ''show_subscribe_expire'' db)" and t: "t = base64_urlsafe (str_int (us_id u) @ '':'' @ d)"
    and counter: "0 \<le> now div totp_step minutes" "now div totp_step minutes < 2 ^ 32"
    using link by (auto simp: link_token_def totp_token_def e totp_digest_def d_def Let_def result_simps)
  have und1: "undisturbed now db db1" unfolding db1 by (rule get_cached_undisturbed)
  have co1: "setting_coherent now' db1" using und1 co le setting_coherent_mono by (auto simp: undisturbed_def)
  have und: "undisturbed now' db1 (g db1)" unfolding g_def by (rule get_cached_undisturbed)
  have "setting_coherent now' (g db1)" using und co1 by (simp add: undisturbed_def)
  moreover have "cache_value now' (totp_key t) (t_cache (g db1)) = cache_value now' (totp_key t) (t_cache db)"
    using undisturbed_value [OF und order_refl] undisturbed_value [OF und1 le] by simp
  ultimately obtain c where "check_totp B now' t (g db1) = Inr (us_token u, g db1\<lparr>t_cache := c\<rparr>)"
    using check_totp_ok [of now' "g db1" minutes u B t] totp user(1) counter
    by (auto simp: undisturbed_lookup [OF und] undisturbed_lookup [OF und1] t d_def)
  moreover have "t \<noteq> []" unfolding t by (rule base64_urlsafe_nonempty) simp
  ultimately have "resolve_subscribe_user B now' t db1 = Inr (u, g db1\<lparr>t_cache := c\<rparr>)"
    using resolve_method [OF co1, of 2 t B] meth user(2)
    by (simp add: g_def [symmetric] undisturbed_lookup [OF und] undisturbed_lookup [OF und1])
  then show ?thesis by blast
qed

text \<open>C13: A subscription link works: the token of the link that was built for a user, whatever the configured
  method, resolves to that user (a one-time link within a day, a time based one within its time window), and the
  one-time token is refused from then on.\<close>

theorem subscription_link_resolves:
  assumes co: "setting_coherent now db" and meth: "int_setting db ''show_subscribe_method'' 0 = Inr meth"
    and user: "user_by_id db (us_id u) = Some u" "user_by_token db (us_token u) = Some u" "us_token u \<noteq> []"
    and link: "link_token B now rnd meth u db = Inr (t, db1)" and le: "now \<le> now'"
    and once: "meth = 1 \<Longrightarrow> rnd \<noteq> [] \<and> now' < now + 86400 \<and> one_time_ready now now' (us_token u) (t_cache db)"
    and totp: "meth = 2 \<Longrightarrow> int_setting db ''show_subscribe_expire'' 5 = Inr minutes \<and> now' div totp_step minutes = now div totp_step minutes \<and>
       is_ascii (sb_hmac B (us_token u) (now div totp_step minutes)) \<and> cache_value now' (totp_key t) (t_cache db) \<in> {None, Some (JStr (us_token u))}"
  shows "\<exists>db2. resolve_subscribe_user B now' t db1 = Inr (u, db2) \<and>
     (meth = 1 \<longrightarrow> (\<forall>now''\<ge>now'. resolve_subscribe_user B now'' t db2 = Inl (Unauthorized ''token is error'')))"
proof -
  consider (one) "meth = 1" | (two) "meth = 2" | (zero) "meth \<noteq> 1" "meth \<noteq> 2" by blast
  then show ?thesis
  proof cases
    case one
    then show ?thesis using one_time_link_resolves [OF co _ user(2) _ le] meth link once by auto
  next
    case two
    then show ?thesis using totp_link_resolves [OF co _ user(1,2) _ le] meth link totp by auto
  next
    case zero
    define g where "g = snd (get_cached (sb_settings B) now' ''show_subscribe_method'' db)"
    have "t = us_token u" "db1 = db" using link zero by (simp_all add: link_token_def)
    moreover have "undisturbed now' db g" unfolding g_def by (rule get_cached_undisturbed)
    ultimately show ?thesis
      using resolve_method [OF setting_coherent_mono [OF co le] meth, of "us_token u" B] zero user(2,3)
      by (simp add: g_def [symmetric] undisturbed_lookup)
  qed
qed

definition link_setting :: "int \<Rightarrow> db" where
  "link_setting m = server_db\<lparr>t_settings := \<lparr>rows = [\<lparr>st_id = 1, st_key = ''show_subscribe_method'', st_value = str_int m, st_type = ''int'',
     st_description = None, st_created_at = 0, st_updated_at = 0\<rparr>], next_id = 2\<rparr>\<rparr>"

definition sample_sub :: sub_env where
  "sample_sub = \<lparr>sb_settings = sample_service, sb_tz = (\<lambda>_. 0), sb_md5 = id, sb_hmac = (\<lambda>k c. ''d'' @ str_int c), sb_render = (\<lambda>t c. [])\<rparr>"

definition sub_user :: user where
  "sub_user = sample_user\<lparr>us_group_id := Some 3, us_plan_id := Some 1, us_transfer_enable := 100, us_expired_at := 50\<rparr>"

lemma empty_cache_coherent: "t_cache db = [] \<Longrightarrow> setting_coherent t db"
  by (simp add: setting_coherent_def rc.coherent_def wf_cache_def cache_get_def)

theorem subscription_link_resolves_witness:
  "\<exists>t db1 db2. link_token sample_sub 10 ''abc'' 1 sub_user (link_setting 1) = Inr (t, db1) \<and>
     resolve_subscribe_user sample_sub 20 t db1 = Inr (sub_user, db2) \<and>
     resolve_subscribe_user sample_sub 20 t db2 = Inl (Unauthorized ''token is error'')"
proof -
  have h: "int_setting (link_setting 1) ''show_subscribe_method'' 0 = Inr 1" "user_by_id (link_setting 1) (us_id sub_user) = Some sub_user"
    "user_by_token (link_setting 1) (us_token sub_user) = Some sub_user" "us_token sub_user \<noteq> []"
    "one_time_ready 10 20 (us_token sub_user) (t_cache (link_setting 1))" "t_cache (link_setting 1) = []" by code_simp+
  obtain t db1 where l: "link_token sample_sub 10 ''abc'' 1 sub_user (link_setting 1) = Inr (t, db1)"
    by (cases "one_time_token (sb_codec sample_sub) 10 ''abc'' (us_token sub_user) (link_setting 1)") (simp add: link_token_def)
  show ?thesis
    using subscription_link_resolves [OF empty_cache_coherent [OF h(6)] h(1-4) l, of 20] l h(5) by force
qed

lemma totp_fresh_stands:
  "decode_totp_token t = Inr (i, sb_hmac B tok (now div totp_step m)) \<Longrightarrow> totp_stands B now t tok"
  unfolding totp_stands_def using totp_step_pos [of m] by (intro exI [of _ i] exI [of _ now] exI [of _ m]) simp

text \<open>C22: Only links made for a user let in. Where links are one-time, an accepted token is the live one of its
  user and is refused from then on. Where they are time based, it carries the HMAC, under its user's secret, of the
  time window that is current, or that was current when the token was first checked, at most one window's length
  ago; the first check also asks that the secret is that of the user whom the token names. Otherwise it is the
  user's own token. The time based entries of the cache, on which this rests, stay such as the checks leave them.\<close>

theorem subscription_token_sound:
  assumes co: "setting_coherent now db" and meth: "int_setting db ''show_subscribe_method'' 0 = Inr meth"
    and expire: "int_setting db ''show_subscribe_expire'' 5 = Inr minutes" and trail: "totp_trail B now db"
    and r: "resolve_subscribe_user B now t db = Inr (u, db')"
  shows "user_by_token db (us_token u) = Some u \<and> totp_trail B now db' \<and>
    (if meth = 1 then (\<exists>v. cache_value now (otpn_key t) (t_cache db) = Some v \<and> py_str (sb_codec B) v = us_token u) \<and>
         (\<forall>now'\<ge>now. resolve_subscribe_user B now' t db' = Inl (Unauthorized ''token is error''))
     else if meth = 2 then
       (\<exists>i s m. decode_totp_token t = Inr (i, sb_hmac B (us_token u) (s div totp_step m)) \<and> s \<le> now \<and> now < s + totp_step m) \<and>
       (cache_value now (totp_key t) (t_cache db) = None \<longrightarrow>
         (\<exists>i v. decode_totp_token t = Inr (i, sb_hmac B (us_token u) (now div totp_step minutes)) \<and>
            user_by_id db i = Some v \<and> us_token v = us_token u))
     else t = us_token u)"
proof -
  define g where "g = snd (get_cached (sb_settings B) now ''show_subscribe_method'' db)"
  have und: "undisturbed now db g" unfolding g_def by (rule get_cached_undisturbed)
  have cog: "setting_coherent now g" using und co by (simp add: undisturbed_def)
  have trg: "totp_trail B now g" by (rule totp_trail_undisturbed [OF trail und])
  have t: "t \<noteq> []" using r by (auto simp: resolve_subscribe_user_def)
  obtain ut where ok: "(if meth = 1 then take_one_time (sb_codec B) now t g else if meth = 2 then check_totp B now t g else Inr (t, g)) = Inr (ut, db')"
    and u: "user_by_token db' ut = Some u"
    using r [unfolded resolve_method [OF co meth t] g_def [symmetric]] by (auto simp: bindE_eq_Inr split: option.splits)
  have tok: "us_token u = ut" using u by (auto simp: user_by_token_def dest: find_Some_set)
  consider (one) "meth = 1" | (two) "meth = 2" | (zero) "meth \<noteq> 1" "meth \<noteq> 2" by blast
  then show ?thesis
  proof cases
    case one
    then have take: "take_one_time (sb_codec B) now t g = Inr (ut, db')" using ok by simp
    from take_one_time_sound [OF take cog] obtain v c where v: "cache_value now (otpn_key t) (t_cache g) = Some v" "py_str (sb_codec B) v = ut" and db': "db' = g\<lparr>t_cache := c\<rparr>"
      and co': "setting_coherent now db'" and gone: "\<forall>now'. cache_value now' (otpn_key t) (t_cache db') = None"
      by blast
    have "resolve_subscribe_user B now' t db' = Inl (Unauthorized ''token is error'')" if "now \<le> now'" for now'
      using meth gone one by (intro refused_later [OF setting_coherent_mono [OF co' that]]) (simp_all add: db' undisturbed_lookup [OF und] t)
    then show ?thesis
      using one u v tok undisturbed_value [OF und order_refl, of "otpn_key t"] take_one_time_trail [OF take trg]
      by (simp add: db' undisturbed_lookup [OF und])
  next
    case two
    then have check: "check_totp B now t g = Inr (ut, db')" using ok by simp
    have same: "cache_value now (totp_key t) (t_cache g) = cache_value now (totp_key t) (t_cache db)" using undisturbed_value [OF und order_refl] by simp
    show ?thesis
    proof (cases "cache_value now (totp_key t) (t_cache db)")
      case None
      have "int_setting g ''show_subscribe_expire'' 5 = Inr minutes" using expire by (simp add: undisturbed_lookup [OF und])
      from check_totp_fresh [OF check cog this _ trg] None same
      show ?thesis using two u tok totp_fresh_stands unfolding totp_stands_def by (auto simp: undisturbed_lookup [OF und])
    next
      case (Some v)
      then show ?thesis using check_totp_cached [OF check _ trg] same two u tok
        by (auto simp: undisturbed_lookup [OF und] totp_stands_def)
    qed
  next
    case zero
    then have "t = ut" "db' = g" using ok by simp_all
    then show ?thesis using zero u tok trg by (simp add: undisturbed_lookup [OF und])
  qed
qed

lemma empty_totp_trail: "t_cache db = [] \<Longrightarrow> totp_trail B now db"
  by (simp add: totp_trail_def cache_value_def)

text \<open>The sample clock: a token of the window 0 is checked at 10, and the cached check still lets it in at 305, in the
  next window.\<close>

theorem subscription_token_sound_witness:
  "\<exists>u db1 db2. resolve_subscribe_user sample_sub 10 (base64_urlsafe ''1:d0'') (link_setting 2) = Inr (u, db1) \<and>
     totp_trail sample_sub 305 db1 \<and> resolve_subscribe_user sample_sub 305 (base64_urlsafe ''1:d0'') db1 = Inr (u, db2) \<and>
     user_by_token (link_setting 2) (us_token u) = Some u \<and> \<not> is_ok (resolve_subscribe_user sample_sub 10 (base64_urlsafe ''1:d1'') (link_setting 2))"
proof -
  let ?t = "base64_urlsafe ''1:d0''"
  have h: "int_setting (link_setting 2) ''show_subscribe_method'' 0 = Inr 2" "int_setting (link_setting 2) ''show_subscribe_expire'' 5 = Inr 5"
    "t_cache (link_setting 2) = []" "\<not> is_ok (resolve_subscribe_user sample_sub 10 (base64_urlsafe ''1:d1'') (link_setting 2))"
    "case resolve_subscribe_user sample_sub 10 ?t (link_setting 2) of Inl _ \<Rightarrow> False
     | Inr (u, d) \<Rightarrow> (case resolve_subscribe_user sample_sub 305 ?t d of Inl _ \<Rightarrow> False | Inr (v, _) \<Rightarrow> v = u)" by code_simp+
  from h(5) obtain u db1 where r1: "resolve_subscribe_user sample_sub 10 ?t (link_setting 2) = Inr (u, db1)"
    by (cases "resolve_subscribe_user sample_sub 10 ?t (link_setting 2)") auto
  with h(5) obtain db2 where r: "resolve_subscribe_user sample_sub 10 ?t (link_setting 2) = Inr (u, db1)"
    "resolve_subscribe_user sample_sub 305 ?t db1 = Inr (u, db2)" by (cases "resolve_subscribe_user sample_sub 305 ?t db1") auto
  from subscription_token_sound [OF empty_cache_coherent [OF h(3)] h(1,2) empty_totp_trail [OF h(3)] r(1)]
  have "user_by_token (link_setting 2) (us_token u) = Some u" "totp_trail sample_sub 10 db1" by blast+
  then show ?thesis using r h(4) totp_trail_later [of sample_sub 10 db1 305] by auto
qed

text \<open>The group column holds the groups \<open>gs\<close>: a list of numbers, a number, or the text of one of them, as JSON or
  as numbers between commas.\<close>

definition group_list :: "codec \<Rightarrow> json \<Rightarrow> int list \<Rightarrow> bool" where
  "group_list C raw gs \<longleftrightarrow> (case raw of
       JArr xs \<Rightarrow> xs = map JInt gs
     | JInt g \<Rightarrow> gs = [g]
     | JStr s \<Rightarrow> (case loads C s of
         Some (JArr xs) \<Rightarrow> xs = map JInt gs \<and> take 1 s = ''[''
       | Some (JInt g) \<Rightarrow> gs = [g] \<and> s = str_int g
       | Some _ \<Rightarrow> False
       | None \<Rightarrow> s \<noteq> [] \<and> map strip (split_on (CHR '','') s) = map str_int gs \<and> list_all (\<lambda>g. 0 \<le> g) gs)
     | _ \<Rightarrow> False)"

lemma text_in_ints [simp]: "text_in C g (map JInt gs) \<longleftrightarrow> g \<in> set gs"
  by (auto simp: text_in_def list_ex_iff py_str_def)

lemma text_in_texts: "map strip ws = map str_int gs \<Longrightarrow> text_in C g (map (\<lambda>w. JStr (strip w)) ws) \<longleftrightarrow> g \<in> set gs"
proof -
  assume "map strip ws = map str_int gs"
  then have "strip ` set ws = str_int ` set gs" by (metis set_map)
  then show ?thesis by (auto simp: text_in_def list_ex_iff py_str_def image_iff) (metis imageI str_int_inject image_iff)+
qed

lemma int_items [simp]: "List.map_filter (\<lambda>x. case int_of_json x of Inl _ \<Rightarrow> None | Inr n \<Rightarrow> Some n) (map JInt gs) = gs"
  by (induction gs) (simp_all add: map_filter_simps int_of_json_def)

lemma nat_of_digits_str_int: "0 \<le> g \<Longrightarrow> int (nat_of_digits (str_int g)) = g"
  by (simp add: str_int_def)

lemma digit_items_texts:
  "map strip (split_on (CHR '','') s) = map str_int gs \<Longrightarrow> list_all (\<lambda>g. 0 \<le> g) gs \<Longrightarrow> digit_items s = gs"
proof -
  have "map (\<lambda>w. int (nat_of_digits (strip w))) (filter (\<lambda>w. isdigit (strip w)) ws) = hs"
    if "map strip ws = map str_int hs" "list_all (\<lambda>g. 0 \<le> g) hs" for ws hs
    using that
  proof (induction hs arbitrary: ws)
    case (Cons h hs)
    then obtain w ws' where "ws = w # ws'" "strip w = str_int h" "map strip ws' = map str_int hs" by (cases ws) auto
    then show ?case using Cons using isdigit_str_int [of h] by (simp add: nat_of_digits_str_int)
  qed simp
  then show "map strip (split_on (CHR '','') s) = map str_int gs \<Longrightarrow> list_all (\<lambda>g. 0 \<le> g) gs \<Longrightarrow> digit_items s = gs"
    by (simp add: digit_items_def)
qed

lemma str_int_char: "c \<in> set (str_int g) \<Longrightarrow> is_digit c \<or> c = CHR ''-''"
  using str_nat_digits [of "nat g"] str_nat_digits [of "nat (- g)"] by (auto simp: str_int_def list_all_iff split: if_splits)

lemma str_int_no_bracket: "CHR ''['' # r \<noteq> str_int g"
  using str_int_char [of "CHR ''[''" g] by (auto simp: is_digit_def char_code_def) (metis list.set_intros(1))

lemma group_list_text:
  assumes "map strip (split_on (CHR '','') (str_int g)) = map str_int gs"
  shows "gs = [g]"
proof -
  have "CHR '','' \<notin> set (str_int g)"
    using str_int_char [of "CHR '',''" g] by (auto simp: is_digit_def char_code_def)
  then have "[str_int g] = map str_int gs" using assms strip_id [OF str_int_not_space] by (simp add: split_on_absent)
  then show ?thesis by (cases gs) auto
qed

lemma group_list_cases:
  assumes "group_list C raw gs"
  obtains "raw = JArr (map JInt gs)" | g where "raw = JInt g" "gs = [g]"
    | r where "raw = JStr (CHR ''['' # r)" "loads C (CHR ''['' # r) = Some (JArr (map JInt gs))"
    | g where "raw = JStr (str_int g)" "gs = [g]" "loads C (str_int g) = Some (JInt g)"
    | s where "raw = JStr s" "s \<noteq> []" "loads C s = None" "map strip (split_on (CHR '','') s) = map str_int gs" "list_all (\<lambda>g. 0 \<le> g) gs"
proof -
  have "take 1 s = ''['' \<longleftrightarrow> (\<exists>r. s = CHR ''['' # r)" for s :: string by (cases s) auto
  then show ?thesis using assms that by (auto simp: group_list_def split: json.splits option.splits)
qed

lemma str_int_nonempty: "str_int g \<noteq> []"
  by (simp add: str_int_def str_nat_nonempty)

lemma group_list_contains:
  assumes "group_list C raw gs"
  shows "group_contains C raw g \<longleftrightarrow> g \<in> set gs"
  using assms
proof (cases rule: group_list_cases)
  case (5 s)
  have "s = str_int g \<Longrightarrow> g \<in> set gs" using group_list_text [of g gs] 5(4) by simp
  then show ?thesis using 5 text_in_texts [OF 5(4), of C g] by (auto simp: group_contains_def json_truthy_def py_str_def comp_def)
qed (auto simp: group_contains_def json_truthy_def py_str_def str_int_no_bracket str_int_nonempty)

lemma group_list_ints:
  assumes "group_list C raw gs"
  shows "int_list_cast C raw = gs"
  using assms
  by (cases rule: group_list_cases) (simp_all add: int_list_cast_def json_cast_def digit_items_texts str_int_nonempty)

text \<open>C23: The two sides of a node agree, where the groups of the node are stored as a number, a list of numbers or
  the text of one: a shown node is in the subscription of an available user exactly when the list of users that the
  node fetches contains the user. (For other stored values, such as an object, the two readings may differ.)\<close>

theorem subscribed_node_serves_user:
  assumes "wf_table user_entity (t_users db)" "u \<in> set (rows (t_users db))" "is_available now u"
    and "n \<in> set (nodes_all db)" "nd_show n" "group_list C (nd_group_id n) gs"
  shows "n \<in> set (visible_nodes_of_group C db (us_group_id u)) \<longleftrightarrow>
     user_to_node_dict u \<in> set (get_available_users C now (nd_group_id n) db)"
proof -
  have ok: "serviceable now u" using assms(3) by (simp add: is_available_def serviceable_def)
  have same: "v = u" if "v \<in> set (rows (t_users db))" "user_to_node_dict u = user_to_node_dict v" for v
  proof -
    have "us_id v = us_id u" using that(2) by (simp add: user_to_node_dict_def compact_none_def)
    then show ?thesis using users.get_unique [OF assms(1) that(1)] users.get_unique [OF assms(1,2)] by (simp add: user_entity_def)
  qed
  have "user_to_node_dict u \<in> set (get_available_users C now (nd_group_id n) db) \<longleftrightarrow> u \<in> set (users_of_groups now gs db)"
    using same by (auto simp: get_available_users_def group_list_ints [OF assms(6)] users_of_groups_def Let_def split: option.splits)
  then show ?thesis
    using assms(2,4,5) ok group_list_contains [OF assms(6)]
    by (auto simp: visible_nodes_of_group_def users_of_groups_def split: option.splits)
qed

theorem subscribed_node_serves_user_witness:
  "user_to_node_dict sub_user \<in> set (get_available_users plain_codec 5 (nd_group_id sample_node) server_db) \<and>
   user_to_node_dict sub_user \<in> set (get_available_users plain_codec 5 (JStr ''1, 3'') (server_db\<lparr>t_nodes := \<lparr>rows = [sample_node\<lparr>nd_group_id := JStr ''1, 3''\<rparr>], next_id = 2\<rparr>\<rparr>))"
proof -
  let ?db = "server_db\<lparr>t_nodes := \<lparr>rows = [sample_node\<lparr>nd_group_id := JStr ''1, 3''\<rparr>], next_id = 2\<rparr>\<rparr>"
  have h: "is_available 5 sub_user" "rows (t_users server_db) = [sub_user]" "wf_table user_entity (t_users server_db)" "nd_show sample_node"
    "nodes_all server_db = [sample_node]" "nodes_all ?db = [sample_node\<lparr>nd_group_id := JStr ''1, 3''\<rparr>]"
    "visible_nodes_of_group plain_codec server_db (us_group_id sub_user) = [sample_node]"
    "visible_nodes_of_group plain_codec ?db (us_group_id sub_user) = [sample_node\<lparr>nd_group_id := JStr ''1, 3''\<rparr>]"
    "group_list plain_codec (nd_group_id sample_node) [3]" "group_list plain_codec (JStr ''1, 3'') [1, 3]"
    by code_simp+
  show ?thesis
    using subscribed_node_serves_user [of server_db sub_user 5 sample_node plain_codec "[3]"]
      subscribed_node_serves_user [of ?db sub_user 5 "sample_node\<lparr>nd_group_id := JStr ''1, 3''\<rparr>" plain_codec "[1, 3]"] h by auto
qed

end
