(* ===== verification/ServerApi.thy ===== *)
theory ServerApi
  imports SubscribeFacts
begin

text \<open>
  The endpoints of the node API (\<open>app/controllers/server.py\<close>): what a node sends and what it gets. A request
  holds the query, the content type, the JSON body when it parses, the form, and the two headers that are read.
  SHA-1, the JSON text and the msgpack text of a payload are parameters.
\<close>

record node_request =
  nr_query :: "(string \<times> json) list"
  nr_content_type :: string
  nr_json :: "json option"
  nr_form :: "(string \<times> json) list"
  nr_if_none_match :: string
  nr_response_format :: string

record node_api =
  na_settings :: setting_service
  na_queue :: queue_config
  na_after :: "json \<Rightarrow> exn + int"
  na_md5 :: "string \<Rightarrow> string"
  na_sha1 :: "string \<Rightarrow> string"
  na_msgpack :: "json \<Rightarrow> string"

datatype node_response =
    JsonReply int json
  | NotModified string
  | Content string string string

section \<open>Requests\<close>

definition is_json_request :: "node_request \<Rightarrow> bool" where
  "is_json_request rq = contains ''application/json'' (nr_content_type rq)"

definition is_form_request :: "node_request \<Rightarrow> bool" where
  "is_form_request rq \<longleftrightarrow> contains ''application/x-www-form-urlencoded'' (nr_content_type rq) \<or>
     contains ''multipart/form-data'' (nr_content_type rq)"

definition request_input :: "node_request \<Rightarrow> (string \<times> json) list" where
  "request_input rq =
     (if is_json_request rq then (case nr_json rq of Some (JObj kvs) \<Rightarrow> dict_update kvs (nr_query rq) | _ \<Rightarrow> nr_query rq)
      else if is_form_request rq then dict_update (nr_form rq) (nr_query rq)
      else nr_query rq)"

text \<open>The data and whether the body is not JSON.\<close>

definition request_data :: "node_request \<Rightarrow> json \<times> bool" where
  "request_data rq =
     (if is_json_request rq then (case nr_json rq of None \<Rightarrow> (JNull, True) | Some v \<Rightarrow> (v, False))
      else if is_form_request rq then (JObj (nr_form rq), False)
      else (JObj [], False))"

section \<open>Responses\<close>

definition message_reply :: "int \<Rightarrow> string \<Rightarrow> node_response" where
  "message_reply status msg = JsonReply status (JObj [(''message'', JStr msg)])"

definition fail_reply :: "string \<Rightarrow> node_response" where
  "fail_reply msg = JsonReply 200 (JObj [(''status'', JStr ''fail''), (''message'', JStr msg)])"

definition error_reply :: "string \<Rightarrow> node_response" where
  "error_reply msg = JsonReply 400 (JObj [(''error'', JStr msg)])"

definition done_reply :: node_response where
  "done_reply = JsonReply 200 (JObj [(''data'', JBool True)])"

definition etag_matches :: "string \<Rightarrow> string \<Rightarrow> bool" where
  "etag_matches header etag \<longleftrightarrow>
     header \<noteq> [] \<and> list_ex (\<lambda>item. rstrip_chars {CHR 0x22} (lstrip_chars {CHR 0x22} (strip item)) = etag) (split_on (CHR '','') header)"

definition cacheable_reply :: "node_api \<Rightarrow> node_request \<Rightarrow> string \<Rightarrow> string \<Rightarrow> node_response" where
  "cacheable_reply A rq media body =
     (let etag = na_sha1 A body in if etag_matches (nr_if_none_match rq) etag then NotModified etag else Content media body etag)"

section \<open>Endpoints\<close>

definition config_endpoint :: "node_api \<Rightarrow> int \<Rightarrow> node_request \<Rightarrow> db \<Rightarrow> exn + node_response \<times> db" where
  "config_endpoint A now rq db =
     (let S = na_settings A; params = request_input rq; token = json_get params ''token'' JNull in
      if \<not> json_truthy token then Inr (fail_reply ''token is null'', db)
      else (case get_str S now ''server_token'' [] db of (expected, db1) \<Rightarrow>
        if py_str (sv_codec S) token \<noteq> expected then Inr (fail_reply ''token is error'', db1)
        else (case opt_int (map_of params ''node_id'') of
            None \<Rightarrow> Inr (fail_reply ''server is not exist'', db1)
          | Some node_id \<Rightarrow>
              bindE (get_v2node_config S (na_md5 A) now node_id db1) (\<lambda>(payload, db2).
                case payload of
                  None \<Rightarrow> Inr (fail_reply ''server is not exist'', db2)
                | Some v \<Rightarrow> Inr (cacheable_reply A rq ''application/json'' (dumps (sv_codec S) v), db2)))))"

definition with_context :: "node_api \<Rightarrow> int \<Rightarrow> string \<Rightarrow> node_request \<Rightarrow> db
    \<Rightarrow> (string \<Rightarrow> int \<Rightarrow> server_node \<Rightarrow> db \<Rightarrow> exn + node_response \<times> db) \<Rightarrow> exn + node_response \<times> db" where
  "with_context A now controller rq db k =
     (case uniproxy_context (na_settings A) now controller (request_input rq) db of
        (Abort status msg, db1) \<Rightarrow> Inr (message_reply status msg, db1)
      | (Proceed node_type node_id n, db1) \<Rightarrow> k node_type node_id n db1)"

definition user_endpoint :: "node_api \<Rightarrow> int \<Rightarrow> string \<Rightarrow> node_request \<Rightarrow> db \<Rightarrow> exn + node_response \<times> db" where
  "user_endpoint A now controller rq db =
     with_context A now controller rq db (\<lambda>node_type node_id n db1.
       let db2 = mark_uniproxy_check now node_type (if nd_id n = 0 then node_id else nd_id n) db1;
           C = sv_codec (na_settings A);
           payload = JObj [(''users'', JArr (get_available_users C now (nd_group_id n) db2))]
       in Inr (if contains ''msgpack'' (nr_response_format rq) then cacheable_reply A rq ''application/x-msgpack'' (na_msgpack A payload)
               else cacheable_reply A rq ''application/json'' (dumps C payload), db2))"

definition push_endpoint :: "node_api \<Rightarrow> int \<Rightarrow> string \<Rightarrow> node_request \<Rightarrow> db \<Rightarrow> exn + node_response \<times> db" where
  "push_endpoint A now controller rq db =
     with_context A now controller rq db (\<lambda>node_type node_id n db1.
       case request_data rq of (data, invalid) \<Rightarrow>
         if invalid then Inr (error_reply ''Invalid traffic data'', db1)
         else bindE (handle_uniproxy_push (na_queue A) now (na_after A) n node_type (case data of JObj kvs \<Rightarrow> kvs | _ \<Rightarrow> []) db1) (\<lambda>db2.
           Inr (done_reply, db2)))"

definition alivelist_endpoint :: "node_api \<Rightarrow> int \<Rightarrow> string \<Rightarrow> node_request \<Rightarrow> db \<Rightarrow> exn + node_response \<times> db" where
  "alivelist_endpoint A now controller rq db =
     with_context A now controller rq db (\<lambda>node_type node_id n db1.
       bindE (get_alive_list (sv_codec (na_settings A)) now db1) (\<lambda>(alive, db2). Inr (JsonReply 200 (JObj [(''alive'', JObj alive)]), db2)))"

definition alive_endpoint :: "node_api \<Rightarrow> int \<Rightarrow> string \<Rightarrow> node_request \<Rightarrow> db \<Rightarrow> exn + node_response \<times> db" where
  "alive_endpoint A now controller rq db =
     with_context A now controller rq db (\<lambda>node_type node_id n db1.
       case fst (request_data rq) of
         JObj data \<Rightarrow> bindE (handle_alive (na_settings A) now node_type node_id data db1) (\<lambda>db2. Inr (done_reply, db2))
       | _ \<Rightarrow> Inr (error_reply ''Invalid online data format'', db1))"

datatype node_call =
    Config | User string | Push string | AliveList string | Alive string

fun node_endpoint :: "node_api \<Rightarrow> int \<Rightarrow> node_call \<Rightarrow> node_request \<Rightarrow> db \<Rightarrow> exn + node_response \<times> db" where
  "node_endpoint A now Config rq db = config_endpoint A now rq db"
| "node_endpoint A now (User c) rq db = user_endpoint A now c rq db"
| "node_endpoint A now (Push c) rq db = push_endpoint A now c rq db"
| "node_endpoint A now (AliveList c) rq db = alivelist_endpoint A now c rq db"
| "node_endpoint A now (Alive c) rq db = alive_endpoint A now c rq db"

section \<open>The token\<close>

text \<open>The request carries the configured token.\<close>

definition knows_token :: "node_api \<Rightarrow> node_request \<Rightarrow> db \<Rightarrow> bool" where
  "knows_token A rq db \<longleftrightarrow> (let token = json_get (request_input rq) ''token'' JNull in
     json_truthy token \<and> py_str (sv_codec (na_settings A)) token = set_if (map_option st_value (setting_by_key db ''server_token'')) [])"

definition refusal :: "node_response \<Rightarrow> bool" where
  "refusal reply \<longleftrightarrow> (\<exists>m. reply = message_reply 404 m \<or> reply = message_reply 500 m \<or> reply = fail_reply m)"

lemma get_str_undisturbed: "get_str S now k d db = (v, db') \<Longrightarrow> undisturbed now db db'"
  using get_cached_undisturbed [of now db S k] by (auto simp: get_str_def split: prod.splits)

lemma undisturbed_refl: "undisturbed now db db"
  unfolding undisturbed_def by (auto intro: exI [of _ "t_cache db"])

lemma config_refused:
  assumes "setting_coherent now db" "\<not> knows_token A rq db"
  shows "\<exists>reply db'. config_endpoint A now rq db = Inr (reply, db') \<and> refusal reply \<and> undisturbed now db db'"
proof -
  obtain v db1 where g: "get_str (na_settings A) now ''server_token'' [] db = (v, db1)" by (cases "get_str (na_settings A) now ''server_token'' [] db")
  have v: "v = set_if (map_option st_value (setting_by_key db ''server_token'')) []"
    using get_str_value [OF assms(1), of "na_settings A" "''server_token''" "[]"] g by simp
  show ?thesis
  proof (cases "json_truthy (json_get (request_input rq) ''token'' JNull)")
    case True
    then have "config_endpoint A now rq db = Inr (fail_reply ''token is error'', db1)"
      using assms(2) v g by (simp add: config_endpoint_def knows_token_def Let_def)
    then show ?thesis using get_str_undisturbed [OF g] by (auto simp: refusal_def)
  next
    case False
    then have "config_endpoint A now rq db = Inr (fail_reply ''token is null'', db)" by (simp add: config_endpoint_def Let_def)
    then show ?thesis using undisturbed_refl by (auto simp: refusal_def)
  qed
qed

lemma context_refused:
  assumes "setting_coherent now db" "\<not> knows_token A rq db"
  shows "\<exists>status m db'. uniproxy_context (na_settings A) now c (request_input rq) db = (Abort status m, db') \<and> status \<in> {404, 500} \<and> undisturbed now db db'"
proof -
  obtain v db1 where g: "get_str (na_settings A) now ''server_token'' [] db = (v, db1)" by (cases "get_str (na_settings A) now ''server_token'' [] db")
  have v: "v = set_if (map_option st_value (setting_by_key db ''server_token'')) []"
    using get_str_value [OF assms(1), of "na_settings A" "''server_token''" "[]"] g by simp
  consider (other) "lower c \<noteq> ''uniproxy''" | (null) "lower c = ''uniproxy''" "\<not> json_truthy (json_get (request_input rq) ''token'' JNull)"
    | (wrong) "lower c = ''uniproxy''" "json_truthy (json_get (request_input rq) ''token'' JNull)" by blast
  then show ?thesis
  proof cases
    case wrong
    then have "uniproxy_context (na_settings A) now c (request_input rq) db = (Abort 500 ''token is error'', db1)"
      using assms(2) v g by (simp add: uniproxy_context_def knows_token_def Let_def)
    then show ?thesis using get_str_undisturbed [OF g] by auto
  qed (auto simp: uniproxy_context_def undisturbed_refl)
qed

lemma with_context_refused:
  assumes "setting_coherent now db" "\<not> knows_token A rq db"
  shows "\<exists>reply db'. with_context A now c rq db k = Inr (reply, db') \<and> refusal reply \<and> undisturbed now db db'"
  using context_refused [OF assms, of c] by (auto simp: with_context_def refusal_def)

text \<open>C33: Without the configured token no endpoint of the node API serves anything: whatever the request, the
  answer is a refusal, and neither the tables nor any cached value outside the settings changes.\<close>

theorem node_api_needs_token:
  assumes "setting_coherent now db" and "\<not> knows_token A rq db"
  shows "\<exists>reply db'. node_endpoint A now call rq db = Inr (reply, db') \<and> refusal reply \<and> undisturbed now db db'"
  using config_refused [OF assms] with_context_refused [OF assms]
  by (cases call) (simp_all add: user_endpoint_def push_endpoint_def alivelist_endpoint_def alive_endpoint_def)

definition sample_node_request :: node_request where
  "sample_node_request = \<lparr>nr_query = [(''token'', JStr ''guess''), (''node_id'', JStr ''1''), (''node_type'', JStr ''v2node'')], nr_content_type = [],
     nr_json = None, nr_form = [], nr_if_none_match = [], nr_response_format = []\<rparr>"

definition sample_node_api :: node_api where
  "sample_node_api = \<lparr>na_settings = sample_service, na_queue = \<lparr>qc_codec = plain_codec, qc_default_name = ''arq'', qc_max_tries = 3,
       qc_retry_jobs = True, qc_max_jobs = 10\<rparr>, na_after = (\<lambda>v. Inr 0),
     na_md5 = id, na_sha1 = id, na_msgpack = (\<lambda>v. [])\<rparr>"

theorem node_api_needs_token_witness:
  "\<exists>reply db'. node_endpoint sample_node_api 5 (User ''UniProxy'') sample_node_request server_db = Inr (reply, db') \<and> refusal reply"
proof -
  have "\<not> knows_token sample_node_api sample_node_request server_db" "t_cache server_db = []" by code_simp+
  then show ?thesis using node_api_needs_token [OF empty_cache_coherent] by blast
qed

end
