(* ===== verification/Telegram.thy ===== *)
theory Telegram
  imports Formats Mail Tickets ServerApi
begin

text \<open>
  \<open>app/services/telegram.py\<close>: the webhook of the Telegram bot. The environment holds the settings service, MD5,
  the text of an exception (\<open>str(exc)\<close>) and the Bot API: the JSON object that a call returns, or \<open>None\<close> when the
  call raises. The calls that are made are part of the result, in order.
\<close>

type_synonym bot_call = "string \<times> (string \<times> json) list"

record telegram_env =
  te_settings :: setting_service
  te_md5 :: "string \<Rightarrow> string"
  te_text :: "exn \<Rightarrow> string"
  te_api :: "string \<Rightarrow> string \<Rightarrow> (string \<times> json) list \<Rightarrow> (string \<times> json) list option"

section \<open>The Bot API\<close>

definition telegram_request :: "telegram_env \<Rightarrow> string \<Rightarrow> string \<Rightarrow> (string \<times> json) list \<Rightarrow> (string \<times> json) list" where
  "telegram_request T token meth payload =
     (case te_api T token meth payload of None \<Rightarrow> [(''ok'', JBool False)] | Some reply \<Rightarrow> reply)"

definition message_call :: "json \<Rightarrow> string \<Rightarrow> bot_call" where
  "message_call chat txt = (''sendMessage'', [(''chat_id'', chat), (''text'', JStr txt)])"

definition send_message :: "telegram_env \<Rightarrow> string \<Rightarrow> json \<Rightarrow> string \<Rightarrow> bool" where
  "send_message T token chat txt =
     json_truthy (json_get (case message_call chat txt of (m, p) \<Rightarrow> telegram_request T token m p) ''ok'' JNull)"

definition bot_token :: "telegram_env \<Rightarrow> int \<Rightarrow> db \<Rightarrow> string \<times> db" where
  "bot_token T now db = get_str (te_settings T) now ''telegram_bot_token'' [] db"

text \<open>\<open>d.get(k)\<close> and \<open>d.get(k, {}).get(k2)\<close> on decoded JSON.\<close>

definition attr :: "json \<Rightarrow> string \<Rightarrow> exn + json" where
  "attr v k = (case v of JObj kvs \<Rightarrow> Inr (json_get kvs k JNull) | _ \<Rightarrow> Inl AttributeError)"

definition nested :: "(string \<times> json) list \<Rightarrow> string \<Rightarrow> string \<Rightarrow> exn + json" where
  "nested kvs k k2 = attr (json_get kvs k (JObj [])) k2"

definition get_bot_info :: "telegram_env \<Rightarrow> int \<Rightarrow> db \<Rightarrow> exn + json \<times> db" where
  "get_bot_info T now db =
     (case bot_token T now db of (token, db1) \<Rightarrow>
        if token = [] then Inr (JNull, db1)
        else (let reply = telegram_request T token ''getMe'' [] in
          if json_truthy (json_get reply ''ok'' JNull) then bindE (nested reply ''result'' ''username'') (\<lambda>name. Inr (name, db1))
          else Inr (JNull, db1)))"

definition set_webhook :: "telegram_env \<Rightarrow> int \<Rightarrow> string \<Rightarrow> string \<Rightarrow> db \<Rightarrow> exn + db" where
  "set_webhook T now token app_url db =
     (let url = rstrip_chars {CHR ''/''} app_url @ ''/api/v1/telegram/webhook?access_token='' @ te_md5 T token;
          reply = telegram_request T token ''setWebhook'' [(''url'', JStr url)]
      in if json_truthy (json_get reply ''ok'' JNull) then save_config (te_settings T) now ''telegram_bot_token'' (JStr token) db
         else Inl (BadRequest (first_text (sv_codec (te_settings T)) [json_get reply ''description'' JNull, JStr ''webhook failed''])))"

section \<open>Messages\<close>

record chat_message =
  cm_text :: json
  cm_chat :: json
  cm_reply_text :: json

definition parse_message :: "json \<Rightarrow> exn + chat_message option" where
  "parse_message v =
     (if \<not> json_truthy v then Inr None
      else (case v of
          JObj kvs \<Rightarrow>
            (if \<not> json_truthy (json_get kvs ''text'' JNull) then Inr None
             else bindE (nested kvs ''chat'' ''id'') (\<lambda>chat. bindE (nested kvs ''reply_to_message'' ''text'') (\<lambda>reply.
               Inr (Some \<lparr>cm_text = json_get kvs ''text'' JNull, cm_chat = chat, cm_reply_text = reply\<rparr>))))
        | _ \<Rightarrow> Inl AttributeError))"

text \<open>The column of a chat id; the driver refuses what is not an integer.\<close>

definition chat_column :: "json \<Rightarrow> exn + int option" where
  "chat_column v = (case v of JInt n \<Rightarrow> Inr (Some n) | JBool b \<Rightarrow> Inr (Some (if b then 1 else 0)) | JNull \<Rightarrow> Inr None | _ \<Rightarrow> Inl TypeError)"

definition user_of_chat :: "db \<Rightarrow> json \<Rightarrow> exn + user option" where
  "user_of_chat db chat = bindE (chat_column chat) (\<lambda>c. find_one (\<lambda>u. us_telegram_id u = c) (t_users db))"

text \<open>\<open>re.search(r"#(\d+)", s)\<close>.\<close>

fun ticket_number :: "string \<Rightarrow> int option" where
  "ticket_number [] = None"
| "ticket_number (c # cs) =
     (if c = CHR ''#'' \<and> takeWhile is_digit cs \<noteq> [] then Some (int (nat_of_digits (takeWhile is_digit cs))) else ticket_number cs)"

text \<open>The query of \<open>urllib.parse.urlparse\<close> (for a URL whose host has no brackets), the pairs of \<open>parse_qs\<close>.\<close>

definition url_query :: "string \<Rightarrow> string" where
  "url_query s = drop 1 (dropWhile (\<lambda>c. c \<noteq> CHR ''?'') (takeWhile (\<lambda>c. c \<noteq> CHR ''#'') s))"

definition plus_unquote :: "string \<Rightarrow> string" where
  "plus_unquote s = unquote (map (\<lambda>c. if c = CHR ''+'' then CHR '' '' else c) s)"

definition query_pairs :: "string \<Rightarrow> (string \<times> string) list" where
  "query_pairs q = List.map_filter (\<lambda>part. case partition_at (CHR ''='') part of
       (name, eq, v) \<Rightarrow> if eq \<and> v \<noteq> [] then Some (plus_unquote name, plus_unquote v) else None) (split_on (CHR ''&'') q)"

definition extract_user_token :: "string \<Rightarrow> string" where
  "extract_user_token raw =
     (if url_query raw \<noteq> [] then set_if (map_of (query_pairs (url_query raw)) ''token'') [] else strip raw)"

section \<open>Commands\<close>

text \<open>A command answers with a text and the changed database, or with nothing.\<close>

definition bind_chat :: "int \<Rightarrow> json \<Rightarrow> string \<Rightarrow> db \<Rightarrow> exn + string \<times> db" where
  "bind_chat now chat raw db =
     (let tok = extract_user_token raw in
      guardE (tok = []) (BadRequest ''no token'') (
      case user_by_token db tok of
        None \<Rightarrow> Inl (BadRequest ''no such user'')
      | Some u \<Rightarrow>
          guardE (truthy (us_telegram_id u)) (BadRequest ''already bound'') (
          bindE (chat_column chat) (\<lambda>c.
            Inr (''bound'', put_user now db (u\<lparr>us_telegram_id := c\<rparr>))))))"

definition unbind_chat :: "int \<Rightarrow> json \<Rightarrow> db \<Rightarrow> exn + string \<times> db" where
  "unbind_chat now chat db =
     bindE (user_of_chat db chat) (\<lambda>found. case found of
         None \<Rightarrow> Inr (''not bound'', db)
       | Some u \<Rightarrow> Inr (''unbound'', put_user now db (u\<lparr>us_telegram_id := None\<rparr>)))"

definition traffic_text :: "user \<Rightarrow> string" where
  "traffic_text u = ''total: '' @ format_bytes (us_transfer_enable u) @ '' up: '' @ format_bytes (us_u u) @ '' down: '' @ format_bytes (us_d u) @
     '' left: '' @ format_bytes (max (us_transfer_enable u - us_u u - us_d u) 0)"

definition traffic_command :: "json \<Rightarrow> db \<Rightarrow> exn + string \<times> db" where
  "traffic_command chat db =
     bindE (user_of_chat db chat) (\<lambda>found. Inr (case found of None \<Rightarrow> ''not bound'' | Some u \<Rightarrow> traffic_text u, db))"

definition reply_ticket :: "int \<Rightarrow> json \<Rightarrow> int \<Rightarrow> string \<Rightarrow> db \<Rightarrow> exn + string option \<times> db" where
  "reply_ticket now chat tid txt db =
     bindE (user_of_chat db chat) (\<lambda>found. case found of
         None \<Rightarrow> Inr (None, db)
       | Some u \<Rightarrow>
           if \<not> (us_is_admin u \<or> us_is_staff u) then Inr (None, db)
           else bindE (reply_admin_ticket now (us_id u) tid txt db) (\<lambda>(detail, db'). Inr (Some (''#'' @ str_int tid @ '' replied''), db')))"

definition latest_url :: "telegram_env \<Rightarrow> int \<Rightarrow> db \<Rightarrow> string \<times> db" where
  "latest_url T now db =
     (case get_str (te_settings T) now ''app_name'' ''PyBoard'' db of (name, db1) \<Rightarrow>
      (case get_str (te_settings T) now ''app_url'' [] db1 of (url, db2) \<Rightarrow> (name @ '' is now at '' @ url, db2)))"

definition answer :: "(exn + string \<times> db) \<Rightarrow> exn + string option \<times> db" where
  "answer r = bindE r (\<lambda>(txt, db). Inr (Some txt, db))"

definition run_command :: "telegram_env \<Rightarrow> int \<Rightarrow> json \<Rightarrow> string \<Rightarrow> string list \<Rightarrow> db \<Rightarrow> exn + string option \<times> db" where
  "run_command T now chat command args db =
     (if command = ''/bind'' then answer (bind_chat now chat (case args of [] \<Rightarrow> [] | a # _ \<Rightarrow> a) db)
      else if command = ''/unbind'' then answer (unbind_chat now chat db)
      else if command = ''/traffic'' then answer (traffic_command chat db)
      else if command = ''/getlatesturl'' then answer (Inr (latest_url T now db))
      else Inr (None, db))"

definition dispatch :: "telegram_env \<Rightarrow> int \<Rightarrow> chat_message \<Rightarrow> string \<Rightarrow> string list \<Rightarrow> db \<Rightarrow> exn + string option \<times> db" where
  "dispatch T now m command args db =
     (if \<not> json_truthy (cm_reply_text m) then run_command T now (cm_chat m) command args db
      else (case cm_reply_text m of
          JStr s \<Rightarrow> (case ticket_number s of
              Some tid \<Rightarrow> reply_ticket now (cm_chat m) tid (case cm_text m of JStr t \<Rightarrow> t | _ \<Rightarrow> []) db
            | None \<Rightarrow> run_command T now (cm_chat m) command args db)
        | _ \<Rightarrow> Inl TypeError))"

text \<open>An exception of a command is sent as a text; none of them is raised after a change of the database.\<close>

definition handle_message :: "telegram_env \<Rightarrow> int \<Rightarrow> chat_message \<Rightarrow> db \<Rightarrow> exn + bot_call list \<times> db" where
  "handle_message T now m db =
     (case cm_text m of
        JStr txt \<Rightarrow>
          (case split_ws txt of
             [] \<Rightarrow> Inl ValueError
           | w # args \<Rightarrow>
               (case dispatch T now m (lower (takeWhile (\<lambda>c. c \<noteq> CHR ''@'') w)) args db of
                  Inr (None, db') \<Rightarrow> Inr ([], db')
                | Inr (Some reply, db') \<Rightarrow> Inr ([message_call (cm_chat m) reply], db')
                | Inl e \<Rightarrow> Inr ([message_call (cm_chat m) (te_text T e)], db)))
      | _ \<Rightarrow> Inl AttributeError)"

definition handle_join_request :: "json \<Rightarrow> db \<Rightarrow> exn + bot_call list" where
  "handle_join_request request db =
     (if \<not> json_truthy request then Inr []
      else (case request of
          JObj kvs \<Rightarrow>
            bindE (nested kvs ''chat'' ''id'') (\<lambda>chat.
            bindE (nested kvs ''from'' ''id'') (\<lambda>from.
              if chat = JNull \<or> from = JNull then Inr []
              else bindE (int_of_json from) (\<lambda>i.
                bindE (user_by_telegram_id db i) (\<lambda>found.
                  let approve = (case found of None \<Rightarrow> False | Some u \<Rightarrow> \<not> us_banned u)
                  in Inr [(if approve then ''approveChatJoinRequest'' else ''declineChatJoinRequest'', [(''chat_id'', chat), (''user_id'', from)])]))))
        | _ \<Rightarrow> Inl AttributeError))"

definition note_update :: "telegram_env \<Rightarrow> int \<Rightarrow> (string \<times> json) list \<Rightarrow> db \<Rightarrow> db" where
  "note_update T now payload db =
     (let update_id = json_get payload ''update_id'' JNull in
      if update_id = JNull then db
      else put_cache now (''telegram:update:'' @ py_str (sv_codec (te_settings T)) update_id) (JObj payload) 86400 db)"

definition handle_webhook :: "telegram_env \<Rightarrow> int \<Rightarrow> string \<Rightarrow> (string \<times> json) list \<Rightarrow> db \<Rightarrow> exn + bot_call list \<times> db" where
  "handle_webhook T now access_token payload db =
     (case bot_token T now db of (token, db1) \<Rightarrow>
        guardE (token = [] \<or> access_token \<noteq> te_md5 T token) (Unauthorized ''unauthorized'') (
        let db2 = note_update T now payload db1 in
        bindE (handle_join_request (json_get payload ''chat_join_request'' JNull) db2) (\<lambda>joins.
        bindE (parse_message (json_get payload ''message'' JNull)) (\<lambda>parsed.
        case parsed of
          None \<Rightarrow> Inr (joins, db2)
        | Some m \<Rightarrow> bindE (handle_message T now m db2) (\<lambda>(calls, db3). Inr (joins @ calls, db3))))))"

section \<open>What a message can change\<close>

definition account_core :: "user \<Rightarrow> user" where
  "account_core u = u\<lparr>us_telegram_id := None, us_updated_at := 0\<rparr>"

definition staff_chat :: "db \<Rightarrow> json \<Rightarrow> bool" where
  "staff_chat db chat \<longleftrightarrow> (\<exists>u\<in>set (rows (t_users db)). chat_column chat = Inr (us_telegram_id u) \<and> (us_is_admin u \<or> us_is_staff u))"

definition bot_change :: "bool \<Rightarrow> db \<Rightarrow> db \<Rightarrow> bool" where
  "bot_change staff db db' \<longleftrightarrow> map account_core (rows (t_users db')) = map account_core (rows (t_users db)) \<and>
     next_id (t_users db') = next_id (t_users db) \<and> t_orders db' = t_orders db \<and>
     t_settings db' = t_settings db \<and> (staff \<or> t_tickets db' = t_tickets db \<and> t_ticket_messages db' = t_ticket_messages db) \<and>
     (wf_table ticket_entity (t_tickets db) \<longrightarrow> wf_table ticket_entity (t_tickets db'))"

lemma bot_change_refl: "bot_change staff db db"
  by (simp add: bot_change_def)

lemma bot_change_cache: "bot_change staff db (db\<lparr>t_cache := c\<rparr>)"
  by (simp add: bot_change_def)

lemma account_core_stored: "account_core (stored user_entity now x u) = account_core u"
  by (simp add: account_core_def stored_def user_entity_def)

lemma account_core_simps [simp]: "account_core (u\<lparr>us_telegram_id := c\<rparr>) = account_core u" "us_id (u\<lparr>us_telegram_id := c\<rparr>) = us_id u"
  by (simp_all add: account_core_def)

lemma user_entity_id: "e_id user_entity = us_id"
  by (simp add: user_entity_def)

lemma put_binding:
  assumes "wf_table user_entity (t_users db)" and "u \<in> set (rows (t_users db))"
  shows "bot_change staff db (put_user now db (u\<lparr>us_telegram_id := c\<rparr>))"
proof -
  have "repo_get user_entity (t_users db) (e_id user_entity (u\<lparr>us_telegram_id := c\<rparr>)) = Some u"
    using users.get_unique [OF assms] by (simp add: user_entity_id)
  then have "map account_core (rows (repo_update user_entity now (t_users db) (u\<lparr>us_telegram_id := c\<rparr>))) = map account_core (rows (t_users db))"
    using assms(1) by (intro map_col_update) (simp_all add: account_core_stored wf_table_def)
  then show ?thesis by (simp add: bot_change_def put_user_def)
qed

lemma user_of_chat_row: "user_of_chat db chat = Inr (Some u) \<Longrightarrow> u \<in> set (rows (t_users db)) \<and> chat_column chat = Inr (us_telegram_id u)"
  by (auto simp: user_of_chat_def bindE_eq_Inr dest: find_one_Some)

lemma user_by_token_row: "user_by_token db tok = Some u \<Longrightarrow> u \<in> set (rows (t_users db))"
  unfolding user_by_token_def by (drule find_Some_set) simp

lemma bind_changes:
  assumes "bind_chat now chat raw db = Inr (r, db')" and "wf_table user_entity (t_users db)"
  shows "bot_change staff db db'"
proof -
  from assms(1) obtain u c where "user_by_token db (extract_user_token raw) = Some u" "db' = put_user now db (u\<lparr>us_telegram_id := c\<rparr>)"
    by (auto simp: bind_chat_def result_simps Let_def split: option.splits)
  then show ?thesis using put_binding [OF assms(2) user_by_token_row] by simp
qed

lemma unbind_changes:
  assumes "unbind_chat now chat db = Inr (r, db')" and "wf_table user_entity (t_users db)"
  shows "bot_change staff db db'"
proof -
  obtain found where f: "user_of_chat db chat = Inr found"
    using assms(1) by (cases "user_of_chat db chat") (simp_all add: unbind_chat_def)
  have r: "(case found of None \<Rightarrow> Inr (''not bound'', db) | Some u \<Rightarrow> Inr (''unbound'', put_user now db (u\<lparr>us_telegram_id := None\<rparr>))) = (Inr (r, db') :: exn + string \<times> db)"
    using assms(1) f by (simp add: unbind_chat_def)
  show ?thesis
  proof (cases found)
    case None
    with r show ?thesis by (simp add: bot_change_refl)
  next
    case (Some u)
    with r f show ?thesis using put_binding [OF assms(2)] user_of_chat_row by auto
  qed
qed

lemma reply_changes:
  assumes "reply_ticket now chat tid txt db = Inr (r, db')"
  shows "bot_change (staff_chat db chat) db db'"
proof -
  from assms obtain found where f: "user_of_chat db chat = Inr found" by (auto simp: reply_ticket_def bindE_eq_Inr)
  show ?thesis
  proof (cases "\<exists>u. found = Some u \<and> (us_is_admin u \<or> us_is_staff u)")
    case True
    then obtain u where u: "found = Some u" "us_is_admin u \<or> us_is_staff u" by blast
    with f user_of_chat_row have "staff_chat db chat" unfolding staff_chat_def by blast
    moreover obtain t i where "db' = put_ticket now (insert_message now (us_id u) i (strip txt) db) t"
      using assms u f by (auto simp: reply_ticket_def reply_admin_ticket_def reply_to_def Let_def result_simps)
    ultimately show ?thesis by (simp add: bot_change_def put_ticket_def insert_message_def tickets.wf_update)
  next
    case False
    then have "db' = db" using assms f by (cases found) (auto simp: reply_ticket_def bindE_eq_Inr)
    then show ?thesis by (simp add: bot_change_refl)
  qed
qed

lemma latest_url_cache: "latest_url T now db = (r, db') \<Longrightarrow> \<exists>c. db' = db\<lparr>t_cache := c\<rparr>"
proof -
  assume l: "latest_url T now db = (r, db')"
  obtain n db1 where g1: "get_str (te_settings T) now ''app_name'' ''PyBoard'' db = (n, db1)" by (cases "get_str (te_settings T) now ''app_name'' ''PyBoard'' db")
  obtain v db2 where g2: "get_str (te_settings T) now ''app_url'' [] db1 = (v, db2)" by (cases "get_str (te_settings T) now ''app_url'' [] db1")
  obtain c where "db1 = db\<lparr>t_cache := c\<rparr>" using get_str_state [of "te_settings T" now "''app_name''" "''PyBoard''" db] g1 by auto
  moreover obtain c' where "db2 = db1\<lparr>t_cache := c'\<rparr>" using get_str_state [of "te_settings T" now "''app_url''" "[]" db1] g2 by auto
  moreover have "db' = db2" using l by (simp add: latest_url_def g1 g2)
  ultimately show ?thesis by auto
qed

lemma command_changes:
  assumes "run_command T now chat command args db = Inr (r, db')" and "wf_table user_entity (t_users db)"
  shows "bot_change staff db db'"
proof -
  consider "\<exists>raw x. bind_chat now chat raw db = Inr (x, db')" | "\<exists>x. unbind_chat now chat db = Inr (x, db')"
    | "db' = db" | "\<exists>x. latest_url T now db = (x, db')"
    using assms(1) by (auto simp: run_command_def answer_def traffic_command_def bindE_eq_Inr split: if_splits prod.splits)
  then show ?thesis
  proof cases
    case 4
    then show ?thesis using latest_url_cache bot_change_cache by metis
  qed (use bind_changes unbind_changes assms(2) bot_change_refl in blast)+
qed

lemma dispatch_changes:
  assumes "dispatch T now m command args db = Inr (r, db')" and "wf_table user_entity (t_users db)"
  shows "bot_change (staff_chat db (cm_chat m)) db db'"
proof -
  consider "run_command T now (cm_chat m) command args db = Inr (r, db')" | "\<exists>tid txt. reply_ticket now (cm_chat m) tid txt db = Inr (r, db')"
    using assms(1) by (auto simp: dispatch_def split: if_splits json.splits option.splits)
  then show ?thesis using command_changes [OF _ assms(2)] reply_changes by cases blast+
qed

lemma message_changes:
  assumes "handle_message T now m db = Inr (calls, db')" and "wf_table user_entity (t_users db)"
  shows "bot_change (staff_chat db (cm_chat m)) db db'"
proof -
  obtain s where t: "cm_text m = JStr s" using assms(1) by (cases "cm_text m") (auto simp: handle_message_def)
  obtain w args where w: "split_ws s = w # args" using assms(1) t by (cases "split_ws s") (auto simp: handle_message_def)
  define res where "res = dispatch T now m (lower (takeWhile (\<lambda>c. c \<noteq> CHR ''@'') w)) args db"
  have "(case res of Inr (None, x) \<Rightarrow> Inr ([], x) | Inr (Some reply, x) \<Rightarrow> Inr ([message_call (cm_chat m) reply], x)
      | Inl e \<Rightarrow> Inr ([message_call (cm_chat m) (te_text T e)], db)) = (Inr (calls, db') :: exn + bot_call list \<times> db)"
    using assms(1) by (simp add: handle_message_def t w res_def)
  then have "db' = db \<or> (\<exists>r. res = Inr (r, db'))" by (auto split: sum.splits option.splits)
  then show ?thesis using dispatch_changes [OF _ assms(2)] bot_change_refl res_def by metis
qed

lemma bot_change_trans: "bot_change a db db1 \<Longrightarrow> bot_change a db1 db2 \<Longrightarrow> bot_change a db db2"
  by (auto simp: bot_change_def)

lemma note_update_cache: "\<exists>c. note_update T now payload db = db\<lparr>t_cache := c\<rparr>"
proof (cases "json_get payload ''update_id'' JNull = JNull")
  case True
  then have "note_update T now payload db = db\<lparr>t_cache := t_cache db\<rparr>" by (simp add: note_update_def)
  then show ?thesis by blast
next
  case False
  then show ?thesis by (simp add: note_update_def put_cache_def) blast
qed

section \<open>Properties\<close>

lemma webhook_guarded:
  assumes "handle_webhook T now access_token payload db = Inr (calls, db')" and "wf_table user_entity (t_users db)"
  shows "fst (bot_token T now db) \<noteq> [] \<and> access_token = te_md5 T (fst (bot_token T now db)) \<and>
     (\<exists>staff. bot_change staff db db' \<and>
        (staff \<longrightarrow> (\<exists>m. parse_message (json_get payload ''message'' JNull) = Inr (Some m) \<and> staff_chat db (cm_chat m))))"
proof -
  obtain token db1 where b: "bot_token T now db = (token, db1)" by (cases "bot_token T now db")
  define db2 where "db2 = note_update T now payload db1"
  obtain c1 where "db1 = db\<lparr>t_cache := c1\<rparr>" using get_str_state [of "te_settings T" now "''telegram_bot_token''" "[]" db] b by (auto simp: bot_token_def)
  then obtain c2 where db2: "db2 = db\<lparr>t_cache := c2\<rparr>" using note_update_cache [of T now payload db1] by (auto simp: db2_def)
  from assms(1) obtain joins parsed where ok: "token \<noteq> []" "access_token = te_md5 T token"
    and p: "parse_message (json_get payload ''message'' JNull) = Inr parsed"
    and r: "(case parsed of None \<Rightarrow> Inr (joins, db2) | Some m \<Rightarrow> bindE (handle_message T now m db2) (\<lambda>(calls, db3). Inr (joins @ calls, db3))) =
        (Inr (calls, db') :: exn + bot_call list \<times> db)"
    by (auto simp: handle_webhook_def b db2_def [symmetric] Let_def result_simps)
  obtain staff where s: "bot_change staff db2 db'" "staff \<longrightarrow> (\<exists>m. parsed = Some m \<and> staff_chat db2 (cm_chat m))"
  proof (cases parsed)
    case None
    then show ?thesis using r bot_change_refl [of False db2] that [of False] by auto
  next
    case (Some m)
    then obtain cs where "handle_message T now m db2 = Inr (cs, db')" using r by (auto simp: bindE_eq_Inr)
    then have "bot_change (staff_chat db2 (cm_chat m)) db2 db'" using message_changes assms(2) db2 by simp
    then show ?thesis using Some that by blast
  qed
  have same: "staff_chat db2 = staff_chat db" "bot_change staff db db2" by (auto simp: db2 staff_chat_def bot_change_cache)
  then have "bot_change staff db db'" using bot_change_trans s(1) by blast
  then show ?thesis using ok p s(2) same(1) by (auto simp: b)
qed

text \<open>C35: The webhook obeys only Telegram: a request is served only with the digest of the configured bot token, it
  changes nothing of an account but the chat bound to it, no order and no setting, and it writes to a ticket only
  for a message from a chat that is bound to a member of the staff.\<close>

theorem telegram_webhook_guarded:
  assumes "handle_webhook T now access_token payload db = Inr (calls, db')" and "wf_table user_entity (t_users db)"
  shows "fst (bot_token T now db) \<noteq> [] \<and> access_token = te_md5 T (fst (bot_token T now db)) \<and>
     (\<exists>staff. bot_change staff db db' \<and>
        (staff \<longrightarrow> (\<exists>m. parse_message (json_get payload ''message'' JNull) = Inr (Some m) \<and> staff_chat db (cm_chat m))))"
  by (rule webhook_guarded [OF assms])

definition bot_env :: telegram_env where
  "bot_env = \<lparr>te_settings = sample_service, te_md5 = (\<lambda>s. ''m'' @ s), te_text = (\<lambda>e. ''failed''), te_api = (\<lambda>t m p. None)\<rparr>"

definition bot_db :: db where
  "bot_db = server_db\<lparr>t_users := \<lparr>rows = [sub_user, sub_user\<lparr>us_id := 2, us_token := ''t2''\<rparr>], next_id = 3\<rparr>,
     t_settings := \<lparr>rows = [\<lparr>st_id = 1, st_key = ''telegram_bot_token'', st_value = ''B'', st_type = ''str'',
     st_description = None, st_created_at = 0, st_updated_at = 0\<rparr>], next_id = 2\<rparr>\<rparr>"

definition bot_message :: "string \<Rightarrow> (string \<times> json) list" where
  "bot_message s = [(''message'', JObj [(''text'', JStr s), (''chat'', JObj [(''id'', JInt 7)])])]"

theorem telegram_webhook_guarded_witness:
  "\<exists>calls db'. handle_webhook bot_env 5 ''mB'' (bot_message ''/bind t1'') bot_db = Inr (calls, db') \<and>
     (\<exists>staff. bot_change staff bot_db db') \<and> \<not> is_ok (handle_webhook bot_env 5 ''m'' (bot_message ''/bind t1'') bot_db)"
proof -
  have w: "wf_table user_entity (t_users bot_db)" "is_ok (handle_webhook bot_env 5 ''mB'' (bot_message ''/bind t1'') bot_db)"
    "\<not> is_ok (handle_webhook bot_env 5 ''m'' (bot_message ''/bind t1'') bot_db)" by code_simp+
  obtain x where x: "handle_webhook bot_env 5 ''mB'' (bot_message ''/bind t1'') bot_db = Inr x" by (rule is_okE [OF w(2)])
  show ?thesis using telegram_webhook_guarded [of bot_env 5 "''mB''" "bot_message ''/bind t1''" bot_db "fst x" "snd x"] x w(1,3)
    by (cases x) auto
qed

text \<open>One chat can be bound to two accounts, since only the account is checked; from then on every command that
  looks the chat up fails.\<close>

lemma chat_bound_twice:
  "\<exists>db1 db2 r. bind_chat 5 (JInt 7) ''t1'' bot_db = Inr (''bound'', db1) \<and> bind_chat 6 (JInt 7) ''t2'' db1 = Inr (''bound'', db2) \<and>
     traffic_command (JInt 7) db2 = Inl MultipleResultsFound"
proof -
  have h: "case bind_chat 5 (JInt 7) ''t1'' bot_db of Inl e \<Rightarrow> False
     | Inr (m, db1) \<Rightarrow> m = ''bound'' \<and> (case bind_chat 6 (JInt 7) ''t2'' db1 of Inl e \<Rightarrow> False
         | Inr (m2, db2) \<Rightarrow> m2 = ''bound'' \<and> traffic_command (JInt 7) db2 = Inl MultipleResultsFound)" by code_simp
  obtain m1 db1 where b1: "bind_chat 5 (JInt 7) ''t1'' bot_db = Inr (m1, db1)" using h by (cases "bind_chat 5 (JInt 7) ''t1'' bot_db") auto
  obtain m2 db2 where b2: "bind_chat 6 (JInt 7) ''t2'' db1 = Inr (m2, db2)" using h b1 by (cases "bind_chat 6 (JInt 7) ''t2'' db1") auto
  show ?thesis using h by (simp add: b1 b2)
qed

end
