(* ===== verification/Content.thy ===== *)
theory Content
  imports Subscribe ServerAdmin "HOL-Library.Char_ord" "HOL-Library.List_Lexorder"
begin

text \<open>
  Notices (\<open>app/services/notice.py\<close>, \<open>app/repositories/notice.py\<close>) and the knowledge base
  (\<open>app/services/knowledge.py\<close>, \<open>app/repositories/knowledge.py\<close>, the detail page of
  \<open>app/controllers/knowledge.py\<close>). A page is the list of its rows with the total; an update is the dictionary
  of the fields it sets. Rows with one creation time keep the order of the table. The Jinja renderer is a
  parameter.
\<close>

section \<open>Notices\<close>

definition notice_by_id :: "db \<Rightarrow> int \<Rightarrow> notice option" where
  "notice_by_id db i = repo_get notice_entity (t_notices db) i"

definition notices_visible :: "db \<Rightarrow> notice list" where
  "notices_visible db = sort_key (\<lambda>n. - no_created_at n) (filter no_show (rows (t_notices db)))"

definition notices_all :: "db \<Rightarrow> notice list" where
  "notices_all db = sort_key (\<lambda>n. - no_id n) (rows (t_notices db))"

definition list_public_notices :: "int \<Rightarrow> int \<Rightarrow> db \<Rightarrow> notice list \<times> int" where
  "list_public_notices pg sz db =
     (paginate ((pg - 1) * sz) sz (notices_visible db), count_where no_show (rows (t_notices db)))"

definition list_all_notices :: "int \<Rightarrow> int \<Rightarrow> db \<Rightarrow> notice list \<times> int" where
  "list_all_notices pg sz db = (paginate ((pg - 1) * sz) sz (notices_all db), repo_count (t_notices db))"

definition get_public_notice :: "int \<Rightarrow> db \<Rightarrow> exn + notice" where
  "get_public_notice i db =
     (case notice_by_id db i of None \<Rightarrow> Inl (NotFound ''notice'') | Some n \<Rightarrow> if no_show n then Inr n else Inl (NotFound ''notice''))"

definition get_notice :: "int \<Rightarrow> db \<Rightarrow> exn + notice" where
  "get_notice i db = (case notice_by_id db i of None \<Rightarrow> Inl (NotFound ''notice'') | Some n \<Rightarrow> Inr n)"

record notice_create =
  nc_title :: string
  nc_content :: string
  nc_show :: bool
  nc_img_url :: "string option"
  nc_tags :: "string option"

definition new_notice :: "notice_create \<Rightarrow> notice" where
  "new_notice d = \<lparr>no_id = 0, no_title = nc_title d, no_content = nc_content d, no_show = nc_show d, no_img_url = nc_img_url d,
     no_tags = nc_tags d, no_created_at = 0, no_updated_at = 0\<rparr>"

definition create_notice :: "int \<Rightarrow> notice_create \<Rightarrow> db \<Rightarrow> notice \<times> db" where
  "create_notice now d db =
     (new_row notice_entity now (t_notices db) (new_notice d), db\<lparr>t_notices := repo_create notice_entity now (t_notices db) (new_notice d)\<rparr>)"

definition set_notice :: "(string \<times> json) list \<Rightarrow> notice \<Rightarrow> exn + notice" where
  "set_notice d n =
     bindE (str_col d ''title'' (no_title n)) (\<lambda>title.
     bindE (str_col d ''content'' (no_content n)) (\<lambda>content.
     bindE (bool_col d ''show'' (no_show n)) (\<lambda>shown.
     bindE (opt_str_col d ''img_url'' (no_img_url n)) (\<lambda>img_url.
     bindE (opt_str_col d ''tags'' (no_tags n)) (\<lambda>tags.
       Inr (n\<lparr>no_title := title, no_content := content, no_show := shown, no_img_url := img_url, no_tags := tags\<rparr>))))))"

definition update_notice :: "int \<Rightarrow> int \<Rightarrow> (string \<times> json) list \<Rightarrow> db \<Rightarrow> exn + notice \<times> db" where
  "update_notice now i d db =
     bindE (get_notice i db) (\<lambda>n. bindE (set_notice d n) (\<lambda>n'.
       Inr (n', db\<lparr>t_notices := repo_update notice_entity now (t_notices db) n'\<rparr>)))"

definition delete_notice :: "int \<Rightarrow> db \<Rightarrow> exn + db" where
  "delete_notice i db = bindE (get_notice i db) (\<lambda>n. Inr (db\<lparr>t_notices := repo_delete notice_entity (t_notices db) n\<rparr>))"

section \<open>Knowledge\<close>

definition knowledge_by_id :: "db \<Rightarrow> int \<Rightarrow> knowledge option" where
  "knowledge_by_id db i = repo_get knowledge_entity (t_knowledge db) i"

definition knowledge_matches :: "string option \<Rightarrow> string option \<Rightarrow> string option \<Rightarrow> knowledge \<Rightarrow> bool" where
  "knowledge_matches language category keyword k \<longleftrightarrow> kn_show k \<and>
     (case language of None \<Rightarrow> True | Some l \<Rightarrow> kn_language k = l) \<and>
     (case category of None \<Rightarrow> True | Some c \<Rightarrow> kn_category k = c) \<and>
     (case keyword of None \<Rightarrow> True | Some w \<Rightarrow> w = [] \<or> like_match (''%'' @ w @ ''%'') (kn_title k) \<or> like_match (''%'' @ w @ ''%'') (kn_body k))"

definition knowledge_visible :: "string option \<Rightarrow> string option \<Rightarrow> string option \<Rightarrow> db \<Rightarrow> knowledge list" where
  "knowledge_visible language category keyword db =
     sort_key (\<lambda>k. (nulls_last (kn_sort k), kn_id k)) (filter (knowledge_matches language category keyword) (rows (t_knowledge db)))"

definition knowledge_all :: "db \<Rightarrow> knowledge list" where
  "knowledge_all db = sort_key (\<lambda>k. (nulls_last (kn_sort k), - kn_id k)) (rows (t_knowledge db))"

definition get_visible_knowledge :: "int \<Rightarrow> db \<Rightarrow> knowledge option" where
  "get_visible_knowledge i db = find (\<lambda>k. kn_id k = i \<and> kn_show k) (rows (t_knowledge db))"

text \<open>\<open>grouped.setdefault(item.category, []).append(item)\<close>.\<close>

definition add_to_group :: "knowledge \<Rightarrow> (string \<times> knowledge list) list \<Rightarrow> (string \<times> knowledge list) list" where
  "add_to_group k groups = AList.update (kn_category k) ((case map_of groups (kn_category k) of None \<Rightarrow> [] | Some ks \<Rightarrow> ks) @ [k]) groups"

definition list_grouped_by_category :: "string option \<Rightarrow> string option \<Rightarrow> db \<Rightarrow> (string \<times> knowledge list) list" where
  "list_grouped_by_category language keyword db = fold add_to_group (knowledge_visible language None keyword db) []"

definition list_languages :: "db \<Rightarrow> string list" where
  "list_languages db = sort (remdups (map kn_language (filter kn_show (rows (t_knowledge db)))))"

definition list_all_knowledge :: "int \<Rightarrow> int \<Rightarrow> db \<Rightarrow> knowledge list \<times> int" where
  "list_all_knowledge pg sz db = (paginate ((pg - 1) * sz) sz (knowledge_all db), repo_count (t_knowledge db))"

definition get_knowledge :: "int \<Rightarrow> db \<Rightarrow> exn + knowledge" where
  "get_knowledge i db = (case knowledge_by_id db i of None \<Rightarrow> Inl (NotFound ''knowledge'') | Some k \<Rightarrow> Inr k)"

record knowledge_create =
  kc_language :: string
  kc_category :: string
  kc_title :: string
  kc_body :: string
  kc_sort :: "int option"
  kc_show :: bool

definition new_knowledge :: "knowledge_create \<Rightarrow> knowledge" where
  "new_knowledge d = \<lparr>kn_id = 0, kn_language = kc_language d, kn_category = kc_category d, kn_title = kc_title d, kn_body = kc_body d,
     kn_sort = kc_sort d, kn_show = kc_show d, kn_created_at = 0, kn_updated_at = 0\<rparr>"

definition create_knowledge :: "int \<Rightarrow> knowledge_create \<Rightarrow> db \<Rightarrow> knowledge \<times> db" where
  "create_knowledge now d db =
     (new_row knowledge_entity now (t_knowledge db) (new_knowledge d),
      db\<lparr>t_knowledge := repo_create knowledge_entity now (t_knowledge db) (new_knowledge d)\<rparr>)"

definition set_knowledge :: "(string \<times> json) list \<Rightarrow> knowledge \<Rightarrow> exn + knowledge" where
  "set_knowledge d k =
     bindE (str_col d ''language'' (kn_language k)) (\<lambda>language.
     bindE (str_col d ''category'' (kn_category k)) (\<lambda>category.
     bindE (str_col d ''title'' (kn_title k)) (\<lambda>title.
     bindE (str_col d ''body'' (kn_body k)) (\<lambda>body.
     bindE (opt_int_col d ''sort'' (kn_sort k)) (\<lambda>sort.
     bindE (bool_col d ''show'' (kn_show k)) (\<lambda>shown.
       Inr (k\<lparr>kn_language := language, kn_category := category, kn_title := title, kn_body := body, kn_sort := sort, kn_show := shown\<rparr>)))))))"

definition update_knowledge :: "int \<Rightarrow> int \<Rightarrow> (string \<times> json) list \<Rightarrow> db \<Rightarrow> exn + knowledge \<times> db" where
  "update_knowledge now i d db =
     bindE (get_knowledge i db) (\<lambda>k. bindE (set_knowledge d k) (\<lambda>k'.
       Inr (k', db\<lparr>t_knowledge := repo_update knowledge_entity now (t_knowledge db) k'\<rparr>)))"

definition delete_knowledge :: "int \<Rightarrow> db \<Rightarrow> exn + db" where
  "delete_knowledge i db = bindE (get_knowledge i db) (\<lambda>k. Inr (db\<lparr>t_knowledge := repo_delete knowledge_entity (t_knowledge db) k\<rparr>))"

section \<open>The body of an article\<close>

definition access_start :: string where "access_start = ''<!--access start-->''"
definition access_end :: string where "access_end = ''<!--access end-->''"

text \<open>The rest after the first occurrence of \<open>w\<close>, if any.\<close>

fun after_first :: "string \<Rightarrow> string \<Rightarrow> string option" where
  "after_first w [] = (if w = [] then Some [] else None)"
| "after_first w (c # cs) = (if starts_with w (c # cs) then Some (drop (length w) (c # cs)) else after_first w cs)"

lemma after_first_shorter: "after_first w s = Some r \<Longrightarrow> length r \<le> length s"
  by (induction s) (auto split: if_splits)

text \<open>\<open>re.sub\<close> of the non-greedy section from a start mark to the next end mark.\<close>

function strip_access :: "string \<Rightarrow> string" where
  "strip_access s =
     (case s of
        [] \<Rightarrow> []
      | c # cs \<Rightarrow>
          if starts_with access_start s then
            (case after_first access_end (drop (length access_start) s) of
               Some r \<Rightarrow> strip_access r
             | None \<Rightarrow> c # strip_access cs)
          else c # strip_access cs)"
  by pat_completeness auto
termination
proof (relation "measure length", simp)
  fix s :: string and c cs r
  assume "s = c # cs" "starts_with access_start s" "after_first access_end (drop (length access_start) s) = Some r"
  then show "(r, s) \<in> measure length"
    using after_first_shorter [of access_end "drop (length access_start) s" r] by (simp add: access_start_def)
qed auto

declare strip_access.simps [simp del]

definition knowledge_context :: "codec \<Rightarrow> (string \<times> json) list \<Rightarrow> (string \<times> json) list" where
  "knowledge_context C ctx =
     (let url = first_text C [json_get ctx ''subscribeUrl'' JNull]; token = first_text C [json_get ctx ''subscribeToken'' JNull];
          name = json_get ctx ''siteName'' JNull
      in dict_update [(''siteName'', if json_truthy name then name else JStr []), (''subscribeUrl'', JStr url),
          (''urlEncodeSubscribeUrl'', JStr (quote_path url)), (''safeBase64SubscribeUrl'', JStr (base64_urlsafe url)),
          (''subscribeToken'', JStr token)] ctx)"

definition render_body :: "codec \<Rightarrow> (string \<Rightarrow> (string \<times> json) list \<Rightarrow> exn + string) \<Rightarrow> string \<Rightarrow> (string \<times> json) list \<Rightarrow> exn + string" where
  "render_body C jinja body ctx =
     jinja (if json_truthy (json_get ctx ''subscribeUrl'' JNull) then body else strip_access body) (knowledge_context C ctx)"

definition get_public_knowledge :: "codec \<Rightarrow> (string \<Rightarrow> (string \<times> json) list \<Rightarrow> exn + string) \<Rightarrow> int \<Rightarrow> (string \<times> json) list \<Rightarrow> db \<Rightarrow> exn + knowledge" where
  "get_public_knowledge C jinja i ctx db =
     (case get_visible_knowledge i db of
        None \<Rightarrow> Inl (NotFound ''knowledge'')
      | Some k \<Rightarrow> bindE (render_body C jinja (kn_body k) ctx) (\<lambda>body. Inr (k\<lparr>kn_body := body\<rparr>)))"

text \<open>The page of an article, for a signed-in user with the subscription link.\<close>

definition knowledge_page :: "sub_env \<Rightarrow> (string \<Rightarrow> (string \<times> json) list \<Rightarrow> exn + string) \<Rightarrow> int \<Rightarrow> string \<Rightarrow> int option \<Rightarrow> int \<Rightarrow> db
    \<Rightarrow> exn + knowledge \<times> db" where
  "knowledge_page B jinja now rnd uid i db =
     (case get_str (sb_settings B) now ''app_name'' ''PyBoard'' db of (name, db1) \<Rightarrow>
        let ctx = [(''siteName'', JStr name)] in
        bindE (case Option.bind uid (user_by_id db1) of
             None \<Rightarrow> Inr (ctx, db1)
           | Some u \<Rightarrow> bindE (build_subscribe_url B now rnd u db1) (\<lambda>(url, db2).
               Inr (ctx @ [(''subscribeUrl'', JStr url), (''subscribeToken'', JStr (us_token u))], db2)))
         (\<lambda>(ctx', db2). bindE (get_public_knowledge (sb_codec B) jinja i ctx' db2) (\<lambda>k. Inr (k, db2))))"

section \<open>Facts\<close>

text \<open>Grouping loses nothing: the groups hold exactly the visible articles, each under its category.\<close>

definition grouped_ok :: "(string \<times> knowledge list) list \<Rightarrow> knowledge list \<Rightarrow> bool" where
  "grouped_ok groups ks \<longleftrightarrow> distinct (map fst groups) \<and>
     (\<forall>c. (case map_of groups c of None \<Rightarrow> [] | Some xs \<Rightarrow> xs) = filter (\<lambda>k. kn_category k = c) ks)"

lemma add_to_group_ok: "grouped_ok groups ks \<Longrightarrow> grouped_ok (add_to_group k groups) (ks @ [k])"
  by (auto simp: grouped_ok_def add_to_group_def update_conv' distinct_update)

lemma groups_are_complete: "grouped_ok (list_grouped_by_category language keyword db) (knowledge_visible language None keyword db)"
proof -
  have "grouped_ok (fold add_to_group xs groups) (ks @ xs)" if "grouped_ok groups ks" for xs groups ks
    using that
  proof (induction xs arbitrary: groups ks)
    case (Cons k xs)
    then show ?case using Cons.IH [OF add_to_group_ok [OF Cons.prems, of k]] by simp
  qed simp
  from this [of "[]" "[]" "knowledge_visible language None keyword db"] show ?thesis
    by (simp add: list_grouped_by_category_def grouped_ok_def)
qed

text \<open>A visitor sees exactly the public parts of a body: \<open>parts\<close> lists them with the member section that follows
  each; a section is any text in which no end mark begins.\<close>

lemma starts_with_append: "starts_with w (w @ r)"
  by (induction w) auto

lemma after_first_append:
  assumes "CHR ''<'' \<notin> set s"
  shows "after_first access_end (s @ access_end @ r) = Some r"
  using assms
proof (induction s)
  case Nil
  have "starts_with access_end (access_end @ r)" by (rule starts_with_append)
  then show ?case by (simp add: access_end_def)
next
  case (Cons c s)
  then have "\<not> starts_with access_end (c # s @ access_end @ r)" by (auto simp: access_end_def)
  then show ?case using Cons by simp
qed

lemma strip_access_plain: "CHR ''<'' \<notin> set p \<Longrightarrow> strip_access (p @ r) = p @ strip_access r"
proof (induction p)
  case (Cons c p)
  then have "\<not> starts_with access_start (c # p @ r)" by (auto simp: access_start_def)
  then show ?case using Cons by (subst append_Cons, subst strip_access.simps) simp
qed simp

lemma strip_access_section:
  assumes "CHR ''<'' \<notin> set s"
  shows "strip_access (access_start @ s @ access_end @ r) = strip_access r"
proof -
  have "starts_with access_start t \<Longrightarrow> after_first access_end (drop (length access_start) t) = Some r \<Longrightarrow> strip_access t = strip_access r" for t
    by (subst strip_access.simps) (cases t, simp_all add: access_start_def)
  from this [of "access_start @ s @ access_end @ r"] show ?thesis using after_first_append [OF assms, of r] starts_with_append by simp
qed

lemma visitor_sees_public_parts:
  assumes "list_all (\<lambda>(p, s). CHR ''<'' \<notin> set p \<and> CHR ''<'' \<notin> set s) parts" and "CHR ''<'' \<notin> set rest"
  shows "strip_access (concat (map (\<lambda>(p, s). p @ access_start @ s @ access_end) parts) @ rest) = concat (map fst parts) @ rest"
  using assms(1)
proof (induction parts)
  case Nil
  have "strip_access [] = []" by (subst strip_access.simps) simp
  then show ?case using strip_access_plain [OF assms(2), of "[]"] by simp
next
  case (Cons q parts)
  then show ?case using strip_access_plain strip_access_section by (cases q) simp
qed

end
