(* ===== verification/UserApi.thy ===== *)
theory UserApi
  imports OrderLifecycle Giftcards Plans Auth Telegram Content Stats
begin

text \<open>
  The endpoints of a signed-in user: \<open>app/controllers/account.py\<close> (without the sessions, which ask for no login), \<open>order.py\<close>, \<open>ticket.py\<close>, \<open>coupon.py\<close>,
  \<open>giftcard.py\<close>, \<open>invite.py\<close>, \<open>plan.py\<close> (the page of a plan), \<open>subscribe.py\<close> (the panel) and \<open>comm.py\<close> (the
  user routes). Per controller there is a datatype of its requests, one constructor per endpoint, and a function
  that serves them for the user whom \<open>get_current_user\<close> found. Parameters that the framework rejects raise
  \<open>ValueError\<close>, a negative limit that only the database rejects the \<open>RuntimeError\<close> of its driver. The fresh random values of a request are arguments.
\<close>

record api_env =
  ap_auth :: auth_service
  ap_orders :: order_env
  ap_sub :: sub_env
  ap_bot :: telegram_env
  ap_jinja :: "string \<Rightarrow> (string \<times> json) list \<Rightarrow> exn + string"
  ap_queue :: queue_config

abbreviation ap_settings :: "api_env \<Rightarrow> setting_service" where
  "ap_settings E \<equiv> au_settings (ap_auth E)"

record api_random =
  rn_uuid :: string
  rn_codes :: "string list"
  rn_text :: string
  rn_number :: int
  rn_account :: account_random

datatype user_reply =
    Done
  | TextReply string
  | Flags bool bool
  | Numbers "int list"
  | Profile user string
  | NewIds string string
  | TrafficLog "stat_user list"
  | OrderList "order list"
  | OrderDetail order "plan option"
  | CheckedOut checkout_result
  | OrderStatus int
  | TicketList "ticket list"
  | TicketShown ticket_detail
  | CouponResult coupon "int option"
  | Redeemed giftcard
  | InviteBook "invite_code list" "int list"
  | InviteMade invite_code
  | CommissionList "commission_log list"
  | PlanShown plan
  | SubscribePanel subscribe_info
  | ServerList "(string \<times> json) list list"
  | Unchanged
  | BotInfo json

definition in_range :: "int \<Rightarrow> int \<Rightarrow> bool" where
  "in_range offset limit \<longleftrightarrow> 0 \<le> offset \<and> 1 \<le> limit \<and> limit \<le> 200"

section \<open>Account\<close>

datatype account_request =
    GetProfile
  | CheckLogin
  | AccountStats
  | UpdateProfile self_update
  | ChangePassword string string
  | ResetSecurity
  | UnbindTelegram
  | TrafficLogs int
  | QuickLoginUrl string

definition temp_token_key :: "string \<Rightarrow> string" where
  "temp_token_key code = ''temp_token:'' @ code"

definition quick_login_url :: "api_env \<Rightarrow> int \<Rightarrow> string \<Rightarrow> string \<Rightarrow> int \<Rightarrow> db \<Rightarrow> string \<times> db" where
  "quick_login_url E now code redirect uid db =
     (case get_str (ap_settings E) now ''app_url'' [] (put_cache now (temp_token_key code) (JInt uid) 60 db) of (url, db1) \<Rightarrow>
        let app_url = rstrip_chars {CHR ''/''} url;
            path = ''/#/login?verify='' @ code @ ''&redirect='' @ (if redirect = [] then ''dashboard'' else redirect)
        in (if app_url = [] then path else app_url @ path, db1))"

fun account_endpoint :: "api_env \<Rightarrow> int \<Rightarrow> api_random \<Rightarrow> user \<Rightarrow> account_request \<Rightarrow> db \<Rightarrow> exn + user_reply \<times> db" where
  "account_endpoint E now rnd u GetProfile db =
     bindE (get_profile (te_md5 (ap_bot E)) (us_id u) db) (\<lambda>(v, avatar). Inr (Profile v avatar, db))"
| "account_endpoint E now rnd u CheckLogin db = Inr (Flags (us_is_admin u) (us_is_staff u), db)"
| "account_endpoint E now rnd u AccountStats db = bindE (get_account_stat (us_id u) db) (\<lambda>ns. Inr (Numbers ns, db))"
| "account_endpoint E now rnd u (UpdateProfile data) db = bindE (update_profile now (us_id u) data db) (\<lambda>db'. Inr (Done, db'))"
| "account_endpoint E now rnd u (ChangePassword old new) db =
     bindE (validate_password new) (\<lambda>new'.
     bindE (change_password (au_passwords (ap_auth E)) (ar_salt (rn_account rnd)) now (us_id u) old new' db) (\<lambda>db'. Inr (Done, db')))"
| "account_endpoint E now rnd u ResetSecurity db =
     bindE (reset_security (rn_account rnd) now (us_id u) db) (\<lambda>((uuid, token), db'). Inr (NewIds uuid token, db'))"
| "account_endpoint E now rnd u UnbindTelegram db = bindE (unbind_telegram now (us_id u) db) (\<lambda>db'. Inr (Done, db'))"
| "account_endpoint E now rnd u (TrafficLogs limit) db =
     guardE (limit < 0) (RuntimeError ''LIMIT must not be negative'') (Inr (TrafficLog (user_traffic_log (us_id u) limit db), db))"
| "account_endpoint E now rnd u (QuickLoginUrl redirect) db =
     (case quick_login_url E now (rn_text rnd) redirect (us_id u) db of (url, db') \<Rightarrow> Inr (TextReply url, db'))"

section \<open>Orders\<close>

datatype order_request =
    ListOrders "int option"
  | GetOrderDetail string
  | CreateOrderFor order_create
  | CheckoutOrder string int
  | CheckOrderStatus string
  | CancelOwnOrder string

fun order_endpoint :: "api_env \<Rightarrow> int \<Rightarrow> api_random \<Rightarrow> user \<Rightarrow> order_request \<Rightarrow> db \<Rightarrow> exn + user_reply \<times> db" where
  "order_endpoint E now rnd u (ListOrders status) db = Inr (OrderList (orders_by_user db (us_id u) status 0 50), db)"
| "order_endpoint E now rnd u (GetOrderDetail trade_no) db =
     bindE (get_order_detail trade_no (us_id u) db) (\<lambda>(r, p). Inr (OrderDetail r p, db))"
| "order_endpoint E now rnd u (CreateOrderFor data) db =
     bindE (create_order (ap_orders E) now (rn_uuid rnd) (us_id u) data db) (\<lambda>(trade_no, db'). Inr (TextReply trade_no, db'))"
| "order_endpoint E now rnd u (CheckoutOrder trade_no meth) db =
     bindE (checkout (ap_orders E) now (us_id u) trade_no meth db) (\<lambda>(res, db'). Inr (CheckedOut res, db'))"
| "order_endpoint E now rnd u (CheckOrderStatus trade_no) db =
     bindE (check_order_status trade_no (us_id u) db) (\<lambda>s. Inr (OrderStatus s, db))"
| "order_endpoint E now rnd u (CancelOwnOrder trade_no) db =
     bindE (cancel_order now trade_no (us_id u) db) (\<lambda>db'. Inr (Done, db'))"

section \<open>Tickets\<close>

datatype ticket_request =
    ListTickets int int
  | GetTicket int
  | CreateTicketFor ticket_create
  | ReplyOwnTicket int string
  | CloseOwnTicket int
  | WithdrawTicket string string

fun ticket_endpoint :: "api_env \<Rightarrow> int \<Rightarrow> user \<Rightarrow> ticket_request \<Rightarrow> db \<Rightarrow> exn + user_reply \<times> db" where
  "ticket_endpoint E now u (ListTickets offset limit) db =
     guardE (\<not> in_range offset limit) ValueError (Inr (TicketList (list_user_tickets (us_id u) offset limit db), db))"
| "ticket_endpoint E now u (GetTicket tid) db = bindE (get_user_ticket (us_id u) tid db) (\<lambda>t. Inr (TicketShown t, db))"
| "ticket_endpoint E now u (CreateTicketFor data) db =
     bindE (create_ticket (ap_settings E) now (us_id u) data db) (\<lambda>(t, db'). Inr (TicketShown t, db'))"
| "ticket_endpoint E now u (ReplyOwnTicket tid message) db =
     bindE (reply_user_ticket now (us_id u) tid message db) (\<lambda>(t, db'). Inr (TicketShown t, db'))"
| "ticket_endpoint E now u (CloseOwnTicket tid) db = bindE (close_user_ticket now (us_id u) tid db) (\<lambda>db'. Inr (Done, db'))"
| "ticket_endpoint E now u (WithdrawTicket meth account) db =
     bindE (create_withdraw_ticket (ap_settings E) now (us_id u) meth account db) (\<lambda>(t, db'). Inr (TicketShown t, db'))"

section \<open>Coupons, gift cards, invitations, plans\<close>

datatype invite_request = FetchInvite | CreateInvite | ListCommissions int int | TransferCommission int

fun invite_endpoint :: "api_env \<Rightarrow> int \<Rightarrow> api_random \<Rightarrow> user \<Rightarrow> invite_request \<Rightarrow> db \<Rightarrow> exn + user_reply \<times> db" where
  "invite_endpoint E now rnd u FetchInvite db =
     bindE (invite_fetch (ap_settings E) now (us_id u) db) (\<lambda>((codes, stats), db'). Inr (InviteBook codes stats, db'))"
| "invite_endpoint E now rnd u CreateInvite db =
     bindE (create_invite_for_user (ap_settings E) now (rn_codes rnd) (us_id u) db) (\<lambda>(c, db'). Inr (InviteMade c, db'))"
| "invite_endpoint E now rnd u (ListCommissions offset limit) db =
     guardE (\<not> in_range offset limit) ValueError (Inr (CommissionList (commission_logs_by_inviter db (us_id u) offset limit), db))"
| "invite_endpoint E now rnd u (TransferCommission amount) db =
     bindE (transfer_commission now (rn_uuid rnd) (us_id u) amount db) (\<lambda>db'. Inr (Done, db'))"

definition check_coupon_endpoint :: "api_env \<Rightarrow> int \<Rightarrow> user \<Rightarrow> coupon_check \<Rightarrow> db \<Rightarrow> exn + user_reply \<times> db" where
  "check_coupon_endpoint E now u data db =
     bindE (check_coupon (sv_codec (ap_settings E)) now (us_id u) data db) (\<lambda>(c, d). Inr (CouponResult c d, db))"

definition redeem_endpoint :: "api_env \<Rightarrow> int \<Rightarrow> user \<Rightarrow> string \<Rightarrow> db \<Rightarrow> exn + user_reply \<times> db" where
  "redeem_endpoint E now u c db =
     bindE (redeem (sv_codec (ap_settings E)) now (us_id u) c db) (\<lambda>(card, db'). Inr (Redeemed card, db'))"

definition plan_endpoint :: "int \<Rightarrow> user \<Rightarrow> int \<Rightarrow> db \<Rightarrow> exn + user_reply \<times> db" where
  "plan_endpoint now u pid db = bindE (get_plan_for_user now pid (us_plan_id u) db) (\<lambda>p. Inr (PlanShown p, db))"

section \<open>Subscription and site\<close>

definition subscribe_info_endpoint :: "api_env \<Rightarrow> int \<Rightarrow> api_random \<Rightarrow> user \<Rightarrow> db \<Rightarrow> exn + user_reply \<times> db" where
  "subscribe_info_endpoint E now rnd u db =
     bindE (get_user_subscribe_info (ap_sub E) now (rn_text rnd) (us_id u) db) (\<lambda>(info, db'). Inr (SubscribePanel info, db'))"

text \<open>\<open>etag\<close> is the digest of the cache keys of the listed nodes, \<open>seen\<close> the header \<open>If-None-Match\<close>.\<close>

definition user_servers_endpoint :: "api_env \<Rightarrow> (json list \<Rightarrow> string) \<Rightarrow> int \<Rightarrow> string \<Rightarrow> user \<Rightarrow> db \<Rightarrow> exn + user_reply \<times> db" where
  "user_servers_endpoint E etag now seen u db =
     bindE (case user_by_id db (us_id u) of None \<Rightarrow> Inr ([], db) | Some v \<Rightarrow> get_available_servers (ap_sub E) now v db) (\<lambda>(servers, db').
       Inr (if lstrip_chars {CHR 0x22} (rstrip_chars {CHR 0x22} seen) = etag (map (\<lambda>s. json_get s ''cache_key'' JNull) servers) then Unchanged else ServerList servers, db'))"

definition stripe_key_endpoint :: "api_env \<Rightarrow> int \<Rightarrow> db \<Rightarrow> exn + user_reply \<times> db" where
  "stripe_key_endpoint E pid db =
     bindE (get_payment pid db) (\<lambda>p.
     guardE (pm_payment p \<noteq> ''StripeCredit'') (NotFound ''payment'') (
       let keys = map (\<lambda>k. json_get (pm_config p) k JNull) [''stripe_pk_live'', ''stripe_pk'', ''public_key''] in
       guardE (\<not> list_ex json_truthy keys) (BadRequest ''no public key'') (Inr (TextReply (first_text (sv_codec (ap_settings E)) keys), db))))"

definition bot_info_endpoint :: "api_env \<Rightarrow> int \<Rightarrow> db \<Rightarrow> exn + user_reply \<times> db" where
  "bot_info_endpoint E now db = bindE (get_bot_info (ap_bot E) now db) (\<lambda>(name, db'). Inr (BotInfo name, db'))"

section \<open>All of them behind the login\<close>

datatype user_request =
    AccountReq account_request
  | OrderReq order_request
  | TicketReq ticket_request
  | InviteReq invite_request
  | CheckCoupon coupon_check
  | RedeemGiftcard string
  | GetPlanPage int
  | SubscribeInfo
  | UserServers string
  | StripeKey int
  | TelegramBotInfo

fun signed_in_endpoint :: "api_env \<Rightarrow> (json list \<Rightarrow> string) \<Rightarrow> int \<Rightarrow> api_random \<Rightarrow> user \<Rightarrow> user_request \<Rightarrow> db \<Rightarrow> exn + user_reply \<times> db" where
  "signed_in_endpoint E etag now rnd u (AccountReq req) db = account_endpoint E now rnd u req db"
| "signed_in_endpoint E etag now rnd u (OrderReq req) db = order_endpoint E now rnd u req db"
| "signed_in_endpoint E etag now rnd u (TicketReq req) db = ticket_endpoint E now u req db"
| "signed_in_endpoint E etag now rnd u (InviteReq req) db = invite_endpoint E now rnd u req db"
| "signed_in_endpoint E etag now rnd u (CheckCoupon data) db = check_coupon_endpoint E now u data db"
| "signed_in_endpoint E etag now rnd u (RedeemGiftcard c) db = redeem_endpoint E now u c db"
| "signed_in_endpoint E etag now rnd u (GetPlanPage pid) db = plan_endpoint now u pid db"
| "signed_in_endpoint E etag now rnd u SubscribeInfo db = subscribe_info_endpoint E now rnd u db"
| "signed_in_endpoint E etag now rnd u (UserServers seen) db = user_servers_endpoint E etag now seen u db"
| "signed_in_endpoint E etag now rnd u (StripeKey pid) db = stripe_key_endpoint E pid db"
| "signed_in_endpoint E etag now rnd u TelegramBotInfo db = bot_info_endpoint E now db"

text \<open>A request with its credentials.\<close>

definition user_api :: "api_env \<Rightarrow> (json list \<Rightarrow> string) \<Rightarrow> int \<Rightarrow> api_random \<Rightarrow> (string \<times> string) option \<Rightarrow> user_request \<Rightarrow> db
    \<Rightarrow> exn + user_reply \<times> db" where
  "user_api E etag now rnd cred req db =
     bindE (get_bearer_token cred) (\<lambda>token.
     bindE (get_current_user (ap_auth E) now token db) (\<lambda>u. signed_in_endpoint E etag now rnd u req db))"

end
