(* ===== verification/UserIsolation.thy ===== *)
theory UserIsolation
  imports UserApi
begin

text \<open>
  A signed-in user is alone with the own data: whatever request is served, the accounts, orders, tickets with
  their messages, invite codes and redemptions of everybody else stay as they are, and so does the rest of the
  site. The only trace another account can see is commission.
\<close>

section \<open>What the others have\<close>

definition site_view :: "db \<Rightarrow> db" where
  "site_view db = db\<lparr>t_users := empty_table, t_orders := empty_table, t_coupons := empty_table, t_giftcards := empty_table,
     t_redemptions := empty_table, t_commission_logs := empty_table, t_invite_codes := empty_table, t_tickets := empty_table,
     t_ticket_messages := empty_table, t_log_events := empty_table, t_cache := []\<rparr>"

definition threads_of_others :: "int \<Rightarrow> db \<Rightarrow> (ticket \<times> ticket_message list) list" where
  "threads_of_others uid db = map (\<lambda>t. (t, messages_by_ticket db (tk_id t))) (filter (\<lambda>t. tk_user_id t \<noteq> uid) (rows (t_tickets db)))"

definition others_view :: "int \<Rightarrow> db \<Rightarrow> user list \<times> order list \<times> (ticket \<times> ticket_message list) list \<times> invite_code list \<times>
    giftcard_redemption list \<times> db" where
  "others_view uid db =
     (map user_core (filter (\<lambda>u. us_id u \<noteq> uid) (rows (t_users db))),
      map order_core (filter (\<lambda>r. od_user_id r \<noteq> uid) (rows (t_orders db))),
      threads_of_others uid db,
      filter (\<lambda>c. iv_user_id c \<noteq> uid) (rows (t_invite_codes db)),
      filter (\<lambda>r. gr_user_id r \<noteq> uid) (rows (t_redemptions db)),
      site_view db)"

definition api_ok :: "db \<Rightarrow> bool" where
  "api_ok db \<longleftrightarrow> wf_accounts db \<and> wf_table ticket_entity (t_tickets db)"

text \<open>Who is administrator and who is staff.\<close>

definition role :: "user \<Rightarrow> int \<times> bool \<times> bool" where
  "role u = (us_id u, us_is_admin u, us_is_staff u)"

definition roles :: "db \<Rightarrow> (int \<times> bool \<times> bool) list" where
  "roles db = map role (rows (t_users db))"

definition user_step :: "int \<Rightarrow> db \<Rightarrow> db \<Rightarrow> bool" where
  "user_step uid db db' \<longleftrightarrow> (api_ok db \<longrightarrow> api_ok db' \<and> others_view uid db' = others_view uid db \<and> roles db' = roles db)"

lemma user_step_refl [simp]: "user_step uid db db"
  by (simp add: user_step_def)

lemma user_step_trans: "user_step uid a b \<Longrightarrow> user_step uid b c \<Longrightarrow> user_step uid a c"
  by (simp add: user_step_def)

text \<open>Changes that nobody's view shows.\<close>

lemma step_hidden [simp]:
  "user_step uid db (db\<lparr>t_cache := c\<rparr>)" "user_step uid db (db\<lparr>t_coupons := t\<rparr>)" "user_step uid db (db\<lparr>t_giftcards := g\<rparr>)"
  "user_step uid db (db\<lparr>t_cache := c, t_coupons := t\<rparr>)" "user_step uid db (db\<lparr>t_log_events := l\<rparr>)"
  by (simp_all add: user_step_def api_ok_def wf_accounts_def others_view_def roles_def threads_of_others_def messages_by_ticket_def site_view_def)

lemma step_log [simp]:
  "user_step uid db (create_log_event now e db)" "user_step uid db (log_order_event now r ev msg aty aid data db)"
  by (simp_all add: create_log_event_def log_order_event_def)

lemma step_cache: "\<exists>c. db' = db\<lparr>t_cache := c\<rparr> \<Longrightarrow> user_step uid db db'"
  by auto

section \<open>Changes to the own rows\<close>

lemma kept_update:
  assumes "\<And>x. x \<in> set (rows t) \<Longrightarrow> e_id E x = e_id E r \<Longrightarrow> \<not> P x \<and> \<not> P (stored E now x r)"
  shows "filter P (rows (repo_update E now t r)) = filter P (rows t)"
proof -
  have "filter P (map (\<lambda>x. if e_id E x = e_id E r then stored E now x r else x) xs) = filter P xs" if "set xs \<subseteq> set (rows t)" for xs
    using that assms by (induction xs) auto
  then show ?thesis by (simp add: rows_repo_update)
qed

lemma role_stored: "role (stored user_entity now x u) = role u"
  by (simp add: role_def stored_def user_entity_def)

lemma step_put_user:
  assumes u: "us_id u = uid" and v: "user_by_id db uid = Some v" "role u = role v"
  shows "user_step uid db (put_user now db u)"
proof -
  have "map role (rows (repo_update user_entity now (t_users db) u)) = map role (rows (t_users db))" if "wf_table user_entity (t_users db)"
    using that u v by (intro map_col_update [of role user_entity]) (simp_all add: role_stored wf_table_def user_by_id_def user_entity_id)
  moreover
  have "filter (\<lambda>u. us_id u \<noteq> uid) (rows (repo_update user_entity now (t_users db) u)) = filter (\<lambda>u. us_id u \<noteq> uid) (rows (t_users db))"
    using u by (intro kept_update) auto
  ultimately show ?thesis
    by (simp add: user_step_def api_ok_def put_user_def wf_accounts_def users.wf_update others_view_def roles_def threads_of_others_def
        messages_by_ticket_def site_view_def)
qed

lemma order_id: "e_id order_entity r = od_id r"
  by (simp add: order_entity_def)

lemma step_put_order:
  assumes "od_user_id r = uid" "x \<in> set (rows (t_orders db))" "od_id r = od_id x" "od_user_id x = uid"
  shows "user_step uid db (put_order now db r)"
proof -
  have "filter (\<lambda>r. od_user_id r \<noteq> uid) (rows (repo_update order_entity now (t_orders db) r)) = filter (\<lambda>r. od_user_id r \<noteq> uid) (rows (t_orders db))"
    if "wf_table order_entity (t_orders db)"
    using assms wf_same_row [OF that] by (intro kept_update) (auto simp: order_id)
  then show ?thesis
    by (simp add: user_step_def api_ok_def put_order_def wf_accounts_def orders.wf_update others_view_def roles_def threads_of_others_def
        messages_by_ticket_def site_view_def)
qed

lemma step_insert_order: "insert_order now db r = Inr (x, db') \<Longrightarrow> od_user_id r = uid \<Longrightarrow> user_step uid db db'"
  by (auto simp: insert_order_def result_simps user_step_def api_ok_def wf_accounts_def orders.wf_create others_view_def roles_def
      threads_of_others_def messages_by_ticket_def site_view_def)

lemma step_insert_invite: "iv_user_id c = uid \<Longrightarrow> user_step uid db (snd (insert_invite now db c))"
  by (simp add: insert_invite_def user_step_def api_ok_def wf_accounts_def others_view_def roles_def threads_of_others_def
      messages_by_ticket_def site_view_def new_row_def invite_code_entity_def)

lemma step_redemption:
  "gr_user_id r = uid \<Longrightarrow> user_step uid db (db\<lparr>t_redemptions := repo_create redemption_entity now (t_redemptions db) r\<rparr>)"
  by (simp add: user_step_def api_ok_def wf_accounts_def others_view_def roles_def threads_of_others_def messages_by_ticket_def site_view_def)

section \<open>Tickets\<close>

lemma ticket_id: "e_id ticket_entity t = tk_id t"
  by (simp add: ticket_entity_def)

lemma step_message:
  assumes "\<And>t. t \<in> set (rows (t_tickets db)) \<Longrightarrow> tk_id t = tid \<Longrightarrow> tk_user_id t = uid"
  shows "user_step uid db (insert_message now uid tid message db)"
proof -
  have "messages_by_ticket (insert_message now uid tid message db) i = messages_by_ticket db i" if "i \<noteq> tid" for i
    using that by (simp add: messages_by_ticket_def insert_message_def)
  moreover have "t_tickets (insert_message now uid tid message db) = t_tickets db" by (simp add: insert_message_def)
  ultimately have "threads_of_others uid (insert_message now uid tid message db) = threads_of_others uid db"
    using assms by (auto simp: threads_of_others_def intro!: map_cong)
  then show ?thesis
    by (simp add: user_step_def api_ok_def wf_accounts_def others_view_def roles_def site_view_def insert_message_def)
qed

lemma step_new_ticket:
  assumes "tk_user_id t = uid"
  shows "user_step uid db (db\<lparr>t_tickets := repo_create ticket_entity now (t_tickets db) t\<rparr>)"
  using assms by (simp add: user_step_def api_ok_def wf_accounts_def others_view_def roles_def threads_of_others_def messages_by_ticket_def
      site_view_def tickets.wf_create)

lemma step_put_ticket:
  assumes "tk_user_id t' = uid" "ticket_by_id db (tk_id t') = Some t" "tk_user_id t = uid"
  shows "user_step uid db (put_ticket now db t')"
proof -
  from ticket_by_idD [OF assms(2)] have t: "t \<in> set (rows (t_tickets db))" "tk_id t = tk_id t'" by auto
  have kept: "filter (\<lambda>t. tk_user_id t \<noteq> uid) (rows (repo_update ticket_entity now (t_tickets db) t')) = filter (\<lambda>t. tk_user_id t \<noteq> uid) (rows (t_tickets db))"
    if wf: "wf_table ticket_entity (t_tickets db)"
  proof (rule kept_update)
    fix x assume "x \<in> set (rows (t_tickets db))" "e_id ticket_entity x = e_id ticket_entity t'"
    then have "x = t" using wf_same_row [OF wf _ t(1)] t(2) by (simp add: ticket_id)
    then show "\<not> tk_user_id x \<noteq> uid \<and> \<not> tk_user_id (stored ticket_entity now x t') \<noteq> uid" using assms by simp
  qed
  have same: "messages_by_ticket (put_ticket now db t') = messages_by_ticket db" by (simp add: put_ticket_def messages_by_ticket_def fun_eq_iff)
  have "threads_of_others uid (put_ticket now db t') = threads_of_others uid db" if "wf_table ticket_entity (t_tickets db)"
    unfolding threads_of_others_def same using kept [OF that] by (simp add: put_ticket_def)
  then show ?thesis
    by (simp add: user_step_def api_ok_def put_ticket_def wf_accounts_def tickets.wf_update others_view_def roles_def site_view_def)
qed

section \<open>Payment of an order\<close>

lemma cores_filtered:
  assumes "map f xs = map f ys" "\<And>x. Q (f x) = P x"
  shows "map f (filter P xs) = map f (filter P ys)"
proof -
  have "map f (filter P zs) = filter Q (map f zs)" for zs using assms(2) by (simp add: filter_map comp_def)
  then show ?thesis using assms(1) by metis
qed

lemma step_commission:
  assumes "commission_frame db db'"
  shows "user_step uid db db'"
proof -
  have rest: "db'\<lparr>t_orders := t_orders db, t_users := t_users db, t_cache := t_cache db,
        t_commission_logs := t_commission_logs db, t_log_events := t_log_events db\<rparr> = db"
    and cores: "map order_core (rows (t_orders db')) = map order_core (rows (t_orders db))"
      "map user_core (rows (t_users db')) = map user_core (rows (t_users db))"
    using assms by (auto simp: commission_frame_def)
  have same: "f db' = f db" if "\<And>d a b c e g. f (d\<lparr>t_orders := a, t_users := b, t_cache := c, t_commission_logs := e, t_log_events := g\<rparr>) = f d"
    for f :: "db \<Rightarrow> 'a" using arg_cong [OF rest, of f] that by simp
  have "us_id (user_core u) = us_id u" "od_user_id (order_core r) = od_user_id r" for u r by (simp_all add: user_core_def order_core_def)
  then have "map user_core (filter (\<lambda>u. us_id u \<noteq> uid) (rows (t_users db'))) = map user_core (filter (\<lambda>u. us_id u \<noteq> uid) (rows (t_users db)))"
    "map order_core (filter (\<lambda>r. od_user_id r \<noteq> uid) (rows (t_orders db'))) = map order_core (filter (\<lambda>r. od_user_id r \<noteq> uid) (rows (t_orders db)))"
    using cores_filtered [OF cores(2), of "\<lambda>u. us_id u \<noteq> uid" "\<lambda>u. us_id u \<noteq> uid"]
      cores_filtered [OF cores(1), of "\<lambda>r. od_user_id r \<noteq> uid" "\<lambda>r. od_user_id r \<noteq> uid"] by simp_all
  moreover have "threads_of_others uid db' = threads_of_others uid db" "t_invite_codes db' = t_invite_codes db"
    "t_redemptions db' = t_redemptions db" "t_tickets db' = t_tickets db" "site_view db' = site_view db"
    by (rule same; simp add: threads_of_others_def messages_by_ticket_def site_view_def)+
  moreover have "role (user_core u) = role u" for u by (simp add: role_def user_core_def)
  then have "map role us = map role (map user_core us)" for us by simp
  then have "roles db' = roles db" unfolding roles_def using cores(2) by metis
  ultimately show ?thesis using wf_accounts_frame [OF assms] by (simp add: user_step_def api_ok_def others_view_def)
qed

lemma step_paid:
  assumes "process_paid_order E now oid cb aty aid db = Inr db'" "order_by_id db oid = Some r" "od_user_id r = uid"
  shows "user_step uid db db'"
proof (cases "wf_accounts db")
  case False
  then show ?thesis by (simp add: user_step_def api_ok_def)
next
  case True
  from process_shape [OF assms(1) True] assms(2) consider "db' = db"
    | u u' c t where "user_by_id db (od_user_id r) = Some u" "account_after r u u'" "commission_frame (paid_db_of now cb r u' c t db) db'" by auto
  then show ?thesis
  proof cases
    case (2 u u' c t)
    have u': "us_id u' = uid" "role u' = role u" using 2(1,2) assms(3) user_by_idD by (fastforce simp: account_after_def same_account_def role_def)+
    from order_by_idD [OF assms(2)] have r: "r \<in> set (rows (t_orders db))" "od_id r = oid" by auto
    define d1 where "d1 = put_order now db (started cb r)"
    have s1: "user_step uid db d1" unfolding d1_def by (rule step_put_order [OF _ r(1)]) (simp_all add: assms(3))
    define d2 where "d2 = put_user now (d1\<lparr>t_cache := c, t_coupons := t\<rparr>) u'"
    have "user_by_id (d1\<lparr>t_cache := c, t_coupons := t\<rparr>) uid = Some u"
      using 2(1) assms(3) by (simp add: d1_def put_order_def user_by_id_def)
    then have s2: "user_step uid d1 d2"
      unfolding d2_def by (rule user_step_trans [OF step_hidden(4) step_put_user [OF u'(1) _ u'(2)]])
    have "\<exists>x. order_by_id d1 oid = Some (stored order_entity now x (started cb r))"
      using assms(2) r(2) by (auto simp: d1_def put_order_def order_by_id_def orders.get_update order_id)
    then obtain x where "order_by_id d2 oid = Some (stored order_entity now x (started cb r))"
      by (auto simp: d2_def order_by_id_def put_user_def)
    from order_by_idD [OF this] have "stored order_entity now x (started cb r) \<in> set (rows (t_orders d2))" by simp
    then have s3: "user_step uid d2 (put_order now d2 (completed now cb r))"
      by (rule step_put_order [rotated]) (simp_all add: assms(3))
    have "paid_db_of now cb r u' c t db = put_order now d2 (completed now cb r)" by (simp add: paid_db_of_def d1_def d2_def)
    then show ?thesis using 2(3) s1 s2 s3 step_commission user_step_trans by metis
  qed simp
qed

section \<open>The operations\<close>

lemma step_insert_user_order:
  assumes "create_order E now uuid uid data db = Inr (tn, db')"
  shows "user_step uid db db'"
proof -
  from assms obtain u where u: "user_by_id db uid = Some u"
    and made: "(if oc_plan_id data = 0 then create_deposit_order now uuid u data db else create_plan_order E now uuid u data db) = Inr (tn, db')"
    by (auto simp: create_order_def result_simps split: option.splits)
  have id: "us_id u = uid" using user_by_idD [OF u] by simp
  show ?thesis
  proof (cases "oc_plan_id data = 0")
    case True
    with made obtain r x d ev msg aty aid dt where "insert_order now db r = Inr (x, d)" "od_user_id r = uid"
      "db' = log_order_event now x ev msg aty aid dt d"
      by (auto simp: create_deposit_order_def result_simps id split: option.splits)
    then show ?thesis using step_insert_order step_log(2) user_step_trans by metis
  next
    case False
    with made obtain p price r1 x d where r1: "if Orders.text_given (oc_coupon_code data)
        then apply_to_order (oe_codec E) now db (set_if (oc_coupon_code data) []) (draft_order now uuid u p data price) = Inr r1
        else r1 = draft_order now uuid u p data price"
      and ins: "insert_order now db (r1\<lparr>od_total_amount := snd (use_balance (us_balance u) (od_total_amount r1)),
          od_balance_amount := fst (use_balance (us_balance u) (od_total_amount r1))\<rparr>) = Inr (x, d)"
      and db': "db' = log_order_event now x ''order.created'' ''order created'' ''user'' (Some (us_id u)) (plan_order_data x) d"
      using create_plan_shape [of E now uuid u data db tn db'] by auto
    have "od_user_id r1 = uid" using r1 id by (auto dest!: apply_to_orderD split: if_splits)
    then show ?thesis unfolding db' by (intro user_step_trans [OF step_insert_order [OF ins] step_log(2)]) simp
  qed
qed

lemma pending_own: "pending_by_trade_no db tn uid = Some r \<Longrightarrow> od_user_id r = uid \<and> r \<in> set (rows (t_orders db)) \<and> od_status r = 0"
  using pending_by_trade_noD [of db tn uid r] by auto

lemma step_checkout:
  assumes "checkout E now uid tn meth db = Inr (res, db')"
  shows "user_step uid db db'"
proof -
  from assms obtain r where r: "pending_by_trade_no db tn uid = Some r" by (auto simp: checkout_def split: option.splits)
  note own = pending_own [OF r]
  show ?thesis
  proof (cases "od_total_amount r \<le> 0")
    case True
    with assms r obtain ev msg aty aid data cb where
      p: "process_paid_order E now (od_id r) cb ''user'' (Some uid) (log_order_event now r ev msg aty aid data db) = Inr db'"
      by (auto simp: checkout_def result_simps)
    show ?thesis
    proof (cases "api_ok db")
      case ok: True
      then have "order_by_id (log_order_event now r ev msg aty aid data db) (od_id r) = Some r"
        using orders.get_unique [of "t_orders db" r] own by (simp add: api_ok_def wf_accounts_def order_by_id_def order_id)
      from user_step_trans [OF step_log(2) step_paid [OF p this]] own show ?thesis by blast
    qed (simp add: user_step_def)
  next
    case False
    with assms r obtain pm where pm: "enabled_payment_by_id db meth = Some pm" by (auto simp: checkout_def split: option.splits)
    define r1 where "r1 = r\<lparr>od_handling_amount := (if 0 < handling_fee pm (od_total_amount r) then Some (handling_fee pm (od_total_amount r))
      else od_handling_amount r), od_payment_id := Some meth\<rparr>"
    from assms r False pm have "\<exists>d ev msg aty aid data. d = snd (get_str (oe_settings E) now ''app_url'' [] (put_order now db r1)) \<and>
        db' = log_order_event now r1 ev msg aty aid data d"
      by (auto simp: checkout_def result_simps Let_def r1_def [symmetric] split_beta simp del: if_split) blast+
    then obtain c ev msg aty aid data where
      db': "db' = log_order_event now r1 ev msg aty aid data ((put_order now db r1)\<lparr>t_cache := c\<rparr>)"
      using get_str_state [of "oe_settings E" now "''app_url''" "[]" "put_order now db r1"] by metis
    have "user_step uid db (put_order now db r1)" using own by (intro step_put_order) (auto simp: r1_def)
    then show ?thesis unfolding db' by (rule user_step_trans [OF _ user_step_trans [OF step_hidden(1) step_log(2)]])
  qed
qed

lemma step_cancel:
  assumes "cancel_order now tn uid db = Inr db'"
  shows "user_step uid db db'"
proof -
  from assms obtain r ev msg aty aid dt where r: "order_by_trade_no db tn = Some r" "od_user_id r = uid"
    and db': "db' = log_order_event now (r\<lparr>od_status := 2\<rparr>) ev msg aty aid dt (put_order now db (r\<lparr>od_status := 2\<rparr>))"
    by (auto simp: cancel_order_def own_order_def cancel_row_def result_simps Let_def split: option.splits)
  have "user_step uid db (put_order now db (r\<lparr>od_status := 2\<rparr>))"
    using r order_by_trade_noD [OF r(1)] by (intro step_put_order) auto
  then show ?thesis unfolding db' by (rule user_step_trans [OF _ step_log(2)])
qed

lemma step_create_ticket:
  assumes "create_ticket S now uid data db = Inr (t, db')"
  shows "user_step uid db db'"
proof -
  from assms obtain n d1 where g: "get_int S now ''ticket_status'' 0 db = Inr (n, d1)"
    by (auto simp: create_ticket_def result_simps simp del: split_paired_Ex)
  define row where "row = \<lparr>tk_id = 0, tk_user_id = uid, tk_subject = strip (tc_subject data),
     tk_level = tc_level data, tk_status = 0, tk_reply_status = 0, tk_created_at = 0, tk_updated_at = 0\<rparr>"
  define d2 where "d2 = d1\<lparr>t_tickets := repo_create ticket_entity now (t_tickets d1) row\<rparr>"
  have db': "db' = insert_message now uid (next_id (t_tickets d1)) (strip (tc_message data)) d2"
    using assms g by (auto simp: create_ticket_def result_simps Let_def insert_ticket_def d2_def row_def)
  have s1: "user_step uid db d1" using get_int_state [OF g] by (rule step_cache)
  have s2: "user_step uid d1 d2" unfolding d2_def by (rule step_new_ticket) (simp add: row_def)
  have s3: "user_step uid d2 db'" if "api_ok d1"
    unfolding db'
  proof (rule step_message)
    fix t assume "t \<in> set (rows (t_tickets d2))" "tk_id t = next_id (t_tickets d1)"
    moreover have "tk_id x < next_id (t_tickets d1)" if "x \<in> set (rows (t_tickets d1))" for x
      using that \<open>api_ok d1\<close> by (auto simp: api_ok_def wf_table_def list_all_iff ticket_id)
    ultimately show "tk_user_id t = uid" by (fastforce simp: d2_def row_def)
  qed
  show ?thesis using s1 s2 s3 by (auto simp: user_step_def)
qed

lemma step_withdraw:
  assumes "create_withdraw_ticket S now uid meth account db = Inr (t, db')"
  shows "user_step uid db db'"
proof -
  from assms obtain closed d1 methods d2 where g1: "get_int S now ''withdraw_close_enable'' 0 db = Inr (closed, d1)"
    and g2: "get_json S now ''commission_withdraw_method'' (JArr [JStr ''alipay'', JStr ''usdt'', JStr ''bank'']) d1 = Inr (methods, d2)"
    by (auto simp: create_withdraw_ticket_def result_simps)
  with assms obtain u where "user_by_id d2 uid = Some u"
    by (cases "user_by_id d2 uid") (auto simp: create_withdraw_ticket_def result_simps)
  with assms g1 g2 obtain l d3 data where g3: "get_int S now ''commission_withdraw_limit'' 100 d2 = Inr (l, d3)"
    and c: "create_ticket S now uid data d3 = Inr (t, db')"
    by (auto simp: create_withdraw_ticket_def result_simps)
  note cached = step_cache [OF get_int_state [OF g1]] step_cache [OF get_json_state [OF g2]] step_cache [OF get_int_state [OF g3]]
  show ?thesis
    by (rule user_step_trans [OF cached(1) user_step_trans [OF cached(2) user_step_trans [OF cached(3) step_create_ticket [OF c]]]])
qed

lemma step_reply:
  assumes "reply_user_ticket now uid tid message db = Inr (t, db')"
  shows "user_step uid db db'"
proof -
  from assms obtain r msg t' where r: "own_ticket uid tid db = Inr r"
    and t': "t' = r\<lparr>tk_reply_status := (if uid = tk_user_id r then 0 else 1)\<rparr>"
    and db': "db' = put_ticket now (insert_message now uid (tk_id r) msg db) t'"
    by (auto simp: reply_user_ticket_def reply_to_def result_simps Let_def)
  from own_ticketD [OF r] have own: "ticket_by_id db (tk_id r) = Some r" "tk_user_id r = uid" using ticket_by_idD by auto
  have s1: "user_step uid db (insert_message now uid (tk_id r) msg db)" if ok: "api_ok db"
  proof (rule step_message)
    fix t assume "t \<in> set (rows (t_tickets db))" "tk_id t = tk_id r"
    then have "t = r" using wf_same_row [of ticket_entity "t_tickets db" t r] ok ticket_by_idD [OF own(1)]
      by (simp add: api_ok_def ticket_id)
    then show "tk_user_id t = uid" using own(2) by simp
  qed
  have "ticket_by_id (insert_message now uid (tk_id r) msg db) (tk_id t') = Some r"
    using own(1) by (simp add: t' insert_message_def ticket_by_id_def)
  then have "user_step uid (insert_message now uid (tk_id r) msg db) db'"
    unfolding db' by (rule step_put_ticket [rotated]) (simp_all add: t' own(2))
  with s1 show ?thesis by (auto simp: user_step_def)
qed

lemma step_close:
  assumes "close_user_ticket now uid tid db = Inr db'"
  shows "user_step uid db db'"
proof -
  from assms obtain r where r: "own_ticket uid tid db = Inr r" and db': "db' = put_ticket now db (r\<lparr>tk_status := 1\<rparr>)"
    by (auto simp: close_user_ticket_def result_simps)
  from own_ticketD [OF r] have "ticket_by_id db (tk_id r) = Some r" "tk_user_id r = uid" using ticket_by_idD by auto
  then show ?thesis unfolding db' by (intro step_put_ticket [of _ _ _ r]) simp_all
qed

lemma giftcard_effect_role: "giftcard_effect now c u db = Inr u' \<Longrightarrow> role u' = role u"
  by (auto simp: giftcard_effect_def apply_plan_giftcard_def role_def result_simps Let_def split: if_splits option.splits)

lemma step_redeem:
  assumes "redeem C now uid code db = Inr (c', db')"
  shows "user_step uid db db'"
proof -
  from redeem_shape [OF assms] obtain c u u' e where u: "user_by_id db uid = Some u" and eff: "giftcard_effect now c u db = Inr u'"
    and db': "db' = create_log_event now e ((put_giftcard now (put_user now db u') c')
        \<lparr>t_redemptions := repo_create redemption_entity now (t_redemptions db) (redemption_of c uid)\<rparr>)" by blast
  have "us_id u' = uid" using giftcard_effect_keeps [OF eff] user_by_idD [OF u] by simp
  then have s1: "user_step uid db (put_user now db u')" using u giftcard_effect_role [OF eff] by (rule step_put_user)
  define d where "d = put_giftcard now (put_user now db u') c'"
  have s2: "user_step uid (put_user now db u') d" by (simp add: d_def put_giftcard_def)
  have "t_redemptions d = t_redemptions db" by (simp add: d_def put_giftcard_def put_user_def)
  then have s3: "user_step uid d (d\<lparr>t_redemptions := repo_create redemption_entity now (t_redemptions db) (redemption_of c uid)\<rparr>)"
    using step_redemption [of "redemption_of c uid" uid d now] by (simp add: redemption_of_def)
  show ?thesis unfolding db' d_def [symmetric] by (rule user_step_trans [OF s1 user_step_trans [OF s2 user_step_trans [OF s3 step_log(1)]]])
qed

lemma step_invite:
  assumes "create_invite_for_user S now rnd uid db = Inr (c, db')"
  shows "user_step uid db db'"
proof -
  from assms obtain n d1 x where g: "get_int S now ''invite_gen_limit'' 5 db = Inr (n, d1)"
    and x: "iv_user_id x = uid" and db': "db' = snd (insert_invite now d1 x)"
    by (auto simp: create_invite_for_user_def result_simps simp del: split_paired_Ex) (metis invite_code.select_convs(2) invite_code.surjective invite_code.update_convs(2,3) snd_conv)
  show ?thesis unfolding db' by (rule user_step_trans [OF step_cache [OF get_int_state [OF g]] step_insert_invite [OF x]])
qed

lemma step_transfer:
  assumes "transfer_commission now uuid uid amount db = Inr db'"
  shows "user_step uid db db'"
proof -
  from assms obtain u x where u: "user_by_id db uid = Some u" and ins: "insert_order now (put_user now db (u\<lparr>us_commission_balance := us_commission_balance u - amount,
      us_balance := us_balance u + amount\<rparr>)) (transfer_order now uuid u uid amount) = Inr (x, db')"
    by (auto simp: transfer_commission_def result_simps Let_def split: option.splits)
  have "us_id u = uid" using user_by_idD [OF u] by simp
  then show ?thesis by (intro user_step_trans [OF step_put_user [OF _ u] step_insert_order [OF ins]]) (simp_all add: transfer_order_def role_def)
qed

text \<open>The subscription panel writes to the cache only.\<close>

lemma one_time_token_state: "\<exists>c. snd (one_time_token C now rnd tok db) = db\<lparr>t_cache := c\<rparr>"
  by (auto simp: one_time_token_def Let_def split: prod.split)

lemma same_cache: "\<exists>c. db = db\<lparr>t_cache := c\<rparr>"
  by (rule exI [of _ "t_cache db"]) simp

lemma link_token_state:
  assumes "link_token B now rnd meth u db = Inr (t, db')"
  shows "\<exists>c. db' = db\<lparr>t_cache := c\<rparr>"
proof -
  consider "meth = 1" | "meth = 2" | "meth \<noteq> 1" "meth \<noteq> 2" by blast
  then show ?thesis
  proof cases
    case 1
    then have "db' = snd (one_time_token (sb_codec B) now rnd (us_token u) db)" using assms by (simp add: link_token_def)
    then show ?thesis using one_time_token_state by simp
  next
    case 2
    then show ?thesis using assms by (auto simp: link_token_def totp_token_def result_simps dest: get_int_state)
  next
    case 3
    then have "db' = db" using assms by (simp add: link_token_def)
    then show ?thesis using same_cache by simp
  qed
qed

lemma subscribe_base_state: "\<exists>c. snd (subscribe_base_url B now db) = db\<lparr>t_cache := c\<rparr>"
proof -
  obtain urls d1 where g: "get_str (sb_settings B) now ''subscribe_url'' [] db = (urls, d1)" by fastforce
  obtain url d2 where g2: "get_str (sb_settings B) now ''app_url'' [] d1 = (url, d2)" by fastforce
  have "\<exists>c. d1 = db\<lparr>t_cache := c\<rparr>" "\<exists>c. d2 = d1\<lparr>t_cache := c\<rparr>"
    using get_str_state [of "sb_settings B" now "''subscribe_url''" "[]" db] get_str_state [of "sb_settings B" now "''app_url''" "[]" d1]
    by (simp_all add: g g2)
  then show ?thesis by (auto simp: subscribe_base_url_def g g2 split: list.split)
qed

lemma step_subscribe_url:
  assumes "build_subscribe_url B now rnd u db = Inr (url, db')"
  shows "user_step uid db db'"
proof -
  from assms obtain meth d1 where g: "get_int (sb_settings B) now ''show_subscribe_method'' 0 db = Inr (meth, d1)"
    by (auto simp: build_subscribe_url_def result_simps)
  obtain p d2 where g2: "get_str (sb_settings B) now ''subscribe_path'' ''/api/v1/client/subscribe'' d1 = (p, d2)" by fastforce
  from assms g g2 obtain t d3 where l: "link_token B now rnd meth u d2 = Inr (t, d3)"
    by (auto simp: build_subscribe_url_def result_simps Let_def)
  obtain base d4 where b: "subscribe_base_url B now d3 = (base, d4)" by fastforce
  have db': "db' = d4" using assms g g2 l b by (auto simp: build_subscribe_url_def Let_def)
  have "user_step uid d1 d2" using get_str_state [of "sb_settings B" now "''subscribe_path''" "''/api/v1/client/subscribe''" d1] g2
    by (intro step_cache) simp
  moreover have "user_step uid d3 d4" using subscribe_base_state [of B now d3] b by (intro step_cache) simp
  ultimately show ?thesis
    using step_cache [OF get_int_state [OF g]] step_cache [OF link_token_state [OF l]] db' user_step_trans by metis
qed

lemma step_servers:
  assumes "get_available_servers B now u db = Inr (servers, db')"
  shows "user_step uid db db'"
proof (cases "is_available now u")
  case False
  then show ?thesis using assms by (simp add: get_available_servers_def)
next
  case True
  with assms obtain n d1 where g: "get_int (sb_settings B) now ''show_info_to_server_enable'' 0 db = Inr (n, d1)" and "db' = d1"
    by (auto simp: get_available_servers_def result_simps)
  then show ?thesis using step_cache [OF get_int_state [OF g]] by simp
qed

lemma step_panel:
  assumes "get_user_subscribe_info B now rnd uid db = Inr (info, db')"
  shows "user_step i db db' \<and> us_id (si_user info) = uid"
proof -
  from assms obtain u where u: "user_by_id db uid = Some u" by (auto simp: get_user_subscribe_info_def split: option.splits)
  obtain raw c where c: "cache_get now (alive_key (str_int uid)) (t_cache db) = (raw, c)" by fastforce
  from assms u c obtain url d1 n d2 where b: "build_subscribe_url B now rnd u (db\<lparr>t_cache := c\<rparr>) = Inr (url, d1)"
    and g: "get_int (sb_settings B) now ''allow_new_period'' 0 d1 = Inr (n, d2)" and "db' = d2" "si_user info = u"
    by (auto simp: get_user_subscribe_info_def result_simps Let_def)
  then show ?thesis
    using user_step_trans [OF step_hidden(1) user_step_trans [OF step_subscribe_url [OF b] step_cache [OF get_int_state [OF g]]]]
      user_by_idD [OF u] by simp
qed

section \<open>The endpoints\<close>

text \<open>What a reply shows of accounts is the caller's.\<close>

fun shows_own :: "int \<Rightarrow> user_reply \<Rightarrow> bool" where
  "shows_own uid (Profile u _) = (us_id u = uid)"
| "shows_own uid (TrafficLog rs) = list_all (\<lambda>r. su_user_id r = uid) rs"
| "shows_own uid (OrderList rs) = list_all (\<lambda>r. od_user_id r = uid) rs"
| "shows_own uid (OrderDetail r _) = (od_user_id r = uid)"
| "shows_own uid (TicketList ts) = list_all (\<lambda>t. tk_user_id t = uid) ts"
| "shows_own uid (TicketShown d) = (tk_user_id (td_ticket d) = uid \<and>
     list_all (\<lambda>m. tm_ticket_id (fst m) = tk_id (td_ticket d)) (td_messages d))"
| "shows_own uid (InviteBook cs _) = list_all (\<lambda>c. iv_user_id c = uid) cs"
| "shows_own uid (InviteMade c) = (iv_user_id c = uid)"
| "shows_own uid (CommissionList ls) = list_all (\<lambda>l. cl_invite_user_id l = uid) ls"
| "shows_own uid (SubscribePanel info) = (us_id (si_user info) = uid)"
| "shows_own uid _ = True"

lemma paginate_all: "list_all P xs \<Longrightarrow> list_all P (paginate offset limit xs)"
  by (auto simp: paginate_def list_all_iff dest: in_set_takeD in_set_dropD)

lemma pages_own:
  "list_all (\<lambda>r. od_user_id r = uid) (orders_by_user db uid status offset limit)"
  "list_all (\<lambda>t. tk_user_id t = uid) (tickets_by_user db uid offset limit)"
  "list_all (\<lambda>l. cl_invite_user_id l = uid) (commission_logs_by_inviter db uid offset limit)"
  unfolding orders_by_user_def tickets_by_user_def commission_logs_by_inviter_def
  by (rule paginate_all, simp add: list_all_iff)+

lemma account_isolated:
  assumes "account_endpoint E now rnd u req db = Inr (reply, db')"
  shows "user_step (us_id u) db db' \<and> shows_own (us_id u) reply"
proof (cases req)
  case (QuickLoginUrl redirect)
  obtain url d where q: "quick_login_url E now (rn_text rnd) redirect (us_id u) db = (url, d)" by fastforce
  obtain a b where g: "get_str (ap_settings E) now ''app_url'' [] (put_cache now (temp_token_key (rn_text rnd)) (JInt (us_id u)) 60 db) = (a, b)" by fastforce
  have "b = d" using q g by (simp add: quick_login_url_def Let_def)
  moreover have "\<exists>c. b = db\<lparr>t_cache := c\<rparr>"
    using get_str_state [of "ap_settings E" now "''app_url''" "[]" "put_cache now (temp_token_key (rn_text rnd)) (JInt (us_id u)) 60 db"] g
    by (auto simp: put_cache_def)
  ultimately show ?thesis using assms q QuickLoginUrl by (auto simp: step_cache)
next
  case GetProfile
  then show ?thesis using assms user_by_idD [of db "us_id u"]
    by (auto simp: get_profile_def get_user_def result_simps split: option.splits)
next
  case (ChangePassword old new)
  with assms obtain v hash where v: "user_by_id db (us_id u) = Some v" "db' = put_user now db (v\<lparr>us_password := hash\<rparr>)" "reply = Done"
    by (auto simp: change_password_def result_simps split: option.splits)
  then show ?thesis using user_by_idD [OF v(1)] by (simp add: step_put_user [OF _ v(1)] role_def)
next
  case ResetSecurity
  with assms obtain v where v: "user_by_id db (us_id u) = Some v"
    "db' = put_user now db (v\<lparr>us_uuid := ar_uuid (rn_account rnd), us_token := ar_token (rn_account rnd)\<rparr>)" "\<exists>a b. reply = NewIds a b"
    by (auto simp: reset_security_def save_user_def result_simps split: option.splits)
  then show ?thesis using user_by_idD [OF v(1)] by (auto simp: step_put_user [OF _ v(1)] role_def)
next
  case (UpdateProfile data)
  then show ?thesis using assms user_by_idD [of db "us_id u"]
    by (auto simp: update_profile_def result_simps role_def intro!: step_put_user split: option.splits)
next
  case UnbindTelegram
  then show ?thesis using assms user_by_idD [of db "us_id u"]
    by (auto simp: unbind_telegram_def result_simps role_def intro!: step_put_user split: option.splits)
next
  case (TrafficLogs limit)
  then show ?thesis using assms by (auto simp: result_simps user_traffic_log_def list_all_iff dest!: in_set_takeD)
qed (use assms in \<open>auto simp: result_simps\<close>)

lemma order_isolated:
  assumes "order_endpoint E now rnd u req db = Inr (reply, db')"
  shows "user_step (us_id u) db db' \<and> shows_own (us_id u) reply"
proof (cases req)
  case (ListOrders status)
  then show ?thesis using assms by (auto simp: pages_own)
next
  case (GetOrderDetail tn)
  then show ?thesis using assms by (auto simp: get_order_detail_def own_order_def result_simps split: option.splits)
qed (use assms in \<open>auto simp: result_simps step_insert_user_order step_checkout step_cancel\<close>)

lemma ticket_detail_own:
  "shows_own uid (TicketShown (ticket_detail t viewer staff db)) \<longleftrightarrow> tk_user_id t = uid"
  by (auto simp: ticket_detail_def messages_by_ticket_def list_all_iff)

lemma create_ticket_shows: "create_ticket S now uid data db = Inr (t, db') \<Longrightarrow> shows_own uid (TicketShown t)"
  by (auto simp: create_ticket_def result_simps Let_def insert_ticket_def ticket_detail_own simp del: shows_own.simps split_paired_Ex)

lemma withdraw_shows:
  assumes "create_withdraw_ticket S now uid meth account db = Inr (t, db')"
  shows "shows_own uid (TicketShown t)"
proof -
  from assms obtain closed d1 methods d2 where g1: "get_int S now ''withdraw_close_enable'' 0 db = Inr (closed, d1)"
    and g2: "get_json S now ''commission_withdraw_method'' (JArr [JStr ''alipay'', JStr ''usdt'', JStr ''bank'']) d1 = Inr (methods, d2)"
    by (auto simp: create_withdraw_ticket_def result_simps)
  with assms obtain u where "user_by_id d2 uid = Some u"
    by (cases "user_by_id d2 uid") (auto simp: create_withdraw_ticket_def result_simps)
  with assms g1 g2 obtain d3 data where "create_ticket S now uid data d3 = Inr (t, db')"
    by (auto simp: create_withdraw_ticket_def result_simps)
  then show ?thesis by (rule create_ticket_shows)
qed

lemma ticket_isolated:
  assumes "ticket_endpoint E now u req db = Inr (reply, db')"
  shows "user_step (us_id u) db db' \<and> shows_own (us_id u) reply"
proof (cases req)
  case (ListTickets offset limit)
  then show ?thesis using assms by (auto simp: result_simps list_user_tickets_def pages_own)
next
  case (GetTicket tid)
  with assms obtain t where "own_ticket (us_id u) tid db = Inr t" "reply = TicketShown (ticket_detail t (Some (us_id u)) False db)" "db' = db"
    by (auto simp: get_user_ticket_def result_simps)
  then show ?thesis using own_ticketD ticket_detail_own by fastforce
next
  case (CreateTicketFor data)
  then show ?thesis using assms step_create_ticket create_ticket_shows by (fastforce simp: result_simps simp del: shows_own.simps)
next
  case (ReplyOwnTicket tid message)
  with assms obtain d where r: "reply_user_ticket now (us_id u) tid message db = Inr (d, db')" "reply = TicketShown d" by (auto simp: result_simps)
  then obtain t where "own_ticket (us_id u) tid db = Inr t"
    "d = ticket_detail (t\<lparr>tk_reply_status := (if us_id u = tk_user_id t then 0 else 1)\<rparr>) (Some (us_id u)) False db'"
    by (auto simp: reply_user_ticket_def reply_to_def result_simps Let_def)
  then show ?thesis using own_ticketD r(2) step_reply [OF r(1)] ticket_detail_own by fastforce
next
  case (CloseOwnTicket tid)
  then show ?thesis using assms by (auto simp: result_simps step_close)
next
  case (WithdrawTicket meth account)
  then show ?thesis using assms step_withdraw withdraw_shows by (fastforce simp: result_simps simp del: shows_own.simps)
qed

lemma invite_isolated:
  assumes "invite_endpoint E now rnd u req db = Inr (reply, db')"
  shows "user_step (us_id u) db db' \<and> shows_own (us_id u) reply"
proof (cases req)
  case FetchInvite
  with assms obtain codes ns where f: "invite_fetch (ap_settings E) now (us_id u) db = Inr ((codes, ns), db')" "reply = InviteBook codes ns"
    by (auto simp: result_simps)
  then have "codes = invite_codes_by_user db (us_id u) (Some 0) \<and> (\<exists>c. db' = db\<lparr>t_cache := c\<rparr>)"
    using same_cache by (auto simp: invite_fetch_def result_simps Let_def dest: get_int_state split: option.splits if_splits)
  then show ?thesis using f(2) by (auto simp: step_cache invite_codes_by_user_def list_all_iff)
next
  case CreateInvite
  with assms obtain c where c: "create_invite_for_user (ap_settings E) now (rn_codes rnd) (us_id u) db = Inr (c, db')" "reply = InviteMade c"
    by (auto simp: result_simps)
  then have "iv_user_id c = us_id u"
    by (auto simp: create_invite_for_user_def insert_invite_def result_simps new_row_def invite_code_entity_def simp del: split_paired_Ex)
  then show ?thesis using step_invite [OF c(1)] c(2) by simp
next
  case (ListCommissions offset limit)
  then show ?thesis using assms by (auto simp: result_simps pages_own)
next
  case (TransferCommission amount)
  then show ?thesis using assms by (auto simp: result_simps step_transfer)
qed

lemma bot_info_isolated:
  assumes "bot_info_endpoint E now db = Inr (reply, db')"
  shows "user_step uid db db' \<and> shows_own uid reply"
proof -
  obtain token d1 where b: "bot_token (ap_bot E) now db = (token, d1)" by fastforce
  have "\<exists>c. d1 = db\<lparr>t_cache := c\<rparr>"
    using get_str_state [of "te_settings (ap_bot E)" now "''telegram_bot_token''" "[]" db] b by (simp add: bot_token_def)
  moreover have "db' = d1 \<and> (\<exists>j. reply = BotInfo j)"
    using assms b by (auto simp: bot_info_endpoint_def get_bot_info_def result_simps Let_def split: if_splits)
  ultimately show ?thesis by (auto simp: step_cache)
qed

lemma endpoint_isolated:
  assumes "signed_in_endpoint E etag now rnd u req db = Inr (reply, db')"
  shows "user_step (us_id u) db db' \<and> shows_own (us_id u) reply"
proof (cases req)
  case (UserServers seen)
  with assms obtain servers where s: "(case user_by_id db (us_id u) of None \<Rightarrow> Inr ([], db) | Some v \<Rightarrow> get_available_servers (ap_sub E) now v db) = Inr (servers, db')"
    and "reply = Unchanged \<or> reply = ServerList servers"
    by (auto simp: user_servers_endpoint_def result_simps)
  moreover have "user_step (us_id u) db db'" using s step_servers by (cases "user_by_id db (us_id u)") auto
  ultimately show ?thesis by auto
next
  case (RedeemGiftcard c)
  then show ?thesis using assms by (auto simp: redeem_endpoint_def result_simps step_redeem)
next
  case SubscribeInfo
  then show ?thesis using assms step_panel by (fastforce simp: subscribe_info_endpoint_def result_simps)
next
  case (AccountReq r)
  then show ?thesis using assms account_isolated by simp
next
  case (OrderReq r)
  then show ?thesis using assms order_isolated by simp
next
  case (TicketReq r)
  then show ?thesis using assms ticket_isolated by simp
next
  case (InviteReq r)
  then show ?thesis using assms invite_isolated by simp
next
  case TelegramBotInfo
  then show ?thesis using assms bot_info_isolated by simp
qed (use assms in \<open>auto simp: check_coupon_endpoint_def plan_endpoint_def stripe_key_endpoint_def result_simps Let_def\<close>)

section \<open>Histories\<close>

text \<open>A request of a history with its time, randomness and credentials; an error rolls back. \<open>acting\<close> is the
  account that a request acts for.\<close>

type_synonym api_call = "int \<times> api_random \<times> (string \<times> string) option \<times> user_request"

definition acting :: "api_env \<Rightarrow> api_call \<Rightarrow> db \<Rightarrow> int option" where
  "acting E call db = (case call of (now, rnd, cred, req) \<Rightarrow>
     (case bindE (get_bearer_token cred) (\<lambda>token. get_current_user (ap_auth E) now token db) of Inl _ \<Rightarrow> None | Inr u \<Rightarrow> Some (us_id u)))"

definition serve_call :: "api_env \<Rightarrow> (json list \<Rightarrow> string) \<Rightarrow> api_call \<Rightarrow> db \<Rightarrow> db" where
  "serve_call E etag call db = (case call of (now, rnd, cred, req) \<Rightarrow>
     (case user_api E etag now rnd cred req db of Inl _ \<Rightarrow> db | Inr (_, db') \<Rightarrow> db'))"

fun never_acts :: "api_env \<Rightarrow> (json list \<Rightarrow> string) \<Rightarrow> int \<Rightarrow> api_call list \<Rightarrow> db \<Rightarrow> bool" where
  "never_acts E etag v [] db = True"
| "never_acts E etag v (call # calls) db = (acting E call db \<noteq> Some v \<and> never_acts E etag v calls (serve_call E etag call db))"

text \<open>What belongs to account \<open>v\<close>.\<close>

definition own_view :: "int \<Rightarrow> db \<Rightarrow> user list \<times> order list \<times> (ticket \<times> ticket_message list) list \<times> invite_code list \<times>
    giftcard_redemption list" where
  "own_view v db =
     (filter (\<lambda>u. us_id u = v) (map user_core (rows (t_users db))), filter (\<lambda>r. od_user_id r = v) (map order_core (rows (t_orders db))),
      filter (\<lambda>(t, ms). tk_user_id t = v) (map (\<lambda>t. (t, messages_by_ticket db (tk_id t))) (rows (t_tickets db))),
      filter (\<lambda>c. iv_user_id c = v) (rows (t_invite_codes db)), filter (\<lambda>r. gr_user_id r = v) (rows (t_redemptions db)))"

lemma view_includes:
  assumes "others_view uid db' = others_view uid db" "v \<noteq> uid"
  shows "own_view v db' = own_view v db"
proof -
  have part: "filter (\<lambda>x. k x = v) (map f ys) = filter (\<lambda>x. k x = v) (map f xs)"
    if "map f (filter (\<lambda>x. k x \<noteq> uid) ys) = map f (filter (\<lambda>x. k x \<noteq> uid) xs)" "\<And>x. k (f x) = k x" for k :: "'a \<Rightarrow> int" and f xs ys
  proof -
    have "filter (\<lambda>x. k x = v) (map f zs) = filter (\<lambda>x. k x = v) (map f (filter (\<lambda>x. k x \<noteq> uid) zs))" for zs
      using that(2) assms(2) by (induction zs) auto
    then show ?thesis using that(1) by metis
  qed
  have "filter (\<lambda>(t, ms). tk_user_id t = v) (map (\<lambda>t. (t, messages_by_ticket d (tk_id t))) ts) =
      filter (\<lambda>(t, ms). tk_user_id t = v) (map (\<lambda>t. (t, messages_by_ticket d (tk_id t))) (filter (\<lambda>t. tk_user_id t \<noteq> uid) ts))" for d ts
    using assms(2) by (induction ts) auto
  then have threads: "filter (\<lambda>(t, ms). tk_user_id t = v) (map (\<lambda>t. (t, messages_by_ticket d (tk_id t))) (rows (t_tickets d))) =
      filter (\<lambda>(t, ms). tk_user_id t = v) (threads_of_others uid d)" for d
    unfolding threads_of_others_def by blast
  have "us_id (user_core u) = us_id u" "od_user_id (order_core r) = od_user_id r" for u r by (simp_all add: user_core_def order_core_def)
  with assms(1) show ?thesis
    unfolding own_view_def threads others_view_def
    using part [of user_core us_id "rows (t_users db')" "rows (t_users db)"] part [of order_core od_user_id "rows (t_orders db')" "rows (t_orders db)"]
      part [of id iv_user_id "rows (t_invite_codes db')" "rows (t_invite_codes db)"]
      part [of id gr_user_id "rows (t_redemptions db')" "rows (t_redemptions db)"] by simp
qed

lemma served_isolated:
  assumes "user_api E etag now rnd cred req db = Inr (reply, db')" "api_ok db"
  shows "\<exists>token u. get_bearer_token cred = Inr token \<and> get_current_user (ap_auth E) now token db = Inr u \<and>
     others_view (us_id u) db' = others_view (us_id u) db \<and> roles db' = roles db \<and> api_ok db' \<and> shows_own (us_id u) reply"
proof -
  from assms(1) obtain token u where t: "get_bearer_token cred = Inr token" "get_current_user (ap_auth E) now token db = Inr u"
    and e: "signed_in_endpoint E etag now rnd u req db = Inr (reply, db')" by (auto simp: user_api_def result_simps)
  from endpoint_isolated [OF e] assms(2) t show ?thesis by (auto simp: user_step_def)
qed

lemma idle_history:
  assumes "api_ok db" "never_acts E etag v calls db"
  shows "own_view v (fold (serve_call E etag) calls db) = own_view v db \<and> api_ok (fold (serve_call E etag) calls db)"
  using assms
proof (induction calls arbitrary: db)
  case (Cons call calls)
  obtain now rnd cred req where call: "call = (now, rnd, cred, req)" by (cases call)
  have one: "own_view v (serve_call E etag call db) = own_view v db \<and> api_ok (serve_call E etag call db)"
  proof (cases "user_api E etag now rnd cred req db")
    case (Inr res)
    then obtain reply db' where api: "user_api E etag now rnd cred req db = Inr (reply, db')" by (cases res) auto
    from served_isolated [OF api Cons.prems(1)] obtain token u where "get_bearer_token cred = Inr token"
      "get_current_user (ap_auth E) now token db = Inr u" and view: "others_view (us_id u) db' = others_view (us_id u) db" "api_ok db'" by blast
    then have "v \<noteq> us_id u" using Cons.prems(2) by (auto simp: acting_def call)
    then show ?thesis using view_includes [OF view(1)] view(2) api by (simp add: serve_call_def call)
  qed (use Cons.prems(1) in \<open>simp add: serve_call_def call\<close>)
  then show ?case using Cons.IH [of "serve_call E etag call db"] Cons.prems by simp
qed simp

section \<open>Properties\<close>

text \<open>C5: A signed-in user is alone with the own data. A request of the user API that is served was made with the token of
  an account; it leaves the accounts, orders, tickets with their messages, invite codes and redemptions of all
  other accounts and the rest of the site as they were (but for commission), and what it shows of accounts,
  orders, tickets, invite codes and commission is the caller's own. It makes nobody administrator or staff.\<close>

theorem user_requests_isolated:
  assumes "user_api E etag now rnd cred req db = Inr (reply, db')" "api_ok db"
  shows "\<exists>token u. get_bearer_token cred = Inr token \<and> get_current_user (ap_auth E) now token db = Inr u \<and>
     others_view (us_id u) db' = others_view (us_id u) db \<and> roles db' = roles db \<and> api_ok db' \<and> shows_own (us_id u) reply"
  by (rule served_isolated [OF assms])

definition sample_api :: api_env where
  "sample_api = \<lparr>ap_auth = sample_auth, ap_orders = sample_env, ap_sub = sample_sub, ap_bot = bot_env, ap_jinja = (\<lambda>s c. Inr s),
     ap_queue = \<lparr>qc_codec = sv_codec sample_service, qc_default_name = ''default'', qc_max_tries = 3, qc_retry_jobs = True, qc_max_jobs = 10\<rparr>\<rparr>"

definition sample_draw :: api_random where
  "sample_draw = \<lparr>rn_uuid = ''abcdefgh-i'', rn_codes = [''code9''], rn_text = ''r'', rn_number = 7, rn_account = sample_random\<rparr>"

definition login_of :: "int \<Rightarrow> user \<Rightarrow> (string \<times> string) option" where
  "login_of now u = Some (''Bearer'', drop (length ''Bearer '') (build_auth_token sample_auth now u))"

definition ask_for_help :: user_request where
  "ask_for_help = TicketReq (CreateTicketFor desk_question)"

theorem user_requests_isolated_witness:
  "\<exists>reply db'. user_api sample_api (\<lambda>_. ''e'') 10 sample_draw (login_of 10 sample_user) ask_for_help desk_db = Inr (reply, db') \<and>
     others_view 1 db' = others_view 1 desk_db \<and> shows_own 1 reply \<and> t_tickets db' \<noteq> t_tickets desk_db"
proof -
  let ?call = "user_api sample_api (\<lambda>_. ''e'') 10 sample_draw (login_of 10 sample_user) ask_for_help desk_db"
  have w: "api_ok desk_db" "is_ok ?call" "case ?call of Inl e \<Rightarrow> False | Inr (r, d) \<Rightarrow> rows (t_tickets d) \<noteq> []" by code_simp+
  obtain reply db' where c: "?call = Inr (reply, db')" using w(2) by (elim is_okE) auto
  have "(case bindE (get_bearer_token (login_of 10 sample_user)) (\<lambda>token. get_current_user (ap_auth sample_api) 10 token desk_db) of
     Inl e \<Rightarrow> False | Inr u \<Rightarrow> us_id u = 1)" by code_simp
  with user_requests_isolated [OF c w(1)] have "others_view 1 db' = others_view 1 desk_db \<and> shows_own 1 reply" by auto
  moreover have "t_tickets desk_db = empty_table" by code_simp
  ultimately show ?thesis using c w(3) by auto
qed

text \<open>Over any history of requests of signed-in users, with time, randomness and credentials of their own, an account for
  which nobody acts keeps its row, orders, tickets with their messages, invite codes and redemptions, but for
  commission.\<close>

theorem idle_account_untouched:
  assumes "api_ok db" "never_acts E etag v calls db"
  shows "own_view v (fold (serve_call E etag) calls db) = own_view v db"
  using idle_history [OF assms] by simp

definition busy_day :: "api_call list" where
  "busy_day = [(10, sample_draw, login_of 10 sample_user, ask_for_help), (11, sample_draw, None, ask_for_help),
     (12, sample_draw, login_of 10 sample_user, InviteReq CreateInvite)]"

theorem idle_account_untouched_witness:
  "own_view 9 (fold (serve_call sample_api (\<lambda>_. ''e'')) busy_day desk_db) = own_view 9 desk_db \<and>
     fst (own_view 9 desk_db) \<noteq> [] \<and> own_view 1 (fold (serve_call sample_api (\<lambda>_. ''e'')) busy_day desk_db) \<noteq> own_view 1 desk_db"
proof -
  have w: "api_ok desk_db" "never_acts sample_api (\<lambda>_. ''e'') 9 busy_day desk_db" "fst (own_view 9 desk_db) \<noteq> []"
    "fst (snd (snd (own_view 1 (fold (serve_call sample_api (\<lambda>_. ''e'')) busy_day desk_db)))) \<noteq> []"
    "fst (snd (snd (own_view 1 desk_db))) = []" by code_simp+
  show ?thesis using idle_account_untouched [OF w(1,2)] w(3-5) by auto
qed

end
