(* ===== verification/PublicApi.thy ===== *)
theory PublicApi
  imports UserApi
begin

text \<open>
  The endpoints that need no login: \<open>app/controllers/auth.py\<close>, the public parts of \<open>comm.py\<close>, \<open>plan.py\<close>,
  \<open>notice.py\<close>, \<open>knowledge.py\<close> and \<open>payment.py\<close>, the sessions of \<open>account.py\<close> and the subscription link of
  \<open>subscribe.py\<close>. A request of
  \<open>auth.py\<close> carries the address of the client. An error rolls the database back.
\<close>

section \<open>Authentication\<close>

datatype auth_http =
    RegisterReq user_create
  | LoginReq string string "string option"
  | Token2Login "string option" "string option" string
  | ForgetReq forget_request
  | EmailVerify verify_request
  | RecordPv "string option"
  | Me "(string \<times> string) option"

datatype auth_answer =
    AuthToken string
  | Token2 token2_answer
  | AuthDone
  | SignedIn user

definition forget_form :: "forget_request \<Rightarrow> exn + forget_request" where
  "forget_form d =
     bindE (normalize_email (fr_email d)) (\<lambda>e. bindE (validate_password (fr_password d)) (\<lambda>p. Inr (d\<lparr>fr_email := e, fr_password := p\<rparr>)))"

text \<open>Mailing the code: a failure of the queue is ignored.\<close>

definition send_email_verify :: "api_env \<Rightarrow> (json \<Rightarrow> exn + int) \<Rightarrow> int \<Rightarrow> int \<Rightarrow> verify_request \<Rightarrow> string option \<Rightarrow> db \<Rightarrow> exn + db" where
  "send_email_verify E after now random data ip db =
     bindE (create_email_verify_code (ap_auth E) random now data ip db) (\<lambda>(code, db1).
     case get_str (ap_settings E) now ''app_name'' ''PyBoard'' db1 of (name, db2) \<Rightarrow>
     (case get_str (ap_settings E) now ''app_url'' [] db2 of (url, db3) \<Rightarrow>
        Inr (case enqueue_job (ap_queue E) now after ''send_mail'' [JStr (vr_email data), JStr (name @ '' verification code''), JStr ''mail_verify'',
               JObj [(''name'', JStr name), (''code'', JStr code), (''url'', JStr url)]] [] db3 of
             Inl e \<Rightarrow> db3 | Inr (i, db4) \<Rightarrow> db4)))"

fun auth_endpoint :: "api_env \<Rightarrow> (json \<Rightarrow> exn + int) \<Rightarrow> int \<Rightarrow> api_random \<Rightarrow> string option \<Rightarrow> auth_http \<Rightarrow> db \<Rightarrow> exn + auth_answer \<times> db" where
  "auth_endpoint E after now rnd ip (RegisterReq data) db =
     bindE (user_create_request data) (\<lambda>d.
     bindE (register (ap_auth E) (rn_account rnd) now d ip db) (\<lambda>(token, db'). Inr (AuthToken token, db')))"
| "auth_endpoint E after now rnd ip (LoginReq email password recaptcha) db =
     bindE (normalize_email email) (\<lambda>e.
     bindE (login (ap_auth E) (ar_salt (rn_account rnd)) now e password recaptcha ip True db) (\<lambda>(token, db'). Inr (AuthToken token, db')))"
| "auth_endpoint E after now rnd ip (Token2Login verify token redirect) db =
     bindE (token2_login (ap_auth E) now verify token redirect db) (\<lambda>(a, db'). Inr (Token2 a, db'))"
| "auth_endpoint E after now rnd ip (ForgetReq data) db =
     bindE (forget_form data) (\<lambda>d.
     bindE (forget_password (ap_auth E) (ar_salt (rn_account rnd)) now d None ip db) (\<lambda>db'. Inr (AuthDone, db')))"
| "auth_endpoint E after now rnd ip (EmailVerify data) db =
     bindE (normalize_email (vr_email data)) (\<lambda>e.
     bindE (send_email_verify E after now (rn_number rnd) (data\<lparr>vr_email := e\<rparr>) ip db) (\<lambda>db'. Inr (AuthDone, db')))"
| "auth_endpoint E after now rnd ip (RecordPv c) db = bindE (record_invite_pv now c db) (\<lambda>db'. Inr (AuthDone, db'))"
| "auth_endpoint E after now rnd ip (Me cred) db =
     bindE (get_bearer_token cred) (\<lambda>token. bindE (get_current_user (ap_auth E) now token db) (\<lambda>u. Inr (SignedIn u, db)))"

section \<open>The configuration for the frontend\<close>

text \<open>A field of the dictionary: its name and how its value is read.\<close>

type_synonym config_field = "string \<times> (setting_service \<Rightarrow> int \<Rightarrow> db \<Rightarrow> exn + json \<times> db)"

definition text_field :: "string \<Rightarrow> string \<Rightarrow> string \<Rightarrow> config_field" where
  "text_field name k d = (name, \<lambda>S now db. case get_str S now k d db of (v, db') \<Rightarrow> Inr (JStr v, db'))"

definition int_field :: "string \<Rightarrow> string \<Rightarrow> int \<Rightarrow> (int \<Rightarrow> json) \<Rightarrow> config_field" where
  "int_field name k d f = (name, \<lambda>S now db. bindE (get_int S now k d db) (\<lambda>(n, db'). Inr (f n, db')))"

definition json_field :: "string \<Rightarrow> string \<Rightarrow> json \<Rightarrow> config_field" where
  "json_field name k d = (name, \<lambda>S now db. get_json S now k d db)"

definition const_field :: "string \<Rightarrow> json \<Rightarrow> config_field" where
  "const_field name v = (name, \<lambda>S now db. Inr (v, db))"

definition flag01 :: "int \<Rightarrow> json" where
  "flag01 n = JInt (if n \<noteq> 0 then 1 else 0)"

definition or_none :: "int \<Rightarrow> json" where
  "or_none n = (if n = 0 then JNull else JInt n)"

definition common_fields :: "int \<Rightarrow> config_field list" where
  "common_fields whitelist =
     [text_field ''tos_url'' ''tos_url'' [], int_field ''is_email_verify'' ''email_verify'' 0 flag01,
      int_field ''is_invite_force'' ''invite_force'' 0 flag01, const_field ''is_email_whitelist'' (flag01 whitelist),
      (if whitelist \<noteq> 0 then json_field ''email_whitelist_suffix'' ''email_whitelist_suffix'' (JArr [])
       else const_field ''email_whitelist_suffix'' (JInt 0)),
      int_field ''is_recaptcha'' ''recaptcha_enable'' 0 flag01, const_field ''recaptcha_provider'' (JStr ''turnstile''),
      text_field ''recaptcha_site_key'' ''recaptcha_site_key'' [], text_field ''turnstile_site_key'' ''recaptcha_site_key'' [],
      int_field ''is_telegram'' ''telegram_bot_enable'' 0 JInt, text_field ''telegram_discuss_link'' ''telegram_discuss_link'' [],
      int_field ''ticket_status'' ''ticket_status'' 0 JInt, text_field ''stripe_pk'' ''stripe_pk_live'' [],
      int_field ''invite_gen_limit'' ''invite_gen_limit'' 5 JInt,
      json_field ''withdraw_methods'' ''commission_withdraw_method'' (JArr [JStr ''alipay'', JStr ''usdt'', JStr ''bank'']),
      int_field ''withdraw_close'' ''withdraw_close_enable'' 0 JInt,
      int_field ''commission_withdraw_limit'' ''commission_withdraw_limit'' 100 JInt, text_field ''currency'' ''currency'' ''CNY'',
      text_field ''currency_symbol'' ''currency_symbol'' [char_of (194 :: nat), char_of (165 :: nat)],
      int_field ''commission_distribution_enable'' ''commission_distribution_enable'' 0 JInt,
      int_field ''commission_distribution_l1'' ''commission_distribution_l1'' 0 or_none,
      int_field ''commission_distribution_l2'' ''commission_distribution_l2'' 0 or_none,
      int_field ''commission_distribution_l3'' ''commission_distribution_l3'' 0 or_none]"

fun read_fields :: "setting_service \<Rightarrow> int \<Rightarrow> config_field list \<Rightarrow> (string \<times> json) list \<Rightarrow> db \<Rightarrow> exn + (string \<times> json) list \<times> db" where
  "read_fields S now [] acc db = Inr (acc, db)"
| "read_fields S now ((name, read) # fs) acc db = bindE (read S now db) (\<lambda>(v, db'). read_fields S now fs (dict_set name v acc) db')"

definition common_config :: "setting_service \<Rightarrow> int \<Rightarrow> db \<Rightarrow> exn + (string \<times> json) list \<times> db" where
  "common_config S now db =
     bindE (get_int S now ''email_whitelist_enable'' 0 db) (\<lambda>(whitelist, db1).
     bindE (fetch_config S now (Some ''site'') db1) (\<lambda>(groups, db2).
       read_fields S now (common_fields whitelist) (set_if (map_of groups ''site'') []) db2))"

section \<open>The rest\<close>

datatype public_request =
    CommonConfig
  | BotWebhook string json
  | ShopPlans
  | Notices int int
  | NoticePage int
  | KnowledgeGroups "string option" "string option"
  | KnowledgeLanguages
  | KnowledgePage "(string \<times> string) option" int
  | PaymentMethods
  | PaymentNotify string string "(string \<times> json) list option"
  | SubscribeLink string "string option" string
  | ActiveSessions
  | RemoveSession

datatype public_reply =
    ConfigReply "(string \<times> json) list"
  | WebhookDone "bot_call list"
  | PlanList "plan list"
  | NoticeList "notice list" int
  | NoticeShown notice
  | KnowledgeList "(string \<times> knowledge list) list"
  | Languages "string list"
  | KnowledgeShown knowledge
  | MethodList "payment list"
  | NotifyAnswer bool
  | Subscription "string \<times> string \<times> (string \<times> string) list"
  | SessionList "string list"
  | SessionRemoved

definition webhook_endpoint :: "api_env \<Rightarrow> int \<Rightarrow> string \<Rightarrow> json \<Rightarrow> db \<Rightarrow> exn + public_reply \<times> db" where
  "webhook_endpoint E now access_token payload db =
     (case payload of
        JObj kvs \<Rightarrow> bindE (handle_webhook (ap_bot E) now access_token kvs db) (\<lambda>(calls, db'). Inr (WebhookDone calls, db'))
      | _ \<Rightarrow> (case bot_token (ap_bot E) now db of (token, db1) \<Rightarrow>
          Inl (if token = [] \<or> access_token \<noteq> te_md5 (ap_bot E) token then Unauthorized ''unauthorized'' else AttributeError)))"

text \<open>A notification is a JSON object with members of any type; \<open>None\<close> is a body that is no JSON object.\<close>

definition notify_endpoint :: "api_env \<Rightarrow> int \<Rightarrow> string \<Rightarrow> string \<Rightarrow> (string \<times> json) list option \<Rightarrow> db \<Rightarrow> exn + public_reply \<times> db" where
  "notify_endpoint E now gateway uuid body db =
     (case body of None \<Rightarrow> Inr (NotifyAnswer False, db)
      | Some params \<Rightarrow> bindE (handle_payment_notify (ap_orders E) now gateway uuid params db) (\<lambda>(ok, db'). Inr (NotifyAnswer ok, db')))"

definition subscribe_endpoint :: "api_env \<Rightarrow> int \<Rightarrow> api_random \<Rightarrow> string \<Rightarrow> string option \<Rightarrow> string \<Rightarrow> db \<Rightarrow> exn + public_reply \<times> db" where
  "subscribe_endpoint E now rnd token flag agent db =
     bindE (resolve_subscribe_user (ap_sub E) now token db) (\<lambda>(u, db1).
     bindE (render_subscription (ap_sub E) now (rn_text rnd) u (Some (if Orders.text_given flag then the flag else agent)) db1) (\<lambda>(res, db2).
       Inr (Subscription res, db2)))"

definition knowledge_page_endpoint :: "api_env \<Rightarrow> int \<Rightarrow> api_random \<Rightarrow> (string \<times> string) option \<Rightarrow> int \<Rightarrow> db \<Rightarrow> exn + public_reply \<times> db" where
  "knowledge_page_endpoint E now rnd cred i db =
     bindE (get_optional_current_user (ap_auth E) now cred db) (\<lambda>u.
     bindE (knowledge_page (ap_sub E) (ap_jinja E) now (rn_text rnd) (map_option us_id u) i db) (\<lambda>(k, db'). Inr (KnowledgeShown k, db')))"

definition short_text :: "nat \<Rightarrow> string option \<Rightarrow> bool" where
  "short_text n s = (case s of None \<Rightarrow> True | Some t \<Rightarrow> length t \<le> n)"

definition shop_plans_endpoint :: "int \<Rightarrow> db \<Rightarrow> exn + public_reply \<times> db" where
  "shop_plans_endpoint now db = Inr (PlanList (list_visible_plans now db), db)"

definition notices_endpoint :: "int \<Rightarrow> int \<Rightarrow> db \<Rightarrow> exn + public_reply \<times> db" where
  "notices_endpoint page sz db =
     guardE (page < 1 \<or> sz < 1 \<or> 100 < sz) ValueError (case list_public_notices page sz db of (ns, n) \<Rightarrow> Inr (NoticeList ns n, db))"

definition notice_page_endpoint :: "int \<Rightarrow> db \<Rightarrow> exn + public_reply \<times> db" where
  "notice_page_endpoint i db = bindE (get_public_notice i db) (\<lambda>n. Inr (NoticeShown n, db))"

definition knowledge_groups_endpoint :: "string option \<Rightarrow> string option \<Rightarrow> db \<Rightarrow> exn + public_reply \<times> db" where
  "knowledge_groups_endpoint language keyword db =
     guardE (\<not> short_text 5 language \<or> \<not> short_text 64 keyword) ValueError
       (Inr (KnowledgeList (list_grouped_by_category language keyword db), db))"

definition languages_endpoint :: "db \<Rightarrow> exn + public_reply \<times> db" where
  "languages_endpoint db = Inr (Languages (list_languages db), db)"

definition payment_methods_endpoint :: "db \<Rightarrow> exn + public_reply \<times> db" where
  "payment_methods_endpoint db = Inr (MethodList (enabled_payments db), db)"

text \<open>The sessions of \<open>account.py\<close> ask for no login: there are none to list or to remove.\<close>

definition get_active_sessions :: "db \<Rightarrow> exn + public_reply \<times> db" where
  "get_active_sessions db = Inr (SessionList [], db)"

definition remove_active_session :: "db \<Rightarrow> exn + public_reply \<times> db" where
  "remove_active_session db = Inr (SessionRemoved, db)"

fun public_endpoint :: "api_env \<Rightarrow> int \<Rightarrow> api_random \<Rightarrow> public_request \<Rightarrow> db \<Rightarrow> exn + public_reply \<times> db" where
  "public_endpoint E now rnd CommonConfig db = bindE (common_config (ap_settings E) now db) (\<lambda>(c, db'). Inr (ConfigReply c, db'))"
| "public_endpoint E now rnd (BotWebhook access_token payload) db = webhook_endpoint E now access_token payload db"
| "public_endpoint E now rnd ShopPlans db = shop_plans_endpoint now db"
| "public_endpoint E now rnd (Notices page sz) db = notices_endpoint page sz db"
| "public_endpoint E now rnd (NoticePage i) db = notice_page_endpoint i db"
| "public_endpoint E now rnd (KnowledgeGroups language keyword) db = knowledge_groups_endpoint language keyword db"
| "public_endpoint E now rnd KnowledgeLanguages db = languages_endpoint db"
| "public_endpoint E now rnd (KnowledgePage cred i) db = knowledge_page_endpoint E now rnd cred i db"
| "public_endpoint E now rnd PaymentMethods db = payment_methods_endpoint db"
| "public_endpoint E now rnd (PaymentNotify gateway uuid body) db = notify_endpoint E now gateway uuid body db"
| "public_endpoint E now rnd (SubscribeLink token flag agent) db = subscribe_endpoint E now rnd token flag agent db"
| "public_endpoint E now rnd ActiveSessions db = get_active_sessions db"
| "public_endpoint E now rnd RemoveSession db = remove_active_session db"

end
