(* ===== verification/AdminApi.thy ===== *)
theory AdminApi
  imports UserApi AdminTools ServerFacts "HOL-Library.Sublist"
begin

text \<open>
  The endpoints of administrators and of the support staff: the controllers of \<open>app/controllers/admin\<close>, \<open>user.py\<close>
  and \<open>staff.py\<close>. Per controller there is a datatype of its requests, one constructor per endpoint, and a function
  that serves them; \<open>admin_api\<close> and \<open>staff_api\<close> put them behind \<open>get_current_admin\<close> and \<open>get_current_staff\<close>.
  Parameters that the framework rejects raise \<open>ValueError\<close>, and a negative offset or limit that only the database
  rejects is the \<open>RuntimeError\<close> of its driver.
\<close>

text \<open>What the endpoints have at hand besides the services of the users: the mail transport, how the queue reads a
  delay, the facts of the host, and the files of the mail templates.\<close>

record admin_env =
  ad_api :: api_env
  ad_mailer :: mailer
  ad_after :: "json \<Rightarrow> exn + int"
  ad_host :: "(string \<times> json) list"
  ad_templates :: "string list"

abbreviation ad_settings :: "admin_env \<Rightarrow> setting_service" where
  "ad_settings E \<equiv> ap_settings (ad_api E)"

abbreviation ad_codec :: "admin_env \<Rightarrow> codec" where
  "ad_codec E \<equiv> sv_codec (ad_settings E)"

record admin_random =
  an_uuid :: string
  an_codes :: "nat \<Rightarrow> string list"
  an_accounts :: "nat \<Rightarrow> account_random"

datatype admin_reply =
    Finished
  | Sent bool
  | TradeNo string
  | OrderRows "order list"
  | OrderShown order "commission_log list"
  | PaymentRows "payment list"
  | GatewayRows "(string \<times> string \<times> string) list"
  | PaymentRow payment
  | PlanRows "(plan \<times> int) list"
  | PlanRow plan int
  | CouponRows "coupon list"
  | CouponRow coupon
  | GiftcardRows "giftcard list"
  | GiftcardRow giftcard
  | InviteRows "invite_code list"
  | InviteRow invite_code
  | CommissionRows "commission_log list"
  | NoticeRows "notice list" int
  | NoticeRow notice
  | KnowledgeRows "knowledge list" int
  | KnowledgeRow knowledge
  | SettingGroups "(string \<times> (string \<times> json) list) list"
  | SettingRows "setting list"
  | SettingRow setting
  | Names "string list"
  | GroupRows "(server_group \<times> int \<times> int) list"
  | RouteRows "server_route list"
  | NodeRows "server_node list"
  | NodeRow server_node
  | Overview "stat + stat_data"
  | StatSeries "stat list"
  | ServerRank "((int \<times> string) \<times> int \<times> int \<times> int) list"
  | UserRank "((int \<times> pyfloat) \<times> int \<times> int \<times> int) list"
  | UserTraffic "stat_user list"
  | HostStatus "(string \<times> json) list"
  | QueueFigures "(string \<times> int) list" int
  | Workload "(string \<times> int) list"
  | TicketRows "ticket list" int
  | TicketRow ticket_detail
  | MailRows "mail_log list"
  | MailRow mail_log
  | LogRows "log_event list"
  | LogRow log_event
  | FailedRows "failed_job list"
  | FailedRow failed_job
  | UserRows "user list"
  | UserRow user
  | NewUsers "(user \<times> string) list"

text \<open>How an operation becomes an answer.\<close>

definition answer :: "('a \<Rightarrow> admin_reply) \<Rightarrow> exn + 'a \<times> db \<Rightarrow> exn + admin_reply \<times> db" where
  "answer f r = bindE r (\<lambda>(x, db). Inr (f x, db))"

definition finished :: "exn + db \<Rightarrow> exn + admin_reply \<times> db" where
  "finished r = bindE r (\<lambda>db. Inr (Finished, db))"

definition shown :: "('a \<Rightarrow> admin_reply) \<Rightarrow> exn + 'a \<Rightarrow> db \<Rightarrow> exn + admin_reply \<times> db" where
  "shown f r db = bindE r (\<lambda>x. Inr (f x, db))"

definition listed :: "bool \<Rightarrow> admin_reply \<Rightarrow> db \<Rightarrow> exn + admin_reply \<times> db" where
  "listed ok rep db = guardE (\<not> ok) ValueError (Inr (rep, db))"

text \<open>\<open>Query(ge=1, le=cap)\<close> on the size of a page.\<close>

definition page_ok :: "int \<Rightarrow> int \<Rightarrow> int \<Rightarrow> bool" where
  "page_ok cap page sz \<longleftrightarrow> 1 \<le> page \<and> 1 \<le> sz \<and> sz \<le> cap"

definition unchecked_rows :: "int \<Rightarrow> int \<Rightarrow> admin_reply \<Rightarrow> db \<Rightarrow> exn + admin_reply \<times> db" where
  "unchecked_rows offset limit rep db =
     guardE (offset < 0) (RuntimeError ''OFFSET must not be negative'') (
     guardE (limit < 0) (RuntimeError ''LIMIT must not be negative'') (Inr (rep, db)))"

section \<open>Orders, payment methods and plans\<close>

datatype admin_order_request =
    AdminOrders int int
  | AdminOrder int
  | AdminOrderUpdate string "int option option"
  | AssignOrder order_assign
  | MarkPaid string
  | AdminCancel string

fun admin_order_endpoint :: "admin_env \<Rightarrow> int \<Rightarrow> admin_random \<Rightarrow> user \<Rightarrow> admin_order_request \<Rightarrow> db \<Rightarrow> exn + admin_reply \<times> db" where
  "admin_order_endpoint E now rnd u (AdminOrders offset limit) db =
     listed (in_range offset limit) (OrderRows (repo_all (t_orders db) offset limit)) db"
| "admin_order_endpoint E now rnd u (AdminOrder i) db = shown (\<lambda>(r, ls). OrderShown r ls) (get_order_detail_admin i db) db"
| "admin_order_endpoint E now rnd u (AdminOrderUpdate trade_no cs) db =
     finished (admin_update_order now trade_no cs (Some (us_id u)) db)"
| "admin_order_endpoint E now rnd u (AssignOrder data) db =
     answer TradeNo (admin_assign_order now (an_uuid rnd) data (Some (us_id u)) db)"
| "admin_order_endpoint E now rnd u (MarkPaid trade_no) db =
     finished (admin_mark_paid (ap_orders (ad_api E)) now trade_no (Some (us_id u)) db)"
| "admin_order_endpoint E now rnd u (AdminCancel trade_no) db = finished (admin_cancel_order now trade_no (Some (us_id u)) db)"

datatype payment_admin_request =
    AdminPayments int int
  | ListGateways
  | AdminPayment int
  | AddPayment payment_create
  | EditPayment int payment_update
  | DropPayment int

fun admin_payment_endpoint :: "admin_env \<Rightarrow> int \<Rightarrow> admin_random \<Rightarrow> payment_admin_request \<Rightarrow> db \<Rightarrow> exn + admin_reply \<times> db" where
  "admin_payment_endpoint E now rnd (AdminPayments offset limit) db =
     listed (in_range offset limit) (PaymentRows (repo_all (t_payments db) offset limit)) db"
| "admin_payment_endpoint E now rnd ListGateways db = Inr (GatewayRows list_payment_gateways, db)"
| "admin_payment_endpoint E now rnd (AdminPayment i) db = shown PaymentRow (get_payment i db) db"
| "admin_payment_endpoint E now rnd (AddPayment data) db =
     answer PaymentRow (create_payment (ad_codec E) now (an_uuid rnd) data db)"
| "admin_payment_endpoint E now rnd (EditPayment i data) db = answer PaymentRow (update_payment (ad_codec E) now i data db)"
| "admin_payment_endpoint E now rnd (DropPayment i) db = finished (delete_payment i db)"

datatype plan_request =
    AdminPlans
  | AdminPlan int
  | AddPlan plan_create
  | EditPlan int plan_update
  | DropPlan int

fun admin_plan_endpoint :: "int \<Rightarrow> plan_request \<Rightarrow> db \<Rightarrow> exn + admin_reply \<times> db" where
  "admin_plan_endpoint now AdminPlans db = Inr (PlanRows (list_plans now db), db)"
| "admin_plan_endpoint now (AdminPlan i) db = shown (\<lambda>(p, n). PlanRow p n) (get_plan now i db) db"
| "admin_plan_endpoint now (AddPlan data) db = (case create_plan now data db of ((p, n), db') \<Rightarrow> Inr (PlanRow p n, db'))"
| "admin_plan_endpoint now (EditPlan i data) db = answer (\<lambda>(p, n). PlanRow p n) (update_plan now i data db)"
| "admin_plan_endpoint now (DropPlan i) db = finished (delete_plan now i db)"

section \<open>Coupons, gift cards, invitations\<close>

datatype coupon_request =
    AdminCoupons int int
  | AdminCoupon int
  | AddCoupon coupon_create
  | GenerateCoupons int coupon_create
  | EditCoupon int coupon_update
  | ToggleCoupon int
  | DropCoupon int

fun admin_coupon_endpoint :: "admin_env \<Rightarrow> int \<Rightarrow> admin_random \<Rightarrow> coupon_request \<Rightarrow> db \<Rightarrow> exn + admin_reply \<times> db" where
  "admin_coupon_endpoint E now rnd (AdminCoupons offset limit) db =
     listed (in_range offset limit) (CouponRows (coupons_all db offset limit)) db"
| "admin_coupon_endpoint E now rnd (AdminCoupon i) db = shown CouponRow (get_coupon i db) db"
| "admin_coupon_endpoint E now rnd (AddCoupon data) db =
     answer CouponRow (create_coupon (ad_codec E) now (an_codes rnd 0) data db)"
| "admin_coupon_endpoint E now rnd (GenerateCoupons n data) db =
     answer CouponRows (generate_coupons (ad_codec E) now (an_codes rnd) n data db)"
| "admin_coupon_endpoint E now rnd (EditCoupon i data) db = answer CouponRow (update_coupon (ad_codec E) now i data db)"
| "admin_coupon_endpoint E now rnd (ToggleCoupon i) db = answer CouponRow (toggle_coupon now i db)"
| "admin_coupon_endpoint E now rnd (DropCoupon i) db = finished (delete_coupon i db)"

datatype giftcard_request =
    AdminGiftcards int int
  | AdminGiftcard int
  | AddGiftcard giftcard_create
  | GenerateGiftcards int giftcard_create
  | EditGiftcard int giftcard_update
  | DropGiftcard int

fun admin_giftcard_endpoint :: "int \<Rightarrow> admin_random \<Rightarrow> giftcard_request \<Rightarrow> db \<Rightarrow> exn + admin_reply \<times> db" where
  "admin_giftcard_endpoint now rnd (AdminGiftcards offset limit) db =
     listed (in_range offset limit) (GiftcardRows (giftcards_all db offset limit)) db"
| "admin_giftcard_endpoint now rnd (AdminGiftcard i) db = shown GiftcardRow (get_giftcard i db) db"
| "admin_giftcard_endpoint now rnd (AddGiftcard data) db = answer GiftcardRow (create_giftcard now (an_codes rnd 0) data db)"
| "admin_giftcard_endpoint now rnd (GenerateGiftcards n data) db =
     answer GiftcardRows (generate_giftcards now (an_codes rnd) n data db)"
| "admin_giftcard_endpoint now rnd (EditGiftcard i data) db = answer GiftcardRow (update_giftcard now i data db)"
| "admin_giftcard_endpoint now rnd (DropGiftcard i) db = finished (delete_giftcard i db)"

datatype invite_admin_request =
    AdminInviteCodes int int
  | AddInviteCode "int option" "string option" int
  | EditInviteCode int invite_update
  | DropInviteCode int
  | AdminCommissionLogs int int

fun admin_invite_endpoint :: "int \<Rightarrow> admin_random \<Rightarrow> invite_admin_request \<Rightarrow> db \<Rightarrow> exn + admin_reply \<times> db" where
  "admin_invite_endpoint now rnd (AdminInviteCodes offset limit) db =
     listed (in_range offset limit) (InviteRows (invite_codes_all db offset limit)) db"
| "admin_invite_endpoint now rnd (AddInviteCode uid c status) db =
     answer InviteRow (admin_create_invite now (an_codes rnd 0) uid c status db)"
| "admin_invite_endpoint now rnd (EditInviteCode i data) db = answer InviteRow (admin_update_invite now i data db)"
| "admin_invite_endpoint now rnd (DropInviteCode i) db = finished (admin_delete_invite i db)"
| "admin_invite_endpoint now rnd (AdminCommissionLogs offset limit) db =
     listed (in_range offset limit) (CommissionRows (commission_logs_all db offset limit)) db"

section \<open>Notices and articles\<close>

datatype notice_request =
    AdminNotices int int
  | AdminNotice int
  | AddNotice notice_create
  | EditNotice int "(string \<times> json) list"
  | DropNotice int

text \<open>The pages of administrators have at most 100 rows, those of the staff 200.\<close>

fun notice_endpoint :: "int \<Rightarrow> int \<Rightarrow> notice_request \<Rightarrow> db \<Rightarrow> exn + admin_reply \<times> db" where
  "notice_endpoint cap now (AdminNotices page sz) db =
     (case list_all_notices page sz db of (ns, n) \<Rightarrow> listed (page_ok cap page sz) (NoticeRows ns n) db)"
| "notice_endpoint cap now (AdminNotice i) db = shown NoticeRow (get_notice i db) db"
| "notice_endpoint cap now (AddNotice data) db = answer NoticeRow (Inr (create_notice now data db))"
| "notice_endpoint cap now (EditNotice i data) db = answer NoticeRow (update_notice now i data db)"
| "notice_endpoint cap now (DropNotice i) db = finished (delete_notice i db)"

datatype knowledge_request =
    AdminKnowledge int int
  | AdminArticle int
  | AddKnowledge knowledge_create
  | EditKnowledge int "(string \<times> json) list"
  | DropKnowledge int

fun admin_knowledge_endpoint :: "int \<Rightarrow> knowledge_request \<Rightarrow> db \<Rightarrow> exn + admin_reply \<times> db" where
  "admin_knowledge_endpoint now (AdminKnowledge page sz) db =
     (case list_all_knowledge page sz db of (ks, n) \<Rightarrow> listed (page_ok 100 page sz) (KnowledgeRows ks n) db)"
| "admin_knowledge_endpoint now (AdminArticle i) db = shown KnowledgeRow (get_knowledge i db) db"
| "admin_knowledge_endpoint now (AddKnowledge data) db = answer KnowledgeRow (Inr (create_knowledge now data db))"
| "admin_knowledge_endpoint now (EditKnowledge i data) db = answer KnowledgeRow (update_knowledge now i data db)"
| "admin_knowledge_endpoint now (DropKnowledge i) db = finished (delete_knowledge i db)"

section \<open>Settings\<close>

datatype setting_request =
    SettingGroupList
  | SettingGroup string
  | SaveValue string json
  | SaveValues "(string \<times> json) list"
  | EmailTemplates
  | MailTest
  | TelegramWebhook string
  | AdminSettings int int
  | AdminSetting int
  | AddSetting setting_create
  | EditSetting int setting_update
  | DropSetting int

text \<open>A value of the body types \<open>str | int | bool | dict | list\<close>: no null, and of the floats only the whole ones of
  64 bit, which become integers.\<close>

definition whole_double :: "double \<Rightarrow> bool" where
  "whole_double x \<longleftrightarrow> scaled_num (mant x) (expo x) mod scaled_den 1 (expo x) = 0"

definition body_value :: "json \<Rightarrow> exn + json" where
  "body_value v = (case v of
       JNull \<Rightarrow> Inl ValueError
     | JFloat x \<Rightarrow> (let n = trunc_double x in guardE (\<not> whole_double x \<or> n \<le> - (2 ^ 63) \<or> 2 ^ 63 \<le> n) ValueError (Inr (JInt n)))
     | _ \<Rightarrow> Inr v)"

definition body_values :: "(string \<times> json) list \<Rightarrow> exn + (string \<times> json) list" where
  "body_values items = mapE (\<lambda>(k, v). bindE (body_value v) (\<lambda>w. Inr (k, w))) items"

definition email_templates :: "string list \<Rightarrow> string list" where
  "email_templates files = sort (filter (\<lambda>n. suffix ''.html'' n) files)"

definition test_mail :: "admin_env \<Rightarrow> int \<Rightarrow> user \<Rightarrow> db \<Rightarrow> bool \<times> db" where
  "test_mail E now u db =
     (case get_str (ad_settings E) now ''app_name'' ''PyBoard'' db of (name, db1) \<Rightarrow>
     (case get_str (ad_settings E) now ''app_url'' [] db1 of (url, db2) \<Rightarrow>
        send_mail_now (ad_mailer E) (ad_settings E) now
          \<lparr>md_email = us_email u, md_subject = ''This is PyBoard test email'', md_template_name = ''system_notify'',
             md_template_value = [(''name'', JStr name), (''content'', JStr ''This is PyBoard test email''), (''url'', JStr url)]\<rparr> db2))"

definition install_webhook :: "admin_env \<Rightarrow> int \<Rightarrow> string \<Rightarrow> db \<Rightarrow> exn + db" where
  "install_webhook E now given_token db =
     (case (if given_token = [] then get_str (ad_settings E) now ''telegram_bot_token'' [] db else (given_token, db)) of (token, db1) \<Rightarrow>
     (case get_str (ad_settings E) now ''app_url'' [] db1 of (url, db2) \<Rightarrow>
        let app_url = rstrip_chars {CHR ''/''} url in
        guardE (token = [] \<or> app_url = []) (BadRequest ''telegram_bot_token or app_url'')
          (set_webhook (ap_bot (ad_api E)) now token app_url db2)))"

fun admin_setting_endpoint :: "admin_env \<Rightarrow> int \<Rightarrow> user \<Rightarrow> setting_request \<Rightarrow> db \<Rightarrow> exn + admin_reply \<times> db" where
  "admin_setting_endpoint E now u SettingGroupList db = answer SettingGroups (fetch_config (ad_settings E) now None db)"
| "admin_setting_endpoint E now u (SettingGroup g) db = answer SettingGroups (fetch_config (ad_settings E) now (Some g) db)"
| "admin_setting_endpoint E now u (SaveValue k v) db =
     bindE (body_value v) (\<lambda>w. finished (save_config (ad_settings E) now k w db))"
| "admin_setting_endpoint E now u (SaveValues items) db =
     bindE (body_values items) (\<lambda>ws. finished (batch_save_config (ad_settings E) now ws db))"
| "admin_setting_endpoint E now u EmailTemplates db = Inr (Names (email_templates (ad_templates E)), db)"
| "admin_setting_endpoint E now u MailTest db = answer Sent (Inr (test_mail E now u db))"
| "admin_setting_endpoint E now u (TelegramWebhook token) db = finished (install_webhook E now token db)"
| "admin_setting_endpoint E now u (AdminSettings offset limit) db = unchecked_rows offset limit (SettingRows (list_settings offset limit db)) db"
| "admin_setting_endpoint E now u (AdminSetting i) db = shown SettingRow (get_setting i db) db"
| "admin_setting_endpoint E now u (AddSetting data) db = answer SettingRow (create_setting (ad_settings E) now data db)"
| "admin_setting_endpoint E now u (EditSetting i data) db = answer SettingRow (update_setting (ad_settings E) now i data db)"
| "admin_setting_endpoint E now u (DropSetting i) db = finished (delete_setting (ad_settings E) i db)"

section \<open>Nodes\<close>

datatype node_admin_request =
    AdminGroups
  | AdminRoutes
  | AdminNodes
  | AdminNode int
  | ChangeServers server_request

fun admin_server_endpoint :: "admin_env \<Rightarrow> int \<Rightarrow> node_admin_request \<Rightarrow> db \<Rightarrow> exn + admin_reply \<times> db" where
  "admin_server_endpoint E now AdminGroups db = Inr (GroupRows (list_groups (ad_codec E) db), db)"
| "admin_server_endpoint E now AdminRoutes db = Inr (RouteRows (list_routes (ad_codec E) db), db)"
| "admin_server_endpoint E now AdminNodes db = Inr (NodeRows (list_nodes (ad_codec E) db), db)"
| "admin_server_endpoint E now (AdminNode i) db = shown NodeRow (get_node (ad_codec E) i db) db"
| "admin_server_endpoint E now (ChangeServers req) db = finished (ServerFacts.serve (ad_codec E) now req db)"

section \<open>Statistics, system, logs, mails and failed jobs\<close>

datatype stat_request =
    StatOverview
  | OrderSeries int
  | ServerRanking string int
  | UserRanking string int
  | TrafficOf int int

fun stat_endpoint :: "int \<Rightarrow> stat_request \<Rightarrow> db \<Rightarrow> exn + admin_reply \<times> db" where
  "stat_endpoint now StatOverview db = Inr (Overview (stat_overview db), db)"
| "stat_endpoint now (OrderSeries limit) db = unchecked_rows 0 limit (StatSeries (order_series limit db)) db"
| "stat_endpoint now (ServerRanking period limit) db = unchecked_rows 0 limit (ServerRank (server_rank now period limit db)) db"
| "stat_endpoint now (UserRanking period limit) db = unchecked_rows 0 limit (UserRank (user_rank now period limit db)) db"
| "stat_endpoint now (TrafficOf uid limit) db = unchecked_rows 0 limit (UserTraffic (user_traffic_log uid limit db)) db"

datatype system_request = SystemStatus | QueueStats | QueueWorkload

definition system_status :: "admin_env \<Rightarrow> int \<Rightarrow> (string \<times> json) list" where
  "system_status E now = (''time'', JInt now) # ad_host E"

fun system_endpoint :: "admin_env \<Rightarrow> int \<Rightarrow> system_request \<Rightarrow> db \<Rightarrow> exn + admin_reply \<times> db" where
  "system_endpoint E now SystemStatus db = Inr (HostStatus (system_status E now), db)"
| "system_endpoint E now QueueStats db = (case queue_stats db of (qs, n) \<Rightarrow> Inr (QueueFigures qs n, db))"
| "system_endpoint E now QueueWorkload db = Inr (Workload (queue_workload db), db)"

datatype log_request = LogList int int log_query | LogDetail int | DropLog int

fun log_endpoint :: "log_request \<Rightarrow> db \<Rightarrow> exn + admin_reply \<times> db" where
  "log_endpoint (LogList offset limit Q) db = listed (in_range offset limit) (LogRows (list_logs offset limit Q db)) db"
| "log_endpoint (LogDetail i) db = shown LogRow (get_log i db) db"
| "log_endpoint (DropLog i) db = finished (delete_log i db)"

datatype mail_request = SendMail mail_send | MailLogs int int | MailLog int

fun mail_endpoint :: "admin_env \<Rightarrow> int \<Rightarrow> mail_request \<Rightarrow> db \<Rightarrow> exn + admin_reply \<times> db" where
  "mail_endpoint E now (SendMail m) db = answer Sent (Inr (send_mail_now (ad_mailer E) (ad_settings E) now m db))"
| "mail_endpoint E now (MailLogs offset limit) db =
     listed (in_range offset limit) (MailRows (list_mail_logs (ad_codec E) offset limit db)) db"
| "mail_endpoint E now (MailLog i) db = shown MailRow (get_mail_log (ad_codec E) i db) db"

datatype failed_job_request = FailedJobs int int | FailedJob int | RetryJob int | DropFailedJob int

fun failed_job_endpoint :: "admin_env \<Rightarrow> int \<Rightarrow> failed_job_request \<Rightarrow> db \<Rightarrow> exn + admin_reply \<times> db" where
  "failed_job_endpoint E now (FailedJobs offset limit) db = listed (in_range offset limit) (FailedRows (list_failed_jobs offset limit db)) db"
| "failed_job_endpoint E now (FailedJob i) db = shown FailedRow (get_failed_job i db) db"
| "failed_job_endpoint E now (RetryJob i) db = finished (retry_job (ap_queue (ad_api E)) now (ad_after E) i db)"
| "failed_job_endpoint E now (DropFailedJob i) db = finished (delete_failed_job i db)"

section \<open>Tickets\<close>

datatype desk_request =
    DeskTickets int int "int option" "int option" "string option"
  | DeskTicket int
  | DeskReply int string
  | DeskClose int

fun desk_endpoint :: "int \<Rightarrow> user \<Rightarrow> desk_request \<Rightarrow> db \<Rightarrow> exn + admin_reply \<times> db" where
  "desk_endpoint now u (DeskTickets page sz status reply_status email) db =
     (case list_admin_tickets page sz status reply_status email db of (ts, n) \<Rightarrow> listed (page_ok 200 page sz) (TicketRows ts n) db)"
| "desk_endpoint now u (DeskTicket i) db = shown TicketRow (get_admin_ticket i db) db"
| "desk_endpoint now u (DeskReply i message) db = answer TicketRow (reply_admin_ticket now (us_id u) i message db)"
| "desk_endpoint now u (DeskClose i) db = finished (close_admin_ticket now i db)"

section \<open>Accounts\<close>

datatype account_admin_request =
    AdminUsers int int "string option" "string option"
  | AdminUser int
  | AddUser user_create
  | GenerateUsers user_generate
  | EditUser int user_update
  | BanUser int bool
  | ResetUser int
  | InviteUserOf int "string option"
  | DropUser int

fun admin_user_endpoint :: "passwords \<Rightarrow> int \<Rightarrow> admin_random \<Rightarrow> account_admin_request \<Rightarrow> db \<Rightarrow> exn + admin_reply \<times> db" where
  "admin_user_endpoint P now rnd (AdminUsers offset limit q status) db =
     unchecked_rows offset limit (UserRows (list_users offset limit q status db)) db"
| "admin_user_endpoint P now rnd (AdminUser i) db = shown UserRow (get_user i db) db"
| "admin_user_endpoint P now rnd (AddUser data) db =
     bindE (user_create_request data) (\<lambda>d. answer UserRow (create_user P (an_accounts rnd 0) now d db))"
| "admin_user_endpoint P now rnd (GenerateUsers data) db = answer NewUsers (admin_generate_users P (an_accounts rnd) now data db)"
| "admin_user_endpoint P now rnd (EditUser i data) db = answer UserRow (update_user P (ar_salt (an_accounts rnd 0)) now i data db)"
| "admin_user_endpoint P now rnd (BanUser i banned) db = finished (admin_set_banned now i banned db)"
| "admin_user_endpoint P now rnd (ResetUser i) db = finished (admin_reset_security (an_accounts rnd 0) now i db)"
| "admin_user_endpoint P now rnd (InviteUserOf i email) db = finished (admin_set_invite_user now i email db)"
| "admin_user_endpoint P now rnd (DropUser i) db = finished (delete_user now i db)"

section \<open>Behind the logins\<close>

datatype admin_request =
    AOrders admin_order_request
  | APayments payment_admin_request
  | APlans plan_request
  | ACoupons coupon_request
  | AGiftcards giftcard_request
  | AInvites invite_admin_request
  | ANotices notice_request
  | AKnowledge knowledge_request
  | ASettings setting_request
  | AServers node_admin_request
  | AStats stat_request
  | ASystem system_request
  | ALogs log_request
  | AMail mail_request
  | AFailedJobs failed_job_request
  | ATickets desk_request
  | AUsers account_admin_request

fun admin_endpoint :: "admin_env \<Rightarrow> int \<Rightarrow> admin_random \<Rightarrow> user \<Rightarrow> admin_request \<Rightarrow> db \<Rightarrow> exn + admin_reply \<times> db" where
  "admin_endpoint E now rnd u (AOrders r) db = admin_order_endpoint E now rnd u r db"
| "admin_endpoint E now rnd u (APayments r) db = admin_payment_endpoint E now rnd r db"
| "admin_endpoint E now rnd u (APlans r) db = admin_plan_endpoint now r db"
| "admin_endpoint E now rnd u (ACoupons r) db = admin_coupon_endpoint E now rnd r db"
| "admin_endpoint E now rnd u (AGiftcards r) db = admin_giftcard_endpoint now rnd r db"
| "admin_endpoint E now rnd u (AInvites r) db = admin_invite_endpoint now rnd r db"
| "admin_endpoint E now rnd u (ANotices r) db = notice_endpoint 100 now r db"
| "admin_endpoint E now rnd u (AKnowledge r) db = admin_knowledge_endpoint now r db"
| "admin_endpoint E now rnd u (ASettings r) db = admin_setting_endpoint E now u r db"
| "admin_endpoint E now rnd u (AServers r) db = admin_server_endpoint E now r db"
| "admin_endpoint E now rnd u (AStats r) db = stat_endpoint now r db"
| "admin_endpoint E now rnd u (ASystem r) db = system_endpoint E now r db"
| "admin_endpoint E now rnd u (ALogs r) db = log_endpoint r db"
| "admin_endpoint E now rnd u (AMail r) db = mail_endpoint E now r db"
| "admin_endpoint E now rnd u (AFailedJobs r) db = failed_job_endpoint E now r db"
| "admin_endpoint E now rnd u (ATickets r) db = desk_endpoint now u r db"
| "admin_endpoint E now rnd u (AUsers r) db = admin_user_endpoint (au_passwords (ap_auth (ad_api E))) now rnd r db"

definition admin_api :: "admin_env \<Rightarrow> int \<Rightarrow> admin_random \<Rightarrow> (string \<times> string) option \<Rightarrow> admin_request \<Rightarrow> db \<Rightarrow> exn + admin_reply \<times> db" where
  "admin_api E now rnd cred req db =
     bindE (get_bearer_token cred) (\<lambda>token.
     bindE (require_admin (ap_auth (ad_api E)) now token db) (\<lambda>u. admin_endpoint E now rnd u req db))"

datatype staff_request =
    StaffTickets int int "int option"
  | StaffTicket int
  | StaffReply int string
  | StaffClose int
  | StaffUser int
  | StaffEditUser int user_update
  | StaffBan int bool
  | StaffMail int mail_send
  | StaffPlans
  | StaffNotices int int
  | StaffAddNotice notice_create
  | StaffEditNotice int "(string \<times> json) list"
  | StaffDropNotice int

fun staff_endpoint :: "admin_env \<Rightarrow> int \<Rightarrow> admin_random \<Rightarrow> user \<Rightarrow> staff_request \<Rightarrow> db \<Rightarrow> exn + admin_reply \<times> db" where
  "staff_endpoint E now rnd u (StaffTickets page sz status) db = desk_endpoint now u (DeskTickets page sz status None None) db"
| "staff_endpoint E now rnd u (StaffTicket i) db = desk_endpoint now u (DeskTicket i) db"
| "staff_endpoint E now rnd u (StaffReply i message) db = desk_endpoint now u (DeskReply i message) db"
| "staff_endpoint E now rnd u (StaffClose i) db = desk_endpoint now u (DeskClose i) db"
| "staff_endpoint E now rnd u (StaffUser i) db = shown UserRow (get_user i db) db"
| "staff_endpoint E now rnd u (StaffEditUser i data) db =
     answer UserRow (update_user (au_passwords (ap_auth (ad_api E))) (ar_salt (an_accounts rnd 0)) now i data db)"
| "staff_endpoint E now rnd u (StaffBan i banned) db = finished (admin_set_banned now i banned db)"
| "staff_endpoint E now rnd u (StaffMail i m) db =
     bindE (get_user i db) (\<lambda>v.
       answer Sent (Inr (send_mail_now (ad_mailer E) (ad_settings E) now (m\<lparr>md_email := us_email v\<rparr>) db)))"
| "staff_endpoint E now rnd u StaffPlans db = Inr (PlanRows (list_plans now db), db)"
| "staff_endpoint E now rnd u (StaffNotices page sz) db = notice_endpoint 200 now (AdminNotices page sz) db"
| "staff_endpoint E now rnd u (StaffAddNotice data) db = notice_endpoint 200 now (AddNotice data) db"
| "staff_endpoint E now rnd u (StaffEditNotice i data) db = notice_endpoint 200 now (EditNotice i data) db"
| "staff_endpoint E now rnd u (StaffDropNotice i) db = notice_endpoint 200 now (DropNotice i) db"

definition staff_api :: "admin_env \<Rightarrow> int \<Rightarrow> admin_random \<Rightarrow> (string \<times> string) option \<Rightarrow> staff_request \<Rightarrow> db \<Rightarrow> exn + admin_reply \<times> db" where
  "staff_api E now rnd cred req db =
     bindE (get_bearer_token cred) (\<lambda>token.
     bindE (require_staff (ap_auth (ad_api E)) now token db) (\<lambda>u. staff_endpoint E now rnd u req db))"

end
