(* ===== verification/Privileges.thy ===== *)
theory Privileges
  imports UserIsolation PublicApi AdminApi ServerApi
begin

text \<open>
  The whole JSON API of the application (the routers that \<open>main.py\<close> includes, but for the HTML pages of the
  administration) in one step function, and who can become administrator or staff through it.
\<close>

section \<open>The surface\<close>

datatype web_request =
    AuthCall "string option" auth_http
  | PublicCall public_request
  | UserCall "(string \<times> string) option" user_request
  | AdminCall "(string \<times> string) option" admin_request
  | StaffCall "(string \<times> string) option" staff_request
  | NodeCall node_call node_request

record web_draw =
  wd_user :: api_random
  wd_admin :: admin_random

type_synonym web_call = "int \<times> web_draw \<times> web_request"

record web_env =
  we_admin :: admin_env
  we_etag :: "json list \<Rightarrow> string"
  we_node :: node_api

abbreviation we_api :: "web_env \<Rightarrow> api_env" where
  "we_api W \<equiv> ad_api (we_admin W)"

definition after_call :: "db \<Rightarrow> exn + 'a \<times> db \<Rightarrow> db" where
  "after_call db r = (case r of Inl _ \<Rightarrow> db | Inr (_, db') \<Rightarrow> db')"

lemma after_call_simps [simp]: "after_call db (Inl e) = db" "after_call db (Inr (x, db')) = db'"
  by (simp_all add: after_call_def)

fun serve_web :: "web_env \<Rightarrow> web_call \<Rightarrow> db \<Rightarrow> db" where
  "serve_web W (now, rnd, AuthCall ip req) db =
     after_call db (auth_endpoint (we_api W) (ad_after (we_admin W)) now (wd_user rnd) ip req db)"
| "serve_web W (now, rnd, PublicCall req) db = after_call db (public_endpoint (we_api W) now (wd_user rnd) req db)"
| "serve_web W (now, rnd, UserCall cred req) db = after_call db (user_api (we_api W) (we_etag W) now (wd_user rnd) cred req db)"
| "serve_web W (now, rnd, AdminCall cred req) db = after_call db (admin_api (we_admin W) now (wd_admin rnd) cred req db)"
| "serve_web W (now, rnd, StaffCall cred req) db = after_call db (staff_api (we_admin W) now (wd_admin rnd) cred req db)"
| "serve_web W (now, rnd, NodeCall call rq) db = after_call db (node_endpoint (we_node W) now call rq db)"

text \<open>A request to the administration with the token of an account that may use it.\<close>

fun privileged_call :: "web_env \<Rightarrow> web_call \<Rightarrow> db \<Rightarrow> bool" where
  "privileged_call W (now, rnd, AdminCall cred req) db =
     is_ok (bindE (get_bearer_token cred) (\<lambda>token. require_admin (ap_auth (we_api W)) now token db))"
| "privileged_call W (now, rnd, StaffCall cred req) db =
     is_ok (bindE (get_bearer_token cred) (\<lambda>token. require_staff (ap_auth (we_api W)) now token db))"
| "privileged_call W call db = False"

section \<open>Steps that give nobody a role\<close>

definition role_step :: "db \<Rightarrow> db \<Rightarrow> bool" where
  "role_step db db' \<longleftrightarrow> (api_ok db \<longrightarrow> api_ok db' \<and> (\<forall>r\<in>set (roles db'). r \<in> set (roles db) \<or> snd r = (False, False)))"

definition same_desk :: "db \<Rightarrow> db \<Rightarrow> bool" where
  "same_desk db db' \<longleftrightarrow> t_users db' = t_users db \<and> t_orders db' = t_orders db \<and> t_tickets db' = t_tickets db"

lemma role_step_refl [simp]: "role_step db db"
  by (simp add: role_step_def)

lemma role_step_trans: "role_step a b \<Longrightarrow> role_step b c \<Longrightarrow> role_step a c"
  unfolding role_step_def by blast

lemma same_desk_refl [simp]: "same_desk db db"
  by (simp add: same_desk_def)

lemma same_desk_trans: "same_desk a b \<Longrightarrow> same_desk b c \<Longrightarrow> same_desk a c"
  by (simp add: same_desk_def)

lemma desk_role: "same_desk db db' \<Longrightarrow> role_step db db'"
  by (simp add: same_desk_def role_step_def api_ok_def wf_accounts_def roles_def)

lemma desk_cache [simp]: "same_desk db (db\<lparr>t_cache := c\<rparr>)" "same_desk db (put_cache now k v ex db)"
  "same_desk db (put_invite now db iv)"
  by (simp_all add: same_desk_def put_cache_def put_invite_def)

lemma desk_of_cache: "\<exists>c. db' = db\<lparr>t_cache := c\<rparr> \<Longrightarrow> same_desk db db'"
  by auto

lemma desk_get_int: "get_int S now k d db = Inr (n, db') \<Longrightarrow> same_desk db db'"
  using get_int_state desk_of_cache by blast

lemma desk_get_json: "get_json S now k d db = Inr (j, db') \<Longrightarrow> same_desk db db'"
  using get_json_state desk_of_cache by blast

lemma desk_get_str: "get_str S now k d db = (v, db') \<Longrightarrow> same_desk db db'"
  using get_str_state [of S now k d db] desk_of_cache by fastforce

lemma desk_quiet: "quiet now db db' \<Longrightarrow> same_desk db db'"
  by (erule quietE) simp

lemma desk_enqueue:
  assumes "enqueue_job Q now after n a k db = Inr (r, db')"
  shows "same_desk db db'"
proof -
  have "same_desk db (snd (insert_job now j db))" for j by (simp add: insert_job_def same_desk_def)
  then show ?thesis using assms
    by (auto simp: enqueue_job_def result_simps Let_def split_beta split: if_splits)
qed

lemma role_put_user:
  assumes "u \<in> set (rows (t_users db))" "role u' = role u"
  shows "role_step db (put_user now db u')"
proof -
  have "role x = role u \<or> x \<in> set (rows (t_users db))" if "x \<in> set (rows (repo_update user_entity now (t_users db) u'))" for x
    using that assms(2) by (auto simp: rows_repo_update role_stored split: if_splits)
  moreover have "role u \<in> set (roles db)" using assms(1) by (simp add: roles_def)
  ultimately show ?thesis
    by (fastforce simp: role_step_def api_ok_def wf_accounts_def roles_def put_user_def users.wf_update)
qed

lemma role_user_step: "user_step uid db db' \<Longrightarrow> role_step db db'"
  by (simp add: user_step_def role_step_def)

lemma role_bot:
  assumes "bot_change staff db db'"
  shows "role_step db db'"
proof -
  have map: "map account_core (rows (t_users db')) = map account_core (rows (t_users db))"
    and rest: "next_id (t_users db') = next_id (t_users db)" "t_orders db' = t_orders db"
      "wf_table ticket_entity (t_tickets db) \<longrightarrow> wf_table ticket_entity (t_tickets db')"
    using assms by (simp_all add: bot_change_def)
  have "role (account_core u) = role u" "us_id (account_core u) = us_id u" for u by (simp_all add: role_def account_core_def)
  then have "map role us = map role (map account_core us)" "map us_id us = map us_id (map account_core us)" for us by simp_all
  then have same: "map role (rows (t_users db')) = map role (rows (t_users db))" "map us_id (rows (t_users db')) = map us_id (rows (t_users db))"
    using map by metis+
  have wf: "wf_table user_entity t \<longleftrightarrow> distinct (map us_id (rows t)) \<and> list_all (\<lambda>i. 0 < i \<and> i < next_id t) (map us_id (rows t)) \<and> 0 < next_id t" for t
    by (simp add: wf_table_def user_entity_id list.pred_map comp_def)
  show ?thesis using rest same by (simp add: role_step_def api_ok_def wf_accounts_def roles_def wf)
qed

section \<open>The nodes\<close>

lemma desk_push:
  assumes "handle_uniproxy_push Q now after n node_type data db = Inr db'"
  shows "same_desk db db'"
proof -
  have push: "same_desk d d'" if "push_job Q now after job args queue d = Inr d'" for job args queue d d'
    using that desk_enqueue by (auto simp: push_job_def result_simps)
  let ?db2 = "put_cache now (server_cache_key node_type ''LAST_PUSH_AT'' (nd_id n)) (JInt now) 3600
    (put_cache now (server_cache_key node_type ''ONLINE_USER'' (nd_id n)) (JInt (int (length data))) 3600 db)"
  have "same_desk db ?db2" using desk_cache(2) same_desk_trans by blast
  moreover have "same_desk ?db2 db'"
  proof (cases "data = []")
    case False
    with assms obtain d3 d4 where "push_job Q now after ''traffic_fetch'' [JObj data, JObj [(''id'', JInt (nd_id n)), (''rate'', JStr (nd_rate n))], JStr node_type]
        ''traffic_fetch'' ?db2 = Inr d3"
      "push_job Q now after ''stat_user'' [JObj data, JObj [(''id'', JInt (nd_id n)), (''rate'', JStr (nd_rate n))], JStr node_type, JStr ''d''] ''stat'' d3 = Inr d4"
      "push_job Q now after ''stat_server'' [JObj data, JObj [(''id'', JInt (nd_id n)), (''rate'', JStr (nd_rate n))], JStr node_type, JStr ''d''] ''stat'' d4 = Inr db'"
      by (simp only: handle_uniproxy_push_def Let_def if_False bindE_eq_Inr) blast
    then show ?thesis using push same_desk_trans by meson
  qed (use assms in \<open>simp add: handle_uniproxy_push_def Let_def\<close>)
  ultimately show ?thesis by (rule same_desk_trans)
qed

lemma desk_alive:
  assumes "handle_alive S now node_type node_id data db = Inr db'"
  shows "same_desk db db'"
proof -
  from assms obtain mode db1 where g: "get_int S now ''device_limit_mode'' 0 db = Inr (mode, db1)"
    unfolding handle_alive_def Let_def bindE_eq_Inr by fast
  with assms obtain read db2 where f: "foldE (alive_one (sv_codec S) now (mode = 1) (node_type @ str_int node_id) read) data db1 = Inr db2"
    and db': "db' = db2\<lparr>t_cache := snd (cache_delete ''ALIVE_LIST'' (t_cache db2))\<rparr>"
    by (simp add: handle_alive_def Let_def bindE_eq_Inr) blast
  have "same_desk db1 db2"
  proof (rule foldE_invariant [OF f, where P = "same_desk db1"])
    fix x s t assume s: "same_desk db1 s" and a: "alive_one (sv_codec S) now (mode = 1) (node_type @ str_int node_id) read x s = Inr t"
    from a have "same_desk s t" by (auto simp: alive_one_def result_simps split: json.splits if_splits)
    with s show "same_desk db1 t" by (rule same_desk_trans)
  qed simp
  then show ?thesis using same_desk_trans [OF desk_get_int [OF g]] same_desk_trans desk_cache(1) unfolding db' by blast
qed

lemma desk_alive_list: "get_alive_list C now db = Inr (r, db') \<Longrightarrow> same_desk db db'"
  by (auto simp: get_alive_list_def result_simps Let_def same_desk_def put_cache_def split: prod.splits option.splits json.splits if_splits)

lemma desk_context:
  assumes "with_context A now c rq db k = Inr (reply, db')" "\<And>t i n d. k t i n d = Inr (reply, db') \<Longrightarrow> same_desk d db'"
  shows "same_desk db db'"
proof -
  obtain r db1 where u: "uniproxy_context (na_settings A) now c (request_input rq) db = (r, db1)" by fastforce
  have "same_desk db db1"
    using u by (auto simp: uniproxy_context_def Let_def desk_get_str split: if_splits prod.splits option.splits)
  moreover have "same_desk db1 db'" using assms u by (cases r) (auto simp: with_context_def)
  ultimately show ?thesis by (rule same_desk_trans)
qed

lemma desk_v2node:
  assumes "get_v2node_config S md5 now i db = Inr (r, db')"
  shows "same_desk db db'"
proof (cases "node_by_id db i")
  case None
  then show ?thesis using assms by (simp add: get_v2node_config_def)
next
  case (Some n)
  with assms obtain a d1 b d2 c d3 e where g: "get_int S now ''server_push_interval'' 60 db = Inr (a, d1)"
    "get_int S now ''server_pull_interval'' 60 d1 = Inr (b, d2)" "get_int S now ''server_node_report_min_traffic'' 0 d2 = Inr (c, d3)"
    "get_int S now ''server_device_online_min_traffic'' 0 d3 = Inr (e, db')"
    by (simp add: get_v2node_config_def bindE_eq_Inr Let_def) blast
  show ?thesis using g [THEN desk_get_int] same_desk_trans by blast
qed

lemma desk_node:
  assumes "node_endpoint A now call rq db = Inr (reply, db')"
  shows "same_desk db db'"
proof (cases call)
  case Config
  then obtain e d1 where g: "get_str (na_settings A) now ''server_token'' [] db = (e, d1)" by fastforce
  have "db' = db \<or> db' = d1 \<or> (\<exists>i r. get_v2node_config (na_settings A) (na_md5 A) now i d1 = Inr (r, db'))"
    using assms g Config by (auto simp: config_endpoint_def result_simps Let_def split: if_splits option.splits)
  then show ?thesis using desk_get_str [OF g] desk_v2node same_desk_trans by fastforce
next
  case (User c)
  then show ?thesis using assms
    by (auto simp: user_endpoint_def Let_def mark_uniproxy_check_def elim!: desk_context split: if_splits)
next
  case (Push c)
  then show ?thesis using assms
    by (auto simp: push_endpoint_def result_simps desk_push elim!: desk_context split: if_splits prod.splits)
next
  case (AliveList c)
  then show ?thesis using assms
    by (auto simp: alivelist_endpoint_def result_simps desk_alive_list elim!: desk_context)
next
  case (Alive c)
  then show ?thesis using assms
    by (auto simp: alive_endpoint_def result_simps desk_alive elim!: desk_context split: json.splits)
qed

section \<open>Logins and registrations\<close>

lemma role_registered:
  assumes "register A r now data ip db = Inr (tok, db')"
  shows "role_step db db'"
proof -
  obtain d inviter d7 u where q: "quiet now db d" and inv: "resolve_invite_user_id A now (uc_invite_code data) d = Inr (inviter, d7)"
    and u: "u = registered_user A r now data inviter"
    and db': "db' = d7\<lparr>t_users := repo_create user_entity now (t_users d7) u, t_cache := snd (cache_delete (code_key (uc_email data)) (t_cache d7))\<rparr>"
    by (rule register_shape [OF assms]) (rule that; assumption)
  have "same_desk d d7" using resolve_invite_shape [OF inv] by (simp add: same_desk_def other_tables_def)
  then have "role_step db d7" using same_desk_trans desk_quiet [OF q] desk_role by blast
  moreover have "snd (role (new_row user_entity now (t_users d7) u)) = (False, False)"
    by (simp add: u role_def new_row_def user_entity_def registered_user_def blank_user_def)
  then have "role_step d7 db'" by (auto simp: db' role_step_def api_ok_def wf_accounts_def roles_def users.wf_create)
  ultimately show ?thesis by (rule role_step_trans)
qed

lemma role_token:
  assumes "build_token_for_user_id A now uid d = Inr (tok, db')"
  shows "role_step d db'"
proof -
  from assms obtain u where u: "user_by_id d uid = Some u" and db': "db' = put_user now d (u\<lparr>us_last_login_at := Some now\<rparr>)"
    by (auto simp: build_token_for_user_id_def guardE_eq_Inr Let_def split: option.splits)
  show ?thesis unfolding db' using user_by_idD [OF u] by (intro role_put_user [of u]) (simp_all add: role_def)
qed

lemma role_token2:
  assumes "token2_login A now verify tok redirect db = Inr (ans, db')"
  shows "role_step db db'"
proof (cases ans)
  case (LoggedIn jwt)
  then obtain uid c where b: "build_token_for_user_id A now uid (db\<lparr>t_cache := c\<rparr>) = Inr (jwt, db')"
    using assms by (auto simp: token2_login_def bindE_eq_Inr Let_def split: if_splits prod.splits option.splits)
  show ?thesis by (rule role_step_trans [OF desk_role [OF desk_cache(1)] role_token [OF b]])
next
  case (Redirect url)
  then have "db' = db" using assms by (auto simp: token2_login_def bindE_eq_Inr Let_def split: if_splits prod.splits option.splits)
  then show ?thesis by simp
next
  case NoToken
  then obtain c where "db' = db\<lparr>t_cache := c\<rparr> \<or> db' = db"
    using assms by (auto simp: token2_login_def bindE_eq_Inr Let_def split: if_splits prod.splits option.splits)
  then show ?thesis using desk_role by auto
qed

lemma desk_verify_code:
  assumes "create_email_verify_code A random now data ip db = Inr (c, db')"
  shows "same_desk db db'"
proof -
  from assms obtain db1 db2 db3 where g: "check_email_verify_rate now ip db = Inr db1" "check_email_policy A now (vr_email data) db1 = Inr db2"
    "verify_if_enabled A now (vr_recaptcha_data data) ip db2 = Inr db3" and c: "\<exists>c. db' = db3\<lparr>t_cache := c\<rparr>"
    by (auto simp: create_email_verify_code_def bindE_eq_Inr guardE_eq_Inr Let_def split_beta)
  show ?thesis
    using desk_quiet [OF quiet_verify_rate [OF g(1)]] desk_quiet [OF quiet_policy [OF g(2)]] desk_quiet [OF quiet_turnstile [OF g(3)]]
      desk_of_cache [OF c] same_desk_trans by blast
qed

lemma desk_email_verify:
  assumes "send_email_verify E after now random data ip db = Inr db'"
  shows "same_desk db db'"
proof -
  from assms obtain code db1 where c: "create_email_verify_code (ap_auth E) random now data ip db = Inr (code, db1)"
    by (auto simp: send_email_verify_def bindE_eq_Inr)
  obtain name db2 where g2: "get_str (ap_settings E) now ''app_name'' ''PyBoard'' db1 = (name, db2)" by fastforce
  obtain url db3 where g3: "get_str (ap_settings E) now ''app_url'' [] db2 = (url, db3)" by fastforce
  have "same_desk db3 db'"
    using assms c g2 g3 desk_enqueue by (auto simp: send_email_verify_def split: sum.splits)
  then show ?thesis using desk_verify_code [OF c] desk_get_str [OF g2] desk_get_str [OF g3] same_desk_trans by blast
qed

lemma desk_record_pv: "record_invite_pv now c db = Inr db' \<Longrightarrow> same_desk db db'"
  by (auto simp: record_invite_pv_def result_simps split: if_splits option.splits)

lemma role_auth:
  assumes "auth_endpoint E after now rnd ip req db = Inr (reply, db')"
  shows "role_step db db'"
proof (cases req)
  case (RegisterReq data)
  then show ?thesis using assms role_registered by (auto simp: bindE_eq_Inr)
next
  case (LoginReq email pw rc)
  with assms obtain e tok where l: "login (ap_auth E) (ar_salt (rn_account rnd)) now e pw rc ip True db = Inr (tok, db')" by (auto simp: bindE_eq_Inr)
  from login_shape [OF l] obtain d u h where q: "quiet now db d" and u: "user_by_email d e = Some u"
    and db': "db' = put_user now d (u\<lparr>us_password := set_if h (us_password u), us_last_login_at := Some now\<rparr>)" by metis
  have "role_step d db'" unfolding db' using user_by_emailD [OF u] by (intro role_put_user [of u]) (simp_all add: role_def)
  then show ?thesis by (rule role_step_trans [OF desk_role [OF desk_quiet [OF q]]])
next
  case (Token2Login verify tok redirect)
  then show ?thesis using assms role_token2 by (auto simp: bindE_eq_Inr)
next
  case (ForgetReq data)
  with assms obtain f where l: "forget_password (ap_auth E) (ar_salt (rn_account rnd)) now f None ip db = Inr db'" by (auto simp: bindE_eq_Inr)
  from forget_shape [OF l] obtain d u d3 where q: "quiet now db d" and u: "user_by_email d (fr_email f) = Some u"
    and d3: "d3 = put_user now d (u\<lparr>us_password := hash_password (au_passwords (ap_auth E)) (ar_salt (rn_account rnd)) (fr_password f)\<rparr>)"
    and db': "db' = d3\<lparr>t_cache := snd (cache_delete (code_key (fr_email f)) (t_cache d3))\<rparr>" by metis
  have "role_step d d3" unfolding d3 using user_by_emailD [OF u] by (intro role_put_user [of u]) (simp_all add: role_def)
  moreover have "role_step d3 db'" unfolding db' by (rule desk_role [OF desk_cache(1)])
  ultimately show ?thesis using desk_role [OF desk_quiet [OF q]] role_step_trans by blast
next
  case (EmailVerify data)
  then show ?thesis using assms desk_email_verify desk_role by (auto simp: bindE_eq_Inr)
next
  case (RecordPv c)
  then show ?thesis using assms desk_record_pv desk_role by (auto simp: bindE_eq_Inr)
qed (use assms in \<open>auto simp: result_simps\<close>)

section \<open>The public endpoints\<close>

lemma desk_defaulted:
  assumes "get_defaulted_value S now item db = Inr (v, db')"
  shows "same_desk db db'"
  using assms by (auto simp: get_defaulted_value_def result_simps desk_get_int desk_get_json desk_get_str split: if_splits prod.splits)

lemma desk_items: "defaulted_items S now items db = Inr (vs, db') \<Longrightarrow> same_desk db db'"
proof (induction items arbitrary: db vs)
  case (Cons item items)
  then obtain v db1 ws where "get_defaulted_value S now item db = Inr (v, db1)" "defaulted_items S now items db1 = Inr (ws, db')"
    by (auto simp: result_simps)
  then show ?case using desk_defaulted Cons.IH same_desk_trans by blast
qed simp

lemma desk_groups: "defaulted_groups S now gs db = Inr (vs, db') \<Longrightarrow> same_desk db db'"
proof (induction gs arbitrary: db vs)
  case (Cons g gs)
  obtain n items where "g = (n, items)" by fastforce
  with Cons.prems obtain v db1 ws where "defaulted_items S now items db = Inr (v, db1)" "defaulted_groups S now gs db1 = Inr (ws, db')"
    by (auto simp: result_simps)
  then show ?case using desk_items Cons.IH same_desk_trans by blast
qed simp

definition quiet_field :: "config_field \<Rightarrow> bool" where
  "quiet_field f \<longleftrightarrow> (\<forall>S now db v db'. snd f S now db = Inr (v, db') \<longrightarrow> same_desk db db')"

lemma quiet_fields: "list_all quiet_field (common_fields w)"
proof -
  have "quiet_field (text_field n k d)" "quiet_field (int_field n k i f)" "quiet_field (json_field n k v)" "quiet_field (const_field n v)" for n k d i f v
    by (auto simp: quiet_field_def text_field_def int_field_def json_field_def const_field_def result_simps desk_get_int desk_get_json
        desk_get_str split: prod.splits)
  then show ?thesis by (simp add: common_fields_def)
qed

lemma desk_fields: "read_fields S now fs acc db = Inr (c, db') \<Longrightarrow> list_all quiet_field fs \<Longrightarrow> same_desk db db'"
proof (induction fs arbitrary: acc db)
  case (Cons f fs)
  obtain n read where f: "f = (n, read)" by fastforce
  with Cons.prems(1) obtain v db1 where r: "read S now db = Inr (v, db1)" "read_fields S now fs (dict_set n v acc) db1 = Inr (c, db')"
    by (auto simp: result_simps)
  have "same_desk db db1" using Cons.prems(2) r(1) by (auto simp: quiet_field_def f)
  then show ?case using Cons.IH [OF r(2)] Cons.prems(2) same_desk_trans by auto
qed simp

lemma desk_common:
  assumes "common_config S now db = Inr (c, db')"
  shows "same_desk db db'"
proof -
  from assms obtain w db1 gs db2 acc where g: "get_int S now ''email_whitelist_enable'' 0 db = Inr (w, db1)"
    "fetch_config S now (Some ''site'') db1 = Inr (gs, db2)" "read_fields S now (common_fields w) acc db2 = Inr (c, db')"
    by (auto simp: common_config_def bindE_eq_Inr)
  show ?thesis
    using desk_get_int [OF g(1)] desk_groups [OF g(2) [unfolded fetch_config_def]] desk_fields [OF g(3) quiet_fields] same_desk_trans by blast
qed

lemma role_subscribe:
  assumes "subscribe_endpoint E now rnd token flag agent db = Inr (reply, db')"
  shows "role_step db db'"
proof -
  from assms obtain u db1 res f where r: "resolve_subscribe_user (ap_sub E) now token db = Inr (u, db1)"
    and s: "render_subscription (ap_sub E) now (rn_text rnd) u (Some f) db1 = Inr (res, db')"
    by (auto simp: subscribe_endpoint_def result_simps)
  from r obtain meth d tok where g: "get_int (sb_settings (ap_sub E)) now ''show_subscribe_method'' 0 db = Inr (meth, d)"
    and t: "(if meth = 1 then take_one_time (sb_codec (ap_sub E)) now token d else if meth = 2 then check_totp (ap_sub E) now token d
       else Inr (token, d)) = Inr (tok, db1)"
    by (auto simp: resolve_subscribe_user_def bindE_eq_Inr guardE_eq_Inr split: option.splits)
  have one: "same_desk d d'" if "take_one_time (sb_codec (ap_sub E)) now token d = Inr (x, d')" for x d'
    using that by (auto simp: take_one_time_def Let_def split: prod.splits option.splits)
  have two: "same_desk d d'" if "check_totp (ap_sub E) now token d = Inr (x, d')" for x d'
  proof -
    obtain v c where c: "cache_get now (totp_key token) (t_cache d) = (v, c)" by fastforce
    show ?thesis
    proof (cases v)
      case None
      with that c obtain i dg u where p: "decode_totp_token token = Inr (i, dg)" "user_by_id (d\<lparr>t_cache := c\<rparr>) i = Some u"
        by (auto simp: check_totp_def bindE_eq_Inr Let_def split: option.splits)
      with that c None obtain n d2 s where "get_int (sb_settings (ap_sub E)) now ''show_subscribe_expire'' 5 (d\<lparr>t_cache := c\<rparr>) = Inr (n, d2)"
        "d' = put_cache now (totp_key token) (JStr (us_token u)) s d2"
        by (auto simp: check_totp_def bindE_eq_Inr guardE_eq_Inr Let_def)
      then have "same_desk d d2" "d' = put_cache now (totp_key token) (JStr (us_token u)) s d2"
        using same_desk_trans [OF desk_cache(1) desk_get_int] by blast+
      then show ?thesis using same_desk_trans [OF _ desk_cache(2)] by blast
    qed (use that c in \<open>auto simp: check_totp_def Let_def\<close>)
  qed
  have "same_desk d db1" using t one two by (auto split: if_splits)
  then have first: "role_step db db1" using desk_get_int [OF g] same_desk_trans desk_role by blast
  obtain name d1 where g1: "get_str (sb_settings (ap_sub E)) now ''app_name'' ''PyBoard'' db1 = (name, d1)" by fastforce
  obtain url d2 where g2: "get_str (sb_settings (ap_sub E)) now ''app_url'' [] d1 = (url, d2)" by fastforce
  from s g1 g2 obtain servers d3 link where s3: "get_available_servers (ap_sub E) now u d2 = Inr (servers, d3)"
    and s4: "build_subscribe_url (ap_sub E) now (rn_text rnd) u d3 = Inr (link, db')"
    by (auto simp: render_subscription_def bindE_eq_Inr guardE_eq_Inr Let_def split_beta)
  have "role_step db1 d2" using desk_get_str [OF g1] desk_get_str [OF g2] same_desk_trans desk_role by blast
  then show ?thesis using first role_user_step [OF step_servers [OF s3]] role_user_step [OF step_subscribe_url [OF s4]] role_step_trans by blast
qed

lemma role_knowledge:
  assumes "knowledge_page_endpoint E now rnd cred i db = Inr (reply, db')"
  shows "role_step db db'"
proof -
  from assms obtain uid k where p: "knowledge_page (ap_sub E) (ap_jinja E) now (rn_text rnd) uid i db = Inr (k, db')"
    by (auto simp: knowledge_page_endpoint_def result_simps)
  obtain name d1 where g: "get_str (sb_settings (ap_sub E)) now ''app_name'' ''PyBoard'' db = (name, d1)" by fastforce
  have first: "role_step db d1" by (rule desk_role [OF desk_get_str [OF g]])
  have "db' = d1 \<or> (\<exists>u link. build_subscribe_url (ap_sub E) now (rn_text rnd) u d1 = Inr (link, db'))"
    using p g by (cases "Option.bind uid (user_by_id d1)") (auto simp: knowledge_page_def bindE_eq_Inr Let_def)
  then show ?thesis using first role_user_step [OF step_subscribe_url] role_step_trans by blast
qed

lemma role_notify:
  assumes "handle_payment_notify E now gateway uuid params db = Inr (ok, db')"
  shows "role_step db db'"
proof -
  from assms consider "db' = db" | p n where "notify_order E now p n db = Inr (ok, db')"
    by (auto simp: handle_payment_notify_def bindE_eq_Inr split: option.splits if_splits)
  then show ?thesis
  proof cases
    case (2 p n)
    from notify_order_shape [OF this] consider "db' = db"
      | tn r cb where "order_by_trade_no db tn = Some r" "process_paid_order E now (od_id r) (Some cb) ''system'' None db = Inr db'"
      by (auto split: if_splits)
    then show ?thesis
    proof cases
      case (2 tn r cb)
      show ?thesis
      proof (cases "api_ok db")
        case True
        then have "order_by_id db (od_id r) = Some r"
          using orders.get_unique [of "t_orders db" r] order_by_trade_noD [OF 2(1)] by (simp add: api_ok_def wf_accounts_def order_by_id_def order_id)
        from step_paid [OF 2(2) this refl] show ?thesis by (rule role_user_step)
      qed (simp add: role_step_def)
    qed simp
  qed simp
qed

lemma role_webhook:
  assumes "webhook_endpoint E now access_token payload db = Inr (reply, db')"
  shows "role_step db db'"
proof (cases payload)
  case (JObj kvs)
  with assms obtain calls where h: "handle_webhook (ap_bot E) now access_token kvs db = Inr (calls, db')"
    by (auto simp: webhook_endpoint_def bindE_eq_Inr)
  show ?thesis
  proof (cases "api_ok db")
    case True
    then have "wf_table user_entity (t_users db)" by (simp add: api_ok_def wf_accounts_def)
    from webhook_guarded [OF h this] role_bot show ?thesis by blast
  qed (simp add: role_step_def)
qed (use assms in \<open>auto simp: webhook_endpoint_def split: prod.splits\<close>)

lemma role_public:
  assumes "public_endpoint E now rnd req db = Inr (reply, db')"
  shows "role_step db db'"
proof (cases req)
  case CommonConfig
  then show ?thesis using assms desk_common desk_role by (auto simp: bindE_eq_Inr)
next
  case (BotWebhook token payload)
  then show ?thesis using assms role_webhook by simp
next
  case (KnowledgePage cred i)
  then show ?thesis using assms role_knowledge by simp
next
  case (PaymentNotify gateway uuid body)
  then show ?thesis using assms role_notify by (auto simp: notify_endpoint_def bindE_eq_Inr split: option.splits)
next
  case (SubscribeLink token flag agent)
  then show ?thesis using assms role_subscribe by simp
qed (use assms in \<open>auto simp: shop_plans_endpoint_def notices_endpoint_def notice_page_endpoint_def knowledge_groups_endpoint_def
    languages_endpoint_def payment_methods_endpoint_def get_active_sessions_def remove_active_session_def result_simps split: prod.splits\<close>)

lemma role_user:
  assumes "user_api E etag now rnd cred req db = Inr (reply, db')"
  shows "role_step db db'"
proof (cases "api_ok db")
  case True
  from served_isolated [OF assms True] show ?thesis by (auto simp: role_step_def)
qed (simp add: role_step_def)

section \<open>Histories\<close>

lemma unprivileged_step:
  assumes "\<not> privileged_call W call db"
  shows "role_step db (serve_web W call db)"
proof -
  obtain now rnd req where call: "call = (now, rnd, req)" by (cases call)
  have after: "role_step db (after_call db r)" if "\<And>x db'. r = Inr (x, db') \<Longrightarrow> role_step db db'" for r :: "exn + 'a \<times> db"
    using that by (auto simp: after_call_def split: sum.split)
  show ?thesis
  proof (cases req)
    case (AdminCall cred areq)
    have "admin_api (we_admin W) now (wd_admin rnd) cred areq db = Inr (x, db') \<Longrightarrow> False" for x db'
      using assms by (auto simp: call AdminCall admin_api_def bindE_eq_Inr is_ok_def split: sum.splits)
    then have "after_call db (admin_api (we_admin W) now (wd_admin rnd) cred areq db) = db"
      by (cases "admin_api (we_admin W) now (wd_admin rnd) cred areq db") (auto simp: after_call_def)
    then show ?thesis by (simp add: call AdminCall)
  next
    case (StaffCall cred sreq)
    have "staff_api (we_admin W) now (wd_admin rnd) cred sreq db = Inr (x, db') \<Longrightarrow> False" for x db'
      using assms by (auto simp: call StaffCall staff_api_def bindE_eq_Inr is_ok_def split: sum.splits)
    then have "after_call db (staff_api (we_admin W) now (wd_admin rnd) cred sreq db) = db"
      by (cases "staff_api (we_admin W) now (wd_admin rnd) cred sreq db") (auto simp: after_call_def)
    then show ?thesis by (simp add: call StaffCall)
  next
    case (NodeCall c rq)
    then show ?thesis using desk_role [OF desk_node] by (simp add: call after)
  next
    case (AuthCall ip areq)
    then show ?thesis using role_auth by (simp add: call after)
  next
    case (PublicCall preq)
    then show ?thesis using role_public by (simp add: call after)
  next
    case (UserCall cred ureq)
    then show ?thesis using role_user by (simp add: call after)
  qed
qed

text \<open>The requests of a history with the database each of them meets.\<close>

fun met :: "web_env \<Rightarrow> web_call list \<Rightarrow> db \<Rightarrow> (web_call \<times> db) list" where
  "met W [] db = []"
| "met W (call # calls) db = (call, db) # met W calls (serve_web W call db)"

lemma unprivileged_history:
  assumes "list_all (\<lambda>(call, d). \<not> privileged_call W call d) (met W calls db)"
  shows "role_step db (fold (serve_web W) calls db)"
  using assms
proof (induction calls arbitrary: db)
  case (Cons call calls)
  then have "role_step db (serve_web W call db)" "role_step (serve_web W call db) (fold (serve_web W) calls (serve_web W call db))"
    by (simp_all add: unprivileged_step)
  then show ?case using role_step_trans by simp
qed simp

text \<open>A privileged call means an unbanned account that has a role.\<close>

lemma privileged_caller:
  assumes "privileged_call W call db"
  shows "\<exists>v\<in>set (rows (t_users db)). (us_is_admin v \<or> us_is_staff v) \<and> \<not> us_banned v"
proof -
  obtain now rnd req where call: "call = (now, rnd, req)" by (cases call)
  have current: "v \<in> set (rows (t_users db)) \<and> \<not> us_banned v" if "get_current_user A now token db = Inr v" for A token v
    using that user_by_idD by (auto simp: get_current_user_def result_simps split: option.splits)
  show ?thesis
  proof (cases req)
    case (AdminCall cred areq)
    with assms obtain token v where "require_admin (ap_auth (we_api W)) now token db = Inr v"
      by (auto simp: call bindE_eq_Inr elim!: is_okE)
    then show ?thesis using current by (auto simp: require_admin_def result_simps)
  next
    case (StaffCall cred sreq)
    with assms obtain token v where "require_staff (ap_auth (we_api W)) now token db = Inr v"
      by (auto simp: call bindE_eq_Inr elim!: is_okE)
    then show ?thesis using current by (auto simp: require_staff_def result_simps)
  qed (use assms in \<open>simp_all add: call\<close>)
qed

definition ordinary :: "user \<Rightarrow> bool" where
  "ordinary u \<longleftrightarrow> \<not> us_is_admin u \<and> \<not> us_is_staff u"

lemma ordinary_role: "ordinary u \<longleftrightarrow> snd (role u) = (False, False)"
  by (simp add: ordinary_def role_def)

lemma ordinary_site:
  assumes "api_ok db" "list_all ordinary (rows (t_users db))"
  shows "api_ok (fold (serve_web W) calls db) \<and> list_all ordinary (rows (t_users (fold (serve_web W) calls db)))"
  using assms
proof (induction calls arbitrary: db)
  case (Cons call calls)
  have "\<not> privileged_call W call db" using privileged_caller [of W call db] Cons.prems(2) by (auto simp: list_all_iff ordinary_def)
  from unprivileged_step [OF this] Cons.prems have "api_ok (serve_web W call db)"
    "\<forall>r\<in>set (roles (serve_web W call db)). snd r = (False, False)"
    by (auto simp: role_step_def roles_def list_all_iff ordinary_role)
  then show ?case using Cons.IH by (auto simp: roles_def list_all_iff ordinary_role)
qed simp

section \<open>Properties\<close>

text \<open>Roles come from the administration only: over any history of requests to the JSON API (registrations, logins, the
  user API, payments, subscriptions, the bot, the nodes, the administration and the staff), an account that has a role
  at the end that it had not at the beginning got it in a history with a request to the administration, made with
  the token of an account that was administrator or staff, and not banned, at that moment.\<close>

theorem roles_are_granted:
  assumes "api_ok db" and "u \<in> set (rows (t_users (fold (serve_web W) calls db)))" and "us_is_admin u \<or> us_is_staff u"
    and "\<forall>v\<in>set (rows (t_users db)). role v \<noteq> role u"
  shows "\<exists>(call, d)\<in>set (met W calls db). privileged_call W call d \<and>
     (\<exists>v\<in>set (rows (t_users d)). (us_is_admin v \<or> us_is_staff v) \<and> \<not> us_banned v)"
proof (rule ccontr)
  assume "\<not> ?thesis"
  then have "list_all (\<lambda>(call, d). \<not> privileged_call W call d) (met W calls db)"
    using privileged_caller by (fastforce simp: list_all_iff)
  then have "role_step db (fold (serve_web W) calls db)" by (rule unprivileged_history)
  then have "role u \<in> set (roles db) \<or> snd (role u) = (False, False)" using assms(1,2) by (simp add: role_step_def roles_def)
  then show False using assms(3,4) by (auto simp: roles_def role_def)
qed

definition sample_admin :: admin_env where
  "sample_admin = \<lparr>ad_api = sample_api, ad_mailer = sample_mailer, ad_after = (\<lambda>v. Inr 0), ad_host = [], ad_templates = []\<rparr>"

definition sample_web :: web_env where
  "sample_web = \<lparr>we_admin = sample_admin, we_etag = (\<lambda>_. ''e''), we_node = sample_node_api\<rparr>"

definition sample_web_draw :: web_draw where
  "sample_web_draw = \<lparr>wd_user = sample_draw, wd_admin = \<lparr>an_uuid = ''u'', an_codes = (\<lambda>_. []), an_accounts = (\<lambda>_. sample_random)\<rparr>\<rparr>"

definition no_update :: user_update where
  "no_update = \<lparr>uu_email = None, uu_password = None, uu_balance = None, uu_discount = None, uu_commission_type = None,
     uu_commission_rate = None, uu_transfer_enable = None, uu_device_limit = None, uu_banned = None, uu_is_admin = None,
     uu_is_staff = None, uu_speed_limit = None, uu_group_id = None, uu_plan_id = None, uu_auto_renewal = None,
     uu_remind_expire = None, uu_remind_traffic = None, uu_expired_at = None, uu_remarks = None\<rparr>"

definition staffed_db :: db where
  "staffed_db = desk_db\<lparr>t_users := \<lparr>rows = [sample_user\<lparr>us_invite_user_id := None, us_is_staff := True\<rparr>,
     sample_user\<lparr>us_id := 9, us_email := ''s@b.c'', us_token := ''t9'', us_invite_user_id := Some 1\<rparr>], next_id = 10\<rparr>\<rparr>"

definition promotion_day :: "web_call list" where
  "promotion_day = [(10, sample_web_draw, UserCall (login_of 10 sample_user) ask_for_help),
     (11, sample_web_draw, StaffCall (login_of 10 sample_user) (StaffEditUser 9 (no_update\<lparr>uu_is_staff := Some (Some True)\<rparr>)))]"

theorem roles_are_granted_witness:
  "\<exists>(call, d)\<in>set (met sample_web promotion_day staffed_db). privileged_call sample_web call d"
proof -
  let ?us = "rows (t_users (fold (serve_web sample_web) promotion_day staffed_db))"
  have w: "api_ok staffed_db" "list_ex (\<lambda>u. us_id u = 9 \<and> us_is_staff u) ?us"
    "list_all (\<lambda>v. role v \<noteq> (9, False, True)) (rows (t_users staffed_db))"
    "list_all (\<lambda>u. \<not> us_is_admin u) ?us" by code_simp+
  from w(2) obtain u where u: "u \<in> set ?us" "us_id u = 9" "us_is_staff u" by (auto simp: list_ex_iff)
  then have "role u = (9, False, True)" using w(4) by (simp add: role_def list_all_iff)
  then have "\<forall>v\<in>set (rows (t_users staffed_db)). role v \<noteq> role u" using w(3) by (simp add: list_all_iff)
  from roles_are_granted [OF w(1) u(1) _ this] u(3) show ?thesis by blast
qed

text \<open>On a site without administrators and staff nobody becomes one through the JSON API, whatever is requested.\<close>

theorem nobody_rises:
  assumes "api_ok db" "list_all ordinary (rows (t_users db))"
  shows "list_all ordinary (rows (t_users (fold (serve_web W) calls db)))"
  using ordinary_site [OF assms] by blast

theorem nobody_rises_witness:
  "list_all ordinary (rows (t_users (fold (serve_web sample_web) promotion_day desk_db)))"
proof -
  have "api_ok desk_db" "list_all ordinary (rows (t_users desk_db))" by code_simp+
  then show ?thesis by (rule nobody_rises)
qed

text \<open>C28: Being staff is being administrator: \<open>PATCH /api/v1/staff/users/{id}\<close> takes every field of an account, so
  whoever passes \<open>get_current_staff\<close> can make the own account administrator, and the same token passes
  \<open>get_current_admin\<close> from then on.\<close>

theorem staff_can_take_over:
  assumes "account_book db" and "get_bearer_token cred = Inr token" and "require_staff (ap_auth (ad_api E)) now token db = Inr u"
  shows "\<exists>v db' w. staff_api E now rnd cred (StaffEditUser (us_id u) (no_update\<lparr>uu_is_admin := Some (Some True)\<rparr>)) db = Inr (UserRow v, db') \<and>
     us_id v = us_id u \<and> us_is_admin v \<and> require_admin (ap_auth (ad_api E)) now token db' = Inr w \<and> us_id w = us_id u"
proof -
  let ?A = "ap_auth (ad_api E)"
  from assms(3) have d: "decode_user_id ?A now token = Inr (us_id u)" and u: "user_by_id db (us_id u) = Some u" and b: "\<not> us_banned u"
    using user_by_idD by (fastforce simp: require_staff_def get_current_user_def result_simps split: option.splits)+
  define v where "v = u\<lparr>us_is_admin := True\<rparr>"
  have upd: "updated_user P salt (no_update\<lparr>uu_is_admin := Some (Some True)\<rparr>) u = v" "\<not> forced_null (no_update\<lparr>uu_is_admin := Some (Some True)\<rparr>)"
    "given (uu_email no_update) = None" for P salt
    by (simp_all add: updated_user_def no_update_def forced_null_def given_def explicit_null_def v_def)
  have free: "user_key_free db v" by (rule key_free_same [OF assms(1) u]) (simp_all add: v_def)
  have s: "save_user now db v = Inr (put_user now db v)" using free by (simp add: save_user_def user_key_free_def)
  have "staff_api E now rnd cred (StaffEditUser (us_id u) (no_update\<lparr>uu_is_admin := Some (Some True)\<rparr>)) db = Inr (UserRow v, put_user now db v)"
    using assms(2,3) u by (simp add: staff_api_def answer_def update_user_def upd s Let_def)
  moreover have "user_by_id (put_user now db v) (us_id u) = Some (stored user_entity now u v)"
    using u by (simp add: user_by_id_def put_user_def users.get_update user_entity_id v_def)
  moreover have "us_is_admin (stored user_entity now u v) \<and> \<not> us_banned (stored user_entity now u v) \<and> us_id (stored user_entity now u v) = us_id u"
    using b role_stored [of now u v] by (auto simp: role_def stored_def user_entity_def v_def)
  ultimately show ?thesis using d by (auto simp: require_admin_def get_current_user_def v_def)
qed

theorem staff_can_take_over_witness:
  "\<exists>v db' w. staff_api sample_admin 11 (wd_admin sample_web_draw) (login_of 10 sample_user)
      (StaffEditUser 1 (no_update\<lparr>uu_is_admin := Some (Some True)\<rparr>)) staffed_db = Inr (UserRow v, db') \<and> us_is_admin v"
proof -
  let ?tok = "snd (the (login_of 10 sample_user))"
  have w: "account_book staffed_db" "get_bearer_token (login_of 10 sample_user) = Inr ?tok"
    "case require_staff (ap_auth (ad_api sample_admin)) 11 ?tok staffed_db of Inl e \<Rightarrow> False | Inr u \<Rightarrow> us_id u = 1" by code_simp+
  from w(3) obtain u where "require_staff (ap_auth (ad_api sample_admin)) 11 ?tok staffed_db = Inr u" "us_id u = 1"
    by (auto split: sum.splits)
  with staff_can_take_over [OF w(1,2)] show ?thesis by fastforce
qed

end
