(* ===== verification/RequestLog.thy ===== *)
theory RequestLog
  imports Auth Servers Orders
begin

text \<open>
  \<open>app/core/request_logging.py\<close>: the middleware that writes one \<open>access\<close> event per request of the API, of the
  payment callbacks and of the administration pages. A request is given by what the middleware reads of it; the
  application behind it, which sees the request, is a function of the request and the database to its outcome and
  the database it commits. The event is written in a transaction of its own, after the one of the request.
\<close>

record http_request =
  rq_method :: string
  rq_path :: string
  rq_headers :: "(string \<times> string) list"
  rq_cookies :: "(string \<times> string) list"
  rq_query :: "(string \<times> string) list"
  rq_client :: "string option"
  rq_route :: "string option"

record http_response =
  rs_status :: int
  rs_headers :: "(string \<times> string) list"

text \<open>An exception as the log shows it: the name of its type and its trace.\<close>

type_synonym crash = "string \<times> string"

definition token_cookie :: string where
  "token_cookie = ''admin_token''"

section \<open>What is logged, and how\<close>

definition should_log :: "string \<Rightarrow> bool" where
  "should_log path \<longleftrightarrow> \<not> starts_with ''/admin/fragments/logs'' path \<and>
     (starts_with ''/api/'' path \<or> starts_with ''/notify/'' path \<or> starts_with ''/admin/'' path)"

definition level_for :: "int \<Rightarrow> crash option \<Rightarrow> string" where
  "level_for status error =
     (if error \<noteq> None \<or> 500 \<le> status then ''error'' else if 400 \<le> status then ''warning'' else ''info'')"

definition none_if_empty :: "string \<Rightarrow> string option" where
  "none_if_empty s = (if s = [] then None else Some s)"

text \<open>The address before the first comma of \<open>X-Forwarded-For\<close>, or the peer of the connection.\<close>

definition client_ip :: "http_request \<Rightarrow> string option" where
  "client_ip rq =
     (case map_of (rq_headers rq) ''x-forwarded-for'' of
        Some f \<Rightarrow> if f = [] then rq_client rq else none_if_empty (strip (fst (partition_at (CHR '','') f)))
      | None \<Rightarrow> rq_client rq)"

definition sensitive_keys :: "string list" where
  "sensitive_keys = [''authorization'', ''csrf'', ''csrf_token'', ''email_code'', ''key'', ''password'', ''secret'', ''sign'', ''token'']"

definition is_sensitive_key :: "string \<Rightarrow> bool" where
  "is_sensitive_key key \<longleftrightarrow>
     (let l = lower key in l \<in> set sensitive_keys \<or> list_ex (\<lambda>part. contains part l) [''token'', ''password'', ''secret''])"

definition redact_one :: "string \<times> string \<Rightarrow> (string \<times> json) list \<Rightarrow> (string \<times> json) list" where
  "redact_one kv redacted =
     (case kv of (key, value) \<Rightarrow>
        let stored = JStr (if is_sensitive_key key then ''***'' else value) in
        (case map_of redacted key of
           None \<Rightarrow> dict_set key stored redacted
         | Some (JArr xs) \<Rightarrow> dict_set key (JArr (xs @ [stored])) redacted
         | Some existing \<Rightarrow> dict_set key (JArr [existing, stored]) redacted))"

definition redact_query :: "(string \<times> string) list \<Rightarrow> (string \<times> json) list" where
  "redact_query params = fold redact_one params []"

definition bearer_token :: "string option \<Rightarrow> string option" where
  "bearer_token value =
     (case value of
        None \<Rightarrow> None
      | Some v \<Rightarrow> (case partition_at (CHR '' '') v of (scheme, _, token) \<Rightarrow>
          if lower scheme = ''bearer'' \<and> token \<noteq> [] then Some (strip token) else None))"

text \<open>The user that the token names, whatever it may do: the token is decoded, no row is read.\<close>

definition actor_from_request :: "auth_service \<Rightarrow> int \<Rightarrow> http_request \<Rightarrow> (string \<times> int) option" where
  "actor_from_request A now rq =
     (let bearer = bearer_token (map_of (rq_headers rq) ''authorization'');
          token = (if Auth.text_given bearer then bearer else map_of (rq_cookies rq) token_cookie) in
      if \<not> Auth.text_given token then None
      else (case au_decode A now (the token) of
          None \<Rightarrow> None
        | Some p \<Rightarrow> (case jp_sub p of None \<Rightarrow> None | Some s \<Rightarrow> map_option (\<lambda>i. (''user'', i)) (py_int s))))"

section \<open>The middleware\<close>

definition access_event :: "auth_service \<Rightarrow> int \<Rightarrow> http_request \<Rightarrow> string \<Rightarrow> int \<Rightarrow> int \<Rightarrow> crash option \<Rightarrow> log_event" where
  "access_event A now rq request_id status duration error =
     (let actor = actor_from_request A now rq in
      log_defaults\<lparr>le_level := level_for status error, le_category := ''access'', le_event := ''http.request'',
        le_message := rq_method rq @ '' '' @ rq_path rq @ '' -> '' @ str_int status,
        le_request_id := Some request_id, le_trace_id := map_of (rq_headers rq) ''x-trace-id'',
        le_actor_type := map_option fst actor, le_actor_id := map_option snd actor,
        le_method := Some (rq_method rq), le_path := Some (rq_path rq),
        le_status_code := Some status, le_duration_ms := Some duration,
        le_ip := client_ip rq, le_user_agent := map_of (rq_headers rq) ''user-agent'',
        le_data := JObj [(''query'', JObj (redact_query (rq_query rq))), (''route'', jstr_opt (rq_route rq))],
        le_error_type := map_option fst error, le_error_stack := map_option snd error\<rparr>)"

definition request_id_of :: "string \<Rightarrow> http_request \<Rightarrow> string" where
  "request_id_of fresh rq = (case map_of (rq_headers rq) ''x-request-id'' of Some i \<Rightarrow> if i = [] then fresh else i | None \<Rightarrow> fresh)"

definition with_header :: "string \<Rightarrow> string \<Rightarrow> http_response \<Rightarrow> http_response" where
  "with_header k v rs = rs\<lparr>rs_headers := AList.update k v (rs_headers rs)\<rparr>"

text \<open>\<open>fresh\<close> is the new UUID and \<open>duration\<close> the milliseconds that the call took.\<close>

definition request_logging_middleware ::
    "auth_service \<Rightarrow> int \<Rightarrow> string \<Rightarrow> int \<Rightarrow> (http_request \<Rightarrow> db \<Rightarrow> (crash + http_response) \<times> db) \<Rightarrow>
     http_request \<Rightarrow> db \<Rightarrow> (crash + http_response) \<times> db" where
  "request_logging_middleware A now fresh duration call_next rq db =
     (if \<not> should_log (rq_path rq) then call_next rq db
      else (case call_next rq db of (outcome, db1) \<Rightarrow>
        let request_id = request_id_of fresh rq;
            status = (case outcome of Inl _ \<Rightarrow> 500 | Inr rs \<Rightarrow> rs_status rs);
            error = (case outcome of Inl c \<Rightarrow> Some c | Inr _ \<Rightarrow> None);
            answer = (case outcome of Inl c \<Rightarrow> Inl c | Inr rs \<Rightarrow> Inr (with_header ''X-Request-ID'' request_id rs))
        in (answer, create_log_event now (access_event A now rq request_id status (max duration 0) error) db1)))"

section \<open>Secrets stay out of the log\<close>

text \<open>The texts that a redacted query holds under a key, in order.\<close>

definition logged_values :: "json option \<Rightarrow> json list" where
  "logged_values v = (case v of None \<Rightarrow> [] | Some (JArr xs) \<Rightarrow> xs | Some x \<Rightarrow> [x])"

definition shown_value :: "string \<Rightarrow> string \<Rightarrow> json" where
  "shown_value key value = JStr (if is_sensitive_key key then ''***'' else value)"

text \<open>A value is a text, or a list of at least two.\<close>

definition redacted_ok :: "(string \<times> json) list \<Rightarrow> bool" where
  "redacted_ok d \<longleftrightarrow> (\<forall>k v. map_of d k = Some v \<longrightarrow> (\<exists>s. v = JStr s) \<or> (\<exists>xs. v = JArr xs))"

lemma map_of_dict_set_key: "map_of (dict_set k v d) k' = (if k' = k then Some v else map_of d k')"
  by (simp add: dict_set_def update_conv')

lemma redacted_cases:
  assumes "redacted_ok d"
  shows "map_of d k = None \<or> (\<exists>s. map_of d k = Some (JStr s)) \<or> (\<exists>xs. map_of d k = Some (JArr xs))"
  using assms unfolding redacted_ok_def by (cases "map_of d k") blast+

lemma redact_one_values:
  assumes "redacted_ok d"
  shows "logged_values (map_of (redact_one (k, v) d) k') =
     logged_values (map_of d k') @ (if k' = k then [shown_value k v] else [])"
proof -
  consider "map_of d k = None" | s where "map_of d k = Some (JStr s)" | xs where "map_of d k = Some (JArr xs)"
    using redacted_cases [OF assms] by metis
  then show ?thesis
    by cases (simp_all add: redact_one_def Let_def map_of_dict_set_key logged_values_def shown_value_def)
qed

lemma redact_one_ok:
  assumes "redacted_ok d"
  shows "redacted_ok (redact_one kv d)"
proof -
  obtain k v where kv: "kv = (k, v)" by fastforce
  consider "map_of d k = None" | s where "map_of d k = Some (JStr s)" | xs where "map_of d k = Some (JArr xs)"
    using redacted_cases [OF assms] by metis
  then show ?thesis unfolding kv
    by cases (use assms in \<open>auto simp: redact_one_def Let_def map_of_dict_set_key redacted_ok_def\<close>)
qed

lemma fold_redact:
  assumes "redacted_ok d"
  shows "logged_values (map_of (fold redact_one params d) key) =
     logged_values (map_of d key) @ map (\<lambda>(k, v). shown_value k v) (filter (\<lambda>(k, v). k = key) params)"
  using assms
proof (induction params arbitrary: d)
  case (Cons kv params)
  obtain k v where kv: "kv = (k, v)" by fastforce
  show ?case using Cons.IH [OF redact_one_ok [OF Cons.prems]] redact_one_values [OF Cons.prems] unfolding kv by simp
qed simp

lemma logged_query:
  "logged_values (map_of (redact_query params) key) =
     map (\<lambda>(k, v). shown_value k v) (filter (\<lambda>(k, v). k = key) params)"
proof -
  have "redacted_ok []" by (simp add: redacted_ok_def)
  from fold_redact [OF this] show ?thesis by (simp add: redact_query_def logged_values_def)
qed

text \<open>What must not be shown: parameters with one of six names, or with \<open>token\<close>, \<open>password\<close> or \<open>secret\<close> in their
  name, in capitals or not. And two queries that differ only in the values of such parameters.\<close>

definition secret_parameter :: "string \<Rightarrow> bool" where
  "secret_parameter name \<longleftrightarrow> (\<exists>plain \<in> {''authorization'', ''csrf'', ''csrf_token'', ''email_code'', ''key'', ''sign''}. lower name = plain) \<or>
     contains ''token'' (lower name) \<or> contains ''password'' (lower name) \<or> contains ''secret'' (lower name)"

definition same_but_secrets :: "(string \<times> string) list \<Rightarrow> (string \<times> string) list \<Rightarrow> bool" where
  "same_but_secrets ps qs \<longleftrightarrow> list_all2 (\<lambda>(k, v) (k', v'). k = k' \<and> (v = v' \<or> secret_parameter k)) ps qs"

lemma secret_is_sensitive: "secret_parameter name \<longleftrightarrow> is_sensitive_key name"
proof -
  have "contains ''token'' ''token''" "contains ''password'' ''password''" "contains ''secret'' ''secret''" by code_simp+
  then show ?thesis by (auto simp: secret_parameter_def is_sensitive_key_def sensitive_keys_def Let_def)
qed

lemma redact_one_secret: "secret_parameter k \<Longrightarrow> redact_one (k, v) d = redact_one (k, v') d"
  by (simp add: redact_one_def secret_is_sensitive)

lemma fold_redact_secret: "same_but_secrets ps qs \<Longrightarrow> fold redact_one ps d = fold redact_one qs d"
proof (induction ps arbitrary: qs d)
  case (Cons p ps)
  obtain k v where p: "p = (k, v)" by fastforce
  from Cons.prems obtain v' qs' where qs: "qs = (k, v') # qs'" "v = v' \<or> secret_parameter k" "same_but_secrets ps qs'"
    by (auto simp: same_but_secrets_def p list_all2_Cons1)
  then have "redact_one (k, v) d = redact_one (k, v') d" using redact_one_secret by blast
  then show ?case using Cons.IH [OF qs(3)] by (simp add: p qs(1))
qed (simp add: same_but_secrets_def)

lemma redact_secret: "same_but_secrets ps qs \<Longrightarrow> redact_query ps = redact_query qs"
  by (simp add: redact_query_def fold_redact_secret)

section \<open>A request\<close>

definition sample_request :: http_request where
  "sample_request = \<lparr>rq_method = ''GET'', rq_path = ''/api/v1/client/subscribe'', rq_headers = [(''x-forwarded-for'', ''9.9.9.9, 1.1.1.1'')],
     rq_cookies = [], rq_query = [(''token'', ''abc''), (''flag'', ''clash'')], rq_client = Some ''10.0.0.1'', rq_route = None\<rparr>"

lemma unread_query:
  "client_ip (rq\<lparr>rq_query := qs\<rparr>) = client_ip rq" "actor_from_request A now (rq\<lparr>rq_query := qs\<rparr>) = actor_from_request A now rq"
  "request_id_of fresh (rq\<lparr>rq_query := qs\<rparr>) = request_id_of fresh rq"
  by (simp_all add: client_ip_def actor_from_request_def request_id_of_def Let_def cong: option.case_cong if_cong)

lemma same_event:
  "same_but_secrets (rq_query rq) qs \<Longrightarrow> access_event A now (rq\<lparr>rq_query := qs\<rparr>) i st d e = access_event A now rq i st d e"
  using redact_secret [of "rq_query rq" qs] by (simp add: access_event_def unread_query)

section \<open>The properties\<close>

text \<open>The columns of an event apart from those that report the outcome of the request.\<close>

definition apart_from_outcome :: "log_event \<Rightarrow> log_event" where
  "apart_from_outcome e = e\<lparr>le_level := [], le_message := [], le_status_code := None, le_error_type := None, le_error_stack := None\<rparr>"

lemma middleware_event:
  "should_log (rq_path rq) \<Longrightarrow> snd (request_logging_middleware A now fresh duration call_next rq db) =
     create_log_event now (access_event A now rq (request_id_of fresh rq)
       (case fst (call_next rq db) of Inl _ \<Rightarrow> 500 | Inr rs \<Rightarrow> rs_status rs) (max duration 0)
       (case fst (call_next rq db) of Inl c \<Rightarrow> Some c | Inr _ \<Rightarrow> None)) (snd (call_next rq db))"
  by (simp add: request_logging_middleware_def Let_def split_beta)

lemma event_apart: "apart_from_outcome (access_event A now rq i st d e) = apart_from_outcome (access_event A now rq i st' d e')"
  by (simp add: apart_from_outcome_def access_event_def Let_def)

text \<open>C34: The event of a request shows \<open>***\<close> for every secret parameter of the query and the value of every other,
  under each name and in order. It does not depend on the secrets: two requests that differ only in the values of
  secret parameters get events that agree in every column but those of the outcome (level, message, status and
  error), and the same event where the application answers both alike. What the trace of an exception of the
  application says is not redacted.\<close>

theorem log_hides_secrets:
  assumes "should_log (rq_path rq)" "same_but_secrets (rq_query rq) qs" and "rq' = rq\<lparr>rq_query := qs\<rparr>"
  shows "\<exists>e e' q. snd (request_logging_middleware A now fresh duration call_next rq db) = create_log_event now e (snd (call_next rq db)) \<and>
     snd (request_logging_middleware A now fresh duration call_next rq' db) = create_log_event now e' (snd (call_next rq' db)) \<and>
     le_data e = JObj [(''query'', JObj q), (''route'', jstr_opt (rq_route rq))] \<and>
     (\<forall>name. logged_values (map_of q name) =
        map (\<lambda>(k, v). JStr (if secret_parameter k then ''***'' else v)) (filter (\<lambda>(k, v). k = name) (rq_query rq))) \<and>
     apart_from_outcome e' = apart_from_outcome e \<and>
     (fst (call_next rq' db) = fst (call_next rq db) \<longrightarrow> e' = e)"
proof -
  let ?event = "\<lambda>r outcome. access_event A now r (request_id_of fresh rq) (case outcome of Inl _ \<Rightarrow> 500 | Inr rs \<Rightarrow> rs_status rs) (max duration 0)
      (case outcome of Inl c \<Rightarrow> Some c | Inr _ \<Rightarrow> None)"
  let ?e = "?event rq (fst (call_next rq db))" and ?e' = "?event rq (fst (call_next rq' db))"
  have "request_id_of fresh rq' = request_id_of fresh rq" "should_log (rq_path rq')" using assms(1) by (simp_all add: assms(3) unread_query)
  then have run': "snd (request_logging_middleware A now fresh duration call_next rq' db) = create_log_event now ?e' (snd (call_next rq' db))"
    using middleware_event [of rq' A now fresh duration call_next db] by (simp add: assms(3) same_event [OF assms(2)])
  have query: "le_data ?e = JObj [(''query'', JObj (redact_query (rq_query rq))), (''route'', jstr_opt (rq_route rq))]"
    by (simp add: access_event_def Let_def)
  have shown: "logged_values (map_of (redact_query (rq_query rq)) name) =
      map (\<lambda>(k, v). JStr (if secret_parameter k then ''***'' else v)) (filter (\<lambda>(k, v). k = name) (rq_query rq))" for name
    by (simp add: logged_query shown_value_def secret_is_sensitive)
  show ?thesis
    by (intro exI [of _ ?e] exI [of _ ?e'] exI [of _ "redact_query (rq_query rq)"] conjI allI impI)
      (rule middleware_event [OF assms(1)] run' query shown event_apart | simp)+
qed

text \<open>A subscription link whose token is wrong is answered with another status, and the token of neither is logged.\<close>

definition sample_application :: "http_request \<Rightarrow> db \<Rightarrow> (crash + http_response) \<times> db" where
  "sample_application rq db =
     (Inr \<lparr>rs_status = (if map_of (rq_query rq) ''token'' = Some ''abc'' then 200 else 401), rs_headers = []\<rparr>, db)"

theorem log_hides_secrets_witness:
  "\<exists>e e'. snd (request_logging_middleware sample_auth 5 ''id'' 1 sample_application sample_request empty_db) = create_log_event 5 e empty_db \<and>
     snd (request_logging_middleware sample_auth 5 ''id'' 1 sample_application
       (sample_request\<lparr>rq_query := [(''token'', ''xyz''), (''flag'', ''clash'')]\<rparr>) empty_db) = create_log_event 5 e' empty_db \<and>
     apart_from_outcome e' = apart_from_outcome e"
proof -
  have "should_log (rq_path sample_request)" "same_but_secrets (rq_query sample_request) [(''token'', ''xyz''), (''flag'', ''clash'')]" by code_simp+
  from log_hides_secrets [OF this refl, of sample_auth 5 "''id''" 1 sample_application empty_db]
  show ?thesis by (simp add: sample_application_def) blast
qed

text \<open>The middleware is transparent: it logs a request of the watched paths with one event after the state that
  the application committed, and hands on its status (or its exception) unchanged; other requests are untouched.\<close>

theorem logging_transparent:
  shows "\<exists>answer db1 e. call_next rq db = (answer, db1) \<and>
     (case request_logging_middleware A now fresh duration call_next rq db of (answer', db') \<Rightarrow>
        (if should_log (rq_path rq) then db' = create_log_event now e db1 \<and> le_path e = Some (rq_path rq) else db' = db1) \<and>
        (case answer of Inl c \<Rightarrow> answer' = Inl c | Inr rs \<Rightarrow> (\<exists>rs'. answer' = Inr rs' \<and> rs_status rs' = rs_status rs)))"
proof -
  obtain answer db1 where c: "call_next rq db = (answer, db1)" by fastforce
  show ?thesis
    by (cases answer) (auto simp: c request_logging_middleware_def Let_def with_header_def access_event_def)
qed

end
