(* ===== verification/AdminForms.thy ===== *)
theory AdminForms
  imports AdminApi SubscribeFacts
begin

text \<open>
  \<open>app/admin_ui/deps.py\<close> and \<open>app/admin_ui/forms.py\<close>: the forms of the administration pages. A form is the
  dictionary of its fields (\<open>form_data\<close>, read from the body by \<open>urllib.parse.parse_qs\<close>); the conversions give
  the requests that the services take. Every failing conversion is a \<open>ValueError\<close>. Text is byte-wise: percent
  escapes that are no UTF-8 stay as they are. Reading an ISO time (\<open>datetime.fromisoformat\<close>, in the time zone of
  the server) is the parameter \<open>rdt\<close>, JSON the codec.
\<close>

type_synonym form = "(string \<times> string) list"

type_synonym iso_reader = "string \<Rightarrow> int option"

section \<open>Reading a form\<close>

definition form_field :: "string \<Rightarrow> string \<times> string" where
  "form_field s = (case partition_at (CHR ''='') s of (name, _, v) \<Rightarrow> (unquote_plus name, unquote_plus v))"

text \<open>\<open>parse_qs(body, keep_blank_values=True)\<close>, of which the last value of each name is kept.\<close>

definition parse_form :: "string \<Rightarrow> form" where
  "parse_form body =
     fold (\<lambda>part form. case form_field part of (k, v) \<Rightarrow> AList.update k v form) (filter (\<lambda>part. part \<noteq> []) (split_on (CHR ''&'') body)) []"

definition form_data :: "string \<Rightarrow> exn + form" where
  "form_data body = guardE (\<not> valid_utf8 body) ValueError (Inr (parse_form body))"

definition fget :: "form \<Rightarrow> string \<Rightarrow> string option" where
  "fget form k = map_of form k"

text \<open>\<open>str(form.get(k) or "")\<close>.\<close>

definition text_of :: "form \<Rightarrow> string \<Rightarrow> string" where
  "text_of form k = set_if (fget form k) []"

section \<open>Fields\<close>

definition blank_none :: "string option \<Rightarrow> string option" where
  "blank_none v = (let s = strip (set_if v []) in if s = [] then None else Some s)"

definition int_or_none :: "string option \<Rightarrow> exn + int option" where
  "int_or_none v =
     (let s = strip (set_if v []) in
      if s = [] then Inr None else (case py_int s of None \<Rightarrow> Inl ValueError | Some n \<Rightarrow> Inr (Some n)))"

definition datetime_or_none :: "iso_reader \<Rightarrow> string option \<Rightarrow> exn + int option" where
  "datetime_or_none rdt v =
     (let s = strip (set_if v []) in
      if s = [] then Inr None
      else if isdigit s then (case py_int s of None \<Rightarrow> Inl ValueError | Some n \<Rightarrow> Inr (Some n))
      else (case rdt s of None \<Rightarrow> Inl ValueError | Some n \<Rightarrow> Inr (Some n)))"

definition required :: "exn + 'a option \<Rightarrow> exn + 'a" where
  "required r = bindE r (\<lambda>v. case v of None \<Rightarrow> Inl ValueError | Some x \<Rightarrow> Inr x)"

definition required_datetime :: "iso_reader \<Rightarrow> string option \<Rightarrow> exn + int" where
  "required_datetime rdt v = required (datetime_or_none rdt v)"

definition required_int :: "string option \<Rightarrow> exn + int" where
  "required_int v = required (int_or_none v)"

text \<open>The only use of \<open>float_or_none\<close> is a fee; the model has no infinite fee and stops with \<open>OverflowError\<close>.\<close>

definition float_or_none :: "string option \<Rightarrow> exn + double option" where
  "float_or_none v =
     (let s = strip (set_if v []) in
      if s = [] then Inr None
      else (case py_float s of None \<Rightarrow> Inl ValueError | Some (PFloat d) \<Rightarrow> Inr (Some d) | Some _ \<Rightarrow> Inl OverflowError))"

definition as_bool :: "string option \<Rightarrow> bool" where
  "as_bool v \<longleftrightarrow> lower (set_if v []) \<in> {''1'', ''true'', ''on'', ''yes''}"

definition datetime_or_original :: "iso_reader \<Rightarrow> string option \<Rightarrow> string option \<Rightarrow> exn + int option" where
  "datetime_or_original rdt v original = (if strip (set_if v []) \<noteq> [] then datetime_or_none rdt v else int_or_none original)"

abbreviation finto :: "form \<Rightarrow> string \<Rightarrow> exn + int option" where
  "finto f k \<equiv> int_or_none (fget f k)"

abbreviation fint :: "form \<Rightarrow> string \<Rightarrow> exn + int" where
  "fint f k \<equiv> required_int (fget f k)"

abbreviation fbool :: "form \<Rightarrow> string \<Rightarrow> bool" where
  "fbool f k \<equiv> as_bool (fget f k)"

abbreviation fblank :: "form \<Rightarrow> string \<Rightarrow> string option" where
  "fblank f k \<equiv> blank_none (fget f k)"

section \<open>Accounts\<close>

definition user_update_from_form :: "iso_reader \<Rightarrow> form \<Rightarrow> exn + user_update" where
  "user_update_from_form rdt f =
     bindE (finto f ''balance'') (\<lambda>balance.
     bindE (finto f ''transfer_enable'') (\<lambda>transfer_enable.
     bindE (finto f ''device_limit'') (\<lambda>device_limit.
     bindE (finto f ''speed_limit'') (\<lambda>speed_limit.
     bindE (finto f ''group_id'') (\<lambda>group_id.
     bindE (finto f ''plan_id'') (\<lambda>plan_id.
     bindE (finto f ''discount'') (\<lambda>discount.
     bindE (finto f ''commission_rate'') (\<lambda>commission_rate.
     bindE (datetime_or_original rdt (fget f ''expired_at'') (fget f ''expired_at_original'')) (\<lambda>expired_at.
       Inr \<lparr>uu_email = Some (fblank f ''email''), uu_password = Some (fblank f ''password''), uu_balance = Some balance,
         uu_discount = Some discount, uu_commission_type = None, uu_commission_rate = Some commission_rate,
         uu_transfer_enable = Some transfer_enable, uu_device_limit = Some device_limit,
         uu_banned = Some (Some (fbool f ''banned'')), uu_is_admin = Some (Some (fbool f ''is_admin'')),
         uu_is_staff = Some (Some (fbool f ''is_staff'')), uu_speed_limit = Some speed_limit, uu_group_id = Some group_id,
         uu_plan_id = Some plan_id, uu_auto_renewal = None, uu_remind_expire = None, uu_remind_traffic = None,
         uu_expired_at = Some expired_at, uu_remarks = Some (fblank f ''remarks'')\<rparr>)))))))))"

text \<open>\<open>UserCreate\<close> and \<open>AdminUserGenerate\<close>, built by the actions of \<open>users.py\<close>.\<close>

definition user_create_from_form :: "form \<Rightarrow> user_create" where
  "user_create_from_form f = \<lparr>uc_email = text_of f ''email'', uc_password = text_of f ''password'', uc_invite_code = None,
     uc_email_code = None, uc_recaptcha_data = None\<rparr>"

definition user_generate_from_form :: "iso_reader \<Rightarrow> form \<Rightarrow> exn + user_generate" where
  "user_generate_from_form rdt f =
     bindE (finto f ''plan_id'') (\<lambda>plan_id.
     bindE (datetime_or_none rdt (fget f ''expired_at'')) (\<lambda>expired_at.
     bindE (finto f ''generate_count'') (\<lambda>count.
       Inr \<lparr>ug_email_prefix = fblank f ''email_prefix'', ug_email_suffix = text_of f ''email_suffix'',
         ug_password = fblank f ''password'', ug_plan_id = plan_id, ug_expired_at = expired_at, ug_count = count\<rparr>)))"

section \<open>Plans\<close>

text \<open>The prices, in the order of the form.\<close>

definition plan_prices :: "form \<Rightarrow> exn + int option list" where
  "plan_prices f = mapE (finto f) [''month_price'', ''quarter_price'', ''half_year_price'', ''year_price'', ''two_year_price'',
     ''three_year_price'', ''onetime_price'', ''reset_price'', ''reset_traffic_method'', ''capacity_limit'']"

definition plan_create_from_form :: "form \<Rightarrow> exn + plan_create" where
  "plan_create_from_form f =
     bindE (fint f ''group_id'') (\<lambda>group_id.
     bindE (fint f ''transfer_enable'') (\<lambda>transfer_enable.
     bindE (finto f ''device_limit'') (\<lambda>device_limit.
     bindE (finto f ''speed_limit'') (\<lambda>speed_limit.
     bindE (finto f ''sort'') (\<lambda>rank.
     bindE (plan_prices f) (\<lambda>p.
       Inr \<lparr>pc_group_id = group_id, pc_transfer_enable = transfer_enable, pc_device_limit = device_limit,
         pc_plan_name = text_of f ''name'', pc_speed_limit = speed_limit, pc_show = fbool f ''show'', pc_plan_sort = rank,
         pc_renew = fbool f ''renew'', pc_content = fblank f ''content'', pc_month_price = p ! 0, pc_quarter_price = p ! 1,
         pc_half_year_price = p ! 2, pc_year_price = p ! 3, pc_two_year_price = p ! 4, pc_three_year_price = p ! 5,
         pc_onetime_price = p ! 6, pc_reset_price = p ! 7, pc_reset_traffic_method = p ! 8, pc_capacity_limit = p ! 9\<rparr>))))))"

definition plan_update_from_form :: "form \<Rightarrow> exn + plan_update" where
  "plan_update_from_form f =
     bindE (finto f ''group_id'') (\<lambda>group_id.
     bindE (finto f ''transfer_enable'') (\<lambda>transfer_enable.
     bindE (finto f ''device_limit'') (\<lambda>device_limit.
     bindE (finto f ''speed_limit'') (\<lambda>speed_limit.
     bindE (finto f ''sort'') (\<lambda>rank.
     bindE (plan_prices f) (\<lambda>p.
       Inr \<lparr>pu_group_id = Some group_id, pu_transfer_enable = Some transfer_enable, pu_device_limit = Some device_limit,
         pu_name = Some (fblank f ''name''), pu_speed_limit = Some speed_limit, pu_show = Some (Some (fbool f ''show'')),
         pu_sort = Some rank, pu_renew = Some (Some (fbool f ''renew'')), pu_content = Some (fblank f ''content''),
         pu_month_price = Some (p ! 0), pu_quarter_price = Some (p ! 1), pu_half_year_price = Some (p ! 2),
         pu_year_price = Some (p ! 3), pu_two_year_price = Some (p ! 4), pu_three_year_price = Some (p ! 5),
         pu_onetime_price = Some (p ! 6), pu_reset_price = Some (p ! 7), pu_reset_traffic_method = Some (p ! 8),
         pu_capacity_limit = Some (p ! 9)\<rparr>))))))"

section \<open>Notices and articles\<close>

definition notice_create_from_form :: "form \<Rightarrow> notice_create" where
  "notice_create_from_form f = \<lparr>nc_title = text_of f ''title'', nc_content = text_of f ''content'', nc_show = fbool f ''show'',
     nc_img_url = fblank f ''img_url'', nc_tags = fblank f ''tags''\<rparr>"

definition notice_update_from_form :: "form \<Rightarrow> (string \<times> json) list" where
  "notice_update_from_form f =
     [(''title'', jstr_opt (fblank f ''title'')), (''content'', jstr_opt (fblank f ''content'')), (''show'', JBool (fbool f ''show'')),
      (''img_url'', jstr_opt (fblank f ''img_url'')), (''tags'', jstr_opt (fblank f ''tags''))]"

definition knowledge_create_from_form :: "form \<Rightarrow> exn + knowledge_create" where
  "knowledge_create_from_form f =
     bindE (finto f ''sort'') (\<lambda>rank.
       Inr \<lparr>kc_language = text_of f ''language'', kc_category = text_of f ''category'', kc_title = text_of f ''title'',
         kc_body = text_of f ''body'', kc_sort = rank, kc_show = fbool f ''show''\<rparr>)"

definition knowledge_update_from_form :: "form \<Rightarrow> exn + (string \<times> json) list" where
  "knowledge_update_from_form f =
     bindE (finto f ''sort'') (\<lambda>rank.
       Inr [(''language'', jstr_opt (fblank f ''language'')), (''category'', jstr_opt (fblank f ''category'')),
            (''title'', jstr_opt (fblank f ''title'')), (''body'', jstr_opt (fblank f ''body'')), (''sort'', jopt rank),
            (''show'', JBool (fbool f ''show''))])"

section \<open>Coupons and gift cards\<close>

definition coupon_form :: "iso_reader \<Rightarrow> string option \<Rightarrow> form \<Rightarrow> exn + coupon_create" where
  "coupon_form rdt code f =
     bindE (fint f ''type'') (\<lambda>ty.
     bindE (fint f ''value'') (\<lambda>v.
     bindE (finto f ''limit_use'') (\<lambda>limit_use.
     bindE (finto f ''limit_use_with_user'') (\<lambda>limit_user.
     bindE (required_datetime rdt (fget f ''started_at'')) (\<lambda>started_at.
     bindE (required_datetime rdt (fget f ''ended_at'')) (\<lambda>ended_at.
       Inr \<lparr>ca_code = code, ca_name = text_of f ''name'', ca_type = ty, ca_value = v, ca_show = fbool f ''show'',
         ca_limit_use = limit_use, ca_limit_use_with_user = limit_user, ca_limit_plan_ids = jstr_opt (fblank f ''limit_plan_ids''),
         ca_limit_period = jstr_opt (fblank f ''limit_period''), ca_started_at = started_at, ca_ended_at = ended_at\<rparr>))))))"

definition coupon_create_from_form :: "iso_reader \<Rightarrow> form \<Rightarrow> exn + coupon_create" where
  "coupon_create_from_form rdt f = coupon_form rdt (fblank f ''code'') f"

definition coupon_generate_from_form :: "iso_reader \<Rightarrow> form \<Rightarrow> exn + int \<times> coupon_create" where
  "coupon_generate_from_form rdt f =
     bindE (fint f ''generate_count'') (\<lambda>n. bindE (coupon_form rdt None f) (\<lambda>data. Inr (n, data)))"

definition coupon_update_from_form :: "iso_reader \<Rightarrow> form \<Rightarrow> exn + coupon_update" where
  "coupon_update_from_form rdt f =
     bindE (finto f ''type'') (\<lambda>ty.
     bindE (finto f ''value'') (\<lambda>v.
     bindE (finto f ''limit_use'') (\<lambda>limit_use.
     bindE (finto f ''limit_use_with_user'') (\<lambda>limit_user.
     bindE (datetime_or_none rdt (fget f ''started_at'')) (\<lambda>started_at.
     bindE (datetime_or_none rdt (fget f ''ended_at'')) (\<lambda>ended_at.
       Inr \<lparr>cu_code = Some (fblank f ''code''), cu_name = Some (fblank f ''name''), cu_type = Some ty, cu_value = Some v,
         cu_show = Some (Some (fbool f ''show'')), cu_limit_use = Some limit_use, cu_limit_use_with_user = Some limit_user,
         cu_limit_plan_ids = Some (jstr_opt (fblank f ''limit_plan_ids'')), cu_limit_period = Some (jstr_opt (fblank f ''limit_period'')),
         cu_started_at = Some started_at, cu_ended_at = Some ended_at\<rparr>))))))"

definition giftcard_form :: "iso_reader \<Rightarrow> string option \<Rightarrow> form \<Rightarrow> exn + giftcard_create" where
  "giftcard_form rdt code f =
     bindE (fint f ''type'') (\<lambda>ty.
     bindE (finto f ''value'') (\<lambda>v.
     bindE (finto f ''plan_id'') (\<lambda>plan_id.
     bindE (finto f ''limit_use'') (\<lambda>limit_use.
     bindE (required_datetime rdt (fget f ''started_at'')) (\<lambda>started_at.
     bindE (required_datetime rdt (fget f ''ended_at'')) (\<lambda>ended_at.
       Inr \<lparr>gf_code = code, gf_name = text_of f ''name'', gf_type = ty, gf_value = v, gf_plan_id = plan_id,
         gf_limit_use = limit_use, gf_started_at = started_at, gf_ended_at = ended_at\<rparr>))))))"

definition giftcard_create_from_form :: "iso_reader \<Rightarrow> form \<Rightarrow> exn + giftcard_create" where
  "giftcard_create_from_form rdt f = giftcard_form rdt (fblank f ''code'') f"

definition giftcard_generate_from_form :: "iso_reader \<Rightarrow> form \<Rightarrow> exn + int \<times> giftcard_create" where
  "giftcard_generate_from_form rdt f =
     bindE (giftcard_form rdt None f) (\<lambda>data. bindE (fint f ''generate_count'') (\<lambda>n. Inr (n, data)))"

definition giftcard_update_from_form :: "iso_reader \<Rightarrow> form \<Rightarrow> exn + giftcard_update" where
  "giftcard_update_from_form rdt f =
     bindE (finto f ''type'') (\<lambda>ty.
     bindE (finto f ''value'') (\<lambda>v.
     bindE (finto f ''plan_id'') (\<lambda>plan_id.
     bindE (finto f ''limit_use'') (\<lambda>limit_use.
     bindE (datetime_or_none rdt (fget f ''started_at'')) (\<lambda>started_at.
     bindE (datetime_or_none rdt (fget f ''ended_at'')) (\<lambda>ended_at.
       Inr \<lparr>gu_code = Some (fblank f ''code''), gu_name = Some (fblank f ''name''), gu_type = Some ty, gu_value = Some v,
         gu_plan_id = Some plan_id, gu_limit_use = Some limit_use, gu_used_user_ids = Some (fblank f ''used_user_ids''),
         gu_started_at = Some started_at, gu_ended_at = Some ended_at\<rparr>))))))"

section \<open>Payment methods, orders, invitations, mail\<close>

definition payment_create_from_form :: "form \<Rightarrow> exn + payment_create" where
  "payment_create_from_form f =
     bindE (finto f ''handling_fee_fixed'') (\<lambda>fixed.
     bindE (float_or_none (fget f ''handling_fee_percent'')) (\<lambda>percent.
     bindE (finto f ''sort'') (\<lambda>rank.
       Inr \<lparr>pc_payment = text_of f ''payment'', pc_name = text_of f ''name'', pc_icon = fblank f ''icon'',
         pc_config = JStr (text_of f ''config''), pc_notify_domain = fblank f ''notify_domain'', pc_handling_fee_fixed = fixed,
         pc_handling_fee_percent = percent, pc_enable = fbool f ''enable'', pc_sort = rank\<rparr>)))"

definition payment_update_from_form :: "form \<Rightarrow> exn + payment_update" where
  "payment_update_from_form f =
     bindE (finto f ''handling_fee_fixed'') (\<lambda>fixed.
     bindE (float_or_none (fget f ''handling_fee_percent'')) (\<lambda>percent.
     bindE (finto f ''sort'') (\<lambda>rank.
       Inr \<lparr>px_payment = Some (fblank f ''payment''), px_name = Some (fblank f ''name''), px_icon = Some (fblank f ''icon''),
         px_config = Some (jstr_opt (fblank f ''config'')), px_notify_domain = Some (fblank f ''notify_domain''),
         px_handling_fee_fixed = Some fixed, px_handling_fee_percent = Some percent,
         px_enable = Some (Some (fbool f ''enable'')), px_sort = Some rank\<rparr>)))"

definition order_assign_from_form :: "form \<Rightarrow> exn + order_assign" where
  "order_assign_from_form f =
     bindE (fint f ''plan_id'') (\<lambda>plan_id.
     bindE (finto f ''total_amount'') (\<lambda>total_amount.
       Inr \<lparr>oa_email = text_of f ''email'', oa_plan_id = plan_id, oa_period = text_of f ''period'',
         oa_total_amount = or_zero total_amount\<rparr>))"

text \<open>The owner, the code and the status of a new invite code.\<close>

definition invite_code_create_from_form :: "form \<Rightarrow> exn + int \<times> string option \<times> int" where
  "invite_code_create_from_form f =
     bindE (fint f ''user_id'') (\<lambda>user_id.
     bindE (finto f ''status'') (\<lambda>status. Inr (user_id, fblank f ''code'', or_zero status)))"

definition invite_code_update_from_form :: "form \<Rightarrow> exn + invite_update" where
  "invite_code_update_from_form f =
     bindE (finto f ''status'') (\<lambda>status.
     bindE (finto f ''pv'') (\<lambda>pv. Inr \<lparr>iu_status = Some status, iu_pv = Some pv\<rparr>))"

definition ticket_reply_from_form :: "form \<Rightarrow> string" where
  "ticket_reply_from_form f = text_of f ''message''"

definition json_object_from_text :: "codec \<Rightarrow> string option \<Rightarrow> exn + (string \<times> json) list option" where
  "json_object_from_text C v =
     (let s = strip (set_if v []) in
      if s = [] then Inr None else (case loads C s of Some (JObj kvs) \<Rightarrow> Inr (Some kvs) | _ \<Rightarrow> Inl ValueError))"

definition mail_send_from_form :: "codec \<Rightarrow> form \<Rightarrow> exn + mail_send" where
  "mail_send_from_form C f =
     bindE (json_object_from_text C (fget f ''template_value'')) (\<lambda>vals.
       Inr \<lparr>md_email = strip (text_of f ''email''), md_subject = strip (text_of f ''subject''),
         md_template_name = strip (text_of f ''template_name''), md_template_value = set_if vals []\<rparr>)"

section \<open>Settings\<close>

definition json_from_text :: "codec \<Rightarrow> string option \<Rightarrow> exn + json" where
  "json_from_text C v =
     (let s = strip (set_if v []) in
      if s = [] then Inr (JArr []) else (case loads C s of Some j \<Rightarrow> Inr j | None \<Rightarrow> Inl ValueError))"

definition coerce_typed_value :: "codec \<Rightarrow> string \<Rightarrow> string \<Rightarrow> exn + json" where
  "coerce_typed_value C v type_hint =
     (if type_hint = ''int'' then
        (if v = [] then Inr (JInt 0) else (case py_int v of None \<Rightarrow> Inl ValueError | Some n \<Rightarrow> Inr (JInt n)))
      else if type_hint = ''bool'' then Inr (JBool (as_bool (Some v)))
      else if type_hint = ''json'' then json_from_text C (Some v)
      else Inr (JStr v))"

definition value_field :: "string \<times> string \<Rightarrow> bool" where
  "value_field kv \<longleftrightarrow> fst kv \<noteq> ''csrf_token'' \<and> \<not> starts_with ''_type_'' (fst kv)"

definition setting_group_values_from_form :: "codec \<Rightarrow> form \<Rightarrow> exn + (string \<times> json) list" where
  "setting_group_values_from_form C f =
     mapE (\<lambda>(k, v). let hint = text_of f (''_type_'' @ k) in
        bindE (coerce_typed_value C v (if hint = [] then ''str'' else hint)) (\<lambda>x. Inr (k, x))) (filter value_field f)"

section \<open>Nodes\<close>

text \<open>\<open>str.splitlines\<close> on the line breaks of ASCII; empty pieces are dropped afterwards.\<close>

definition line_break :: "char \<Rightarrow> bool" where
  "line_break c \<longleftrightarrow> char_code c \<in> {10, 11, 12, 13, 28, 29, 30}"

definition text_lines :: "string \<Rightarrow> string list" where
  "text_lines s = split_on (char_of (10 :: nat)) (map (\<lambda>c. if line_break c then char_of (10 :: nat) else c) s)"

definition stripped_items :: "string list \<Rightarrow> string list" where
  "stripped_items xs = filter (\<lambda>x. x \<noteq> []) (map strip xs)"

definition str_list :: "codec \<Rightarrow> string option \<Rightarrow> exn + string list" where
  "str_list C v =
     (let s = strip (set_if v []) in
      if s = [] then Inr []
      else if starts_with ''['' s then
        (case loads C s of Some (JArr xs) \<Rightarrow> Inr (stripped_items (map (py_str C) xs)) | _ \<Rightarrow> Inl ValueError)
      else Inr (stripped_items (text_lines (map (\<lambda>c. if c = CHR '','' then char_of (10 :: nat) else c) s))))"

definition jarr_opt :: "json list \<Rightarrow> json" where
  "jarr_opt xs = (if xs = [] then JNull else JArr xs)"

definition optional_str_list_from_text :: "codec \<Rightarrow> string option \<Rightarrow> exn + json" where
  "optional_str_list_from_text C v = bindE (str_list C v) (\<lambda>xs. Inr (jarr_opt (map JStr xs)))"

definition optional_int_list_from_text :: "codec \<Rightarrow> string option \<Rightarrow> exn + json" where
  "optional_int_list_from_text C v =
     bindE (str_list C v) (\<lambda>xs.
     bindE (mapE (\<lambda>x. case py_int x of None \<Rightarrow> Inl ValueError | Some n \<Rightarrow> Inr (JInt n)) xs) (\<lambda>ns. Inr (jarr_opt ns)))"

definition int_list_from_text :: "codec \<Rightarrow> string option \<Rightarrow> exn + json" where
  "int_list_from_text C v = bindE (optional_int_list_from_text C v) (\<lambda>j. guardE (j = JNull) ValueError (Inr j))"

definition jobj_opt :: "(string \<times> json) list option \<Rightarrow> json" where
  "jobj_opt v = (case v of None \<Rightarrow> JNull | Some kvs \<Rightarrow> JObj kvs)"

definition server_group_create_from_form :: "form \<Rightarrow> string" where
  "server_group_create_from_form f = strip (text_of f ''name'')"

definition server_group_update_from_form :: "form \<Rightarrow> string option" where
  "server_group_update_from_form f = fblank f ''name''"

definition server_route_create_from_form :: "codec \<Rightarrow> form \<Rightarrow> exn + (string \<times> json) list" where
  "server_route_create_from_form C f =
     bindE (optional_str_list_from_text C (fget f ''match'')) (\<lambda>items.
       Inr [(''remarks'', JStr (strip (text_of f ''remarks''))), (''match'', items), (''action'', JStr (strip (text_of f ''action''))),
            (''action_value'', jstr_opt (fblank f ''action_value''))])"

definition server_route_update_from_form :: "codec \<Rightarrow> form \<Rightarrow> exn + (string \<times> json) list" where
  "server_route_update_from_form C f =
     bindE (optional_str_list_from_text C (fget f ''match'')) (\<lambda>items.
       Inr [(''remarks'', jstr_opt (fblank f ''remarks'')), (''match'', items), (''action'', jstr_opt (fblank f ''action'')),
            (''action_value'', jstr_opt (fblank f ''action_value''))])"

text \<open>The fields that the two node forms read alike.\<close>

definition node_lists :: "codec \<Rightarrow> form \<Rightarrow> exn + (string \<times> json) list" where
  "node_lists C f =
     bindE (optional_int_list_from_text C (fget f ''route_id'')) (\<lambda>route_id.
     bindE (optional_str_list_from_text C (fget f ''tags'')) (\<lambda>tags.
     bindE (json_object_from_text C (fget f ''tls_settings'')) (\<lambda>tls_settings.
     bindE (json_object_from_text C (fget f ''network_settings'')) (\<lambda>network_settings.
     bindE (json_object_from_text C (fget f ''encryption_settings'')) (\<lambda>encryption_settings.
     bindE (optional_str_list_from_text C (fget f ''padding_scheme'')) (\<lambda>padding.
       Inr [(''route_id'', route_id), (''tags'', tags), (''tls_settings'', jobj_opt tls_settings),
            (''network_settings'', jobj_opt network_settings), (''encryption_settings'', jobj_opt encryption_settings),
            (''padding_scheme'', padding), (''show'', JBool (fbool f ''show'')), (''flow'', jstr_opt (fblank f ''flow'')),
            (''encryption'', jstr_opt (fblank f ''encryption'')), (''disable_sni'', JBool (fbool f ''disable_sni'')),
            (''udp_relay_mode'', jstr_opt (fblank f ''udp_relay_mode'')), (''zero_rtt_handshake'', JBool (fbool f ''zero_rtt_handshake'')),
            (''congestion_control'', jstr_opt (fblank f ''congestion_control'')), (''cipher'', jstr_opt (fblank f ''cipher'')),
            (''obfs'', jstr_opt (fblank f ''obfs'')), (''obfs_password'', jstr_opt (fblank f ''obfs_password''))]))))))"

text \<open>\<open>str(form.get(k) or default).strip()\<close>.\<close>

definition text_or :: "form \<Rightarrow> string \<Rightarrow> string \<Rightarrow> json" where
  "text_or f k dflt = JStr (strip (if text_of f k = [] then dflt else text_of f k))"

definition server_node_create_from_form :: "codec \<Rightarrow> form \<Rightarrow> exn + (string \<times> json) list" where
  "server_node_create_from_form C f =
     bindE (int_list_from_text C (fget f ''group_id'')) (\<lambda>group_id.
     bindE (finto f ''parent_id'') (\<lambda>parent_id.
     bindE (fint f ''server_port'') (\<lambda>server_port.
     bindE (finto f ''sort'') (\<lambda>rank.
     bindE (fint f ''tls'') (\<lambda>tls.
     bindE (finto f ''up_mbps'') (\<lambda>up.
     bindE (finto f ''down_mbps'') (\<lambda>down.
     bindE (node_lists C f) (\<lambda>rest.
       Inr ([(''group_id'', group_id), (''name'', text_or f ''name'' []), (''parent_id'', jopt parent_id), (''host'', text_or f ''host'' []),
         (''listen_ip'', text_or f ''listen_ip'' ''0.0.0.0''), (''port'', text_or f ''port'' []), (''server_port'', JInt server_port),
         (''rate'', text_or f ''rate'' ''1''), (''sort'', jopt rank), (''protocol'', text_or f ''protocol'' []), (''tls'', JInt tls),
         (''network'', text_or f ''network'' []), (''up_mbps'', JInt (or_zero up)), (''down_mbps'', JInt (or_zero down))] @ rest)))))))))"

definition server_node_update_from_form :: "codec \<Rightarrow> form \<Rightarrow> exn + (string \<times> json) list" where
  "server_node_update_from_form C f =
     bindE (optional_int_list_from_text C (fget f ''group_id'')) (\<lambda>group_id.
     bindE (finto f ''parent_id'') (\<lambda>parent_id.
     bindE (finto f ''server_port'') (\<lambda>server_port.
     bindE (finto f ''sort'') (\<lambda>rank.
     bindE (finto f ''tls'') (\<lambda>tls.
     bindE (finto f ''up_mbps'') (\<lambda>up.
     bindE (finto f ''down_mbps'') (\<lambda>down.
     bindE (node_lists C f) (\<lambda>rest.
       Inr ([(''group_id'', group_id), (''name'', jstr_opt (fblank f ''name'')), (''parent_id'', jopt parent_id),
         (''host'', jstr_opt (fblank f ''host'')), (''listen_ip'', jstr_opt (fblank f ''listen_ip'')), (''port'', jstr_opt (fblank f ''port'')),
         (''server_port'', jopt server_port), (''rate'', jstr_opt (fblank f ''rate'')), (''sort'', jopt rank),
         (''protocol'', jstr_opt (fblank f ''protocol'')), (''tls'', jopt tls), (''network'', jstr_opt (fblank f ''network'')),
         (''up_mbps'', jopt up), (''down_mbps'', jopt down)] @ rest)))))))))"

section \<open>A form survives its transport\<close>

lemma quoted_chars:
  assumes "c \<in> set (quote_plus s)"
  shows "char_code c < 128 \<and> c \<noteq> CHR ''='' \<and> c \<noteq> CHR ''&''"
proof -
  from assms obtain d where "c \<in> set (quote_char d)" by (auto simp: quote_plus_def)
  moreover have "char_code (hex_digit n) < 128 \<and> hex_digit n \<noteq> CHR ''='' \<and> hex_digit n \<noteq> CHR ''&''" if "n < 16" for n
  proof -
    have n: "char_code (hex_digit n) = (if n < 10 then 48 + n else 55 + n)" using that by (simp add: hex_digit_def char_code_def)
    have "char_code (CHR ''='') = 61" "char_code (CHR ''&'') = 38" by (simp_all add: char_code_def)
    then show ?thesis using n that by (auto split: if_splits)
  qed
  moreover have "char_code d div 16 < 16" "char_code d mod 16 < 16" using char_code_bound [of d] by simp_all
  ultimately show ?thesis
    by (auto simp: quote_char_def unreserved_def is_digit_def char_code_def split: if_splits)
qed

lemma form_field_encoded: "form_field (quote_plus k @ ''='' @ quote_plus v) = (k, v)"
proof -
  have "CHR ''='' \<notin> set (quote_plus k)" using quoted_chars by blast
  then show ?thesis
    using unquote_quote [of k "[]"] unquote_quote [of v "[]"] by (simp add: form_field_def partition_first)
qed

lemma split_on_step: "d \<notin> set s \<Longrightarrow> split_on d (s @ d # t) = s # split_on d t"
  by (induction s) auto

lemma split_joined:
  "xs \<noteq> [] \<Longrightarrow> \<forall>x\<in>set xs. CHR ''&'' \<notin> set x \<Longrightarrow> split_on (CHR ''&'') (join_with ''&'' xs) = xs"
proof (induction xs)
  case (Cons x xs)
  then show ?case by (cases xs) (simp_all add: split_on_step split_on_absent)
qed simp

lemma encoded_pair_ok: "CHR ''&'' \<notin> set (quote_plus k @ ''='' @ quote_plus v)"
  using quoted_chars by auto

lemma fold_new_keys:
  "distinct (map fst (acc @ ps)) \<Longrightarrow> fold (\<lambda>p form. case p of (k, v) \<Rightarrow> AList.update k v form) ps acc = acc @ ps"
proof (induction ps arbitrary: acc)
  case (Cons p ps)
  obtain k v where p: "p = (k, v)" by fastforce
  have new: "k \<notin> fst ` set acc" using Cons.prems by (auto simp: p)
  have "AList.update k v acc = acc @ [(k, v)]" using new by (induction acc) auto
  then show ?case using Cons.IH [of "acc @ [(k, v)]"] Cons.prems by (simp add: p)
qed simp

lemma parse_encoded:
  assumes "distinct (map fst ps)"
  shows "parse_form (urlencode ps) = ps"
proof (cases "ps = []")
  case False
  let ?enc = "\<lambda>(k, v). quote_plus k @ ''='' @ quote_plus v"
  have "split_on (CHR ''&'') (urlencode ps) = map ?enc ps"
    unfolding urlencode_def using False encoded_pair_ok by (intro split_joined) auto
  moreover have "filter (\<lambda>part. part \<noteq> []) (map ?enc ps) = map ?enc ps" by (induction ps) auto
  moreover have "fold (\<lambda>part form. case form_field part of (k, v) \<Rightarrow> AList.update k v form) (map ?enc ps) acc
      = fold (\<lambda>p form. case p of (k, v) \<Rightarrow> AList.update k v form) ps acc" for acc
    by (induction ps arbitrary: acc) (auto simp: form_field_encoded simp del: append.simps)
  ultimately show ?thesis using fold_new_keys [of "[]" ps] assms by (simp add: parse_form_def)
qed (simp add: parse_form_def urlencode_def)

lemma encoded_ascii: "c \<in> set (urlencode ps) \<Longrightarrow> char_code c < 128"
proof -
  have join: "c \<in> set (join_with ''&'' xs) \<Longrightarrow> c = CHR ''&'' \<or> (\<exists>x\<in>set xs. c \<in> set x)" for xs
  proof (induction xs)
    case (Cons x xs)
    then show ?case by (cases xs) auto
  qed simp
  assume "c \<in> set (urlencode ps)"
  then have "c = CHR ''&'' \<or> (\<exists>p\<in>set ps. c \<in> set (case p of (k, v) \<Rightarrow> quote_plus k @ ''='' @ quote_plus v))"
    unfolding urlencode_def by (auto dest!: join)
  then show ?thesis using quoted_chars by (auto simp: char_code_def)
qed

text \<open>A form reaches the server as it was filled in: reading the URL-encoded body gives back the fields and their
  values, whatever characters they contain, in their order.\<close>

theorem form_roundtrip:
  assumes "distinct (map fst form)"
  shows "form_data (urlencode form) = Inr form"
proof -
  have "is_ascii (urlencode form)" using encoded_ascii by (auto simp: is_ascii_def list_all_iff)
  then show ?thesis using parse_encoded [OF assms] by (simp add: form_data_def ascii_utf8)
qed

theorem form_roundtrip_witness:
  "distinct (map fst [(''name'', ''a&b=c d''), (''show'', []), (''note'', [char_of (200 :: nat)])]) \<and>
   form_data (urlencode [(''name'', ''a&b=c d''), (''show'', []), (''note'', [char_of (200 :: nat)])]) =
     Inr [(''name'', ''a&b=c d''), (''show'', []), (''note'', [char_of (200 :: nat)])]"
proof -
  have "distinct (map fst [(''name'', ''a&b=c d''), (''show'', []), (''note'', [char_of (200 :: nat)])])" by simp
  then show ?thesis using form_roundtrip by blast
qed

end
