(* ===== verification/AdminUi.thy ===== *)
theory AdminUi
  imports RequestLog AdminForms Privileges
begin

text \<open>
  \<open>app/admin_ui\<close>: the HTML administration. Every page is behind the \<open>admin_token\<close> cookie, every action also behind
  a CSRF token that must equal the one of the \<open>admin_csrf\<close> cookie. A page is given by the answers it shows and not
  by its HTML. An action reads its form, calls a service and shows a table. Unlike in the JSON API, an exception that the
  action catches does not end the transaction: the error page is an answer, and what the service had written when it
  raised is committed (\<open>left_behind\<close>).
\<close>

section \<open>Requests and answers\<close>

record ui_http = http_request +
  uh_body :: string

record ui_env =
  ui_admin :: admin_env
  ui_reader :: iso_reader

abbreviation ui_auth :: "ui_env \<Rightarrow> auth_service" where
  "ui_auth U \<equiv> ap_auth (ad_api (ui_admin U))"

abbreviation ui_codec :: "ui_env \<Rightarrow> codec" where
  "ui_codec U \<equiv> ad_codec (ui_admin U)"

datatype ui_page =
    RedirectTo string
  | Unauthorised
  | LoginPage "exn option" string
  | LoginExpired string
  | SignedInAs string string
  | SignedOut
  | WholePage string
  | Fragment "admin_reply list"
  | ActionError exn
  | BadCsrf

definition csrf_cookie :: string where
  "csrf_cookie = ''admin_csrf''"

definition cookie :: "'a http_request_scheme \<Rightarrow> string \<Rightarrow> string option" where
  "cookie rq k = map_of (rq_cookies rq) k"

definition current_admin :: "auth_service \<Rightarrow> int \<Rightarrow> 'a http_request_scheme \<Rightarrow> db \<Rightarrow> exn + user option" where
  "current_admin A now rq db =
     (if \<not> Auth.text_given (cookie rq token_cookie) then Inr None
      else (case require_admin A now (the (cookie rq token_cookie)) db of
          Inr u \<Rightarrow> Inr (Some u)
        | Inl e \<Rightarrow> if is_app_exception e then Inr None else Inl e))"

text \<open>\<open>compare_digest\<close> raises \<open>TypeError\<close> on texts outside ASCII.\<close>

definition valid_csrf :: "'a http_request_scheme \<Rightarrow> form \<Rightarrow> exn + bool" where
  "valid_csrf rq form =
     (let cookie_token = cookie rq csrf_cookie;
          header = map_of (rq_headers rq) ''x-csrf-token'';
          submitted = (if Auth.text_given header then header else fget form ''csrf_token'') in
      if \<not> Auth.text_given cookie_token \<or> \<not> Auth.text_given submitted then Inr False
      else if \<not> is_ascii (the cookie_token) \<or> \<not> is_ascii (the submitted) then Inl TypeError
      else Inr (cookie_token = submitted))"

text \<open>The exceptions an action catches: those of the form and of the application, of the application only, or none.\<close>

datatype catching = CatchForm | CatchApp | CatchNone

fun catches :: "catching \<Rightarrow> exn \<Rightarrow> bool" where
  "catches CatchForm e = (e = ValueError \<or> is_app_exception e)"
| "catches CatchApp e = is_app_exception e"
| "catches CatchNone e = False"

section \<open>What a failing call has written\<close>

text \<open>
  \<open>_process_paid_order\<close> sets the order to status 1 before anything can fail, and consumes the coupon and charges the
  balance before the period is looked up; the pending attributes are flushed when the transaction commits.
\<close>

definition plan_left :: "order_env \<Rightarrow> int \<Rightarrow> order \<Rightarrow> user \<Rightarrow> db \<Rightarrow> db" where
  "plan_left E now r u db =
     (case plan_by_id_for_update db (od_plan_id r) of
        None \<Rightarrow> db
      | Some p \<Rightarrow>
          (case (if requires_capacity_slot now (us_plan_id u) (Some (us_expired_at u)) (pl_id p) (od_period r)
                 then ensure_capacity now (pl_id p) (pl_capacity_limit p) db else Inr ()) of
             Inl _ \<Rightarrow> db
           | Inr _ \<Rightarrow>
               (case (if od_coupon_id r \<noteq> None \<and> 0 < or_zero (od_discount_amount r)
                      then consume_for_paid_order (oe_codec E) now r db else Inr db) of
                  Inl _ \<Rightarrow> db
                | Inr db1 \<Rightarrow>
                    (case charge_balance r u of Inl _ \<Rightarrow> db1 | Inr u1 \<Rightarrow> if u1 = u then db1 else put_user now db1 u1))))"

definition paid_order_left :: "order_env \<Rightarrow> int \<Rightarrow> int \<Rightarrow> string option \<Rightarrow> db \<Rightarrow> db" where
  "paid_order_left E now oid callback_no db =
     (case order_by_id_for_update db oid of
        None \<Rightarrow> db
      | Some lo \<Rightarrow>
          if od_status lo \<notin> {0, 1} then db
          else
            let r = lo\<lparr>od_status := 1, od_callback_no := (case callback_no of None \<Rightarrow> od_callback_no lo | Some c \<Rightarrow> Some c)\<rparr>;
                db1 = put_order now db r in
            (case user_by_id_for_update db1 (od_user_id r) of
               None \<Rightarrow> db1
             | Some u \<Rightarrow> if od_period r = ''deposit'' \<or> od_plan_id r = 0 then db1 else plan_left E now r u db1))"

definition mark_paid_left :: "order_env \<Rightarrow> int \<Rightarrow> string \<Rightarrow> db \<Rightarrow> db" where
  "mark_paid_left E now trade_no db =
     (case order_by_trade_no db trade_no of
        None \<Rightarrow> db
      | Some r \<Rightarrow> if od_status r \<noteq> 0 then db else paid_order_left E now (od_id r) (Some ''manual_operation'') db)"

text \<open>The loops that generate rows keep the rows of the rounds before the one that raises.\<close>

fun users_left :: "passwords \<Rightarrow> (nat \<Rightarrow> account_random) \<Rightarrow> int \<Rightarrow> user_generate \<Rightarrow> plan option \<Rightarrow> int \<Rightarrow> nat list \<Rightarrow> db \<Rightarrow> db" where
  "users_left P rnd now data plan cnt [] db = db"
| "users_left P rnd now data plan cnt (index # is) db =
     (let email = generated_email data cnt index (ar_prefix (rnd index));
          password = (case ug_password data of None \<Rightarrow> email | Some p \<Rightarrow> if p = [] then email else p) in
      if email_exists db email then db
      else (case insert_user now db (generated_user P (rnd index) data plan email password) of
          Inl _ \<Rightarrow> db
        | Inr (u, db1) \<Rightarrow> users_left P rnd now data plan cnt is db1))"

definition generate_users_left :: "passwords \<Rightarrow> (nat \<Rightarrow> account_random) \<Rightarrow> int \<Rightarrow> user_generate \<Rightarrow> db \<Rightarrow> db" where
  "generate_users_left P rnd now data db =
     (let cnt = or_zero (py_or (ug_count data) (Some 1)) in
      if ug_email_suffix data = [] \<or> CHR ''@'' \<in> set (ug_email_suffix data) \<or> cnt < 1 \<or> 500 < cnt then db
      else if truthy (ug_plan_id data) then
        (case plan_by_id db (or_zero (ug_plan_id data)) of
           None \<Rightarrow> db | Some p \<Rightarrow> users_left P rnd now data (Some p) cnt [0..<nat cnt] db)
      else users_left P rnd now data None cnt [0..<nat cnt] db)"

fun coupons_left :: "codec \<Rightarrow> int \<Rightarrow> (nat \<Rightarrow> string list) \<Rightarrow> nat \<Rightarrow> coupon_create \<Rightarrow> db \<Rightarrow> db" where
  "coupons_left C now rnd 0 data db = db"
| "coupons_left C now rnd (Suc n) data db =
     (case generate_coupon_code (rnd n) db of
        Inl _ \<Rightarrow> db
      | Inr code \<Rightarrow>
          (case validate_payload (Some (ca_type data)) (Some (ca_value data)) (Some (ca_started_at data)) (Some (ca_ended_at data)) of
             Inl _ \<Rightarrow> db
           | Inr _ \<Rightarrow> coupons_left C now rnd n data (snd (insert_coupon now db (new_coupon C data code)))))"

fun giftcards_left :: "int \<Rightarrow> (nat \<Rightarrow> string list) \<Rightarrow> nat \<Rightarrow> giftcard_create \<Rightarrow> db \<Rightarrow> db" where
  "giftcards_left now rnd 0 data db = db"
| "giftcards_left now rnd (Suc n) data db =
     (case generate_giftcard_code (rnd n) db of
        Inl _ \<Rightarrow> db
      | Inr code \<Rightarrow>
          (case validate_new_giftcard data of
             Inl _ \<Rightarrow> db
           | Inr _ \<Rightarrow> giftcards_left now rnd n data (snd (insert_giftcard now db (new_giftcard data code)))))"

text \<open>The settings read before the webhook is set stay in the cache.\<close>

definition webhook_left :: "admin_env \<Rightarrow> int \<Rightarrow> string \<Rightarrow> db \<Rightarrow> db" where
  "webhook_left E now given_token db =
     (let db1 = (if given_token = [] then snd (get_str (ad_settings E) now ''telegram_bot_token'' [] db) else db)
      in snd (get_str (ad_settings E) now ''app_url'' [] db1))"

text \<open>Every other service checks before it writes.\<close>

definition left_behind :: "admin_env \<Rightarrow> int \<Rightarrow> admin_random \<Rightarrow> admin_request \<Rightarrow> db \<Rightarrow> db" where
  "left_behind E now rnd req db =
     (case req of
        AOrders (MarkPaid trade_no) \<Rightarrow> mark_paid_left (ap_orders (ad_api E)) now trade_no db
      | AUsers (GenerateUsers data) \<Rightarrow> generate_users_left (au_passwords (ap_auth (ad_api E))) (an_accounts rnd) now data db
      | ACoupons (GenerateCoupons n data) \<Rightarrow>
          if n < 1 \<or> 500 < n then db else coupons_left (ad_codec E) now (an_codes rnd) (nat n) data db
      | AGiftcards (GenerateGiftcards n data) \<Rightarrow>
          if n < 1 \<or> 500 < n then db else giftcards_left now (an_codes rnd) (nat n) data db
      | ASettings (TelegramWebhook token) \<Rightarrow> webhook_left E now token db
      | _ \<Rightarrow> db)"

section \<open>Actions and fragments\<close>

text \<open>
  An action: what it catches, the call it makes of the form, and the table it shows afterwards (\<open>None\<close>: the answer of
  the call itself). The call is that of an endpoint of the JSON API, but for the settings form: it goes to
  \<open>batch_save_config\<close> with the values of the form, past the body types of the endpoint. A fragment: the answers that it shows, with or without a handler for exceptions of the
  application, one answer of which it picks a row, or what it shows without a service.
\<close>

datatype ui_call = Api admin_request | SaveForm "(string \<times> json) list"

record ui_post =
  up_catch :: catching
  up_call :: "exn + ui_call"
  up_show :: "(exn + admin_request) option"

datatype ui_view = Reads catching "admin_request list" | Picked "admin_reply \<Rightarrow> admin_reply" admin_request | Shows admin_reply

definition mapR :: "('a \<Rightarrow> 'b) \<Rightarrow> exn + 'a \<Rightarrow> exn + 'b" where
  "mapR f r = bindE r (\<lambda>x. Inr (f x))"

definition ui_act :: "catching \<Rightarrow> exn + admin_request \<Rightarrow> exn + admin_request \<Rightarrow> ui_post" where
  "ui_act c call tbl = \<lparr>up_catch = c, up_call = mapR Api call, up_show = Some tbl\<rparr>"

text \<open>\<open>int_or_none(...) or d\<close>.\<close>

definition int_or :: "int \<Rightarrow> int option \<Rightarrow> int" where
  "int_or d v = or_zero (py_or v (Some d))"

text \<open>A page of a table, with the bounds put right.\<close>

definition clamped :: "int \<Rightarrow> (int \<Rightarrow> int \<Rightarrow> 'a) \<Rightarrow> int \<Rightarrow> int \<Rightarrow> 'a" where
  "clamped cap f offset limit = f (max offset 0) (min (max limit 1) cap)"

text \<open>The page that the form names.\<close>

definition form_page :: "(int \<Rightarrow> int \<Rightarrow> 'a) \<Rightarrow> form \<Rightarrow> exn + 'a" where
  "form_page f form =
     bindE (finto form ''offset'') (\<lambda>start. bindE (finto form ''limit'') (\<lambda>n. Inr (f (int_or 0 start) (int_or 50 n))))"

subsection \<open>\<open>users.py\<close>\<close>

datatype users_view = VUsersTable int int "string option" "string option" | VUserForm int | VUserCreateForm | VUserGenerateForm

fun show_users :: "users_view \<Rightarrow> ui_view" where
  "show_users (VUsersTable offset limit q status) =
     Reads CatchNone [clamped 100 (\<lambda>start n. AUsers (AdminUsers start n (blank_none q) (blank_none status))) offset limit]"
| "show_users (VUserForm i) = Reads CatchNone [AUsers (AdminUser i)]"
| "show_users VUserCreateForm = Reads CatchNone []"
| "show_users VUserGenerateForm = Reads CatchNone []"

definition query_dict :: "'a http_request_scheme \<Rightarrow> form" where
  "query_dict rq = fold (\<lambda>(k, v) d. AList.update k v d) (rq_query rq) []"

text \<open>\<open>filters_from_request\<close>: a value of the form (of the query, when the form is empty) or its default.\<close>

definition filter_value :: "'a http_request_scheme \<Rightarrow> form \<Rightarrow> string \<Rightarrow> string \<Rightarrow> string" where
  "filter_value rq form k d = (let v = text_of (if form = [] then query_dict rq else form) k in if v = [] then d else v)"

definition users_table_response :: "'a http_request_scheme \<Rightarrow> form \<Rightarrow> exn + admin_request" where
  "users_table_response rq form =
     bindE (int_or_none (Some (filter_value rq form ''offset'' ''0''))) (\<lambda>start.
     bindE (int_or_none (Some (filter_value rq form ''limit'' ''20''))) (\<lambda>n.
       Inr (clamped 100 (\<lambda>start n. AUsers (AdminUsers start n (blank_none (Some (filter_value rq form ''q'' [])))
              (blank_none (Some (filter_value rq form ''status'' []))))) (int_or 0 start) (int_or 20 n))))"

datatype users_action = PCreateUser | PGenerateUsers | PUpdateUser int | PBanUser int | PResetUser int | PDeleteUser int

fun post_users :: "ui_env \<Rightarrow> users_action \<Rightarrow> 'a http_request_scheme \<Rightarrow> form \<Rightarrow> ui_post" where
  "post_users U PCreateUser rq f =
     ui_act CatchForm (Inr (AUsers (AddUser (user_create_from_form f)))) (users_table_response rq f)"
| "post_users U PGenerateUsers rq f =
     ui_act CatchForm (mapR (\<lambda>d. AUsers (GenerateUsers d)) (user_generate_from_form (ui_reader U) f)) (users_table_response rq f)"
| "post_users U (PUpdateUser i) rq f =
     ui_act CatchForm (mapR (\<lambda>d. AUsers (EditUser i d)) (user_update_from_form (ui_reader U) f)) (users_table_response rq f)"
| "post_users U (PBanUser i) rq f = ui_act CatchNone (Inr (AUsers (BanUser i (fbool f ''banned'')))) (users_table_response rq f)"
| "post_users U (PResetUser i) rq f = ui_act CatchNone (Inr (AUsers (ResetUser i))) (users_table_response rq f)"
| "post_users U (PDeleteUser i) rq f = ui_act CatchApp (Inr (AUsers (DropUser i))) (users_table_response rq f)"

subsection \<open>\<open>notices.py\<close>, \<open>knowledge.py\<close>, \<open>plans.py\<close>, \<open>payments.py\<close>\<close>

text \<open>\<open>get(i) if i else None\<close>: an absent or zero identifier opens an empty form.\<close>

definition opt_form :: "(int \<Rightarrow> admin_request) \<Rightarrow> int option \<Rightarrow> admin_request list" where
  "opt_form f i = (if truthy i then [f (or_zero i)] else [])"

definition notices_table :: "int \<Rightarrow> int \<Rightarrow> admin_request" where
  "notices_table page_no sz = ANotices (AdminNotices (max page_no 1) (min (max sz 1) 100))"

datatype notices_view = VNoticesTable int int | VNoticeForm "int option"

fun show_notices :: "notices_view \<Rightarrow> ui_view" where
  "show_notices (VNoticesTable page_no sz) = Reads CatchNone [notices_table page_no sz]"
| "show_notices (VNoticeForm i) = Reads CatchNone (opt_form (\<lambda>i. ANotices (AdminNotice i)) i)"

datatype notices_action = PCreateNotice | PUpdateNotice int | PDeleteNotice int

fun post_notices :: "notices_action \<Rightarrow> form \<Rightarrow> ui_post" where
  "post_notices PCreateNotice f = ui_act CatchForm (Inr (ANotices (AddNotice (notice_create_from_form f)))) (Inr (notices_table 1 20))"
| "post_notices (PUpdateNotice i) f = ui_act CatchForm (Inr (ANotices (EditNotice i (notice_update_from_form f)))) (Inr (notices_table 1 20))"
| "post_notices (PDeleteNotice i) f =
     ui_act CatchApp (Inr (ANotices (DropNotice i))) (mapR (\<lambda>p. notices_table (int_or 1 p) 20) (finto f ''page_no''))"

definition knowledge_table :: "int \<Rightarrow> int \<Rightarrow> admin_request" where
  "knowledge_table page_no sz = AKnowledge (AdminKnowledge (max page_no 1) (min (max sz 1) 100))"

datatype knowledge_view = VKnowledgeTable int int | VKnowledgeForm "int option"

fun show_knowledge :: "knowledge_view \<Rightarrow> ui_view" where
  "show_knowledge (VKnowledgeTable page_no sz) = Reads CatchNone [knowledge_table page_no sz]"
| "show_knowledge (VKnowledgeForm i) = Reads CatchNone (opt_form (\<lambda>i. AKnowledge (AdminArticle i)) i)"

datatype knowledge_action = PCreateKnowledge | PUpdateKnowledge int | PDeleteKnowledge int

fun post_knowledge :: "knowledge_action \<Rightarrow> form \<Rightarrow> ui_post" where
  "post_knowledge PCreateKnowledge f =
     ui_act CatchForm (mapR (\<lambda>d. AKnowledge (AddKnowledge d)) (knowledge_create_from_form f)) (Inr (knowledge_table 1 20))"
| "post_knowledge (PUpdateKnowledge i) f =
     ui_act CatchForm (mapR (\<lambda>d. AKnowledge (EditKnowledge i d)) (knowledge_update_from_form f)) (Inr (knowledge_table 1 20))"
| "post_knowledge (PDeleteKnowledge i) f =
     ui_act CatchApp (Inr (AKnowledge (DropKnowledge i))) (mapR (\<lambda>p. knowledge_table (int_or 1 p) 20) (finto f ''page_no''))"

datatype plans_view = VPlansTable | VPlanForm "int option"

fun show_plans :: "plans_view \<Rightarrow> ui_view" where
  "show_plans VPlansTable = Reads CatchNone [APlans AdminPlans]"
| "show_plans (VPlanForm i) = Reads CatchNone (opt_form (\<lambda>i. APlans (AdminPlan i)) i)"

datatype plans_action = PCreatePlan | PUpdatePlan int | PDeletePlan int

fun post_plans :: "plans_action \<Rightarrow> form \<Rightarrow> ui_post" where
  "post_plans PCreatePlan f = ui_act CatchForm (mapR (\<lambda>d. APlans (AddPlan d)) (plan_create_from_form f)) (Inr (APlans AdminPlans))"
| "post_plans (PUpdatePlan i) f = ui_act CatchForm (mapR (\<lambda>d. APlans (EditPlan i d)) (plan_update_from_form f)) (Inr (APlans AdminPlans))"
| "post_plans (PDeletePlan i) f = ui_act CatchApp (Inr (APlans (DropPlan i))) (Inr (APlans AdminPlans))"

datatype payments_view = VPaymentsTable int int | VPaymentForm "int option"

fun show_payments :: "payments_view \<Rightarrow> ui_view" where
  "show_payments (VPaymentsTable offset limit) = Reads CatchNone [clamped 200 (\<lambda>start n. APayments (AdminPayments start n)) offset limit]"
| "show_payments (VPaymentForm i) = Reads CatchNone (opt_form (\<lambda>i. APayments (AdminPayment i)) i @ [APayments ListGateways])"

datatype payments_action = PCreatePayment | PUpdatePayment int | PDeletePayment int

fun post_payments :: "payments_action \<Rightarrow> form \<Rightarrow> ui_post" where
  "post_payments PCreatePayment f =
     ui_act CatchForm (mapR (\<lambda>d. APayments (AddPayment d)) (payment_create_from_form f)) (Inr (APayments (AdminPayments 0 50)))"
| "post_payments (PUpdatePayment i) f =
     ui_act CatchForm (mapR (\<lambda>d. APayments (EditPayment i d)) (payment_update_from_form f)) (Inr (APayments (AdminPayments 0 50)))"
| "post_payments (PDeletePayment i) f = ui_act CatchApp (Inr (APayments (DropPayment i))) (Inr (APayments (AdminPayments 0 50)))"

subsection \<open>\<open>orders.py\<close>, \<open>coupons.py\<close>, \<open>giftcards.py\<close>, \<open>invite.py\<close>\<close>

definition orders_table :: "int \<Rightarrow> int \<Rightarrow> admin_request" where
  "orders_table start n = AOrders (AdminOrders start n)"

datatype orders_view = VOrdersTable int int | VOrderAssignForm

fun show_orders :: "orders_view \<Rightarrow> ui_view" where
  "show_orders (VOrdersTable offset limit) = Reads CatchNone [clamped 200 orders_table offset limit]"
| "show_orders VOrderAssignForm = Reads CatchNone []"

datatype orders_action = PAssignOrder | PMarkPaid string | PCancelOrder string

fun post_orders :: "orders_action \<Rightarrow> form \<Rightarrow> ui_post" where
  "post_orders PAssignOrder f = ui_act CatchForm (mapR (\<lambda>d. AOrders (AssignOrder d)) (order_assign_from_form f)) (Inr (orders_table 0 50))"
| "post_orders (PMarkPaid trade_no) f = ui_act CatchApp (Inr (AOrders (MarkPaid trade_no))) (Inr (orders_table 0 50))"
| "post_orders (PCancelOrder trade_no) f = ui_act CatchApp (Inr (AOrders (AdminCancel trade_no))) (Inr (orders_table 0 50))"

definition coupons_table :: "int \<Rightarrow> int \<Rightarrow> admin_request" where
  "coupons_table = clamped 200 (\<lambda>start n. ACoupons (AdminCoupons start n))"

datatype coupons_view = VCouponsTable int int | VCouponForm "int option" | VCouponGenerateForm

fun show_coupons :: "coupons_view \<Rightarrow> ui_view" where
  "show_coupons (VCouponsTable offset limit) = Reads CatchNone [coupons_table offset limit]"
| "show_coupons (VCouponForm i) = Reads CatchNone (opt_form (\<lambda>i. ACoupons (AdminCoupon i)) i)"
| "show_coupons VCouponGenerateForm = Reads CatchNone []"

datatype coupons_action = PCreateCoupon | PGenerateCoupons | PUpdateCoupon int | PToggleCoupon int | PDeleteCoupon int

fun post_coupons :: "ui_env \<Rightarrow> coupons_action \<Rightarrow> form \<Rightarrow> ui_post" where
  "post_coupons U PCreateCoupon f =
     ui_act CatchForm (mapR (\<lambda>d. ACoupons (AddCoupon d)) (coupon_create_from_form (ui_reader U) f)) (Inr (coupons_table 0 50))"
| "post_coupons U PGenerateCoupons f =
     ui_act CatchForm (mapR (\<lambda>(n, d). ACoupons (GenerateCoupons n d)) (coupon_generate_from_form (ui_reader U) f)) (Inr (coupons_table 0 50))"
| "post_coupons U (PUpdateCoupon i) f =
     ui_act CatchForm (mapR (\<lambda>d. ACoupons (EditCoupon i d)) (coupon_update_from_form (ui_reader U) f)) (Inr (coupons_table 0 50))"
| "post_coupons U (PToggleCoupon i) f = ui_act CatchApp (Inr (ACoupons (ToggleCoupon i))) (form_page coupons_table f)"
| "post_coupons U (PDeleteCoupon i) f = ui_act CatchApp (Inr (ACoupons (DropCoupon i))) (form_page coupons_table f)"

definition giftcards_table :: "int \<Rightarrow> int \<Rightarrow> admin_request" where
  "giftcards_table = clamped 200 (\<lambda>start n. AGiftcards (AdminGiftcards start n))"

datatype giftcards_view = VGiftcardsTable int int | VGiftcardForm "int option" | VGiftcardGenerateForm

fun show_giftcards :: "giftcards_view \<Rightarrow> ui_view" where
  "show_giftcards (VGiftcardsTable offset limit) = Reads CatchNone [giftcards_table offset limit]"
| "show_giftcards (VGiftcardForm i) = Reads CatchNone (opt_form (\<lambda>i. AGiftcards (AdminGiftcard i)) i)"
| "show_giftcards VGiftcardGenerateForm = Reads CatchNone []"

datatype giftcards_action = PCreateGiftcard | PGenerateGiftcards | PUpdateGiftcard int | PDeleteGiftcard int

fun post_giftcards :: "ui_env \<Rightarrow> giftcards_action \<Rightarrow> form \<Rightarrow> ui_post" where
  "post_giftcards U PCreateGiftcard f =
     ui_act CatchForm (mapR (\<lambda>d. AGiftcards (AddGiftcard d)) (giftcard_create_from_form (ui_reader U) f)) (Inr (giftcards_table 0 50))"
| "post_giftcards U PGenerateGiftcards f =
     ui_act CatchForm (mapR (\<lambda>(n, d). AGiftcards (GenerateGiftcards n d)) (giftcard_generate_from_form (ui_reader U) f)) (Inr (giftcards_table 0 50))"
| "post_giftcards U (PUpdateGiftcard i) f =
     ui_act CatchForm (mapR (\<lambda>d. AGiftcards (EditGiftcard i d)) (giftcard_update_from_form (ui_reader U) f)) (Inr (giftcards_table 0 50))"
| "post_giftcards U (PDeleteGiftcard i) f = ui_act CatchApp (Inr (AGiftcards (DropGiftcard i))) (form_page giftcards_table f)"

definition invite_codes_table :: "int \<Rightarrow> int \<Rightarrow> admin_request" where
  "invite_codes_table = clamped 200 (\<lambda>start n. AInvites (AdminInviteCodes start n))"

definition commission_table :: "int \<Rightarrow> int \<Rightarrow> admin_request" where
  "commission_table = clamped 200 (\<lambda>start n. AInvites (AdminCommissionLogs start n))"

datatype invite_view = VInviteCodes int int | VCommissionLogs int int | VInviteCodeForm "int option"

text \<open>\<open>_find_invite_code\<close> looks through the first 200 codes.\<close>

definition pick_invite :: "int \<Rightarrow> admin_reply \<Rightarrow> admin_reply" where
  "pick_invite i rep = (case rep of InviteRows ivs \<Rightarrow>
     (case find (\<lambda>iv. iv_id iv = i) ivs of None \<Rightarrow> InviteRows [] | Some iv \<Rightarrow> InviteRow iv) | _ \<Rightarrow> rep)"

fun show_invite :: "invite_view \<Rightarrow> ui_view" where
  "show_invite (VInviteCodes offset limit) = Reads CatchNone [invite_codes_table offset limit]"
| "show_invite (VCommissionLogs offset limit) = Reads CatchNone [commission_table offset limit]"
| "show_invite (VInviteCodeForm i) =
     (if truthy i then Picked (pick_invite (or_zero i)) (AInvites (AdminInviteCodes 0 200)) else Reads CatchNone [])"

datatype invite_action = PCreateInvite | PUpdateInvite int | PDeleteInvite int

fun post_invite :: "invite_action \<Rightarrow> form \<Rightarrow> ui_post" where
  "post_invite PCreateInvite f =
     ui_act CatchForm (mapR (\<lambda>(uid, c, status). AInvites (AddInviteCode (Some uid) c status)) (invite_code_create_from_form f)) (Inr (invite_codes_table 0 50))"
| "post_invite (PUpdateInvite i) f =
     ui_act CatchForm (mapR (\<lambda>d. AInvites (EditInviteCode i d)) (invite_code_update_from_form f)) (Inr (invite_codes_table 0 50))"
| "post_invite (PDeleteInvite i) f = ui_act CatchApp (Inr (AInvites (DropInviteCode i))) (form_page invite_codes_table f)"

subsection \<open>\<open>settings.py\<close>, \<open>tickets.py\<close>\<close>

text \<open>The choice of the open tab is left to the page.\<close>

definition show_settings :: ui_view where
  "show_settings = Reads CatchNone [ASettings SettingGroupList]"

datatype settings_action = PSaveSettings | PTestMail | PTelegramWebhook

fun post_settings :: "ui_env \<Rightarrow> settings_action \<Rightarrow> form \<Rightarrow> ui_post" where
  "post_settings U PSaveSettings f =
     \<lparr>up_catch = CatchForm, up_call = mapR SaveForm (setting_group_values_from_form (ui_codec U) f),
       up_show = Some (Inr (ASettings SettingGroupList))\<rparr>"
| "post_settings U PTestMail f = \<lparr>up_catch = CatchNone, up_call = Inr (Api (ASettings MailTest)), up_show = None\<rparr>"
| "post_settings U PTelegramWebhook f =
     \<lparr>up_catch = CatchApp, up_call = Inr (Api (ASettings (TelegramWebhook (text_of f ''telegram_bot_token'')))), up_show = None\<rparr>"

definition tickets_table :: "int \<Rightarrow> int \<Rightarrow> int option \<Rightarrow> int option \<Rightarrow> string option \<Rightarrow> admin_request" where
  "tickets_table page_no sz status reply_status email =
     ATickets (DeskTickets (max page_no 1) (min (max sz 1) 200) status reply_status email)"

datatype tickets_view = VTicketsTable int int "int option" "int option" "string option" | VTicketDetail int

fun show_tickets :: "tickets_view \<Rightarrow> ui_view" where
  "show_tickets (VTicketsTable page_no sz status reply_status email) =
     Reads CatchNone [tickets_table page_no sz status reply_status (blank_none email)]"
| "show_tickets (VTicketDetail i) = Reads CatchApp [ATickets (DeskTicket i)]"

datatype tickets_action = PReplyTicket int | PCloseTicket int

fun post_tickets :: "tickets_action \<Rightarrow> form \<Rightarrow> ui_post" where
  "post_tickets (PReplyTicket i) f =
     \<lparr>up_catch = CatchForm, up_call = Inr (Api (ATickets (DeskReply i (ticket_reply_from_form f)))), up_show = None\<rparr>"
| "post_tickets (PCloseTicket i) f =
     ui_act CatchApp (Inr (ATickets (DeskClose i)))
       (if fget f ''target'' = Some ''detail'' then Inr (ATickets (DeskTicket i))
        else bindE (finto f ''page_no'') (\<lambda>p. bindE (finto f ''size'') (\<lambda>n. bindE (finto f ''status'') (\<lambda>s.
             bindE (finto f ''reply_status'') (\<lambda>r. Inr (tickets_table (int_or 1 p) (int_or 50 n) s r (fblank f ''email'')))))))"

subsection \<open>\<open>servers.py\<close>\<close>

text \<open>Groups.\<close>

definition pick_group :: "int option \<Rightarrow> admin_reply \<Rightarrow> admin_reply" where
  "pick_group i rep = (case rep of GroupRows gs \<Rightarrow> GroupRows (take 1 (filter (\<lambda>(g, _). Some (sg_id g) = i) gs)) | _ \<Rightarrow> rep)"

datatype groups_view = VServerGroups | VServerGroupForm "int option"

fun show_groups :: "groups_view \<Rightarrow> ui_view" where
  "show_groups VServerGroups = Reads CatchNone [AServers AdminGroups]"
| "show_groups (VServerGroupForm i) = Picked (pick_group i) (AServers AdminGroups)"

datatype groups_action = PCreateGroup | PUpdateGroup int | PDeleteGroup int

fun post_groups :: "groups_action \<Rightarrow> form \<Rightarrow> ui_post" where
  "post_groups PCreateGroup f =
     ui_act CatchForm (Inr (AServers (ChangeServers (CreateGroup (server_group_create_from_form f))))) (Inr (AServers AdminGroups))"
| "post_groups (PUpdateGroup i) f =
     ui_act CatchForm (Inr (AServers (ChangeServers (UpdateGroup i (server_group_update_from_form f))))) (Inr (AServers AdminGroups))"
| "post_groups (PDeleteGroup i) f = ui_act CatchApp (Inr (AServers (ChangeServers (DeleteGroup i)))) (Inr (AServers AdminGroups))"

text \<open>Routes.\<close>

definition pick_route :: "int option \<Rightarrow> admin_reply \<Rightarrow> admin_reply" where
  "pick_route i rep = (case rep of RouteRows rs \<Rightarrow> RouteRows (take 1 (filter (\<lambda>r. Some (rt_id r) = i) rs)) | _ \<Rightarrow> rep)"

datatype routes_view = VServerRoutes | VServerRouteForm "int option"

fun show_routes :: "routes_view \<Rightarrow> ui_view" where
  "show_routes VServerRoutes = Reads CatchNone [AServers AdminRoutes]"
| "show_routes (VServerRouteForm i) = Picked (pick_route i) (AServers AdminRoutes)"

datatype routes_action = PCreateRoute | PUpdateRoute int | PDeleteRoute int

fun post_routes :: "ui_env \<Rightarrow> routes_action \<Rightarrow> form \<Rightarrow> ui_post" where
  "post_routes U PCreateRoute f =
     ui_act CatchForm (mapR (\<lambda>d. AServers (ChangeServers (CreateRoute d))) (server_route_create_from_form (ui_codec U) f)) (Inr (AServers AdminRoutes))"
| "post_routes U (PUpdateRoute i) f =
     ui_act CatchForm (mapR (\<lambda>d. AServers (ChangeServers (UpdateRoute i d))) (server_route_update_from_form (ui_codec U) f)) (Inr (AServers AdminRoutes))"
| "post_routes U (PDeleteRoute i) f = ui_act CatchApp (Inr (AServers (ChangeServers (DeleteRoute i)))) (Inr (AServers AdminRoutes))"

text \<open>Nodes; their actions draw the keys that a new configuration may need.\<close>

datatype nodes_view = VServerNodes | VServerNodeForm "int option"

fun show_nodes :: "nodes_view \<Rightarrow> ui_view" where
  "show_nodes VServerNodes = Reads CatchNone [AServers AdminNodes]"
| "show_nodes (VServerNodeForm i) =
     Reads CatchNone (opt_form (\<lambda>i. AServers (AdminNode i)) i @ [AServers AdminGroups, AServers AdminRoutes])"

datatype nodes_action = PCreateNode node_secrets | PUpdateNode node_secrets int | PCopyNode int | PDeleteNode int

fun post_nodes :: "ui_env \<Rightarrow> nodes_action \<Rightarrow> form \<Rightarrow> ui_post" where
  "post_nodes U (PCreateNode R) f =
     ui_act CatchForm (mapR (\<lambda>d. AServers (ChangeServers (CreateNode R d))) (server_node_create_from_form (ui_codec U) f)) (Inr (AServers AdminNodes))"
| "post_nodes U (PUpdateNode R i) f =
     ui_act CatchForm (mapR (\<lambda>d. AServers (ChangeServers (UpdateNode R i d))) (server_node_update_from_form (ui_codec U) f)) (Inr (AServers AdminNodes))"
| "post_nodes U (PCopyNode i) f = ui_act CatchApp (Inr (AServers (ChangeServers (CopyNode i)))) (Inr (AServers AdminNodes))"
| "post_nodes U (PDeleteNode i) f = ui_act CatchApp (Inr (AServers (ChangeServers (DeleteNode i)))) (Inr (AServers AdminNodes))"

subsection \<open>\<open>ops.py\<close>, \<open>dashboard.py\<close>\<close>

definition logs_table :: "string option \<Rightarrow> string option \<Rightarrow> string option \<Rightarrow> int \<Rightarrow> int \<Rightarrow> admin_request" where
  "logs_table q category level = clamped 200 (\<lambda>start n. ALogs (LogList start n
     (any_log\<lparr>lq_category := strip (set_if category []), lq_level := strip (set_if level []), lq_q := strip (set_if q [])\<rparr>)))"

definition failed_jobs_table :: "int \<Rightarrow> int \<Rightarrow> admin_request" where
  "failed_jobs_table = clamped 200 (\<lambda>start n. AFailedJobs (FailedJobs start n))"

definition mail_logs_table :: "int \<Rightarrow> int \<Rightarrow> admin_request" where
  "mail_logs_table = clamped 200 (\<lambda>start n. AMail (MailLogs start n))"

text \<open>The stems of the template files.\<close>

definition mail_templates :: "string list \<Rightarrow> string list" where
  "mail_templates files = sort (map (\<lambda>n. take (length n - 5) n) (filter (\<lambda>n. suffix ''.html'' n) files))"

definition show_system :: ui_view where
  "show_system = Reads CatchNone [ASystem QueueStats, ASystem SystemStatus, ASystem QueueWorkload]"

datatype logs_view = VLogsTable int int "string option" "string option" "string option" | VLogDetail int

fun show_logs :: "logs_view \<Rightarrow> ui_view" where
  "show_logs (VLogsTable offset limit q category level) = Reads CatchNone [logs_table q category level offset limit]"
| "show_logs (VLogDetail i) = Reads CatchApp [ALogs (LogDetail i)]"

datatype logs_action = PDeleteLog int

fun post_logs :: "logs_action \<Rightarrow> form \<Rightarrow> ui_post" where
  "post_logs (PDeleteLog i) f =
     ui_act CatchApp (Inr (ALogs (DropLog i))) (form_page (logs_table (fget f ''q'') (fget f ''category'') (fget f ''level'')) f)"

datatype jobs_view = VFailedJobs int int | VFailedJob int

fun show_jobs :: "jobs_view \<Rightarrow> ui_view" where
  "show_jobs (VFailedJobs offset limit) = Reads CatchNone [failed_jobs_table offset limit]"
| "show_jobs (VFailedJob i) = Reads CatchApp [AFailedJobs (FailedJob i)]"

datatype jobs_action = PRetryJob int | PDeleteJob int

fun post_jobs :: "jobs_action \<Rightarrow> form \<Rightarrow> ui_post" where
  "post_jobs (PRetryJob i) f = ui_act CatchApp (Inr (AFailedJobs (RetryJob i))) (Inr (failed_jobs_table 0 50))"
| "post_jobs (PDeleteJob i) f = ui_act CatchApp (Inr (AFailedJobs (DropFailedJob i))) (form_page failed_jobs_table f)"

datatype mail_view = VMailLogs int int | VMailSendForm | VMailLog int

fun show_mail :: "ui_env \<Rightarrow> mail_view \<Rightarrow> ui_view" where
  "show_mail U (VMailLogs offset limit) = Reads CatchNone [mail_logs_table offset limit]"
| "show_mail U VMailSendForm = Shows (Names (mail_templates (ad_templates (ui_admin U))))"
| "show_mail U (VMailLog i) = Reads CatchApp [AMail (MailLog i)]"

datatype mail_action = PSendMail

fun post_mail :: "ui_env \<Rightarrow> mail_action \<Rightarrow> form \<Rightarrow> ui_post" where
  "post_mail U PSendMail f =
     ui_act CatchForm (mapR (\<lambda>m. AMail (SendMail m)) (mail_send_from_form (ui_codec U) f)) (Inr (mail_logs_table 0 50))"

datatype dashboard_view = VOverview | VUserTraffic "int option"

fun show_dashboard :: "dashboard_view \<Rightarrow> ui_view" where
  "show_dashboard VOverview = Reads CatchNone
     [AStats StatOverview, AStats (OrderSeries 30), AStats (ServerRanking ''today'' 15), AStats (UserRanking ''today'' 30),
      ASystem SystemStatus, ASystem QueueStats]"
| "show_dashboard (VUserTraffic i) = Reads CatchNone (opt_form (\<lambda>i. AStats (TrafficOf i 30)) i)"

section \<open>Serving\<close>

datatype view_request =
    ViewUsers users_view
  | ViewNotices notices_view
  | ViewKnowledge knowledge_view
  | ViewPlans plans_view
  | ViewPayments payments_view
  | ViewOrders orders_view
  | ViewCoupons coupons_view
  | ViewGiftcards giftcards_view
  | ViewInvite invite_view
  | ViewSettings
  | ViewTickets tickets_view
  | ViewGroups groups_view
  | ViewRoutes routes_view
  | ViewNodes nodes_view
  | ViewSystem
  | ViewLogs logs_view
  | ViewJobs jobs_view
  | ViewMail mail_view
  | ViewDashboard dashboard_view

fun view_of :: "ui_env \<Rightarrow> view_request \<Rightarrow> ui_view" where
  "view_of U (ViewUsers v) = show_users v"
| "view_of U (ViewNotices v) = show_notices v"
| "view_of U (ViewKnowledge v) = show_knowledge v"
| "view_of U (ViewPlans v) = show_plans v"
| "view_of U (ViewPayments v) = show_payments v"
| "view_of U (ViewOrders v) = show_orders v"
| "view_of U (ViewCoupons v) = show_coupons v"
| "view_of U (ViewGiftcards v) = show_giftcards v"
| "view_of U (ViewInvite v) = show_invite v"
| "view_of U ViewSettings = show_settings"
| "view_of U (ViewTickets v) = show_tickets v"
| "view_of U (ViewGroups v) = show_groups v"
| "view_of U (ViewRoutes v) = show_routes v"
| "view_of U (ViewNodes v) = show_nodes v"
| "view_of U ViewSystem = show_system"
| "view_of U (ViewLogs v) = show_logs v"
| "view_of U (ViewJobs v) = show_jobs v"
| "view_of U (ViewMail v) = show_mail U v"
| "view_of U (ViewDashboard v) = show_dashboard v"

datatype post_request =
    PostUsers users_action
  | PostNotices notices_action
  | PostKnowledge knowledge_action
  | PostPlans plans_action
  | PostPayments payments_action
  | PostOrders orders_action
  | PostCoupons coupons_action
  | PostGiftcards giftcards_action
  | PostInvite invite_action
  | PostSettings settings_action
  | PostTickets tickets_action
  | PostGroups groups_action
  | PostRoutes routes_action
  | PostNodes nodes_action
  | PostLogs logs_action
  | PostJobs jobs_action
  | PostMail mail_action

fun post_of :: "ui_env \<Rightarrow> post_request \<Rightarrow> 'a http_request_scheme \<Rightarrow> form \<Rightarrow> ui_post" where
  "post_of U (PostUsers a) rq f = post_users U a rq f"
| "post_of U (PostNotices a) rq f = post_notices a f"
| "post_of U (PostKnowledge a) rq f = post_knowledge a f"
| "post_of U (PostPlans a) rq f = post_plans a f"
| "post_of U (PostPayments a) rq f = post_payments a f"
| "post_of U (PostOrders a) rq f = post_orders a f"
| "post_of U (PostCoupons a) rq f = post_coupons U a f"
| "post_of U (PostGiftcards a) rq f = post_giftcards U a f"
| "post_of U (PostInvite a) rq f = post_invite a f"
| "post_of U (PostSettings a) rq f = post_settings U a f"
| "post_of U (PostTickets a) rq f = post_tickets a f"
| "post_of U (PostGroups a) rq f = post_groups a f"
| "post_of U (PostRoutes a) rq f = post_routes U a f"
| "post_of U (PostNodes a) rq f = post_nodes U a f"
| "post_of U (PostLogs a) rq f = post_logs a f"
| "post_of U (PostJobs a) rq f = post_jobs a f"
| "post_of U (PostMail a) rq f = post_mail U a f"

text \<open>The answers to several requests, in turn.\<close>

fun read_all :: "admin_env \<Rightarrow> int \<Rightarrow> admin_random \<Rightarrow> user \<Rightarrow> admin_request list \<Rightarrow> db \<Rightarrow> exn + admin_reply list \<times> db" where
  "read_all E now rnd u [] db = Inr ([], db)"
| "read_all E now rnd u (r # rs) db =
     bindE (admin_endpoint E now rnd u r db) (\<lambda>(rep, db1). bindE (read_all E now rnd u rs db1) (\<lambda>(reps, db2). Inr (rep # reps, db2)))"

text \<open>An exception that is caught shows the error page over what was written; any other ends the request.\<close>

definition absorb :: "catching \<Rightarrow> exn \<Rightarrow> db \<Rightarrow> exn + ui_page \<times> db" where
  "absorb c e db = (if catches c e then Inr (ActionError e, db) else Inl e)"

fun run_view :: "ui_env \<Rightarrow> int \<Rightarrow> admin_random \<Rightarrow> user \<Rightarrow> ui_view \<Rightarrow> db \<Rightarrow> exn + ui_page \<times> db" where
  "run_view U now rnd u (Reads c rs) db =
     (case read_all (ui_admin U) now rnd u rs db of Inl e \<Rightarrow> absorb c e db | Inr (reps, db') \<Rightarrow> Inr (Fragment reps, db'))"
| "run_view U now rnd u (Picked f r) db =
     bindE (admin_endpoint (ui_admin U) now rnd u r db) (\<lambda>(rep, db'). Inr (Fragment [f rep], db'))"
| "run_view U now rnd u (Shows rep) db = Inr (Fragment [rep], db)"

text \<open>Saving the settings form: only the database raises there, and no action catches that.\<close>

fun call_endpoint :: "admin_env \<Rightarrow> int \<Rightarrow> admin_random \<Rightarrow> user \<Rightarrow> ui_call \<Rightarrow> db \<Rightarrow> exn + admin_reply \<times> db" where
  "call_endpoint E now rnd u (Api req) db = admin_endpoint E now rnd u req db"
| "call_endpoint E now rnd u (SaveForm items) db = finished (batch_save_config (ad_settings E) now items db)"

fun call_left :: "admin_env \<Rightarrow> int \<Rightarrow> admin_random \<Rightarrow> ui_call \<Rightarrow> db \<Rightarrow> db" where
  "call_left E now rnd (Api req) db = left_behind E now rnd req db"
| "call_left E now rnd (SaveForm items) db = db"

definition run_post :: "ui_env \<Rightarrow> int \<Rightarrow> admin_random \<Rightarrow> user \<Rightarrow> ui_post \<Rightarrow> db \<Rightarrow> exn + ui_page \<times> db" where
  "run_post U now rnd u p db =
     (case up_call p of
        Inl e \<Rightarrow> absorb (up_catch p) e db
      | Inr call \<Rightarrow>
          (case call_endpoint (ui_admin U) now rnd u call db of
             Inl e \<Rightarrow> absorb (up_catch p) e (call_left (ui_admin U) now rnd call db)
           | Inr (rep, db1) \<Rightarrow>
               (case up_show p of
                  None \<Rightarrow> Inr (Fragment [rep], db1)
                | Some tbl \<Rightarrow> bindE tbl (\<lambda>r.
                    bindE (admin_endpoint (ui_admin U) now rnd u r db1) (\<lambda>(shown, db2). Inr (Fragment [shown], db2))))))"

definition redirect_to_login :: "'a http_request_scheme \<Rightarrow> ui_page" where
  "redirect_to_login rq = RedirectTo (''/admin/login?next='' @ quote_path (rq_path rq))"

definition next_of :: "string option \<Rightarrow> string" where
  "next_of v = (if Auth.text_given v then the v else ''/admin/dashboard'')"

text \<open>\<open>token.auth_token.removeprefix("Bearer ").strip()\<close>.\<close>

definition raw_token :: "string \<Rightarrow> string" where
  "raw_token t = strip (if starts_with ''Bearer '' t then drop 7 t else t)"

text \<open>
  The login: the account is logged in before it is known whether it may enter, and the login stays written when it may not.
  \<open>LoginRequest\<close> is built inside the \<open>try\<close>, whose handler knows the application's exceptions only.
\<close>

definition login_submit :: "ui_env \<Rightarrow> int \<Rightarrow> admin_random \<Rightarrow> ui_http \<Rightarrow> db \<Rightarrow> exn + ui_page \<times> db" where
  "login_submit U now rnd rq db =
     bindE (form_data (uh_body rq)) (\<lambda>form.
       let target = next_of (fget form ''next''); csrf = cookie rq csrf_cookie in
       if \<not> Auth.text_given csrf \<or> csrf \<noteq> fget form ''csrf_token'' then Inr (LoginExpired target, db)
       else (case bindE (normalize_email (text_of form ''email'')) (\<lambda>email.
              login (ui_auth U) (ar_salt (an_accounts rnd 0)) now email (text_of form ''password'') None None False db) of
           Inl e \<Rightarrow> if is_app_exception e then Inr (LoginPage (Some e) target, db) else Inl e
         | Inr (token, db1) \<Rightarrow>
             (case require_admin (ui_auth U) now (raw_token token) db1 of
                Inl e \<Rightarrow> if is_app_exception e then Inr (LoginPage (Some e) target, db1) else Inl e
              | Inr _ \<Rightarrow> Inr (SignedInAs (raw_token token) target, db1))))"

datatype ui_request =
    UiIndex
  | UiLoginPage
  | UiLogin
  | UiLogout
  | UiPage string
  | UiView view_request
  | UiPost post_request

text \<open>The pages behind the login; \<open>/admin/stats\<close> has become the dashboard.\<close>

definition ui_pages :: "string list" where
  "ui_pages = [''dashboard'', ''users'', ''notices'', ''knowledge'', ''plans'', ''payments'', ''orders'', ''coupons'', ''giftcards'',
     ''settings'', ''invite'', ''tickets'', ''servers'', ''system'', ''logs'', ''failed-jobs'', ''mail'']"

definition whole_page :: "string \<Rightarrow> ui_page" where
  "whole_page name = (if name = ''stats'' then RedirectTo ''/admin/dashboard'' else WholePage name)"

definition ui_post_endpoint :: "ui_env \<Rightarrow> int \<Rightarrow> admin_random \<Rightarrow> ui_http \<Rightarrow> post_request \<Rightarrow> db \<Rightarrow> exn + ui_page \<times> db" where
  "ui_post_endpoint U now rnd rq req db =
     bindE (current_admin (ui_auth U) now rq db) (\<lambda>admin.
       case admin of
         None \<Rightarrow> Inr (Unauthorised, db)
       | Some u \<Rightarrow>
           bindE (form_data (uh_body rq)) (\<lambda>form.
           bindE (valid_csrf rq form) (\<lambda>ok.
             if \<not> ok then Inr (BadCsrf, db) else run_post U now rnd u (post_of U req rq form) db)))"

fun ui_endpoint :: "ui_env \<Rightarrow> int \<Rightarrow> admin_random \<Rightarrow> ui_http \<Rightarrow> ui_request \<Rightarrow> db \<Rightarrow> exn + ui_page \<times> db" where
  "ui_endpoint U now rnd rq UiIndex db =
     bindE (current_admin (ui_auth U) now rq db) (\<lambda>admin.
       Inr (RedirectTo (if admin = None then ''/admin/login'' else ''/admin/dashboard''), db))"
| "ui_endpoint U now rnd rq UiLoginPage db =
     bindE (current_admin (ui_auth U) now rq db) (\<lambda>admin.
       Inr (if admin = None then LoginPage None (next_of (fget (query_dict rq) ''next'')) else RedirectTo ''/admin/dashboard'', db))"
| "ui_endpoint U now rnd rq UiLogin db = login_submit U now rnd rq db"
| "ui_endpoint U now rnd rq UiLogout db = Inr (SignedOut, db)"
| "ui_endpoint U now rnd rq (UiPage name) db =
     guardE (name \<notin> insert ''stats'' (set ui_pages)) (NotFound ''page'')
       (bindE (current_admin (ui_auth U) now rq db) (\<lambda>admin.
          Inr (if admin = None then redirect_to_login rq else whole_page name, db)))"
| "ui_endpoint U now rnd rq (UiView v) db =
     bindE (current_admin (ui_auth U) now rq db) (\<lambda>admin.
       case admin of None \<Rightarrow> Inr (Unauthorised, db) | Some u \<Rightarrow> run_view U now rnd u (view_of U v) db)"
| "ui_endpoint U now rnd rq (UiPost req) db = ui_post_endpoint U now rnd rq req db"

text \<open>One request, with its commit or rollback.\<close>

definition serve_ui :: "ui_env \<Rightarrow> int \<Rightarrow> admin_random \<Rightarrow> ui_http \<Rightarrow> ui_request \<Rightarrow> db \<Rightarrow> db" where
  "serve_ui U now rnd rq req db = after_call db (ui_endpoint U now rnd rq req db)"

end
