(* ===== verification/AdminUiFacts.thy ===== *)
theory AdminUiFacts
  imports AdminUi
begin

text \<open>
  What holds of the HTML administration: who can change something through it, that its actions do what the JSON API does
  when they succeed, and what they leave behind when they fail.
\<close>

section \<open>Guards\<close>

lemma current_admin_Some:
  "current_admin A now rq db = Inr (Some u) \<longleftrightarrow>
     Auth.text_given (cookie rq token_cookie) \<and> require_admin A now (the (cookie rq token_cookie)) db = Inr u"
  by (auto simp: current_admin_def split: sum.splits if_splits)

lemma bearer_scheme: "get_bearer_token (Some (''Bearer'', tok)) = Inr tok"
proof -
  have "lower ''Bearer'' = ''bearer''" by code_simp
  then show ?thesis by (simp add: get_bearer_token_def)
qed

definition csrf_ok :: "ui_http \<Rightarrow> bool" where
  "csrf_ok rq \<longleftrightarrow> (\<exists>c form. form_data (uh_body rq) = Inr form \<and> c \<noteq> [] \<and> cookie rq csrf_cookie = Some c \<and>
     (map_of (rq_headers rq) ''x-csrf-token'' = Some c \<or> fget form ''csrf_token'' = Some c))"

lemma valid_csrf_ok: "form_data (uh_body rq) = Inr form \<Longrightarrow> valid_csrf rq form = Inr True \<Longrightarrow> csrf_ok rq"
  by (auto simp: valid_csrf_def csrf_ok_def Auth.text_given_def Let_def split: if_splits)

lemma guarded_view:
  assumes "ui_endpoint U now rnd rq (UiView v) db = Inr (page, db')" "db' \<noteq> db"
  shows "\<exists>u. current_admin (ui_auth U) now rq db = Inr (Some u)"
  using assms by (auto simp: bindE_eq_Inr split: option.splits)

lemma guarded_post:
  assumes "ui_post_endpoint U now rnd rq req db = Inr (page, db')" "db' \<noteq> db"
  shows "\<exists>u. current_admin (ui_auth U) now rq db = Inr (Some u) \<and> csrf_ok rq"
proof -
  from assms obtain u form ok where "current_admin (ui_auth U) now rq db = Inr (Some u)"
    and f: "form_data (uh_body rq) = Inr form" "valid_csrf rq form = Inr ok" "ok"
    by (auto simp: ui_post_endpoint_def bindE_eq_Inr split: option.splits if_splits)
  then show ?thesis using valid_csrf_ok by auto
qed

lemma ui_change:
  assumes "serve_ui U now rnd rq req db \<noteq> db" "req \<noteq> UiLogin"
  shows "\<exists>u. current_admin (ui_auth U) now rq db = Inr (Some u) \<and> (\<forall>act. req = UiPost act \<longrightarrow> csrf_ok rq)"
proof -
  from assms(1) obtain page db' where e: "ui_endpoint U now rnd rq req db = Inr (page, db')" "db' \<noteq> db"
    by (auto simp: serve_ui_def after_call_def split: sum.splits prod.splits)
  show ?thesis
  proof (cases req)
    case (UiView v)
    then show ?thesis using guarded_view e by blast
  next
    case (UiPost act)
    then show ?thesis using guarded_post e by fastforce
  qed (use e assms(2) in \<open>auto simp: bindE_eq_Inr guardE_eq_Inr\<close>)
qed

section \<open>The login\<close>

lemma login_submit_shape:
  assumes "login_submit U now rnd rq db = Inr (page, db')"
  shows "db' = db \<or> (\<exists>email pw u u' tok. login (ui_auth U) (ar_salt (an_accounts rnd 0)) now email pw None None False db = Inr (tok, db'))"
  using assms
  by (auto simp: login_submit_def Let_def bindE_eq_Inr split: if_splits sum.splits prod.splits)

lemma unchecked_login_role:
  assumes "login A salt now email pw rc ip False db = Inr (tok, db')"
  shows "role_step db db'"
proof -
  from assms obtain u p where u: "user_by_email db email = Some u"
    and db': "db' = put_user now db (u\<lparr>us_password := p, us_last_login_at := Some now\<rparr>)"
    by (auto simp: login_def bindE_eq_Inr guardE_eq_Inr Let_def split: option.splits)
  show ?thesis unfolding db' using user_by_emailD [OF u] by (intro role_put_user [of u]) (simp_all add: role_def)
qed

lemma ui_login_role: "role_step db (serve_ui U now rnd rq UiLogin db)"
  using login_submit_shape unchecked_login_role
  by (fastforce simp: serve_ui_def after_call_def split: sum.splits prod.splits)

section \<open>What a table changes\<close>

definition cache_only :: "db \<Rightarrow> db \<Rightarrow> bool" where
  "cache_only db db' \<longleftrightarrow> (\<exists>c. db' = db\<lparr>t_cache := c\<rparr>)"

lemma cache_only_refl [simp]: "cache_only db db"
  unfolding cache_only_def by (rule exI [of _ "t_cache db"]) simp

lemma cache_only_trans: "cache_only a b \<Longrightarrow> cache_only b c \<Longrightarrow> cache_only a c"
  by (auto simp: cache_only_def)

lemma cache_only_defaulted: "get_defaulted_value S now item db = Inr (v, db') \<Longrightarrow> cache_only db db'"
  using get_str_state [of S now "sd_key item" "py_str (sv_codec S) (sd_value item)" db]
  by (auto simp: get_defaulted_value_def result_simps cache_only_def dest!: get_int_state get_json_state split: if_splits prod.splits)

lemma cache_only_items: "defaulted_items S now items db = Inr (vs, db') \<Longrightarrow> cache_only db db'"
proof (induction items arbitrary: db vs)
  case (Cons item items)
  then obtain v db1 ws where "get_defaulted_value S now item db = Inr (v, db1)" "defaulted_items S now items db1 = Inr (ws, db')"
    by (auto simp: result_simps)
  then show ?case using cache_only_defaulted Cons.IH cache_only_trans by blast
qed simp

lemma cache_only_groups: "defaulted_groups S now gs db = Inr (vs, db') \<Longrightarrow> cache_only db db'"
proof (induction gs arbitrary: db vs)
  case (Cons g gs)
  obtain n items where "g = (n, items)" by fastforce
  with Cons.prems obtain v db1 ws where "defaulted_items S now items db = Inr (v, db1)" "defaulted_groups S now gs db1 = Inr (ws, db')"
    by (auto simp: result_simps)
  then show ?case using cache_only_items Cons.IH cache_only_trans by blast
qed simp

definition shows_only :: "admin_request \<Rightarrow> bool" where
  "shows_only req \<longleftrightarrow> (\<forall>E now rnd u db rep db'. admin_endpoint E now rnd u req db = Inr (rep, db') \<longrightarrow> cache_only db db')"

lemmas answers = listed_def shown_def unchecked_rows_def guardE_eq_Inr bindE_eq_Inr

lemma shows_only_tables:
  "shows_only (AUsers (AdminUsers a b c d))" "shows_only (ANotices (AdminNotices a b))" "shows_only (AKnowledge (AdminKnowledge a b))"
  "shows_only (APlans AdminPlans)" "shows_only (APayments (AdminPayments a b))" "shows_only (AOrders (AdminOrders a b))"
  "shows_only (ACoupons (AdminCoupons a b))" "shows_only (AGiftcards (AdminGiftcards a b))" "shows_only (AInvites (AdminInviteCodes a b))"
  "shows_only (ATickets (DeskTickets a b e f c))" "shows_only (ATickets (DeskTicket a))" "shows_only (AServers AdminGroups)"
  "shows_only (AServers AdminRoutes)" "shows_only (AServers AdminNodes)" "shows_only (ALogs (LogList a b q))"
  "shows_only (AFailedJobs (FailedJobs a b))" "shows_only (AMail (MailLogs a b))"
  by (auto simp: shows_only_def answers split: prod.splits)

lemma shows_only_settings: "shows_only (ASettings SettingGroupList)"
  by (auto simp: shows_only_def answer_def bindE_eq_Inr fetch_config_def cache_only_groups)

lemmas tables = notices_table_def knowledge_table_def orders_table_def coupons_table_def giftcards_table_def invite_codes_table_def
  tickets_table_def logs_table_def failed_jobs_table_def mail_logs_table_def clamped_def form_page_def users_table_response_def mapR_def

lemmas shown_tables = ui_act_def tables bindE_eq_Inr shows_only_tables shows_only_settings

lemma post_shows_users: "up_show (post_users U a rq f) = Some (Inr r) \<Longrightarrow> shows_only r"
  by (cases a) (auto simp: shown_tables split: if_splits)

lemma post_shows_notices: "up_show (post_notices a f) = Some (Inr r) \<Longrightarrow> shows_only r"
  by (cases a) (auto simp: shown_tables split: if_splits)

lemma post_shows_knowledge: "up_show (post_knowledge a f) = Some (Inr r) \<Longrightarrow> shows_only r"
  by (cases a) (auto simp: shown_tables split: if_splits)

lemma post_shows_plans: "up_show (post_plans a f) = Some (Inr r) \<Longrightarrow> shows_only r"
  by (cases a) (auto simp: shown_tables split: if_splits)

lemma post_shows_payments: "up_show (post_payments a f) = Some (Inr r) \<Longrightarrow> shows_only r"
  by (cases a) (auto simp: shown_tables split: if_splits)

lemma post_shows_orders: "up_show (post_orders a f) = Some (Inr r) \<Longrightarrow> shows_only r"
  by (cases a) (auto simp: shown_tables split: if_splits)

lemma post_shows_coupons: "up_show (post_coupons U a f) = Some (Inr r) \<Longrightarrow> shows_only r"
  by (cases a) (auto simp: shown_tables split: if_splits)

lemma post_shows_giftcards: "up_show (post_giftcards U a f) = Some (Inr r) \<Longrightarrow> shows_only r"
  by (cases a) (auto simp: shown_tables split: if_splits)

lemma post_shows_invite: "up_show (post_invite a f) = Some (Inr r) \<Longrightarrow> shows_only r"
  by (cases a) (auto simp: shown_tables split: if_splits)

lemma post_shows_settings: "up_show (post_settings U a f) = Some (Inr r) \<Longrightarrow> shows_only r"
  by (cases a) (auto simp: shown_tables split: if_splits)

lemma post_shows_tickets: "up_show (post_tickets a f) = Some (Inr r) \<Longrightarrow> shows_only r"
  by (cases a) (auto simp: shown_tables split: if_splits)

lemma post_shows_groups: "up_show (post_groups a f) = Some (Inr r) \<Longrightarrow> shows_only r"
  by (cases a) (auto simp: shown_tables split: if_splits)

lemma post_shows_routes: "up_show (post_routes U a f) = Some (Inr r) \<Longrightarrow> shows_only r"
  by (cases a) (auto simp: shown_tables split: if_splits)

lemma post_shows_nodes: "up_show (post_nodes U a f) = Some (Inr r) \<Longrightarrow> shows_only r"
  by (cases a) (auto simp: shown_tables split: if_splits)

lemma post_shows_logs: "up_show (post_logs a f) = Some (Inr r) \<Longrightarrow> shows_only r"
  by (cases a) (auto simp: shown_tables split: if_splits)

lemma post_shows_jobs: "up_show (post_jobs a f) = Some (Inr r) \<Longrightarrow> shows_only r"
  by (cases a) (auto simp: shown_tables split: if_splits)

lemma post_shows_mail: "up_show (post_mail U a f) = Some (Inr r) \<Longrightarrow> shows_only r"
  by (cases a) (auto simp: shown_tables split: if_splits)

lemma post_shows: "up_show (post_of U req rq f) = Some (Inr r) \<Longrightarrow> shows_only r"
  by (cases req)
    (auto intro: post_shows_users post_shows_notices post_shows_knowledge post_shows_plans post_shows_payments post_shows_orders
      post_shows_coupons post_shows_giftcards post_shows_invite post_shows_settings post_shows_tickets post_shows_groups post_shows_routes
      post_shows_nodes post_shows_logs post_shows_jobs post_shows_mail)

section \<open>What an action stands for\<close>

text \<open>
  The endpoint of the JSON API that an action on a form stands for, and the body that its fields make, one rule per
  action of the pages: the page of a table asks for what the same table's endpoint does. (The settings form has none.)
\<close>

inductive stands_for :: "ui_env \<Rightarrow> post_request \<Rightarrow> form \<Rightarrow> admin_request \<Rightarrow> bool" where
  create_user: "stands_for U (PostUsers PCreateUser) f (AUsers (AddUser (user_create_from_form f)))"
| generate_users: "user_generate_from_form (ui_reader U) f = Inr d \<Longrightarrow> stands_for U (PostUsers PGenerateUsers) f (AUsers (GenerateUsers d))"
| update_user: "user_update_from_form (ui_reader U) f = Inr d \<Longrightarrow> stands_for U (PostUsers (PUpdateUser i)) f (AUsers (EditUser i d))"
| ban_user: "stands_for U (PostUsers (PBanUser i)) f (AUsers (BanUser i (fbool f ''banned'')))"
| reset_user: "stands_for U (PostUsers (PResetUser i)) f (AUsers (ResetUser i))"
| delete_user: "stands_for U (PostUsers (PDeleteUser i)) f (AUsers (DropUser i))"
| create_notice: "stands_for U (PostNotices PCreateNotice) f (ANotices (AddNotice (notice_create_from_form f)))"
| update_notice: "stands_for U (PostNotices (PUpdateNotice i)) f (ANotices (EditNotice i (notice_update_from_form f)))"
| delete_notice: "stands_for U (PostNotices (PDeleteNotice i)) f (ANotices (DropNotice i))"
| create_knowledge: "knowledge_create_from_form f = Inr d \<Longrightarrow> stands_for U (PostKnowledge PCreateKnowledge) f (AKnowledge (AddKnowledge d))"
| update_knowledge: "knowledge_update_from_form f = Inr d \<Longrightarrow> stands_for U (PostKnowledge (PUpdateKnowledge i)) f (AKnowledge (EditKnowledge i d))"
| delete_knowledge: "stands_for U (PostKnowledge (PDeleteKnowledge i)) f (AKnowledge (DropKnowledge i))"
| create_plan: "plan_create_from_form f = Inr d \<Longrightarrow> stands_for U (PostPlans PCreatePlan) f (APlans (AddPlan d))"
| update_plan: "plan_update_from_form f = Inr d \<Longrightarrow> stands_for U (PostPlans (PUpdatePlan i)) f (APlans (EditPlan i d))"
| delete_plan: "stands_for U (PostPlans (PDeletePlan i)) f (APlans (DropPlan i))"
| create_payment: "payment_create_from_form f = Inr d \<Longrightarrow> stands_for U (PostPayments PCreatePayment) f (APayments (AddPayment d))"
| update_payment: "payment_update_from_form f = Inr d \<Longrightarrow> stands_for U (PostPayments (PUpdatePayment i)) f (APayments (EditPayment i d))"
| delete_payment: "stands_for U (PostPayments (PDeletePayment i)) f (APayments (DropPayment i))"
| assign_order: "order_assign_from_form f = Inr d \<Longrightarrow> stands_for U (PostOrders PAssignOrder) f (AOrders (AssignOrder d))"
| mark_paid: "stands_for U (PostOrders (PMarkPaid t)) f (AOrders (MarkPaid t))"
| cancel_order: "stands_for U (PostOrders (PCancelOrder t)) f (AOrders (AdminCancel t))"
| create_coupon: "coupon_create_from_form (ui_reader U) f = Inr d \<Longrightarrow> stands_for U (PostCoupons PCreateCoupon) f (ACoupons (AddCoupon d))"
| generate_coupons: "coupon_generate_from_form (ui_reader U) f = Inr (n, d) \<Longrightarrow> stands_for U (PostCoupons PGenerateCoupons) f (ACoupons (GenerateCoupons n d))"
| update_coupon: "coupon_update_from_form (ui_reader U) f = Inr d \<Longrightarrow> stands_for U (PostCoupons (PUpdateCoupon i)) f (ACoupons (EditCoupon i d))"
| toggle_coupon: "stands_for U (PostCoupons (PToggleCoupon i)) f (ACoupons (ToggleCoupon i))"
| delete_coupon: "stands_for U (PostCoupons (PDeleteCoupon i)) f (ACoupons (DropCoupon i))"
| create_giftcard: "giftcard_create_from_form (ui_reader U) f = Inr d \<Longrightarrow> stands_for U (PostGiftcards PCreateGiftcard) f (AGiftcards (AddGiftcard d))"
| generate_giftcards: "giftcard_generate_from_form (ui_reader U) f = Inr (n, d) \<Longrightarrow>
    stands_for U (PostGiftcards PGenerateGiftcards) f (AGiftcards (GenerateGiftcards n d))"
| update_giftcard: "giftcard_update_from_form (ui_reader U) f = Inr d \<Longrightarrow> stands_for U (PostGiftcards (PUpdateGiftcard i)) f (AGiftcards (EditGiftcard i d))"
| delete_giftcard: "stands_for U (PostGiftcards (PDeleteGiftcard i)) f (AGiftcards (DropGiftcard i))"
| create_invite: "invite_code_create_from_form f = Inr (uid, c, st) \<Longrightarrow> stands_for U (PostInvite PCreateInvite) f (AInvites (AddInviteCode (Some uid) c st))"
| update_invite: "invite_code_update_from_form f = Inr d \<Longrightarrow> stands_for U (PostInvite (PUpdateInvite i)) f (AInvites (EditInviteCode i d))"
| delete_invite: "stands_for U (PostInvite (PDeleteInvite i)) f (AInvites (DropInviteCode i))"
| test_mail: "stands_for U (PostSettings PTestMail) f (ASettings MailTest)"
| telegram_webhook: "stands_for U (PostSettings PTelegramWebhook) f (ASettings (TelegramWebhook (text_of f ''telegram_bot_token'')))"
| reply_ticket: "stands_for U (PostTickets (PReplyTicket i)) f (ATickets (DeskReply i (ticket_reply_from_form f)))"
| close_ticket: "stands_for U (PostTickets (PCloseTicket i)) f (ATickets (DeskClose i))"
| create_group: "stands_for U (PostGroups PCreateGroup) f (AServers (ChangeServers (CreateGroup (server_group_create_from_form f))))"
| update_group: "stands_for U (PostGroups (PUpdateGroup i)) f (AServers (ChangeServers (UpdateGroup i (server_group_update_from_form f))))"
| delete_group: "stands_for U (PostGroups (PDeleteGroup i)) f (AServers (ChangeServers (DeleteGroup i)))"
| create_route: "server_route_create_from_form (ui_codec U) f = Inr d \<Longrightarrow> stands_for U (PostRoutes PCreateRoute) f (AServers (ChangeServers (CreateRoute d)))"
| update_route: "server_route_update_from_form (ui_codec U) f = Inr d \<Longrightarrow> stands_for U (PostRoutes (PUpdateRoute i)) f (AServers (ChangeServers (UpdateRoute i d)))"
| delete_route: "stands_for U (PostRoutes (PDeleteRoute i)) f (AServers (ChangeServers (DeleteRoute i)))"
| create_node: "server_node_create_from_form (ui_codec U) f = Inr d \<Longrightarrow> stands_for U (PostNodes (PCreateNode R)) f (AServers (ChangeServers (CreateNode R d)))"
| update_node: "server_node_update_from_form (ui_codec U) f = Inr d \<Longrightarrow> stands_for U (PostNodes (PUpdateNode R i)) f (AServers (ChangeServers (UpdateNode R i d)))"
| copy_node: "stands_for U (PostNodes (PCopyNode i)) f (AServers (ChangeServers (CopyNode i)))"
| delete_node: "stands_for U (PostNodes (PDeleteNode i)) f (AServers (ChangeServers (DeleteNode i)))"
| delete_log: "stands_for U (PostLogs (PDeleteLog i)) f (ALogs (DropLog i))"
| retry_job: "stands_for U (PostJobs (PRetryJob i)) f (AFailedJobs (RetryJob i))"
| delete_job: "stands_for U (PostJobs (PDeleteJob i)) f (AFailedJobs (DropFailedJob i))"
| send_mail: "mail_send_from_form (ui_codec U) f = Inr m \<Longrightarrow> stands_for U (PostMail PSendMail) f (AMail (SendMail m))"

lemmas calls = ui_act_def mapR_def bindE_eq_Inr stands_for.intros

lemma stands_users: "up_call (post_users U a rq f) = Inr (Api call) \<Longrightarrow> stands_for U (PostUsers a) f call"
  by (cases a) (auto simp: calls)

lemma stands_content:
  "up_call (post_notices n f) = Inr (Api call) \<Longrightarrow> stands_for U (PostNotices n) f call"
  "up_call (post_knowledge k f) = Inr (Api call) \<Longrightarrow> stands_for U (PostKnowledge k) f call"
  "up_call (post_plans p f) = Inr (Api call) \<Longrightarrow> stands_for U (PostPlans p) f call"
  "up_call (post_payments m f) = Inr (Api call) \<Longrightarrow> stands_for U (PostPayments m) f call"
  by (cases n, auto simp: calls) (cases k, auto simp: calls, cases p, auto simp: calls, cases m, auto simp: calls)

lemma stands_sales:
  "up_call (post_orders r f) = Inr (Api call) \<Longrightarrow> stands_for U (PostOrders r) f call"
  "up_call (post_coupons U c f) = Inr (Api call) \<Longrightarrow> stands_for U (PostCoupons c) f call"
  "up_call (post_giftcards U g f) = Inr (Api call) \<Longrightarrow> stands_for U (PostGiftcards g) f call"
  "up_call (post_invite i f) = Inr (Api call) \<Longrightarrow> stands_for U (PostInvite i) f call"
  by (cases r, auto simp: calls) (cases c, auto simp: calls, cases g, auto simp: calls, cases i, auto simp: calls)

lemma stands_desk:
  "up_call (post_settings U s f) = Inr (Api call) \<Longrightarrow> stands_for U (PostSettings s) f call"
  "up_call (post_tickets t f) = Inr (Api call) \<Longrightarrow> stands_for U (PostTickets t) f call"
  by (cases s, auto simp: calls) (cases t, auto simp: calls)

lemma stands_servers:
  "up_call (post_groups g f) = Inr (Api call) \<Longrightarrow> stands_for U (PostGroups g) f call"
  "up_call (post_routes U r f) = Inr (Api call) \<Longrightarrow> stands_for U (PostRoutes r) f call"
  "up_call (post_nodes U n f) = Inr (Api call) \<Longrightarrow> stands_for U (PostNodes n) f call"
  by (cases g, auto simp: calls) (cases r, auto simp: calls, cases n, auto simp: calls)

lemma stands_ops:
  "up_call (post_logs l f) = Inr (Api call) \<Longrightarrow> stands_for U (PostLogs l) f call"
  "up_call (post_jobs j f) = Inr (Api call) \<Longrightarrow> stands_for U (PostJobs j) f call"
  "up_call (post_mail U m f) = Inr (Api call) \<Longrightarrow> stands_for U (PostMail m) f call"
  by (cases l, auto simp: calls) (cases j, auto simp: calls, cases m, auto simp: calls)

lemma post_stands: "up_call (post_of U req rq f) = Inr (Api call) \<Longrightarrow> stands_for U req f call"
  by (cases req) (auto intro: stands_users stands_content stands_sales stands_desk stands_servers stands_ops)

text \<open>Only the settings form goes past the API.\<close>

lemma mapR_Api [simp]: "mapR Api r \<noteq> Inr (SaveForm items)"
  by (auto simp: mapR_def bindE_eq_Inr)

lemma act_call [simp]: "up_call (ui_act c call tbl) \<noteq> Inr (SaveForm items)"
  by (simp add: ui_act_def)

lemma post_form_call:
  assumes "up_call (post_of U req rq f) = Inr (SaveForm items)"
  shows "req = PostSettings PSaveSettings \<and> setting_group_values_from_form (ui_codec U) f = Inr items"
proof (cases req)
  case (PostUsers a)
  with assms show ?thesis by (cases a) auto
next
  case (PostNotices a)
  with assms show ?thesis by (cases a) auto
next
  case (PostKnowledge a)
  with assms show ?thesis by (cases a) auto
next
  case (PostPlans a)
  with assms show ?thesis by (cases a) auto
next
  case (PostPayments a)
  with assms show ?thesis by (cases a) auto
next
  case (PostOrders a)
  with assms show ?thesis by (cases a) auto
next
  case (PostCoupons a)
  with assms show ?thesis by (cases a) auto
next
  case (PostGiftcards a)
  with assms show ?thesis by (cases a) auto
next
  case (PostInvite a)
  with assms show ?thesis by (cases a) auto
next
  case (PostSettings a)
  with assms show ?thesis by (cases a) (auto simp: mapR_def bindE_eq_Inr)
next
  case (PostTickets a)
  with assms show ?thesis by (cases a) auto
next
  case (PostGroups a)
  with assms show ?thesis by (cases a) auto
next
  case (PostRoutes a)
  with assms show ?thesis by (cases a) auto
next
  case (PostNodes a)
  with assms show ?thesis by (cases a) auto
next
  case (PostLogs a)
  with assms show ?thesis by (cases a) auto
next
  case (PostJobs a)
  with assms show ?thesis by (cases a) auto
next
  case (PostMail a)
  with assms show ?thesis by (cases a) auto
qed

text \<open>An action that shows something has made its call.\<close>

lemma run_post_shown:
  assumes "run_post U now rnd u (post_of U req rq f) db = Inr (Fragment reps, db')"
  shows "\<exists>call rep d. up_call (post_of U req rq f) = Inr call \<and> call_endpoint (ui_admin U) now rnd u call db = Inr (rep, d) \<and> cache_only d db'"
proof -
  let ?p = "post_of U req rq f"
  from assms obtain call rep d where c: "up_call ?p = Inr call" "call_endpoint (ui_admin U) now rnd u call db = Inr (rep, d)"
    by (auto simp: run_post_def absorb_def split: sum.splits if_splits)
  have "cache_only d db'"
  proof (cases "up_show ?p")
    case None
    then show ?thesis using assms c by (simp add: run_post_def)
  next
    case (Some tbl)
    with assms c obtain r shown where r: "tbl = Inr r" "admin_endpoint (ui_admin U) now rnd u r d = Inr (shown, db')"
      by (auto simp: run_post_def bindE_eq_Inr)
    from Some r(1) have "shows_only r" using post_shows by blast
    with r(2) show ?thesis unfolding shows_only_def by blast
  qed
  with c show ?thesis by blast
qed

section \<open>A payment marked by hand that fails\<close>

lemma by_trade_no_cong: "t_orders d' = t_orders d \<Longrightarrow> order_by_trade_no d' t = order_by_trade_no d t"
  by (simp add: order_by_trade_no_def)

lemma plan_left_orders: "t_orders (plan_left E now r u db) = t_orders db"
proof -
  have "t_orders db1 = t_orders db" if "consume_for_paid_order C now r db = Inr db1" for C db1
    using consume_only_coupons [OF that] by auto
  then show ?thesis by (auto simp: plan_left_def put_user_def split: option.splits sum.splits if_splits)
qed

lemma mark_paid_left_status:
  assumes "wf_accounts db" "order_by_trade_no db t = Some r" "od_status r = 0"
  shows "\<exists>r'. order_by_trade_no (mark_paid_left E now t db) t = Some r' \<and> od_id r' = od_id r \<and> od_status r' = 1 \<and>
     od_callback_no r' = Some ''manual_operation''"
proof -
  have r: "r \<in> set (rows (t_orders db))" "od_trade_no r = t" using order_by_trade_noD [OF assms(2)] by simp_all
  have wf: "wf_table order_entity (t_orders db)" using assms(1) by (simp add: wf_accounts_def)
  then have lo: "order_by_id_for_update db (od_id r) = Some r"
    using orders.get_unique [OF _ r(1)] by (simp add: for_update order_by_id_def order_id)
  define r1 where "r1 = r\<lparr>od_status := 1, od_callback_no := Some ''manual_operation''\<rparr>"
  have "t_orders (mark_paid_left E now t db) = t_orders (put_order now db r1)"
    using assms(2,3) lo by (auto simp: mark_paid_left_def paid_order_left_def Let_def r1_def plan_left_orders split: option.splits)
  then have "order_by_trade_no (mark_paid_left E now t db) t = order_by_trade_no (put_order now db r1) t" by (rule by_trade_no_cong)
  also have "\<dots> = map_option (\<lambda>x. if od_id x = od_id r1 then stored order_entity now x r1 else x) (order_by_trade_no db t)"
  proof -
    have "od_trade_no (stored order_entity now x r1) = od_trade_no x" if "x \<in> set (rows (t_orders db))" "od_id x = od_id r1" for x
      using wf_same_row [OF wf that(1) r(1)] that(2) by (simp add: order_id r1_def)
    then show ?thesis unfolding order_by_trade_no_def put_order_def
      using find_update [of "t_orders db" order_entity r1 "\<lambda>x. od_trade_no x = t" now] by (simp add: order_id)
  qed
  finally have "order_by_trade_no (mark_paid_left E now t db) t = Some (stored order_entity now r r1)"
    using assms(2) by (simp add: r1_def)
  moreover have "od_callback_no (stored order_entity now r r1) = od_callback_no r1" by (simp add: stored_def order_entity_def)
  ultimately show ?thesis by (simp add: r1_def)
qed

section \<open>The whole site\<close>

text \<open>A request to the JSON API, or to the pages of the administration.\<close>

datatype site_call = Json web_call | Html int admin_random ui_http ui_request

definition ui_of :: "web_env \<Rightarrow> iso_reader \<Rightarrow> ui_env" where
  "ui_of W reader = \<lparr>ui_admin = we_admin W, ui_reader = reader\<rparr>"

fun serve_site :: "web_env \<Rightarrow> iso_reader \<Rightarrow> site_call \<Rightarrow> db \<Rightarrow> db" where
  "serve_site W reader (Json call) db = serve_web W call db"
| "serve_site W reader (Html now rnd rq req) db = serve_ui (ui_of W reader) now rnd rq req db"

text \<open>A request made with the token of an account that may use the administration.\<close>

fun privileged_site_call :: "web_env \<Rightarrow> site_call \<Rightarrow> db \<Rightarrow> bool" where
  "privileged_site_call W (Json call) db = privileged_call W call db"
| "privileged_site_call W (Html now rnd rq req) db =
     (case current_admin (ap_auth (we_api W)) now rq db of Inr (Some u) \<Rightarrow> True | _ \<Rightarrow> False)"

fun visited :: "web_env \<Rightarrow> iso_reader \<Rightarrow> site_call list \<Rightarrow> db \<Rightarrow> (site_call \<times> db) list" where
  "visited W reader [] db = []"
| "visited W reader (call # calls) db = (call, db) # visited W reader calls (serve_site W reader call db)"

lemma unprivileged_site_step:
  assumes "\<not> privileged_site_call W call db"
  shows "role_step db (serve_site W reader call db)"
proof (cases call)
  case (Json c)
  then show ?thesis using assms unprivileged_step by simp
next
  case (Html now rnd rq req)
  show ?thesis
  proof (cases "req = UiLogin")
    case True
    then show ?thesis by (simp add: Html ui_login_role)
  next
    case False
    have "\<nexists>u. current_admin (ui_auth (ui_of W reader)) now rq db = Inr (Some u)"
      using assms by (auto simp: Html ui_of_def)
    then have "serve_ui (ui_of W reader) now rnd rq req db = db" using ui_change False by blast
    then show ?thesis by (simp add: Html)
  qed
qed

lemma unprivileged_visits:
  "list_all (\<lambda>(call, d). \<not> privileged_site_call W call d) (visited W reader calls db) \<Longrightarrow>
   role_step db (fold (serve_site W reader) calls db)"
proof (induction calls arbitrary: db)
  case (Cons call calls)
  then show ?case using unprivileged_site_step [of W call db reader] role_step_trans by fastforce
qed simp

lemma privileged_site_caller:
  assumes "privileged_site_call W call db"
  shows "\<exists>v\<in>set (rows (t_users db)). (us_is_admin v \<or> us_is_staff v) \<and> \<not> us_banned v"
proof (cases call)
  case (Json c)
  then show ?thesis using assms privileged_caller by simp
next
  case (Html now rnd rq req)
  with assms obtain u tok where "require_admin (ap_auth (we_api W)) now tok db = Inr u"
    by (auto simp: current_admin_Some split: sum.splits option.splits)
  then show ?thesis using user_by_idD
    by (fastforce simp: require_admin_def get_current_user_def result_simps split: option.splits)
qed

section \<open>Samples\<close>

definition sample_reader :: iso_reader where
  "sample_reader s = None"

definition sample_ui :: ui_env where
  "sample_ui = ui_of sample_web sample_reader"

text \<open>A site with an administrator and a user with a pending order whose balance does not cover its share any more.\<close>

definition ui_db :: db where
  "ui_db = empty_db\<lparr>t_users := \<lparr>rows = [sample_user\<lparr>us_invite_user_id := None, us_is_admin := True\<rparr>,
       sample_user\<lparr>us_id := 9, us_email := ''s@b.c'', us_token := ''t9'', us_invite_user_id := None\<rparr>], next_id = 10\<rparr>,
     t_plans := \<lparr>rows = [sample_plan], next_id = 2\<rparr>,
     t_orders := \<lparr>rows = [sample_order\<lparr>od_id := 1, od_user_id := 9, od_balance_amount := Some 500\<rparr>], next_id = 2\<rparr>\<rparr>"

definition ui_click :: ui_http where
  "ui_click = \<lparr>rq_method = ''POST'', rq_path = ''/admin/actions'', rq_headers = [],
     rq_cookies = [(''admin_token'', snd (the (login_of 10 (sample_user\<lparr>us_is_admin := True\<rparr>)))), (''admin_csrf'', ''c5'')],
     rq_query = [], rq_client = None, rq_route = None, uh_body = ''csrf_token=c5''\<rparr>"

section \<open>Properties\<close>

text \<open>C8: Nothing changes through the administration pages without an administrator: apart from the login itself, a request that
  changes the database carries the token of an account that is administrator and not banned at that moment, and an
  action carries the CSRF token of its cookie.\<close>

theorem ui_changes_need_admin:
  assumes "serve_ui U now rnd rq req db \<noteq> db" and "req \<noteq> UiLogin"
  shows "\<exists>tok u. cookie rq token_cookie = Some tok \<and> require_admin (ui_auth U) now tok db = Inr u \<and> us_is_admin u \<and> \<not> us_banned u \<and>
     (\<forall>act. req = UiPost act \<longrightarrow> csrf_ok rq)"
proof -
  from ui_change [OF assms] obtain u where u: "current_admin (ui_auth U) now rq db = Inr (Some u)"
    and c: "\<forall>act. req = UiPost act \<longrightarrow> csrf_ok rq" by blast
  then obtain tok where t: "cookie rq token_cookie = Some tok" "require_admin (ui_auth U) now tok db = Inr u"
    by (auto simp: current_admin_Some Auth.text_given_def)
  then have "us_is_admin u \<and> \<not> us_banned u"
    by (auto simp: require_admin_def get_current_user_def result_simps split: option.splits)
  with t c show ?thesis by blast
qed

theorem ui_changes_need_admin_witness:
  "serve_ui sample_ui 11 (wd_admin sample_web_draw) ui_click (UiPost (PostOrders (PCancelOrder ''T1''))) ui_db \<noteq> ui_db \<and> csrf_ok ui_click"
proof -
  let ?db = "serve_ui sample_ui 11 (wd_admin sample_web_draw) ui_click (UiPost (PostOrders (PCancelOrder ''T1''))) ui_db"
  have "map od_status (rows (t_orders ?db)) = [2]" "map od_status (rows (t_orders ui_db)) = [0]" by code_simp+
  then have "?db \<noteq> ui_db" by force
  with ui_changes_need_admin [OF this] show ?thesis by blast
qed

text \<open>C9: The pages do what the JSON API does. When an action succeeds, the request that it stands for, with the body that
  its form makes (marking an order paid is marking it paid, and so for every action), succeeds at the JSON API under the same
  token and leaves the same tables (the settings shown may be cached besides). The settings form alone is not sent
  through the API: exactly the values of the form are saved, as by the API where it accepts them.\<close>

theorem ui_action_is_api_call:
  assumes "ui_post_endpoint U now rnd rq req db = Inr (Fragment reps, db')"
  shows "\<exists>tok form d. cookie rq token_cookie = Some tok \<and> form_data (uh_body rq) = Inr form \<and> cache_only d db' \<and>
     (if req = PostSettings PSaveSettings
      then \<exists>items. setting_group_values_from_form (ui_codec U) form = Inr items \<and>
         batch_save_config (ad_settings (ui_admin U)) now items db = Inr d \<and>
         (body_values items = Inr items \<longrightarrow>
           admin_api (ui_admin U) now rnd (Some (''Bearer'', tok)) (ASettings (SaveValues items)) db = Inr (Finished, d))
      else \<exists>call rep. stands_for U req form call \<and>
         admin_api (ui_admin U) now rnd (Some (''Bearer'', tok)) call db = Inr (rep, d))"
proof -
  from assms obtain u form where u: "current_admin (ui_auth U) now rq db = Inr (Some u)" and form: "form_data (uh_body rq) = Inr form"
    and run: "run_post U now rnd u (post_of U req rq form) db = Inr (Fragment reps, db')"
    by (auto simp: ui_post_endpoint_def bindE_eq_Inr split: option.splits if_splits)
  from u obtain tok where t: "cookie rq token_cookie = Some tok" "require_admin (ui_auth U) now tok db = Inr u"
    by (auto simp: current_admin_Some Auth.text_given_def)
  have api: "admin_api (ui_admin U) now rnd (Some (''Bearer'', tok)) call db = admin_endpoint (ui_admin U) now rnd u call db" for call
    using t bearer_scheme [of tok] by (simp add: admin_api_def)
  from run_post_shown [OF run] obtain call rep d where
    c: "up_call (post_of U req rq form) = Inr call" "call_endpoint (ui_admin U) now rnd u call db = Inr (rep, d)" "cache_only d db'" by blast
  show ?thesis
  proof (cases call)
    case (Api r)
    have "req \<noteq> PostSettings PSaveSettings" using c(1) by (auto simp: Api mapR_def bindE_eq_Inr)
    moreover have "stands_for U req form r" using post_stands c(1) Api by simp
    ultimately show ?thesis using t(1) form c(2,3) api by (auto simp: Api)
  next
    case (SaveForm items)
    with c(1) post_form_call have items: "req = PostSettings PSaveSettings" "setting_group_values_from_form (ui_codec U) form = Inr items"
      by blast+
    have "batch_save_config (ad_settings (ui_admin U)) now items db = Inr d" using c(2) by (auto simp: SaveForm finished_def bindE_eq_Inr)
    then show ?thesis using t(1) form c(3) items by (auto simp: api finished_def)
  qed
qed

text \<open>The sample form is empty: nothing but the token.\<close>

theorem ui_action_is_api_call_witness:
  "\<exists>tok rep d d'. cookie ui_click token_cookie = Some tok \<and>
     admin_api sample_admin 11 (wd_admin sample_web_draw) (Some (''Bearer'', tok)) (AOrders (AdminCancel ''T1'')) ui_db = Inr (rep, d) \<and>
     cache_only d d' \<and> map od_status (rows (t_orders d')) = [2]"
proof -
  let ?run = "ui_post_endpoint sample_ui 11 (wd_admin sample_web_draw) ui_click (PostOrders (PCancelOrder ''T1'')) ui_db"
  have "case ?run of Inr (Fragment reps, d) \<Rightarrow> map od_status (rows (t_orders d)) = [2] | _ \<Rightarrow> False" by code_simp
  then obtain reps d' where d': "?run = Inr (Fragment reps, d')" "map od_status (rows (t_orders d')) = [2]"
    by (auto split: sum.splits prod.splits ui_page.splits)
  from ui_action_is_api_call [OF d'(1)] obtain tok form call rep d where c: "cookie ui_click token_cookie = Some tok" "cache_only d d'"
    and call: "stands_for sample_ui (PostOrders (PCancelOrder ''T1'')) form call"
    and api: "admin_api (ui_admin sample_ui) 11 (wd_admin sample_web_draw) (Some (''Bearer'', tok)) call ui_db = Inr (rep, d)" by auto
  from call have "call = AOrders (AdminCancel ''T1'')" by cases
  moreover have "ui_admin sample_ui = sample_admin" by (simp add: sample_ui_def ui_of_def sample_web_def)
  ultimately show ?thesis using c api d'(2) by auto
qed

text \<open>C30: A payment that is marked by hand and fails is half done: the page shows the error, but the order stays at status 1
  (paid, in progress) with the callback \<open>manual_operation\<close>, while the same request to the JSON API changes nothing.\<close>

theorem failed_payment_is_kept:
  assumes "wf_accounts db" and "order_by_trade_no db t = Some r" and "od_status r = 0"
    and "ui_post_endpoint U now rnd rq (PostOrders (PMarkPaid t)) db = Inr (ActionError e, db')"
  shows "\<exists>r' tok. order_by_trade_no db' t = Some r' \<and> od_id r' = od_id r \<and> od_status r' = 1 \<and>
     od_callback_no r' = Some ''manual_operation'' \<and> cookie rq token_cookie = Some tok \<and>
     after_call db (admin_api (ui_admin U) now rnd (Some (''Bearer'', tok)) (AOrders (MarkPaid t)) db) = db"
proof -
  from assms(4) obtain u form where u: "current_admin (ui_auth U) now rq db = Inr (Some u)"
    and run: "run_post U now rnd u (post_of U (PostOrders (PMarkPaid t)) rq form) db = Inr (ActionError e, db')"
    by (auto simp: ui_post_endpoint_def bindE_eq_Inr split: option.splits if_splits)
  from u obtain tok where tok: "cookie rq token_cookie = Some tok" "require_admin (ui_auth U) now tok db = Inr u"
    by (auto simp: current_admin_Some Auth.text_given_def)
  from run have f: "admin_endpoint (ui_admin U) now rnd u (AOrders (MarkPaid t)) db = Inl e"
    and left: "db' = mark_paid_left (ap_orders (ad_api (ui_admin U))) now t db"
    by (auto simp: run_post_def ui_act_def mapR_def absorb_def left_behind_def bindE_eq_Inr split: sum.splits if_splits)
  have "get_bearer_token (Some (''Bearer'', tok)) = Inr tok" by (rule bearer_scheme)
  then have "admin_api (ui_admin U) now rnd (Some (''Bearer'', tok)) (AOrders (MarkPaid t)) db = Inl e"
    using tok f by (simp add: admin_api_def)
  with tok mark_paid_left_status [OF assms(1-3)] left show ?thesis by fastforce
qed

theorem failed_payment_is_kept_witness:
  "\<exists>e db' r'. ui_post_endpoint sample_ui 11 (wd_admin sample_web_draw) ui_click (PostOrders (PMarkPaid ''T1'')) ui_db = Inr (ActionError e, db') \<and>
     order_by_trade_no db' ''T1'' = Some r' \<and> od_status r' = 1"
proof -
  have w: "wf_accounts ui_db" "case order_by_trade_no ui_db ''T1'' of Some r \<Rightarrow> od_status r = 0 | None \<Rightarrow> False"
    "case ui_post_endpoint sample_ui 11 (wd_admin sample_web_draw) ui_click (PostOrders (PMarkPaid ''T1'')) ui_db of
       Inr (ActionError e, d) \<Rightarrow> True | _ \<Rightarrow> False" by code_simp+
  from w(2) obtain r where r: "order_by_trade_no ui_db ''T1'' = Some r" "od_status r = 0" by (auto split: option.splits)
  from w(3) obtain e d where e: "ui_post_endpoint sample_ui 11 (wd_admin sample_web_draw) ui_click (PostOrders (PMarkPaid ''T1'')) ui_db
      = Inr (ActionError e, d)"
    by (auto split: sum.splits prod.splits ui_page.splits)
  from failed_payment_is_kept [OF w(1) r e] e show ?thesis by blast
qed

text \<open>C6: Roles come from the administration only, over the whole site: over any history of requests to the JSON API and to the
  administration pages (their login included), an account that has a role at the end that it had not at the beginning
  got it in a history with a request to the administration, made with the token of an account that was administrator or
  staff, and not banned, at that moment.\<close>

theorem site_roles_are_granted:
  assumes "api_ok db" and "u \<in> set (rows (t_users (fold (serve_site W reader) calls db)))" and "us_is_admin u \<or> us_is_staff u"
    and "\<forall>v\<in>set (rows (t_users db)). role v \<noteq> role u"
  shows "\<exists>(call, d)\<in>set (visited W reader calls db). privileged_site_call W call d \<and>
     (\<exists>v\<in>set (rows (t_users d)). (us_is_admin v \<or> us_is_staff v) \<and> \<not> us_banned v)"
proof (rule ccontr)
  assume "\<not> ?thesis"
  then have "list_all (\<lambda>(call, d). \<not> privileged_site_call W call d) (visited W reader calls db)"
    using privileged_site_caller by (fastforce simp: list_all_iff)
  then have "role_step db (fold (serve_site W reader) calls db)" by (rule unprivileged_visits)
  then have "role u \<in> set (roles db) \<or> snd (role u) = (False, False)" using assms(1,2) by (simp add: role_step_def roles_def)
  then show False using assms(3,4) by (auto simp: roles_def role_def)
qed

definition promotion_visits :: "site_call list" where
  "promotion_visits = [Json (10, sample_web_draw, UserCall (login_of 10 (sample_user\<lparr>us_is_admin := True\<rparr>)) ask_for_help),
     Html 11 (wd_admin sample_web_draw)
       (ui_click\<lparr>uh_body := ''csrf_token=c5&balance=0&transfer_enable=0&expired_at=0&is_staff=on''\<rparr>) (UiPost (PostUsers (PUpdateUser 9)))]"

theorem site_roles_are_granted_witness:
  "\<exists>(call, d)\<in>set (visited sample_web sample_reader promotion_visits ui_db). privileged_site_call sample_web call d"
proof -
  let ?us = "rows (t_users (fold (serve_site sample_web sample_reader) promotion_visits ui_db))"
  have w: "api_ok ui_db" "list_ex (\<lambda>u. role u = (9, False, True)) ?us"
    "list_all (\<lambda>v. role v \<noteq> (9, False, True)) (rows (t_users ui_db))" by code_simp+
  from w(2) obtain u where u: "u \<in> set ?us" "role u = (9, False, True)" by (auto simp: list_ex_iff)
  then have "us_is_admin u \<or> us_is_staff u" "\<forall>v\<in>set (rows (t_users ui_db)). role v \<noteq> role u"
    using w(3) by (simp_all add: role_def list_all_iff)
  from site_roles_are_granted [OF w(1) u(1) this] show ?thesis by blast
qed

end
