(* ===== verification/Spec2Isabelle.thy ===== *)
theory Spec2Isabelle
  imports OrderMoney Giftcards Plans Tickets Auth AdminTools Telegram Content Privileges AdminUiFacts
begin

text \<open>
  PyBoard is the backend of a subscription panel: users buy plans, pay through a gateway, subscribe with a client and
  send traffic through nodes; administrators maintain plans, nodes, coupons, tickets and settings. It is a FastAPI
  application (\<open>src/main.py\<close>, \<open>src/app\<close>) over one PostgreSQL database, with a worker that takes jobs from a queue in the
  same database. This development models its services, jobs and endpoints and proves what they promise.

  \<^bold>\<open>How the program is modelled\<close>

  \<^item> The database is the record \<open>db\<close> (Store): one table per entity, each the list of its rows in insertion order with
    the next value of its key sequence. A row is a record with the columns of \<open>app/models/*/base.py\<close> and \<open>entity.py\<close>.
    The runtime cache is the table \<open>t_cache\<close>.
  \<^item> An operation that can raise returns \<open>exn + ...\<close>: \<open>Inl\<close> is the exception, with the classes of
    \<open>app/core/exceptions.py\<close> and those of Python that the code can meet, \<open>Inr\<close> the result and the new database. An
    exception drops the database, as \<open>get_db\<close> rolls the session back; code that catches one (the worker, the payment
    notification, the mail service, the actions of the administration pages) is modelled with the database it goes on
    with.
  \<^item> An operation reads the clock once (\<open>now\<close>). Random texts, uuids and salts are arguments. Requests and jobs run one
    after the other: the code serialises the conflicting ones by \<open>SELECT ... FOR UPDATE\<close>, which reads the same row.
  \<^item> The time zone of the server is a parameter, the offset from UTC at every instant (\<open>time_zone\<close>), so that clocks may
    change; \<open>local_seconds\<close> and \<open>from_local\<close> are the conversions of Python's \<open>datetime\<close>.
  \<^item> Integers are Python's (\<open>int\<close>); floats are the doubles of Doubles, with rounding, infinities and NaN; texts are byte
    strings; JSON is the datatype \<open>json\<close>. A DTO with \<open>exclude_unset\<close> keeps the difference between an absent field, a null
    and a value (\<open>option option\<close>, or the dictionary itself). A column that cannot be null raises \<open>IntegrityError\<close>.
  \<^item> Code that is not in the repository is a parameter: \<open>orjson\<close> (the record \<open>codec\<close>), argon2, bcrypt and the digests
    (\<open>passwords\<close>, MD5, SHA-1, HMAC), JWT (\<open>au_encode\<close>, \<open>au_decode\<close>), Turnstile, the Bot API, SMTP, Jinja and its
    templates, the key generators of nodes. Named hypotheses of single theorems say what is used of them: \<open>argon2\<close> (a
    hash verifies exactly the password it was made of), \<open>signed_tokens\<close> (only what was encoded decodes).

  \<^bold>\<open>Theories\<close>

  \<^item> Foundations: Prelude (results, folds that can fail, the collections \<open>result_simps\<close> and \<open>frame\<close>), PyStr, Doubles,
    Calendar, Base64 and Formats (the parts of Python's library in use), Entities (rows, exceptions, JSON), Repository
    (\<open>app/repositories/base.py\<close>), Store (the other repositories), Samples (rows for the witnesses).
  \<^item> RuntimeCache (\<open>core/cache.py\<close>) and Settings (\<open>services/setting.py\<close>, \<open>setting_defaults.py\<close>): the cache in front of the
    settings never disagrees with the table.
  \<^item> Coupons, Giftcards, Plans, Commission (\<open>services/coupon.py\<close>, \<open>giftcard.py\<close>, \<open>plan.py\<close>, \<open>commission.py\<close>): discounts
    to the cent, limited uses, references that stay, the commission ledger.
  \<^item> Epay and Payments (\<open>app/payments\<close>, \<open>services/payment.py\<close>): soundness and completeness of signed notifications,
    whose parameters are the members of a JSON object, of any type.
  \<^item> Orders (\<open>services/order.py\<close>) with OrderFacts (the shape of every outcome), OrderLifecycle (the abstract life cycle
    \<open>life_step\<close> over the rows, and the refinement: every sequence of requests is a run of it) and OrderMoney (prices,
    balances, capacity, length of a subscription, genuine notifications).
  \<^item> Tickets (\<open>services/ticket.py\<close>), Users and Auth (\<open>services/user.py\<close>, \<open>auth.py\<close>, \<open>turnstile.py\<close>, \<open>utils/password.py\<close>,
    the guards of \<open>core/deps.py\<close>): unique accounts, passwords and tokens, single-use codes.
  \<^item> Traffic (\<open>queues/jobs/traffic.py\<close>, \<open>pg_cache.py\<close>), Stats (\<open>services/stat.py\<close>, \<open>queues/jobs/stat.py\<close>), LogEvents, Mail.
  \<^item> Queue (\<open>core/queue.py\<close>, \<open>queues/worker.py\<close>, \<open>failure_handler.py\<close>), Jobs (the registry and the periodic jobs) and
    AdminTools (\<open>services/admin_tools.py\<close>, \<open>system.py\<close>): histories of the queue, and a worker that stops.
  \<^item> Servers, ServerAdmin, ServerFacts, ServerApi (\<open>services/server.py\<close>, \<open>server_admin.py\<close>, \<open>controllers/server.py\<close>): the
    nodes, their administration, what their columns hold, and the token that opens the node API.
  \<^item> Subscribe and SubscribeFacts (\<open>services/subscribe.py\<close>): links, tokens, formats; a node that a user sees sees the user.
  \<^item> Telegram (\<open>services/telegram.py\<close>) and Content (\<open>services/notice.py\<close>, \<open>knowledge.py\<close>).
  \<^item> UserApi, PublicApi, AdminApi (\<open>app/controllers\<close>): one datatype of requests and one function per controller, behind
    the guards of its routes (the two session routes of \<open>account.py\<close> have none and are in PublicApi); UserIsolation: a
    user is alone with the own data; Privileges: the JSON API as one step function, and who can become administrator
    through it.
  \<^item> RequestLog (\<open>core/request_logging.py\<close>): the middleware that logs the requests, and that the value of a query
    parameter which must not be shown does not reach the columns of the event that the middleware fills.
  \<^item> AdminForms (\<open>admin_ui/deps.py\<close>, \<open>forms.py\<close>), AdminUi (the other modules of \<open>admin_ui\<close>) and AdminUiFacts: the HTML
    administration. A page is the list of the answers it shows (\<open>ui_view\<close>), an action the request it makes of its form,
    the exceptions it catches and the table it shows (\<open>ui_post\<close>). An exception that an action catches does not roll
    back: \<open>left_behind\<close> is what the failing service had written. The properties: nothing changes without an
    administrator and the CSRF token, a successful action is the call of the JSON API that it stands for
    (\<open>stands_for\<close>; the settings form alone goes past the API), a failed one may not be, and over
    the whole site (\<open>serve_site\<close>) roles come from the administration only.

  \<^bold>\<open>Interfaces\<close>

  \<^item> \<open>repository\<close> states what the descriptor of an entity has to satisfy and proves the laws of create, read, update and
    delete; it is interpreted for every table (\<open>users\<close>, \<open>orders\<close>, ...), and the components use these facts only.
  \<^item> \<open>kv_cache\<close> states the laws between a write, a deletion and a later read of a cache; \<open>rc\<close> interprets it on the
    operations of RuntimeCache, and the coherence of the settings rests on it.
  \<^item> \<open>job_runner\<close> states what the worker needs of the jobs it performs; \<open>worker\<close> interprets it on the registry of the
    program, and the termination and the invariant of the worker are proved inside it.

  \<^bold>\<open>Loops and bounds\<close>

  Loops over rows and lists are structural. The worker with \<open>--once\<close> is \<open>run_worker\<close> with fuel, one unit per round, and
  \<open>None\<close> when the fuel runs out: \<open>once_worker_stops\<close> shows that any fuel above the tries that are left of the jobs in the
  queue gives a result. The attempts to draw a free code (100 in the code) are the list of drawn texts.

  \<^bold>\<open>Not modelled, and why\<close>

  \<^item> The HTML of the administration pages: the templates, the filters that format times for them, the headers for htmx
    and the choice of the open settings tab. Reading an ISO time from a form is the parameter \<open>ui_reader\<close>.
  \<^item> \<open>core/database.py\<close>, \<open>core/runtime.py\<close>, \<open>core/config.py\<close> (but for the names of settings), \<open>core/error_handlers.py\<close>,
    \<open>response_utils.py\<close>, \<open>schemas\<close>: connections, the event loop, environment variables and envelopes of responses.
  \<^item> \<open>alembic\<close> and the inserts of \<open>app/migrations\<close>: the schema, which the rows of Entities follow, and the first
    administrator.
  \<^item> The SMTP and HTTP calls themselves, the templates, the frontend.
\<close>

end
